(* ===== verification/Prelude.thy ===== *)
theory Prelude
  imports Main "HOL-Library.Word"
begin

text \<open>
  Shared vocabulary of the development.

  \<^item> Machine integers of the contracts (\<open>u8\<close>, \<open>u32\<close>, \<open>u64\<close>) are words of that width, with
    Rust's saturating operations written out.
  \<^item> A contract entrypoint returns a value of \<open>result\<close>: \<open>Inl (Err e)\<close> for a returned
    contract error, \<open>Inl Trap\<close> for a panic of the host or of the code (a refused
    \<open>require_auth\<close>, a failing cross-contract call, a slice out of range), \<open>Inr\<close> for success with the
    new state. The failing cases carry no state: the Soroban host rolls the storage of an
    invocation back when it returns an error or traps, so the caller keeps the state it had.
  \<^item> \<open>env\<close> is what a contract sees of the host besides its own storage.
  \<^item> The named collections \<open>outcome_splits\<close> and \<open>index_simps\<close> and the locale \<open>owner_index\<close> are
    used by the components.
\<close>

section \<open>Machine integers\<close>

type_synonym u8 = "8 word"
type_synonym u32 = "32 word"
type_synonym u64 = "64 word"

definition sat_add :: "'a::len word \<Rightarrow> 'a word \<Rightarrow> 'a word" where
  "sat_add a b = (if unat a + unat b < 2 ^ LENGTH('a) then a + b else - 1)"

definition sat_mul :: "'a::len word \<Rightarrow> 'a word \<Rightarrow> 'a word" where
  "sat_mul a b = (if unat a * unat b < 2 ^ LENGTH('a) then a * b else - 1)"

definition sat_sub :: "'a::len word \<Rightarrow> 'a word \<Rightarrow> 'a word" where
  "sat_sub a b = (if b \<le> a then a - b else 0)"

lemma unat_max_word: "unat (- 1 :: 'a::len word) = 2 ^ LENGTH('a) - 1"
  by (simp add: unsigned_minus_1_eq_mask mask_eq_exp_minus_1)

lemma unat_sat_add: "unat (sat_add a b) = min (unat a + unat b) (2 ^ LENGTH('a) - 1)"
  for a b :: "'a::len word"
  by (auto simp: sat_add_def unat_max_word unat_word_ariths)

lemma unat_sat_mul: "unat (sat_mul a b) = min (unat a * unat b) (2 ^ LENGTH('a) - 1)"
  for a b :: "'a::len word"
  by (auto simp: sat_mul_def unat_max_word unat_word_ariths)

lemma unat_sat_sub: "unat (sat_sub a b) = unat a - unat b"
  for a b :: "'a::len word"
  by (auto simp: sat_sub_def unat_sub word_le_nat_alt)

lemma word_unat_bound: "unat (a :: 'a::len word) \<le> 2 ^ LENGTH('a) - 1"
  using unsigned_less [of a] by (metis less_eq_Suc_le Suc_diff_1 Suc_le_mono zero_less_numeral zero_less_power)

lemma sat_add_ge_left [simp]: "a \<le> sat_add a b"
  using word_unat_bound [of a] by (simp add: word_le_nat_alt unat_sat_add)

lemma sat_add_mono: "a \<le> c \<Longrightarrow> sat_add a b \<le> sat_add c b"
  unfolding word_le_nat_alt unat_sat_add by linarith

lemma sat_add_mono2: "b \<le> c \<Longrightarrow> sat_add a b \<le> sat_add a c"
  unfolding word_le_nat_alt unat_sat_add by linarith

section \<open>Addresses, failures, the environment\<close>

text \<open>An address, identified by its strkey text (\<open>Address::to_string\<close>).\<close>

datatype address = Address (strkey: string)

datatype 'e failure = Err 'e | Trap

type_synonym ('e, 'a) result = "'e failure + 'a"

text \<open>
  \<open>env_authorized a\<close>: the transaction carries an authorization of \<open>a\<close> that covers the calls
  of this invocation. \<open>env_invoker\<close> is the contract that made this call, if one did (the host
  accepts \<open>require_auth\<close> of the direct invoker without a signature), \<open>env_self\<close> the contract that runs,
  \<open>env_timestamp\<close> the ledger time. \<open>env_strkey_ok\<close> and \<open>env_wasm_ok\<close> stand for two checks of the
  host that are not in this repository: whether \<open>Address::from_string\<close> accepts a text, and whether
  a Wasm hash is installed.
\<close>

record env =
  env_authorized :: "address \<Rightarrow> bool"
  env_invoker :: "address option"
  env_self :: address
  env_timestamp :: u64
  env_strkey_ok :: "string \<Rightarrow> bool"
  env_wasm_ok :: "u8 list \<Rightarrow> bool"

definition require_auth :: "env \<Rightarrow> address \<Rightarrow> bool" where
  "require_auth e a \<longleftrightarrow> env_authorized e a \<or> env_invoker e = Some a"

text \<open>The environment of a callee.\<close>

definition callee_env :: "env \<Rightarrow> address \<Rightarrow> env" where
  "callee_env e callee = e\<lparr>env_invoker := Some (env_self e), env_self := callee\<rparr>"

lemma callee_env_simps [simp]:
  "env_self (callee_env e a) = a"
  "env_timestamp (callee_env e a) = env_timestamp e"
  "env_authorized (callee_env e a) = env_authorized e"
  "env_invoker (callee_env e a) = Some (env_self e)"
  "env_strkey_ok (callee_env e a) = env_strkey_ok e"
  by (simp_all add: callee_env_def)

lemma require_auth_callee [simp]:
  "require_auth (callee_env e c) a \<longleftrightarrow> env_authorized e a \<or> a = env_self e"
  by (auto simp: require_auth_def)

named_theorems outcome_splits \<open>splits of the branches of an entrypoint\<close>
declare if_split_asm [outcome_splits] option.split_asm [outcome_splits] sum.split_asm [outcome_splits]

text \<open>A call succeeds after another one iff both do.\<close>

lemma bind_Inr_iff:
  "(case r of Inl err \<Rightarrow> Inl (g err) | Inr x \<Rightarrow> f x) = Inr y \<longleftrightarrow> (\<exists>x. r = Inr x \<and> f x = Inr y)"
  by (auto split: sum.splits)

lemma guard_Inr_iff: "(if P then Inl err else r) = Inr y \<longleftrightarrow> \<not> P \<and> r = Inr y"
  by simp

section \<open>Owner indexes\<close>

text \<open>
  Several contracts keep, beside their records, a list of keys per owner. \<open>index_consistent own lookup\<close>
  says the lists are exactly the records, seen from the owner: no name is listed twice, and a
  name is listed under an owner iff the record of that name says so.
\<close>

definition index_consistent :: "('n \<Rightarrow> 'o option) \<Rightarrow> ('o \<Rightarrow> 'n list) \<Rightarrow> bool" where
  "index_consistent own names \<longleftrightarrow>
     (\<forall>a. distinct (names a) \<and> (\<forall>n. n \<in> set (names a) \<longleftrightarrow> own n = Some a))"

lemma index_consistentD:
  assumes "index_consistent own names"
  shows "distinct (names a)" and "n \<in> set (names a) \<longleftrightarrow> own n = Some a"
  using assms by (auto simp: index_consistent_def)

lemma index_consistent_empty: "index_consistent (\<lambda>_. None) (\<lambda>_. [])"
  by (simp add: index_consistent_def)

named_theorems index_simps \<open>how an index operation changes the listed names\<close>

text \<open>
  The interface of an owner index: \<open>names i a\<close> lists what is recorded under \<open>a\<close>, \<open>add i a n\<close> records
  \<open>n\<close> under \<open>a\<close>, \<open>del i a n\<close> takes it out again. The laws ask for nothing about the order, and
  ask for deletion only on a list without repetitions, so that both ways the contracts delete
  (filtering the whole list, or removing the first occurrence) satisfy them.
\<close>

locale owner_index =
  fixes names :: "'i \<Rightarrow> 'o \<Rightarrow> 'n list"
    and add :: "'i \<Rightarrow> 'o \<Rightarrow> 'n \<Rightarrow> 'i"
    and del :: "'i \<Rightarrow> 'o \<Rightarrow> 'n \<Rightarrow> 'i"
  assumes set_add: "set (names (add i a n) a) = insert n (set (names i a))"
    and distinct_add: "distinct (names i a) \<Longrightarrow> distinct (names (add i a n) a)"
    and add_other: "b \<noteq> a \<Longrightarrow> names (add i a n) b = names i b"
    and set_del: "distinct (names i a) \<Longrightarrow> set (names (del i a n) a) = set (names i a) - {n}"
    and distinct_del: "distinct (names i a) \<Longrightarrow> distinct (names (del i a n) a)"
    and del_other: "b \<noteq> a \<Longrightarrow> names (del i a n) b = names i b"
begin

text \<open>A new record: \<open>n\<close> had no owner and gets \<open>a\<close>.\<close>

lemma consistent_insert:
  assumes "index_consistent own (names i)" and "own n = None"
  shows "index_consistent (own(n := Some a)) (names (add i a n))"
  unfolding index_consistent_def
proof (intro allI conjI)
  fix b
  show "distinct (names (add i a n) b)"
    using index_consistentD(1) [OF assms(1)] distinct_add add_other by (cases "b = a") auto
next
  fix b m
  show "m \<in> set (names (add i a n) b) \<longleftrightarrow> (own(n := Some a)) m = Some b"
    using index_consistentD(2) [OF assms(1)] assms(2) set_add add_other
    by (cases "b = a") auto
qed

text \<open>A deleted record: \<open>n\<close> was owned by \<open>a\<close> and is gone.\<close>

lemma consistent_delete:
  assumes "index_consistent own (names i)" and "own n = Some a"
  shows "index_consistent (own(n := None)) (names (del i a n))"
  unfolding index_consistent_def
proof (intro allI conjI)
  fix b
  show "distinct (names (del i a n) b)"
    using index_consistentD(1) [OF assms(1)] distinct_del del_other by (cases "b = a") auto
next
  fix b m
  show "m \<in> set (names (del i a n) b) \<longleftrightarrow> (own(n := None)) m = Some b"
    using index_consistentD [OF assms(1)] assms(2) set_del del_other
    by (cases "b = a") auto
qed

text \<open>A change of owner, as the contracts do it: delete under the old owner, add under the new.\<close>

lemma consistent_move:
  assumes "index_consistent own (names i)" and "own n = Some a"
  shows "index_consistent (own(n := Some b)) (names (add (del i a n) b n))"
  using consistent_insert [OF consistent_delete [OF assms], of n b] by simp

lemma consistent_same:
  assumes "index_consistent own (names i)" and "own n = Some a"
  shows "index_consistent (own(n := Some a)) (names i)"
  using assms by (simp add: fun_upd_idem)

end

section \<open>Lists\<close>

text \<open>\<open>push_unique\<close> is "push back unless contained", \<open>remove_all\<close> the copy loop that drops a value.\<close>

definition push_unique :: "'a list \<Rightarrow> 'a \<Rightarrow> 'a list" where
  "push_unique xs x = (if x \<in> set xs then xs else xs @ [x])"

fun remove_all :: "'a \<Rightarrow> 'a list \<Rightarrow> 'a list" where
  "remove_all x [] = []"
| "remove_all x (y # ys) = (if y \<noteq> x then y # remove_all x ys else remove_all x ys)"

lemma remove_all_filter [simp]: "remove_all x ys = filter (\<lambda>y. y \<noteq> x) ys"
  by (induction ys) auto

lemma set_push_unique [simp]: "set (push_unique xs x) = insert x (set xs)"
  by (auto simp: push_unique_def)

lemma distinct_push_unique [simp]: "distinct (push_unique xs x) \<longleftrightarrow> distinct xs"
  by (auto simp: push_unique_def)

lemma filter_neq_set: "set (filter (\<lambda>y. y \<noteq> x) ys) = set ys - {x}"
  by auto

lemma remove1_set: "distinct ys \<Longrightarrow> set (remove1 x ys) = set ys - {x}"
  by simp

definition vec_or_empty :: "'a list option \<Rightarrow> 'a list" where
  "vec_or_empty v = (case v of None \<Rightarrow> [] | Some xs \<Rightarrow> xs)"

lemma vec_or_empty_simps [simp]: "vec_or_empty None = []" "vec_or_empty (Some xs) = xs"
  by (simp_all add: vec_or_empty_def)

text \<open>\<open>Vec::get(i)\<close> and \<open>Vec::len()\<close> of the host: indexes and lengths are \<open>u32\<close>.\<close>

definition vec_get :: "'a list \<Rightarrow> u32 \<Rightarrow> 'a option" where
  "vec_get xs i = (if unat i < length xs then Some (xs ! unat i) else None)"

definition vec_len :: "'a list \<Rightarrow> u32" where
  "vec_len xs = of_nat (length xs)"

lemma unat_vec_len: "length xs < 2 ^ 32 \<Longrightarrow> unat (vec_len xs) = length xs"
  by (simp add: vec_len_def unsigned_of_nat take_bit_eq_mod)

section \<open>Text\<close>

text \<open>\<open>core::str::from_utf8\<close> on the bytes of a string: the well-formed byte sequences of Unicode.\<close>

fun valid_utf8 :: "string \<Rightarrow> bool" where
  "valid_utf8 [] = True"
| "valid_utf8 (b # bs) =
     (let n = (of_char b :: nat); cont = (\<lambda>c. 128 \<le> (of_char c :: nat) \<and> (of_char c :: nat) \<le> 191) in
      if n < 128 then valid_utf8 bs
      else if 194 \<le> n \<and> n \<le> 223 then
        (case bs of c1 # r \<Rightarrow> cont c1 \<and> valid_utf8 r | _ \<Rightarrow> False)
      else if 224 \<le> n \<and> n \<le> 239 then
        (case bs of
           c1 # c2 # r \<Rightarrow> cont c1 \<and> cont c2 \<and> (n = 224 \<longrightarrow> 160 \<le> (of_char c1 :: nat))
             \<and> (n = 237 \<longrightarrow> (of_char c1 :: nat) \<le> 159) \<and> valid_utf8 r
         | _ \<Rightarrow> False)
      else if 240 \<le> n \<and> n \<le> 244 then
        (case bs of
           c1 # c2 # c3 # r \<Rightarrow> cont c1 \<and> cont c2 \<and> cont c3 \<and> (n = 240 \<longrightarrow> 144 \<le> (of_char c1 :: nat))
             \<and> (n = 244 \<longrightarrow> (of_char c1 :: nat) \<le> 143) \<and> valid_utf8 r
         | _ \<Rightarrow> False)
      else False)"

lemma ascii_valid_utf8: "\<forall>b \<in> set bs. (of_char b :: nat) < 128 \<Longrightarrow> valid_utf8 bs"
  by (induction bs) auto

text \<open>
  \<open>s.trim().is_empty()\<close>: a text made of white space only, in UTF-8 (the code points with the Unicode
  property \<open>White_Space\<close>).
\<close>

fun is_blank :: "string \<Rightarrow> bool" where
  "is_blank [] = True"
| "is_blank (b # bs) =
     (let n = (of_char b :: nat) in
      if (9 \<le> n \<and> n \<le> 13) \<or> n = 32 then is_blank bs
      else if n = 194 then
        (case bs of c1 # r \<Rightarrow> (of_char c1 :: nat) \<in> {133, 160} \<and> is_blank r | _ \<Rightarrow> False)
      else if n = 225 then
        (case bs of c1 # c2 # r \<Rightarrow> (of_char c1 :: nat) = 154 \<and> (of_char c2 :: nat) = 128 \<and> is_blank r | _ \<Rightarrow> False)
      else if n = 226 then
        (case bs of
           c1 # c2 # r \<Rightarrow>
             (((of_char c1 :: nat) = 128
                \<and> ((of_char c2 :: nat) \<le> 138 \<and> 128 \<le> (of_char c2 :: nat) \<or> (of_char c2 :: nat) \<in> {168, 169, 175}))
              \<or> ((of_char c1 :: nat) = 129 \<and> (of_char c2 :: nat) = 159)) \<and> is_blank r
         | _ \<Rightarrow> False)
      else if n = 227 then
        (case bs of c1 # c2 # r \<Rightarrow> (of_char c1 :: nat) = 128 \<and> (of_char c2 :: nat) = 128 \<and> is_blank r | _ \<Rightarrow> False)
      else False)"

end
