(* ===== verification/Common_Time.thy ===== *)
theory Common_Time
  imports Prelude
begin

text \<open>
  The constants and the time arithmetic of \<open>packages/xlm-ns-common\<close> (\<open>constants.rs\<close>, \<open>time.rs\<close>),
  and the three-way lifecycle they define. All arithmetic saturates at the largest \<open>u64\<close>.
\<close>

section \<open>Constants (constants.rs)\<close>

definition MAX_NAME_LENGTH :: nat where "MAX_NAME_LENGTH = 64"
definition MIN_NAME_LENGTH :: nat where "MIN_NAME_LENGTH = 3"
definition DEFAULT_TTL_SECONDS :: u64 where "DEFAULT_TTL_SECONDS = 31536000"
definition GRACE_PERIOD_SECONDS :: u64 where "GRACE_PERIOD_SECONDS = 2592000"
definition MIN_REGISTRATION_YEARS :: u64 where "MIN_REGISTRATION_YEARS = 1"
definition MAX_REGISTRATION_YEARS :: u64 where "MAX_REGISTRATION_YEARS = 10"
definition YEAR_SECONDS :: u64 where "YEAR_SECONDS = 31536000"
definition MAX_TEXT_RECORDS :: nat where "MAX_TEXT_RECORDS = 16"
definition MAX_TEXT_RECORD_VALUE_LENGTH :: nat where "MAX_TEXT_RECORD_VALUE_LENGTH = 256"
definition MAX_METADATA_URI_LENGTH :: nat where "MAX_METADATA_URI_LENGTH = 256"
definition MAX_CHAIN_NAME_LENGTH :: nat where "MAX_CHAIN_NAME_LENGTH = 32"

lemmas length_constants = MAX_NAME_LENGTH_def MIN_NAME_LENGTH_def
  MAX_TEXT_RECORDS_def MAX_TEXT_RECORD_VALUE_LENGTH_def MAX_METADATA_URI_LENGTH_def
  MAX_CHAIN_NAME_LENGTH_def

section \<open>Time arithmetic (time.rs)\<close>

definition expiry_from_now :: "u64 \<Rightarrow> u64 \<Rightarrow> u64" where
  "expiry_from_now now_unix years = sat_add now_unix (sat_mul YEAR_SECONDS years)"

definition grace_period_ends_at_with_duration :: "u64 \<Rightarrow> u64 \<Rightarrow> u64" where
  "grace_period_ends_at_with_duration expiry_unix grace_period_seconds =
     sat_add expiry_unix grace_period_seconds"

definition grace_period_ends_at :: "u64 \<Rightarrow> u64" where
  "grace_period_ends_at expiry_unix =
     grace_period_ends_at_with_duration expiry_unix GRACE_PERIOD_SECONDS"

definition is_active_at :: "u64 \<Rightarrow> u64 \<Rightarrow> bool" where
  "is_active_at expires_at now_unix \<longleftrightarrow> now_unix \<le> expires_at"

definition within_grace_period :: "u64 \<Rightarrow> u64 \<Rightarrow> bool" where
  "within_grace_period expiry_unix now_unix \<longleftrightarrow>
     now_unix > expiry_unix \<and> now_unix \<le> grace_period_ends_at expiry_unix"

definition is_claimable_at :: "u64 \<Rightarrow> u64 \<Rightarrow> bool" where
  "is_claimable_at grace_end now_unix \<longleftrightarrow> now_unix > grace_end"

definition is_time_window_open :: "u64 \<Rightarrow> u64 \<Rightarrow> u64 \<Rightarrow> bool" where
  "is_time_window_open now_unix starts_at ends_at \<longleftrightarrow> now_unix \<ge> starts_at \<and> now_unix \<le> ends_at"

section \<open>Lemmas\<close>

lemma expiry_from_now_ge: "now_unix \<le> expiry_from_now now_unix years"
  by (simp add: expiry_from_now_def)

lemma unat_expiry_from_now:
  "unat (expiry_from_now n y) = min (unat n + min (31536000 * unat y) (2 ^ 64 - 1)) (2 ^ 64 - 1)"
  unfolding expiry_from_now_def unat_sat_add unat_sat_mul YEAR_SECONDS_def by simp

lemma grace_ge_expiry: "x \<le> grace_period_ends_at_with_duration x d"
  by (simp add: grace_period_ends_at_with_duration_def)

lemma claimable_not_active: "x \<le> g \<Longrightarrow> is_claimable_at g t \<Longrightarrow> \<not> is_active_at x t"
  by (auto simp: is_active_at_def is_claimable_at_def)

lemma lifecycle_partition:
  assumes "x \<le> g"
  shows "is_active_at x t \<or> (x < t \<and> t \<le> g) \<or> is_claimable_at g t"
    and "\<not> (is_active_at x t \<and> x < t)"
    and "\<not> (t \<le> g \<and> is_claimable_at g t)"
  using assms by (auto simp: is_active_at_def is_claimable_at_def)

text \<open>
  The grace period of \<open>time.rs\<close> sits strictly between active and claimable: with the default
  grace period the three predicates partition time.
\<close>

lemma default_lifecycle_partition:
  "is_active_at x t \<longleftrightarrow> \<not> within_grace_period x t \<and> \<not> is_claimable_at (grace_period_ends_at x) t"
proof -
  have "x \<le> grace_period_ends_at x"
    by (simp add: grace_period_ends_at_def grace_ge_expiry)
  then show ?thesis
    by (auto simp: is_active_at_def within_grace_period_def is_claimable_at_def)
qed

end
