(* ===== verification/Common_Names.thy ===== *)
theory Common_Names
  imports Common_Time
begin

text \<open>
  Name validation: the byte-level validators the contracts call (\<open>soroban.rs\<close>) and the string
  validators of clients (\<open>validation.rs\<close>). A text is its list of bytes: the validators accept ASCII only, and a
  non-ASCII character is made of bytes that no test for an ASCII character accepts.
\<close>

section \<open>Errors (errors.rs)\<close>

datatype common_error =
    NameTooShort | NameTooLong | InvalidCharacters | InvalidLabelBoundary | UnsupportedTld
  | MissingTld | InvalidName | EmptyOwner | InvalidRegistrationPeriod | EmptyChainName
  | EmptyContractId | InvalidContractId | EmptyAccountAddress | InvalidAccountAddress

section \<open>Bytes\<close>

definition byte_in :: "char \<Rightarrow> char \<Rightarrow> char \<Rightarrow> bool" where
  "byte_in lo hi b \<longleftrightarrow> (of_char lo :: nat) \<le> of_char b \<and> (of_char b :: nat) \<le> of_char hi"

definition is_ascii_lowercase :: "char \<Rightarrow> bool" where
  "is_ascii_lowercase b = byte_in CHR ''a'' CHR ''z'' b"

definition is_ascii_digit :: "char \<Rightarrow> bool" where
  "is_ascii_digit b = byte_in CHR ''0'' CHR ''9'' b"

definition is_ascii_uppercase :: "char \<Rightarrow> bool" where
  "is_ascii_uppercase b = byte_in CHR ''A'' CHR ''Z'' b"

definition is_ascii_alphanumeric :: "char \<Rightarrow> bool" where
  "is_ascii_alphanumeric b \<longleftrightarrow> is_ascii_lowercase b \<or> is_ascii_uppercase b \<or> is_ascii_digit b"

definition label_byte :: "char \<Rightarrow> bool" where
  "label_byte b \<longleftrightarrow> is_ascii_lowercase b \<or> is_ascii_digit b \<or> b = CHR ''-''"

text \<open>\<open>slice::split\<close>: the pieces between the separators; always at least one.\<close>

fun split_on :: "char \<Rightarrow> string \<Rightarrow> string list" where
  "split_on c [] = [[]]"
| "split_on c (x # xs) =
     (if x = c then [] # split_on c xs
      else (case split_on c xs of [] \<Rightarrow> [[x]] | p # ps \<Rightarrow> (x # p) # ps))"

text \<open>\<open>Iterator::position\<close> and \<open>rposition\<close> for a byte.\<close>

fun position :: "char \<Rightarrow> string \<Rightarrow> nat option" where
  "position c [] = None"
| "position c (x # xs) = (if x = c then Some 0 else map_option Suc (position c xs))"

definition rposition :: "char \<Rightarrow> string \<Rightarrow> nat option" where
  "rposition c xs = map_option (\<lambda>i. length xs - 1 - i) (position c (rev xs))"

section \<open>soroban.rs\<close>

definition XLM_SUFFIX_LEN :: nat where "XLM_SUFFIX_LEN = 4"
definition MAX_FQDN_LENGTH :: nat where "MAX_FQDN_LENGTH = MAX_NAME_LENGTH + XLM_SUFFIX_LEN"

definition copy_bytes :: "nat \<Rightarrow> string \<Rightarrow> common_error + string" where
  "copy_bytes n value = (if length value > n then Inl NameTooLong else Inr value)"

definition validate_label_bytes :: "string \<Rightarrow> common_error + unit" where
  "validate_label_bytes bytes =
     (if length bytes < MIN_NAME_LENGTH then Inl NameTooShort
      else if length bytes > MAX_NAME_LENGTH then Inl NameTooLong
      else if hd bytes = CHR ''-'' \<or> last bytes = CHR ''-'' then Inl InvalidLabelBoundary
      else if \<not> list_all label_byte bytes then Inl InvalidCharacters
      else Inr ())"

definition validate_label_soroban :: "string \<Rightarrow> common_error + unit" where
  "validate_label_soroban label =
     (case copy_bytes MAX_NAME_LENGTH label of
        Inl err \<Rightarrow> Inl err
      | Inr bytes \<Rightarrow> validate_label_bytes bytes)"

definition validate_registration_years_soroban :: "u64 \<Rightarrow> common_error + unit" where
  "validate_registration_years_soroban years =
     (if \<not> (MIN_REGISTRATION_YEARS \<le> years \<and> years \<le> MAX_REGISTRATION_YEARS)
      then Inl InvalidRegistrationPeriod else Inr ())"

definition validate_chain_name_soroban :: "string \<Rightarrow> common_error + unit" where
  "validate_chain_name_soroban chain =
     (if length chain = 0 then Inl EmptyChainName
      else if length chain > MAX_CHAIN_NAME_LENGTH then Inl NameTooLong
      else Inr ())"

definition validate_base_name_soroban :: "string \<Rightarrow> common_error + unit" where
  "validate_base_name_soroban name =
     (case copy_bytes MAX_FQDN_LENGTH name of Inl err \<Rightarrow> Inl err | Inr bytes \<Rightarrow>
      (case position CHR ''.'' bytes of None \<Rightarrow> Inl MissingTld | Some dot_index \<Rightarrow>
       (if CHR ''.'' \<in> set (drop (dot_index + 1) bytes) then Inl InvalidName
        else (case validate_label_bytes (take dot_index bytes) of Inl err \<Rightarrow> Inl err | Inr _ \<Rightarrow>
              (if drop (dot_index + 1) bytes \<noteq> ''xlm'' then Inl UnsupportedTld else Inr ())))))"

fun validate_labels :: "string list \<Rightarrow> common_error + unit" where
  "validate_labels [] = Inr ()"
| "validate_labels (l # ls) =
     (case validate_label_bytes l of Inl err \<Rightarrow> Inl err | Inr _ \<Rightarrow> validate_labels ls)"

definition validate_fqdn_soroban :: "string \<Rightarrow> common_error + unit" where
  "validate_fqdn_soroban name =
     (case copy_bytes MAX_FQDN_LENGTH name of Inl err \<Rightarrow> Inl err | Inr bytes \<Rightarrow>
      (case rposition CHR ''.'' bytes of None \<Rightarrow> Inl MissingTld | Some dot_index \<Rightarrow>
       (if drop (dot_index + 1) bytes \<noteq> ''xlm'' then Inl UnsupportedTld
        else validate_labels (split_on CHR ''.'' (take dot_index bytes)))))"

definition extract_label_soroban :: "string \<Rightarrow> common_error + string" where
  "extract_label_soroban name =
     (case copy_bytes MAX_FQDN_LENGTH name of Inl err \<Rightarrow> Inl err | Inr bytes \<Rightarrow>
      (case position CHR ''.'' bytes of None \<Rightarrow> Inl MissingTld | Some dot_index \<Rightarrow>
       (case validate_fqdn_soroban name of Inl err \<Rightarrow> Inl err | Inr _ \<Rightarrow>
          Inr (take dot_index bytes))))"

definition build_xlm_name :: "string \<Rightarrow> common_error + string" where
  "build_xlm_name label =
     (case copy_bytes MAX_NAME_LENGTH label of Inl err \<Rightarrow> Inl err | Inr bytes \<Rightarrow>
      (case validate_label_bytes bytes of Inl err \<Rightarrow> Inl err | Inr _ \<Rightarrow>
         Inr (bytes @ ''.'' @ ''xlm'')))"

definition build_subdomain_name :: "string \<Rightarrow> string \<Rightarrow> common_error + string" where
  "build_subdomain_name label parent =
     (case copy_bytes MAX_NAME_LENGTH label of Inl err \<Rightarrow> Inl err | Inr label_bytes \<Rightarrow>
      (case validate_label_bytes label_bytes of Inl err \<Rightarrow> Inl err | Inr _ \<Rightarrow>
       (case validate_fqdn_soroban parent of Inl err \<Rightarrow> Inl err | Inr _ \<Rightarrow>
          Inr (label_bytes @ ''.'' @ parent))))"

section \<open>validation.rs\<close>

datatype tld = Xlm

fun tld_as_str :: "tld \<Rightarrow> string" where
  "tld_as_str Xlm = ''xlm''"

definition tld_parse :: "string \<Rightarrow> tld option" where
  "tld_parse value = (if value = ''xlm'' then Some Xlm else None)"

definition validate_label :: "string \<Rightarrow> common_error + unit" where
  "validate_label label =
     (if length label < MIN_NAME_LENGTH then Inl NameTooShort
      else if length label > MAX_NAME_LENGTH then Inl NameTooLong
      else if \<not> list_all label_byte label then Inl InvalidCharacters
      else if hd label = CHR ''-'' \<or> last label = CHR ''-'' then Inl InvalidLabelBoundary
      else Inr ())"

definition validate_registration_years :: "u64 \<Rightarrow> common_error + unit" where
  "validate_registration_years years =
     (if \<not> (MIN_REGISTRATION_YEARS \<le> years \<and> years \<le> MAX_REGISTRATION_YEARS)
      then Inl InvalidRegistrationPeriod else Inr ())"

fun parse_fqdn_parts :: "string list \<Rightarrow> common_error + (string \<times> tld)" where
  "parse_fqdn_parts [] = Inl InvalidName"
| "parse_fqdn_parts [label] = Inl MissingTld"
| "parse_fqdn_parts (label # tld # part # parts) = Inl InvalidName"
| "parse_fqdn_parts [label, tld] =
     (case validate_label label of Inl err \<Rightarrow> Inl err | Inr _ \<Rightarrow>
      (case tld_parse tld of None \<Rightarrow> Inl UnsupportedTld | Some parsed_tld \<Rightarrow>
         Inr (label, parsed_tld)))"

definition parse_fqdn :: "string \<Rightarrow> common_error + (string \<times> tld)" where
  "parse_fqdn name = parse_fqdn_parts (split_on CHR ''.'' name)"

text \<open>
  \<open>str::trim\<close>: white space at the end goes byte by byte (a byte inside a character never starts a
  blank text), then the white-space characters of one to three bytes at the beginning.
\<close>

fun trim_end :: "string \<Rightarrow> string" where
  "trim_end [] = []"
| "trim_end (b # bs) = (if is_blank (b # bs) then [] else b # trim_end bs)"

function trim_start :: "string \<Rightarrow> string" where
  "trim_start s =
     (if s = [] then []
      else if is_blank (take 1 s) then trim_start (drop 1 s)
      else if is_blank (take 2 s) then trim_start (drop 2 s)
      else if is_blank (take 3 s) then trim_start (drop 3 s)
      else s)"
  by auto
termination by (relation "measure length") auto

declare trim_start.simps [simp del]

definition trim :: "string \<Rightarrow> string" where
  "trim s = trim_start (trim_end s)"

definition validate_owner :: "string \<Rightarrow> common_error + unit" where
  "validate_owner owner = (if is_blank owner then Inl EmptyOwner else Inr ())"

definition validate_chain_name :: "string \<Rightarrow> common_error + unit" where
  "validate_chain_name chain = (if is_blank chain then Inl EmptyChainName else Inr ())"

definition validate_contract_id :: "string \<Rightarrow> common_error + unit" where
  "validate_contract_id contract_id =
     (let trimmed = trim contract_id in
      if trimmed = [] then Inl EmptyContractId
      else if length trimmed \<noteq> 56 \<or> take 1 trimmed \<noteq> ''C'' \<or> \<not> list_all is_ascii_alphanumeric trimmed
      then Inl InvalidContractId
      else Inr ())"

definition validate_account_address :: "string \<Rightarrow> common_error + unit" where
  "validate_account_address address =
     (let trimmed = trim address in
      if trimmed = [] then Inl EmptyAccountAddress
      else if length trimmed \<noteq> 56 \<or> take 1 trimmed \<noteq> ''G'' \<or> \<not> list_all is_ascii_alphanumeric trimmed
      then Inl InvalidAccountAddress
      else Inr ())"


section \<open>What the validators accept\<close>

text \<open>A well-formed label, and the name made of a list of labels under the one supported TLD.\<close>

definition valid_label :: "string \<Rightarrow> bool" where
  "valid_label l \<longleftrightarrow> 3 \<le> length l \<and> length l \<le> 64 \<and> hd l \<noteq> CHR ''-'' \<and> last l \<noteq> CHR ''-''
     \<and> list_all label_byte l"

definition fqdn_of :: "string list \<Rightarrow> string" where
  "fqdn_of labels = concat (map (\<lambda>l. l @ ''.'') labels) @ ''xlm''"

lemma label_byte_not_dot: "label_byte b \<Longrightarrow> b \<noteq> CHR ''.''"
  by (auto simp: label_byte_def is_ascii_lowercase_def is_ascii_digit_def byte_in_def)

lemma valid_label_no_dot: "valid_label l \<Longrightarrow> CHR ''.'' \<notin> set l"
  using label_byte_not_dot by (fastforce simp: valid_label_def list_all_iff)

lemma validate_label_bytes_iff: "validate_label_bytes l = Inr () \<longleftrightarrow> valid_label l"
  by (auto simp: validate_label_bytes_def valid_label_def length_constants)

lemma validate_label_iff: "validate_label l = Inr () \<longleftrightarrow> valid_label l"
  by (auto simp: validate_label_def valid_label_def length_constants)

lemma validate_label_bytes_cases:
  obtains "valid_label l" "validate_label_bytes l = Inr ()"
  | e where "\<not> valid_label l" "validate_label_bytes l = Inl e"
  by (cases "validate_label_bytes l") (auto simp flip: validate_label_bytes_iff)

lemma validate_label_soroban_iff: "validate_label_soroban l = Inr () \<longleftrightarrow> valid_label l"
  by (auto simp: validate_label_soroban_def copy_bytes_def validate_label_bytes_iff
      valid_label_def length_constants)

lemma validate_labels_iff:
  "validate_labels ls = Inr () \<longleftrightarrow> (\<forall>l \<in> set ls. valid_label l)"
proof (induction ls)
  case Nil
  show ?case by simp
next
  case (Cons l ls)
  then show ?case by (cases rule: validate_label_bytes_cases [of l]) auto
qed

subsection \<open>Splitting at dots\<close>

lemma split_on_nonempty [simp]: "split_on c xs \<noteq> []"
  by (induction xs) (auto split: list.splits)

lemma split_on_concat: "concat (map (\<lambda>l. l @ [c]) (split_on c xs)) = xs @ [c]"
  by (induction xs) (auto split: list.splits)

lemma split_on_pieces: "l \<in> set (split_on c xs) \<Longrightarrow> c \<notin> set l"
  by (induction xs arbitrary: l) (auto split: list.splits if_splits)

lemma split_on_free: "c \<notin> set l \<Longrightarrow> split_on c (l @ c # xs) = l # split_on c xs"
  by (induction l) auto

lemma split_on_single: "c \<notin> set l \<Longrightarrow> split_on c l = [l]"
  by (induction l) auto

lemma concat_snoc_sep: "ls \<noteq> [] \<Longrightarrow> \<exists>r. concat (map (\<lambda>l. l @ [c]) ls) = r @ [c]"
  by (cases ls rule: rev_cases) auto

lemma split_on_unique:
  assumes "ls \<noteq> []" and "\<forall>l \<in> set ls. c \<notin> set l"
    and "concat (map (\<lambda>l. l @ [c]) ls) = xs @ [c]"
  shows "split_on c xs = ls"
  using assms
proof (induction ls arbitrary: xs)
  case Nil
  then show ?case by simp
next
  case (Cons l ls)
  show ?case
  proof (cases "ls = []")
    case True
    with Cons.prems show ?thesis by (simp add: split_on_single)
  next
    case False
    obtain r where last: "concat (map (\<lambda>l. l @ [c]) ls) = r @ [c]"
      using concat_snoc_sep [OF False] by blast
    with Cons.prems(3) have "xs = l @ c # r" by simp
    moreover have "split_on c r = ls"
      using Cons.IH [OF False _ last] Cons.prems(2) by simp
    ultimately show ?thesis using Cons.prems(2) by (simp add: split_on_free)
  qed
qed

lemma position_Some:
  "position c xs = Some i \<Longrightarrow> xs = take i xs @ c # drop (i + 1) xs \<and> c \<notin> set (take i xs)"
  by (induction xs arbitrary: i) (auto split: if_splits)

lemma position_None: "position c xs = None \<longleftrightarrow> c \<notin> set xs"
  by (induction xs) auto

lemma position_first: "c \<notin> set l \<Longrightarrow> position c (l @ c # r) = Some (length l)"
  by (induction l) auto

lemma rposition_None: "rposition c xs = None \<longleftrightarrow> c \<notin> set xs"
  by (simp add: rposition_def position_None)

lemma rposition_last: "c \<notin> set r \<Longrightarrow> rposition c (l @ c # r) = Some (length l)"
  using position_first [of c "rev r" "rev l"] by (simp add: rposition_def)

lemma rposition_Some:
  assumes "rposition c xs = Some i"
  shows "xs = take i xs @ c # drop (i + 1) xs" and "c \<notin> set (drop (i + 1) xs)"
proof -
  have "c \<in> set xs" using assms rposition_None [of c xs] by auto
  then obtain l r where xs: "xs = l @ c # r" "c \<notin> set r"
    using split_list_last by fastforce
  with assms have "i = length l" by (simp add: rposition_last)
  with xs show "xs = take i xs @ c # drop (i + 1) xs" "c \<notin> set (drop (i + 1) xs)" by simp_all
qed

section \<open>Names the contracts accept\<close>

text \<open>Names are ASCII.\<close>

lemma label_byte_ascii: "label_byte b \<Longrightarrow> (of_char b :: nat) < 128"
  by (auto simp: label_byte_def is_ascii_lowercase_def is_ascii_digit_def byte_in_def)

lemma valid_label_ascii: "valid_label l \<Longrightarrow> \<forall>b \<in> set l. (of_char b :: nat) < 128"
  using label_byte_ascii by (auto simp: valid_label_def list_all_iff)

lemma fqdn_ascii: "\<forall>l \<in> set ls. valid_label l \<Longrightarrow> \<forall>b \<in> set (fqdn_of ls). (of_char b :: nat) < 128"
  using valid_label_ascii by (induction ls) (fastforce simp: fqdn_of_def)+

lemma validate_fqdn_soroban_iff:
  "validate_fqdn_soroban name = Inr () \<longleftrightarrow>
     (\<exists>labels. labels \<noteq> [] \<and> (\<forall>l \<in> set labels. valid_label l) \<and> name = fqdn_of labels
        \<and> length name \<le> 68)" (is "?L \<longleftrightarrow> ?R")
proof
  assume L: ?L
  then obtain i where len: "length name \<le> 68" and i: "rposition CHR ''.'' name = Some i"
    and tail: "drop (i + 1) name = ''xlm''"
    and ls: "\<forall>l \<in> set (split_on CHR ''.'' (take i name)). valid_label l"
    by (auto simp: validate_fqdn_soroban_def copy_bytes_def MAX_FQDN_LENGTH_def XLM_SUFFIX_LEN_def
        length_constants validate_labels_iff split: if_splits option.splits)
  have "name = take i name @ CHR ''.'' # ''xlm''"
    using rposition_Some(1) [OF i] tail by simp
  then have "name = fqdn_of (split_on CHR ''.'' (take i name))"
    by (simp add: fqdn_of_def split_on_concat)
  with ls len show ?R by (intro exI [of _ "split_on CHR ''.'' (take i name)"]) simp
next
  assume ?R
  then obtain labels where ne: "labels \<noteq> []" and ok: "\<forall>l \<in> set labels. valid_label l"
    and name: "name = fqdn_of labels" and len: "length name \<le> 68" by blast
  obtain r where r: "concat (map (\<lambda>l. l @ ''.'') labels) = r @ ''.''"
    using concat_snoc_sep [OF ne] by blast
  have split: "split_on CHR ''.'' r = labels"
    using split_on_unique [OF ne _ r] ok valid_label_no_dot by blast
  have name': "name = r @ CHR ''.'' # ''xlm''" by (simp add: name fqdn_of_def r)
  have "rposition CHR ''.'' name = Some (length r)"
    unfolding name' by (rule rposition_last) simp
  with len ok show ?L
    by (simp add: validate_fqdn_soroban_def copy_bytes_def MAX_FQDN_LENGTH_def XLM_SUFFIX_LEN_def
        length_constants name' split validate_labels_iff)
qed

lemma fqdn_of_single: "fqdn_of [l] = l @ ''.xlm''"
  by (simp add: fqdn_of_def)

lemma validate_base_name_soroban_iff:
  "validate_base_name_soroban name = Inr () \<longleftrightarrow> (\<exists>l. valid_label l \<and> name = l @ ''.xlm'')" (is "?L \<longleftrightarrow> ?R")
proof
  assume ?L
  then obtain i where i: "position CHR ''.'' name = Some i"
    and tail: "drop (i + 1) name = ''xlm''" and l: "valid_label (take i name)"
    by (auto simp: validate_base_name_soroban_def copy_bytes_def
        validate_label_bytes_iff split: if_splits option.splits sum.splits)
  have "name = take i name @ ''.xlm''"
    using position_Some [OF i] tail by simp
  with l show ?R by blast
next
  assume ?R
  then obtain l where l: "valid_label l" and name: "name = l @ CHR ''.'' # ''xlm''" by auto
  have "position CHR ''.'' name = Some (length l)"
    unfolding name by (rule position_first) (rule valid_label_no_dot [OF l])
  with l show ?L
    by (auto simp: validate_base_name_soroban_def copy_bytes_def MAX_FQDN_LENGTH_def
        XLM_SUFFIX_LEN_def length_constants name valid_label_def validate_label_bytes_iff
        split: sum.splits)
       (metis Inr_not_Inl validate_label_bytes_iff valid_label_def)
qed

lemma base_name_is_fqdn:
  assumes "validate_base_name_soroban name = Inr ()"
  shows "validate_fqdn_soroban name = Inr ()"
proof -
  obtain l where l: "valid_label l" "name = l @ ''.xlm''"
    using assms validate_base_name_soroban_iff by blast
  then have "name = fqdn_of [l]" "length name \<le> 68"
    by (simp_all add: fqdn_of_single valid_label_def)
  with l(1) show ?thesis unfolding validate_fqdn_soroban_iff by (intro exI [of _ "[l]"]) simp
qed

lemma build_xlm_name_iff:
  "build_xlm_name label = Inr name \<longleftrightarrow> valid_label label \<and> name = label @ ''.xlm''"
  by (cases rule: validate_label_bytes_cases [of label])
     (auto simp: build_xlm_name_def copy_bytes_def valid_label_def length_constants)

lemma build_xlm_name_fqdn:
  "build_xlm_name label = Inr name \<Longrightarrow> validate_fqdn_soroban name = Inr ()"
  using base_name_is_fqdn validate_base_name_soroban_iff by (auto simp: build_xlm_name_iff)

lemma extract_label_fqdn:
  "extract_label_soroban name = Inr label \<Longrightarrow> validate_fqdn_soroban name = Inr ()"
  by (auto simp: extract_label_soroban_def split: option.splits sum.splits)

lemma extract_label_build:
  assumes "build_xlm_name label = Inr name"
  shows "extract_label_soroban name = Inr label"
proof -
  have v: "valid_label label" and name: "name = label @ CHR ''.'' # ''xlm''"
    using assms by (simp_all add: build_xlm_name_iff)
  have "position CHR ''.'' name = Some (length label)"
    unfolding name by (rule position_first) (rule valid_label_no_dot [OF v])
  with v build_xlm_name_fqdn [OF assms] show ?thesis
    by (auto simp: extract_label_soroban_def copy_bytes_def MAX_FQDN_LENGTH_def XLM_SUFFIX_LEN_def
        length_constants name valid_label_def)
qed

lemma extract_label_first:
  assumes "labels \<noteq> []" and "\<forall>l \<in> set labels. valid_label l" and "length (fqdn_of labels) \<le> 68"
  shows "extract_label_soroban (fqdn_of labels) = Inr (hd labels)"
proof -
  obtain l ls where ls: "labels = l # ls" using assms(1) by (cases labels) auto
  have name: "fqdn_of labels = l @ CHR ''.'' # fqdn_of ls" by (simp add: ls fqdn_of_def)
  have "position CHR ''.'' (fqdn_of labels) = Some (length l)"
    unfolding name using assms(2) ls by (intro position_first valid_label_no_dot) simp
  moreover have "validate_fqdn_soroban (fqdn_of labels) = Inr ()"
    using assms validate_fqdn_soroban_iff by blast
  ultimately show ?thesis
    using assms(3) name ls by (simp add: extract_label_soroban_def copy_bytes_def MAX_FQDN_LENGTH_def
        XLM_SUFFIX_LEN_def length_constants)
qed

end
