(* ===== verification/Common_Types.thy ===== *)
theory Common_Types
  imports Common_Names
begin

text \<open>
  Data shared between contracts: the registry entry (\<open>types.rs\<close>, and the copy of it in the registry
  contract), the lifecycle state of a name, the values that cross a contract boundary, and the
  version field every contract keeps for upgrades.
\<close>

section \<open>Registry entries\<close>

record registry_entry =
  re_name :: string
  re_owner :: address
  re_resolver :: "string option"
  re_target_address :: "string option"
  re_metadata_uri :: "string option"
  re_ttl_seconds :: u64
  re_registered_at :: u64
  re_expires_at :: u64
  re_grace_period_ends_at :: u64
  re_transfer_count :: u32

datatype name_state = Missing | Active | GracePeriod | Claimable

section \<open>Name records of clients\<close>

record name_record =
  nm_label :: string
  nm_tld :: tld
  nm_owner :: string
  nm_resolver :: "string option"
  nm_target_address :: "string option"
  nm_ttl_seconds :: u64
  nm_registered_at :: u64
  nm_expires_at :: u64
  nm_grace_period_ends_at :: u64

definition name_record_new :: "string \<Rightarrow> string \<Rightarrow> string option \<Rightarrow> u64 \<Rightarrow> u64 \<Rightarrow> u64 \<Rightarrow> name_record" where
  "name_record_new label owner target_address registered_at expires_at grace_end =
     \<lparr>nm_label = label, nm_tld = Xlm, nm_owner = owner, nm_resolver = None, nm_target_address = target_address,
      nm_ttl_seconds = DEFAULT_TTL_SECONDS, nm_registered_at = registered_at, nm_expires_at = expires_at,
      nm_grace_period_ends_at = grace_end\<rparr>"

definition name_record_fqdn :: "name_record \<Rightarrow> string" where
  "name_record_fqdn r = nm_label r @ ''.'' @ tld_as_str (nm_tld r)"

definition name_record_is_active_at :: "name_record \<Rightarrow> u64 \<Rightarrow> bool" where
  "name_record_is_active_at r now_unix = is_active_at (nm_expires_at r) now_unix"

definition name_record_is_in_grace_period :: "name_record \<Rightarrow> u64 \<Rightarrow> bool" where
  "name_record_is_in_grace_period r now_unix = within_grace_period (nm_expires_at r) now_unix"

definition name_record_is_claimable_at :: "name_record \<Rightarrow> u64 \<Rightarrow> bool" where
  "name_record_is_claimable_at r now_unix = is_claimable_at (nm_grace_period_ends_at r) now_unix"

definition name_record_extend_expiry :: "name_record \<Rightarrow> u64 \<Rightarrow> u64 \<Rightarrow> name_record" where
  "name_record_extend_expiry r expires_at grace_end =
     r\<lparr>nm_expires_at := expires_at, nm_grace_period_ends_at := grace_end\<rparr>"

section \<open>Cross-contract calls\<close>

text \<open>
  A call names the callee's address, the function symbol and the argument values, as
  \<open>Env::invoke_contract\<close> does (the generated clients of \<open>#[contractclient]\<close> do the same). What the call
  does to the rest of the ledger is a function \<open>'w invoke\<close> on the state \<open>'w\<close> of the other contracts:
  \<open>None\<close> when the callee returns an error or traps. \<open>invoke_contract\<close> traps in that case,
  \<open>try_invoke_contract\<close> lets the caller go on with the state it had.
\<close>

datatype val =
    VUnit
  | VStr string
  | VAddr address
  | VU32 u32
  | VU64 u64
  | VI128 int
  | VOptStr "string option"
  | VEntry registry_entry
  | VNameState name_state

type_synonym 'w invoke = "env \<Rightarrow> address \<Rightarrow> string \<Rightarrow> val list \<Rightarrow> 'w \<Rightarrow> (val \<times> 'w) option"

text \<open>A read-only callee: it answers from the current ledger and changes nothing.\<close>

type_synonym query = "env \<Rightarrow> address \<Rightarrow> string \<Rightarrow> val list \<Rightarrow> val option"

definition query_of :: "'w invoke \<Rightarrow> 'w \<Rightarrow> query" where
  "query_of call w e a f args = map_option fst (call e a f args w)"

text \<open>The call \<open>resolve(name, now)\<close> on the registry at \<open>a\<close>, and its result as an entry.\<close>

definition query_resolve :: "query \<Rightarrow> env \<Rightarrow> address \<Rightarrow> string \<Rightarrow> u64 \<Rightarrow> registry_entry option" where
  "query_resolve q e a name now_unix =
     (case q (callee_env e a) a ''resolve'' [VStr name, VU64 now_unix] of
        Some (VEntry entry) \<Rightarrow> Some entry
      | _ \<Rightarrow> None)"

section \<open>Upgrades\<close>

text \<open>
  \<open>decode_target_version\<close> is repeated word for word in every contract: the first four bytes of
  the migration data, big endian, or version 2 when there are fewer.
\<close>

definition CONTRACT_VERSION :: u32 where "CONTRACT_VERSION = 1"

definition from_be_bytes :: "u8 \<Rightarrow> u8 \<Rightarrow> u8 \<Rightarrow> u8 \<Rightarrow> u32" where
  "from_be_bytes b0 b1 b2 b3 =
     of_nat (unat b0 * 2 ^ 24 + unat b1 * 2 ^ 16 + unat b2 * 2 ^ 8 + unat b3)"

definition bytes_get :: "u8 list \<Rightarrow> nat \<Rightarrow> u8" where
  "bytes_get data i = (if i < length data then data ! i else 0)"

definition decode_target_version :: "u8 list \<Rightarrow> u32" where
  "decode_target_version data =
     (if length data < 4 then CONTRACT_VERSION + 1
      else from_be_bytes (bytes_get data 0) (bytes_get data 1) (bytes_get data 2) (bytes_get data 3))"

text \<open>The encoder a migration script uses: the inverse on four-byte data.\<close>

definition to_be_bytes :: "u32 \<Rightarrow> u8 list" where
  "to_be_bytes v = map (\<lambda>k. of_nat (unat v div 2 ^ (8 * k))) [3, 2, 1, 0]"

lemma be_digits:
  fixes n :: nat
  assumes "n < 2 ^ 32"
  shows "n div 2 ^ 24 mod 256 * 2 ^ 24 + n div 2 ^ 16 mod 256 * 2 ^ 16
       + n div 2 ^ 8 mod 256 * 2 ^ 8 + n mod 256 = n"
proof -
  have top: "n div 16777216 mod 256 = n div 16777216"
    using assms by (simp add: less_mult_imp_div_less)
  have "n div 65536 div 256 = n div 16777216" "n div 256 div 256 = n div 65536"
    by (simp_all flip: div_mult2_eq)
  then have "n div 16777216 * 256 + n div 65536 mod 256 = n div 65536"
    "n div 65536 * 256 + n div 256 mod 256 = n div 256" "n div 256 * 256 + n mod 256 = n"
    by (metis div_mult_mod_eq)+
  then have "n div 16777216 mod 256 * 16777216 + n div 65536 mod 256 * 65536
       + n div 256 mod 256 * 256 + n mod 256 = n"
    unfolding top by linarith
  then show ?thesis using top by simp
qed

lemma unat_byte_of_nat: "unat (of_nat k :: u8) = k mod 256"
  by (simp add: unsigned_of_nat take_bit_eq_mod)

lemma decode_to_be_bytes: "decode_target_version (to_be_bytes v @ rest) = v"
proof -
  have "unat v < 2 ^ 32" using unsigned_less [of v] by simp
  then have digits: "unat v div 2 ^ 24 mod 256 * 2 ^ 24 + unat v div 2 ^ 16 mod 256 * 2 ^ 16
       + unat v div 2 ^ 8 mod 256 * 2 ^ 8 + unat v mod 256 = unat v"
    by (rule be_digits)
  have "decode_target_version (to_be_bytes v @ rest) =
      from_be_bytes (of_nat (unat v div 2 ^ 24)) (of_nat (unat v div 2 ^ 16))
        (of_nat (unat v div 2 ^ 8)) (of_nat (unat v))"
    by (simp add: decode_target_version_def to_be_bytes_def bytes_get_def)
  also have "\<dots> = of_nat (unat v)"
    unfolding from_be_bytes_def unat_byte_of_nat digits ..
  finally show ?thesis by simp
qed

end
