(* ===== verification/Registry.thy ===== *)
theory Registry
  imports Common_Types
begin

text \<open>
  The registry contract (\<open>contracts/registry/src/lib.rs\<close>): the canonical entry of every name, dispute locks,
  and an index of names per owner. The NFT contract and the resolvers are other contracts,
  reached through \<open>call\<close>. The clock is an argument of most entrypoints (\<open>now_unix\<close>), as in the code.
\<close>

section \<open>State\<close>

record name_lock =
  lk_locked_until :: u64
  lk_lock_reason :: string

datatype registry_error =
    AlreadyRegistered | NotFound | NotYetClaimable | NotActive | Unauthorized | MetadataTooLong
  | Validation | InvalidExpiry | InvalidGracePeriod | UpgradeFailed | Locked

datatype registry_event =
    RegUpgraded u32 u32 address
  | RegBurn string address
  | RegTransfer string address address
  | LockApplied string u64 string address
  | LockRemoved string u64 string address

record registry =
  rg_entries :: "string \<Rightarrow> registry_entry option"
  rg_locks :: "string \<Rightarrow> name_lock option"
  rg_owner_names :: "address \<Rightarrow> string list option"
  rg_admin :: "address option"
  rg_dispute_admin :: "address option"
  rg_nft_contract :: "address option"
  rg_contract_version :: "u32 option"
  rg_wasm :: "u8 list option"
  rg_events :: "registry_event list"

definition registry_empty :: registry where
  "registry_empty = \<lparr>rg_entries = (\<lambda>_. None), rg_locks = (\<lambda>_. None), rg_owner_names = (\<lambda>_. None),
     rg_admin = None, rg_dispute_admin = None, rg_nft_contract = None, rg_contract_version = None,
     rg_wasm = None, rg_events = []\<rparr>"

definition ADMIN_RECOVERY_SUPPORTED :: bool where "ADMIN_RECOVERY_SUPPORTED = False"
definition STORAGE_SCHEMA_VERSION :: u32 where "STORAGE_SCHEMA_VERSION = 1"

section \<open>Helpers of the contract\<close>

definition entry_active_at :: "registry_entry \<Rightarrow> u64 \<Rightarrow> bool" where
  "entry_active_at entry now_unix = is_active_at (re_expires_at entry) now_unix"

definition entry_claimable_at :: "registry_entry \<Rightarrow> u64 \<Rightarrow> bool" where
  "entry_claimable_at entry now_unix = is_claimable_at (re_grace_period_ends_at entry) now_unix"

definition rg_emit :: "registry_event \<Rightarrow> registry \<Rightarrow> registry" where
  "rg_emit ev s = s\<lparr>rg_events := rg_events s @ [ev]\<rparr>"

definition get_entry :: "registry \<Rightarrow> string \<Rightarrow> (registry_error, registry_entry) result" where
  "get_entry s name = (case rg_entries s name of None \<Rightarrow> Inl (Err NotFound) | Some entry \<Rightarrow> Inr entry)"

definition put_entry :: "registry \<Rightarrow> string \<Rightarrow> registry_entry \<Rightarrow> registry" where
  "put_entry s name entry = s\<lparr>rg_entries := (rg_entries s)(name \<mapsto> entry)\<rparr>"

definition put_lock :: "registry \<Rightarrow> string \<Rightarrow> name_lock \<Rightarrow> registry" where
  "put_lock s name lock = s\<lparr>rg_locks := (rg_locks s)(name \<mapsto> lock)\<rparr>"

definition remove_lock :: "registry \<Rightarrow> string \<Rightarrow> (name_lock \<times> registry) option" where
  "remove_lock s name =
     (case rg_locks s name of None \<Rightarrow> None
      | Some lock \<Rightarrow> Some (lock, s\<lparr>rg_locks := (rg_locks s)(name := None)\<rparr>))"

definition validate_metadata :: "string option \<Rightarrow> (registry_error, unit) result" where
  "validate_metadata metadata_uri =
     (if (case metadata_uri of None \<Rightarrow> False | Some value \<Rightarrow> length value > MAX_METADATA_URI_LENGTH)
      then Inl (Err MetadataTooLong) else Inr ())"

definition validate_lifecycle_timestamps :: "u64 \<Rightarrow> u64 \<Rightarrow> u64 \<Rightarrow> (registry_error, unit) result" where
  "validate_lifecycle_timestamps now_unix expires_at grace_end =
     (if \<not> is_active_at expires_at now_unix then Inl (Err InvalidExpiry)
      else if grace_end < expires_at then Inl (Err InvalidGracePeriod)
      else Inr ())"

definition ensure_owner :: "registry_entry \<Rightarrow> address \<Rightarrow> u64 \<Rightarrow> (registry_error, unit) result" where
  "ensure_owner entry caller now_unix =
     (if \<not> entry_active_at entry now_unix then Inl (Err NotActive)
      else if re_owner entry \<noteq> caller then Inl (Err Unauthorized)
      else Inr ())"

text \<open>An expired lock is removed on the way.\<close>

definition ensure_name_unlocked :: "registry \<Rightarrow> string \<Rightarrow> u64 \<Rightarrow> (registry_error, registry) result" where
  "ensure_name_unlocked s name now_unix =
     (case rg_locks s name of
        None \<Rightarrow> Inr s
      | Some lock \<Rightarrow>
          (if lk_locked_until lock \<ge> now_unix then Inl (Err Locked)
           else Inr (s\<lparr>rg_locks := (rg_locks s)(name := None)\<rparr>)))"

definition names_for_owner :: "registry \<Rightarrow> address \<Rightarrow> string list" where
  "names_for_owner s owner = vec_or_empty (rg_owner_names s owner)"

definition add_owner_name :: "registry \<Rightarrow> address \<Rightarrow> string \<Rightarrow> registry" where
  "add_owner_name s owner name =
     (let names = names_for_owner s owner
      in if name \<in> set names then s
         else s\<lparr>rg_owner_names := (rg_owner_names s)(owner \<mapsto> names @ [name])\<rparr>)"

definition remove_owner_name :: "registry \<Rightarrow> address \<Rightarrow> string \<Rightarrow> registry" where
  "remove_owner_name s owner name =
     s\<lparr>rg_owner_names := (rg_owner_names s)(owner \<mapsto> remove_all name (names_for_owner s owner))\<rparr>"

text \<open>A call to the NFT contract, if one is configured; a failure of the callee traps.\<close>

definition nft_client_call ::
    "'w invoke \<Rightarrow> env \<Rightarrow> string \<Rightarrow> val list \<Rightarrow> registry \<times> 'w \<Rightarrow> (registry_error, registry \<times> 'w) result" where
  "nft_client_call call e f args sw =
     (case rg_nft_contract (fst sw) of
        None \<Rightarrow> Inr sw
      | Some nft_addr \<Rightarrow>
          (case call (callee_env e nft_addr) nft_addr f args (snd sw) of
             Some (VUnit, w') \<Rightarrow> Inr (fst sw, w')
           | _ \<Rightarrow> Inl Trap))"

section \<open>Administration\<close>

definition registry_initialize :: "address \<Rightarrow> registry \<Rightarrow> (registry_error, registry) result" where
  "registry_initialize admin s =
     (if rg_admin s \<noteq> None then Inl (Err Unauthorized)
      else Inr (s\<lparr>rg_admin := Some admin, rg_dispute_admin := Some admin,
                  rg_contract_version := Some CONTRACT_VERSION\<rparr>))"

definition registry_get_version :: "registry \<Rightarrow> u32" where
  "registry_get_version s = (case rg_contract_version s of None \<Rightarrow> CONTRACT_VERSION | Some v \<Rightarrow> v)"

definition set_nft_contract :: "env \<Rightarrow> address \<Rightarrow> registry \<Rightarrow> (registry_error, registry) result" where
  "set_nft_contract e nft_contract s =
     (case rg_admin s of None \<Rightarrow> Inl (Err Unauthorized) | Some admin \<Rightarrow>
      (if \<not> require_auth e admin then Inl Trap
       else Inr (s\<lparr>rg_nft_contract := Some nft_contract\<rparr>)))"

definition set_dispute_admin :: "env \<Rightarrow> address \<Rightarrow> registry \<Rightarrow> (registry_error, registry) result" where
  "set_dispute_admin e dispute_admin s =
     (case rg_admin s of None \<Rightarrow> Inl (Err Unauthorized) | Some admin \<Rightarrow>
      (if \<not> require_auth e admin then Inl Trap
       else Inr (s\<lparr>rg_dispute_admin := Some dispute_admin\<rparr>)))"

definition registry_upgrade :: "env \<Rightarrow> u8 list \<Rightarrow> u8 list \<Rightarrow> registry \<Rightarrow> (registry_error, registry) result" where
  "registry_upgrade e new_wasm_hash migration_data s =
     (case rg_admin s of None \<Rightarrow> Inl (Err UpgradeFailed) | Some admin \<Rightarrow>
      (if \<not> require_auth e admin then Inl Trap
       else let current_version = registry_get_version s;
                target_version = decode_target_version migration_data
            in if \<not> env_wasm_ok e new_wasm_hash then Inl Trap
               else Inr (rg_emit (RegUpgraded current_version target_version admin)
                 (s\<lparr>rg_contract_version := Some target_version, rg_wasm := Some new_wasm_hash\<rparr>))))"

section \<open>Registration and renewal\<close>

definition registry_register ::
    "'w invoke \<Rightarrow> env \<Rightarrow> string \<Rightarrow> address \<Rightarrow> string option \<Rightarrow> string option \<Rightarrow> u64 \<Rightarrow> u64 \<Rightarrow> u64
       \<Rightarrow> registry \<times> 'w \<Rightarrow> (registry_error, registry \<times> 'w) result" where
  "registry_register call e name owner target_address metadata_uri now_unix expires_at grace_end sw =
     (if \<not> require_auth e owner then Inl Trap else
      case validate_fqdn_soroban name of Inl _ \<Rightarrow> Inl (Err Validation) | Inr _ \<Rightarrow>
      (case ensure_name_unlocked (fst sw) name now_unix of Inl err \<Rightarrow> Inl err | Inr s1 \<Rightarrow>
      (case validate_metadata metadata_uri of Inl err \<Rightarrow> Inl err | Inr _ \<Rightarrow>
      (case validate_lifecycle_timestamps now_unix expires_at grace_end of Inl err \<Rightarrow> Inl err | Inr _ \<Rightarrow>
      (case (case rg_entries s1 name of
               None \<Rightarrow> Inr (s1, snd sw)
             | Some existing \<Rightarrow>
                 (if entry_active_at existing now_unix then Inl (Err AlreadyRegistered)
                  else if \<not> entry_claimable_at existing now_unix then Inl (Err NotYetClaimable)
                  else
                    let s2 = remove_owner_name s1 (re_owner existing) name;
                        s3 = s2\<lparr>rg_entries := (rg_entries s2)(name := None)\<rparr>
                    in case nft_client_call call e ''burn'' [VStr name] (s3, snd sw) of
                         Inl err \<Rightarrow> Inl err
                       | Inr (s4, w4) \<Rightarrow> Inr (rg_emit (RegBurn name (re_owner existing)) s4, w4)))
       of Inl err \<Rightarrow> Inl err | Inr (s5, w5) \<Rightarrow>
         let entry = \<lparr>re_name = name, re_owner = owner, re_resolver = None,
                      re_target_address = target_address, re_metadata_uri = metadata_uri,
                      re_ttl_seconds = DEFAULT_TTL_SECONDS, re_registered_at = now_unix,
                      re_expires_at = expires_at, re_grace_period_ends_at = grace_end,
                      re_transfer_count = 0\<rparr>;
             s6 = add_owner_name (put_entry s5 name entry) owner name
         in nft_client_call call e ''mint''
              [VStr name, VAddr owner, VOptStr metadata_uri, VU64 expires_at] (s6, w5))))))"

definition registry_renew ::
    "'w invoke \<Rightarrow> env \<Rightarrow> string \<Rightarrow> address \<Rightarrow> u64 \<Rightarrow> u64 \<Rightarrow> u64
       \<Rightarrow> registry \<times> 'w \<Rightarrow> (registry_error, registry \<times> 'w) result" where
  "registry_renew call e name caller expires_at grace_end now_unix sw =
     (if \<not> require_auth e caller then Inl Trap else
      case ensure_name_unlocked (fst sw) name now_unix of Inl err \<Rightarrow> Inl err | Inr s1 \<Rightarrow>
      (case get_entry s1 name of Inl err \<Rightarrow> Inl err | Inr entry \<Rightarrow>
       (if entry_claimable_at entry now_unix then Inl (Err NotActive)
        else if re_owner entry \<noteq> caller then Inl (Err Unauthorized)
        else if expires_at < re_expires_at entry then Inl (Err InvalidExpiry)
        else if grace_end < re_grace_period_ends_at entry then Inl (Err InvalidGracePeriod)
        else
          case validate_lifecycle_timestamps now_unix expires_at grace_end of Inl err \<Rightarrow> Inl err | Inr _ \<Rightarrow>
            let entry' = entry\<lparr>re_expires_at := expires_at, re_grace_period_ends_at := grace_end\<rparr>
            in nft_client_call call e ''sync_expiry'' [VStr name, VU64 expires_at]
                 (put_entry s1 name entry', snd sw))))"

section \<open>Queries\<close>

definition registry_resolve :: "registry \<Rightarrow> string \<Rightarrow> u64 \<Rightarrow> (registry_error, registry_entry) result" where
  "registry_resolve s name now_unix =
     (case validate_fqdn_soroban name of Inl _ \<Rightarrow> Inl (Err Validation) | Inr _ \<Rightarrow>
      (case get_entry s name of Inl err \<Rightarrow> Inl err | Inr entry \<Rightarrow>
       (if \<not> entry_active_at entry now_unix then Inl (Err NotActive) else Inr entry)))"

definition registry_name_state :: "registry \<Rightarrow> string \<Rightarrow> u64 \<Rightarrow> name_state" where
  "registry_name_state s name now_unix =
     (case rg_entries s name of
        None \<Rightarrow> Missing
      | Some entry \<Rightarrow>
          (if entry_active_at entry now_unix then Active
           else if entry_claimable_at entry now_unix then Claimable
           else GracePeriod))"

definition registry_check_owner :: "registry \<Rightarrow> string \<Rightarrow> address \<Rightarrow> u64 \<Rightarrow> (registry_error, unit) result" where
  "registry_check_owner s name caller now_unix =
     (case get_entry s name of Inl err \<Rightarrow> Inl err | Inr entry \<Rightarrow> ensure_owner entry caller now_unix)"

fun audit_names :: "registry \<Rightarrow> address \<Rightarrow> string list \<Rightarrow> string list" where
  "audit_names s owner [] = []"
| "audit_names s owner (name # names) =
     (case rg_entries s name of
        None \<Rightarrow> name # audit_names s owner names
      | Some entry \<Rightarrow>
          (if re_owner entry \<noteq> owner then name # audit_names s owner names
           else audit_names s owner names))"

definition audit_owner_index :: "registry \<Rightarrow> address \<Rightarrow> string list" where
  "audit_owner_index s owner = audit_names s owner (names_for_owner s owner)"

section \<open>Transfers and edits\<close>

text \<open>The resolver of the entry, if any, is told to forget the reverse records of the old owner.\<close>

definition clear_resolver ::
    "'w invoke \<Rightarrow> env \<Rightarrow> registry_entry \<Rightarrow> string \<Rightarrow> address \<Rightarrow> 'w \<Rightarrow> (registry_error, 'w) result" where
  "clear_resolver call e entry name old_owner w =
     (case re_resolver entry of
        None \<Rightarrow> Inr w
      | Some resolver_id \<Rightarrow>
          (if \<not> env_strkey_ok e resolver_id then Inl Trap
           else case call (callee_env e (Address resolver_id)) (Address resolver_id)
                       ''clear_reverse_record'' [VStr name, VAddr old_owner] w of
                  Some (VUnit, w') \<Rightarrow> Inr w'
                | _ \<Rightarrow> Inl Trap))"

definition registry_transfer ::
    "'w invoke \<Rightarrow> env \<Rightarrow> string \<Rightarrow> address \<Rightarrow> address \<Rightarrow> u64
       \<Rightarrow> registry \<times> 'w \<Rightarrow> (registry_error, registry \<times> 'w) result" where
  "registry_transfer call e name caller new_owner now_unix sw =
     (if \<not> require_auth e caller then Inl Trap else
      case ensure_name_unlocked (fst sw) name now_unix of Inl err \<Rightarrow> Inl err | Inr s1 \<Rightarrow>
      (case get_entry s1 name of Inl err \<Rightarrow> Inl err | Inr entry \<Rightarrow>
      (case ensure_owner entry caller now_unix of Inl err \<Rightarrow> Inl err | Inr _ \<Rightarrow>
        let old_owner = re_owner entry;
            entry' = entry\<lparr>re_owner := new_owner,
                           re_transfer_count := sat_add (re_transfer_count entry) 1\<rparr>;
            s2 = add_owner_name (remove_owner_name (put_entry s1 name entry') old_owner name) new_owner name
        in case clear_resolver call e entry' name old_owner (snd sw) of Inl err \<Rightarrow> Inl err | Inr w' \<Rightarrow>
             nft_client_call call e ''sync_owner'' [VStr name, VAddr new_owner]
               (rg_emit (RegTransfer name old_owner new_owner) s2, w'))))"

definition set_resolver ::
    "env \<Rightarrow> string \<Rightarrow> address \<Rightarrow> string option \<Rightarrow> u64 \<Rightarrow> registry \<Rightarrow> (registry_error, registry) result" where
  "set_resolver e name caller resolver now_unix s =
     (if \<not> require_auth e caller then Inl Trap else
      case ensure_name_unlocked s name now_unix of Inl err \<Rightarrow> Inl err | Inr s1 \<Rightarrow>
      (case get_entry s1 name of Inl err \<Rightarrow> Inl err | Inr entry \<Rightarrow>
      (case ensure_owner entry caller now_unix of Inl err \<Rightarrow> Inl err | Inr _ \<Rightarrow>
        (if (case resolver of None \<Rightarrow> False | Some resolver_id \<Rightarrow> \<not> env_strkey_ok e resolver_id) then Inl Trap
         else Inr (put_entry s1 name (entry\<lparr>re_resolver := resolver\<rparr>))))))"

definition set_target_address ::
    "env \<Rightarrow> string \<Rightarrow> address \<Rightarrow> string option \<Rightarrow> u64 \<Rightarrow> registry \<Rightarrow> (registry_error, registry) result" where
  "set_target_address e name caller target_address now_unix s =
     (if \<not> require_auth e caller then Inl Trap else
      case ensure_name_unlocked s name now_unix of Inl err \<Rightarrow> Inl err | Inr s1 \<Rightarrow>
      (case get_entry s1 name of Inl err \<Rightarrow> Inl err | Inr entry \<Rightarrow>
      (case ensure_owner entry caller now_unix of Inl err \<Rightarrow> Inl err | Inr _ \<Rightarrow>
         Inr (put_entry s1 name (entry\<lparr>re_target_address := target_address\<rparr>)))))"

definition set_metadata ::
    "env \<Rightarrow> string \<Rightarrow> address \<Rightarrow> string option \<Rightarrow> u64 \<Rightarrow> registry \<Rightarrow> (registry_error, registry) result" where
  "set_metadata e name caller metadata_uri now_unix s =
     (if \<not> require_auth e caller then Inl Trap else
      case ensure_name_unlocked s name now_unix of Inl err \<Rightarrow> Inl err | Inr s1 \<Rightarrow>
      (case validate_metadata metadata_uri of Inl err \<Rightarrow> Inl err | Inr _ \<Rightarrow>
      (case get_entry s1 name of Inl err \<Rightarrow> Inl err | Inr entry \<Rightarrow>
      (case ensure_owner entry caller now_unix of Inl err \<Rightarrow> Inl err | Inr _ \<Rightarrow>
         Inr (put_entry s1 name (entry\<lparr>re_metadata_uri := metadata_uri\<rparr>))))))"

text \<open>The NFT contract's side of a token transfer: the only caller is that contract.\<close>

definition registry_update_owner ::
    "env \<Rightarrow> string \<Rightarrow> address \<Rightarrow> address \<Rightarrow> registry \<Rightarrow> (registry_error, registry) result" where
  "registry_update_owner e name caller new_owner s =
     (case rg_nft_contract s of None \<Rightarrow> Inl (Err Unauthorized) | Some nft_contract \<Rightarrow>
      (if \<not> require_auth e caller then Inl Trap
       else if caller \<noteq> nft_contract then Inl (Err Unauthorized)
       else
         case get_entry s name of Inl err \<Rightarrow> Inl err | Inr entry \<Rightarrow>
         (case ensure_name_unlocked s name (env_timestamp e) of Inl err \<Rightarrow> Inl err | Inr s1 \<Rightarrow>
          (if \<not> entry_active_at entry (env_timestamp e) then Inl (Err NotActive)
           else
             let old_owner = re_owner entry;
                 entry' = entry\<lparr>re_owner := new_owner,
                                re_transfer_count := sat_add (re_transfer_count entry) 1\<rparr>;
                 s2 = add_owner_name (remove_owner_name (put_entry s1 name entry') old_owner name)
                        new_owner name
             in Inr (rg_emit (RegTransfer name old_owner new_owner) s2)))))"

definition registry_burn ::
    "'w invoke \<Rightarrow> env \<Rightarrow> string \<Rightarrow> address \<Rightarrow> u64 \<Rightarrow> registry \<times> 'w \<Rightarrow> (registry_error, registry \<times> 'w) result" where
  "registry_burn call e name caller now_unix sw =
     (if \<not> require_auth e caller then Inl Trap else
      case ensure_name_unlocked (fst sw) name now_unix of Inl err \<Rightarrow> Inl err | Inr s1 \<Rightarrow>
      (case get_entry s1 name of Inl err \<Rightarrow> Inl err | Inr entry \<Rightarrow>
       (if re_owner entry \<noteq> caller \<and> \<not> entry_claimable_at entry now_unix then Inl (Err Unauthorized)
        else
          let s2 = remove_owner_name s1 (re_owner entry) name;
              s3 = s2\<lparr>rg_entries := (rg_entries s2)(name := None)\<rparr>
          in case nft_client_call call e ''burn'' [VStr name] (s3, snd sw) of
               Inl err \<Rightarrow> Inl err
             | Inr (s4, w4) \<Rightarrow> Inr (rg_emit (RegBurn name (re_owner entry)) s4, w4))))"

section \<open>Dispute locks\<close>

definition lock_name ::
    "env \<Rightarrow> string \<Rightarrow> address \<Rightarrow> u64 \<Rightarrow> string \<Rightarrow> u64 \<Rightarrow> registry \<Rightarrow> (registry_error, registry) result" where
  "lock_name e name caller locked_until lock_reason now_unix s =
     (case rg_dispute_admin s of None \<Rightarrow> Inl (Err Unauthorized) | Some dispute_admin \<Rightarrow>
      (if \<not> require_auth e caller then Inl Trap
       else if caller \<noteq> dispute_admin then Inl (Err Unauthorized)
       else
         case validate_fqdn_soroban name of Inl _ \<Rightarrow> Inl (Err Validation) | Inr _ \<Rightarrow>
         (case get_entry s name of Inl err \<Rightarrow> Inl err | Inr _ \<Rightarrow>
          (if locked_until < now_unix then Inl (Err InvalidExpiry)
           else Inr (rg_emit (LockApplied name locked_until lock_reason dispute_admin)
                  (put_lock s name \<lparr>lk_locked_until = locked_until, lk_lock_reason = lock_reason\<rparr>))))))"

definition unlock_name :: "env \<Rightarrow> string \<Rightarrow> address \<Rightarrow> registry \<Rightarrow> (registry_error, registry) result" where
  "unlock_name e name caller s =
     (case rg_dispute_admin s of None \<Rightarrow> Inl (Err Unauthorized) | Some dispute_admin \<Rightarrow>
      (if \<not> require_auth e caller then Inl Trap
       else if caller \<noteq> dispute_admin then Inl (Err Unauthorized)
       else
         case validate_fqdn_soroban name of Inl _ \<Rightarrow> Inl (Err Validation) | Inr _ \<Rightarrow>
         (case remove_lock s name of None \<Rightarrow> Inl (Err NotFound)
          | Some (lock, s1) \<Rightarrow>
              Inr (rg_emit (LockRemoved name (lk_locked_until lock) (lk_lock_reason lock) dispute_admin) s1))))"

section \<open>Calls from other contracts\<close>

text \<open>The read-only entrypoints, and the mutating ones, by symbol and arguments.\<close>

definition registry_query :: "registry \<Rightarrow> string \<Rightarrow> val list \<Rightarrow> val option" where
  "registry_query s f args =
     (case args of
        [VStr name, VU64 now_unix] \<Rightarrow>
          (if f = ''resolve'' then
             (case registry_resolve s name now_unix of Inl _ \<Rightarrow> None | Inr entry \<Rightarrow> Some (VEntry entry))
           else if f = ''name_state'' then Some (VNameState (registry_name_state s name now_unix))
           else None)
      | _ \<Rightarrow> None)"

definition registry_dispatch ::
    "'w invoke \<Rightarrow> env \<Rightarrow> string \<Rightarrow> val list \<Rightarrow> registry \<times> 'w \<Rightarrow> (registry_error, registry \<times> 'w) result" where
  "registry_dispatch call e f args sw =
     (if f = ''register'' then
        (case args of
           [VStr name, VAddr owner, VOptStr target, VOptStr uri, VU64 now_unix, VU64 expires_at, VU64 grace_end] \<Rightarrow>
             registry_register call e name owner target uri now_unix expires_at grace_end sw
         | _ \<Rightarrow> Inl Trap)
      else if f = ''renew'' then
        (case args of
           [VStr name, VAddr caller, VU64 expires_at, VU64 grace_end, VU64 now_unix] \<Rightarrow>
             registry_renew call e name caller expires_at grace_end now_unix sw
         | _ \<Rightarrow> Inl Trap)
      else if f = ''update_owner'' then
        (case args of
           [VStr name, VAddr caller, VAddr new_owner] \<Rightarrow>
             (case registry_update_owner e name caller new_owner (fst sw) of
                Inl err \<Rightarrow> Inl err | Inr s' \<Rightarrow> Inr (s', snd sw))
         | _ \<Rightarrow> Inl Trap)
      else Inl Trap)"

end
