(* ===== verification/Interfaces.thy ===== *)
theory Interfaces
  imports Common_Types
begin

text \<open>
  The interfaces between the contracts: what the registrar relies on the registry for, what the registry relies on
  the token contract for, and what the contracts that ask for names rely on. Each locale fixes the calls the client makes
  and the view of the provider's state the client's guarantees are about; the providers' theories
  interpret them on their models.
\<close>

section \<open>The registry, as the registrar uses it\<close>

text \<open>
  \<open>act e f args w\<close> is a call of function \<open>f\<close> at the provider, \<open>lease w n\<close> what it then holds for name
  \<open>n\<close>: owner, expiry, end of grace.
\<close>

locale lease_provider =
  fixes act :: "env \<Rightarrow> string \<Rightarrow> val list \<Rightarrow> 'w \<Rightarrow> (val \<times> 'w) option"
    and lease :: "'w \<Rightarrow> string \<Rightarrow> (address \<times> u64 \<times> u64) option"
  assumes register_law:
      "act e ''register'' [VStr n, VAddr a, VOptStr None, VOptStr None, VU64 t, VU64 x, VU64 g] w = Some (r, w')
         \<Longrightarrow> lease w' = (lease w)(n \<mapsto> (a, x, g))"
    and register_free:
      "act e ''register'' [VStr n, VAddr a, VOptStr None, VOptStr None, VU64 t, VU64 x, VU64 g] w = Some (r, w')
         \<Longrightarrow> lease w n = Some (b, y, h) \<Longrightarrow> h < t"
    and renew_law:
      "act e ''renew'' [VStr n, VAddr a, VU64 x, VU64 g, VU64 t] w = Some (r, w')
         \<Longrightarrow> lease w' = (lease w)(n \<mapsto> (a, x, g))"
    and renew_held:
      "act e ''renew'' [VStr n, VAddr a, VU64 x, VU64 g, VU64 t] w = Some (r, w')
         \<Longrightarrow> \<exists>y h. lease w n = Some (a, y, h) \<and> y \<le> x \<and> h \<le> g \<and> t \<le> h"

section \<open>The token contract, as the registry uses it\<close>

text \<open>
  The registry at \<open>me\<close> is the administrator of the token contract at \<open>nft_at\<close>; \<open>token w n\<close> is the owner and the
  expiry the token of \<open>n\<close> shows.
\<close>

locale token_mirror =
  fixes call :: "'w invoke"
    and nft_at :: address
    and token :: "'w \<Rightarrow> string \<Rightarrow> (address \<times> u64) option"
  assumes mint_law: "call e nft_at ''mint'' [VStr n, VAddr a, VOptStr u, VU64 x] w = Some (r, w')
         \<Longrightarrow> token w n = None \<and> token w' = (token w)(n \<mapsto> (a, x))"
    and burn_law: "call e nft_at ''burn'' [VStr n] w = Some (r, w')
         \<Longrightarrow> token w n \<noteq> None \<and> token w' = (token w)(n := None)"
    and owner_law: "call e nft_at ''sync_owner'' [VStr n, VAddr b] w = Some (r, w')
         \<Longrightarrow> \<exists>a x. token w n = Some (a, x) \<and> token w' = (token w)(n \<mapsto> (b, x))"
    and expiry_law: "call e nft_at ''sync_expiry'' [VStr n, VU64 y] w = Some (r, w')
         \<Longrightarrow> \<exists>a x. token w n = Some (a, x) \<and> token w' = (token w)(n \<mapsto> (a, y))"
    and clear_law: "call e c ''clear_reverse_record'' args w = Some (r, w') \<Longrightarrow> token w' = token w"

section \<open>The registry, as the contracts that ask for a name use it\<close>

text \<open>
  \<open>lookup n t\<close> is the registry's answer for name \<open>n\<close> at clock \<open>t\<close>, \<open>stage n t\<close> its lifecycle state, \<open>holder n\<close> the owner
  and the expiry on record.
\<close>

locale name_oracle =
  fixes lookup :: "string \<Rightarrow> u64 \<Rightarrow> registry_entry option"
    and stage :: "string \<Rightarrow> u64 \<Rightarrow> name_state"
    and holder :: "string \<Rightarrow> (address \<times> u64) option"
  assumes lookup_holder: "lookup n t = Some en \<Longrightarrow> holder n = Some (re_owner en, re_expires_at en)"
    and lookup_active: "lookup n t = Some en \<Longrightarrow> t \<le> re_expires_at en"
    and stage_active: "stage n t = Active \<Longrightarrow> \<exists>a x. holder n = Some (a, x) \<and> t \<le> x"
begin

text \<open>An answer at one clock is an answer about the same entry at any other.\<close>

lemma lookup_same_owner:
  "lookup n t = Some en \<Longrightarrow> lookup n t' = Some en' \<Longrightarrow> re_owner en' = re_owner en \<and> re_expires_at en' = re_expires_at en"
  using lookup_holder [of n t en] lookup_holder [of n t' en'] by simp

lemma lookup_stage_owner:
  assumes "lookup n t = Some en" and "stage n t' = Active"
  shows "t' \<le> re_expires_at en"
  using lookup_holder [OF assms(1)] stage_active [OF assms(2)] by auto

end

end
