(* ===== verification/Registrar.thy ===== *)
theory Registrar
  imports Interfaces
begin

text \<open>
  The registrar contract (\<open>contracts/registrar/src/lib.rs\<close>, \<open>pricing.rs\<close>): quotes, registrations and renewals,
  reserved labels, rate limits and the treasury counters. The registry is called with \<open>register\<close> and \<open>renew\<close>
  after the registrar has written its own records.
\<close>

section \<open>State\<close>

record pricing_breakdown =
  pb_annual_fee_stroops :: u64
  pb_duration_years :: u64
  pb_premium_stroops :: u64

record registration_quote =
  rq_fee_stroops :: u64
  rq_expiry_unix :: u64
  rq_grace_period_ends_at :: u64
  rq_valid_until :: u64
  rq_pricing :: pricing_breakdown

record renewal_quote =
  nq_fee_stroops :: u64
  nq_current_expiry_unix :: u64
  nq_extended_expiry_unix :: u64
  nq_grace_period_ends_at :: u64
  nq_pricing :: pricing_breakdown

record registrar_metrics =
  rm_treasury_balance :: u64
  rm_total_registrations :: u64
  rm_total_renewals :: u64

datatype registration_status = RsUnavailable | RsActive | RsGracePeriod | RsClaimable | RsReserved

record registration_record =
  rr_name :: string
  rr_owner :: address
  rr_registered_at :: u64
  rr_expires_at :: u64
  rr_grace_period_ends_at :: u64
  rr_fee_paid :: u64
  rr_renewed_at :: u64

record rate_limit_config =
  rl_window_size_seconds :: u64
  rl_max_registrations_per_window :: u64

datatype registrar_error =
    InsufficientFee | RrNotFound | NotRenewable | RrAlreadyRegistered | Reserved | RrUnauthorized
  | RrValidation | RegistrationClaimable | RrNotInitialized | AlreadyInitialized | RateLimitExceeded
  | RrUpgradeFailed | QuoteExpired

datatype registrar_event =
    RrUpgraded u32 u32 address
  | ReservedAdded string
  | ReservedSkipped string
  | RrRegistered string address u64 u64 u64
  | RrRenewed string address u64 u64 u64
  | RrGraceRenewed string address u64 u64 u64
  | RrRateConfig u64 u64
  | RrGraceConfig u64
  | RrWhitelisted address
  | RrUnwhitelisted address

record registrar =
  rs_registrations :: "string \<Rightarrow> registration_record option"
  rs_reserved :: "string \<Rightarrow> bool option"
  rs_treasury :: "u64 option"
  rs_registry :: "address option"
  rs_registration_count :: "u64 option"
  rs_renewal_count :: "u64 option"
  rs_rate_limit_config :: "rate_limit_config option"
  rs_grace_period_seconds :: "u64 option"
  rs_whitelisted :: "address \<Rightarrow> bool option"
  rs_registration_window :: "address \<times> u64 \<Rightarrow> u64 option"
  rs_admin :: "address option"
  rs_contract_version :: "u32 option"
  rs_wasm :: "u8 list option"
  rs_events :: "registrar_event list"

definition registrar_empty :: registrar where
  "registrar_empty = \<lparr>rs_registrations = (\<lambda>_. None), rs_reserved = (\<lambda>_. None), rs_treasury = None,
     rs_registry = None, rs_registration_count = None, rs_renewal_count = None,
     rs_rate_limit_config = None, rs_grace_period_seconds = None, rs_whitelisted = (\<lambda>_. None),
     rs_registration_window = (\<lambda>_. None), rs_admin = None, rs_contract_version = None,
     rs_wasm = None, rs_events = []\<rparr>"

definition DEFAULT_GRACE_PERIOD_SECONDS :: u64 where "DEFAULT_GRACE_PERIOD_SECONDS = GRACE_PERIOD_SECONDS"
definition MIN_GRACE_PERIOD_SECONDS :: u64 where "MIN_GRACE_PERIOD_SECONDS = 86400"
definition QUOTE_VALIDITY_SECONDS :: u64 where "QUOTE_VALIDITY_SECONDS = 300"
definition MAX_GRACE_PERIOD_SECONDS :: u64 where "MAX_GRACE_PERIOD_SECONDS = 31536000"
definition DEFAULT_RATE_LIMIT_WINDOW_SECONDS :: u64 where "DEFAULT_RATE_LIMIT_WINDOW_SECONDS = 86400"
definition DEFAULT_MAX_REGISTRATIONS_PER_WINDOW :: u64 where "DEFAULT_MAX_REGISTRATIONS_PER_WINDOW = 5"

section \<open>Helpers\<close>

definition or_zero :: "u64 option \<Rightarrow> u64" where
  "or_zero v = (case v of None \<Rightarrow> 0 | Some x \<Rightarrow> x)"

lemma or_zero_simps [simp]: "or_zero None = 0" "or_zero (Some x) = x"
  by (simp_all add: or_zero_def)

definition price_for_label_length :: "nat \<Rightarrow> u64" where
  "price_for_label_length len =
     (if len \<le> 3 then 1000000000 else if len \<le> 6 then 250000000 else 100000000)"

definition PRICING_POLICY_VERSION :: u32 where "PRICING_POLICY_VERSION = 1"

definition rs_emit :: "registrar_event \<Rightarrow> registrar \<Rightarrow> registrar" where
  "rs_emit ev s = s\<lparr>rs_events := rs_events s @ [ev]\<rparr>"

definition rs_is_reserved :: "registrar \<Rightarrow> string \<Rightarrow> bool" where
  "rs_is_reserved s label = (case rs_reserved s label of None \<Rightarrow> False | Some b \<Rightarrow> b)"

definition get_grace_period_seconds :: "registrar \<Rightarrow> u64" where
  "get_grace_period_seconds s =
     (case rs_grace_period_seconds s of None \<Rightarrow> DEFAULT_GRACE_PERIOD_SECONDS | Some g \<Rightarrow> g)"

definition compute_grace_period_ends_at :: "registrar \<Rightarrow> u64 \<Rightarrow> u64" where
  "compute_grace_period_ends_at s expiry_unix =
     grace_period_ends_at_with_duration expiry_unix (get_grace_period_seconds s)"

definition can_renew :: "u64 \<Rightarrow> u64 \<Rightarrow> (registrar_error, bool) result" where
  "can_renew grace_end now_unix =
     (if now_unix > grace_end then Inl (Err RegistrationClaimable) else Inr True)"

definition get_rate_limit_config :: "registrar \<Rightarrow> rate_limit_config" where
  "get_rate_limit_config s =
     (case rs_rate_limit_config s of
        None \<Rightarrow> \<lparr>rl_window_size_seconds = DEFAULT_RATE_LIMIT_WINDOW_SECONDS,
                 rl_max_registrations_per_window = DEFAULT_MAX_REGISTRATIONS_PER_WINDOW\<rparr>
      | Some config \<Rightarrow> config)"

definition is_whitelisted :: "registrar \<Rightarrow> address \<Rightarrow> bool" where
  "is_whitelisted s a = (case rs_whitelisted s a of None \<Rightarrow> False | Some b \<Rightarrow> b)"

definition get_registrations_in_window :: "registrar \<Rightarrow> address \<Rightarrow> u64 \<Rightarrow> u64" where
  "get_registrations_in_window s a now_unix =
     (let window_start = sat_sub now_unix (rl_window_size_seconds (get_rate_limit_config s))
      in or_zero (rs_registration_window s (a, window_start)))"

definition check_rate_limit :: "registrar \<Rightarrow> address \<Rightarrow> u64 \<Rightarrow> (registrar_error, unit) result" where
  "check_rate_limit s a now_unix =
     (if is_whitelisted s a then Inr ()
      else
        let config = get_rate_limit_config s;
            window_start = sat_sub now_unix (rl_window_size_seconds config);
            count = or_zero (rs_registration_window s (a, window_start))
        in if count \<ge> rl_max_registrations_per_window config then Inl (Err RateLimitExceeded)
           else Inr ())"

definition record_registration :: "registrar \<Rightarrow> address \<Rightarrow> u64 \<Rightarrow> registrar" where
  "record_registration s a now_unix =
     (let config = get_rate_limit_config s;
          window_start = sat_sub now_unix (rl_window_size_seconds config);
          count = or_zero (rs_registration_window s (a, window_start))
      in s\<lparr>rs_registration_window := (rs_registration_window s)((a, window_start) \<mapsto> sat_add count 1)\<rparr>)"

definition build_quote :: "registrar \<Rightarrow> string \<Rightarrow> u64 \<Rightarrow> u64 \<Rightarrow> registration_quote" where
  "build_quote s label years now_unix =
     (let annual_fee = price_for_label_length (length label);
          expiry_unix = expiry_from_now now_unix years
      in \<lparr>rq_fee_stroops = sat_mul annual_fee years,
          rq_expiry_unix = expiry_unix,
          rq_grace_period_ends_at = compute_grace_period_ends_at s expiry_unix,
          rq_valid_until = sat_add now_unix QUOTE_VALIDITY_SECONDS,
          rq_pricing = \<lparr>pb_annual_fee_stroops = annual_fee, pb_duration_years = years,
                        pb_premium_stroops = 0\<rparr>\<rparr>)"

section \<open>Administration\<close>

definition registrar_initialize :: "address \<Rightarrow> address \<Rightarrow> registrar \<Rightarrow> (registrar_error, registrar) result" where
  "registrar_initialize registry admin s =
     (if rs_registry s \<noteq> None then Inl (Err AlreadyInitialized)
      else
        let s1 = s\<lparr>rs_registry := Some registry, rs_admin := Some admin,
                   rs_contract_version := Some CONTRACT_VERSION\<rparr>;
            s2 = (if rs_rate_limit_config s1 = None
                  then s1\<lparr>rs_rate_limit_config := Some
                    \<lparr>rl_window_size_seconds = DEFAULT_RATE_LIMIT_WINDOW_SECONDS,
                     rl_max_registrations_per_window = DEFAULT_MAX_REGISTRATIONS_PER_WINDOW\<rparr>\<rparr>
                  else s1)
        in Inr (if rs_grace_period_seconds s2 = None
                then s2\<lparr>rs_grace_period_seconds := Some DEFAULT_GRACE_PERIOD_SECONDS\<rparr> else s2))"

definition registrar_get_version :: "registrar \<Rightarrow> u32" where
  "registrar_get_version s = (case rs_contract_version s of None \<Rightarrow> CONTRACT_VERSION | Some v \<Rightarrow> v)"

definition registrar_upgrade :: "env \<Rightarrow> u8 list \<Rightarrow> u8 list \<Rightarrow> registrar \<Rightarrow> (registrar_error, registrar) result" where
  "registrar_upgrade e new_wasm_hash migration_data s =
     (case rs_admin s of None \<Rightarrow> Inl (Err RrUpgradeFailed) | Some admin \<Rightarrow>
      (if \<not> require_auth e admin then Inl Trap
       else let current_version = registrar_get_version s;
                target_version = decode_target_version migration_data
            in if \<not> env_wasm_ok e new_wasm_hash then Inl Trap
               else Inr (rs_emit (RrUpgraded current_version target_version admin)
                 (s\<lparr>rs_contract_version := Some target_version, rs_wasm := Some new_wasm_hash\<rparr>))))"

text \<open>The guard of every governance entrypoint: an admin is set and has signed.\<close>

definition rs_as_admin :: "env \<Rightarrow> registrar \<Rightarrow> (registrar_error, 'a) result \<Rightarrow> (registrar_error, 'a) result" where
  "rs_as_admin e s r =
     (case rs_admin s of None \<Rightarrow> Inl (Err RrNotInitialized) | Some admin \<Rightarrow>
      (if \<not> require_auth e admin then Inl Trap else r))"

definition reserve_label :: "env \<Rightarrow> string \<Rightarrow> registrar \<Rightarrow> (registrar_error, registrar) result" where
  "reserve_label e label s = rs_as_admin e s
     (case validate_label_soroban label of Inl _ \<Rightarrow> Inl (Err RrValidation) | Inr _ \<Rightarrow>
      (if rs_is_reserved s label then Inr (rs_emit (ReservedSkipped label) s)
       else Inr (rs_emit (ReservedAdded label) (s\<lparr>rs_reserved := (rs_reserved s)(label \<mapsto> True)\<rparr>))))"

fun load_labels :: "string list \<Rightarrow> u32 \<times> registrar \<Rightarrow> u32 \<times> registrar" where
  "load_labels [] (added_count, s) = (added_count, s)"
| "load_labels (label # labels) (added_count, s) =
     (case validate_label_soroban label of
        Inr _ \<Rightarrow>
          (if rs_is_reserved s label then load_labels labels (added_count, rs_emit (ReservedSkipped label) s)
           else load_labels labels (added_count + 1,
                  rs_emit (ReservedAdded label) (s\<lparr>rs_reserved := (rs_reserved s)(label \<mapsto> True)\<rparr>)))
      | Inl _ \<Rightarrow> load_labels labels (added_count, rs_emit (ReservedSkipped label) s))"

definition load_reserved_manifest ::
    "env \<Rightarrow> string list \<Rightarrow> registrar \<Rightarrow> (registrar_error, u32 \<times> registrar) result" where
  "load_reserved_manifest e labels s = rs_as_admin e s (Inr (load_labels labels (0, s)))"

definition set_rate_limit_config :: "env \<Rightarrow> u64 \<Rightarrow> u64 \<Rightarrow> registrar \<Rightarrow> (registrar_error, registrar) result" where
  "set_rate_limit_config e window_size max_registrations s = rs_as_admin e s
     (Inr (rs_emit (RrRateConfig window_size max_registrations)
        (s\<lparr>rs_rate_limit_config := Some \<lparr>rl_window_size_seconds = window_size,
                                        rl_max_registrations_per_window = max_registrations\<rparr>\<rparr>)))"

definition set_grace_period :: "env \<Rightarrow> u64 \<Rightarrow> registrar \<Rightarrow> (registrar_error, registrar) result" where
  "set_grace_period e grace_seconds s = rs_as_admin e s
     (if \<not> (MIN_GRACE_PERIOD_SECONDS \<le> grace_seconds \<and> grace_seconds \<le> MAX_GRACE_PERIOD_SECONDS)
      then Inl (Err RrValidation)
      else Inr (rs_emit (RrGraceConfig grace_seconds) (s\<lparr>rs_grace_period_seconds := Some grace_seconds\<rparr>)))"

definition whitelist_address :: "env \<Rightarrow> address \<Rightarrow> registrar \<Rightarrow> (registrar_error, registrar) result" where
  "whitelist_address e a s = rs_as_admin e s
     (Inr (rs_emit (RrWhitelisted a) (s\<lparr>rs_whitelisted := (rs_whitelisted s)(a \<mapsto> True)\<rparr>)))"

definition remove_whitelist_address :: "env \<Rightarrow> address \<Rightarrow> registrar \<Rightarrow> (registrar_error, registrar) result" where
  "remove_whitelist_address e a s = rs_as_admin e s
     (Inr (rs_emit (RrUnwhitelisted a) (s\<lparr>rs_whitelisted := (rs_whitelisted s)(a := None)\<rparr>)))"

section \<open>Quotes\<close>

definition quote_registration ::
    "registrar \<Rightarrow> string \<Rightarrow> u64 \<Rightarrow> u64 \<Rightarrow> (registrar_error, registration_quote) result" where
  "quote_registration s label years now_unix =
     (case validate_label_soroban label of Inl _ \<Rightarrow> Inl (Err RrValidation) | Inr _ \<Rightarrow>
      (case validate_registration_years_soroban years of Inl _ \<Rightarrow> Inl (Err RrValidation) | Inr _ \<Rightarrow>
         Inr (build_quote s label years now_unix)))"

text \<open>A renewal runs from the later of the current expiry and the clock.\<close>

definition renewal_base :: "registration_record \<Rightarrow> u64 \<Rightarrow> u64" where
  "renewal_base record now_unix =
     (if rr_expires_at record > now_unix then rr_expires_at record else now_unix)"

definition quote_renewal ::
    "registrar \<Rightarrow> string \<Rightarrow> u64 \<Rightarrow> u64 \<Rightarrow> (registrar_error, renewal_quote) result" where
  "quote_renewal s name years now_unix =
     (case extract_label_soroban name of Inl _ \<Rightarrow> Inl (Err RrValidation) | Inr label \<Rightarrow>
      (case validate_registration_years_soroban years of Inl _ \<Rightarrow> Inl (Err RrValidation) | Inr _ \<Rightarrow>
      (case rs_registrations s name of None \<Rightarrow> Inl (Err RrNotFound) | Some record \<Rightarrow>
        let base_time = renewal_base record now_unix;
            extended_expiry_unix = expiry_from_now base_time years;
            annual_fee = price_for_label_length (length label)
        in Inr \<lparr>nq_fee_stroops = sat_mul annual_fee years,
                nq_current_expiry_unix = rr_expires_at record,
                nq_extended_expiry_unix = extended_expiry_unix,
                nq_grace_period_ends_at = compute_grace_period_ends_at s extended_expiry_unix,
                nq_pricing = \<lparr>pb_annual_fee_stroops = annual_fee, pb_duration_years = years,
                              pb_premium_stroops = 0\<rparr>\<rparr>)))"

section \<open>Registration\<close>

text \<open>A call to the registry; its failure traps.\<close>

definition registry_call ::
    "'w invoke \<Rightarrow> env \<Rightarrow> string \<Rightarrow> val list \<Rightarrow> registrar \<times> 'w \<Rightarrow> (registrar_error, registrar \<times> 'w) result" where
  "registry_call call e f args sw =
     (case rs_registry (fst sw) of None \<Rightarrow> Inl (Err RrNotInitialized) | Some registry \<Rightarrow>
      (case call (callee_env e registry) registry f args (snd sw) of
         Some (VUnit, w') \<Rightarrow> Inr (fst sw, w')
       | _ \<Rightarrow> Inl Trap))"

definition credit_treasury :: "registrar \<Rightarrow> u64 \<Rightarrow> registrar" where
  "credit_treasury s amount = s\<lparr>rs_treasury := Some (sat_add (or_zero (rs_treasury s)) amount)\<rparr>"

definition registrar_register ::
    "'w invoke \<Rightarrow> env \<Rightarrow> string \<Rightarrow> address \<Rightarrow> u64 \<Rightarrow> u64 \<Rightarrow> u64
       \<Rightarrow> registrar \<times> 'w \<Rightarrow> (registrar_error, registrar \<times> 'w) result" where
  "registrar_register call e label owner years max_price now_unix sw =
     (let s = fst sw in
      if \<not> require_auth e owner then Inl Trap else
      case validate_label_soroban label of Inl _ \<Rightarrow> Inl (Err RrValidation) | Inr _ \<Rightarrow>
      (if now_unix > sat_add now_unix QUOTE_VALIDITY_SECONDS then Inl (Err QuoteExpired) else
      case validate_registration_years_soroban years of Inl _ \<Rightarrow> Inl (Err RrValidation) | Inr _ \<Rightarrow>
      (if rs_is_reserved s label then Inl (Err Reserved) else
      case check_rate_limit s owner now_unix of Inl err \<Rightarrow> Inl err | Inr _ \<Rightarrow>
      (let quote = build_quote s label years now_unix in
      if max_price < rq_fee_stroops quote then Inl (Err InsufficientFee) else
      if now_unix > rq_valid_until quote then Inl (Err QuoteExpired) else
      case build_xlm_name label of Inl _ \<Rightarrow> Inl (Err RrValidation) | Inr name \<Rightarrow>
      (if (case rs_registrations s name of None \<Rightarrow> False
           | Some existing \<Rightarrow> now_unix \<le> rr_grace_period_ends_at existing)
       then Inl (Err RrAlreadyRegistered)
       else
         let record = \<lparr>rr_name = name, rr_owner = owner, rr_registered_at = now_unix,
                       rr_expires_at = rq_expiry_unix quote,
                       rr_grace_period_ends_at = rq_grace_period_ends_at quote,
                       rr_fee_paid = rq_fee_stroops quote, rr_renewed_at = now_unix\<rparr>;
             s1 = s\<lparr>rs_registrations := (rs_registrations s)(name \<mapsto> record)\<rparr>;
             s2 = record_registration s1 owner now_unix;
             s3 = credit_treasury s2 (rq_fee_stroops quote);
             s4 = s3\<lparr>rs_registration_count := Some (sat_add (or_zero (rs_registration_count s3)) 1)\<rparr>
         in case registry_call call e ''register''
                   [VStr name, VAddr owner, VOptStr None, VOptStr None, VU64 now_unix,
                    VU64 (rr_expires_at record), VU64 (rr_grace_period_ends_at record)] (s4, snd sw) of
              Inl err \<Rightarrow> Inl err
            | Inr (s5, w5) \<Rightarrow>
                Inr (rs_emit (RrRegistered label owner (rq_fee_stroops quote) (rr_expires_at record)
                       (rr_grace_period_ends_at record)) s5, w5))))))"

section \<open>Renewal\<close>

text \<open>
  The tail that \<open>renew\<close> and \<open>extend_during_grace\<close> share: new dates, counters, the call to the registry
  and the event.
\<close>

definition apply_renewal ::
    "'w invoke \<Rightarrow> env \<Rightarrow> (string \<Rightarrow> address \<Rightarrow> u64 \<Rightarrow> u64 \<Rightarrow> u64 \<Rightarrow> registrar_event) \<Rightarrow> string \<Rightarrow> address
       \<Rightarrow> registration_record \<Rightarrow> u64 \<Rightarrow> u64 \<Rightarrow> u64 \<Rightarrow> registrar \<times> 'w \<Rightarrow> (registrar_error, registrar \<times> 'w) result" where
  "apply_renewal call e event name caller record expires_at payment_stroops now_unix sw =
     (let s = fst sw;
          record' = record\<lparr>rr_expires_at := expires_at,
                           rr_grace_period_ends_at := compute_grace_period_ends_at s expires_at,
                           rr_renewed_at := now_unix,
                           rr_fee_paid := sat_add (rr_fee_paid record) payment_stroops\<rparr>;
          s1 = s\<lparr>rs_registrations := (rs_registrations s)(name \<mapsto> record')\<rparr>;
          s2 = credit_treasury s1 payment_stroops;
          s3 = s2\<lparr>rs_renewal_count := Some (sat_add (or_zero (rs_renewal_count s2)) 1)\<rparr>
      in case registry_call call e ''renew''
                [VStr name, VAddr caller, VU64 (rr_expires_at record'),
                 VU64 (rr_grace_period_ends_at record'), VU64 now_unix] (s3, snd sw) of
           Inl err \<Rightarrow> Inl err
         | Inr (s4, w4) \<Rightarrow>
             Inr (rs_emit (event name caller payment_stroops (rr_expires_at record')
                    (rr_grace_period_ends_at record')) s4, w4))"

definition registrar_renew ::
    "'w invoke \<Rightarrow> env \<Rightarrow> string \<Rightarrow> address \<Rightarrow> u64 \<Rightarrow> u64 \<Rightarrow> u64
       \<Rightarrow> registrar \<times> 'w \<Rightarrow> (registrar_error, registrar \<times> 'w) result" where
  "registrar_renew call e name caller years payment_stroops now_unix sw =
     (if \<not> require_auth e caller then Inl Trap else
      case extract_label_soroban name of Inl _ \<Rightarrow> Inl (Err RrValidation) | Inr label \<Rightarrow>
      (case validate_registration_years_soroban years of Inl _ \<Rightarrow> Inl (Err RrValidation) | Inr _ \<Rightarrow>
      (case rs_registrations (fst sw) name of None \<Rightarrow> Inl (Err RrNotFound) | Some record \<Rightarrow>
       (if rr_owner record \<noteq> caller then Inl (Err RrUnauthorized) else
        case can_renew (rr_grace_period_ends_at record) now_unix of
          Inl err \<Rightarrow> Inl err
        | Inr False \<Rightarrow> Inl (Err NotRenewable)
        | Inr True \<Rightarrow>
            let fee_due = sat_mul (price_for_label_length (length label)) years
            in if payment_stroops < fee_due then Inl (Err InsufficientFee)
               else apply_renewal call e RrRenewed name caller record
                      (expiry_from_now (renewal_base record now_unix) years) payment_stroops now_unix sw))))"

definition extend_during_grace ::
    "'w invoke \<Rightarrow> env \<Rightarrow> string \<Rightarrow> address \<Rightarrow> u64 \<Rightarrow> u64 \<Rightarrow> u64
       \<Rightarrow> registrar \<times> 'w \<Rightarrow> (registrar_error, registrar \<times> 'w) result" where
  "extend_during_grace call e name caller years payment_stroops now_unix sw =
     (if \<not> require_auth e caller then Inl Trap else
      case extract_label_soroban name of Inl _ \<Rightarrow> Inl (Err RrValidation) | Inr label \<Rightarrow>
      (case validate_registration_years_soroban years of Inl _ \<Rightarrow> Inl (Err RrValidation) | Inr _ \<Rightarrow>
      (case rs_registrations (fst sw) name of None \<Rightarrow> Inl (Err RrNotFound) | Some record \<Rightarrow>
       (if rr_owner record \<noteq> caller then Inl (Err RrUnauthorized)
        else if now_unix \<le> rr_expires_at record then Inl (Err NotRenewable)
        else if now_unix > rr_grace_period_ends_at record then Inl (Err RegistrationClaimable)
        else
          let fee_due = sat_mul (price_for_label_length (length label)) years
          in if payment_stroops < fee_due then Inl (Err InsufficientFee)
             else apply_renewal call e RrGraceRenewed name caller record
                    (expiry_from_now now_unix years) payment_stroops now_unix sw))))"

section \<open>Queries\<close>

definition is_available :: "registrar \<Rightarrow> string \<Rightarrow> u64 \<Rightarrow> bool" where
  "is_available s label now_unix =
     (case build_xlm_name label of Inl _ \<Rightarrow> False | Inr name \<Rightarrow>
      (case rs_registrations s name of None \<Rightarrow> True
       | Some record \<Rightarrow> now_unix > rr_grace_period_ends_at record))"

definition treasury_balance :: "registrar \<Rightarrow> u64" where
  "treasury_balance s = or_zero (rs_treasury s)"

definition fee_metrics :: "registrar \<Rightarrow> registrar_metrics" where
  "fee_metrics s = \<lparr>rm_treasury_balance = or_zero (rs_treasury s),
     rm_total_registrations = or_zero (rs_registration_count s),
     rm_total_renewals = or_zero (rs_renewal_count s)\<rparr>"

definition accounting_report :: "registrar \<Rightarrow> registrar_metrics" where
  "accounting_report s = \<lparr>rm_treasury_balance = or_zero (rs_treasury s),
     rm_total_registrations = or_zero (rs_registration_count s),
     rm_total_renewals = or_zero (rs_renewal_count s)\<rparr>"

definition registration_status_of :: "registrar \<Rightarrow> string \<Rightarrow> u64 \<Rightarrow> registration_status" where
  "registration_status_of s label now_unix =
     (if rs_is_reserved s label then RsReserved
      else case build_xlm_name label of Inl _ \<Rightarrow> RsUnavailable | Inr name \<Rightarrow>
       (case rs_registrations s name of None \<Rightarrow> RsUnavailable | Some record \<Rightarrow>
        (if now_unix \<le> rr_expires_at record then RsActive
         else if now_unix \<le> rr_grace_period_ends_at record then RsGracePeriod
         else RsClaimable)))"

definition registrar_registration :: "registrar \<Rightarrow> string \<Rightarrow> registration_record option" where
  "registrar_registration s name = rs_registrations s name"

definition registrar_get_grace_period :: "registrar \<Rightarrow> u64" where
  "registrar_get_grace_period s = get_grace_period_seconds s"

end
