(* ===== verification/Resolver.thy ===== *)
theory Resolver
  imports Interfaces "HOL-Library.AList"
begin

text \<open>
  The resolver contract (\<open>contracts/resolver/src/lib.rs\<close>): forward records (name to addresses and text
  records), reverse and primary records (address to name), wildcard fallback to parent names, and batch updates. The
  registry is asked who owns a name, the subdomain contract how deep names may be. Storage TTL extension has no
  counterpart in the model: stored entries stay.
\<close>

section \<open>State\<close>

text \<open>A \<open>Map<String, String>\<close> of the host: an association list with distinct keys.\<close>

type_synonym string_map = "(string \<times> string) list"

definition map_get :: "string_map \<Rightarrow> string \<Rightarrow> string option" where
  "map_get m k = map_of m k"

definition map_set :: "string_map \<Rightarrow> string \<Rightarrow> string \<Rightarrow> string_map" where
  "map_set m k v = AList.update k v m"

record resolution_record =
  rec_owner :: address
  rec_addresses :: string_map
  rec_text_records :: string_map
  rec_updated_at :: u64
  rec_is_wildcard :: bool

datatype batch_op = SetAddress string | SetText string string

datatype resolver_error =
    RvValidation | RecordNotFound | RvUnauthorized | TooManyTextRecords | RvNotInitialized
  | TextRecordValueTooLong | InvalidChain | InvalidKey | BatchTooLarge | RvUpgradeFailed

datatype resolver_event =
    RvUpgraded u32 u32 address
  | ForwardSet string string string u64
  | ReverseSet string string
  | PrimarySet string string
  | TextSet string string string u64
  | RecordRemoved string "string option"

record resolver =
  rv_forward :: "string \<Rightarrow> resolution_record option"
  rv_reverse :: "string \<Rightarrow> string option"
  rv_primary :: "string \<Rightarrow> string option"
  rv_wildcard :: "string \<Rightarrow> bool option"
  rv_registry :: "address option"
  rv_subdomain_contract :: "address option"
  rv_admin :: "address option"
  rv_contract_version :: "u32 option"
  rv_wasm :: "u8 list option"
  rv_events :: "resolver_event list"

definition resolver_empty :: resolver where
  "resolver_empty = \<lparr>rv_forward = (\<lambda>_. None), rv_reverse = (\<lambda>_. None), rv_primary = (\<lambda>_. None),
     rv_wildcard = (\<lambda>_. None), rv_registry = None, rv_subdomain_contract = None, rv_admin = None,
     rv_contract_version = None, rv_wasm = None, rv_events = []\<rparr>"

definition DEFAULT_CHAIN :: string where "DEFAULT_CHAIN = ''stellar''"
definition DEFAULT_FALLBACK_DEPTH :: u32 where "DEFAULT_FALLBACK_DEPTH = 3"
definition MAX_BATCH_OPS :: nat where "MAX_BATCH_OPS = 16"

section \<open>Helpers\<close>

definition rv_emit :: "resolver_event \<Rightarrow> resolver \<Rightarrow> resolver" where
  "rv_emit ev s = s\<lparr>rv_events := rv_events s @ [ev]\<rparr>"

definition rv_put_record :: "resolver \<Rightarrow> string \<Rightarrow> resolution_record \<Rightarrow> resolver" where
  "rv_put_record s name record = s\<lparr>rv_forward := (rv_forward s)(name \<mapsto> record)\<rparr>"

definition rv_get_record :: "resolver \<Rightarrow> string \<Rightarrow> (resolver_error, resolution_record) result" where
  "rv_get_record s name =
     (case rv_forward s name of None \<Rightarrow> Inl (Err RecordNotFound) | Some record \<Rightarrow> Inr record)"

text \<open>
  The owner of a name according to the registry, if one is configured; a failing call (no entry, or expired at the
  given clock) traps.
\<close>

definition registry_owner ::
    "query \<Rightarrow> env \<Rightarrow> resolver \<Rightarrow> string \<Rightarrow> u64 \<Rightarrow> (resolver_error, address option) result" where
  "registry_owner q e s name now_unix =
     (case rv_registry s of
        None \<Rightarrow> Inr None
      | Some registry \<Rightarrow>
          (case query_resolve q e registry name now_unix of
             None \<Rightarrow> Inl Trap
           | Some entry \<Rightarrow> Inr (Some (re_owner entry))))"

definition assert_owner ::
    "query \<Rightarrow> env \<Rightarrow> resolver \<Rightarrow> string \<Rightarrow> resolution_record \<Rightarrow> address \<Rightarrow> u64 \<Rightarrow> (resolver_error, unit) result" where
  "assert_owner q e s name record caller now_unix =
     (case registry_owner q e s name now_unix of
        Inl err \<Rightarrow> Inl err
      | Inr (Some owner) \<Rightarrow> (if owner \<noteq> caller then Inl (Err RvUnauthorized) else Inr ())
      | Inr None \<Rightarrow> (if rec_owner record \<noteq> caller then Inl (Err RvUnauthorized) else Inr ()))"

definition validate_text_record_key :: "string \<Rightarrow> bool" where
  "validate_text_record_key key \<longleftrightarrow> length key \<noteq> 0 \<and> length key \<le> 64
     \<and> list_all (\<lambda>b. is_ascii_lowercase b \<or> is_ascii_digit b \<or> b = CHR ''.'' \<or> b = CHR ''-'' \<or> b = CHR ''_'') key"

text \<open>When the default-chain address changes, the mappings of the old address go.\<close>

definition drop_old_address :: "string_map \<Rightarrow> string \<Rightarrow> resolver \<Rightarrow> resolver" where
  "drop_old_address addresses new_addr s =
     (case map_get addresses DEFAULT_CHAIN of
        None \<Rightarrow> s
      | Some old_addr \<Rightarrow>
          (if old_addr \<noteq> new_addr
           then s\<lparr>rv_reverse := (rv_reverse s)(old_addr := None),
                  rv_primary := (rv_primary s)(old_addr := None)\<rparr>
           else s))"

definition set_reverse :: "string \<Rightarrow> string \<Rightarrow> resolver \<Rightarrow> resolver" where
  "set_reverse address name s = s\<lparr>rv_reverse := (rv_reverse s)(address \<mapsto> name)\<rparr>"

definition wildcard_resolution_enabled :: "resolver \<Rightarrow> string \<Rightarrow> bool" where
  "wildcard_resolution_enabled s name = (case rv_wildcard s name of None \<Rightarrow> True | Some b \<Rightarrow> b)"

text \<open>The name after the first dot; \<open>copy_into_slice\<close> goes to a buffer of 256 bytes.\<close>

definition parent_name :: "string \<Rightarrow> string option" where
  "parent_name name =
     (if length name = 0 \<or> length name > 256 then None
      else case position CHR ''.'' name of None \<Rightarrow> None | Some dot_pos \<Rightarrow>
        let parent_bytes = drop (dot_pos + 1) name
        in if parent_bytes = [] then None
           else if valid_utf8 parent_bytes then Some parent_bytes else None)"

definition fallback_depth_limit :: "query \<Rightarrow> env \<Rightarrow> resolver \<Rightarrow> u32" where
  "fallback_depth_limit q e s =
     (case rv_subdomain_contract s of
        None \<Rightarrow> DEFAULT_FALLBACK_DEPTH
      | Some subdomain_contract \<Rightarrow>
          (case q (callee_env e subdomain_contract) subdomain_contract ''max_depth'' [] of
             Some (VU32 depth) \<Rightarrow> depth
           | _ \<Rightarrow> DEFAULT_FALLBACK_DEPTH))"

text \<open>
  The loop of \<open>resolve_with_fallback\<close>; the second argument is \<open>max_hops - hops\<close>, which the loop counts down
  to its exit test \<open>hops >= max_hops\<close>.
\<close>

fun fallback_loop :: "resolver \<Rightarrow> nat \<Rightarrow> string \<Rightarrow> string \<Rightarrow> (resolution_record \<times> bool) option" where
  "fallback_loop s left name current =
     (case rv_forward s current of
        Some record \<Rightarrow>
          (if current = name then Some (record, False)
           else if wildcard_resolution_enabled s current then Some (record, True)
           else None)
      | None \<Rightarrow>
          (case left of
             0 \<Rightarrow> None
           | Suc left' \<Rightarrow>
               (case parent_name current of
                  None \<Rightarrow> None
                | Some parent \<Rightarrow> fallback_loop s left' name parent)))"

declare fallback_loop.simps [simp del]

definition resolve_with_fallback ::
    "query \<Rightarrow> env \<Rightarrow> resolver \<Rightarrow> string \<Rightarrow> (resolution_record \<times> bool) option" where
  "resolve_with_fallback q e s name =
     (case validate_fqdn_soroban name of
        Inl _ \<Rightarrow> None
      | Inr _ \<Rightarrow> fallback_loop s (unat (fallback_depth_limit q e s)) name name)"

definition reverse_lookup_matches_current_owner ::
    "query \<Rightarrow> env \<Rightarrow> resolver \<Rightarrow> string \<Rightarrow> string \<Rightarrow> bool" where
  "reverse_lookup_matches_current_owner q e s name address =
     (case rv_forward s name of
        None \<Rightarrow> False
      | Some record \<Rightarrow>
          (if map_get (rec_addresses record) DEFAULT_CHAIN \<noteq> Some address then False
           else case rv_registry s of
                  None \<Rightarrow> True
                | Some registry \<Rightarrow>
                    (case query_resolve q e registry name (env_timestamp e) of
                       Some entry \<Rightarrow> re_owner entry = rec_owner record
                     | None \<Rightarrow> False)))"

definition cleanup_stale_reverse :: "string \<Rightarrow> string \<Rightarrow> resolver \<Rightarrow> resolver" where
  "cleanup_stale_reverse address name s =
     (let s1 = (if rv_reverse s address = Some name
                then s\<lparr>rv_reverse := (rv_reverse s)(address := None)\<rparr> else s)
      in if rv_primary s1 address = Some name
         then s1\<lparr>rv_primary := (rv_primary s1)(address := None)\<rparr> else s1)"

section \<open>Administration\<close>

definition resolver_initialize :: "address \<Rightarrow> address \<Rightarrow> resolver \<Rightarrow> (resolver_error, resolver) result" where
  "resolver_initialize registry admin s =
     (if rv_registry s \<noteq> None then Inl (Err RvUnauthorized)
      else Inr (s\<lparr>rv_registry := Some registry, rv_admin := Some admin,
                  rv_contract_version := Some CONTRACT_VERSION\<rparr>))"

definition set_subdomain_contract :: "env \<Rightarrow> address \<Rightarrow> resolver \<Rightarrow> (resolver_error, resolver) result" where
  "set_subdomain_contract e subdomain_contract s =
     (case rv_admin s of None \<Rightarrow> Inl (Err RvNotInitialized) | Some admin \<Rightarrow>
      (if \<not> require_auth e admin then Inl Trap
       else Inr (s\<lparr>rv_subdomain_contract := Some subdomain_contract\<rparr>)))"

definition resolver_get_version :: "resolver \<Rightarrow> u32" where
  "resolver_get_version s = (case rv_contract_version s of None \<Rightarrow> CONTRACT_VERSION | Some v \<Rightarrow> v)"

definition resolver_upgrade :: "env \<Rightarrow> u8 list \<Rightarrow> u8 list \<Rightarrow> resolver \<Rightarrow> (resolver_error, resolver) result" where
  "resolver_upgrade e new_wasm_hash migration_data s =
     (case rv_admin s of None \<Rightarrow> Inl (Err RvUpgradeFailed) | Some admin \<Rightarrow>
      (if \<not> require_auth e admin then Inl Trap
       else let current_version = resolver_get_version s;
                target_version = decode_target_version migration_data
            in if \<not> env_wasm_ok e new_wasm_hash then Inl Trap
               else Inr (rv_emit (RvUpgraded current_version target_version admin)
                 (s\<lparr>rv_contract_version := Some target_version, rv_wasm := Some new_wasm_hash\<rparr>))))"

section \<open>Writing records\<close>

definition set_record ::
    "query \<Rightarrow> env \<Rightarrow> string \<Rightarrow> address \<Rightarrow> string \<Rightarrow> u64 \<Rightarrow> resolver \<Rightarrow> (resolver_error, resolver) result" where
  "set_record q e name owner address now_unix s =
     (if \<not> require_auth e owner then Inl Trap else
      case validate_fqdn_soroban name of Inl _ \<Rightarrow> Inl (Err RvValidation) | Inr _ \<Rightarrow>
      (case registry_owner q e s name now_unix of Inl err \<Rightarrow> Inl err | Inr registry_backed_owner \<Rightarrow>
       (if (case registry_backed_owner of None \<Rightarrow> False | Some backed \<Rightarrow> backed \<noteq> owner)
        then Inl (Err RvUnauthorized)
        else
          let canonical_owner = (case registry_backed_owner of None \<Rightarrow> owner | Some backed \<Rightarrow> backed)
          in case (case rv_forward s name of
                     None \<Rightarrow> Inr ([], s)
                   | Some existing \<Rightarrow>
                       (if registry_backed_owner = None \<and> rec_owner existing \<noteq> canonical_owner
                        then Inl (Err RvUnauthorized)
                        else Inr (rec_addresses existing, drop_old_address (rec_addresses existing) address s)))
             of Inl err \<Rightarrow> Inl err | Inr (addresses, s1) \<Rightarrow>
               let text_records = (case rv_forward s1 name of None \<Rightarrow> [] | Some existing \<Rightarrow> rec_text_records existing);
                   record = \<lparr>rec_owner = canonical_owner,
                             rec_addresses = map_set addresses DEFAULT_CHAIN address,
                             rec_text_records = text_records, rec_updated_at = now_unix,
                             rec_is_wildcard = False\<rparr>
               in Inr (rv_emit (ReverseSet address name)
                    (rv_emit (ForwardSet name address DEFAULT_CHAIN now_unix)
                      (set_reverse address name (rv_put_record s1 name record)))))))"

definition set_address ::
    "query \<Rightarrow> env \<Rightarrow> string \<Rightarrow> address \<Rightarrow> string \<Rightarrow> string \<Rightarrow> u64 \<Rightarrow> resolver \<Rightarrow> (resolver_error, resolver) result" where
  "set_address q e name caller chain address now_unix s =
     (if \<not> require_auth e caller then Inl Trap else
      case rv_get_record s name of Inl err \<Rightarrow> Inl err | Inr record \<Rightarrow>
      (case assert_owner q e s name record caller now_unix of Inl err \<Rightarrow> Inl err | Inr _ \<Rightarrow>
        let s1 = (if chain = DEFAULT_CHAIN
                  then rv_emit (ReverseSet address name)
                         (set_reverse address name (drop_old_address (rec_addresses record) address s))
                  else s);
            record' = record\<lparr>rec_addresses := map_set (rec_addresses record) chain address,
                             rec_updated_at := now_unix\<rparr>
        in Inr (rv_emit (ForwardSet name address chain now_unix) (rv_put_record s1 name record'))))"

definition get_address :: "resolver \<Rightarrow> string \<Rightarrow> string \<Rightarrow> string option" where
  "get_address s name chain =
     (case rv_forward s name of None \<Rightarrow> None | Some record \<Rightarrow> map_get (rec_addresses record) chain)"

definition set_text_record ::
    "query \<Rightarrow> env \<Rightarrow> string \<Rightarrow> address \<Rightarrow> string \<Rightarrow> string \<Rightarrow> u64 \<Rightarrow> resolver \<Rightarrow> (resolver_error, resolver) result" where
  "set_text_record q e name caller key val now_unix s =
     (if \<not> require_auth e caller then Inl Trap
      else if \<not> validate_text_record_key key then Inl (Err InvalidKey)
      else if length val > MAX_TEXT_RECORD_VALUE_LENGTH then Inl (Err TextRecordValueTooLong)
      else
      case rv_get_record s name of Inl err \<Rightarrow> Inl err | Inr record \<Rightarrow>
      (case assert_owner q e s name record caller now_unix of Inl err \<Rightarrow> Inl err | Inr _ \<Rightarrow>
       (if map_get (rec_text_records record) key = None \<and> length (rec_text_records record) \<ge> MAX_TEXT_RECORDS
        then Inl (Err TooManyTextRecords)
        else
          let record' = record\<lparr>rec_text_records := map_set (rec_text_records record) key val,
                               rec_updated_at := now_unix\<rparr>
          in Inr (rv_emit (TextSet name key val now_unix) (rv_put_record s name record')))))"

definition set_primary_name ::
    "query \<Rightarrow> env \<Rightarrow> string \<Rightarrow> address \<Rightarrow> string \<Rightarrow> resolver \<Rightarrow> (resolver_error, resolver) result" where
  "set_primary_name q e address caller name s =
     (if \<not> require_auth e caller then Inl Trap else
      case rv_get_record s name of Inl err \<Rightarrow> Inl err | Inr record \<Rightarrow>
      (case assert_owner q e s name record caller 0 of Inl err \<Rightarrow> Inl err | Inr _ \<Rightarrow>
       (case map_get (rec_addresses record) DEFAULT_CHAIN of
          None \<Rightarrow> Inl (Err RvUnauthorized)
        | Some stellar_addr \<Rightarrow>
            (if stellar_addr \<noteq> address then Inl (Err RvUnauthorized)
             else Inr (rv_emit (PrimarySet address name)
                    (s\<lparr>rv_primary := (rv_primary s)(address \<mapsto> name)\<rparr>))))))"

definition remove_record ::
    "query \<Rightarrow> env \<Rightarrow> string \<Rightarrow> address \<Rightarrow> resolver \<Rightarrow> (resolver_error, resolver) result" where
  "remove_record q e name caller s =
     (if \<not> require_auth e caller then Inl Trap else
      case rv_get_record s name of Inl err \<Rightarrow> Inl err | Inr record \<Rightarrow>
      (case assert_owner q e s name record caller 0 of Inl err \<Rightarrow> Inl err | Inr _ \<Rightarrow>
        let former_address = map_get (rec_addresses record) DEFAULT_CHAIN;
            s1 = (case former_address of
                    None \<Rightarrow> s
                  | Some stellar_addr \<Rightarrow>
                      s\<lparr>rv_reverse := (rv_reverse s)(stellar_addr := None),
                        rv_primary := (rv_primary s)(stellar_addr := None)\<rparr>)
        in Inr (rv_emit (RecordRemoved name former_address)
             (s1\<lparr>rv_forward := (rv_forward s1)(name := None), rv_wildcard := (rv_wildcard s1)(name := None)\<rparr>))))"

definition clear_reverse_record :: "env \<Rightarrow> string \<Rightarrow> address \<Rightarrow> resolver \<Rightarrow> (resolver_error, resolver) result" where
  "clear_reverse_record e name previous_owner s =
     (case rv_registry s of None \<Rightarrow> Inl Trap | Some registry \<Rightarrow>
      (if \<not> require_auth e registry then Inl Trap
       else
         let key = strkey previous_owner;
             s1 = (if rv_reverse s key = Some name
                   then s\<lparr>rv_reverse := (rv_reverse s)(key := None)\<rparr> else s)
         in Inr (if rv_primary s1 key = Some name
                 then s1\<lparr>rv_primary := (rv_primary s1)(key := None)\<rparr> else s1)))"

definition resolver_update_owner ::
    "query \<Rightarrow> env \<Rightarrow> string \<Rightarrow> address \<Rightarrow> address \<Rightarrow> resolver \<Rightarrow> (resolver_error, resolver) result" where
  "resolver_update_owner q e name caller new_owner s =
     (if \<not> require_auth e caller then Inl Trap else
      case rv_get_record s name of Inl err \<Rightarrow> Inl err | Inr record \<Rightarrow>
      (case assert_owner q e s name record caller 0 of Inl err \<Rightarrow> Inl err | Inr _ \<Rightarrow>
         Inr (rv_put_record s name (record\<lparr>rec_owner := new_owner\<rparr>))))"

definition transfer_record_owner ::
    "env \<Rightarrow> string \<Rightarrow> address \<Rightarrow> address \<Rightarrow> resolver \<Rightarrow> (resolver_error, resolver) result" where
  "transfer_record_owner e name caller new_owner s =
     (if \<not> require_auth e caller then Inl Trap else
      case rv_get_record s name of Inl err \<Rightarrow> Inl err | Inr record \<Rightarrow>
      (if rec_owner record \<noteq> caller then Inl (Err RvUnauthorized)
       else Inr (rv_put_record s name (record\<lparr>rec_owner := new_owner\<rparr>))))"

definition set_wildcard_resolution ::
    "query \<Rightarrow> env \<Rightarrow> string \<Rightarrow> address \<Rightarrow> bool \<Rightarrow> u64 \<Rightarrow> resolver \<Rightarrow> (resolver_error, resolver) result" where
  "set_wildcard_resolution q e name caller enabled now_unix s =
     (case validate_fqdn_soroban name of Inl _ \<Rightarrow> Inl (Err RvValidation) | Inr _ \<Rightarrow>
      (case rv_get_record s name of Inl err \<Rightarrow> Inl err | Inr record \<Rightarrow>
      (case assert_owner q e s name record caller now_unix of Inl err \<Rightarrow> Inl err | Inr _ \<Rightarrow>
         Inr (s\<lparr>rv_wildcard := (rv_wildcard s)(name \<mapsto> enabled)\<rparr>))))"

section \<open>Batches\<close>

text \<open>One pass of the loop of \<open>batch_set\<close>; invalid text operations are skipped.\<close>

fun batch_step ::
    "string \<Rightarrow> u64 \<Rightarrow> batch_op \<Rightarrow> resolution_record \<times> u32 \<times> resolver \<Rightarrow> resolution_record \<times> u32 \<times> resolver" where
  "batch_step name now_unix (SetAddress new_addr) (record, applied, s) =
     (record\<lparr>rec_addresses := map_set (rec_addresses record) DEFAULT_CHAIN new_addr\<rparr>, applied + 1,
      rv_emit (ReverseSet new_addr name) (rv_emit (ForwardSet name new_addr DEFAULT_CHAIN now_unix)
        (set_reverse new_addr name (drop_old_address (rec_addresses record) new_addr s))))"
| "batch_step name now_unix (SetText key val) (record, applied, s) =
     (if \<not> validate_text_record_key key then (record, applied, s)
      else if length val > MAX_TEXT_RECORD_VALUE_LENGTH then (record, applied, s)
      else if map_get (rec_text_records record) key = None \<and> length (rec_text_records record) \<ge> MAX_TEXT_RECORDS
      then (record, applied, s)
      else (record\<lparr>rec_text_records := map_set (rec_text_records record) key val\<rparr>, applied + 1,
            rv_emit (TextSet name key val now_unix) s))"

definition batch_set ::
    "query \<Rightarrow> env \<Rightarrow> string \<Rightarrow> address \<Rightarrow> batch_op list \<Rightarrow> u64 \<Rightarrow> resolver \<Rightarrow> (resolver_error, u32 \<times> resolver) result" where
  "batch_set q e name caller ops now_unix s =
     (case validate_fqdn_soroban name of Inl _ \<Rightarrow> Inl (Err RvValidation) | Inr _ \<Rightarrow>
      (if \<not> require_auth e caller then Inl Trap
       else if length ops > MAX_BATCH_OPS then Inl (Err BatchTooLarge)
       else
       case rv_get_record s name of Inl err \<Rightarrow> Inl err | Inr record \<Rightarrow>
       (case assert_owner q e s name record caller now_unix of Inl err \<Rightarrow> Inl err | Inr _ \<Rightarrow>
         (case fold (batch_step name now_unix) ops (record, 0, s) of
            (record', applied, s') \<Rightarrow>
              Inr (applied, rv_put_record s' name (record'\<lparr>rec_updated_at := now_unix\<rparr>))))))"

section \<open>Reading\<close>

definition resolve_name :: "query \<Rightarrow> env \<Rightarrow> resolver \<Rightarrow> string \<Rightarrow> resolution_record option" where
  "resolve_name q e s name =
     (case resolve_with_fallback q e s name of
        None \<Rightarrow> None
      | Some (record, is_wildcard) \<Rightarrow> Some (record\<lparr>rec_is_wildcard := is_wildcard\<rparr>))"

definition get_stellar_address :: "query \<Rightarrow> env \<Rightarrow> resolver \<Rightarrow> string \<Rightarrow> string option" where
  "get_stellar_address q e s name =
     (case resolve_name q e s name of None \<Rightarrow> None | Some record \<Rightarrow> map_get (rec_addresses record) DEFAULT_CHAIN)"

definition has_record :: "resolver \<Rightarrow> string \<Rightarrow> bool" where
  "has_record s name \<longleftrightarrow> rv_forward s name \<noteq> None"

text \<open>\<open>reverse\<close> answers and, on the way, deletes mappings it finds stale.\<close>

definition resolver_reverse :: "query \<Rightarrow> env \<Rightarrow> string \<Rightarrow> resolver \<Rightarrow> string option \<times> resolver" where
  "resolver_reverse q e address s =
     (case (case rv_primary s address of
              None \<Rightarrow> (None, s)
            | Some name \<Rightarrow>
                (if reverse_lookup_matches_current_owner q e s name address then (Some name, s)
                 else (None, cleanup_stale_reverse address name s)))
      of (Some name, s1) \<Rightarrow> (Some name, s1)
       | (None, s1) \<Rightarrow>
           (case rv_reverse s1 address of
              None \<Rightarrow> (None, s1)
            | Some name \<Rightarrow>
                (if reverse_lookup_matches_current_owner q e s1 name address then (Some name, s1)
                 else (None, cleanup_stale_reverse address name s1))))"

definition batch_resolve :: "query \<Rightarrow> env \<Rightarrow> resolver \<Rightarrow> string list \<Rightarrow> resolution_record option list" where
  "batch_resolve q e s names = map (resolve_name q e s) names"

fun batch_reverse :: "query \<Rightarrow> env \<Rightarrow> string list \<Rightarrow> resolver \<Rightarrow> string option list \<times> resolver" where
  "batch_reverse q e [] s = ([], s)"
| "batch_reverse q e (address # addresses) s =
     (case resolver_reverse q e address s of (answer, s1) \<Rightarrow>
        (case batch_reverse q e addresses s1 of (answers, s2) \<Rightarrow> (answer # answers, s2)))"

end

