(* ===== verification/Auction.thy ===== *)
theory Auction
  imports Interfaces
begin

text \<open>
  The auction contract (\<open>contracts/auction/src/lib.rs\<close>): sealed-price (Vickrey) settlement of bids whose
  amounts are escrowed with the contract in a token, and the discovery listings. The token is another contract: a
  transfer is a call, and a transfer that fails traps. The files \<open>bid.rs\<close> and \<open>settle.rs\<close> beside it hold a second
  settlement routine, by sorting, that the crate does not build; it is modelled at the end as the
  reference.
\<close>

section \<open>State\<close>

record bid =
  bid_bidder :: address
  bid_amount :: u64
  bid_placed_at :: u64

record settlement =
  st_winner :: "address option"
  st_clearing_price :: u64
  st_winning_bid :: u64
  st_settled_at :: u64
  st_sold :: bool

record auction =
  au_name :: string
  au_reserve_price :: u64
  au_starts_at :: u64
  au_ends_at :: u64
  au_bids :: "bid list"
  au_asset :: address
  au_treasury :: address

datatype auction_error =
    AuValidation | AuAlreadyExists | AuNotFound | AuctionClosed | AuctionNotStarted | AuctionNotEnded
  | AlreadySettled | InvalidBid | AuUpgradeFailed | ReentrancyDetected

datatype auction_event = AuUpgraded u32 u32 address

record auction_house =
  ah_auctions :: "string \<Rightarrow> auction option"
  ah_settlements :: "string \<Rightarrow> settlement option"
  ah_names :: "string list option"
  ah_admin :: "address option"
  ah_contract_version :: "u32 option"
  ah_lock :: "bool option"
  ah_wasm :: "u8 list option"
  ah_events :: "auction_event list"

definition auction_empty :: auction_house where
  "auction_empty = \<lparr>ah_auctions = (\<lambda>_. None), ah_settlements = (\<lambda>_. None), ah_names = None, ah_admin = None,
     ah_contract_version = None, ah_lock = None, ah_wasm = None, ah_events = []\<rparr>"

definition MAX_AUCTION_RESULTS :: nat where "MAX_AUCTION_RESULTS = 100"
definition MAX_PAGE_SIZE :: u32 where "MAX_PAGE_SIZE = 100"

section \<open>Settlement\<close>

text \<open>One pass of the loop of \<open>settle_vickrey\<close>, on the highest bid and the second highest amount so far.\<close>

definition vickrey_step :: "bid \<Rightarrow> bid option \<times> u64 \<Rightarrow> bid option \<times> u64" where
  "vickrey_step bid acc =
     (case acc of (highest, second_highest) \<Rightarrow>
       (if (case highest of None \<Rightarrow> True | Some current \<Rightarrow> bid_amount bid > bid_amount current)
        then (Some bid, case highest of None \<Rightarrow> 0 | Some current \<Rightarrow> bid_amount current)
        else if bid_amount bid > second_highest then (highest, bid_amount bid)
        else (highest, second_highest)))"

definition settle_vickrey :: "auction \<Rightarrow> u64 \<Rightarrow> settlement option" where
  "settle_vickrey auction settled_at =
     (if au_bids auction = [] then None
      else case fold vickrey_step (au_bids auction) (None, 0) of (highest, second_highest) \<Rightarrow>
       (case highest of None \<Rightarrow> None | Some best \<Rightarrow>
         (let winning_bid = bid_amount best in
          if winning_bid < au_reserve_price auction
          then Some \<lparr>st_winner = None, st_clearing_price = 0, st_winning_bid = winning_bid,
                     st_settled_at = settled_at, st_sold = False\<rparr>
          else Some \<lparr>st_winner = Some (bid_bidder best),
                     st_clearing_price = (if second_highest > au_reserve_price auction then second_highest
                                          else au_reserve_price auction),
                     st_winning_bid = winning_bid, st_settled_at = settled_at, st_sold = True\<rparr>)))"

text \<open>\<open>token.transfer(from, to, amount)\<close> of the token contract at \<open>asset\<close>.\<close>

definition token_transfer ::
    "'w invoke \<Rightarrow> env \<Rightarrow> address \<Rightarrow> address \<Rightarrow> address \<Rightarrow> u64 \<Rightarrow> 'w \<Rightarrow> 'w option" where
  "token_transfer call e asset sender recipient amount w =
     (case call (callee_env e asset) asset ''transfer'' [VAddr sender, VAddr recipient, VI128 (uint amount)] w of
        Some (VUnit, w') \<Rightarrow> Some w'
      | _ \<Rightarrow> None)"

text \<open>
  The payout loop of \<open>settle\<close>: the first bid that matches winner and winning amount pays the clearing price to the
  treasury and gets the rest back, every other bid is refunded.
\<close>

fun pay_out ::
    "'w invoke \<Rightarrow> env \<Rightarrow> auction \<Rightarrow> settlement \<Rightarrow> bool \<Rightarrow> bid list \<Rightarrow> 'w \<Rightarrow> 'w option" where
  "pay_out call e auction finalized clearing_price_paid [] w = Some w"
| "pay_out call e auction finalized clearing_price_paid (bid # bids) w =
     (if st_sold finalized \<and> st_winner finalized = Some (bid_bidder bid)
         \<and> bid_amount bid = st_winning_bid finalized \<and> \<not> clearing_price_paid
      then
        (let overpay = sat_sub (bid_amount bid) (st_clearing_price finalized) in
         case (if overpay > 0
               then token_transfer call e (au_asset auction) (env_self e) (bid_bidder bid) overpay w
               else Some w) of
           None \<Rightarrow> None
         | Some w1 \<Rightarrow>
             (case (if st_clearing_price finalized > 0
                    then token_transfer call e (au_asset auction) (env_self e) (au_treasury auction)
                           (st_clearing_price finalized) w1
                    else Some w1) of
                None \<Rightarrow> None
              | Some w2 \<Rightarrow> pay_out call e auction finalized True bids w2))
      else
        (case token_transfer call e (au_asset auction) (env_self e) (bid_bidder bid) (bid_amount bid) w of
           None \<Rightarrow> None
         | Some w1 \<Rightarrow> pay_out call e auction finalized clearing_price_paid bids w1))"

section \<open>Entrypoints\<close>

definition get_auction :: "auction_house \<Rightarrow> string \<Rightarrow> (auction_error, auction) result" where
  "get_auction s name = (case ah_auctions s name of None \<Rightarrow> Inl (Err AuNotFound) | Some a \<Rightarrow> Inr a)"

definition put_auction :: "auction_house \<Rightarrow> string \<Rightarrow> auction \<Rightarrow> auction_house" where
  "put_auction s name a = s\<lparr>ah_auctions := (ah_auctions s)(name \<mapsto> a)\<rparr>"

definition auction_index :: "auction_house \<Rightarrow> string list" where
  "auction_index s = vec_or_empty (ah_names s)"

definition ah_emit :: "auction_event \<Rightarrow> auction_house \<Rightarrow> auction_house" where
  "ah_emit ev s = s\<lparr>ah_events := ah_events s @ [ev]\<rparr>"

definition auction_initialize :: "address \<Rightarrow> auction_house \<Rightarrow> (auction_error, auction_house) result" where
  "auction_initialize admin s =
     (if ah_admin s \<noteq> None then Inl (Err AuAlreadyExists)
      else Inr (s\<lparr>ah_admin := Some admin, ah_contract_version := Some CONTRACT_VERSION\<rparr>))"

definition auction_get_version :: "auction_house \<Rightarrow> u32" where
  "auction_get_version s = (case ah_contract_version s of None \<Rightarrow> CONTRACT_VERSION | Some v \<Rightarrow> v)"

definition auction_upgrade :: "env \<Rightarrow> u8 list \<Rightarrow> u8 list \<Rightarrow> auction_house \<Rightarrow> (auction_error, auction_house) result" where
  "auction_upgrade e new_wasm_hash migration_data s =
     (case ah_admin s of None \<Rightarrow> Inl (Err AuUpgradeFailed) | Some admin \<Rightarrow>
      (if \<not> require_auth e admin then Inl Trap
       else let current_version = auction_get_version s;
                target_version = decode_target_version migration_data
            in if \<not> env_wasm_ok e new_wasm_hash then Inl Trap
               else Inr (ah_emit (AuUpgraded current_version target_version admin)
                 (s\<lparr>ah_contract_version := Some target_version, ah_wasm := Some new_wasm_hash\<rparr>))))"

definition create_auction ::
    "env \<Rightarrow> string \<Rightarrow> address \<Rightarrow> address \<Rightarrow> u64 \<Rightarrow> u64 \<Rightarrow> u64 \<Rightarrow> auction_house \<Rightarrow> (auction_error, auction_house) result" where
  "create_auction e name asset treasury reserve_price starts_at ends_at s =
     (case ah_admin s of None \<Rightarrow> Inl (Err AuNotFound) | Some admin \<Rightarrow>
      (if \<not> require_auth e admin then Inl Trap else
       case validate_fqdn_soroban name of Inl _ \<Rightarrow> Inl (Err AuValidation) | Inr _ \<Rightarrow>
       (if ah_auctions s name \<noteq> None then Inl (Err AuAlreadyExists)
        else
          let a = \<lparr>au_name = name, au_reserve_price = reserve_price, au_starts_at = starts_at,
                   au_ends_at = ends_at, au_bids = [], au_asset = asset, au_treasury = treasury\<rparr>;
              s1 = s\<lparr>ah_auctions := (ah_auctions s)(name \<mapsto> a)\<rparr>
          in Inr (s1\<lparr>ah_names := Some (auction_index s1 @ [name])\<rparr>))))"

definition with_reentrancy_lock ::
    "(auction_house \<times> 'w \<Rightarrow> (auction_error, auction_house \<times> 'w) result) \<Rightarrow> auction_house \<times> 'w
       \<Rightarrow> (auction_error, auction_house \<times> 'w) result" where
  "with_reentrancy_lock f sw =
     (if (case ah_lock (fst sw) of None \<Rightarrow> False | Some b \<Rightarrow> b) then Inl (Err ReentrancyDetected)
      else case f ((fst sw)\<lparr>ah_lock := Some True\<rparr>, snd sw) of
             Inl err \<Rightarrow> Inl err
           | Inr (s', w') \<Rightarrow> Inr (s'\<lparr>ah_lock := Some False\<rparr>, w'))"

definition place_bid ::
    "'w invoke \<Rightarrow> env \<Rightarrow> string \<Rightarrow> address \<Rightarrow> u64 \<Rightarrow> u64 \<Rightarrow> auction_house \<times> 'w
       \<Rightarrow> (auction_error, auction_house \<times> 'w) result" where
  "place_bid call e name bidder amount now_unix sw = with_reentrancy_lock (\<lambda>(s, w).
     (if \<not> require_auth e bidder then Inl Trap
      else if amount = 0 then Inl (Err InvalidBid)
      else
      case get_auction s name of Inl err \<Rightarrow> Inl err | Inr a \<Rightarrow>
      (if ah_settlements s name \<noteq> None then Inl (Err AlreadySettled)
       else if \<not> is_time_window_open now_unix (au_starts_at a) (au_ends_at a)
       then (if now_unix < au_starts_at a then Inl (Err AuctionNotStarted) else Inl (Err AuctionClosed))
       else
         case token_transfer call e (au_asset a) bidder (env_self e) amount w of
           None \<Rightarrow> Inl Trap
         | Some w' \<Rightarrow>
             Inr (put_auction s name (a\<lparr>au_bids := au_bids a @
                    [\<lparr>bid_bidder = bidder, bid_amount = amount, bid_placed_at = now_unix\<rparr>]\<rparr>), w')))) sw"

definition settle ::
    "'w invoke \<Rightarrow> env \<Rightarrow> string \<Rightarrow> u64 \<Rightarrow> auction_house \<times> 'w
       \<Rightarrow> (auction_error, settlement option \<times> auction_house \<times> 'w) result" where
  "settle call e name now_unix sw =
     (case get_auction (fst sw) name of Inl err \<Rightarrow> Inl err | Inr a \<Rightarrow>
      (if ah_settlements (fst sw) name \<noteq> None then Inl (Err AlreadySettled)
       else if now_unix < au_ends_at a then Inl (Err AuctionNotEnded)
       else
         let result = settle_vickrey a now_unix
         in case result of
              None \<Rightarrow> Inr (None, sw)
            | Some finalized \<Rightarrow>
                (case pay_out call e a finalized False (au_bids a) (snd sw) of
                   None \<Rightarrow> Inl Trap
                 | Some w' \<Rightarrow>
                     Inr (result, (fst sw)\<lparr>ah_settlements := (ah_settlements (fst sw))(name \<mapsto> finalized)\<rparr>, w'))))"

section \<open>Listings\<close>

definition auction_names :: "auction_house \<Rightarrow> string list" where
  "auction_names s = take MAX_AUCTION_RESULTS (auction_index s)"

fun collect_auctions :: "(string \<Rightarrow> auction option) \<Rightarrow> string list \<Rightarrow> auction list" where
  "collect_auctions pick [] = []"
| "collect_auctions pick (name # names) =
     (case pick name of None \<Rightarrow> collect_auctions pick names | Some a \<Rightarrow> a # collect_auctions pick names)"

definition active_auctions :: "auction_house \<Rightarrow> u64 \<Rightarrow> auction list" where
  "active_auctions s now_unix = collect_auctions
     (\<lambda>name. if ah_settlements s name \<noteq> None then None
             else case ah_auctions s name of None \<Rightarrow> None | Some a \<Rightarrow>
               (if is_time_window_open now_unix (au_starts_at a) (au_ends_at a) then Some a else None))
     (auction_names s)"

definition settled_auctions :: "auction_house \<Rightarrow> auction list" where
  "settled_auctions s = collect_auctions
     (\<lambda>name. if ah_settlements s name \<noteq> None then ah_auctions s name else None) (auction_names s)"

definition auction_of :: "auction_house \<Rightarrow> string \<Rightarrow> auction option" where
  "auction_of s name = ah_auctions s name"

definition auction_count :: "auction_house \<Rightarrow> u32" where
  "auction_count s = vec_len (auction_index s)"

definition capped :: "u32 \<Rightarrow> u32" where
  "capped limit = (if limit > MAX_PAGE_SIZE then MAX_PAGE_SIZE else limit)"

text \<open>The page loop, \<open>while i < total && (i - offset) < capped_limit\<close>.\<close>

function slice_loop :: "string list \<Rightarrow> u32 \<Rightarrow> u32 \<Rightarrow> u32 \<Rightarrow> string list \<Rightarrow> string list" where
  "slice_loop index offset capped_limit i out =
     (if i < vec_len index \<and> i - offset < capped_limit
      then slice_loop index offset capped_limit (i + 1)
             (case vec_get index i of None \<Rightarrow> out | Some name \<Rightarrow> out @ [name])
      else out)"
  by pat_completeness auto

lemma word_Suc_lt: "i < m \<Longrightarrow> unat (i + 1) = Suc (unat i)" for i m :: "'a::len word"
proof -
  assume "i < m"
  then have "Suc (unat i) \<le> unat m" by (simp add: word_less_nat_alt)
  also have "unat m < 2 ^ LENGTH('a)" by (rule unsigned_less)
  finally have "Suc (unat i) < 2 ^ LENGTH('a)" .
  then show ?thesis by (simp add: unat_word_ariths)
qed

termination slice_loop
  by (relation "measure (\<lambda>(index, offset, capped_limit, i, out). unat (vec_len index) - unat i)")
     (auto simp: word_Suc_lt word_less_nat_alt)

declare slice_loop.simps [simp del]

definition slice_index :: "string list \<Rightarrow> u32 \<Rightarrow> u32 \<Rightarrow> string list" where
  "slice_index index offset limit =
     (if offset \<ge> vec_len index then [] else slice_loop index offset (capped limit) offset [])"

fun filter_loop :: "(string \<Rightarrow> bool) \<Rightarrow> u32 \<Rightarrow> u32 \<Rightarrow> u32 \<Rightarrow> string list \<Rightarrow> string list \<Rightarrow> string list" where
  "filter_loop keep offset capped_limit matched emitted [] = emitted"
| "filter_loop keep offset capped_limit matched emitted (name # names) =
     (if \<not> keep name then filter_loop keep offset capped_limit matched emitted names
      else
        let emitted' = (if matched \<ge> offset \<and> vec_len emitted < capped_limit then emitted @ [name] else emitted)
        in if vec_len emitted' \<ge> capped_limit then emitted'
           else filter_loop keep offset capped_limit (matched + 1) emitted' names)"

definition filter_index :: "auction_house \<Rightarrow> u32 \<Rightarrow> u32 \<Rightarrow> (string \<Rightarrow> bool) \<Rightarrow> string list" where
  "filter_index s offset limit keep = filter_loop keep offset (capped limit) 0 [] (auction_index s)"

definition list_auctions :: "auction_house \<Rightarrow> u32 \<Rightarrow> u32 \<Rightarrow> string list" where
  "list_auctions s offset limit = slice_index (auction_index s) offset limit"

definition list_active_auctions :: "auction_house \<Rightarrow> u64 \<Rightarrow> u32 \<Rightarrow> u32 \<Rightarrow> string list" where
  "list_active_auctions s now_unix offset limit = filter_index s offset limit
     (\<lambda>name. if ah_settlements s name \<noteq> None then False
             else case ah_auctions s name of
                    Some a \<Rightarrow> au_starts_at a \<le> now_unix \<and> now_unix \<le> au_ends_at a
                  | None \<Rightarrow> False)"

definition list_settled_auctions :: "auction_house \<Rightarrow> u32 \<Rightarrow> u32 \<Rightarrow> string list" where
  "list_settled_auctions s offset limit = filter_index s offset limit (\<lambda>name. ah_settlements s name \<noteq> None)"

section \<open>bid.rs and settle.rs\<close>

text \<open>Bidders are texts there; sorting is stable and by descending amount.\<close>

record text_bid =
  tb_bidder :: string
  tb_amount :: u64
  tb_placed_at :: u64

record text_settlement =
  ts_winner :: "string option"
  ts_clearing_price :: u64
  ts_winning_bid :: u64
  ts_settled_at :: u64
  ts_sold :: bool

definition bid_new :: "string \<Rightarrow> u64 \<Rightarrow> u64 \<Rightarrow> text_bid" where
  "bid_new bidder amount placed_at = \<lparr>tb_bidder = bidder, tb_amount = amount, tb_placed_at = placed_at\<rparr>"

definition bid_is_valid :: "text_bid \<Rightarrow> bool" where
  "bid_is_valid b \<longleftrightarrow> \<not> is_blank (tb_bidder b) \<and> tb_amount b > 0"

definition settle_vickrey_sorted :: "text_bid list \<Rightarrow> u64 \<Rightarrow> u64 \<Rightarrow> u64 \<Rightarrow> text_settlement option" where
  "settle_vickrey_sorted bids reserve_price bidding_deadline settled_at =
     (let sorted = sort_key (\<lambda>b. - uint (tb_amount b))
                     (filter (\<lambda>b. bid_is_valid b \<and> tb_placed_at b \<le> bidding_deadline) bids) in
      case sorted of
        [] \<Rightarrow> None
      | winner # rest \<Rightarrow>
          (if tb_amount winner < reserve_price
           then Some \<lparr>ts_winner = None, ts_clearing_price = 0, ts_winning_bid = tb_amount winner,
                      ts_settled_at = settled_at, ts_sold = False\<rparr>
           else Some \<lparr>ts_winner = Some (tb_bidder winner),
                      ts_clearing_price = (case rest of [] \<Rightarrow> reserve_price
                                           | second # _ \<Rightarrow> max (tb_amount second) reserve_price),
                      ts_winning_bid = tb_amount winner, ts_settled_at = settled_at, ts_sold = True\<rparr>))"

end

