(* ===== verification/Subdomain.thy ===== *)
theory Subdomain
  imports Interfaces
begin

text \<open>
  The subdomain contract (\<open>contracts/subdomain/src/lib.rs\<close>): parent names with their controllers, the
  subdomains created under them, and two indexes of subdomain names, per parent and per owner. When a registry is
  configured, every entrypoint first asks it whether the parent is active and deletes the
  whole namespace of a parent that is not.
\<close>

section \<open>State\<close>

record parent_domain =
  pd_owner :: address
  pd_controllers :: "address list"

record subdomain_record =
  sr_parent :: string
  sr_owner :: address
  sr_created_at :: u64

datatype subdomain_error =
    SdValidation | ParentNotFound | SdAlreadyExists | SdNotFound | SdUnauthorized | SdUpgradeFailed
  | DepthLimitExceeded

datatype subdomain_event =
    ParentRegistered string address
  | ControllerAdded string address address
  | ControllerRemoved string address address
  | SubdomainCreated string string address address
  | SubdomainTransferred string address address
  | SubdomainDeleted string address
  | SubdomainRevoked string address

record subdomains =
  sd_parents :: "string \<Rightarrow> parent_domain option"
  sd_records :: "string \<Rightarrow> subdomain_record option"
  sd_parent_index :: "string \<Rightarrow> string list option"
  sd_owner_index :: "address \<Rightarrow> string list option"
  sd_registry :: "address option"
  sd_admin :: "address option"
  sd_contract_version :: "u32 option"
  sd_max_depth :: "u32 option"
  sd_wasm :: "u8 list option"
  sd_events :: "subdomain_event list"

definition subdomains_empty :: subdomains where
  "subdomains_empty = \<lparr>sd_parents = (\<lambda>_. None), sd_records = (\<lambda>_. None), sd_parent_index = (\<lambda>_. None),
     sd_owner_index = (\<lambda>_. None), sd_registry = None, sd_admin = None, sd_contract_version = None,
     sd_max_depth = None, sd_wasm = None, sd_events = []\<rparr>"

section \<open>The indexes\<close>

definition get_parent_subdomains :: "subdomains \<Rightarrow> string \<Rightarrow> string list" where
  "get_parent_subdomains s parent = vec_or_empty (sd_parent_index s parent)"

definition add_parent_subdomain :: "subdomains \<Rightarrow> string \<Rightarrow> string \<Rightarrow> subdomains" where
  "add_parent_subdomain s parent fqdn =
     (let subs = get_parent_subdomains s parent
      in if fqdn \<notin> set subs then s\<lparr>sd_parent_index := (sd_parent_index s)(parent \<mapsto> subs @ [fqdn])\<rparr> else s)"

text \<open>\<open>first_index_of\<close> and \<open>remove\<close>: the first occurrence goes.\<close>

definition remove_parent_subdomain :: "subdomains \<Rightarrow> string \<Rightarrow> string \<Rightarrow> subdomains" where
  "remove_parent_subdomain s parent fqdn =
     (let subs = get_parent_subdomains s parent
      in if fqdn \<in> set subs then s\<lparr>sd_parent_index := (sd_parent_index s)(parent \<mapsto> remove1 fqdn subs)\<rparr> else s)"

definition get_owner_subdomains :: "subdomains \<Rightarrow> address \<Rightarrow> string list" where
  "get_owner_subdomains s owner = vec_or_empty (sd_owner_index s owner)"

definition add_owner_subdomain :: "subdomains \<Rightarrow> address \<Rightarrow> string \<Rightarrow> subdomains" where
  "add_owner_subdomain s owner fqdn =
     (let subs = get_owner_subdomains s owner
      in if fqdn \<notin> set subs then s\<lparr>sd_owner_index := (sd_owner_index s)(owner \<mapsto> subs @ [fqdn])\<rparr> else s)"

definition remove_owner_subdomain :: "subdomains \<Rightarrow> address \<Rightarrow> string \<Rightarrow> subdomains" where
  "remove_owner_subdomain s owner fqdn =
     (let subs = get_owner_subdomains s owner
      in if fqdn \<in> set subs then s\<lparr>sd_owner_index := (sd_owner_index s)(owner \<mapsto> remove1 fqdn subs)\<rparr> else s)"

section \<open>Purging\<close>

definition purge_subdomain_record :: "string \<Rightarrow> subdomain_record \<Rightarrow> subdomains \<Rightarrow> subdomains" where
  "purge_subdomain_record fqdn record s =
     (let s2 = remove_owner_subdomain (remove_parent_subdomain s (sr_parent record) fqdn) (sr_owner record) fqdn
      in s2\<lparr>sd_records := (sd_records s2)(fqdn := None)\<rparr>)"

definition purge_listed :: "string \<Rightarrow> subdomains \<Rightarrow> subdomains" where
  "purge_listed fqdn s =
     (case sd_records s fqdn of None \<Rightarrow> s | Some record \<Rightarrow> purge_subdomain_record fqdn record s)"

definition purge_parent_namespace :: "string \<Rightarrow> subdomains \<Rightarrow> subdomains" where
  "purge_parent_namespace parent s =
     (let s1 = fold purge_listed (get_parent_subdomains s parent) s
      in s1\<lparr>sd_parent_index := (sd_parent_index s1)(parent := None), sd_parents := (sd_parents s1)(parent := None)\<rparr>)"

definition ensure_parent_is_active :: "query \<Rightarrow> env \<Rightarrow> string \<Rightarrow> subdomains \<Rightarrow> bool \<times> subdomains" where
  "ensure_parent_is_active q e parent s =
     (case sd_registry s of
        None \<Rightarrow> (True, s)
      | Some registry \<Rightarrow>
          (case q (callee_env e registry) registry ''name_state'' [VStr parent, VU64 (env_timestamp e)] of
             Some (VNameState Active) \<Rightarrow> (True, s)
           | _ \<Rightarrow> (False, purge_parent_namespace parent s)))"

definition get_parent ::
    "query \<Rightarrow> env \<Rightarrow> string \<Rightarrow> subdomains \<Rightarrow> (subdomain_error, parent_domain \<times> subdomains) result" where
  "get_parent q e parent s =
     (case ensure_parent_is_active q e parent s of (ok, s1) \<Rightarrow>
       (if \<not> ok then Inl (Err ParentNotFound)
        else case sd_parents s1 parent of None \<Rightarrow> Inl (Err ParentNotFound) | Some record \<Rightarrow> Inr (record, s1)))"

definition get_subdomain :: "subdomains \<Rightarrow> string \<Rightarrow> (subdomain_error, subdomain_record) result" where
  "get_subdomain s fqdn = (case sd_records s fqdn of None \<Rightarrow> Inl (Err SdNotFound) | Some record \<Rightarrow> Inr record)"

definition sd_emit :: "subdomain_event \<Rightarrow> subdomains \<Rightarrow> subdomains" where
  "sd_emit ev s = s\<lparr>sd_events := sd_events s @ [ev]\<rparr>"

section \<open>Administration\<close>

definition subdomain_initialize :: "address \<Rightarrow> subdomains \<Rightarrow> (subdomain_error, subdomains) result" where
  "subdomain_initialize admin s =
     (if sd_admin s \<noteq> None then Inl (Err SdAlreadyExists)
      else Inr (s\<lparr>sd_admin := Some admin, sd_contract_version := Some CONTRACT_VERSION, sd_max_depth := Some 3\<rparr>))"

definition set_registry_contract :: "env \<Rightarrow> address \<Rightarrow> subdomains \<Rightarrow> (subdomain_error, subdomains) result" where
  "set_registry_contract e registry s =
     (case sd_admin s of None \<Rightarrow> Inl (Err SdUnauthorized) | Some admin \<Rightarrow>
      (if \<not> require_auth e admin then Inl Trap else Inr (s\<lparr>sd_registry := Some registry\<rparr>)))"

definition subdomain_get_version :: "subdomains \<Rightarrow> u32" where
  "subdomain_get_version s = (case sd_contract_version s of None \<Rightarrow> CONTRACT_VERSION | Some v \<Rightarrow> v)"

definition set_max_depth :: "env \<Rightarrow> u32 \<Rightarrow> subdomains \<Rightarrow> (subdomain_error, subdomains) result" where
  "set_max_depth e depth s =
     (case sd_admin s of None \<Rightarrow> Inl (Err SdUnauthorized) | Some admin \<Rightarrow>
      (if \<not> require_auth e admin then Inl Trap else Inr (s\<lparr>sd_max_depth := Some depth\<rparr>)))"

definition max_depth :: "subdomains \<Rightarrow> u32" where
  "max_depth s = (case sd_max_depth s of None \<Rightarrow> 3 | Some d \<Rightarrow> d)"

text \<open>Unlike the other contracts, \<open>upgrade\<close> neither reads the migration data nor sets a version.\<close>

definition subdomain_upgrade :: "env \<Rightarrow> u8 list \<Rightarrow> u8 list \<Rightarrow> subdomains \<Rightarrow> (subdomain_error, subdomains) result" where
  "subdomain_upgrade e new_wasm_hash migration_data s =
     (case sd_admin s of None \<Rightarrow> Inl (Err SdUpgradeFailed) | Some admin \<Rightarrow>
      (if \<not> require_auth e admin then Inl Trap
       else if \<not> env_wasm_ok e new_wasm_hash then Inl Trap
       else Inr (s\<lparr>sd_wasm := Some new_wasm_hash\<rparr>)))"

section \<open>Parents\<close>

definition register_parent :: "query \<Rightarrow> env \<Rightarrow> string \<Rightarrow> address \<Rightarrow> subdomains \<Rightarrow> (subdomain_error, subdomains) result" where
  "register_parent q e parent owner s =
     (if \<not> require_auth e owner then Inl Trap else
      case validate_fqdn_soroban parent of Inl _ \<Rightarrow> Inl (Err SdValidation) | Inr _ \<Rightarrow>
      (case validate_base_name_soroban parent of Inl _ \<Rightarrow> Inl (Err SdValidation) | Inr _ \<Rightarrow>
      (case (case sd_registry s of
               Some registry \<Rightarrow>
                 (case query_resolve q e registry parent (env_timestamp e) of
                    Some entry \<Rightarrow>
                      (if re_owner entry \<noteq> owner then Inl (Err SdUnauthorized)
                       else case sd_parents s parent of
                              None \<Rightarrow> Inr s
                            | Some existing \<Rightarrow>
                                (if pd_owner existing \<noteq> re_owner entry then Inr (purge_parent_namespace parent s)
                                 else Inl (Err SdAlreadyExists)))
                  | None \<Rightarrow> Inl (Err ParentNotFound))
             | None \<Rightarrow> (if sd_parents s parent \<noteq> None then Inl (Err SdAlreadyExists) else Inr s))
       of Inl err \<Rightarrow> Inl err
        | Inr s1 \<Rightarrow>
            Inr (sd_emit (ParentRegistered parent owner)
              (s1\<lparr>sd_parents := (sd_parents s1)(parent \<mapsto> \<lparr>pd_owner = owner, pd_controllers = []\<rparr>)\<rparr>)))))"

definition add_controller ::
    "query \<Rightarrow> env \<Rightarrow> string \<Rightarrow> address \<Rightarrow> address \<Rightarrow> subdomains \<Rightarrow> (subdomain_error, subdomains) result" where
  "add_controller q e parent caller controller s =
     (if \<not> require_auth e caller then Inl Trap else
      case get_parent q e parent s of Inl err \<Rightarrow> Inl err | Inr (record, s1) \<Rightarrow>
      (if pd_owner record \<noteq> caller then Inl (Err SdUnauthorized)
       else if controller \<notin> set (pd_controllers record)
       then Inr (sd_emit (ControllerAdded parent caller controller)
              (s1\<lparr>sd_parents := (sd_parents s1)
                 (parent \<mapsto> record\<lparr>pd_controllers := pd_controllers record @ [controller]\<rparr>)\<rparr>))
       else Inr s1))"

definition remove_controller ::
    "query \<Rightarrow> env \<Rightarrow> string \<Rightarrow> address \<Rightarrow> address \<Rightarrow> subdomains \<Rightarrow> (subdomain_error, subdomains) result" where
  "remove_controller q e parent caller controller s =
     (if \<not> require_auth e caller then Inl Trap else
      case get_parent q e parent s of Inl err \<Rightarrow> Inl err | Inr (record, s1) \<Rightarrow>
      (if pd_owner record \<noteq> caller then Inl (Err SdUnauthorized)
       else if controller \<in> set (pd_controllers record)
       then Inr (sd_emit (ControllerRemoved parent caller controller)
              (s1\<lparr>sd_parents := (sd_parents s1)
                 (parent \<mapsto> record\<lparr>pd_controllers := remove1 controller (pd_controllers record)\<rparr>)\<rparr>))
       else Inr s1))"

section \<open>Subdomains\<close>

text \<open>The counting loop over the label's bytes.\<close>

definition label_depth :: "string \<Rightarrow> nat" where
  "label_depth label = fold (\<lambda>b depth. if b = CHR ''.'' then depth + 1 else depth) label 1"

text \<open>
  Label and parent are copied into buffers of 256 bytes; a text that does not fit, or a name
  \<open>label.parent\<close> that does not, is a slice out of range and panics.
\<close>

definition subdomain_create ::
    "query \<Rightarrow> env \<Rightarrow> string \<Rightarrow> string \<Rightarrow> address \<Rightarrow> address \<Rightarrow> u64 \<Rightarrow> subdomains
       \<Rightarrow> (subdomain_error, string \<times> subdomains) result" where
  "subdomain_create q e label parent caller owner now_unix s =
     (if \<not> require_auth e caller then Inl Trap else
      case get_parent q e parent s of Inl err \<Rightarrow> Inl err | Inr (parent_record, s1) \<Rightarrow>
      (if pd_owner parent_record \<noteq> caller \<and> caller \<notin> set (pd_controllers parent_record)
       then Inl (Err SdUnauthorized)
       else if length label > 256 \<or> length parent > 256 then Inl Trap
       else if length label > 0 \<and> label_depth label > unat (max_depth s1) then Inl (Err DepthLimitExceeded)
       else if length label + 1 + length parent > 256 then Inl Trap
       else
         let fqdn = label @ ''.'' @ parent in
         if sd_records s1 fqdn \<noteq> None then Inl (Err SdAlreadyExists)
         else
           let record = \<lparr>sr_parent = parent, sr_owner = owner, sr_created_at = now_unix\<rparr>;
               s2 = s1\<lparr>sd_records := (sd_records s1)(fqdn \<mapsto> record)\<rparr>;
               s3 = add_owner_subdomain (add_parent_subdomain s2 parent fqdn) owner fqdn
           in Inr (fqdn, sd_emit (SubdomainCreated fqdn parent caller owner) s3)))"

definition subdomain_transfer ::
    "query \<Rightarrow> env \<Rightarrow> string \<Rightarrow> address \<Rightarrow> address \<Rightarrow> subdomains \<Rightarrow> (subdomain_error, subdomains) result" where
  "subdomain_transfer q e fqdn caller new_owner s =
     (if \<not> require_auth e caller then Inl Trap else
      case get_subdomain s fqdn of Inl err \<Rightarrow> Inl err | Inr record \<Rightarrow>
      (case ensure_parent_is_active q e (sr_parent record) s of (ok, s1) \<Rightarrow>
        (if \<not> ok then Inl (Err ParentNotFound)
         else if sr_owner record \<noteq> caller then Inl (Err SdUnauthorized)
         else
           let old_owner = sr_owner record;
               s2 = s1\<lparr>sd_records := (sd_records s1)(fqdn \<mapsto> record\<lparr>sr_owner := new_owner\<rparr>)\<rparr>;
               s3 = add_owner_subdomain (remove_owner_subdomain s2 old_owner fqdn) new_owner fqdn
           in Inr (sd_emit (SubdomainTransferred fqdn old_owner new_owner) s3))))"

definition drop_subdomain :: "subdomain_event \<Rightarrow> string \<Rightarrow> subdomain_record \<Rightarrow> subdomains \<Rightarrow> subdomains" where
  "drop_subdomain ev fqdn record s =
     (let s1 = sd_emit ev
                 (remove_owner_subdomain (remove_parent_subdomain s (sr_parent record) fqdn) (sr_owner record) fqdn)
      in s1\<lparr>sd_records := (sd_records s1)(fqdn := None)\<rparr>)"

definition subdomain_delete ::
    "query \<Rightarrow> env \<Rightarrow> string \<Rightarrow> address \<Rightarrow> subdomains \<Rightarrow> (subdomain_error, subdomains) result" where
  "subdomain_delete q e fqdn caller s =
     (if \<not> require_auth e caller then Inl Trap else
      case get_subdomain s fqdn of Inl err \<Rightarrow> Inl err | Inr record \<Rightarrow>
      (case ensure_parent_is_active q e (sr_parent record) s of (ok, s1) \<Rightarrow>
        (if \<not> ok then Inl (Err ParentNotFound)
         else
           case (if sr_owner record \<noteq> caller
                 then (case get_parent q e (sr_parent record) s1 of Inl err \<Rightarrow> Inl err | Inr (parent_record, s2) \<Rightarrow>
                        (if pd_owner parent_record \<noteq> caller \<and> caller \<notin> set (pd_controllers parent_record)
                         then Inl (Err SdUnauthorized) else Inr s2))
                 else Inr s1)
           of Inl err \<Rightarrow> Inl err
            | Inr s3 \<Rightarrow> Inr (drop_subdomain (SubdomainDeleted fqdn caller) fqdn record s3))))"

definition subdomain_revoke ::
    "query \<Rightarrow> env \<Rightarrow> string \<Rightarrow> address \<Rightarrow> subdomains \<Rightarrow> (subdomain_error, subdomains) result" where
  "subdomain_revoke q e fqdn caller s =
     (if \<not> require_auth e caller then Inl Trap else
      case get_subdomain s fqdn of Inl err \<Rightarrow> Inl err | Inr record \<Rightarrow>
      (case ensure_parent_is_active q e (sr_parent record) s of (ok, s1) \<Rightarrow>
        (if \<not> ok then Inl (Err ParentNotFound)
         else
           case (if sr_owner record = caller then (True, s1)
                 else case get_parent q e (sr_parent record) s1 of
                        Inl _ \<Rightarrow> (False, s1)
                      | Inr (parent_record, s2) \<Rightarrow>
                          (pd_owner parent_record = caller \<or> caller \<in> set (pd_controllers parent_record), s2))
           of (is_authorized, s3) \<Rightarrow>
             (if \<not> is_authorized then Inl (Err SdUnauthorized)
              else Inr (drop_subdomain (SubdomainRevoked fqdn caller) fqdn record s3)))))"

section \<open>Queries that clean up\<close>

definition subdomain_record_of :: "query \<Rightarrow> env \<Rightarrow> string \<Rightarrow> subdomains \<Rightarrow> subdomain_record option \<times> subdomains" where
  "subdomain_record_of q e fqdn s =
     (case sd_records s fqdn of
        None \<Rightarrow> (None, s)
      | Some record \<Rightarrow>
          (case ensure_parent_is_active q e (sr_parent record) s of (ok, s1) \<Rightarrow>
            (if ok then (Some record, s1) else (None, purge_subdomain_record fqdn record s1))))"

definition subdomain_exists :: "query \<Rightarrow> env \<Rightarrow> string \<Rightarrow> subdomains \<Rightarrow> bool \<times> subdomains" where
  "subdomain_exists q e fqdn s = (case subdomain_record_of q e fqdn s of (r, s1) \<Rightarrow> (r \<noteq> None, s1))"

definition subdomain_parent :: "query \<Rightarrow> env \<Rightarrow> string \<Rightarrow> subdomains \<Rightarrow> parent_domain option \<times> subdomains" where
  "subdomain_parent q e parent s =
     (case ensure_parent_is_active q e parent s of (ok, s1) \<Rightarrow> (if \<not> ok then (None, s1) else (sd_parents s1 parent, s1)))"

definition subdomains_for_parent :: "query \<Rightarrow> env \<Rightarrow> string \<Rightarrow> subdomains \<Rightarrow> string list \<times> subdomains" where
  "subdomains_for_parent q e parent s =
     (case ensure_parent_is_active q e parent s of (ok, s1) \<Rightarrow>
        (if \<not> ok then ([], s1) else (get_parent_subdomains s1 parent, s1)))"

definition subdomains_for_owner :: "subdomains \<Rightarrow> address \<Rightarrow> string list" where
  "subdomains_for_owner s owner = get_owner_subdomains s owner"

section \<open>Names for clients (manager.rs)\<close>

definition build_subdomain :: "string \<Rightarrow> string \<Rightarrow> common_error + string" where
  "build_subdomain label parent =
     (case validate_label label of Inl err \<Rightarrow> Inl err | Inr _ \<Rightarrow>
      (case parse_fqdn parent of Inl err \<Rightarrow> Inl err | Inr (parent_label, ending) \<Rightarrow>
         Inr (label @ ''.'' @ parent_label @ ''.'' @ tld_as_str ending)))"

fun split_subdomain_parts :: "string list \<Rightarrow> common_error + (string \<times> string \<times> tld)" where
  "split_subdomain_parts [child, parent, ending] =
     (case validate_label child of Inl err \<Rightarrow> Inl err | Inr _ \<Rightarrow>
      (case validate_label parent of Inl err \<Rightarrow> Inl err | Inr _ \<Rightarrow>
       (case tld_parse ending of None \<Rightarrow> Inl UnsupportedTld | Some parsed \<Rightarrow> Inr (child, parent, parsed))))"
| "split_subdomain_parts (child # parent # ending # part # parts) = Inl InvalidName"
| "split_subdomain_parts [child, parent] = Inl MissingTld"
| "split_subdomain_parts [child] = Inl InvalidName"
| "split_subdomain_parts [] = Inl InvalidName"

definition split_subdomain :: "string \<Rightarrow> common_error + (string \<times> string \<times> tld)" where
  "split_subdomain name = split_subdomain_parts (split_on CHR ''.'' name)"

end
