(* ===== verification/Nft.thy ===== *)
theory Nft
  imports Interfaces
begin

text \<open>
  The NFT contract (\<open>contracts/nft/src/lib.rs\<close>, \<open>events.rs\<close>): one token per name, approvals, a list of
  all token ids and a list per owner. The registry is another contract: its \<open>resolve\<close> is a
  query, its \<open>update_owner\<close> a call that changes the rest of the ledger.
\<close>

section \<open>State\<close>

record token_record =
  tok_owner :: address
  tok_approved :: "address option"
  tok_metadata_uri :: "string option"
  tok_expires_at :: u64

record nft_name_record =
  nr_registration_date :: u64
  nr_expiry_date :: u64
  nr_target_address :: "string option"

record token_metadata =
  tm_token_id :: string
  tm_owner :: address
  tm_registration_date :: u64
  tm_expiry_date :: u64
  tm_is_expired :: bool
  tm_target_address :: "string option"

datatype nft_error = AlreadyMinted | NftNotFound | NftUnauthorized | NftUpgradeFailed | NftNotInitialized

datatype nft_event =
    NftUpgraded u32 u32 address
  | NftMint address address string
  | NftApprove address address string
  | NftApproveClear address string
  | NftTransfer address address string
  | NftBurn address string

record nft =
  nft_tokens :: "string \<Rightarrow> token_record option"
  nft_token_ids :: "string list option"
  nft_owner_tokens :: "address \<Rightarrow> string list option"
  nft_admin :: "address option"
  nft_contract_version :: "u32 option"
  nft_name_data :: "string \<Rightarrow> nft_name_record option"
  nft_registry :: "address option"
  nft_wasm :: "u8 list option"
  nft_events :: "nft_event list"

definition nft_empty :: nft where
  "nft_empty = \<lparr>nft_tokens = (\<lambda>_. None), nft_token_ids = None, nft_owner_tokens = (\<lambda>_. None),
     nft_admin = None, nft_contract_version = None, nft_name_data = (\<lambda>_. None), nft_registry = None,
     nft_wasm = None, nft_events = []\<rparr>"

section \<open>Helpers of the contract\<close>

definition token_ids :: "nft \<Rightarrow> string list" where
  "token_ids s = vec_or_empty (nft_token_ids s)"

definition owner_tokens :: "nft \<Rightarrow> address \<Rightarrow> string list" where
  "owner_tokens s owner = vec_or_empty (nft_owner_tokens s owner)"

definition append_token_id :: "nft \<Rightarrow> string \<Rightarrow> nft" where
  "append_token_id s token_id = s\<lparr>nft_token_ids := Some (token_ids s @ [token_id])\<rparr>"

definition add_owner_token :: "nft \<Rightarrow> address \<Rightarrow> string \<Rightarrow> nft" where
  "add_owner_token s owner token_id =
     (let tokens = owner_tokens s owner
      in if token_id \<in> set tokens then s
         else s\<lparr>nft_owner_tokens := (nft_owner_tokens s)(owner \<mapsto> tokens @ [token_id])\<rparr>)"

definition remove_owner_token :: "nft \<Rightarrow> address \<Rightarrow> string \<Rightarrow> nft" where
  "remove_owner_token s owner token_id =
     s\<lparr>nft_owner_tokens := (nft_owner_tokens s)(owner \<mapsto> remove_all token_id (owner_tokens s owner))\<rparr>"

definition reindex_owner_token :: "nft \<Rightarrow> address \<Rightarrow> address \<Rightarrow> string \<Rightarrow> nft" where
  "reindex_owner_token s previous_owner new_owner token_id =
     (if previous_owner = new_owner then s
      else add_owner_token (remove_owner_token s previous_owner token_id) new_owner token_id)"

definition put_token :: "nft \<Rightarrow> string \<Rightarrow> token_record \<Rightarrow> nft" where
  "put_token s token_id record = s\<lparr>nft_tokens := (nft_tokens s)(token_id \<mapsto> record)\<rparr>"

definition nft_emit :: "nft_event \<Rightarrow> nft \<Rightarrow> nft" where
  "nft_emit ev s = s\<lparr>nft_events := nft_events s @ [ev]\<rparr>"

definition name_record_of :: "registry_entry \<Rightarrow> nft_name_record" where
  "name_record_of entry =
     \<lparr>nr_registration_date = re_registered_at entry, nr_expiry_date = re_expires_at entry,
      nr_target_address = re_target_address entry\<rparr>"

section \<open>Entrypoints\<close>

definition nft_initialize :: "address \<Rightarrow> nft \<Rightarrow> (nft_error, nft) result" where
  "nft_initialize admin s =
     (if nft_admin s \<noteq> None then Inl (Err AlreadyMinted)
      else Inr (s\<lparr>nft_admin := Some admin, nft_contract_version := Some CONTRACT_VERSION\<rparr>))"

definition nft_get_version :: "nft \<Rightarrow> u32" where
  "nft_get_version s = (case nft_contract_version s of None \<Rightarrow> CONTRACT_VERSION | Some v \<Rightarrow> v)"

definition nft_upgrade :: "env \<Rightarrow> u8 list \<Rightarrow> u8 list \<Rightarrow> nft \<Rightarrow> (nft_error, nft) result" where
  "nft_upgrade e new_wasm_hash migration_data s =
     (case nft_admin s of None \<Rightarrow> Inl (Err NftUpgradeFailed) | Some admin \<Rightarrow>
      (if \<not> require_auth e admin then Inl Trap
       else let current_version = nft_get_version s;
                target_version = decode_target_version migration_data
            in if \<not> env_wasm_ok e new_wasm_hash then Inl Trap
               else Inr (nft_emit (NftUpgraded current_version target_version admin)
                 (s\<lparr>nft_contract_version := Some target_version, nft_wasm := Some new_wasm_hash\<rparr>))))"

definition nft_set_registry :: "env \<Rightarrow> address \<Rightarrow> address \<Rightarrow> nft \<Rightarrow> (nft_error, nft) result" where
  "nft_set_registry e admin registry s =
     (case nft_admin s of None \<Rightarrow> Inl (Err NftNotInitialized) | Some stored_admin \<Rightarrow>
      (if stored_admin \<noteq> admin then Inl (Err NftUnauthorized)
       else if \<not> require_auth e admin then Inl Trap
       else Inr (s\<lparr>nft_registry := Some registry\<rparr>)))"

definition nft_mint ::
    "query \<Rightarrow> env \<Rightarrow> string \<Rightarrow> address \<Rightarrow> string option \<Rightarrow> u64 \<Rightarrow> nft \<Rightarrow> (nft_error, nft) result" where
  "nft_mint q e token_id owner metadata_uri expires_at s =
     (case nft_admin s of None \<Rightarrow> Inl (Err NftUnauthorized) | Some admin \<Rightarrow>
      (if \<not> require_auth e admin then Inl Trap
       else if nft_tokens s token_id \<noteq> None then Inl (Err AlreadyMinted)
       else
         let record = \<lparr>tok_owner = owner, tok_approved = None, tok_metadata_uri = metadata_uri,
                       tok_expires_at = expires_at\<rparr>;
             s1 = add_owner_token (append_token_id (put_token s token_id record) token_id) owner token_id
         in case nft_registry s of
              None \<Rightarrow> Inr (nft_emit (NftMint owner owner token_id) s1)
            | Some registry \<Rightarrow>
                (case query_resolve q e registry token_id (env_timestamp e) of
                   None \<Rightarrow> Inl Trap
                 | Some entry \<Rightarrow>
                     Inr (nft_emit (NftMint owner owner token_id)
                       (s1\<lparr>nft_name_data := (nft_name_data s1)(token_id \<mapsto> name_record_of entry)\<rparr>)))))"

definition nft_metadata :: "nft \<Rightarrow> string \<Rightarrow> u64 \<Rightarrow> token_metadata option" where
  "nft_metadata s token_id now_unix =
     (case nft_tokens s token_id of None \<Rightarrow> None | Some token \<Rightarrow>
      (case nft_name_data s token_id of None \<Rightarrow> None | Some name_record \<Rightarrow>
         Some \<lparr>tm_token_id = token_id, tm_owner = tok_owner token,
               tm_registration_date = nr_registration_date name_record,
               tm_expiry_date = nr_expiry_date name_record,
               tm_is_expired = (now_unix > nr_expiry_date name_record),
               tm_target_address = nr_target_address name_record\<rparr>))"

definition nft_refresh_name_data :: "query \<Rightarrow> env \<Rightarrow> string \<Rightarrow> nft \<Rightarrow> (nft_error, nft) result" where
  "nft_refresh_name_data q e token_id s =
     (case nft_registry s of None \<Rightarrow> Inl (Err NftNotInitialized) | Some registry \<Rightarrow>
      (if nft_tokens s token_id = None then Inl (Err NftNotFound)
       else (case query_resolve q e registry token_id (env_timestamp e) of
               None \<Rightarrow> Inl Trap
             | Some entry \<Rightarrow>
                 Inr (s\<lparr>nft_name_data := (nft_name_data s)(token_id \<mapsto> name_record_of entry)\<rparr>))))"

definition nft_approve :: "string \<Rightarrow> address \<Rightarrow> address \<Rightarrow> nft \<Rightarrow> (nft_error, nft) result" where
  "nft_approve token_id caller approved s =
     (case nft_tokens s token_id of None \<Rightarrow> Inl (Err NftNotFound) | Some record \<Rightarrow>
      (if tok_owner record \<noteq> caller then Inl (Err NftUnauthorized)
       else Inr (nft_emit (NftApprove caller approved token_id)
              (put_token s token_id (record\<lparr>tok_approved := Some approved\<rparr>)))))"

definition nft_approve_clear :: "string \<Rightarrow> address \<Rightarrow> nft \<Rightarrow> (nft_error, nft) result" where
  "nft_approve_clear token_id caller s =
     (case nft_tokens s token_id of None \<Rightarrow> Inl (Err NftNotFound) | Some record \<Rightarrow>
      (if tok_owner record \<noteq> caller then Inl (Err NftUnauthorized)
       else Inr (nft_emit (NftApproveClear caller token_id)
              (put_token s token_id (record\<lparr>tok_approved := None\<rparr>)))))"

text \<open>
  \<open>transfer\<close> and \<open>transfer_from\<close> tell the registry with \<open>update_owner(token_id, new_owner)\<close>, two
  arguments.
\<close>

definition nft_notify_registry ::
    "'w invoke \<Rightarrow> env \<Rightarrow> string \<Rightarrow> address \<Rightarrow> nft \<times> 'w \<Rightarrow> (nft_error, nft \<times> 'w) result" where
  "nft_notify_registry call e token_id new_owner sw =
     (case nft_registry (fst sw) of
        None \<Rightarrow> Inr sw
      | Some registry \<Rightarrow>
          (case call (callee_env e registry) registry ''update_owner''
                  [VStr token_id, VAddr new_owner] (snd sw) of
             Some (VUnit, w') \<Rightarrow> Inr (fst sw, w')
           | _ \<Rightarrow> Inl Trap))"

definition nft_transfer ::
    "'w invoke \<Rightarrow> env \<Rightarrow> string \<Rightarrow> address \<Rightarrow> address \<Rightarrow> nft \<times> 'w \<Rightarrow> (nft_error, nft \<times> 'w) result" where
  "nft_transfer call e token_id caller new_owner sw =
     (case nft_tokens (fst sw) token_id of None \<Rightarrow> Inl (Err NftNotFound) | Some record \<Rightarrow>
      (if tok_owner record \<noteq> caller \<and> tok_approved record \<noteq> Some caller then Inl (Err NftUnauthorized)
       else
         let previous_owner = tok_owner record;
             record' = record\<lparr>tok_owner := new_owner, tok_approved := None\<rparr>;
             s1 = reindex_owner_token (put_token (fst sw) token_id record') previous_owner new_owner token_id
         in nft_notify_registry call e token_id new_owner
              (nft_emit (NftTransfer previous_owner new_owner token_id) s1, snd sw)))"

definition nft_transfer_from ::
    "'w invoke \<Rightarrow> env \<Rightarrow> address \<Rightarrow> address \<Rightarrow> address \<Rightarrow> string \<Rightarrow> nft \<times> 'w
       \<Rightarrow> (nft_error, nft \<times> 'w) result" where
  "nft_transfer_from call e spender owner recipient token_id sw =
     (case nft_tokens (fst sw) token_id of None \<Rightarrow> Inl (Err NftNotFound) | Some record \<Rightarrow>
      (if tok_owner record \<noteq> owner \<or> tok_approved record \<noteq> Some spender then Inl (Err NftUnauthorized)
       else
         let record' = record\<lparr>tok_owner := recipient, tok_approved := None\<rparr>;
             s1 = reindex_owner_token (put_token (fst sw) token_id record') owner recipient token_id
         in nft_notify_registry call e token_id recipient
              (nft_emit (NftTransfer owner recipient token_id) s1, snd sw)))"

definition nft_owner_of :: "nft \<Rightarrow> string \<Rightarrow> address option" where
  "nft_owner_of s token_id = map_option tok_owner (nft_tokens s token_id)"

definition nft_balance_of :: "nft \<Rightarrow> address \<Rightarrow> u32" where
  "nft_balance_of s owner = vec_len (owner_tokens s owner)"

definition nft_total_supply :: "nft \<Rightarrow> u32" where
  "nft_total_supply s = vec_len (token_ids s)"

definition nft_token_by_index :: "nft \<Rightarrow> u32 \<Rightarrow> string option" where
  "nft_token_by_index s index = vec_get (token_ids s) index"

definition nft_token_of_owner_by_index :: "nft \<Rightarrow> address \<Rightarrow> u32 \<Rightarrow> string option" where
  "nft_token_of_owner_by_index s owner index = vec_get (owner_tokens s owner) index"

definition nft_token_uri :: "nft \<Rightarrow> string \<Rightarrow> string option" where
  "nft_token_uri s token_id =
     (case nft_tokens s token_id of None \<Rightarrow> None | Some record \<Rightarrow> tok_metadata_uri record)"

definition nft_burn :: "env \<Rightarrow> string \<Rightarrow> nft \<Rightarrow> (nft_error, nft) result" where
  "nft_burn e token_id s =
     (case nft_admin s of None \<Rightarrow> Inl (Err NftUnauthorized) | Some admin \<Rightarrow>
      (if \<not> require_auth e admin then Inl Trap
       else (case nft_tokens s token_id of None \<Rightarrow> Inl (Err NftNotFound) | Some record \<Rightarrow>
         let s1 = remove_owner_token (s\<lparr>nft_tokens := (nft_tokens s)(token_id := None)\<rparr>)
                    (tok_owner record) token_id
         in Inr (nft_emit (NftBurn admin token_id)
              (s1\<lparr>nft_token_ids := Some (remove1 token_id (token_ids s1))\<rparr>)))))"

definition nft_sync_expiry :: "env \<Rightarrow> string \<Rightarrow> u64 \<Rightarrow> nft \<Rightarrow> (nft_error, nft) result" where
  "nft_sync_expiry e token_id new_expiry s =
     (case nft_admin s of None \<Rightarrow> Inl (Err NftUnauthorized) | Some admin \<Rightarrow>
      (if \<not> require_auth e admin then Inl Trap
       else (case nft_tokens s token_id of None \<Rightarrow> Inl (Err NftNotFound) | Some record \<Rightarrow>
         Inr (put_token s token_id (record\<lparr>tok_expires_at := new_expiry\<rparr>)))))"

definition nft_sync_owner :: "env \<Rightarrow> string \<Rightarrow> address \<Rightarrow> nft \<Rightarrow> (nft_error, nft) result" where
  "nft_sync_owner e token_id new_owner s =
     (case nft_admin s of None \<Rightarrow> Inl (Err NftUnauthorized) | Some admin \<Rightarrow>
      (if \<not> require_auth e admin then Inl Trap
       else (case nft_tokens s token_id of None \<Rightarrow> Inl (Err NftNotFound) | Some record \<Rightarrow>
         let old_owner = tok_owner record
         in Inr (nft_emit (NftTransfer old_owner new_owner token_id)
              (reindex_owner_token (put_token s token_id (record\<lparr>tok_owner := new_owner\<rparr>))
                 old_owner new_owner token_id)))))"

text \<open>
  The entrypoints the registry calls, by symbol and argument list. Any other symbol, another number of
  arguments or another type of argument is refused by the host.
\<close>

definition nft_dispatch ::
    "query \<Rightarrow> env \<Rightarrow> string \<Rightarrow> val list \<Rightarrow> nft \<Rightarrow> (nft_error, nft) result" where
  "nft_dispatch q e f args s =
     (if f = ''mint'' then
        (case args of
           [VStr name, VAddr owner, VOptStr uri, VU64 expires_at] \<Rightarrow> nft_mint q e name owner uri expires_at s
         | _ \<Rightarrow> Inl Trap)
      else if f = ''sync_owner'' then
        (case args of [VStr name, VAddr new_owner] \<Rightarrow> nft_sync_owner e name new_owner s | _ \<Rightarrow> Inl Trap)
      else if f = ''sync_expiry'' then
        (case args of [VStr name, VU64 new_expiry] \<Rightarrow> nft_sync_expiry e name new_expiry s | _ \<Rightarrow> Inl Trap)
      else if f = ''burn'' then
        (case args of [VStr name] \<Rightarrow> nft_burn e name s | _ \<Rightarrow> Inl Trap)
      else Inl Trap)"

section \<open>The owner index\<close>

interpretation nft_idx: owner_index owner_tokens add_owner_token remove_owner_token
  by unfold_locales
     (auto simp: owner_tokens_def add_owner_token_def remove_owner_token_def Let_def)

lemma nft_frames [simp]:
  "nft_tokens (add_owner_token s a n) = nft_tokens s"
  "nft_tokens (remove_owner_token s a n) = nft_tokens s"
  "nft_tokens (reindex_owner_token s a b n) = nft_tokens s"
  "nft_tokens (nft_emit ev s) = nft_tokens s"
  "nft_tokens (append_token_id s n) = nft_tokens s"
  "nft_tokens (put_token s n r) = (nft_tokens s)(n \<mapsto> r)"
  "nft_token_ids (add_owner_token s a n) = nft_token_ids s"
  "nft_token_ids (remove_owner_token s a n) = nft_token_ids s"
  "nft_token_ids (reindex_owner_token s a b n) = nft_token_ids s"
  "nft_token_ids (nft_emit ev s) = nft_token_ids s"
  "nft_token_ids (put_token s n r) = nft_token_ids s"
  "nft_token_ids (append_token_id s n) = Some (token_ids s @ [n])"
  "nft_admin (add_owner_token s a n) = nft_admin s"
  "nft_admin (remove_owner_token s a n) = nft_admin s"
  "nft_admin (reindex_owner_token s a b n) = nft_admin s"
  "nft_admin (nft_emit ev s) = nft_admin s"
  "nft_admin (append_token_id s n) = nft_admin s"
  "nft_admin (put_token s n r) = nft_admin s"
  "nft_registry (add_owner_token s a n) = nft_registry s"
  "nft_registry (remove_owner_token s a n) = nft_registry s"
  "nft_registry (reindex_owner_token s a b n) = nft_registry s"
  "nft_registry (nft_emit ev s) = nft_registry s"
  "nft_registry (append_token_id s n) = nft_registry s"
  "nft_registry (put_token s n r) = nft_registry s"
  by (simp_all add: add_owner_token_def remove_owner_token_def reindex_owner_token_def
      nft_emit_def append_token_id_def put_token_def Let_def)

lemma owner_tokens_frames [simp]:
  "owner_tokens (nft_emit ev s) = owner_tokens s"
  "owner_tokens (append_token_id s n) = owner_tokens s"
  "owner_tokens (put_token s n r) = owner_tokens s"
  "owner_tokens (s\<lparr>nft_tokens := t\<rparr>) = owner_tokens s"
  "owner_tokens (s\<lparr>nft_token_ids := i\<rparr>) = owner_tokens s"
  "owner_tokens (s\<lparr>nft_name_data := d\<rparr>) = owner_tokens s"
  "owner_tokens (s\<lparr>nft_registry := g\<rparr>) = owner_tokens s"
  "owner_tokens (s\<lparr>nft_admin := m\<rparr>) = owner_tokens s"
  "owner_tokens (s\<lparr>nft_contract_version := v\<rparr>) = owner_tokens s"
  "owner_tokens (s\<lparr>nft_wasm := h\<rparr>) = owner_tokens s"
  by (simp_all add: fun_eq_iff owner_tokens_def nft_emit_def append_token_id_def put_token_def)

lemma index_move_token:
  assumes "index_consistent (nft_owner_of s) (owner_tokens s)" and "nft_owner_of s n = Some a"
  shows "index_consistent ((nft_owner_of s)(n \<mapsto> b)) (owner_tokens (reindex_owner_token (put_token s n r) a b n))"
proof (cases "a = b")
  case True
  with assms show ?thesis by (simp add: reindex_owner_token_def fun_upd_idem)
next
  case False
  have "owner_tokens (put_token s n r) = owner_tokens s" by simp
  with assms nft_idx.consistent_move [of "nft_owner_of s" "put_token s n r" n a b] False
  show ?thesis by (simp add: reindex_owner_token_def)
qed

section \<open>Invariant\<close>

text \<open>
  The two indexes agree with the tokens: every list of an owner holds exactly that owner's tokens,
  and the global list holds every token once.
\<close>

definition nft_inv :: "nft \<Rightarrow> bool" where
  "nft_inv s \<longleftrightarrow> index_consistent (nft_owner_of s) (owner_tokens s)
     \<and> distinct (token_ids s) \<and> set (token_ids s) = dom (nft_tokens s)"

lemma nft_owner_of_upd:
  "nft_owner_of (s\<lparr>nft_tokens := (nft_tokens s)(n := v)\<rparr>) = (nft_owner_of s)(n := map_option tok_owner v)"
  by (auto simp: nft_owner_of_def)

lemma nft_owner_of_cong: "nft_tokens s = nft_tokens t \<Longrightarrow> nft_owner_of s = nft_owner_of t"
  by (simp add: nft_owner_of_def fun_eq_iff)

lemma token_ids_cong: "nft_token_ids s = nft_token_ids t \<Longrightarrow> token_ids s = token_ids t"
  by (simp add: token_ids_def)

lemma nft_inv_empty: "nft_inv nft_empty"
  by (simp add: nft_inv_def nft_empty_def index_consistent_def nft_owner_of_def owner_tokens_def
      token_ids_def)

text \<open>An operation that leaves tokens and lists alone, or only rewrites a token of the same owner.\<close>

lemma nft_inv_frame:
  assumes "nft_inv s" and "nft_owner_of t = nft_owner_of s" and "nft_token_ids t = nft_token_ids s"
    and "owner_tokens t = owner_tokens s" and "dom (nft_tokens t) = dom (nft_tokens s)"
  shows "nft_inv t"
  using assms token_ids_cong [of t s] by (simp add: nft_inv_def)

lemma nft_inv_same_owner:
  assumes "nft_inv s" and "nft_tokens s n = Some r" and "tok_owner r' = tok_owner r"
  shows "nft_inv (put_token s n r')"
  by (rule nft_inv_frame [OF assms(1)])
     (use assms(2,3) in \<open>auto simp: nft_owner_of_def fun_eq_iff\<close>)

text \<open>A change of owner with the indexes moved along.\<close>

lemma nft_inv_move:
  assumes inv: "nft_inv s" and tok: "nft_tokens s n = Some r" and owner: "tok_owner r' = b"
  shows "nft_inv (reindex_owner_token (put_token s n r') (tok_owner r) b n)"
proof -
  let ?t = "reindex_owner_token (put_token s n r') (tok_owner r) b n"
  have "nft_owner_of ?t = (nft_owner_of s)(n \<mapsto> b)"
    by (simp add: nft_owner_of_def fun_eq_iff owner)
  moreover have "nft_owner_of s n = Some (tok_owner r)" by (simp add: nft_owner_of_def tok)
  ultimately have "index_consistent (nft_owner_of ?t) (owner_tokens ?t)"
    using index_move_token inv by (simp add: nft_inv_def)
  moreover have "token_ids ?t = token_ids s" by (rule token_ids_cong) simp
  ultimately show ?thesis using inv tok by (auto simp: nft_inv_def)
qed

lemma nft_inv_emit [simp]: "nft_inv (nft_emit ev s) \<longleftrightarrow> nft_inv s"
  using nft_owner_of_cong [of "nft_emit ev s" s] token_ids_cong [of "nft_emit ev s" s]
  by (simp add: nft_inv_def)

section \<open>Every entrypoint keeps the invariant\<close>

lemma nft_inv_config [simp]:
  "nft_inv (s\<lparr>nft_name_data := d\<rparr>) = nft_inv s"
  "nft_inv (s\<lparr>nft_registry := g\<rparr>) = nft_inv s"
  "nft_inv (s\<lparr>nft_admin := m, nft_contract_version := v\<rparr>) = nft_inv s"
  "nft_inv (s\<lparr>nft_contract_version := v, nft_wasm := h\<rparr>) = nft_inv s"
  by (simp_all add: nft_inv_def nft_owner_of_def [abs_def] token_ids_def)

lemma nft_initialize_inv: "nft_initialize a s = Inr t \<Longrightarrow> nft_inv s \<Longrightarrow> nft_inv t"
  by (auto simp: nft_initialize_def split: if_splits)

lemma nft_upgrade_inv: "nft_upgrade e h d s = Inr t \<Longrightarrow> nft_inv s \<Longrightarrow> nft_inv t"
  by (auto simp: nft_upgrade_def Let_def split: outcome_splits)

lemma nft_set_registry_inv: "nft_set_registry e a g s = Inr t \<Longrightarrow> nft_inv s \<Longrightarrow> nft_inv t"
  by (auto simp: nft_set_registry_def split: outcome_splits)

text \<open>What a mint leaves behind in the tokens and the lists.\<close>

definition minted :: "nft \<Rightarrow> string \<Rightarrow> address \<Rightarrow> string option \<Rightarrow> u64 \<Rightarrow> nft" where
  "minted s n owner uri x =
     add_owner_token (append_token_id (put_token s n \<lparr>tok_owner = owner, tok_approved = None,
       tok_metadata_uri = uri, tok_expires_at = x\<rparr>) n) owner n"

lemma nft_inv_minted:
  assumes inv: "nft_inv s" and new: "nft_tokens s n = None"
  shows "nft_inv (minted s n owner uri x)"
proof -
  have own: "nft_owner_of (minted s n owner uri x) = (nft_owner_of s)(n \<mapsto> owner)"
    by (simp add: nft_owner_of_def fun_eq_iff minted_def)
  have "nft_owner_of s n = None" by (simp add: nft_owner_of_def new)
  then have "index_consistent ((nft_owner_of s)(n \<mapsto> owner)) (owner_tokens (minted s n owner uri x))"
    unfolding minted_def by (intro nft_idx.consistent_insert) (use inv in \<open>simp_all add: nft_inv_def\<close>)
  moreover have "token_ids (minted s n owner uri x) = token_ids s @ [n]"
    by (simp add: minted_def token_ids_def)
  ultimately show ?thesis
    using inv new by (auto simp: nft_inv_def own) (auto simp: minted_def)
qed

lemma nft_mint_cases:
  assumes "nft_mint q e n owner uri x s = Inr t"
  obtains admin nd where "nft_admin s = Some admin" "require_auth e admin" "nft_tokens s n = None"
    "t = nft_emit (NftMint owner owner n) ((minted s n owner uri x)\<lparr>nft_name_data := nd\<rparr>)"
proof -
  have same: "minted s n owner uri x = (minted s n owner uri x)\<lparr>nft_name_data := nft_name_data (minted s n owner uri x)\<rparr>"
    by simp
  from assms obtain admin where "nft_admin s = Some admin" "require_auth e admin" "nft_tokens s n = None"
    and "t = nft_emit (NftMint owner owner n) (minted s n owner uri x)
      \<or> (\<exists>nd. t = nft_emit (NftMint owner owner n) ((minted s n owner uri x)\<lparr>nft_name_data := nd\<rparr>))"
    unfolding nft_mint_def Let_def minted_def [symmetric] by (auto split: outcome_splits)
  with that same show ?thesis by metis
qed

lemma nft_mint_inv: "nft_mint q e n owner uri x s = Inr t \<Longrightarrow> nft_inv s \<Longrightarrow> nft_inv t"
  by (erule nft_mint_cases) (simp add: nft_inv_minted)

lemma nft_refresh_inv: "nft_refresh_name_data q e n s = Inr t \<Longrightarrow> nft_inv s \<Longrightarrow> nft_inv t"
  by (auto simp: nft_refresh_name_data_def split: outcome_splits)

lemma nft_approve_inv: "nft_approve n c a s = Inr t \<Longrightarrow> nft_inv s \<Longrightarrow> nft_inv t"
  by (auto simp: nft_approve_def split: outcome_splits) (rule nft_inv_same_owner, assumption+, simp)

lemma nft_approve_clear_inv: "nft_approve_clear n c s = Inr t \<Longrightarrow> nft_inv s \<Longrightarrow> nft_inv t"
  by (auto simp: nft_approve_clear_def split: outcome_splits) (rule nft_inv_same_owner, assumption+, simp)

lemma nft_notify_fst: "nft_notify_registry call e n b sw = Inr tw \<Longrightarrow> fst tw = fst sw"
  by (auto simp: nft_notify_registry_def split: outcome_splits val.split_asm)

lemma nft_transfer_cases:
  assumes "nft_transfer call e n c b sw = Inr tw"
  obtains r where "nft_tokens (fst sw) n = Some r" "tok_owner r = c \<or> tok_approved r = Some c"
    "fst tw = nft_emit (NftTransfer (tok_owner r) b n)
       (reindex_owner_token (put_token (fst sw) n (r\<lparr>tok_owner := b, tok_approved := None\<rparr>)) (tok_owner r) b n)"
  using assms by (auto simp: nft_transfer_def Let_def dest!: nft_notify_fst split: outcome_splits)

lemma nft_transfer_from_cases:
  assumes "nft_transfer_from call e sp a b n sw = Inr tw"
  obtains r where "nft_tokens (fst sw) n = Some r" "tok_owner r = a" "tok_approved r = Some sp"
    "fst tw = nft_emit (NftTransfer a b n)
       (reindex_owner_token (put_token (fst sw) n (r\<lparr>tok_owner := b, tok_approved := None\<rparr>)) a b n)"
  using assms by (auto simp: nft_transfer_from_def Let_def dest!: nft_notify_fst split: outcome_splits)

lemma nft_transfer_inv:
  "nft_transfer call e n c b sw = Inr tw \<Longrightarrow> nft_inv (fst sw) \<Longrightarrow> nft_inv (fst tw)"
  by (erule nft_transfer_cases) (simp add: nft_inv_move)

lemma nft_transfer_from_inv:
  "nft_transfer_from call e sp a b n sw = Inr tw \<Longrightarrow> nft_inv (fst sw) \<Longrightarrow> nft_inv (fst tw)"
  by (erule nft_transfer_from_cases) (auto simp: nft_inv_move)

lemma nft_burn_cases:
  assumes "nft_burn e n s = Inr t"
  obtains admin r where "nft_admin s = Some admin" "require_auth e admin" "nft_tokens s n = Some r"
    "t = nft_emit (NftBurn admin n)
       ((remove_owner_token (s\<lparr>nft_tokens := (nft_tokens s)(n := None)\<rparr>) (tok_owner r) n)
         \<lparr>nft_token_ids := Some (remove1 n (token_ids s))\<rparr>)"
proof -
  have "token_ids (remove_owner_token (s\<lparr>nft_tokens := u\<rparr>) a n) = token_ids s" for u a
    by (rule token_ids_cong) simp
  with assms that show ?thesis by (auto simp: nft_burn_def Let_def split: outcome_splits)
qed

lemma nft_burn_inv:
  assumes burn: "nft_burn e n s = Inr t" and inv: "nft_inv s"
  shows "nft_inv t"
proof -
  from burn obtain admin r where tok: "nft_tokens s n = Some r"
    and t: "t = nft_emit (NftBurn admin n)
       ((remove_owner_token (s\<lparr>nft_tokens := (nft_tokens s)(n := None)\<rparr>) (tok_owner r) n)
         \<lparr>nft_token_ids := Some (remove1 n (token_ids s))\<rparr>)" by (rule nft_burn_cases)
  have own: "nft_owner_of t = (nft_owner_of s)(n := None)"
    by (simp add: t nft_owner_of_def fun_eq_iff)
  have "nft_owner_of s n = Some (tok_owner r)" by (simp add: nft_owner_of_def tok)
  then have "index_consistent (nft_owner_of t) (owner_tokens t)"
    unfolding own unfolding t owner_tokens_frames
    by (intro nft_idx.consistent_delete) (use inv in \<open>simp_all add: nft_inv_def\<close>)
  moreover have ids: "token_ids t = remove1 n (token_ids s)" by (simp add: t token_ids_def)
  moreover have "nft_tokens t = (nft_tokens s)(n := None)" by (simp add: t)
  ultimately show ?thesis using inv by (auto simp: nft_inv_def)
qed

lemma nft_sync_expiry_cases:
  assumes "nft_sync_expiry e n x s = Inr t"
  obtains r where "nft_tokens s n = Some r" "t = put_token s n (r\<lparr>tok_expires_at := x\<rparr>)"
  using assms by (auto simp: nft_sync_expiry_def split: outcome_splits)

lemma nft_sync_owner_cases:
  assumes "nft_sync_owner e n b s = Inr t"
  obtains r where "nft_tokens s n = Some r"
    "t = nft_emit (NftTransfer (tok_owner r) b n)
      (reindex_owner_token (put_token s n (r\<lparr>tok_owner := b\<rparr>)) (tok_owner r) b n)"
  using assms by (auto simp: nft_sync_owner_def Let_def split: outcome_splits)

lemma nft_sync_expiry_inv: "nft_sync_expiry e n x s = Inr t \<Longrightarrow> nft_inv s \<Longrightarrow> nft_inv t"
  by (erule nft_sync_expiry_cases) (auto intro: nft_inv_same_owner)

lemma nft_sync_owner_inv: "nft_sync_owner e n b s = Inr t \<Longrightarrow> nft_inv s \<Longrightarrow> nft_inv t"
  by (erule nft_sync_owner_cases) (simp add: nft_inv_move)

section \<open>The token contract as a callee\<close>

text \<open>
  The ledger the registry calls into: this contract at address \<open>a\<close>, whose look-ups \<open>q\<close> answers, and the other contracts,
  which keep a state of their own.
\<close>

definition nft_contract_at :: "address \<Rightarrow> query \<Rightarrow> 'v invoke \<Rightarrow> (nft \<times> 'v) invoke" where
  "nft_contract_at a q others e b f args sv =
     (if b = a then (case nft_dispatch q e f args (fst sv) of Inr t \<Rightarrow> Some (VUnit, t, snd sv) | Inl _ \<Rightarrow> None)
      else map_option (\<lambda>(r, v). (r, fst sv, v)) (others e b f args (snd sv)))"

lemma nft_contract_iff:
  "nft_contract_at a q others e a f args (s, v) = Some (r, t, v') \<longleftrightarrow>
     r = VUnit \<and> v' = v \<and> nft_dispatch q e f args s = Inr t"
  by (auto simp: nft_contract_at_def split: sum.splits)

lemma nft_contract_others:
  "nft_contract_at a q others e b f args (s, v) = Some (r, t, v') \<Longrightarrow> b \<noteq> a \<Longrightarrow> t = s"
  by (auto simp: nft_contract_at_def)

definition token_view :: "nft \<Rightarrow> string \<Rightarrow> (address \<times> u64) option" where
  "token_view s n = map_option (\<lambda>r. (tok_owner r, tok_expires_at r)) (nft_tokens s n)"

lemma token_view_upd:
  "nft_tokens t = (nft_tokens s)(n := v) \<Longrightarrow>
     token_view t = (token_view s)(n := map_option (\<lambda>r. (tok_owner r, tok_expires_at r)) v)"
  by (auto simp: token_view_def)

lemma token_view_iff [simp]:
  "token_view s n = None \<longleftrightarrow> nft_tokens s n = None"
  "token_view s n = Some (a, x) \<longleftrightarrow> (\<exists>r. nft_tokens s n = Some r \<and> tok_owner r = a \<and> tok_expires_at r = x)"
  by (auto simp: token_view_def)

lemma minted_tokens [simp]:
  "nft_tokens (minted s n owner uri x) = (nft_tokens s)
     (n \<mapsto> \<lparr>tok_owner = owner, tok_approved = None, tok_metadata_uri = uri, tok_expires_at = x\<rparr>)"
  by (simp add: minted_def)

interpretation nft_tok: token_mirror "nft_contract_at a q others" a "\<lambda>sv. token_view (fst sv)" for a q others
proof unfold_locales
  fix e n b u x r and w w' :: "nft \<times> 'a"
  assume "nft_contract_at a q others e a ''mint'' [VStr n, VAddr b, VOptStr u, VU64 x] w = Some (r, w')"
  then have "nft_mint q e n b u x (fst w) = Inr (fst w')"
    by (cases w; cases w') (simp add: nft_contract_iff nft_dispatch_def)
  then show "token_view (fst w) n = None \<and> token_view (fst w') = (token_view (fst w))(n \<mapsto> (b, x))"
    by (rule nft_mint_cases) (auto intro!: token_view_upd [THEN trans])
next
  fix e n r and w w' :: "nft \<times> 'a"
  assume "nft_contract_at a q others e a ''burn'' [VStr n] w = Some (r, w')"
  then have "nft_burn e n (fst w) = Inr (fst w')" by (cases w; cases w') (simp add: nft_contract_iff nft_dispatch_def)
  then show "token_view (fst w) n \<noteq> None \<and> token_view (fst w') = (token_view (fst w))(n := None)"
    by (rule nft_burn_cases) (auto intro!: token_view_upd [THEN trans])
next
  fix e n b r and w w' :: "nft \<times> 'a"
  assume "nft_contract_at a q others e a ''sync_owner'' [VStr n, VAddr b] w = Some (r, w')"
  then have "nft_sync_owner e n b (fst w) = Inr (fst w')" by (cases w; cases w') (simp add: nft_contract_iff nft_dispatch_def)
  then show "\<exists>c x. token_view (fst w) n = Some (c, x) \<and> token_view (fst w') = (token_view (fst w))(n \<mapsto> (b, x))"
    by (rule nft_sync_owner_cases) (auto intro!: token_view_upd [THEN trans])
next
  fix e n y r and w w' :: "nft \<times> 'a"
  assume "nft_contract_at a q others e a ''sync_expiry'' [VStr n, VU64 y] w = Some (r, w')"
  then have "nft_sync_expiry e n y (fst w) = Inr (fst w')" by (cases w; cases w') (simp add: nft_contract_iff nft_dispatch_def)
  then show "\<exists>c x. token_view (fst w) n = Some (c, x) \<and> token_view (fst w') = (token_view (fst w))(n \<mapsto> (c, y))"
    by (rule nft_sync_expiry_cases) (auto intro!: token_view_upd [THEN trans])
next
  fix e c args r and w w' :: "nft \<times> 'a"
  assume clear: "nft_contract_at a q others e c ''clear_reverse_record'' args w = Some (r, w')"
  then show "token_view (fst w') = token_view (fst w)"
    by (cases "c = a"; cases w; cases w') (auto simp: nft_contract_iff nft_dispatch_def dest: nft_contract_others)
qed

end
