(* ===== verification/Bridge.thy ===== *)
theory Bridge
  imports Common_Types
begin

text \<open>
  The bridge contract (\<open>contracts/bridge/src/lib.rs\<close>, \<open>axelar.rs\<close>): the destination chains an administrator
  supports, the routes cut from them, and the messages built for a route. \<open>evm_resolver.rs\<close> and
  \<open>target_for_chain\<close> are a fixed table nobody calls.
\<close>

section \<open>State\<close>

record bridge_route =
  destination_chain :: string
  destination_resolver :: string
  gateway :: string

record supported_chain =
  chain_id :: string
  resolver_address :: string

datatype bridge_error =
    BgValidation | UnsupportedChain | BgUpgradeFailed | BgUnauthorized | BgNotFound | BgAlreadyExists

datatype bridge_event =
    BgContractUpgraded u32 u32 address
  | SupportedChainAdded string string
  | SupportedChainRemoved string

record bridge =
  bg_routes :: "string \<Rightarrow> bridge_route option"
  bg_supported :: "string \<Rightarrow> supported_chain option"
  bg_chain_ids :: "string list option"
  bg_admin :: "address option"
  bg_contract_version :: "u32 option"
  bg_wasm :: "u8 list option"
  bg_events :: "bridge_event list"

definition bridge_empty :: bridge where
  "bridge_empty = \<lparr>bg_routes = (\<lambda>_. None), bg_supported = (\<lambda>_. None), bg_chain_ids = None, bg_admin = None,
     bg_contract_version = None, bg_wasm = None, bg_events = []\<rparr>"

definition bg_emit :: "bridge_event \<Rightarrow> bridge \<Rightarrow> bridge" where
  "bg_emit ev s = s\<lparr>bg_events := bg_events s @ [ev]\<rparr>"

section \<open>Administration\<close>

definition bridge_initialize :: "address \<Rightarrow> bridge \<Rightarrow> (bridge_error, bridge) result" where
  "bridge_initialize admin s =
     (if bg_admin s \<noteq> None then Inl (Err BgValidation)
      else Inr (s\<lparr>bg_admin := Some admin, bg_contract_version := Some CONTRACT_VERSION\<rparr>))"

definition bridge_get_version :: "bridge \<Rightarrow> u32" where
  "bridge_get_version s = (case bg_contract_version s of None \<Rightarrow> CONTRACT_VERSION | Some v \<Rightarrow> v)"

text \<open>The loop over the versions calls \<open>migrate\<close>, which does nothing.\<close>

definition bridge_upgrade :: "env \<Rightarrow> u8 list \<Rightarrow> u8 list \<Rightarrow> bridge \<Rightarrow> (bridge_error, bridge) result" where
  "bridge_upgrade e new_wasm_hash migration_data s =
     (case bg_admin s of None \<Rightarrow> Inl (Err BgUpgradeFailed) | Some admin \<Rightarrow>
      (if \<not> require_auth e admin then Inl Trap
       else
         let current_version = bridge_get_version s;
             target_version = decode_target_version migration_data;
             s1 = bg_emit (BgContractUpgraded current_version target_version admin)
                    (s\<lparr>bg_contract_version := Some target_version\<rparr>)
         in if \<not> env_wasm_ok e new_wasm_hash then Inl Trap else Inr (s1\<lparr>bg_wasm := Some new_wasm_hash\<rparr>)))"

definition register_chain :: "env \<Rightarrow> string \<Rightarrow> bridge \<Rightarrow> (bridge_error, bridge) result" where
  "register_chain e chain s =
     (case bg_admin s of None \<Rightarrow> Inl (Err BgValidation) | Some admin \<Rightarrow>
      (if \<not> require_auth e admin then Inl Trap else
       case validate_chain_name_soroban chain of Inl _ \<Rightarrow> Inl (Err BgValidation) | Inr _ \<Rightarrow>
       (case bg_supported s chain of None \<Rightarrow> Inl (Err UnsupportedChain) | Some supported \<Rightarrow>
        (if resolver_address supported = [] then Inl (Err BgValidation)
         else Inr (s\<lparr>bg_routes := (bg_routes s)(chain \<mapsto> \<lparr>destination_chain = chain,
                destination_resolver = resolver_address supported, gateway = ''''\<rparr>)\<rparr>)))))"

definition add_supported_chain :: "env \<Rightarrow> string \<Rightarrow> string \<Rightarrow> bridge \<Rightarrow> (bridge_error, bridge) result" where
  "add_supported_chain e cid resolver s =
     (case bg_admin s of None \<Rightarrow> Inl (Err BgValidation) | Some admin \<Rightarrow>
      (if \<not> require_auth e admin then Inl Trap else
       case validate_chain_name_soroban cid of Inl _ \<Rightarrow> Inl (Err BgValidation) | Inr _ \<Rightarrow>
       (if resolver = [] then Inl (Err BgValidation)
        else if bg_supported s cid \<noteq> None then Inl (Err BgAlreadyExists)
        else Inr (bg_emit (SupportedChainAdded cid resolver)
               (s\<lparr>bg_supported := (bg_supported s)(cid \<mapsto> \<lparr>chain_id = cid, resolver_address = resolver\<rparr>),
                  bg_chain_ids := Some (vec_or_empty (bg_chain_ids s) @ [cid])\<rparr>)))))"

definition remove_supported_chain :: "env \<Rightarrow> string \<Rightarrow> bridge \<Rightarrow> (bridge_error, bridge) result" where
  "remove_supported_chain e cid s =
     (case bg_admin s of None \<Rightarrow> Inl (Err BgValidation) | Some admin \<Rightarrow>
      (if \<not> require_auth e admin then Inl Trap else
       case validate_chain_name_soroban cid of Inl _ \<Rightarrow> Inl (Err BgValidation) | Inr _ \<Rightarrow>
       (if bg_supported s cid = None then Inl (Err BgNotFound)
        else Inr (bg_emit (SupportedChainRemoved cid)
               (s\<lparr>bg_supported := (bg_supported s)(cid := None),
                  bg_chain_ids := Some (remove_all cid (vec_or_empty (bg_chain_ids s))),
                  bg_routes := (bg_routes s)(cid := None)\<rparr>)))))"

definition get_supported_chains :: "bridge \<Rightarrow> supported_chain list" where
  "get_supported_chains s = List.map_filter (bg_supported s) (vec_or_empty (bg_chain_ids s))"

section \<open>Messages (axelar.rs)\<close>

text \<open>\<open>push_utf8\<close>: bytes that are not UTF-8 are left out without a word.\<close>

definition push_utf8 :: "string \<Rightarrow> string \<Rightarrow> string" where
  "push_utf8 buf bytes = (if valid_utf8 bytes then buf @ bytes else buf)"

definition dquote :: string where "dquote = [CHR 0x22]"

text \<open>The punctuation between two fields: quote, comma, quote, the key, quote, colon, quote.\<close>

definition next_key :: "string \<Rightarrow> string" where
  "next_key k = dquote @ '','' @ dquote @ k @ dquote @ '':'' @ dquote"

definition first_keys :: "string \<Rightarrow> string \<Rightarrow> string" where
  "first_keys ty k = ''{'' @ dquote @ ''type'' @ dquote @ '':'' @ dquote @ ty @ next_key k"

definition axelar_forward_message :: "string \<Rightarrow> string \<Rightarrow> string \<Rightarrow> string" where
  "axelar_forward_message name chain resolver =
     (let b1 = push_utf8 (first_keys ''xlm-ns-resolution'' ''name'') name;
          b2 = push_utf8 (b1 @ next_key ''destination_chain'') chain;
          b3 = push_utf8 (b2 @ next_key ''resolver'') resolver
      in b3 @ dquote @ ''}'')"

definition axelar_reverse_message :: "string \<Rightarrow> string \<Rightarrow> string \<Rightarrow> string \<Rightarrow> string" where
  "axelar_reverse_message addr primary_name chain resolver =
     (let b1 = push_utf8 (first_keys ''xlm-ns-reverse-resolution'' ''address'') addr;
          b2 = push_utf8 (b1 @ next_key ''primary_name'') primary_name;
          b3 = push_utf8 (b2 @ next_key ''destination_chain'') chain;
          b4 = push_utf8 (b3 @ next_key ''resolver'') resolver
      in b4 @ dquote @ ''}'')"

text \<open>
  \<open>soroban_str_to_bytes\<close> copies a text of at most 256 bytes into a buffer; the caller then takes the text's length of it, which
  panics when the text is longer.
\<close>

definition buffered :: "string \<Rightarrow> bool" where
  "buffered t \<longleftrightarrow> length t \<le> 256"

definition build_message :: "bridge \<Rightarrow> string \<Rightarrow> string \<Rightarrow> (bridge_error, string) result" where
  "build_message s name chain =
     (case validate_fqdn_soroban name of Inl _ \<Rightarrow> Inl (Err BgValidation) | Inr _ \<Rightarrow>
      (case validate_chain_name_soroban chain of Inl _ \<Rightarrow> Inl (Err BgValidation) | Inr _ \<Rightarrow>
       (case bg_routes s chain of None \<Rightarrow> Inl (Err UnsupportedChain) | Some route \<Rightarrow>
        (if \<not> (buffered name \<and> buffered (destination_chain route) \<and> buffered (destination_resolver route))
         then Inl Trap
         else Inr (axelar_forward_message name (destination_chain route) (destination_resolver route))))))"

definition build_reverse_message ::
    "bridge \<Rightarrow> string \<Rightarrow> string \<Rightarrow> string \<Rightarrow> (bridge_error, string) result" where
  "build_reverse_message s addr primary_name chain =
     (if addr = [] \<or> primary_name = [] then Inl (Err BgValidation) else
      case validate_fqdn_soroban primary_name of Inl _ \<Rightarrow> Inl (Err BgValidation) | Inr _ \<Rightarrow>
      (case validate_chain_name_soroban chain of Inl _ \<Rightarrow> Inl (Err BgValidation) | Inr _ \<Rightarrow>
       (case bg_routes s chain of None \<Rightarrow> Inl (Err UnsupportedChain) | Some route \<Rightarrow>
        (if \<not> (buffered addr \<and> buffered primary_name \<and> buffered (destination_chain route)
               \<and> buffered (destination_resolver route))
         then Inl Trap
         else Inr (axelar_reverse_message addr primary_name (destination_chain route) (destination_resolver route))))))"

section \<open>The fixed table\<close>

definition target_for_chain :: "string \<Rightarrow> bridge_route option" where
  "target_for_chain chain =
     (if chain = ''base'' then
        Some \<lparr>destination_chain = ''base'', destination_resolver = ''0xbaseResolver'', gateway = ''0xbaseGateway''\<rparr>
      else if chain = ''ethereum'' then
        Some \<lparr>destination_chain = ''ethereum'', destination_resolver = ''0xethResolver'', gateway = ''0xethGateway''\<rparr>
      else if chain = ''arbitrum'' then
        Some \<lparr>destination_chain = ''arbitrum'', destination_resolver = ''0xarbResolver'', gateway = ''0xarbGateway''\<rparr>
      else None)"

section \<open>Commands and invariant\<close>

datatype bridge_command =
    BInitialize address
  | BUpgrade "u8 list" "u8 list"
  | BRegisterChain string
  | BAddSupportedChain string string
  | BRemoveSupportedChain string

fun bridge_exec :: "env \<Rightarrow> bridge_command \<Rightarrow> bridge \<Rightarrow> (bridge_error, bridge) result" where
  "bridge_exec e (BInitialize a) s = bridge_initialize a s"
| "bridge_exec e (BUpgrade h d) s = bridge_upgrade e h d s"
| "bridge_exec e (BRegisterChain c) s = register_chain e c s"
| "bridge_exec e (BAddSupportedChain c r) s = add_supported_chain e c r s"
| "bridge_exec e (BRemoveSupportedChain c) s = remove_supported_chain e c s"

inductive bridge_reachable :: "bridge \<Rightarrow> bool" where
  start: "bridge_reachable bridge_empty"
| command: "bridge_reachable s \<Longrightarrow> bridge_exec e cmd s = Inr s' \<Longrightarrow> bridge_reachable s'"

text \<open>A chain that may be supported, and the route cut from it.\<close>

definition chain_ok :: "string \<Rightarrow> supported_chain \<Rightarrow> bool" where
  "chain_ok c sc \<longleftrightarrow> chain_id sc = c \<and> resolver_address sc \<noteq> [] \<and> c \<noteq> [] \<and> length c \<le> 32"

definition route_from :: "supported_chain \<Rightarrow> bridge_route" where
  "route_from sc = \<lparr>destination_chain = chain_id sc, destination_resolver = resolver_address sc, gateway = ''''\<rparr>"

definition bridge_inv :: "bridge \<Rightarrow> bool" where
  "bridge_inv s \<longleftrightarrow> distinct (vec_or_empty (bg_chain_ids s))
     \<and> set (vec_or_empty (bg_chain_ids s)) = dom (bg_supported s)
     \<and> (\<forall>c sc. bg_supported s c = Some sc \<longrightarrow> chain_ok c sc)
     \<and> (\<forall>c rt. bg_routes s c = Some rt \<longrightarrow> (\<exists>sc. bg_supported s c = Some sc \<and> rt = route_from sc))"

lemma validate_chain_iff: "validate_chain_name_soroban c = Inr u \<longleftrightarrow> c \<noteq> [] \<and> length c \<le> 32"
  by (cases u) (auto simp: validate_chain_name_soroban_def length_constants)

lemma bridge_inv_empty: "bridge_inv bridge_empty"
  by (simp add: bridge_inv_def bridge_empty_def)

lemma bridge_invD:
  assumes "bridge_inv s"
  shows "bg_supported s c = Some sc \<Longrightarrow> chain_id sc = c"
    and "bg_routes s c = Some rt \<Longrightarrow> \<exists>sc. bg_supported s c = Some sc \<and> rt = route_from sc"
    and "c \<in> set (vec_or_empty (bg_chain_ids s)) \<longleftrightarrow> bg_supported s c \<noteq> None"
    and "distinct (vec_or_empty (bg_chain_ids s))"
  using assms by (auto simp: bridge_inv_def chain_ok_def)

lemma register_chain_inv:
  assumes "register_chain e c s = Inr s'" and inv: "bridge_inv s"
  shows "bridge_inv s'"
proof -
  from assms(1) obtain sc where sc: "bg_supported s c = Some sc"
    and s': "s' = s\<lparr>bg_routes := (bg_routes s)(c \<mapsto> \<lparr>destination_chain = c,
                destination_resolver = resolver_address sc, gateway = ''''\<rparr>)\<rparr>"
    by (auto simp: register_chain_def split: outcome_splits)
  then have "s' = s\<lparr>bg_routes := (bg_routes s)(c \<mapsto> route_from sc)\<rparr>"
    using bridge_invD(1) [OF inv sc] by (simp add: route_from_def)
  with inv sc show ?thesis by (auto simp: bridge_inv_def)
qed

lemma add_chain_inv:
  assumes "add_supported_chain e c r s = Inr s'" and inv: "bridge_inv s"
  shows "bridge_inv s'"
proof -
  from assms(1) have c: "c \<noteq> []" "length c \<le> 32" "r \<noteq> []" "bg_supported s c = None"
    and s': "s' = bg_emit (SupportedChainAdded c r)
       (s\<lparr>bg_supported := (bg_supported s)(c \<mapsto> \<lparr>chain_id = c, resolver_address = r\<rparr>),
          bg_chain_ids := Some (vec_or_empty (bg_chain_ids s) @ [c])\<rparr>)"
    by (auto simp: add_supported_chain_def validate_chain_iff split: outcome_splits)
  have "c \<notin> dom (bg_supported s)" using c by auto
  with inv have "c \<notin> set (vec_or_empty (bg_chain_ids s))" by (simp add: bridge_inv_def)
  moreover have "bg_routes s c = None" using bridge_invD(2) [OF inv, of c] c(4) by (cases "bg_routes s c") auto
  ultimately show ?thesis using inv c(1-3) by (auto simp: s' bg_emit_def bridge_inv_def chain_ok_def)
qed

lemma remove_chain_inv:
  assumes "remove_supported_chain e c s = Inr s'" and inv: "bridge_inv s"
  shows "bridge_inv s'"
proof -
  from assms(1) have "s' = bg_emit (SupportedChainRemoved c)
       (s\<lparr>bg_supported := (bg_supported s)(c := None),
          bg_chain_ids := Some (remove_all c (vec_or_empty (bg_chain_ids s))),
          bg_routes := (bg_routes s)(c := None)\<rparr>)"
    by (auto simp: remove_supported_chain_def split: outcome_splits)
  with inv show ?thesis by (auto simp: bg_emit_def bridge_inv_def)
qed

lemma bridge_exec_inv: "bridge_exec e cmd s = Inr s' \<Longrightarrow> bridge_inv s \<Longrightarrow> bridge_inv s'"
  by (cases cmd) (auto simp: register_chain_inv add_chain_inv remove_chain_inv,
      auto simp: bridge_initialize_def bridge_upgrade_def bridge_inv_def bg_emit_def Let_def split: outcome_splits)

lemma bridge_reachable_inv: "bridge_reachable s \<Longrightarrow> bridge_inv s"
  by (induction rule: bridge_reachable.induct) (auto intro: bridge_inv_empty bridge_exec_inv)

end
