(* ===== verification/Contract_Views.thy ===== *)
theory Contract_Views
  imports Registry Registrar Resolver Auction Subdomain Nft Bridge
begin

text \<open>
  The entrypoints that only answer from the state or from a constant of the code, of all contracts, and the setters of the
  client's name record (\<open>xlm-ns-common/src/types.rs\<close>).
\<close>

section \<open>Constants\<close>

definition ADMIN_RECOVERY_SUPPORTED :: bool where "ADMIN_RECOVERY_SUPPORTED = False"
definition STORAGE_SCHEMA_VERSION :: u32 where "STORAGE_SCHEMA_VERSION = 1"
definition PRICING_POLICY_VERSION :: u32 where "PRICING_POLICY_VERSION = 1"

text \<open>\<open>version\<close> is the constant of the code that runs, whatever version the state has.\<close>

definition registry_version :: "registry \<Rightarrow> u32" where "registry_version s = CONTRACT_VERSION"
definition registrar_version :: "registrar \<Rightarrow> u32" where "registrar_version s = CONTRACT_VERSION"
definition resolver_version :: "resolver \<Rightarrow> u32" where "resolver_version s = CONTRACT_VERSION"
definition auction_version :: "auction_house \<Rightarrow> u32" where "auction_version s = CONTRACT_VERSION"
definition subdomain_version :: "subdomains \<Rightarrow> u32" where "subdomain_version s = CONTRACT_VERSION"
definition nft_version :: "nft \<Rightarrow> u32" where "nft_version s = CONTRACT_VERSION"
definition bridge_version :: "bridge \<Rightarrow> u32" where "bridge_version s = CONTRACT_VERSION"

definition registry_supports_admin_recovery :: bool where
  "registry_supports_admin_recovery = ADMIN_RECOVERY_SUPPORTED"

definition registrar_supports_admin_recovery :: bool where
  "registrar_supports_admin_recovery = ADMIN_RECOVERY_SUPPORTED"

definition storage_schema_version :: u32 where "storage_schema_version = STORAGE_SCHEMA_VERSION"
definition pricing_policy_version :: u32 where "pricing_policy_version = PRICING_POLICY_VERSION"

section \<open>Entries\<close>

definition nft_token :: "nft \<Rightarrow> string \<Rightarrow> token_record option" where
  "nft_token s token_id = nft_tokens s token_id"

definition bridge_supported_chain :: "bridge \<Rightarrow> string \<Rightarrow> supported_chain option" where
  "bridge_supported_chain s cid = bg_supported s cid"

definition bridge_route_of :: "bridge \<Rightarrow> string \<Rightarrow> bridge_route option" where
  "bridge_route_of s chain = bg_routes s chain"

section \<open>Name records of clients\<close>

definition name_record_set_owner :: "name_record \<Rightarrow> string \<Rightarrow> name_record" where
  "name_record_set_owner r owner = r\<lparr>nm_owner := owner\<rparr>"

definition name_record_set_resolver :: "name_record \<Rightarrow> string option \<Rightarrow> name_record" where
  "name_record_set_resolver r resolver = r\<lparr>nm_resolver := resolver\<rparr>"

definition name_record_set_target_address :: "name_record \<Rightarrow> string option \<Rightarrow> name_record" where
  "name_record_set_target_address r target = r\<lparr>nm_target_address := target\<rparr>"

definition next_grace_period_ends_at :: "u64 \<Rightarrow> u64" where
  "next_grace_period_ends_at expires_at = grace_period_ends_at expires_at"

section \<open>Answers after a call\<close>

text \<open>A chain that is registered has the route to the resolver it is supported with, and no other chain's route changes.\<close>

lemma route_after_register:
  assumes "register_chain e chain s = Inr s'"
  shows "\<exists>supported. bridge_supported_chain s chain = Some supported
    \<and> bridge_route_of s' = (bridge_route_of s)(chain \<mapsto>
        \<lparr>destination_chain = chain, destination_resolver = resolver_address supported, gateway = []\<rparr>)"
  using assms by (auto simp: register_chain_def bridge_supported_chain_def bridge_route_of_def fun_eq_iff split: outcome_splits)

text \<open>The owner that the token contract states is the one of the record it shows.\<close>

lemma token_owner: "nft_owner_of s token_id = map_option tok_owner (nft_token s token_id)"
  by (simp add: nft_owner_of_def nft_token_def)

text \<open>A record extended by the default grace period is claimable exactly when both its expiry and its grace period are over.\<close>

lemma extended_claimable:
  "name_record_is_claimable_at (name_record_extend_expiry r expires (next_grace_period_ends_at expires)) now
     \<longleftrightarrow> \<not> name_record_is_active_at (name_record_extend_expiry r expires (next_grace_period_ends_at expires)) now
       \<and> \<not> name_record_is_in_grace_period (name_record_extend_expiry r expires (next_grace_period_ends_at expires)) now"
  using default_lifecycle_partition [of expires now]
  by (auto simp: is_claimable_at_def within_grace_period_def is_active_at_def name_record_extend_expiry_def name_record_is_claimable_at_def name_record_is_active_at_def
      name_record_is_in_grace_period_def next_grace_period_ends_at_def)

end
