(* ===== verification/Common_Properties.thy ===== *)
theory Common_Properties
  imports Common_Types
begin

text \<open>
  Properties of the shared package: the grammar of names, the two ways of validating them, their construction and
  parsing, and the lifecycle of a name record.
\<close>

section \<open>Parsing\<close>

lemma split_two:
  assumes "split_on c xs = [a, b]"
  shows "xs = a @ c # b" and "c \<notin> set a" and "c \<notin> set b"
proof -
  have "concat (map (\<lambda>l. l @ [c]) (split_on c xs)) = xs @ [c]" by (rule split_on_concat)
  with assms show "xs = a @ c # b" by simp
  show "c \<notin> set a" "c \<notin> set b" using split_on_pieces [of _ c xs] assms by auto
qed

lemma parse_parts_iff:
  "parse_fqdn_parts ps = Inr (l, t) \<longleftrightarrow> valid_label l \<and> ps = [l, ''xlm'']"
proof (induction ps rule: parse_fqdn_parts.induct)
  case (4 label tl)
  show ?case
    by (cases t; cases "validate_label label")
       (auto simp: tld_parse_def simp flip: validate_label_iff)
qed auto

lemma parse_fqdn_iff: "parse_fqdn name = Inr (l, t) \<longleftrightarrow> valid_label l \<and> name = l @ ''.xlm''"
proof -
  have "split_on CHR ''.'' name = [l, ''xlm''] \<longleftrightarrow> name = l @ ''.xlm''" if "valid_label l"
  proof
    show "split_on CHR ''.'' name = [l, ''xlm''] \<Longrightarrow> name = l @ ''.xlm''" using split_two(1) by fastforce
    have "split_on CHR ''.'' (l @ CHR ''.'' # ''xlm'') = [l, ''xlm'']"
      using split_on_free [OF valid_label_no_dot [OF that]] by simp
    then show "name = l @ ''.xlm'' \<Longrightarrow> split_on CHR ''.'' name = [l, ''xlm'']" by simp
  qed
  then show ?thesis unfolding parse_fqdn_def parse_parts_iff by blast
qed

section \<open>Properties\<close>

text \<open>
  C23: The contracts accept as a name exactly one or more labels, each followed by a dot, and then \<open>xlm\<close>, of at most 68 bytes in
  all, where a label has 3 to 64 bytes out of a-z, 0-9 and the hyphen and neither begins nor ends with a hyphen. The
  registrar's base names are those with a single label.
\<close>

theorem fqdn_grammar:
  "(validate_fqdn_soroban name = Inr () \<longleftrightarrow>
     (\<exists>labels. labels \<noteq> [] \<and> list_all valid_label labels
        \<and> name = concat (map (\<lambda>l. l @ ''.'') labels) @ ''xlm'' \<and> length name \<le> 68))
   \<and> (validate_base_name_soroban name = Inr () \<longleftrightarrow> (\<exists>l. valid_label l \<and> name = l @ ''.xlm''))"
  unfolding validate_fqdn_soroban_iff validate_base_name_soroban_iff list_all_iff fqdn_of_def by auto

text \<open>
  The name built from a label is the label back: the client's parser and the contracts' \<open>extract_label\<close> both return it,
  and the client's parser accepts exactly the names the contracts accept as base names, that is exactly what is built from a label.
\<close>

theorem name_roundtrip:
  "(build_xlm_name label = Inr name \<longleftrightarrow> parse_fqdn name = Inr (label, Xlm))
   \<and> ((\<exists>l. build_xlm_name l = Inr name) \<longleftrightarrow> validate_base_name_soroban name = Inr ())
   \<and> ((\<exists>l. build_xlm_name l = Inr name \<and> extract_label_soroban name = Inr l) \<longleftrightarrow> validate_base_name_soroban name = Inr ())"
  using extract_label_build by (auto simp: parse_fqdn_iff build_xlm_name_iff validate_base_name_soroban_iff)

text \<open>
  The byte-level label check of the contracts and the character-level one of the clients accept the same
  labels; they name different errors exactly where a label has both an illegal character and a hyphen at an end.
\<close>

theorem label_checks_agree:
  "validate_label_soroban l = Inr () \<longleftrightarrow> validate_label l = Inr ()"
  "validate_label_bytes l = validate_label l \<longleftrightarrow>
     \<not> (3 \<le> length l \<and> length l \<le> 64 \<and> \<not> list_all label_byte l \<and> (hd l = CHR ''-'' \<or> last l = CHR ''-''))"
  by (simp add: validate_label_soroban_iff validate_label_iff)
     (auto simp: validate_label_bytes_def validate_label_def length_constants not_less)

text \<open>
  A name record whose grace period is the default one is at every time exactly one of active, in its grace
  period, or claimable. One with another grace period is not: with a shorter one there are times when it counts
  as in its grace period and claimable at once, with a longer one times when it is none of the three.
\<close>

theorem name_record_lifecycle:
  fixes r :: name_record
  defines "active \<equiv> name_record_is_active_at r" and "grace \<equiv> name_record_is_in_grace_period r"
    and "claimable \<equiv> name_record_is_claimable_at r"
  shows "nm_grace_period_ends_at r = grace_period_ends_at (nm_expires_at r) \<Longrightarrow>
      (active t \<longleftrightarrow> \<not> grace t \<and> \<not> claimable t) \<and> \<not> (grace t \<and> claimable t)"
    and "nm_expires_at r \<le> nm_grace_period_ends_at r \<Longrightarrow>
      nm_grace_period_ends_at r < grace_period_ends_at (nm_expires_at r) \<Longrightarrow> \<exists>t. grace t \<and> claimable t"
    and "grace_period_ends_at (nm_expires_at r) < nm_grace_period_ends_at r \<Longrightarrow>
      \<exists>t. \<not> active t \<and> \<not> grace t \<and> \<not> claimable t"
proof -
  note defs = active_def grace_def claimable_def name_record_is_active_at_def name_record_is_in_grace_period_def
    name_record_is_claimable_at_def is_active_at_def within_grace_period_def is_claimable_at_def
  have ge: "nm_expires_at r \<le> grace_period_ends_at (nm_expires_at r)"
    by (simp add: grace_period_ends_at_def grace_ge_expiry)
  show "(active t \<longleftrightarrow> \<not> grace t \<and> \<not> claimable t) \<and> \<not> (grace t \<and> claimable t)"
    if "nm_grace_period_ends_at r = grace_period_ends_at (nm_expires_at r)"
    using that ge by (auto simp: defs)
  show "\<exists>t. grace t \<and> claimable t"
    if "nm_expires_at r \<le> nm_grace_period_ends_at r" "nm_grace_period_ends_at r < grace_period_ends_at (nm_expires_at r)"
    using that by (intro exI [of _ "grace_period_ends_at (nm_expires_at r)"]) (auto simp: defs)
  show "\<exists>t. \<not> active t \<and> \<not> grace t \<and> \<not> claimable t" if "grace_period_ends_at (nm_expires_at r) < nm_grace_period_ends_at r"
    using that ge by (intro exI [of _ "nm_grace_period_ends_at r"]) (auto simp: defs)
qed

theorem name_record_lifecycle_witness:
  "\<exists>t. name_record_is_in_grace_period (name_record_new ''alice'' ''G'' None 0 1000 2000) t
     \<and> name_record_is_claimable_at (name_record_new ''alice'' ''G'' None 0 1000 2000) t"
  using name_record_lifecycle(2) [of "name_record_new ''alice'' ''G'' None 0 1000 2000"]
  by (simp add: name_record_new_def grace_period_ends_at_def grace_period_ends_at_with_duration_def
      GRACE_PERIOD_SECONDS_def sat_add_def)

text \<open>
  Decoding the migration data of an upgrade gives back the version that was encoded in its first four bytes, big endian,
  whatever follows; with fewer than four bytes the target is version 2.
\<close>

theorem target_version_roundtrip:
  "decode_target_version (to_be_bytes v @ rest) = v \<and> (length data < 4 \<longrightarrow> decode_target_version data = 2)"
  by (simp add: decode_to_be_bytes) (simp add: decode_target_version_def CONTRACT_VERSION_def)

theorem target_version_roundtrip_witness:
  "decode_target_version [] = 2 \<and> decode_target_version [0, 0, 0, 3, 9] = 3"
  using target_version_roundtrip [of 3 "[9]" "[]"]
  by (simp add: to_be_bytes_def)

end
