(* ===== verification/Registry_Proofs.thy ===== *)
theory Registry_Proofs
  imports Registry
begin

text \<open>
  The registry as a state machine: its commands, what a successful command does, the invariant
  of its entries, locks and owner index, and who can change the owner of a name.
\<close>

section \<open>The owner index\<close>

interpretation rg_idx: owner_index names_for_owner add_owner_name remove_owner_name
  by unfold_locales
     (auto simp: names_for_owner_def add_owner_name_def remove_owner_name_def Let_def)

lemma rg_frames [simp]:
  "rg_entries (add_owner_name s a n) = rg_entries s"
  "rg_entries (remove_owner_name s a n) = rg_entries s"
  "rg_entries (rg_emit ev s) = rg_entries s"
  "rg_entries (put_entry s n en) = (rg_entries s)(n \<mapsto> en)"
  "rg_entries (put_lock s n l) = rg_entries s"
  "rg_locks (add_owner_name s a n) = rg_locks s"
  "rg_locks (remove_owner_name s a n) = rg_locks s"
  "rg_locks (rg_emit ev s) = rg_locks s"
  "rg_locks (put_entry s n en) = rg_locks s"
  "rg_locks (put_lock s n l) = (rg_locks s)(n \<mapsto> l)"
  "rg_nft_contract (add_owner_name s a n) = rg_nft_contract s"
  "rg_nft_contract (remove_owner_name s a n) = rg_nft_contract s"
  "rg_nft_contract (rg_emit ev s) = rg_nft_contract s"
  "rg_nft_contract (put_entry s n en) = rg_nft_contract s"
  "rg_nft_contract (put_lock s n l) = rg_nft_contract s"
  by (simp_all add: add_owner_name_def remove_owner_name_def rg_emit_def put_entry_def put_lock_def Let_def)

lemma names_for_owner_frames [simp]:
  "names_for_owner (rg_emit ev s) = names_for_owner s"
  "names_for_owner (put_entry s n en) = names_for_owner s"
  "names_for_owner (put_lock s n l) = names_for_owner s"
  "names_for_owner (s\<lparr>rg_entries := t\<rparr>) = names_for_owner s"
  "names_for_owner (s\<lparr>rg_locks := k\<rparr>) = names_for_owner s"
  "names_for_owner (s\<lparr>rg_nft_contract := g\<rparr>) = names_for_owner s"
  "names_for_owner (s\<lparr>rg_dispute_admin := d\<rparr>) = names_for_owner s"
  "names_for_owner (s\<lparr>rg_admin := m, rg_dispute_admin := d, rg_contract_version := v\<rparr>) = names_for_owner s"
  "names_for_owner (s\<lparr>rg_contract_version := v, rg_wasm := h\<rparr>) = names_for_owner s"
  by (simp_all add: fun_eq_iff names_for_owner_def rg_emit_def put_entry_def put_lock_def)

section \<open>Invariant\<close>

definition registry_owner_of :: "registry \<Rightarrow> string \<Rightarrow> address option" where
  "registry_owner_of s name = map_option re_owner (rg_entries s name)"

text \<open>
  An entry is filed under its own valid name, was registered no later than it expires, expires no
  later than its grace period ends, and has a bounded metadata URI.
\<close>

definition entry_ok :: "string \<Rightarrow> registry_entry \<Rightarrow> bool" where
  "entry_ok n en \<longleftrightarrow> re_name en = n \<and> validate_fqdn_soroban n = Inr ()
     \<and> re_registered_at en \<le> re_expires_at en \<and> re_expires_at en \<le> re_grace_period_ends_at en
     \<and> (\<forall>u. re_metadata_uri en = Some u \<longrightarrow> length u \<le> MAX_METADATA_URI_LENGTH)"

definition registry_inv :: "registry \<Rightarrow> bool" where
  "registry_inv s \<longleftrightarrow> index_consistent (registry_owner_of s) (names_for_owner s)
     \<and> (\<forall>n en. rg_entries s n = Some en \<longrightarrow> entry_ok n en)
     \<and> dom (rg_locks s) \<subseteq> dom (rg_entries s)"

lemma registry_inv_empty: "registry_inv registry_empty"
  by (simp add: registry_inv_def registry_empty_def index_consistent_def registry_owner_of_def
      names_for_owner_def)

lemma registry_inv_cong:
  assumes "registry_inv s" and "rg_entries t = rg_entries s" and "rg_locks t = rg_locks s"
    and "names_for_owner t = names_for_owner s"
  shows "registry_inv t"
  using assms by (simp add: registry_inv_def registry_owner_of_def [abs_def])

lemma registry_inv_simps [simp]:
  "registry_inv (rg_emit ev s) = registry_inv s"
  "registry_inv (s\<lparr>rg_nft_contract := g\<rparr>) = registry_inv s"
  "registry_inv (s\<lparr>rg_dispute_admin := d\<rparr>) = registry_inv s"
  "registry_inv (s\<lparr>rg_admin := m, rg_dispute_admin := d, rg_contract_version := v\<rparr>) = registry_inv s"
  "registry_inv (s\<lparr>rg_contract_version := v, rg_wasm := h\<rparr>) = registry_inv s"
  by (simp_all add: registry_inv_def registry_owner_of_def [abs_def])

text \<open>The three ways the contract writes entries: delete, place a new one, replace one.\<close>

definition delete_entry :: "registry \<Rightarrow> string \<Rightarrow> registry_entry \<Rightarrow> registry" where
  "delete_entry s n en =
     (remove_owner_name s (re_owner en) n)\<lparr>rg_entries := (rg_entries (remove_owner_name s (re_owner en) n))(n := None)\<rparr>"

definition place_entry :: "registry \<Rightarrow> string \<Rightarrow> registry_entry \<Rightarrow> registry" where
  "place_entry s n en = add_owner_name (put_entry s n en) (re_owner en) n"

definition move_entry :: "registry \<Rightarrow> string \<Rightarrow> registry_entry \<Rightarrow> registry_entry \<Rightarrow> registry" where
  "move_entry s n en en' =
     add_owner_name (remove_owner_name (put_entry s n en') (re_owner en) n) (re_owner en') n"

lemma write_simps [simp]:
  "rg_entries (delete_entry s n en) = (rg_entries s)(n := None)"
  "rg_entries (place_entry s n en) = (rg_entries s)(n \<mapsto> en)"
  "rg_entries (move_entry s n en en') = (rg_entries s)(n \<mapsto> en')"
  "rg_locks (delete_entry s n en) = rg_locks s"
  "rg_locks (place_entry s n en) = rg_locks s"
  "rg_locks (move_entry s n en en') = rg_locks s"
  "rg_nft_contract (delete_entry s n en) = rg_nft_contract s"
  "rg_nft_contract (place_entry s n en) = rg_nft_contract s"
  "rg_nft_contract (move_entry s n en en') = rg_nft_contract s"
  by (simp_all add: delete_entry_def place_entry_def move_entry_def)

lemma registry_owner_of_upd:
  "rg_entries t = (rg_entries s)(n := v) \<Longrightarrow> registry_owner_of t = (registry_owner_of s)(n := map_option re_owner v)"
  by (auto simp: registry_owner_of_def)

lemma registry_inv_delete:
  assumes inv: "registry_inv s" and en: "rg_entries s n = Some en" and unlocked: "rg_locks s n = None"
  shows "registry_inv (delete_entry s n en)"
proof -
  have "registry_owner_of s n = Some (re_owner en)" by (simp add: registry_owner_of_def en)
  then have "index_consistent ((registry_owner_of s)(n := None)) (names_for_owner (delete_entry s n en))"
    unfolding delete_entry_def names_for_owner_frames
    by (intro rg_idx.consistent_delete) (use inv in \<open>simp_all add: registry_inv_def\<close>)
  moreover have "registry_owner_of (delete_entry s n en) = (registry_owner_of s)(n := None)"
    using registry_owner_of_upd [of "delete_entry s n en" s n None] by simp
  ultimately show ?thesis using inv unlocked by (auto simp: registry_inv_def)
qed

lemma registry_inv_place:
  assumes inv: "registry_inv s" and en: "rg_entries s n = None" and ok: "entry_ok n en"
  shows "registry_inv (place_entry s n en)"
proof -
  have "registry_owner_of s n = None" by (simp add: registry_owner_of_def en)
  then have "index_consistent ((registry_owner_of s)(n \<mapsto> re_owner en)) (names_for_owner (place_entry s n en))"
    unfolding place_entry_def
    by (intro rg_idx.consistent_insert) (use inv in \<open>simp_all add: registry_inv_def\<close>)
  moreover have "registry_owner_of (place_entry s n en) = (registry_owner_of s)(n \<mapsto> re_owner en)"
    using registry_owner_of_upd [of "place_entry s n en" s n "Some en"] by simp
  ultimately show ?thesis using inv ok by (auto simp: registry_inv_def)
qed

lemma registry_inv_move:
  assumes inv: "registry_inv s" and en: "rg_entries s n = Some en" and ok: "entry_ok n en'"
  shows "registry_inv (move_entry s n en en')"
proof -
  have "registry_owner_of s n = Some (re_owner en)" by (simp add: registry_owner_of_def en)
  then have "index_consistent ((registry_owner_of s)(n \<mapsto> re_owner en')) (names_for_owner (move_entry s n en en'))"
    unfolding move_entry_def
    by (intro rg_idx.consistent_move) (use inv in \<open>simp_all add: registry_inv_def\<close>)
  moreover have "registry_owner_of (move_entry s n en en') = (registry_owner_of s)(n \<mapsto> re_owner en')"
    using registry_owner_of_upd [of "move_entry s n en en'" s n "Some en'"] by simp
  ultimately show ?thesis using inv en ok by (auto simp: registry_inv_def)
qed

lemma registry_inv_edit:
  assumes inv: "registry_inv s" and en: "rg_entries s n = Some en" and ok: "entry_ok n en'"
    and same: "re_owner en' = re_owner en"
  shows "registry_inv (put_entry s n en')"
proof -
  have "registry_owner_of s n = Some (re_owner en)" by (simp add: registry_owner_of_def en)
  then have "registry_owner_of (put_entry s n en') = registry_owner_of s"
    using registry_owner_of_upd [of "put_entry s n en'" s n "Some en'"] same by (simp add: fun_upd_idem)
  with inv ok show ?thesis by (auto simp: registry_inv_def)
qed

lemma registry_inv_entry: "registry_inv s \<Longrightarrow> rg_entries s n = Some en \<Longrightarrow> entry_ok n en"
  by (simp add: registry_inv_def)

section \<open>What a successful call has done\<close>

text \<open>The state after the lock check: the same, with the lock of \<open>n\<close> gone.\<close>

lemma unlocked_cases:
  assumes "ensure_name_unlocked s n now_unix = Inr s1"
  shows "s1 = s\<lparr>rg_locks := (rg_locks s)(n := None)\<rparr>"
    and "\<forall>l. rg_locks s n = Some l \<longrightarrow> lk_locked_until l < now_unix"
  using assms
  by (auto simp: ensure_name_unlocked_def fun_upd_idem not_le split: option.splits if_splits)

definition unlock :: "registry \<Rightarrow> string \<Rightarrow> registry" where
  "unlock s n = s\<lparr>rg_locks := (rg_locks s)(n := None)\<rparr>"

lemma unlock_simps [simp]:
  "rg_entries (unlock s n) = rg_entries s"
  "rg_locks (unlock s n) = (rg_locks s)(n := None)"
  "rg_nft_contract (unlock s n) = rg_nft_contract s"
  "names_for_owner (unlock s n) = names_for_owner s"
  by (simp_all add: unlock_def)

lemma registry_inv_unlock: "registry_inv s \<Longrightarrow> registry_inv (unlock s n)"
  by (auto simp: registry_inv_def registry_owner_of_def [abs_def])

lemma ensure_unlocked_iff:
  "ensure_name_unlocked s n t = Inr s1 \<longleftrightarrow>
     s1 = unlock s n \<and> (\<forall>l. rg_locks s n = Some l \<longrightarrow> lk_locked_until l < t)"
  by (auto simp: ensure_name_unlocked_def unlock_def fun_upd_idem not_le split: option.splits)

lemma ensure_locked_iff:
  "ensure_name_unlocked s n t = Inl err \<longleftrightarrow>
     err = Err Locked \<and> (\<exists>l. rg_locks s n = Some l \<and> t \<le> lk_locked_until l)"
  by (auto simp: ensure_name_unlocked_def split: option.splits)

lemma get_entry_iff: "get_entry s n = Inr en \<longleftrightarrow> rg_entries s n = Some en"
  by (auto simp: get_entry_def split: option.splits)

lemma ensure_owner_iff:
  "ensure_owner en c t = Inr u \<longleftrightarrow> entry_active_at en t \<and> re_owner en = c"
  by (auto simp: ensure_owner_def)

text \<open>What a call to the configured NFT contract did to the other contracts: nothing if there is none.\<close>

definition nft_effect :: "'w invoke \<Rightarrow> env \<Rightarrow> string \<Rightarrow> val list \<Rightarrow> address option \<Rightarrow> 'w \<Rightarrow> 'w \<Rightarrow> bool" where
  "nft_effect call e f args nft_addr w w' \<longleftrightarrow>
     (case nft_addr of None \<Rightarrow> w' = w
      | Some a \<Rightarrow> call (callee_env e a) a f args w = Some (VUnit, w'))"

lemma nft_call_iff:
  "nft_client_call call e f args (s, w) = Inr (t, w') \<longleftrightarrow> t = s \<and> nft_effect call e f args (rg_nft_contract s) w w'"
  by (auto simp: nft_client_call_def nft_effect_def split: option.splits val.splits prod.splits)

definition fresh_entry ::
    "string \<Rightarrow> address \<Rightarrow> string option \<Rightarrow> string option \<Rightarrow> u64 \<Rightarrow> u64 \<Rightarrow> u64 \<Rightarrow> registry_entry" where
  "fresh_entry n owner target uri t x g =
     \<lparr>re_name = n, re_owner = owner, re_resolver = None, re_target_address = target,
      re_metadata_uri = uri, re_ttl_seconds = DEFAULT_TTL_SECONDS, re_registered_at = t,
      re_expires_at = x, re_grace_period_ends_at = g, re_transfer_count = 0\<rparr>"

lemma fresh_entry_simps [simp]:
  "re_owner (fresh_entry n owner target uri t x g) = owner"
  "re_expires_at (fresh_entry n owner target uri t x g) = x"
  "re_grace_period_ends_at (fresh_entry n owner target uri t x g) = g"
  "re_registered_at (fresh_entry n owner target uri t x g) = t"
  by (simp_all add: fresh_entry_def)

lemma validate_metadata_iff:
  "validate_metadata u = Inr x \<longleftrightarrow> (\<forall>v. u = Some v \<longrightarrow> length v \<le> MAX_METADATA_URI_LENGTH)"
  by (auto simp: validate_metadata_def split: option.splits)

lemma validate_timestamps_iff:
  "validate_lifecycle_timestamps t x g = Inr u \<longleftrightarrow> t \<le> x \<and> x \<le> g"
  by (auto simp: validate_lifecycle_timestamps_def is_active_at_def)

lemmas registry_guards = nft_call_iff ensure_unlocked_iff get_entry_iff ensure_owner_iff validate_metadata_iff
  validate_timestamps_iff

lemma register_cases:
  assumes "registry_register call e n owner target uri t x g (s, w) = Inr (s', w')"
  obtains s5 w5 where "require_auth e owner" "validate_fqdn_soroban n = Inr ()"
    "\<forall>l. rg_locks s n = Some l \<longrightarrow> lk_locked_until l < t"
    "\<forall>v. uri = Some v \<longrightarrow> length v \<le> MAX_METADATA_URI_LENGTH" "t \<le> x" "x \<le> g"
    "(rg_entries s n = None \<and> s5 = unlock s n \<and> w5 = w)
     \<or> (\<exists>old. rg_entries s n = Some old \<and> \<not> entry_active_at old t \<and> entry_claimable_at old t
          \<and> s5 = rg_emit (RegBurn n (re_owner old)) (delete_entry (unlock s n) n old)
          \<and> nft_effect call e ''burn'' [VStr n] (rg_nft_contract s) w w5)"
    "s' = place_entry s5 n (fresh_entry n owner target uri t x g)"
    "nft_effect call e ''mint'' [VStr n, VAddr owner, VOptStr uri, VU64 x] (rg_nft_contract s) w5 w'"
  using assms that unfolding registry_register_def
  by (auto simp: registry_guards Let_def delete_entry_def place_entry_def fresh_entry_def
      split: outcome_splits prod.split_asm)

lemma renew_cases:
  assumes "registry_renew call e n c x g t (s, w) = Inr (s', w')"
  obtains en where "require_auth e c" "\<forall>l. rg_locks s n = Some l \<longrightarrow> lk_locked_until l < t"
    "rg_entries s n = Some en" "\<not> entry_claimable_at en t" "re_owner en = c"
    "re_expires_at en \<le> x" "re_grace_period_ends_at en \<le> g" "t \<le> x" "x \<le> g"
    "s' = put_entry (unlock s n) n (en\<lparr>re_expires_at := x, re_grace_period_ends_at := g\<rparr>)"
    "nft_effect call e ''sync_expiry'' [VStr n, VU64 x] (rg_nft_contract s) w w'"
  using assms that unfolding registry_renew_def
  by (auto simp: registry_guards Let_def not_less split: outcome_splits)

lemma transfer_cases:
  assumes "registry_transfer call e n c b t (s, w) = Inr (s', w')"
  obtains en en' w1 where "require_auth e c" "\<forall>l. rg_locks s n = Some l \<longrightarrow> lk_locked_until l < t"
    "rg_entries s n = Some en" "entry_active_at en t" "re_owner en = c"
    "en' = en\<lparr>re_owner := b, re_transfer_count := sat_add (re_transfer_count en) 1\<rparr>"
    "s' = rg_emit (RegTransfer n c b) (move_entry (unlock s n) n en en')"
    "clear_resolver call e en' n c w = Inr w1"
    "nft_effect call e ''sync_owner'' [VStr n, VAddr b] (rg_nft_contract s) w1 w'"
  using assms that unfolding registry_transfer_def move_entry_def
  by (auto simp: registry_guards Let_def split: outcome_splits)

lemma burn_cases:
  assumes "registry_burn call e n c t (s, w) = Inr (s', w')"
  obtains en where "require_auth e c" "\<forall>l. rg_locks s n = Some l \<longrightarrow> lk_locked_until l < t"
    "rg_entries s n = Some en" "re_owner en = c \<or> entry_claimable_at en t"
    "s' = rg_emit (RegBurn n (re_owner en)) (delete_entry (unlock s n) n en)"
    "nft_effect call e ''burn'' [VStr n] (rg_nft_contract s) w w'"
  using assms that unfolding registry_burn_def
  by (auto simp: registry_guards Let_def delete_entry_def split: outcome_splits prod.split_asm)

lemma update_owner_cases:
  assumes "registry_update_owner e n c b s = Inr s'"
  obtains en en' where "rg_nft_contract s = Some c" "require_auth e c"
    "\<forall>l. rg_locks s n = Some l \<longrightarrow> lk_locked_until l < env_timestamp e"
    "rg_entries s n = Some en" "entry_active_at en (env_timestamp e)"
    "en' = en\<lparr>re_owner := b, re_transfer_count := sat_add (re_transfer_count en) 1\<rparr>"
    "s' = rg_emit (RegTransfer n (re_owner en) b) (move_entry (unlock s n) n en en')"
  using assms unfolding registry_update_owner_def move_entry_def
  by (auto simp: registry_guards Let_def split: outcome_splits)

text \<open>The three owner edits that keep owner and lifecycle.\<close>

lemma edit_cases:
  shows "set_resolver e n c r t s = Inr s' \<Longrightarrow> \<exists>en. require_auth e c
      \<and> (\<forall>l. rg_locks s n = Some l \<longrightarrow> lk_locked_until l < t) \<and> rg_entries s n = Some en
      \<and> entry_active_at en t \<and> re_owner en = c \<and> s' = put_entry (unlock s n) n (en\<lparr>re_resolver := r\<rparr>)"
    and "set_target_address e n c r t s = Inr s' \<Longrightarrow> \<exists>en. require_auth e c
      \<and> (\<forall>l. rg_locks s n = Some l \<longrightarrow> lk_locked_until l < t) \<and> rg_entries s n = Some en
      \<and> entry_active_at en t \<and> re_owner en = c \<and> s' = put_entry (unlock s n) n (en\<lparr>re_target_address := r\<rparr>)"
    and "set_metadata e n c r t s = Inr s' \<Longrightarrow> \<exists>en. require_auth e c
      \<and> (\<forall>l. rg_locks s n = Some l \<longrightarrow> lk_locked_until l < t) \<and> rg_entries s n = Some en
      \<and> (\<forall>v. r = Some v \<longrightarrow> length v \<le> MAX_METADATA_URI_LENGTH)
      \<and> entry_active_at en t \<and> re_owner en = c \<and> s' = put_entry (unlock s n) n (en\<lparr>re_metadata_uri := r\<rparr>)"
  by (auto simp: set_resolver_def set_target_address_def set_metadata_def registry_guards
      split: outcome_splits)

lemma lock_cases:
  assumes "lock_name e n c until reason t s = Inr s'"
  obtains en where "rg_dispute_admin s = Some c" "require_auth e c" "rg_entries s n = Some en"
    "t \<le> until"
    "s' = rg_emit (LockApplied n until reason c)
       (put_lock s n \<lparr>lk_locked_until = until, lk_lock_reason = reason\<rparr>)"
  using assms by (auto simp: lock_name_def registry_guards split: outcome_splits)

lemma unlock_name_cases:
  assumes "unlock_name e n c s = Inr s'"
  obtains l where "rg_dispute_admin s = Some c" "require_auth e c" "rg_locks s n = Some l"
    "s' = rg_emit (LockRemoved n (lk_locked_until l) (lk_lock_reason l) c) (unlock s n)"
  using assms by (auto simp: unlock_name_def remove_lock_def unlock_def split: outcome_splits)

section \<open>The state machine\<close>

text \<open>One constructor per entrypoint that can change the registry, with the caller's arguments.\<close>

datatype registry_command =
    CInitialize address
  | CSetNftContract address
  | CSetDisputeAdmin address
  | CUpgrade "u8 list" "u8 list"
  | CRegister string address "string option" "string option" u64 u64 u64
  | CTransfer string address address u64
  | CSetResolver string address "string option" u64
  | CSetTargetAddress string address "string option" u64
  | CSetMetadata string address "string option" u64
  | CUpdateOwner string address address
  | CRenew string address u64 u64 u64
  | CBurn string address u64
  | CLockName string address u64 string u64
  | CUnlockName string address

text \<open>An entrypoint that makes no call leaves the other contracts alone.\<close>

definition locally :: "(registry \<Rightarrow> (registry_error, registry) result) \<Rightarrow> registry \<times> 'w
    \<Rightarrow> (registry_error, registry \<times> 'w) result" where
  "locally f sw = (case f (fst sw) of Inl err \<Rightarrow> Inl err | Inr s' \<Rightarrow> Inr (s', snd sw))"

lemma locally_iff [simp]: "locally f (s, w) = Inr (s', w') \<longleftrightarrow> f s = Inr s' \<and> w' = w"
  by (auto simp: locally_def split: sum.splits)

fun registry_exec ::
    "'w invoke \<Rightarrow> env \<Rightarrow> registry_command \<Rightarrow> registry \<times> 'w \<Rightarrow> (registry_error, registry \<times> 'w) result" where
  "registry_exec call e (CInitialize a) = locally (registry_initialize a)"
| "registry_exec call e (CSetNftContract a) = locally (set_nft_contract e a)"
| "registry_exec call e (CSetDisputeAdmin a) = locally (set_dispute_admin e a)"
| "registry_exec call e (CUpgrade h d) = locally (registry_upgrade e h d)"
| "registry_exec call e (CRegister n owner target uri t x g) = registry_register call e n owner target uri t x g"
| "registry_exec call e (CTransfer n c b t) = registry_transfer call e n c b t"
| "registry_exec call e (CSetResolver n c r t) = locally (set_resolver e n c r t)"
| "registry_exec call e (CSetTargetAddress n c r t) = locally (set_target_address e n c r t)"
| "registry_exec call e (CSetMetadata n c u t) = locally (set_metadata e n c u t)"
| "registry_exec call e (CUpdateOwner n c b) = locally (registry_update_owner e n c b)"
| "registry_exec call e (CRenew n c x g t) = registry_renew call e n c x g t"
| "registry_exec call e (CBurn n c t) = registry_burn call e n c t"
| "registry_exec call e (CLockName n c until reason t) = locally (lock_name e n c until reason t)"
| "registry_exec call e (CUnlockName n c) = locally (unlock_name e n c)"

text \<open>
  The transitions: a successful command, or a change of the other contracts. A failed command is no
  transition, its writes are rolled back.
\<close>

inductive registry_step :: "'w invoke \<Rightarrow> registry \<times> 'w \<Rightarrow> registry \<times> 'w \<Rightarrow> bool" for call where
  command: "registry_exec call e cmd (s, w) = Inr (s', w') \<Longrightarrow> registry_step call (s, w) (s', w')"
| others: "registry_step call (s, w) (s, w')"

inductive_cases registry_stepE: "registry_step call (s, w) (s', w')"

inductive registry_reachable :: "'w invoke \<Rightarrow> registry \<times> 'w \<Rightarrow> bool" for call where
  start: "registry_reachable call (registry_empty, w)"
| step: "registry_reachable call sw \<Longrightarrow> registry_step call sw tw \<Longrightarrow> registry_reachable call tw"

section \<open>Preservation\<close>

lemma entry_ok_fresh:
  "validate_fqdn_soroban n = Inr () \<Longrightarrow> t \<le> x \<Longrightarrow> x \<le> g
    \<Longrightarrow> \<forall>v. uri = Some v \<longrightarrow> length v \<le> MAX_METADATA_URI_LENGTH
    \<Longrightarrow> entry_ok n (fresh_entry n owner target uri t x g)"
  by (simp add: entry_ok_def fresh_entry_def)

lemma register_inv:
  assumes step: "registry_register call e n owner target uri t x g (s, w) = Inr (s', w')"
    and inv: "registry_inv s"
  shows "registry_inv s'"
  using step
proof (rule register_cases)
  fix s5 :: registry and w5
  assume v: "validate_fqdn_soroban n = Inr ()" "\<forall>v. uri = Some v \<longrightarrow> length v \<le> MAX_METADATA_URI_LENGTH"
      "t \<le> x" "x \<le> g"
    and s5: "(rg_entries s n = None \<and> s5 = unlock s n \<and> w5 = w)
     \<or> (\<exists>old. rg_entries s n = Some old \<and> \<not> entry_active_at old t \<and> entry_claimable_at old t
          \<and> s5 = rg_emit (RegBurn n (re_owner old)) (delete_entry (unlock s n) n old)
          \<and> nft_effect call e ''burn'' [VStr n] (rg_nft_contract s) w w5)"
    and s': "s' = place_entry s5 n (fresh_entry n owner target uri t x g)"
  have un: "registry_inv (unlock s n)" by (rule registry_inv_unlock [OF inv])
  have "registry_inv s5 \<and> rg_entries s5 n = None"
    using s5 un registry_inv_delete [OF un] by auto
  with v s' show ?thesis by (auto intro!: registry_inv_place entry_ok_fresh)
qed

lemma edit_ok:
  assumes "registry_inv s" and "rg_entries s n = Some en"
  shows "entry_ok n (en\<lparr>re_resolver := r\<rparr>)" "entry_ok n (en\<lparr>re_target_address := r\<rparr>)"
    "(\<forall>v. r = Some v \<longrightarrow> length v \<le> MAX_METADATA_URI_LENGTH) \<Longrightarrow> entry_ok n (en\<lparr>re_metadata_uri := r\<rparr>)"
    "entry_ok n (en\<lparr>re_owner := b, re_transfer_count := k\<rparr>)"
    "re_expires_at en \<le> x \<Longrightarrow> x \<le> g \<Longrightarrow> entry_ok n (en\<lparr>re_expires_at := x, re_grace_period_ends_at := g\<rparr>)"
  using registry_inv_entry [OF assms] by (auto simp: entry_ok_def)

lemma registry_exec_inv:
  assumes exec: "registry_exec call e cmd (s, w) = Inr (s', w')" and inv: "registry_inv s"
  shows "registry_inv s'"
proof (cases cmd)
  case (CRegister n owner target uri t x g)
  with exec inv show ?thesis by (auto intro: register_inv)
next
  case (CTransfer n c b t)
  with exec inv show ?thesis
    by (auto elim!: transfer_cases intro!: registry_inv_move registry_inv_unlock edit_ok)
next
  case (CUpdateOwner n c b)
  with exec inv show ?thesis
    by (auto elim!: update_owner_cases intro!: registry_inv_move registry_inv_unlock edit_ok)
next
  case (CRenew n c x g t)
  with exec inv show ?thesis
    by (auto elim!: renew_cases intro!: registry_inv_edit registry_inv_unlock edit_ok)
next
  case (CBurn n c t)
  with exec inv show ?thesis
    by (auto elim!: burn_cases intro!: registry_inv_delete registry_inv_unlock)
next
  case (CSetResolver n c r t)
  with exec inv show ?thesis
    by (auto dest!: edit_cases intro!: registry_inv_edit registry_inv_unlock edit_ok)
next
  case (CSetTargetAddress n c r t)
  with exec inv show ?thesis
    by (auto dest!: edit_cases intro!: registry_inv_edit registry_inv_unlock edit_ok)
next
  case (CSetMetadata n c u t)
  with exec inv show ?thesis
    by (auto dest!: edit_cases intro!: registry_inv_edit registry_inv_unlock edit_ok)
next
  case (CLockName n c until reason t)
  with exec inv show ?thesis
    by (auto elim!: lock_cases) (auto simp: registry_inv_def registry_owner_of_def [abs_def])
next
  case (CUnlockName n c)
  with exec inv show ?thesis by (auto elim!: unlock_name_cases intro: registry_inv_unlock)
qed (use exec inv in \<open>auto simp: registry_initialize_def set_nft_contract_def set_dispute_admin_def
      registry_upgrade_def Let_def split: outcome_splits\<close>)

lemma registry_reachable_inv:
  assumes "registry_reachable call sw"
  shows "registry_inv (fst sw)"
  using assms
proof induction
  case (start w)
  show ?case by (simp add: registry_inv_empty)
next
  case (step sw tw)
  then show ?case
    by (cases sw; cases tw) (auto elim!: registry_stepE intro: registry_exec_inv)
qed

lemma audit_names_clean:
  assumes "\<forall>n \<in> set names. registry_owner_of s n = Some owner"
  shows "audit_names s owner names = []"
  using assms by (induction names) (auto simp: registry_owner_of_def)

end
