(* ===== verification/Samples.thy ===== *)
theory Samples
  imports Common_Types
begin

text \<open>
  The concrete people, environments and callees the witnesses of the properties are evaluated on.
\<close>

definition alice :: address where "alice = Address ''GALICE''"
definition bob :: address where "bob = Address ''GBOB''"
definition carol :: address where "carol = Address ''GCAROL''"

lemma people_distinct [simp]:
  "alice \<noteq> bob" "bob \<noteq> alice" "alice \<noteq> carol" "carol \<noteq> alice" "bob \<noteq> carol" "carol \<noteq> bob"
  by (simp_all add: alice_def bob_def carol_def)

text \<open>An environment at time \<open>t\<close> in which exactly the addresses \<open>as\<close> have signed.\<close>

definition env_at :: "u64 \<Rightarrow> address list \<Rightarrow> env" where
  "env_at t as = \<lparr>env_authorized = (\<lambda>a. a \<in> set as), env_invoker = None, env_self = Address ''CSELF'',
     env_timestamp = t, env_strkey_ok = (\<lambda>_. True), env_wasm_ok = (\<lambda>_. True)\<rparr>"

lemma env_at_simps [simp]:
  "require_auth (env_at t as) a \<longleftrightarrow> a \<in> set as"
  "env_timestamp (env_at t as) = t"
  "env_authorized (env_at t as) a \<longleftrightarrow> a \<in> set as"
  by (simp_all add: env_at_def require_auth_def)

text \<open>No other contract is there to be called.\<close>

definition no_contracts :: "unit invoke" where
  "no_contracts e a f args w = None"

text \<open>A contract that accepts every call and does nothing.\<close>

definition accepting :: "unit invoke" where
  "accepting e a f args w = Some (VUnit, w)"

end
