(* ===== verification/Registry_Properties.thy ===== *)
theory Registry_Properties
  imports Registry_Proofs Samples
begin

text \<open>
  The properties of the registry: its invariant, who may change an owner, dispute locks, when a
  name can be registered or resolved, and the lease specification it refines; with one sample ledger
  for the witnesses.
\<close>

section \<open>A sample ledger\<close>

definition alice_entry :: registry_entry where
  "alice_entry = fresh_entry ''alice.xlm'' alice None None 100 1000 2000"

text \<open>Alice holds \<open>alice.xlm\<close>, registered at 100, until 1000, with grace until 2000.\<close>

definition alice_registry :: registry where
  "alice_registry = place_entry registry_empty ''alice.xlm'' alice_entry"

lemma alice_fqdn: "validate_fqdn_soroban ''alice.xlm'' = Inr ()"
  by code_simp

lemma alice_registry_simps [simp]:
  "rg_entries alice_registry n = (if n = ''alice.xlm'' then Some alice_entry else None)"
  "rg_locks alice_registry = (\<lambda>_. None)" "rg_nft_contract alice_registry = None"
  by (simp_all add: alice_registry_def registry_empty_def)

lemma alice_entry_simps [simp]:
  "re_owner alice_entry = alice" "re_expires_at alice_entry = 1000"
  "re_grace_period_ends_at alice_entry = 2000"
  by (simp_all add: alice_entry_def)

lemma unlock_no_lock [simp]: "rg_locks s n = None \<Longrightarrow> unlock s n = s"
  by (simp add: unlock_def fun_upd_idem)

lemma alice_registers:
  "registry_register call (env_at t [alice]) ''alice.xlm'' alice None None 100 1000 2000
     (registry_empty, w) = Inr (alice_registry, w)"
  by (simp add: registry_register_def alice_fqdn ensure_name_unlocked_def validate_metadata_def
      validate_lifecycle_timestamps_def is_active_at_def registry_empty_def nft_client_call_def
      alice_registry_def place_entry_def alice_entry_def fresh_entry_def add_owner_name_def
      names_for_owner_def put_entry_def Let_def)

lemma alice_reachable: "registry_reachable call (alice_registry, w)"
proof (rule registry_reachable.step [OF registry_reachable.start])
  show "registry_step call (registry_empty, w) (alice_registry, w)"
    by (rule registry_step.command [where cmd = "CRegister ''alice.xlm'' alice None None 100 1000 2000"
          and e = "env_at 100 [alice]"]) (simp add: alice_registers)
qed

section \<open>The invariant\<close>

text \<open>C1: in every reachable state of the registry, whatever the other contracts do, the index of
  names per owner is exact (no repetition, and a name is listed under an address iff its entry is
  owned by that address), every entry is filed under its own valid name with
  registration \<open>\<le>\<close> expiry \<open>\<le>\<close> end of grace and a metadata URI of at most 256 bytes, and only existing
  names carry a dispute lock.\<close>

theorem registry_invariant:
  assumes "registry_reachable call (s, w)"
  shows "registry_inv s"
  using registry_reachable_inv [OF assms] by simp

theorem registry_invariant_witness: "registry_inv alice_registry \<and> rg_entries alice_registry ''alice.xlm'' \<noteq> None"
  using registry_invariant [OF alice_reachable [of no_contracts "()"]] by simp

text \<open>The owner index audit reports nothing in any reachable state: \<open>audit_owner_index\<close> returns the
  empty list for every address.\<close>

theorem audit_owner_index_clean:
  assumes "registry_reachable call (s, w)"
  shows "audit_owner_index s owner = []"
proof -
  have "registry_inv s" using registry_reachable_inv [OF assms] by simp
  then show ?thesis
    unfolding audit_owner_index_def
    by (intro audit_names_clean) (auto simp: registry_inv_def index_consistentD)
qed

theorem audit_owner_index_clean_witness:
  "audit_owner_index alice_registry alice = [] \<and> names_for_owner alice_registry alice = [''alice.xlm'']"
  using audit_owner_index_clean [OF alice_reachable [of no_contracts "()"]]
  by (simp add: alice_registry_def place_entry_def alice_entry_def add_owner_name_def
      names_for_owner_def registry_empty_def put_entry_def)

section \<open>Who can change an owner\<close>

text \<open>
  The ways a command can take name \<open>n\<close> with entry \<open>en\<close> from its owner: the owner transfers it or
  burns it, the configured NFT contract moves it, or the clock value the caller passed is past the grace period.
\<close>

definition owner_change_allowed :: "env \<Rightarrow> registry \<Rightarrow> string \<Rightarrow> registry_entry \<Rightarrow> registry_command \<Rightarrow> bool" where
  "owner_change_allowed e s n en cmd \<longleftrightarrow>
     (case cmd of
        CTransfer m c b t \<Rightarrow> m = n \<and> c = re_owner en \<and> require_auth e c \<and> t \<le> re_expires_at en
      | CUpdateOwner m c b \<Rightarrow> m = n \<and> rg_nft_contract s = Some c \<and> require_auth e c
          \<and> env_timestamp e \<le> re_expires_at en
      | CBurn m c t \<Rightarrow> m = n \<and> require_auth e c \<and> (c = re_owner en \<or> re_grace_period_ends_at en < t)
      | CRegister m c target uri t x g \<Rightarrow> m = n \<and> require_auth e c \<and> re_grace_period_ends_at en < t
      | _ \<Rightarrow> False)"

text \<open>C2: ownership is safe: if a successful command leaves a name without its previous owner,
  then that owner authorised a transfer or a burn, or the configured NFT contract authorised
  \<open>update_owner\<close>, or the clock the command was given lies past the grace period. No administrator command and
  no other command can do it.\<close>

theorem owner_change_authorised:
  assumes exec: "registry_exec call e cmd (s, w) = Inr (s', w')"
    and en: "rg_entries s n = Some en"
    and lost: "registry_owner_of s' n \<noteq> Some (re_owner en)"
  shows "owner_change_allowed e s n en cmd"
proof (cases cmd)
  case (CRegister m owner target uri t x g)
  with exec en lost show ?thesis
    by (auto elim!: register_cases simp: owner_change_allowed_def registry_owner_of_def
        entry_claimable_at_def is_claimable_at_def split: if_splits)
next
  case (CTransfer m c b t)
  with exec en lost show ?thesis
    by (auto elim!: transfer_cases simp: owner_change_allowed_def registry_owner_of_def
        entry_active_at_def is_active_at_def split: if_splits)
next
  case (CUpdateOwner m c b)
  with exec en lost show ?thesis
    by (auto elim!: update_owner_cases simp: owner_change_allowed_def registry_owner_of_def
        entry_active_at_def is_active_at_def split: if_splits)
next
  case (CRenew m c x g t)
  with exec en lost show ?thesis
    by (auto elim!: renew_cases simp: registry_owner_of_def split: if_splits)
next
  case (CBurn m c t)
  with exec en lost show ?thesis
    by (auto elim!: burn_cases simp: owner_change_allowed_def registry_owner_of_def
        entry_claimable_at_def is_claimable_at_def split: if_splits)
next
  case (CLockName m c until reason t)
  with exec en lost show ?thesis by (auto elim!: lock_cases simp: registry_owner_of_def)
next
  case (CUnlockName m c)
  with exec en lost show ?thesis by (auto elim!: unlock_name_cases simp: registry_owner_of_def)
qed (use exec en lost in \<open>auto dest!: edit_cases simp: registry_owner_of_def registry_initialize_def
      set_nft_contract_def set_dispute_admin_def registry_upgrade_def Let_def
      split: outcome_splits if_splits\<close>)

definition bob_entry :: registry_entry where
  "bob_entry = alice_entry\<lparr>re_owner := bob, re_transfer_count := 1\<rparr>"

lemma alice_transfers:
  "registry_transfer call (env_at t [alice]) ''alice.xlm'' alice bob 500 (alice_registry, w) =
     Inr (rg_emit (RegTransfer ''alice.xlm'' alice bob)
       (move_entry alice_registry ''alice.xlm'' alice_entry bob_entry), w)"
  by (simp add: registry_transfer_def ensure_name_unlocked_def get_entry_def ensure_owner_def
      entry_active_at_def is_active_at_def clear_resolver_def nft_client_call_def move_entry_def
      bob_entry_def alice_entry_def fresh_entry_def sat_add_def Let_def)

theorem owner_change_authorised_witness:
  "owner_change_allowed (env_at 500 [alice]) alice_registry ''alice.xlm'' alice_entry
     (CTransfer ''alice.xlm'' alice bob 500)"
proof (rule owner_change_authorised [where call = no_contracts and w = "()" and w' = "()"])
  show "registry_exec no_contracts (env_at 500 [alice]) (CTransfer ''alice.xlm'' alice bob 500) (alice_registry, ()) =
    Inr (rg_emit (RegTransfer ''alice.xlm'' alice bob)
       (move_entry alice_registry ''alice.xlm'' alice_entry bob_entry), ())"
    by (simp add: alice_transfers)
qed (simp_all add: registry_owner_of_def bob_entry_def)

text \<open>The clock is the caller's: whoever can authorise any address at all can delete any
  unlocked name that is not held forever, active ones included, by passing the largest timestamp to \<open>burn\<close> (no NFT
  contract configured).\<close>

theorem burn_by_anyone:
  assumes "rg_entries s n = Some en" and "re_grace_period_ends_at en < - 1"
    and "rg_locks s n = None" and "rg_nft_contract s = None" and "require_auth e attacker"
  shows "registry_burn call e n attacker (- 1) (s, w) =
    Inr (rg_emit (RegBurn n (re_owner en)) (delete_entry s n en), w)"
  using assms
  by (simp add: registry_burn_def ensure_name_unlocked_def get_entry_def entry_claimable_at_def
      is_claimable_at_def nft_client_call_def delete_entry_def Let_def)

theorem burn_by_anyone_witness:
  "registry_burn no_contracts (env_at 500 [bob]) ''alice.xlm'' bob (- 1) (alice_registry, ()) =
    Inr (rg_emit (RegBurn ''alice.xlm'' alice) (delete_entry alice_registry ''alice.xlm'' alice_entry), ())
   \<and> registry_name_state alice_registry ''alice.xlm'' 500 = Active"
  using burn_by_anyone [of alice_registry "''alice.xlm''" alice_entry "env_at 500 [bob]" bob]
  by (simp add: registry_name_state_def entry_active_at_def is_active_at_def)

section \<open>Dispute locks\<close>

text \<open>The name a command acts on and the clock it reads, for the commands a lock must stop.\<close>

fun command_clock :: "env \<Rightarrow> registry_command \<Rightarrow> (string \<times> u64) option" where
  "command_clock e (CRegister n owner target uri t x g) = Some (n, t)"
| "command_clock e (CTransfer n c b t) = Some (n, t)"
| "command_clock e (CSetResolver n c r t) = Some (n, t)"
| "command_clock e (CSetTargetAddress n c r t) = Some (n, t)"
| "command_clock e (CSetMetadata n c u t) = Some (n, t)"
| "command_clock e (CUpdateOwner n c b) = Some (n, env_timestamp e)"
| "command_clock e (CRenew n c x g t) = Some (n, t)"
| "command_clock e (CBurn n c t) = Some (n, t)"
| "command_clock e _ = None"

text \<open>A dispute lock freezes a name: until the lock's end, no command that registers, transfers,
  edits, renews or burns the name succeeds, whoever signs it.\<close>

theorem locked_name_frozen:
  assumes "rg_locks s n = Some l" and "command_clock e cmd = Some (n, t)" and "t \<le> lk_locked_until l"
  shows "\<exists>err. registry_exec call e cmd (s, w) = Inl err"
proof (cases "registry_exec call e cmd (s, w)")
  case (Inl err)
  then show ?thesis by blast
next
  case (Inr tw)
  obtain s' w' where "tw = (s', w')" by (cases tw)
  with Inr assms have False
    by (cases cmd)
       (auto elim!: register_cases transfer_cases renew_cases burn_cases update_owner_cases
         dest!: edit_cases)
  then show ?thesis ..
qed

definition alice_locked :: registry where
  "alice_locked = put_lock alice_registry ''alice.xlm'' \<lparr>lk_locked_until = 700, lk_lock_reason = ''dispute''\<rparr>"

theorem locked_name_frozen_witness:
  "(\<exists>err. registry_exec no_contracts (env_at 500 [alice]) (CTransfer ''alice.xlm'' alice bob 500)
     (alice_locked, ()) = Inl err)
   \<and> (\<exists>s'. registry_exec no_contracts (env_at 500 [alice]) (CTransfer ''alice.xlm'' alice bob 500)
     (alice_registry, ()) = Inr (s', ()))"
  using locked_name_frozen [of alice_locked "''alice.xlm''" "\<lparr>lk_locked_until = 700, lk_lock_reason = ''dispute''\<rparr>"
      "env_at 500 [alice]" "CTransfer ''alice.xlm'' alice bob 500" 500 no_contracts "()"]
  by (simp add: alice_locked_def alice_transfers)

section \<open>Leases\<close>

text \<open>
  What the registry promises, without indexes, locks, resolvers or metadata: a name is leased to an owner
  until an expiry, with a grace period after it.
\<close>

type_synonym leases = "string \<Rightarrow> (address \<times> u64 \<times> u64) option"

definition leases_of :: "registry \<Rightarrow> leases" where
  "leases_of s n = map_option (\<lambda>en. (re_owner en, re_expires_at en, re_grace_period_ends_at en)) (rg_entries s n)"

lemma leases_of_upd:
  "rg_entries s' = (rg_entries s)(n := v) \<Longrightarrow> leases_of s' = (leases_of s)
     (n := map_option (\<lambda>en. (re_owner en, re_expires_at en, re_grace_period_ends_at en)) v)"
  by (auto simp: leases_of_def)

lemma leases_of_same: "rg_entries s' = rg_entries s \<Longrightarrow> leases_of s' = leases_of s"
  by (simp add: leases_of_def fun_eq_iff)

lemma leases_of_entry:
  "rg_entries s n = Some en \<Longrightarrow> leases_of s n = Some (re_owner en, re_expires_at en, re_grace_period_ends_at en)"
  by (simp add: leases_of_def)

lemma leases_of_edit:
  "rg_entries s n = Some en \<Longrightarrow> rg_entries s' = (rg_entries s)(n \<mapsto> en') \<Longrightarrow> re_owner en' = re_owner en \<Longrightarrow>
     re_expires_at en' = re_expires_at en \<Longrightarrow> re_grace_period_ends_at en' = re_grace_period_ends_at en \<Longrightarrow>
     leases_of s' = leases_of s"
  by (auto simp: leases_of_def fun_eq_iff)

section \<open>Registering, resolving, renewing\<close>

text \<open>C5: a name is registered exactly when it is free at the given clock: with no NFT contract
  configured, \<open>register\<close> succeeds iff the new owner signed, the name is well formed, no dispute lock
  is in force, the metadata is short enough, \<open>now \<le> expiry \<le> grace\<close>, and the name's lifecycle state
  at that clock is \<open>Missing\<close> or \<open>Claimable\<close>; and after every registration that succeeds the name is active at that
  clock under the new owner, with the expiry and the end of grace asked for, and every other name is as before.\<close>

theorem register_iff_available:
  assumes "registry_inv s" and "rg_nft_contract s = None"
  shows "((\<exists>s' w'. registry_register call e n owner target uri t x g (s, w) = Inr (s', w'))
     \<longleftrightarrow> require_auth e owner \<and> validate_fqdn_soroban n = Inr ()
        \<and> (\<forall>l. rg_locks s n = Some l \<longrightarrow> lk_locked_until l < t)
        \<and> (\<forall>v. uri = Some v \<longrightarrow> length v \<le> 256) \<and> t \<le> x \<and> x \<le> g
        \<and> registry_name_state s n t \<in> {Missing, Claimable})
   \<and> (\<forall>s' w'. registry_register call e n owner target uri t x g (s, w) = Inr (s', w') \<longrightarrow>
        registry_name_state s' n t = Active \<and> leases_of s' = (leases_of s)(n \<mapsto> (owner, x, g)))"
    (is "(?L \<longleftrightarrow> ?R) \<and> ?after")
proof (rule conjI [OF iffI])
  assume ?L
  then obtain s' w' where "registry_register call e n owner target uri t x g (s, w) = Inr (s', w')" by blast
  then show ?R
    by (rule register_cases) (auto simp: registry_name_state_def length_constants)
next
  assume R: ?R
  have un: "ensure_name_unlocked s n t = Inr (unlock s n)" using R by (simp add: ensure_unlocked_iff)
  show ?L
  proof (cases "rg_entries s n")
    case None
    then have "registry_register call e n owner target uri t x g (s, w) =
        Inr (place_entry (unlock s n) n (fresh_entry n owner target uri t x g), w)"
      using R un assms(2)
      by (simp add: registry_register_def validate_metadata_def validate_lifecycle_timestamps_def
          is_active_at_def nft_client_call_def place_entry_def fresh_entry_def length_constants Let_def
          not_less split: option.split)
    then show ?thesis by blast
  next
    case (Some old)
    with R have "entry_claimable_at old t" "\<not> entry_active_at old t"
      by (auto simp: registry_name_state_def split: if_splits)
    with Some have "registry_register call e n owner target uri t x g (s, w) =
        Inr (place_entry (rg_emit (RegBurn n (re_owner old)) (delete_entry (unlock s n) n old)) n
          (fresh_entry n owner target uri t x g), w)"
      using R un assms(2)
      by (simp add: registry_register_def validate_metadata_def validate_lifecycle_timestamps_def
          is_active_at_def nft_client_call_def place_entry_def delete_entry_def fresh_entry_def
          length_constants Let_def not_less split: option.split)
    then show ?thesis by blast
  qed
next
  show ?after
  proof (intro allI impI)
    fix s' w' assume exec: "registry_register call e n owner target uri t x g (s, w) = Inr (s', w')"
    have "rg_entries s' = (rg_entries s)(n \<mapsto> fresh_entry n owner target uri t x g)" "t \<le> x"
      using exec by (auto elim!: register_cases)
    then show "registry_name_state s' n t = Active \<and> leases_of s' = (leases_of s)(n \<mapsto> (owner, x, g))"
      by (simp add: registry_name_state_def entry_active_at_def is_active_at_def leases_of_upd)
  qed
qed

theorem register_iff_available_witness:
  "(\<exists>s' w'. registry_register no_contracts (env_at 100 [alice]) ''alice.xlm'' alice None None 100 1000 2000
      (registry_empty, ()) = Inr (s', w') \<and> registry_name_state s' ''alice.xlm'' 100 = Active
      \<and> leases_of s' ''alice.xlm'' = Some (alice, 1000, 2000))"
  using register_iff_available [OF registry_inv_empty, of no_contracts "env_at 100 [alice]" "''alice.xlm''"
      alice None None 100 1000 2000 "()"]
  by (auto simp: registry_empty_def alice_fqdn registry_name_state_def)

text \<open>\<open>resolve\<close> and \<open>name_state\<close> agree: in every reachable state a name resolves at a clock exactly
  when its lifecycle state at that clock is \<open>Active\<close>, and then \<open>resolve\<close> returns the stored entry.\<close>

theorem resolve_iff_active:
  assumes "registry_reachable call (s, w)"
  shows "registry_resolve s n t = Inr en \<longleftrightarrow> rg_entries s n = Some en \<and> registry_name_state s n t = Active"
proof -
  have "registry_inv s" using registry_reachable_inv [OF assms] by simp
  then have "rg_entries s n = Some en' \<Longrightarrow> validate_fqdn_soroban n = Inr ()" for en'
    using registry_inv_entry by (fastforce simp: entry_ok_def)
  then show ?thesis
    by (auto simp: registry_resolve_def get_entry_def registry_name_state_def split: sum.splits option.splits)
qed

theorem resolve_iff_active_witness:
  "registry_resolve alice_registry ''alice.xlm'' 500 = Inr alice_entry"
  using resolve_iff_active [OF alice_reachable [of no_contracts "()"], of "''alice.xlm''" 500 alice_entry]
  by (simp add: registry_name_state_def entry_active_at_def is_active_at_def)

section \<open>The specification the registry refines\<close>

text \<open>
  The events of a lease, each naming who acts: claimed by its new owner when there is none or the grace period is over;
  prolonged by its owner before that; handed over by its owner while it runs, or reassigned by the token contract;
  given up by its owner, or by anybody once the grace period is over. Whoever acts must have authorised the call, and the
  guards are read at the clock \<open>t\<close> of the event.
\<close>

datatype lease_event =
    Claims string address u64 u64
  | Prolongs string address u64 u64
  | Hands_Over string address address
  | Reassigns string address address
  | Gives_Up string address
  | Keeps_Leases

inductive lease_step :: "(address \<Rightarrow> bool) \<Rightarrow> address option \<Rightarrow> u64 \<Rightarrow> lease_event \<Rightarrow> leases \<Rightarrow> leases \<Rightarrow> bool"
  for auth tokens t where
  claims: "auth owner \<Longrightarrow> t \<le> x \<Longrightarrow> x \<le> g \<Longrightarrow> (\<And>o' x' g'. L n = Some (o', x', g') \<Longrightarrow> g' < t) \<Longrightarrow>
     lease_step auth tokens t (Claims n owner x g) L (L(n \<mapsto> (owner, x, g)))"
| prolongs: "auth owner \<Longrightarrow> L n = Some (owner, x, g) \<Longrightarrow> t \<le> g \<Longrightarrow> x \<le> x' \<Longrightarrow> g \<le> g' \<Longrightarrow> t \<le> x' \<Longrightarrow> x' \<le> g' \<Longrightarrow>
     lease_step auth tokens t (Prolongs n owner x' g') L (L(n \<mapsto> (owner, x', g')))"
| hands_over: "auth owner \<Longrightarrow> L n = Some (owner, x, g) \<Longrightarrow> t \<le> x \<Longrightarrow>
     lease_step auth tokens t (Hands_Over n owner b) L (L(n \<mapsto> (b, x, g)))"
| reassigns: "auth c \<Longrightarrow> tokens = Some c \<Longrightarrow> L n = Some (owner, x, g) \<Longrightarrow> t \<le> x \<Longrightarrow>
     lease_step auth tokens t (Reassigns n c b) L (L(n \<mapsto> (b, x, g)))"
| gives_up: "auth c \<Longrightarrow> L n = Some (owner, x, g) \<Longrightarrow> owner = c \<or> g < t \<Longrightarrow>
     lease_step auth tokens t (Gives_Up n c) L (L(n := None))"
| keeps: "lease_step auth tokens t Keeps_Leases L L"

inductive_cases lease_stepE: "lease_step auth tokens t ev L L'"

text \<open>
  The specification on its own: within its grace period a lease stays with its owner, and its dates never move
  back, unless the owner or the token contract takes part.
\<close>

lemma lease_kept:
  assumes "lease_step auth tokens t ev L L'" and "L n = Some (owner, x, g)" and "t \<le> g"
    and "\<not> auth owner" and "\<And>c. tokens = Some c \<Longrightarrow> \<not> auth c"
  shows "L' n = Some (owner, x, g)"
  using assms by (auto elim!: lease_stepE)

text \<open>The event each command of the registry stands for, and the clock it reads: its argument, or the ledger's.\<close>

fun lease_event_of :: "registry_command \<Rightarrow> lease_event" where
  "lease_event_of (CRegister n owner target uri t x g) = Claims n owner x g"
| "lease_event_of (CRenew n c x g t) = Prolongs n c x g"
| "lease_event_of (CTransfer n c b t) = Hands_Over n c b"
| "lease_event_of (CUpdateOwner n c b) = Reassigns n c b"
| "lease_event_of (CBurn n c t) = Gives_Up n c"
| "lease_event_of _ = Keeps_Leases"

fun lease_clock :: "env \<Rightarrow> registry_command \<Rightarrow> u64" where
  "lease_clock e (CRegister n owner target uri t x g) = t"
| "lease_clock e (CRenew n c x g t) = t"
| "lease_clock e (CTransfer n c b t) = t"
| "lease_clock e (CBurn n c t) = t"
| "lease_clock e _ = env_timestamp e"

lemma keeps_step: "L' = L \<Longrightarrow> lease_step auth tokens t Keeps_Leases L L'"
  by (simp add: lease_step.keeps)

text \<open>One refinement lemma for each command that moves a lease.\<close>

lemma register_claims:
  assumes run: "registry_register call e n owner target uri t x g (s, w) = Inr (s', w')"
  shows "lease_step (require_auth e) m t (Claims n owner x g) (leases_of s) (leases_of s')"
proof -
  have auth: "require_auth e owner" and le: "t \<le> x" "x \<le> g"
    and free: "\<And>old. rg_entries s n = Some old \<Longrightarrow> entry_claimable_at old t"
    and ent: "rg_entries s' = (rg_entries s)(n \<mapsto> fresh_entry n owner target uri t x g)"
    using run by (auto elim!: register_cases)
  have "\<And>o' x' g'. leases_of s n = Some (o', x', g') \<Longrightarrow> g' < t"
    using free by (auto simp: leases_of_def entry_claimable_at_def is_claimable_at_def)
  then have "lease_step (require_auth e) m t (Claims n owner x g) (leases_of s) ((leases_of s)(n \<mapsto> (owner, x, g)))"
    by (intro lease_step.claims auth le)
  then show ?thesis using leases_of_upd [OF ent] by simp
qed

lemmas lease_guards = leases_of_entry entry_claimable_at_def entry_active_at_def is_claimable_at_def is_active_at_def not_less

lemma renew_prolongs:
  assumes run: "registry_renew call e n c x g t (s, w) = Inr (s', w')"
  shows "lease_step (require_auth e) m t (Prolongs n c x g) (leases_of s) (leases_of s')"
proof -
  obtain en where en: "rg_entries s n = Some en" and auth: "require_auth e c" "re_owner en = c" "\<not> entry_claimable_at en t"
      "re_expires_at en \<le> x" "re_grace_period_ends_at en \<le> g" "t \<le> x" "x \<le> g"
    and ent: "rg_entries s' = (rg_entries s)(n \<mapsto> en\<lparr>re_expires_at := x, re_grace_period_ends_at := g\<rparr>)"
    by (rule renew_cases [OF run], erule that) simp_all
  have "lease_step (require_auth e) m t (Prolongs n c x g) (leases_of s) ((leases_of s)(n \<mapsto> (c, x, g)))"
    by (rule lease_step.prolongs [where x = "re_expires_at en" and g = "re_grace_period_ends_at en"]) (use auth en in \<open>simp_all add: lease_guards\<close>)
  then show ?thesis using auth leases_of_upd [OF ent] by simp
qed

lemma transfer_hands_over:
  assumes run: "registry_transfer call e n c b t (s, w) = Inr (s', w')"
  shows "lease_step (require_auth e) m t (Hands_Over n c b) (leases_of s) (leases_of s')"
proof -
  obtain en k where en: "rg_entries s n = Some en" and auth: "require_auth e c" "re_owner en = c" "entry_active_at en t"
    and ent: "rg_entries s' = (rg_entries s)(n \<mapsto> en\<lparr>re_owner := b, re_transfer_count := k\<rparr>)"
    by (rule transfer_cases [OF run], erule that) simp_all
  have "lease_step (require_auth e) m t (Hands_Over n c b) (leases_of s) ((leases_of s)(n \<mapsto> (b, re_expires_at en, re_grace_period_ends_at en)))"
    by (rule lease_step.hands_over [where x = "re_expires_at en" and g = "re_grace_period_ends_at en"]) (use auth en in \<open>simp_all add: lease_guards\<close>)
  then show ?thesis using auth leases_of_upd [OF ent] by simp
qed

lemma update_owner_reassigns:
  assumes run: "registry_update_owner e n c b s = Inr s'"
  shows "lease_step (require_auth e) (rg_nft_contract s) (env_timestamp e) (Reassigns n c b) (leases_of s) (leases_of s')"
proof -
  obtain en k where en: "rg_entries s n = Some en"
    and auth: "rg_nft_contract s = Some c" "require_auth e c" "entry_active_at en (env_timestamp e)"
    and ent: "rg_entries s' = (rg_entries s)(n \<mapsto> en\<lparr>re_owner := b, re_transfer_count := k\<rparr>)"
    by (rule update_owner_cases [OF run], erule that) simp_all
  have "lease_step (require_auth e) (rg_nft_contract s) (env_timestamp e) (Reassigns n c b) (leases_of s) ((leases_of s)(n \<mapsto> (b, re_expires_at en, re_grace_period_ends_at en)))"
    by (rule lease_step.reassigns [where x = "re_expires_at en" and g = "re_grace_period_ends_at en" and owner = "re_owner en"]) (use auth en in \<open>simp_all add: lease_guards\<close>)
  then show ?thesis using auth leases_of_upd [OF ent] by simp
qed

lemma burn_gives_up:
  assumes run: "registry_burn call e n c t (s, w) = Inr (s', w')"
  shows "lease_step (require_auth e) m t (Gives_Up n c) (leases_of s) (leases_of s')"
proof -
  obtain en where en: "rg_entries s n = Some en" and auth: "require_auth e c" "re_owner en = c \<or> entry_claimable_at en t"
    and ent: "rg_entries s' = (rg_entries s)(n := None)"
    by (rule burn_cases [OF run], erule that) simp_all
  have "lease_step (require_auth e) m t (Gives_Up n c) (leases_of s) ((leases_of s)(n := None))"
    by (rule lease_step.gives_up [where x = "re_expires_at en" and g = "re_grace_period_ends_at en" and owner = "re_owner en"]) (use auth en in \<open>simp_all add: lease_guards\<close>)
  then show ?thesis using auth leases_of_upd [OF ent] by simp
qed

text \<open>C4: refinement: every successful command of the registry is the step of the lease specification it stands
  for, on the owners and terms it stores: \<open>register\<close> claims, \<open>renew\<close> prolongs, \<open>transfer\<close> hands over,
  \<open>update_owner\<close> reassigns, \<open>burn\<close> gives up, and every other command keeps all leases. The caller named in the command
  is the one who authorised it, the token contract is the configured one, and the clock is the command's own (the
  ledger's for \<open>update_owner\<close>).\<close>

theorem registry_refines_leases:
  assumes exec: "registry_exec call e cmd (s, w) = Inr (s', w')"
  shows "lease_step (require_auth e) (rg_nft_contract s) (lease_clock e cmd) (lease_event_of cmd) (leases_of s) (leases_of s')"
proof (cases cmd)
  case (CSetResolver n c r t)
  with exec show ?thesis by (auto dest!: edit_cases intro!: keeps_step leases_of_edit)
next
  case (CSetTargetAddress n c r t)
  with exec show ?thesis by (auto dest!: edit_cases intro!: keeps_step leases_of_edit)
next
  case (CSetMetadata n c u t)
  with exec show ?thesis by (auto dest!: edit_cases intro!: keeps_step leases_of_edit)
next
  case (CLockName n c until reason t)
  with exec show ?thesis by (auto elim!: lock_cases intro!: keeps_step leases_of_same)
next
  case (CUnlockName n c)
  with exec show ?thesis by (auto elim!: unlock_name_cases intro!: keeps_step leases_of_same)
qed (use exec in \<open>auto simp: registry_initialize_def set_nft_contract_def set_dispute_admin_def registry_upgrade_def Let_def
      intro!: keeps_step leases_of_same register_claims renew_prolongs transfer_hands_over update_owner_reassigns burn_gives_up
      split: outcome_splits\<close>)

lemma empty_unwired: "rg_nft_contract registry_empty = None"
  by (simp add: registry_empty_def)

theorem registry_refines_leases_witness:
  "lease_step (require_auth (env_at 100 [alice])) None 100 (Claims ''alice.xlm'' alice 1000 2000)
     (leases_of registry_empty) (leases_of alice_registry)
   \<and> leases_of alice_registry ''alice.xlm'' = Some (alice, 1000, 2000)"
  using registry_refines_leases [of no_contracts "env_at 100 [alice]"
      "CRegister ''alice.xlm'' alice None None 100 1000 2000" registry_empty "()" alice_registry "()"]
  by (simp add: alice_registers leases_of_entry empty_unwired)

end
