(* ===== verification/Registrar_Proofs.thy ===== *)
theory Registrar_Proofs
  imports Registrar
begin

text \<open>
  The registrar as a state machine: what a successful registration or renewal does, the commands, the
  invariant of the records and of the treasury, and what the registrar relies on the registry for.
\<close>

section \<open>Successful commands\<close>

lemma years_valid_iff:
  "validate_registration_years_soroban years = Inr u \<longleftrightarrow> 1 \<le> years \<and> years \<le> 10"
  by (auto simp: validate_registration_years_soroban_def MIN_REGISTRATION_YEARS_def MAX_REGISTRATION_YEARS_def)

lemma label_valid_cases:
  "validate_label_soroban label = Inr u \<longleftrightarrow> valid_label label"
  using validate_label_soroban_iff [of label] by (cases "validate_label_soroban label") auto

lemma label_builds: "valid_label label \<Longrightarrow> build_xlm_name label = Inr (label @ ''.xlm'')"
  using build_xlm_name_iff by auto

lemma extract_of_built: "valid_label label \<Longrightarrow> extract_label_soroban (label @ ''.xlm'') = Inr label"
  using extract_label_build build_xlm_name_iff by blast

lemma rs_as_admin_iff:
  "rs_as_admin e s r = Inr x \<longleftrightarrow> (\<exists>a. rs_admin s = Some a \<and> require_auth e a) \<and> r = Inr x"
  by (auto simp: rs_as_admin_def split: option.splits)

lemma registry_call_iff:
  "registry_call call e f args (s, w) = Inr (s', w') \<longleftrightarrow>
     s' = s \<and> (\<exists>r. rs_registry s = Some r \<and> call (callee_env e r) r f args w = Some (VUnit, w'))"
  by (auto simp: registry_call_def split: option.splits val.splits prod.splits)

text \<open>The record a registration files, and the state it leaves before its event.\<close>

definition quoted_record :: "registrar \<Rightarrow> string \<Rightarrow> address \<Rightarrow> registration_quote \<Rightarrow> u64 \<Rightarrow> registration_record" where
  "quoted_record s name owner q t = \<lparr>rr_name = name, rr_owner = owner, rr_registered_at = t,
     rr_expires_at = rq_expiry_unix q, rr_grace_period_ends_at = rq_grace_period_ends_at q,
     rr_fee_paid = rq_fee_stroops q, rr_renewed_at = t\<rparr>"

lemma quoted_record_simps [simp]:
  "rr_name (quoted_record s n a q t) = n" "rr_owner (quoted_record s n a q t) = a"
  "rr_expires_at (quoted_record s n a q t) = rq_expiry_unix q"
  "rr_grace_period_ends_at (quoted_record s n a q t) = rq_grace_period_ends_at q"
  "rr_fee_paid (quoted_record s n a q t) = rq_fee_stroops q"
  "rr_registered_at (quoted_record s n a q t) = t"
  by (simp_all add: quoted_record_def)

definition booked :: "registrar \<Rightarrow> string \<Rightarrow> address \<Rightarrow> registration_quote \<Rightarrow> u64 \<Rightarrow> registrar" where
  "booked s label owner q t =
     (let name = label @ ''.xlm'';
          s1 = credit_treasury (record_registration
                 (s\<lparr>rs_registrations := (rs_registrations s)(name \<mapsto> quoted_record s name owner q t)\<rparr>) owner t)
                 (rq_fee_stroops q)
      in s1\<lparr>rs_registration_count := Some (sat_add (or_zero (rs_registration_count s1)) 1)\<rparr>)"

definition registered :: "registrar \<Rightarrow> string \<Rightarrow> address \<Rightarrow> registration_quote \<Rightarrow> u64 \<Rightarrow> registrar" where
  "registered s label owner q t =
     rs_emit (RrRegistered label owner (rq_fee_stroops q) (rq_expiry_unix q) (rq_grace_period_ends_at q))
       (booked s label owner q t)"

definition renewed :: "(string \<Rightarrow> address \<Rightarrow> u64 \<Rightarrow> u64 \<Rightarrow> u64 \<Rightarrow> registrar_event) \<Rightarrow> registrar \<Rightarrow> string \<Rightarrow>
    registration_record \<Rightarrow> u64 \<Rightarrow> u64 \<Rightarrow> u64 \<Rightarrow> registrar" where
  "renewed event s name r x payment t =
     (let g = compute_grace_period_ends_at s x;
          s1 = credit_treasury (s\<lparr>rs_registrations := (rs_registrations s)
                 (name \<mapsto> r\<lparr>rr_expires_at := x, rr_grace_period_ends_at := g, rr_renewed_at := t,
                             rr_fee_paid := sat_add (rr_fee_paid r) payment\<rparr>)\<rparr>) payment
      in rs_emit (event name (rr_owner r) payment x g)
           (s1\<lparr>rs_renewal_count := Some (sat_add (or_zero (rs_renewal_count s1)) 1)\<rparr>))"

lemma registered_simps [simp]:
  "rs_registrations (registered s label owner q t) =
     (rs_registrations s)(label @ ''.xlm'' \<mapsto> quoted_record s (label @ ''.xlm'') owner q t)"
  "rs_treasury (registered s label owner q t) = Some (sat_add (or_zero (rs_treasury s)) (rq_fee_stroops q))"
  "rs_registration_count (registered s label owner q t) = Some (sat_add (or_zero (rs_registration_count s)) 1)"
  "rs_renewal_count (registered s label owner q t) = rs_renewal_count s"
  "rs_reserved (registered s label owner q t) = rs_reserved s"
  "rs_registry (registered s label owner q t) = rs_registry s"
  "rs_events (registered s label owner q t) = rs_events s @
     [RrRegistered label owner (rq_fee_stroops q) (rq_expiry_unix q) (rq_grace_period_ends_at q)]"
  by (simp_all add: registered_def booked_def credit_treasury_def record_registration_def rs_emit_def Let_def)

lemma renewed_simps [simp]:
  "rs_registrations (renewed ev s name r x p t) = (rs_registrations s)
     (name \<mapsto> r\<lparr>rr_expires_at := x, rr_grace_period_ends_at := compute_grace_period_ends_at s x,
                 rr_renewed_at := t, rr_fee_paid := sat_add (rr_fee_paid r) p\<rparr>)"
  "rs_treasury (renewed ev s name r x p t) = Some (sat_add (or_zero (rs_treasury s)) p)"
  "rs_registration_count (renewed ev s name r x p t) = rs_registration_count s"
  "rs_renewal_count (renewed ev s name r x p t) = Some (sat_add (or_zero (rs_renewal_count s)) 1)"
  "rs_reserved (renewed ev s name r x p t) = rs_reserved s"
  "rs_registry (renewed ev s name r x p t) = rs_registry s"
  "rs_events (renewed ev s name r x p t) = rs_events s @
     [ev name (rr_owner r) p x (compute_grace_period_ends_at s x)]"
  by (simp_all add: renewed_def credit_treasury_def rs_emit_def Let_def)

lemma quote_not_expired [simp]:
  "\<not> sat_add t QUOTE_VALIDITY_SECONDS < t" "\<not> rq_valid_until (build_quote s l y t) < t"
  by (simp_all add: build_quote_def Let_def not_less)

lemma quote_iff:
  "quote_registration s label years t = Inr q \<longleftrightarrow>
     valid_label label \<and> 1 \<le> years \<and> years \<le> 10 \<and> q = build_quote s label years t"
  using label_valid_cases [of label] years_valid_iff [of years]
  by (cases "validate_label_soroban label"; cases "validate_registration_years_soroban years")
     (auto simp: quote_registration_def)

lemma available_iff:
  "valid_label label \<Longrightarrow> is_available s label t \<longleftrightarrow>
     (\<forall>r. rs_registrations s (label @ ''.xlm'') = Some r \<longrightarrow> rr_grace_period_ends_at r < t)"
  by (auto simp: is_available_def label_builds split: option.splits)

lemma booked_registry [simp]: "rs_registry (booked s label owner q t) = rs_registry s"
  by (simp add: booked_def credit_treasury_def record_registration_def Let_def)

text \<open>With the two validations passed, \<open>register\<close> is a chain of five guards around one call.\<close>

lemma registrar_register_chain:
  assumes "valid_label label" and "1 \<le> years \<and> years \<le> 10" and "require_auth e owner"
    and "q = build_quote s label years t"
  shows "registrar_register call e label owner years max_price t (s, w) =
    (if rs_is_reserved s label then Inl (Err Reserved)
     else case check_rate_limit s owner t of Inl err \<Rightarrow> Inl err | Inr _ \<Rightarrow>
      (if max_price < rq_fee_stroops q then Inl (Err InsufficientFee)
       else if \<not> is_available s label t then Inl (Err RrAlreadyRegistered)
       else case registry_call call e ''register''
              [VStr (label @ ''.xlm''), VAddr owner, VOptStr None, VOptStr None, VU64 t,
               VU64 (rq_expiry_unix q), VU64 (rq_grace_period_ends_at q)] (booked s label owner q t, w) of
            Inl err \<Rightarrow> Inl err
          | Inr (s5, w5) \<Rightarrow> Inr (rs_emit (RrRegistered label owner (rq_fee_stroops q) (rq_expiry_unix q)
              (rq_grace_period_ends_at q)) s5, w5)))"
proof -
  have v: "validate_label_soroban label = Inr ()" "validate_registration_years_soroban years = Inr ()"
    using assms label_valid_cases years_valid_iff by blast+
  have free: "(case rs_registrations s (label @ ''.xlm'') of None \<Rightarrow> False
      | Some existing \<Rightarrow> t \<le> rr_grace_period_ends_at existing) \<longleftrightarrow> \<not> is_available s label t"
    using available_iff [OF assms(1)] by (auto split: option.splits)
  show ?thesis
    using assms(3) free
    by (simp add: registrar_register_def v label_builds [OF assms(1)] assms(4) booked_def
        quoted_record_def Let_def split: sum.split)
qed

lemma registrar_register_iff:
  "registrar_register call e label owner years max_price t (s, w) = Inr (s', w') \<longleftrightarrow>
     require_auth e owner \<and> valid_label label \<and> 1 \<le> years \<and> years \<le> 10
     \<and> \<not> rs_is_reserved s label \<and> check_rate_limit s owner t = Inr ()
     \<and> rq_fee_stroops (build_quote s label years t) \<le> max_price \<and> is_available s label t
     \<and> (\<exists>r. rs_registry s = Some r \<and> call (callee_env e r) r ''register''
          [VStr (label @ ''.xlm''), VAddr owner, VOptStr None, VOptStr None, VU64 t,
           VU64 (rq_expiry_unix (build_quote s label years t)),
           VU64 (rq_grace_period_ends_at (build_quote s label years t))] w = Some (VUnit, w'))
     \<and> s' = registered s label owner (build_quote s label years t) t"
proof (cases "require_auth e owner \<and> valid_label label \<and> 1 \<le> years \<and> years \<le> 10")
  case True
  then show ?thesis
    by (subst registrar_register_chain [OF _ _ _ refl])
       (auto simp: registry_call_iff registered_def not_less bind_Inr_iff)
next
  case False
  then show ?thesis
    using label_valid_cases [of label] years_valid_iff [of years]
    by (cases "validate_label_soroban label"; cases "validate_registration_years_soroban years")
       (auto simp: registrar_register_def Let_def split: if_splits)
qed

definition renewal_call ::
    "'w invoke \<Rightarrow> env \<Rightarrow> registrar \<Rightarrow> string \<Rightarrow> address \<Rightarrow> u64 \<Rightarrow> u64 \<Rightarrow> u64 \<Rightarrow> 'w \<Rightarrow> 'w \<Rightarrow> bool" where
  "renewal_call call e s name caller x g t w w' \<longleftrightarrow> (\<exists>r. rs_registry s = Some r \<and>
     call (callee_env e r) r ''renew'' [VStr name, VAddr caller, VU64 x, VU64 g, VU64 t] w = Some (VUnit, w'))"

lemma apply_renewal_iff:
  assumes "rr_owner record = caller"
  shows "apply_renewal call e event name caller record x payment t (s, w) = Inr (s', w') \<longleftrightarrow>
     renewal_call call e s name caller x (compute_grace_period_ends_at s x) t w w'
     \<and> s' = renewed event s name record x payment t"
proof -
  have [simp]: "rs_registry (credit_treasury u p) = rs_registry u" for u p
    by (simp add: credit_treasury_def)
  show ?thesis
    using assms by (auto simp: apply_renewal_def Let_def bind_Inr_iff registry_call_iff renewal_call_def
        renewed_def)
qed

lemma registrar_renew_iff:
  "registrar_renew call e name caller years payment t (s, w) = Inr (s', w') \<longleftrightarrow>
     require_auth e caller \<and> 1 \<le> years \<and> years \<le> 10
     \<and> (\<exists>label record. extract_label_soroban name = Inr label \<and> rs_registrations s name = Some record
         \<and> rr_owner record = caller \<and> t \<le> rr_grace_period_ends_at record
         \<and> sat_mul (price_for_label_length (length label)) years \<le> payment
         \<and> renewal_call call e s name caller (expiry_from_now (renewal_base record t) years)
             (compute_grace_period_ends_at s (expiry_from_now (renewal_base record t) years)) t w w'
         \<and> s' = renewed RrRenewed s name record (expiry_from_now (renewal_base record t) years) payment t)"
proof -
  have [simp]: "can_renew g t = Inr ok \<longleftrightarrow> t \<le> g \<and> ok" for g ok
    by (auto simp: can_renew_def)
  have [simp]: "(\<exists>ok. ok \<and> P ok) \<longleftrightarrow> P True" for P
    by auto
  show ?thesis
    by (auto simp: registrar_renew_def bind_Inr_iff guard_Inr_iff years_valid_iff apply_renewal_iff
        Let_def not_less split: option.splits)
qed

lemma extend_during_grace_iff:
  "extend_during_grace call e name caller years payment t (s, w) = Inr (s', w') \<longleftrightarrow>
     require_auth e caller \<and> 1 \<le> years \<and> years \<le> 10
     \<and> (\<exists>label record. extract_label_soroban name = Inr label \<and> rs_registrations s name = Some record
         \<and> rr_owner record = caller \<and> rr_expires_at record < t \<and> t \<le> rr_grace_period_ends_at record
         \<and> sat_mul (price_for_label_length (length label)) years \<le> payment
         \<and> renewal_call call e s name caller (expiry_from_now t years)
             (compute_grace_period_ends_at s (expiry_from_now t years)) t w w'
         \<and> s' = renewed RrGraceRenewed s name record (expiry_from_now t years) payment t)"
  by (auto simp: extend_during_grace_def bind_Inr_iff guard_Inr_iff years_valid_iff apply_renewal_iff
      Let_def not_less not_le split: option.splits)

section \<open>Commands\<close>

datatype registrar_command =
    RcInitialize address address
  | RcUpgrade "u8 list" "u8 list"
  | RcReserveLabel string
  | RcLoadManifest "string list"
  | RcSetRateLimit u64 u64
  | RcSetGracePeriod u64
  | RcWhitelist address
  | RcUnwhitelist address
  | RcRegister string address u64 u64 u64
  | RcRenew string address u64 u64 u64
  | RcExtend string address u64 u64 u64

definition rs_locally :: "(registrar_error, registrar) result \<Rightarrow> 'w \<Rightarrow> (registrar_error, registrar \<times> 'w) result" where
  "rs_locally r w = (case r of Inl err \<Rightarrow> Inl err | Inr s' \<Rightarrow> Inr (s', w))"

lemma rs_locally_iff [simp]: "rs_locally r w = Inr (s', w') \<longleftrightarrow> r = Inr s' \<and> w' = w"
  by (auto simp: rs_locally_def bind_Inr_iff)

fun registrar_exec ::
    "'w invoke \<Rightarrow> env \<Rightarrow> registrar_command \<Rightarrow> registrar \<times> 'w \<Rightarrow> (registrar_error, registrar \<times> 'w) result" where
  "registrar_exec call e (RcInitialize r a) (s, w) = rs_locally (registrar_initialize r a s) w"
| "registrar_exec call e (RcUpgrade h d) (s, w) = rs_locally (registrar_upgrade e h d s) w"
| "registrar_exec call e (RcReserveLabel l) (s, w) = rs_locally (reserve_label e l s) w"
| "registrar_exec call e (RcLoadManifest ls) (s, w) =
     (case load_reserved_manifest e ls s of Inl err \<Rightarrow> Inl err | Inr (n, s') \<Rightarrow> Inr (s', w))"
| "registrar_exec call e (RcSetRateLimit k m) (s, w) = rs_locally (set_rate_limit_config e k m s) w"
| "registrar_exec call e (RcSetGracePeriod g) (s, w) = rs_locally (set_grace_period e g s) w"
| "registrar_exec call e (RcWhitelist a) (s, w) = rs_locally (whitelist_address e a s) w"
| "registrar_exec call e (RcUnwhitelist a) (s, w) = rs_locally (remove_whitelist_address e a s) w"
| "registrar_exec call e (RcRegister l a y m t) sw = registrar_register call e l a y m t sw"
| "registrar_exec call e (RcRenew n a y p t) sw = registrar_renew call e n a y p t sw"
| "registrar_exec call e (RcExtend n a y p t) sw = extend_during_grace call e n a y p t sw"

text \<open>Between commands the rest of the ledger may change in any way.\<close>

inductive registrar_reachable :: "'w invoke \<Rightarrow> registrar \<times> 'w \<Rightarrow> bool" for call where
  start: "registrar_reachable call (registrar_empty, w)"
| command: "registrar_reachable call (s, w) \<Longrightarrow> registrar_exec call e cmd (s, w) = Inr (s', w')
     \<Longrightarrow> registrar_reachable call (s', w')"
| others: "registrar_reachable call (s, w) \<Longrightarrow> registrar_reachable call (s, w')"

text \<open>The commands that touch neither the records nor the counters.\<close>

definition same_books :: "registrar \<Rightarrow> registrar \<Rightarrow> bool" where
  "same_books s t \<longleftrightarrow> rs_registrations t = rs_registrations s \<and> rs_treasury t = rs_treasury s
     \<and> rs_registration_count t = rs_registration_count s \<and> rs_renewal_count t = rs_renewal_count s
     \<and> (\<exists>evs. rs_events t = rs_events s @ evs \<and> (\<forall>ev \<in> set evs. \<forall>l a p x g.
          ev \<noteq> RrRegistered l a p x g \<and> ev \<noteq> RrRenewed l a p x g \<and> ev \<noteq> RrGraceRenewed l a p x g))"

lemma same_books_refl: "same_books s s"
  unfolding same_books_def by (intro conjI exI [of _ "[]"]) auto

lemma same_books_trans: "same_books s t \<Longrightarrow> same_books t u \<Longrightarrow> same_books s u"
  unfolding same_books_def by (elim conjE exE) (simp add: ball_Un)

lemma same_books_emit:
  assumes "rs_registrations t = rs_registrations s" "rs_treasury t = rs_treasury s"
    "rs_registration_count t = rs_registration_count s" "rs_renewal_count t = rs_renewal_count s"
    "rs_events t = rs_events s"
    "\<And>l a p x g. ev \<noteq> RrRegistered l a p x g \<and> ev \<noteq> RrRenewed l a p x g \<and> ev \<noteq> RrGraceRenewed l a p x g"
  shows "same_books s (rs_emit ev t)"
  unfolding same_books_def using assms by (intro conjI exI [of _ "[ev]"]) (auto simp: rs_emit_def)

lemma load_labels_books: "same_books s (snd (load_labels ls (n, s)))"
proof (induction ls arbitrary: n s)
  case (Cons l ls)
  then show ?case
    by (auto split: sum.split intro!: same_books_emit intro: same_books_trans [OF _ Cons.IH])
qed (simp add: same_books_refl)

lemma registrar_exec_books:
  assumes "registrar_exec call e cmd (s, w) = Inr (s', w')"
    and "\<And>l a y m t. cmd \<noteq> RcRegister l a y m t" "\<And>n a y p t. cmd \<noteq> RcRenew n a y p t"
      "\<And>n a y p t. cmd \<noteq> RcExtend n a y p t"
  shows "same_books s s'"
proof (cases cmd)
  case (RcInitialize r a)
  then show ?thesis
    using assms(1) by (auto simp: registrar_initialize_def same_books_def Let_def split: if_splits)
next
  case (RcLoadManifest ls)
  then show ?thesis
    using assms(1) load_labels_books [of s ls 0]
    by (auto simp: load_reserved_manifest_def bind_Inr_iff rs_as_admin_iff split: prod.split_asm)
qed (use assms in \<open>auto simp: rs_as_admin_iff reserve_label_def set_rate_limit_config_def set_grace_period_def
  whitelist_address_def remove_whitelist_address_def registrar_upgrade_def bind_Inr_iff Let_def
  intro!: same_books_emit split: outcome_splits\<close>)

section \<open>The invariant of the books\<close>

fun event_payment :: "registrar_event \<Rightarrow> nat" where
  "event_payment (RrRegistered l a p x g) = unat p"
| "event_payment (RrRenewed l a p x g) = unat p"
| "event_payment (RrGraceRenewed l a p x g) = unat p"
| "event_payment _ = 0"

fun is_registration :: "registrar_event \<Rightarrow> bool" where
  "is_registration (RrRegistered l a p x g) = True"
| "is_registration _ = False"

fun is_renewal :: "registrar_event \<Rightarrow> bool" where
  "is_renewal (RrRenewed l a p x g) = True"
| "is_renewal (RrGraceRenewed l a p x g) = True"
| "is_renewal _ = False"

abbreviation (input) cap :: nat where "cap \<equiv> 2 ^ 64 - 1"

definition books_balanced :: "registrar \<Rightarrow> bool" where
  "books_balanced s \<longleftrightarrow>
     unat (or_zero (rs_treasury s)) = min (sum_list (map event_payment (rs_events s))) cap
     \<and> unat (or_zero (rs_registration_count s)) = min (length (filter is_registration (rs_events s))) cap
     \<and> unat (or_zero (rs_renewal_count s)) = min (length (filter is_renewal (rs_events s))) cap"

definition record_ok :: "string \<Rightarrow> registration_record \<Rightarrow> bool" where
  "record_ok n r \<longleftrightarrow> rr_name r = n \<and> (\<exists>l. valid_label l \<and> n = l @ ''.xlm'')
     \<and> rr_registered_at r \<le> rr_expires_at r \<and> rr_expires_at r \<le> rr_grace_period_ends_at r"

definition registrar_inv :: "registrar \<Rightarrow> bool" where
  "registrar_inv s \<longleftrightarrow> books_balanced s \<and> (\<forall>n r. rs_registrations s n = Some r \<longrightarrow> record_ok n r)"

lemma registrar_inv_empty: "registrar_inv registrar_empty"
  by (simp add: registrar_inv_def books_balanced_def registrar_empty_def)

lemma quiet_event:
  "\<forall>l a p x g. ev \<noteq> RrRegistered l a p x g \<and> ev \<noteq> RrRenewed l a p x g \<and> ev \<noteq> RrGraceRenewed l a p x g
     \<Longrightarrow> event_payment ev = 0 \<and> \<not> is_registration ev \<and> \<not> is_renewal ev"
  by (cases ev) auto

lemma same_books_inv:
  assumes "same_books s t" and "registrar_inv s"
  shows "registrar_inv t"
proof -
  obtain evs where evs: "rs_events t = rs_events s @ evs"
    and quiet: "ev \<in> set evs \<Longrightarrow> event_payment ev = 0 \<and> \<not> is_registration ev \<and> \<not> is_renewal ev" for ev
    using assms(1) quiet_event unfolding same_books_def by blast
  have zero: "sum_list (map event_payment evs) = 0" using quiet by (simp add: sum_list_eq_0_iff)
  have "filter is_registration evs = []" "filter is_renewal evs = []"
    using quiet by (simp_all add: filter_empty_conv)
  then show ?thesis
    using assms evs zero
    by (simp add: registrar_inv_def books_balanced_def same_books_def del: sum_list_eq_0_iff)
qed

lemma min_cap_step: "min (min a c + b) c = min (a + b) (c :: nat)"
  by simp

lemma unat_count: "unat (sat_add c (1 :: u64)) = min (unat c + 1) cap"
  by (simp add: unat_sat_add)

lemma compute_grace_ge: "x \<le> compute_grace_period_ends_at s x"
  by (simp add: compute_grace_period_ends_at_def grace_ge_expiry)

lemma quote_times:
  "t \<le> rq_expiry_unix (build_quote s l y t)"
  "rq_expiry_unix (build_quote s l y t) \<le> rq_grace_period_ends_at (build_quote s l y t)"
  by (simp_all add: build_quote_def Let_def expiry_from_now_ge compute_grace_ge)

lemma registered_inv:
  assumes "registrar_inv s" and "valid_label l"
  shows "registrar_inv (registered s l owner (build_quote s l y t) t)"
  using assms quote_times [where t = t and y = y and s = s and l = l]
  by (auto simp: registrar_inv_def books_balanced_def record_ok_def unat_sat_add quoted_record_def)

lemma unat_renewal_base: "unat (renewal_base r t) = max (unat (rr_expires_at r)) (unat t)"
  by (simp add: renewal_base_def word_less_nat_alt)

lemma renewal_base_ge: "rr_expires_at r \<le> renewal_base r t" "t \<le> renewal_base r t"
  by (auto simp: renewal_base_def)

lemma renewed_inv:
  assumes "registrar_inv s" and "rs_registrations s n = Some r" and "rr_registered_at r \<le> x"
    and "is_renewal (ev n (rr_owner r) p x (compute_grace_period_ends_at s x))"
    and "event_payment (ev n (rr_owner r) p x (compute_grace_period_ends_at s x)) = unat p"
    and "\<not> is_registration (ev n (rr_owner r) p x (compute_grace_period_ends_at s x))"
  shows "registrar_inv (renewed ev s n r x p t)"
  using assms compute_grace_ge [of x s]
  by (auto simp: registrar_inv_def books_balanced_def record_ok_def unat_sat_add)

lemma record_dates:
  assumes "registrar_inv s" and "rs_registrations s n = Some r"
  shows "rr_registered_at r \<le> rr_expires_at r"
  using assms by (auto simp: registrar_inv_def record_ok_def)

lemma registrar_exec_inv:
  assumes exec: "registrar_exec call e cmd (s, w) = Inr (s', w')" and inv: "registrar_inv s"
  shows "registrar_inv s'"
proof (cases cmd)
  case (RcRegister l a y m t)
  then show ?thesis using exec inv by (auto simp: registrar_register_iff intro: registered_inv)
next
  case (RcRenew n a y p t)
  with exec obtain r where "rs_registrations s n = Some r"
    "s' = renewed RrRenewed s n r (expiry_from_now (renewal_base r t) y) p t"
    by (auto simp: registrar_renew_iff)
  moreover have "rr_registered_at r \<le> expiry_from_now (renewal_base r t) y"
    using record_dates [OF inv \<open>rs_registrations s n = Some r\<close>] renewal_base_ge(1) [of r t]
      expiry_from_now_ge [of "renewal_base r t" y] by simp
  ultimately show ?thesis using inv by (auto intro: renewed_inv)
next
  case (RcExtend n a y p t)
  with exec obtain r where "rs_registrations s n = Some r" "rr_expires_at r < t"
    "s' = renewed RrGraceRenewed s n r (expiry_from_now t y) p t"
    by (auto simp: extend_during_grace_iff)
  moreover have "rr_registered_at r \<le> expiry_from_now t y"
    using record_dates [OF inv \<open>rs_registrations s n = Some r\<close>] \<open>rr_expires_at r < t\<close>
      expiry_from_now_ge [of t y] by simp
  ultimately show ?thesis using inv by (auto intro: renewed_inv)
qed (rule same_books_inv [OF registrar_exec_books [OF exec] inv]; simp)+

lemma registrar_reachable_inv: "registrar_reachable call sw \<Longrightarrow> registrar_inv (fst sw)"
  by (induction rule: registrar_reachable.induct) (auto simp: registrar_inv_empty intro: registrar_exec_inv)

section \<open>The registrar as a client of the registry\<close>

text \<open>The ledger in which the contract at \<open>a\<close> acts as \<open>act\<close> says and no other contract is there.\<close>

definition deployed_at :: "address \<Rightarrow> (env \<Rightarrow> string \<Rightarrow> val list \<Rightarrow> 'w \<Rightarrow> (val \<times> 'w) option) \<Rightarrow> 'w invoke" where
  "deployed_at a act e b f args w = (if b = a then act e f args w else None)"

lemma deployed_at_iff [simp]:
  "deployed_at a act e b f args w = Some rw \<longleftrightarrow> b = a \<and> act e f args w = Some rw"
  by (simp add: deployed_at_def)

text \<open>Every registration the registrar has on its books is held in the registry until the same dates.\<close>

definition dates_agree :: "registrar \<Rightarrow> (string \<Rightarrow> (address \<times> u64 \<times> u64) option) \<Rightarrow> bool" where
  "dates_agree s L \<longleftrightarrow> (\<forall>n r. rs_registrations s n = Some r \<longrightarrow>
     (\<exists>a. L n = Some (a, rr_expires_at r, rr_grace_period_ends_at r)))"

lemma dates_agreeD:
  "dates_agree s L \<Longrightarrow> rs_registrations s n = Some r \<Longrightarrow>
     \<exists>a. L n = Some (a, rr_expires_at r, rr_grace_period_ends_at r)"
  by (simp add: dates_agree_def)

lemma dates_agree_upd:
  assumes "dates_agree s L" and "rs_registrations s' = (rs_registrations s)(n \<mapsto> r)"
    and "rr_expires_at r = x" and "rr_grace_period_ends_at r = g"
  shows "dates_agree s' (L(n \<mapsto> (a, x, g)))"
  using assms by (auto simp: dates_agree_def)

context lease_provider
begin

lemma register_dates:
  assumes "registrar_register (deployed_at reg act) e label a y m t (s, w) = Inr (s', w')"
    and "dates_agree s (lease w)"
  shows "dates_agree s' (lease w')"
    and "lease w' (label @ ''.xlm'') = Some (a, rq_expiry_unix (build_quote s label y t),
           rq_grace_period_ends_at (build_quote s label y t))"
proof -
  let ?q = "build_quote s label y t"
  from assms(1) have act: "\<exists>e. act e ''register'' [VStr (label @ ''.xlm''), VAddr a, VOptStr None, VOptStr None,
      VU64 t, VU64 (rq_expiry_unix ?q), VU64 (rq_grace_period_ends_at ?q)] w = Some (VUnit, w')"
    and s': "s' = registered s label a ?q t"
    by (auto simp: registrar_register_iff)
  from act have lw: "lease w' = (lease w)(label @ ''.xlm'' \<mapsto> (a, rq_expiry_unix ?q, rq_grace_period_ends_at ?q))"
    using register_law by blast
  show "dates_agree s' (lease w')"
    unfolding lw by (rule dates_agree_upd [OF assms(2)], simp add: s') simp_all
  show "lease w' (label @ ''.xlm'') = Some (a, rq_expiry_unix ?q, rq_grace_period_ends_at ?q)"
    by (simp add: lw)
qed

lemma renewal_dates:
  assumes call: "renewal_call (deployed_at reg act) e s n c x (compute_grace_period_ends_at s x) t w w'"
    and "dates_agree s (lease w)"
  shows "dates_agree (renewed ev s n r x p t) (lease w')"
    and "\<exists>y h. lease w n = Some (c, y, h) \<and> y \<le> x"
proof -
  let ?g = "compute_grace_period_ends_at s x"
  from call obtain e' where act: "act e' ''renew'' [VStr n, VAddr c, VU64 x, VU64 ?g, VU64 t] w = Some (VUnit, w')"
    by (auto simp: renewal_call_def)
  show "dates_agree (renewed ev s n r x p t) (lease w')"
    unfolding renew_law [OF act] by (rule dates_agree_upd [OF assms(2)], simp) simp_all
  show "\<exists>y h. lease w n = Some (c, y, h) \<and> y \<le> x"
    using renew_held [OF act] by blast
qed

lemma registrar_exec_dates:
  assumes exec: "registrar_exec (deployed_at reg act) e cmd (s, w) = Inr (s', w')"
    and agree: "dates_agree s (lease w)"
  shows "dates_agree s' (lease w')"
proof (cases cmd)
  case (RcRegister l a y m t)
  with exec show ?thesis using register_dates(1) [OF _ agree] by auto
next
  case (RcRenew n a y p t)
  with exec show ?thesis using renewal_dates(1) [OF _ agree] by (auto simp: registrar_renew_iff)
next
  case (RcExtend n a y p t)
  with exec show ?thesis using renewal_dates(1) [OF _ agree] by (auto simp: extend_during_grace_iff)
qed (use registrar_exec_books [OF exec] exec agree in
   \<open>auto simp: dates_agree_def same_books_def bind_Inr_iff split: prod.split_asm\<close>)

text \<open>A name whose registry owner differs from the registrar's can be renewed here by nobody.\<close>

lemma foreign_owner_blocks_renewal:
  assumes "rs_registrations s n = Some r" and "lease w n = Some (b, y, h)" and "b \<noteq> rr_owner r"
  shows "registrar_renew (deployed_at reg act) e n c years p t (s, w) \<noteq> Inr (s', w')"
    and "extend_during_grace (deployed_at reg act) e n c years p t (s, w) \<noteq> Inr (s', w')"
proof -
  have "b = c" if "renewal_call (deployed_at reg act) e s n c x g t w w'" for x g
    using that assms(2) renew_held unfolding renewal_call_def deployed_at_iff by fastforce
  then show "registrar_renew (deployed_at reg act) e n c years p t (s, w) \<noteq> Inr (s', w')"
    "extend_during_grace (deployed_at reg act) e n c years p t (s, w) \<noteq> Inr (s', w')"
    using assms by (auto simp: registrar_renew_iff extend_during_grace_iff)
qed

end

end
