(* ===== verification/Registry_Links.thy ===== *)
theory Registry_Links
  imports Registry_Properties Registrar_Proofs Nft
begin

text \<open>
  The registry between its neighbours: as the client of the token contract (every registry command
  keeps the tokens a mirror of the entries), and as the provider the registrar, the resolver and
  the subdomain contract rely on.
\<close>

section \<open>Client of the token contract\<close>

text \<open>Owner and expiry of every entry.\<close>

definition holdings :: "registry \<Rightarrow> string \<Rightarrow> (address \<times> u64) option" where
  "holdings s n = map_option (\<lambda>en. (re_owner en, re_expires_at en)) (rg_entries s n)"

lemma holdings_upd:
  "rg_entries t = (rg_entries s)(n := v) \<Longrightarrow>
     holdings t = (holdings s)(n := map_option (\<lambda>en. (re_owner en, re_expires_at en)) v)"
  by (auto simp: holdings_def)

lemma holdings_same: "rg_entries t = rg_entries s \<Longrightarrow> holdings t = holdings s"
  by (simp add: holdings_def fun_eq_iff)

lemma holdings_iff [simp]:
  "holdings s n = None \<longleftrightarrow> rg_entries s n = None"
  "holdings s n = Some (a, x) \<longleftrightarrow> (\<exists>en. rg_entries s n = Some en \<and> re_owner en = a \<and> re_expires_at en = x)"
  by (auto simp: holdings_def)

lemma clear_resolver_token:
  assumes "clear_resolver call e en n a w = Inr w1"
    and "\<And>e c args w r w'. call e c ''clear_reverse_record'' args w = Some (r, w') \<Longrightarrow> token w' = token w"
  shows "token w1 = token w"
  using assms by (auto simp: clear_resolver_def split: outcome_splits val.split_asm)

text \<open>The commands that change who the token contract is, or come from the token contract itself.\<close>

fun rewires :: "registry_command \<Rightarrow> bool" where
  "rewires (CSetNftContract a) = True"
| "rewires (CUpdateOwner n c b) = True"
| "rewires _ = False"

context token_mirror
begin

lemma nft_effect_call:
  "rg_nft_contract s = Some nft_at \<Longrightarrow> nft_effect call e f args (rg_nft_contract s) w w' \<Longrightarrow>
     call (callee_env e nft_at) nft_at f args w = Some (VUnit, w')"
  by (simp add: nft_effect_def)

lemma register_mirror:
  assumes exec: "registry_register call e n a u uri t x g (s, w) = Inr (s', w')"
    and nft: "rg_nft_contract s = Some nft_at" and mirror: "token w = holdings s"
  shows "token w' = holdings s'"
  using exec
proof (rule register_cases)
  fix s5 w5
  assume old: "(rg_entries s n = None \<and> s5 = unlock s n \<and> w5 = w)
     \<or> (\<exists>old. rg_entries s n = Some old \<and> \<not> entry_active_at old t \<and> entry_claimable_at old t
          \<and> s5 = rg_emit (RegBurn n (re_owner old)) (delete_entry (unlock s n) n old)
          \<and> nft_effect call e ''burn'' [VStr n] (rg_nft_contract s) w w5)"
    and new: "s' = place_entry s5 n (fresh_entry n a u uri t x g)"
    and mint: "nft_effect call e ''mint'' [VStr n, VAddr a, VOptStr uri, VU64 x] (rg_nft_contract s) w5 w'"
  have "token w5 = holdings s5"
    using old
  proof (elim disjE conjE exE)
    assume "s5 = unlock s n" "w5 = w"
    then show ?thesis using mirror holdings_same [of "unlock s n" s] by simp
  next
    fix o1
    assume s5: "s5 = rg_emit (RegBurn n (re_owner o1)) (delete_entry (unlock s n) n o1)"
      and "nft_effect call e ''burn'' [VStr n] (rg_nft_contract s) w w5"
    then have "token w5 = (token w)(n := None)" using burn_law [OF nft_effect_call [OF nft]] by blast
    moreover have "holdings s5 = (holdings s)(n := None)"
      using holdings_upd [of s5 s n None] by (simp add: s5)
    ultimately show ?thesis using mirror by simp
  qed
  moreover have "token w' = (token w5)(n \<mapsto> (a, x))"
    using mint_law [OF nft_effect_call [OF nft mint]] by blast
  moreover have "holdings s' = (holdings s5)(n \<mapsto> (a, x))"
    using holdings_upd [of s' s5 n "Some (fresh_entry n a u uri t x g)"] by (simp add: new)
  ultimately show ?thesis by simp
qed

lemma renew_mirror:
  assumes exec: "registry_renew call e n c x g t (s, w) = Inr (s', w')"
    and nft: "rg_nft_contract s = Some nft_at" and mirror: "token w = holdings s"
  shows "token w' = holdings s'"
  using exec
proof (rule renew_cases)
  fix en
  assume en: "rg_entries s n = Some en"
    and s': "s' = put_entry (unlock s n) n (en\<lparr>re_expires_at := x, re_grace_period_ends_at := g\<rparr>)"
    and sync: "nft_effect call e ''sync_expiry'' [VStr n, VU64 x] (rg_nft_contract s) w w'"
  from expiry_law [OF nft_effect_call [OF nft sync]] en have "token w' = (token w)(n \<mapsto> (re_owner en, x))"
    using mirror by auto
  then show ?thesis
    using mirror holdings_upd [of s' s n "Some (en\<lparr>re_expires_at := x, re_grace_period_ends_at := g\<rparr>)"]
    by (simp add: s')
qed

lemma transfer_mirror:
  assumes exec: "registry_transfer call e n c b t (s, w) = Inr (s', w')"
    and nft: "rg_nft_contract s = Some nft_at" and mirror: "token w = holdings s"
  shows "token w' = holdings s'"
  using exec
proof (rule transfer_cases)
  fix en en' w1
  assume en: "rg_entries s n = Some en" and en': "en' = en\<lparr>re_owner := b, re_transfer_count := sat_add (re_transfer_count en) 1\<rparr>"
    and s': "s' = rg_emit (RegTransfer n c b) (move_entry (unlock s n) n en en')"
    and cleared: "clear_resolver call e en' n c w = Inr w1"
    and sync: "nft_effect call e ''sync_owner'' [VStr n, VAddr b] (rg_nft_contract s) w1 w'"
  have "token w1 = token w" by (rule clear_resolver_token [OF cleared]) (rule clear_law)
  with mirror have w1: "token w1 = holdings s" by simp
  from owner_law [OF nft_effect_call [OF nft sync]] en have "token w' = (token w1)(n \<mapsto> (b, re_expires_at en))"
    using w1 by auto
  then show ?thesis using w1 holdings_upd [of s' s n "Some en'"] by (simp add: s' en')
qed

lemma burn_mirror:
  assumes exec: "registry_burn call e n c t (s, w) = Inr (s', w')"
    and nft: "rg_nft_contract s = Some nft_at" and mirror: "token w = holdings s"
  shows "token w' = holdings s'"
  using exec
proof (rule burn_cases)
  fix en
  assume s': "s' = rg_emit (RegBurn n (re_owner en)) (delete_entry (unlock s n) n en)"
    and "nft_effect call e ''burn'' [VStr n] (rg_nft_contract s) w w'"
  then have "token w' = (token w)(n := None)" using burn_law [OF nft_effect_call [OF nft]] by blast
  then show ?thesis using mirror holdings_upd [of s' s n None] by (simp add: s')
qed

lemma registry_exec_mirror:
  assumes exec: "registry_exec call e cmd (s, w) = Inr (s', w')" and "\<not> rewires cmd"
    and nft: "rg_nft_contract s = Some nft_at" and mirror: "token w = holdings s"
  shows "token w' = holdings s'"
proof -
  have keep: "token w' = holdings s'" if "holdings s' = holdings s" "w' = w" using that mirror by simp
  show ?thesis
  proof (cases cmd)
    case (CRegister n a u uri t x g)
    with exec show ?thesis using register_mirror [OF _ nft mirror] by auto
  next
    case (CRenew n c x g t)
    with exec show ?thesis using renew_mirror [OF _ nft mirror] by auto
  next
    case (CTransfer n c b t)
    with exec show ?thesis using transfer_mirror [OF _ nft mirror] by auto
  next
    case (CBurn n c t)
    with exec show ?thesis using burn_mirror [OF _ nft mirror] by auto
  next
    case (CLockName n c until reason t)
    with exec show ?thesis by (intro keep holdings_same) (auto elim!: lock_cases)
  next
    case (CUnlockName n c)
    with exec show ?thesis by (intro keep holdings_same) (auto elim!: unlock_name_cases)
  next
    case (CSetResolver n c r t)
    with exec show ?thesis by (intro keep) (auto dest!: edit_cases simp: holdings_def fun_eq_iff)
  next
    case (CSetTargetAddress n c r t)
    with exec show ?thesis by (intro keep) (auto dest!: edit_cases simp: holdings_def fun_eq_iff)
  next
    case (CSetMetadata n c u t)
    with exec show ?thesis by (intro keep) (auto dest!: edit_cases simp: holdings_def fun_eq_iff)
  qed (use exec assms(2) in \<open>auto simp: mirror holdings_def fun_eq_iff registry_initialize_def
      set_dispute_admin_def registry_upgrade_def Let_def split: outcome_splits\<close>)
qed

end

section \<open>Provider of leases\<close>

definition registry_act ::
    "'w invoke \<Rightarrow> env \<Rightarrow> string \<Rightarrow> val list \<Rightarrow> registry \<times> 'w \<Rightarrow> (val \<times> registry \<times> 'w) option" where
  "registry_act call e f args sw =
     (case registry_dispatch call e f args sw of Inr tw \<Rightarrow> Some (VUnit, tw) | Inl _ \<Rightarrow> None)"

lemma registry_act_iff:
  "registry_act call e f args sw = Some (r, tw) \<longleftrightarrow> r = VUnit \<and> registry_dispatch call e f args sw = Inr tw"
  by (auto simp: registry_act_def split: sum.splits)

lemma leases_of_iff [simp]:
  "leases_of s n = Some (a, x, g) \<longleftrightarrow>
     (\<exists>en. rg_entries s n = Some en \<and> re_owner en = a \<and> re_expires_at en = x \<and> re_grace_period_ends_at en = g)"
  by (auto simp: leases_of_def)

lemma register_leases:
  assumes "registry_register call e n a u v t x g sw = Inr tw"
  shows "leases_of (fst tw) = (leases_of (fst sw))(n \<mapsto> (a, x, g))"
    and "leases_of (fst sw) n = Some (b, y, h) \<Longrightarrow> h < t"
proof -
  obtain s w s' w' where sw: "sw = (s, w)" "tw = (s', w')" by (cases sw; cases tw)
  with assms have reg: "registry_register call e n a u v t x g (s, w) = Inr (s', w')" by simp
  then have "rg_entries s' = (rg_entries s)(n \<mapsto> fresh_entry n a u v t x g)" by (auto elim!: register_cases)
  then show "leases_of (fst tw) = (leases_of (fst sw))(n \<mapsto> (a, x, g))"
    using leases_of_upd by (simp add: sw)
  show "leases_of (fst sw) n = Some (b, y, h) \<Longrightarrow> h < t"
    using reg by (auto elim!: register_cases simp: sw entry_claimable_at_def is_claimable_at_def)
qed

lemma renew_leases:
  assumes "registry_renew call e n a x g t sw = Inr tw"
  shows "leases_of (fst tw) = (leases_of (fst sw))(n \<mapsto> (a, x, g))"
    and "\<exists>y h. leases_of (fst sw) n = Some (a, y, h) \<and> y \<le> x \<and> h \<le> g \<and> t \<le> h"
proof -
  obtain s w s' w' where sw: "sw = (s, w)" "tw = (s', w')" by (cases sw; cases tw)
  with assms have ren: "registry_renew call e n a x g t (s, w) = Inr (s', w')" by simp
  then obtain en where en: "rg_entries s n = Some en" "re_owner en = a" "\<not> entry_claimable_at en t"
      "re_expires_at en \<le> x" "re_grace_period_ends_at en \<le> g"
    and s': "s' = put_entry (unlock s n) n (en\<lparr>re_expires_at := x, re_grace_period_ends_at := g\<rparr>)"
    by (rule renew_cases)
  have "rg_entries s' = (rg_entries s)(n \<mapsto> en\<lparr>re_expires_at := x, re_grace_period_ends_at := g\<rparr>)"
    by (simp add: s')
  from leases_of_upd [OF this] show "leases_of (fst tw) = (leases_of (fst sw))(n \<mapsto> (a, x, g))"
    by (simp add: sw en)
  show "\<exists>y h. leases_of (fst sw) n = Some (a, y, h) \<and> y \<le> x \<and> h \<le> g \<and> t \<le> h"
    using en by (simp add: sw entry_claimable_at_def is_claimable_at_def not_less)
qed

interpretation rg_lease: lease_provider "registry_act call" "\<lambda>sw. leases_of (fst sw)" for call
  by unfold_locales
     (auto simp: registry_act_iff registry_dispatch_def simp del: leases_of_iff
       dest: register_leases renew_leases)

section \<open>Provider of lookups\<close>

interpretation rg_oracle: name_oracle
    "\<lambda>n t. case registry_resolve s n t of Inr en \<Rightarrow> Some en | Inl _ \<Rightarrow> None"
    "registry_name_state s" "holdings s" for s
  by unfold_locales
     (auto simp: registry_resolve_def registry_name_state_def entry_active_at_def is_active_at_def get_entry_iff
       split: sum.splits option.splits if_splits)

end
