(* ===== verification/Registrar_Properties.thy ===== *)
theory Registrar_Properties
  imports Registrar_Proofs Samples
begin

text \<open>
  The properties of the registrar: what is charged and granted, the books, renewals, reserved labels, the
  rate limit and the governance entrypoints.
\<close>

section \<open>A sample registrar\<close>

definition registry_id :: address where "registry_id = Address ''CREGISTRY''"

text \<open>Carol governs; the label \<open>bank\<close> is reserved.\<close>

definition new_registrar :: registrar where
  "new_registrar = registrar_empty\<lparr>rs_registry := Some registry_id, rs_admin := Some carol,
     rs_contract_version := Some CONTRACT_VERSION,
     rs_rate_limit_config := Some \<lparr>rl_window_size_seconds = DEFAULT_RATE_LIMIT_WINDOW_SECONDS,
        rl_max_registrations_per_window = DEFAULT_MAX_REGISTRATIONS_PER_WINDOW\<rparr>,
     rs_grace_period_seconds := Some DEFAULT_GRACE_PERIOD_SECONDS\<rparr>"

definition sample_registrar :: registrar where
  "sample_registrar = rs_emit (ReservedAdded ''bank'')
     (new_registrar\<lparr>rs_reserved := (rs_reserved new_registrar)(''bank'' \<mapsto> True)\<rparr>)"

lemma sample_registrar_simps [simp]:
  "rs_registrations sample_registrar = (\<lambda>_. None)" "rs_registry sample_registrar = Some registry_id"
  "rs_is_reserved sample_registrar l \<longleftrightarrow> l = ''bank''" "rs_admin sample_registrar = Some carol"
  "check_rate_limit sample_registrar a t = Inr ()" "rs_treasury sample_registrar = None"
  "rs_registration_count sample_registrar = None" "rs_renewal_count sample_registrar = None"
  "get_grace_period_seconds sample_registrar = 2592000"
  by (simp_all add: sample_registrar_def new_registrar_def registrar_empty_def rs_emit_def rs_is_reserved_def
      check_rate_limit_def get_rate_limit_config_def is_whitelisted_def get_grace_period_seconds_def
      DEFAULT_GRACE_PERIOD_SECONDS_def GRACE_PERIOD_SECONDS_def Let_def
      DEFAULT_MAX_REGISTRATIONS_PER_WINDOW_def)

lemma alice_label: "valid_label ''alice''" "valid_label ''bank''"
  by code_simp+

definition alice_quote :: registration_quote where
  "alice_quote = build_quote sample_registrar ''alice'' 1 100"

lemma alice_quote_simps [simp]:
  "rq_fee_stroops alice_quote = 250000000" "rq_expiry_unix alice_quote = 31536100"
  "rq_grace_period_ends_at alice_quote = 34128100"
  by (simp_all add: alice_quote_def build_quote_def price_for_label_length_def sat_mul_def sat_add_def
      expiry_from_now_def YEAR_SECONDS_def compute_grace_period_ends_at_def
      grace_period_ends_at_with_duration_def Let_def)

definition sample_registered :: registrar where
  "sample_registered = registered sample_registrar ''alice'' alice alice_quote 100"

lemma sample_register:
  "registrar_register accepting (env_at 100 [alice]) ''alice'' alice 1 300000000 100 (sample_registrar, ()) =
     Inr (sample_registered, ())"
  unfolding registrar_register_iff
  by (simp add: alice_label accepting_def sample_registered_def available_iff alice_quote_def [symmetric])

lemma sample_initialize:
  "registrar_exec accepting e (RcInitialize registry_id carol) (registrar_empty, ()) = Inr (new_registrar, ())"
  by (simp add: registrar_initialize_def new_registrar_def registrar_empty_def Let_def)

lemma sample_reserve:
  "registrar_exec accepting (env_at 1 [carol]) (RcReserveLabel ''bank'') (new_registrar, ()) =
     Inr (sample_registrar, ())"
proof -
  have "validate_label_soroban ''bank'' = Inr ()" using alice_label(2) by (simp only: validate_label_soroban_iff)
  then show ?thesis
    by (simp add: reserve_label_def rs_as_admin_def sample_registrar_def)
       (simp add: new_registrar_def registrar_empty_def rs_is_reserved_def)
qed

lemma sample_reachable:
  "registrar_reachable accepting (sample_registrar, ())" "registrar_reachable accepting (sample_registered, ())"
proof -
  show r: "registrar_reachable accepting (sample_registrar, ())"
    using registrar_reachable.start sample_initialize sample_reserve registrar_reachable.command by metis
  have "registrar_exec accepting (env_at 100 [alice]) (RcRegister ''alice'' alice 1 300000000 100)
      (sample_registrar, ()) = Inr (sample_registered, ())"
    by (simp add: sample_register)
  then show "registrar_reachable accepting (sample_registered, ())"
    using r registrar_reachable.command by metis
qed

section \<open>Registration and renewal\<close>

lemma quote_record_active:
  assumes "rs_registrations s (l @ ''.xlm'') = Some r" and "t \<le> rr_expires_at r" and "valid_label l"
    and "\<not> rs_is_reserved s l"
  shows "registration_status_of s l t = RsActive"
  using assms by (simp add: registration_status_of_def label_builds)

text \<open>C6: a registration grants exactly what was quoted: when \<open>register\<close> succeeds, \<open>quote_registration\<close> for the
  same label, years and clock gave a quote whose fee is at most the caller's maximum, the name was available and not reserved, and the
  owner signed; the record filed carries the quoted fee, expiry and end of grace, the
  treasury grows by exactly the quoted fee, the label's status becomes active, and no other name's record
  changes.\<close>

theorem register_grants_quote:
  assumes "registrar_register call e label owner years max_price t (s, w) = Inr (s', w')"
  obtains q where "quote_registration s label years t = Inr q"
    "rq_fee_stroops q \<le> max_price" "is_available s label t" "\<not> rs_is_reserved s label" "require_auth e owner"
    "registrar_registration s' (label @ ''.xlm'') = Some (quoted_record s (label @ ''.xlm'') owner q t)"
    "treasury_balance s' = sat_add (treasury_balance s) (rq_fee_stroops q)"
    "registration_status_of s' label t = RsActive"
    "\<And>n. n \<noteq> label @ ''.xlm'' \<Longrightarrow> registrar_registration s' n = registrar_registration s n"
proof -
  let ?q = "build_quote s label years t"
  from assms have facts: "require_auth e owner" "valid_label label" "1 \<le> years" "years \<le> 10"
    "\<not> rs_is_reserved s label" "rq_fee_stroops ?q \<le> max_price" "is_available s label t"
    and s': "s' = registered s label owner ?q t"
    by (auto simp: registrar_register_iff)
  have "registration_status_of s' label t = RsActive"
    by (rule quote_record_active [where r = "quoted_record s (label @ ''.xlm'') owner ?q t"])
       (use facts quote_times(1) in \<open>simp_all add: s' rs_is_reserved_def\<close>)
  then show ?thesis
    using that [of ?q] facts
    by (simp add: s' quote_iff registrar_registration_def treasury_balance_def)
qed

theorem register_grants_quote_witness:
  "\<exists>q. quote_registration sample_registrar ''alice'' 1 100 = Inr q
     \<and> treasury_balance sample_registered = rq_fee_stroops q \<and> rq_fee_stroops q = 250000000
     \<and> registration_status_of sample_registered ''alice'' 100 = RsActive"
proof (rule register_grants_quote [OF sample_register], goal_cases)
  case (1 q)
  then have "q = alice_quote" by (simp add: quote_iff alice_quote_def)
  with 1 show ?case by (simp add: treasury_balance_def sat_add_def)
qed

text \<open>C7: a renewal keeps its quote: when \<open>renew\<close> succeeds, \<open>quote_renewal\<close> at the same clock gave a quote,
  the payment covers its fee, the new expiry and end of grace are the quoted ones, and the whole payment, not only the
  fee, goes to the treasury. The new expiry lies exactly the paid number of years, from one to ten of 31536000 seconds each,
  after the later of the old expiry and the clock, and the grace period the registrar grants after that (both at most the largest \<open>u64\<close>).\<close>

theorem renew_keeps_quote:
  assumes "registrar_renew call e name caller years payment t (s, w) = Inr (s', w')"
    and "rs_registrations s name = Some r"
  obtains q r' where "quote_renewal s name years t = Inr q" "nq_fee_stroops q \<le> payment"
    "registrar_registration s' name = Some r'" "rr_expires_at r' = nq_extended_expiry_unix q"
    "rr_grace_period_ends_at r' = nq_grace_period_ends_at q" "rr_owner r' = caller" "rr_owner r = caller"
    "rr_expires_at r \<le> rr_expires_at r'" "t \<le> rr_expires_at r'" "1 \<le> years" "years \<le> 10"
    "unat (rr_expires_at r') = min (max (unat (rr_expires_at r)) (unat t) + 31536000 * unat years) (2 ^ 64 - 1)"
    "unat (rr_grace_period_ends_at r') = min (unat (rr_expires_at r') + unat (get_grace_period_seconds s)) (2 ^ 64 - 1)"
    "treasury_balance s' = sat_add (treasury_balance s) payment"
proof -
  from assms obtain label where facts: "1 \<le> years" "years \<le> 10" "extract_label_soroban name = Inr label"
    "rr_owner r = caller" "sat_mul (price_for_label_length (length label)) years \<le> payment"
    and s': "s' = renewed RrRenewed s name r (expiry_from_now (renewal_base r t) years) payment t"
    by (auto simp: registrar_renew_iff)
  have years: "validate_registration_years_soroban years = Inr ()"
    using facts(1,2) years_valid_iff [of years] by blast
  have "rr_expires_at r \<le> expiry_from_now (renewal_base r t) years" "t \<le> expiry_from_now (renewal_base r t) years"
    using renewal_base_ge(1) [of r t] renewal_base_ge(2) [of t r] expiry_from_now_ge [of "renewal_base r t" years] by simp_all
  moreover have "unat (expiry_from_now (renewal_base r t) years) =
      min (max (unat (rr_expires_at r)) (unat t) + 31536000 * unat years) (2 ^ 64 - 1)"
    unfolding unat_expiry_from_now unat_renewal_base by simp
  moreover have "unat (compute_grace_period_ends_at s x) = min (unat x + unat (get_grace_period_seconds s)) (2 ^ 64 - 1)" for x
    by (simp add: compute_grace_period_ends_at_def grace_period_ends_at_with_duration_def unat_sat_add)
  moreover have "quote_renewal s name years t = Inr \<lparr>
      nq_fee_stroops = sat_mul (price_for_label_length (length label)) years,
      nq_current_expiry_unix = rr_expires_at r,
      nq_extended_expiry_unix = expiry_from_now (renewal_base r t) years,
      nq_grace_period_ends_at = compute_grace_period_ends_at s (expiry_from_now (renewal_base r t) years),
      nq_pricing = \<lparr>pb_annual_fee_stroops = price_for_label_length (length label), pb_duration_years = years,
                    pb_premium_stroops = 0\<rparr>\<rparr>"
    using facts(3) years assms(2) by (simp add: quote_renewal_def Let_def)
  ultimately show ?thesis
    using that facts(1,2,4,5) by (simp add: s' registrar_registration_def treasury_balance_def)
qed

definition sample_renewed :: registrar where
  "sample_renewed = renewed RrRenewed sample_registered ''alice.xlm''
     (quoted_record sample_registrar ''alice.xlm'' alice alice_quote 100) 63072100 250000000 200"

lemma sample_renew:
  "registrar_renew accepting (env_at 200 [alice]) ''alice.xlm'' alice 1 250000000 200 (sample_registered, ()) =
     Inr (sample_renewed, ())"
proof -
  have "extract_label_soroban ''alice.xlm'' = Inr ''alice''"
    using extract_of_built [OF alice_label(1)] by simp
  moreover have "renewal_base (quoted_record s n a alice_quote 100) 200 = 31536100" for s n a
    by (simp add: renewal_base_def)
  moreover have "expiry_from_now 31536100 1 = 63072100"
    by (simp add: expiry_from_now_def YEAR_SECONDS_def sat_mul_def sat_add_def)
  ultimately show ?thesis
    unfolding registrar_renew_iff
    by (simp add: sample_registered_def sample_renewed_def price_for_label_length_def sat_mul_def
        renewal_call_def accepting_def)
qed

theorem renew_keeps_quote_witness:
  "\<exists>r'. registrar_registration sample_renewed ''alice.xlm'' = Some r' \<and> rr_expires_at r' \<ge> 31536100"
proof (rule renew_keeps_quote [OF sample_renew])
  show "rs_registrations sample_registered ''alice.xlm'' =
      Some (quoted_record sample_registrar ''alice.xlm'' alice alice_quote 100)"
    by (simp add: sample_registered_def)
qed auto

section \<open>The books\<close>

text \<open>C8: the books balance: in every reachable state the treasury is the sum of all payments in the event
  log (or the largest \<open>u64\<close> when the sum does not fit), the registration and renewal counters are the numbers
  of such events (saturating likewise), and every record is filed under its own valid \<open>.xlm\<close> name with
  registration \<open>\<le>\<close> expiry \<open>\<le>\<close> end of grace.\<close>

theorem registrar_books_balance:
  assumes "registrar_reachable call (s, w)"
  shows "unat (rm_treasury_balance (accounting_report s)) =
      min (sum_list (map event_payment (rs_events s))) (2 ^ 64 - 1)
    \<and> unat (rm_total_registrations (accounting_report s)) =
      min (length (filter is_registration (rs_events s))) (2 ^ 64 - 1)
    \<and> unat (rm_total_renewals (accounting_report s)) =
      min (length (filter is_renewal (rs_events s))) (2 ^ 64 - 1)
    \<and> (registrar_registration s n = Some r \<longrightarrow> record_ok n r)"
  using registrar_reachable_inv [OF assms]
  by (simp_all add: registrar_inv_def books_balanced_def accounting_report_def registrar_registration_def)

theorem registrar_books_balance_witness:
  "unat (rm_treasury_balance (accounting_report sample_registered)) = 250000000
   \<and> unat (rm_total_registrations (accounting_report sample_registered)) = 1
   \<and> record_ok ''alice.xlm'' (quoted_record sample_registrar ''alice.xlm'' alice alice_quote 100)"
proof -
  have "map event_payment (rs_events sample_registered) = [0, 250000000]"
    "length (filter is_registration (rs_events sample_registered)) = 1"
    by (simp_all add: sample_registered_def sample_registrar_def new_registrar_def registrar_empty_def rs_emit_def)
  then show ?thesis
    using registrar_books_balance [OF sample_reachable(2), of "''alice.xlm''"]
    by (simp add: registrar_registration_def sample_registered_def)
qed

text \<open>A registration only ever gets longer, and changes hands only after its grace period: a
  successful command leaves every existing record in place with an expiry no earlier than before, and with the
  same owner unless it is a \<open>register\<close> whose clock lies after the old record's grace period.\<close>

theorem registration_only_extended:
  assumes reach: "registrar_reachable call (s, w)"
    and exec: "registrar_exec call e cmd (s, w) = Inr (s', w')"
    and r: "registrar_registration s n = Some r"
  shows "\<exists>r'. registrar_registration s' n = Some r' \<and> rr_expires_at r \<le> rr_expires_at r'
    \<and> (rr_owner r' = rr_owner r
       \<or> (\<exists>l a y m t. cmd = RcRegister l a y m t \<and> rr_grace_period_ends_at r < t \<and> require_auth e a))"
proof -
  note r = r [unfolded registrar_registration_def]
  have ok: "rr_expires_at r \<le> rr_grace_period_ends_at r" "\<exists>l. valid_label l \<and> n = l @ ''.xlm''"
    using registrar_reachable_inv [OF reach] r by (auto simp: registrar_inv_def record_ok_def)
  show ?thesis
    unfolding registrar_registration_def
  proof (cases cmd)
    case (RcRegister l a y m t)
    with exec have s': "s' = registered s l a (build_quote s l y t) t" and "require_auth e a"
      and free: "valid_label l" "is_available s l t" by (auto simp: registrar_register_iff)
    show "\<exists>r'. rs_registrations s' n = Some r' \<and> rr_expires_at r \<le> rr_expires_at r'
      \<and> (rr_owner r' = rr_owner r \<or> (\<exists>l a y m t. cmd = RcRegister l a y m t \<and> rr_grace_period_ends_at r < t
          \<and> require_auth e a))"
    proof (cases "n = l @ ''.xlm''")
      case True
      with free r have "rr_grace_period_ends_at r < t" by (simp add: available_iff)
      moreover have "rr_expires_at r \<le> rq_expiry_unix (build_quote s l y t)"
        using calculation ok(1) quote_times(1) [where t = t and s = s and l = l and y = y] by simp
      ultimately show ?thesis using True RcRegister \<open>require_auth e a\<close> by (auto simp: s')
    qed (simp add: s' r)
  next
    case (RcRenew m a y p t)
    have "rr_expires_at v \<le> expiry_from_now (renewal_base v t) y" for v
      using renewal_base_ge(1) [of v t] expiry_from_now_ge [of "renewal_base v t" y] by simp
    then show "\<exists>r'. rs_registrations s' n = Some r' \<and> rr_expires_at r \<le> rr_expires_at r'
      \<and> (rr_owner r' = rr_owner r \<or> (\<exists>l a y m t. cmd = RcRegister l a y m t \<and> rr_grace_period_ends_at r < t
          \<and> require_auth e a))"
      using RcRenew exec r by (auto simp: registrar_renew_iff)
  next
    case (RcExtend m a y p t)
    have "rr_expires_at v < t \<Longrightarrow> rr_expires_at v \<le> expiry_from_now t y" for v
      using expiry_from_now_ge [of t y] by simp
    then show "\<exists>r'. rs_registrations s' n = Some r' \<and> rr_expires_at r \<le> rr_expires_at r'
      \<and> (rr_owner r' = rr_owner r \<or> (\<exists>l a y m t. cmd = RcRegister l a y m t \<and> rr_grace_period_ends_at r < t
          \<and> require_auth e a))"
      using RcExtend exec r by (auto simp: extend_during_grace_iff)
  qed (use registrar_exec_books [OF exec] r in \<open>simp_all add: same_books_def\<close>)
qed

theorem registration_only_extended_witness:
  "\<exists>r'. registrar_registration sample_renewed ''alice.xlm'' = Some r' \<and> 31536100 \<le> rr_expires_at r' \<and> rr_owner r' = alice"
  using registration_only_extended [OF sample_reachable(2), where e = "env_at 200 [alice]"
      and cmd = "RcRenew ''alice.xlm'' alice 1 250000000 200" and s' = sample_renewed and w' = "()" and n = "''alice.xlm''"
      and r = "quoted_record sample_registrar ''alice.xlm'' alice alice_quote 100"]
  unfolding registrar_exec.simps sample_renew
  by (simp add: registrar_registration_def) (simp add: sample_registered_def)

section \<open>Reserved labels, availability, rate limits, governance\<close>

lemma load_labels_keeps: "rs_is_reserved s l \<Longrightarrow> rs_is_reserved (snd (load_labels ls (n, s))) l"
proof (induction ls arbitrary: n s)
  case (Cons a ls)
  then show ?case
    by (auto simp: rs_is_reserved_def rs_emit_def split: sum.split option.splits)
qed simp

text \<open>Reserved labels are out of reach: while a label is reserved no \<open>register\<close> of it succeeds, whoever signs
  and whatever is paid, no command of the registrar ever lifts the reservation, and its status
  is \<open>Reserved\<close>; yet \<open>is_available\<close> does not look at the reservation and says yes for a reserved label that was never
  registered.\<close>

theorem reserved_label_blocked:
  assumes "rs_is_reserved s label"
  shows "registrar_register call e label owner years max_price t (s, w) \<noteq> Inr (s', w')
    \<and> (registrar_exec call e' cmd (s, v) = Inr (s'', v'') \<longrightarrow> rs_is_reserved s'' label)
    \<and> registration_status_of s label t = RsReserved
    \<and> (valid_label label \<and> registrar_registration s (label @ ''.xlm'') = None \<longrightarrow> is_available s label t)"
proof (intro conjI impI)
  show "registrar_register call e label owner years max_price t (s, w) \<noteq> Inr (s', w')"
    using assms by (simp add: registrar_register_iff)
  show "registration_status_of s label t = RsReserved"
    using assms by (simp add: registration_status_of_def)
  show "valid_label label \<and> registrar_registration s (label @ ''.xlm'') = None \<Longrightarrow> is_available s label t"
    by (simp add: available_iff registrar_registration_def)
  show "rs_is_reserved s'' label" if exec: "registrar_exec call e' cmd (s, v) = Inr (s'', v'')"
  proof (cases cmd)
    case (RcLoadManifest ls)
    with exec assms load_labels_keeps [of s label ls 0] show ?thesis
      by (auto simp: load_reserved_manifest_def bind_Inr_iff rs_as_admin_iff split: prod.split_asm)
  qed (use exec assms in \<open>auto simp: rs_is_reserved_def registrar_register_iff registrar_renew_iff
      extend_during_grace_iff registrar_initialize_def registrar_upgrade_def rs_as_admin_iff reserve_label_def
      set_rate_limit_config_def set_grace_period_def whitelist_address_def remove_whitelist_address_def
      rs_emit_def bind_Inr_iff Let_def split: outcome_splits\<close>)
qed

theorem reserved_label_blocked_witness:
  "(\<forall>s'. registrar_register accepting (env_at 100 [bob]) ''bank'' bob 1 (- 1) 100 (sample_registrar, ()) \<noteq> Inr (s', ()))
   \<and> is_available sample_registrar ''bank'' 100 \<and> rs_is_reserved sample_registered ''bank''"
proof (intro conjI allI)
  show "registrar_register accepting (env_at 100 [bob]) ''bank'' bob 1 (- 1) 100 (sample_registrar, ()) \<noteq> Inr (s', ())"
    for s'
    by (rule reserved_label_blocked [THEN conjunct1]) simp
  show "is_available sample_registrar ''bank'' 100"
    by (rule reserved_label_blocked [THEN conjunct2, THEN conjunct2, THEN conjunct2, THEN mp])
      (simp_all add: registrar_registration_def alice_label)
  show "rs_is_reserved sample_registered ''bank''"
    using reserved_label_blocked [where s = sample_registrar and call = accepting and e' = "env_at 100 [alice]"
        and cmd = "RcRegister ''alice'' alice 1 300000000 100" and v = "()" and v'' = "()" and label = "''bank''",
        THEN conjunct2, THEN conjunct1, THEN mp]
    by (simp add: sample_register)
qed

text \<open>C10: the status and the availability of a name agree: for a well-formed label in a reachable state,
  \<open>registration_status\<close> is \<open>Unavailable\<close> or \<open>Claimable\<close> exactly when \<open>is_available\<close> holds and the label is not reserved; so
  \<open>Unavailable\<close> is the status of a name that can be registered at once.\<close>

theorem status_agrees_with_availability:
  assumes "registrar_reachable call (s, w)" and "valid_label label"
  shows "registration_status_of s label t \<in> {RsUnavailable, RsClaimable}
     \<longleftrightarrow> is_available s label t \<and> \<not> rs_is_reserved s label"
proof -
  have "rr_expires_at r \<le> rr_grace_period_ends_at r" if "rs_registrations s (label @ ''.xlm'') = Some r" for r
    using registrar_reachable_inv [OF assms(1)] that by (simp add: registrar_inv_def record_ok_def)
  then show ?thesis
    using assms(2) by (auto simp: registration_status_of_def available_iff label_builds split: option.split)
qed

theorem status_agrees_with_availability_witness:
  "registration_status_of sample_registered ''alice'' 100 \<notin> {RsUnavailable, RsClaimable}
   \<and> registration_status_of sample_registrar ''alice'' 100 = RsUnavailable"
  using status_agrees_with_availability [OF sample_reachable(2) alice_label(1), of 100] alice_label(1)
  by (simp add: available_iff registration_status_of_def label_builds) (simp add: sample_registered_def available_iff)

text \<open>The rate limit counts one second only: the counter that \<open>register\<close> checks at clock \<open>t\<close> is not touched by
  a registration recorded at any other clock \<open>u\<close>, once both lie past the first window; so an address that never
  registers twice at the same clock value is never limited, however many names it takes per window.\<close>

theorem rate_limit_counts_one_second:
  assumes "t \<noteq> u" and "rl_window_size_seconds (get_rate_limit_config s) \<le> t"
    and "rl_window_size_seconds (get_rate_limit_config s) \<le> u"
  shows "get_registrations_in_window (record_registration s a u) a t = get_registrations_in_window s a t
    \<and> check_rate_limit (record_registration s a u) a t = check_rate_limit s a t"
proof -
  have "sat_sub t (rl_window_size_seconds (get_rate_limit_config s)) \<noteq>
      sat_sub u (rl_window_size_seconds (get_rate_limit_config s))"
    using assms by (simp add: sat_sub_def)
  moreover have "get_rate_limit_config (record_registration s a u) = get_rate_limit_config s"
    "is_whitelisted (record_registration s a u) = is_whitelisted s"
    by (simp_all add: get_rate_limit_config_def is_whitelisted_def fun_eq_iff record_registration_def Let_def)
  ultimately show ?thesis
    by (simp add: get_registrations_in_window_def check_rate_limit_def Let_def)
       (simp add: record_registration_def Let_def)
qed

text \<open>Six registrations by alice, one second apart, all within one day.\<close>

definition busy_registrar :: registrar where
  "busy_registrar = fold (\<lambda>t s. record_registration s alice t) [100000, 100001, 100002, 100003, 100004, 100005]
     new_registrar"

lemma busy_window: "rl_window_size_seconds (get_rate_limit_config busy_registrar) = 86400"
  by (simp add: new_registrar_def DEFAULT_RATE_LIMIT_WINDOW_SECONDS_def busy_registrar_def get_rate_limit_config_def record_registration_def Let_def)

theorem rate_limit_counts_one_second_witness:
  "check_rate_limit (record_registration busy_registrar alice 100006) alice 100007 =
     check_rate_limit busy_registrar alice 100007"
  by (rule rate_limit_counts_one_second [THEN conjunct2])
     (simp_all add: busy_window)

text \<open>What governance decides: reserved labels, rate limit, grace period, whitelist, administrator, registry, code.\<close>

definition governed :: "registrar \<Rightarrow> (string \<Rightarrow> bool option) \<times> rate_limit_config option \<times> u64 option
    \<times> (address \<Rightarrow> bool option) \<times> address option \<times> address option \<times> u8 list option" where
  "governed s = (rs_reserved s, rs_rate_limit_config s, rs_grace_period_seconds s, rs_whitelisted s,
     rs_admin s, rs_registry s, rs_wasm s)"

text \<open>The fee policy, the reserved list, the whitelist and the grace period are governance's: a command that
  changes the reserved labels, the rate limit, the grace period, the whitelist, the administrator or the code of an
  initialized registrar succeeds only with the administrator's authorization.\<close>

theorem governance_needs_admin:
  assumes exec: "registrar_exec call e cmd (s, w) = Inr (s', w')"
    and "rs_registry s \<noteq> None" and "governed s' \<noteq> governed s"
  shows "\<exists>admin. rs_admin s = Some admin \<and> require_auth e admin"
proof (cases cmd)
  case (RcRegister l a y m t)
  with exec assms(3) show ?thesis
    by (simp add: registrar_register_iff governed_def registered_def booked_def credit_treasury_def
        record_registration_def rs_emit_def Let_def)
next
  case (RcRenew n a y p t)
  with exec assms(3) show ?thesis
    by (auto simp: registrar_renew_iff governed_def renewed_def credit_treasury_def rs_emit_def Let_def)
next
  case (RcExtend n a y p t)
  with exec assms(3) show ?thesis
    by (auto simp: extend_during_grace_iff governed_def renewed_def credit_treasury_def rs_emit_def Let_def)
qed (use assms in \<open>auto simp: rs_as_admin_iff reserve_label_def set_rate_limit_config_def set_grace_period_def
      whitelist_address_def remove_whitelist_address_def load_reserved_manifest_def registrar_initialize_def
      registrar_upgrade_def bind_Inr_iff Let_def split: outcome_splits\<close>)

theorem governance_needs_admin_witness:
  "\<exists>admin. rs_admin new_registrar = Some admin \<and> require_auth (env_at 1 [carol]) admin"
  by (rule governance_needs_admin [OF sample_reserve])
     (auto simp: new_registrar_def sample_registrar_def governed_def rs_emit_def registrar_empty_def fun_eq_iff)

end
