(* ===== verification/Resolver_Proofs.thy ===== *)
theory Resolver_Proofs
  imports Resolver
begin

text \<open>
  The resolver as a state machine: what each successful command does, the invariant of the
  records and of the two reverse indexes, and the specification of the fallback search.
\<close>

section \<open>Maps\<close>

lemma map_get_set [simp]: "map_get (map_set m k v) k' = (if k' = k then Some v else map_get m k')"
  by (simp add: map_get_def map_set_def update_conv)

lemma map_get_empty [simp]: "map_get [] k = None"
  by (simp add: map_get_def)

lemma distinct_map_set [simp]: "distinct (map fst m) \<Longrightarrow> distinct (map fst (map_set m k v))"
  by (simp add: map_set_def distinct_update)

lemma map_get_None: "map_get m k = None \<longleftrightarrow> k \<notin> fst ` set m"
  by (simp add: map_get_def map_of_eq_None_iff)

lemma length_map_set: "length (map_set m k v) = (if map_get m k = None then Suc (length m) else length m)"
  by (induction m) (auto simp: map_set_def map_get_def)

lemma in_map_set: "(k', v') \<in> set (map_set m k v) \<Longrightarrow> (k' = k \<and> v' = v) \<or> (k', v') \<in> set m"
  by (induction m) (auto simp: map_set_def split: if_splits)

abbreviation stellar :: "resolution_record \<Rightarrow> string option" where
  "stellar r \<equiv> map_get (rec_addresses r) DEFAULT_CHAIN"

section \<open>The invariant\<close>

definition text_ok :: "string_map \<Rightarrow> bool" where
  "text_ok m \<longleftrightarrow> distinct (map fst m) \<and> length m \<le> 16
     \<and> (\<forall>(k, v) \<in> set m. validate_text_record_key k \<and> length v \<le> 256)"

definition record_wf :: "string \<Rightarrow> resolution_record \<Rightarrow> bool" where
  "record_wf n r \<longleftrightarrow> validate_fqdn_soroban n = Inr () \<and> distinct (map fst (rec_addresses r))
     \<and> text_ok (rec_text_records r)"

text \<open>An index of names by address points only to names that have that address.\<close>

definition links_ok :: "(string \<Rightarrow> resolution_record option) \<Rightarrow> (string \<Rightarrow> string option) \<Rightarrow> bool" where
  "links_ok fwd idx \<longleftrightarrow> (\<forall>a n. idx a = Some n \<longrightarrow> (\<exists>r. fwd n = Some r \<and> stellar r = Some a))"

definition resolver_inv :: "resolver \<Rightarrow> bool" where
  "resolver_inv s \<longleftrightarrow> (\<forall>n r. rv_forward s n = Some r \<longrightarrow> record_wf n r)
     \<and> links_ok (rv_forward s) (rv_reverse s) \<and> links_ok (rv_forward s) (rv_primary s)"

lemma resolver_inv_empty: "resolver_inv resolver_empty"
  by (simp add: resolver_inv_def resolver_empty_def links_ok_def)

lemma text_ok_empty [simp]: "text_ok []"
  by (simp add: text_ok_def)

lemma text_ok_set:
  assumes "text_ok m" and "validate_text_record_key k" and "length v \<le> 256"
    and "map_get m k = None \<Longrightarrow> length m < 16"
  shows "text_ok (map_set m k v)"
  using assms by (auto simp: text_ok_def length_map_set dest!: in_map_set)

lemma links_okD: "links_ok F idx \<Longrightarrow> idx a = Some n \<Longrightarrow> \<exists>r. F n = Some r \<and> stellar r = Some a"
  by (simp add: links_ok_def)

lemma links_okI: "(\<And>a n. idx a = Some n \<Longrightarrow> \<exists>r. F n = Some r \<and> stellar r = Some a) \<Longrightarrow> links_ok F idx"
  by (simp add: links_ok_def)

lemma links_same:
  assumes "links_ok (F(n \<mapsto> r)) idx" and "stellar r' = stellar r"
  shows "links_ok (F(n \<mapsto> r')) idx"
  by (rule links_okI) (use assms in \<open>auto dest!: links_okD split: if_splits\<close>)

lemma links_sub:
  assumes "links_ok F idx" and "\<And>a m. idx' a = Some m \<Longrightarrow> idx a = Some m"
  shows "links_ok F idx'"
  using assms unfolding links_ok_def by blast

lemma links_fresh:
  assumes "links_ok F idx" and "F n = None"
  shows "links_ok (F(n \<mapsto> r)) idx"
  using assms unfolding links_ok_def by fastforce

lemma links_point: "links_ok (F(n \<mapsto> r)) idx \<Longrightarrow> stellar r = Some a \<Longrightarrow> links_ok (F(n \<mapsto> r)) (idx(a \<mapsto> n))"
  by (auto simp: links_ok_def)

lemma links_remove:
  assumes "links_ok F idx" and "F n = Some r"
  shows "links_ok (F(n := None)) (case stellar r of None \<Rightarrow> idx | Some a \<Rightarrow> idx(a := None))"
  by (rule links_okI) (use assms in \<open>auto dest!: links_okD split: option.splits if_splits\<close>)

text \<open>The step that moves a name from its old default-chain address to a new one.\<close>

lemma drop_frames [simp]:
  "rv_forward (drop_old_address m a s) = rv_forward s" "rv_wildcard (drop_old_address m a s) = rv_wildcard s"
  "rv_registry (drop_old_address m a s) = rv_registry s"
  "rv_subdomain_contract (drop_old_address m a s) = rv_subdomain_contract s"
  by (simp_all add: drop_old_address_def split: option.split)

lemma small_frames [simp]:
  "rv_forward (rv_emit ev s) = rv_forward s" "rv_reverse (rv_emit ev s) = rv_reverse s"
  "rv_primary (rv_emit ev s) = rv_primary s" "rv_wildcard (rv_emit ev s) = rv_wildcard s"
  "rv_registry (rv_emit ev s) = rv_registry s"
  "rv_forward (set_reverse a n s) = rv_forward s" "rv_reverse (set_reverse a n s) = (rv_reverse s)(a \<mapsto> n)"
  "rv_primary (set_reverse a n s) = rv_primary s" "rv_wildcard (set_reverse a n s) = rv_wildcard s"
  "rv_registry (set_reverse a n s) = rv_registry s"
  "rv_forward (rv_put_record s n r) = (rv_forward s)(n \<mapsto> r)" "rv_reverse (rv_put_record s n r) = rv_reverse s"
  "rv_primary (rv_put_record s n r) = rv_primary s" "rv_wildcard (rv_put_record s n r) = rv_wildcard s"
  "rv_registry (rv_put_record s n r) = rv_registry s"
  by (simp_all add: rv_emit_def set_reverse_def rv_put_record_def)

lemma drop_indexes:
  "rv_reverse (drop_old_address m a s) = (case map_get m DEFAULT_CHAIN of None \<Rightarrow> rv_reverse s
     | Some b \<Rightarrow> if b \<noteq> a then (rv_reverse s)(b := None) else rv_reverse s)"
  "rv_primary (drop_old_address m a s) = (case map_get m DEFAULT_CHAIN of None \<Rightarrow> rv_primary s
     | Some b \<Rightarrow> if b \<noteq> a then (rv_primary s)(b := None) else rv_primary s)"
  by (simp_all add: drop_old_address_def split: option.split)

lemma links_drop:
  assumes "links_ok (F(n \<mapsto> r)) idx" and "stellar r' = Some a"
  shows "links_ok (F(n \<mapsto> r')) (case stellar r of None \<Rightarrow> idx | Some b \<Rightarrow> if b \<noteq> a then idx(b := None) else idx)"
  by (rule links_okI) (use assms in \<open>auto dest!: links_okD split: option.splits if_splits\<close>)

lemma drop_links:
  assumes "links_ok (F(n \<mapsto> r)) (rv_reverse s)" and "links_ok (F(n \<mapsto> r)) (rv_primary s)"
    and "stellar r' = Some a"
  shows "links_ok (F(n \<mapsto> r')) (rv_reverse (drop_old_address (rec_addresses r) a s))"
    and "links_ok (F(n \<mapsto> r')) (rv_primary (drop_old_address (rec_addresses r) a s))"
  unfolding drop_indexes using assms by (simp_all only: links_drop)

section \<open>Who may write\<close>

text \<open>The owner of a record as the resolver sees it at a clock: the registry's word, if one is configured.\<close>

definition owner_at :: "query \<Rightarrow> env \<Rightarrow> resolver \<Rightarrow> string \<Rightarrow> u64 \<Rightarrow> address \<Rightarrow> bool" where
  "owner_at q e s name t caller \<longleftrightarrow>
     (case rv_registry s of
        None \<Rightarrow> (\<exists>r. rv_forward s name = Some r \<and> rec_owner r = caller)
      | Some registry \<Rightarrow> (\<exists>en. query_resolve q e registry name t = Some en \<and> re_owner en = caller))"

lemma assert_owner_iff:
  "rv_forward s name = Some record \<Longrightarrow>
     assert_owner q e s name record caller t = Inr u \<longleftrightarrow> owner_at q e s name t caller"
  by (auto simp: assert_owner_def registry_owner_def owner_at_def split: option.splits)

lemma rv_get_record_iff: "rv_get_record s name = Inr r \<longleftrightarrow> rv_forward s name = Some r"
  by (auto simp: rv_get_record_def split: option.splits)

section \<open>Commands\<close>

datatype resolver_command =
    VInitialize address address
  | VSetSubdomain address
  | VUpgrade "u8 list" "u8 list"
  | VSetRecord string address string u64
  | VSetAddress string address string string u64
  | VSetText string address string string u64
  | VSetPrimary string address string
  | VRemove string address
  | VClearReverse string address
  | VUpdateOwner string address address
  | VTransferRecord string address address
  | VSetWildcard string address bool u64
  | VReverse string
  | VBatch string address "batch_op list" u64

fun resolver_exec :: "query \<Rightarrow> env \<Rightarrow> resolver_command \<Rightarrow> resolver \<Rightarrow> (resolver_error, resolver) result" where
  "resolver_exec q e (VInitialize r a) s = resolver_initialize r a s"
| "resolver_exec q e (VSetSubdomain a) s = set_subdomain_contract e a s"
| "resolver_exec q e (VUpgrade h d) s = resolver_upgrade e h d s"
| "resolver_exec q e (VSetRecord n c a t) s = set_record q e n c a t s"
| "resolver_exec q e (VSetAddress n c ch a t) s = set_address q e n c ch a t s"
| "resolver_exec q e (VSetText n c k v t) s = set_text_record q e n c k v t s"
| "resolver_exec q e (VSetPrimary a c n) s = set_primary_name q e a c n s"
| "resolver_exec q e (VRemove n c) s = remove_record q e n c s"
| "resolver_exec q e (VClearReverse n a) s = clear_reverse_record e n a s"
| "resolver_exec q e (VUpdateOwner n c b) s = resolver_update_owner q e n c b s"
| "resolver_exec q e (VTransferRecord n c b) s = transfer_record_owner e n c b s"
| "resolver_exec q e (VSetWildcard n c b t) s = set_wildcard_resolution q e n c b t s"
| "resolver_exec q e (VReverse a) s = Inr (snd (resolver_reverse q e a s))"
| "resolver_exec q e (VBatch n c ops t) s =
     (case batch_set q e n c ops t s of Inl err \<Rightarrow> Inl err | Inr (k, s') \<Rightarrow> Inr s')"

text \<open>Every step may see another environment and another state of the registry.\<close>

inductive resolver_reachable :: "resolver \<Rightarrow> bool" where
  start: "resolver_reachable resolver_empty"
| command: "resolver_reachable s \<Longrightarrow> resolver_exec q e cmd s = Inr s' \<Longrightarrow> resolver_reachable s'"

section \<open>What a successful command does\<close>

lemma set_record_cases:
  assumes "set_record q e n owner a t s = Inr s'"
  obtains s1 old texts where "require_auth e owner" "validate_fqdn_soroban n = Inr ()"
    "rv_forward s n \<noteq> None \<or> rv_registry s \<noteq> None \<Longrightarrow> owner_at q e s n t owner"
    "(rv_forward s n = None \<and> s1 = s \<and> old = [] \<and> texts = [])
     \<or> (\<exists>r. rv_forward s n = Some r \<and> s1 = drop_old_address (rec_addresses r) a s
          \<and> old = rec_addresses r \<and> texts = rec_text_records r)"
    "s' = rv_emit (ReverseSet a n) (rv_emit (ForwardSet n a DEFAULT_CHAIN t) (set_reverse a n
       (rv_put_record s1 n \<lparr>rec_owner = owner, rec_addresses = map_set old DEFAULT_CHAIN a,
          rec_text_records = texts, rec_updated_at = t, rec_is_wildcard = False\<rparr>)))"
proof (cases "rv_forward s n")
  case None
  with assms that [of s "[]" "[]"] show ?thesis
    by (auto simp: set_record_def registry_owner_def owner_at_def Let_def bind_Inr_iff split: outcome_splits)
next
  case (Some r)
  with assms that [of "drop_old_address (rec_addresses r) a s" "rec_addresses r" "rec_text_records r"] show ?thesis
    by (auto simp: set_record_def registry_owner_def owner_at_def Let_def bind_Inr_iff split: outcome_splits)
qed

lemma edit_record_cases:
  shows "set_address q e n c ch a t s = Inr s' \<Longrightarrow> \<exists>r. require_auth e c \<and> rv_forward s n = Some r
      \<and> owner_at q e s n t c
      \<and> s' = rv_emit (ForwardSet n a ch t) (rv_put_record
           (if ch = DEFAULT_CHAIN then rv_emit (ReverseSet a n) (set_reverse a n (drop_old_address (rec_addresses r) a s))
            else s) n (r\<lparr>rec_addresses := map_set (rec_addresses r) ch a, rec_updated_at := t\<rparr>))"
    and "set_text_record q e n c k v t s = Inr s' \<Longrightarrow> \<exists>r. require_auth e c \<and> rv_forward s n = Some r
      \<and> owner_at q e s n t c \<and> validate_text_record_key k \<and> length v \<le> 256
      \<and> (map_get (rec_text_records r) k = None \<longrightarrow> length (rec_text_records r) < 16)
      \<and> s' = rv_emit (TextSet n k v t) (rv_put_record s n
           (r\<lparr>rec_text_records := map_set (rec_text_records r) k v, rec_updated_at := t\<rparr>))"
    and "set_primary_name q e a c n s = Inr s' \<Longrightarrow> \<exists>r. require_auth e c \<and> rv_forward s n = Some r
      \<and> owner_at q e s n 0 c \<and> stellar r = Some a
      \<and> s' = rv_emit (PrimarySet a n) (s\<lparr>rv_primary := (rv_primary s)(a \<mapsto> n)\<rparr>)"
    and "resolver_update_owner q e n c b s = Inr s' \<Longrightarrow> \<exists>r. require_auth e c \<and> rv_forward s n = Some r
      \<and> owner_at q e s n 0 c \<and> s' = rv_put_record s n (r\<lparr>rec_owner := b\<rparr>)"
    and "transfer_record_owner e n c b s = Inr s' \<Longrightarrow> \<exists>r. require_auth e c \<and> rv_forward s n = Some r
      \<and> rec_owner r = c \<and> s' = rv_put_record s n (r\<lparr>rec_owner := b\<rparr>)"
    and "set_wildcard_resolution q e n c on t s = Inr s' \<Longrightarrow> \<exists>r. rv_forward s n = Some r
      \<and> owner_at q e s n t c \<and> s' = s\<lparr>rv_wildcard := (rv_wildcard s)(n \<mapsto> on)\<rparr>"
  by (auto simp: set_address_def set_text_record_def set_primary_name_def resolver_update_owner_def
      transfer_record_owner_def set_wildcard_resolution_def bind_Inr_iff guard_Inr_iff rv_get_record_iff
      assert_owner_iff not_le not_less length_constants Let_def split: option.splits)

lemma remove_cases:
  assumes "remove_record q e n c s = Inr s'"
  obtains r where "require_auth e c" "rv_forward s n = Some r" "owner_at q e s n 0 c"
    "rv_forward s' = (rv_forward s)(n := None)" "rv_wildcard s' = (rv_wildcard s)(n := None)"
    "rv_reverse s' = (case stellar r of None \<Rightarrow> rv_reverse s | Some a \<Rightarrow> (rv_reverse s)(a := None))"
    "rv_primary s' = (case stellar r of None \<Rightarrow> rv_primary s | Some a \<Rightarrow> (rv_primary s)(a := None))"
    "rv_registry s' = rv_registry s"
proof -
  from assms obtain r where "require_auth e c" and r: "rv_forward s n = Some r" and "owner_at q e s n 0 c"
    by (auto simp: remove_record_def bind_Inr_iff guard_Inr_iff rv_get_record_iff assert_owner_iff Let_def)
  with assms that [of r] show ?thesis
    by (cases "stellar r")
       (auto simp: remove_record_def bind_Inr_iff guard_Inr_iff rv_get_record_def Let_def)
qed

lemma batch_cases:
  assumes "batch_set q e n c ops t s = Inr (k, s')"
  obtains r r' s1 where "validate_fqdn_soroban n = Inr ()" "require_auth e c" "length ops \<le> 16"
    "rv_forward s n = Some r" "owner_at q e s n t c" "fold (batch_step n t) ops (r, 0, s) = (r', k, s1)"
    "s' = rv_put_record s1 n (r'\<lparr>rec_updated_at := t\<rparr>)"
proof -
  from assms obtain r where r: "rv_forward s n = Some r" and "owner_at q e s n t c"
    "validate_fqdn_soroban n = Inr ()" "require_auth e c" "length ops \<le> 16"
    by (auto simp: batch_set_def bind_Inr_iff guard_Inr_iff rv_get_record_iff assert_owner_iff
        MAX_BATCH_OPS_def not_less)
  with assms that [of r] show ?thesis
    by (cases "fold (batch_step n t) ops (r, 0, s)")
       (auto simp: batch_set_def bind_Inr_iff guard_Inr_iff rv_get_record_def)
qed

section \<open>The invariant is kept\<close>

lemma resolver_invD:
  assumes "resolver_inv s"
  shows "rv_forward s n = Some r \<Longrightarrow> record_wf n r"
    and "links_ok (rv_forward s) (rv_reverse s)" and "links_ok (rv_forward s) (rv_primary s)"
  using assms by (auto simp: resolver_inv_def)

text \<open>A record of a name rewritten, with both indexes adjusted.\<close>

lemma resolver_inv_put:
  assumes inv: "resolver_inv s" and "record_wf n r'"
    and "rv_forward s' = (rv_forward s)(n \<mapsto> r')"
    and "links_ok ((rv_forward s)(n \<mapsto> r')) (rv_reverse s')" "links_ok ((rv_forward s)(n \<mapsto> r')) (rv_primary s')"
  shows "resolver_inv s'"
  using assms by (auto simp: resolver_inv_def)

lemma resolver_inv_same:
  assumes "resolver_inv s" and "rv_forward s' = rv_forward s" and "rv_reverse s' = rv_reverse s"
    and "rv_primary s' = rv_primary s"
  shows "resolver_inv s'"
  using assms by (simp add: resolver_inv_def)

text \<open>Only mappings taken away.\<close>

lemma resolver_inv_fewer:
  assumes "resolver_inv s" and "rv_forward s' = rv_forward s"
    and "\<And>a n. rv_reverse s' a = Some n \<Longrightarrow> rv_reverse s a = Some n"
    and "\<And>a n. rv_primary s' a = Some n \<Longrightarrow> rv_primary s a = Some n"
  shows "resolver_inv s'"
  using assms(1) links_sub [OF resolver_invD(2) [OF assms(1)] assms(3)]
    links_sub [OF resolver_invD(3) [OF assms(1)] assms(4)]
  unfolding resolver_inv_def assms(2) by blast

lemma links_self: "links_ok F idx \<Longrightarrow> F n = Some r \<Longrightarrow> links_ok (F(n \<mapsto> r)) idx"
  by (simp add: fun_upd_idem)

lemma set_record_inv:
  assumes step: "set_record q e n c a t s = Inr s'" and inv: "resolver_inv s"
  shows "resolver_inv s'"
  using step
proof (rule set_record_cases)
  fix s1 old texts
  assume n: "validate_fqdn_soroban n = Inr ()"
    and old: "(rv_forward s n = None \<and> s1 = s \<and> old = [] \<and> texts = [])
     \<or> (\<exists>r. rv_forward s n = Some r \<and> s1 = drop_old_address (rec_addresses r) a s
          \<and> old = rec_addresses r \<and> texts = rec_text_records r)"
    and s': "s' = rv_emit (ReverseSet a n) (rv_emit (ForwardSet n a DEFAULT_CHAIN t) (set_reverse a n
       (rv_put_record s1 n \<lparr>rec_owner = c, rec_addresses = map_set old DEFAULT_CHAIN a,
          rec_text_records = texts, rec_updated_at = t, rec_is_wildcard = False\<rparr>)))"
  let ?r = "\<lparr>rec_owner = c, rec_addresses = map_set old DEFAULT_CHAIN a,
          rec_text_records = texts, rec_updated_at = t, rec_is_wildcard = False\<rparr>"
  have st: "stellar ?r = Some a" by simp
  have "record_wf n ?r" using old n resolver_invD(1) [OF inv] by (auto simp: record_wf_def)
  moreover have "links_ok ((rv_forward s)(n \<mapsto> ?r)) (rv_reverse s1) \<and> links_ok ((rv_forward s)(n \<mapsto> ?r)) (rv_primary s1)"
    using old
  proof (elim disjE conjE exE)
    assume "rv_forward s n = None" "s1 = s"
    then show ?thesis using links_fresh resolver_invD(2,3) [OF inv] by simp
  next
    fix r assume r: "rv_forward s n = Some r" "s1 = drop_old_address (rec_addresses r) a s"
    note old = links_self [OF resolver_invD(2) [OF inv] r(1)] links_self [OF resolver_invD(3) [OF inv] r(1)]
    show ?thesis unfolding r(2) using drop_links [OF old st] by simp
  qed
  ultimately show ?thesis
    using resolver_inv_put [OF inv, of n ?r s'] links_point [OF _ st] old by (auto simp: s')
qed

lemma set_address_inv:
  assumes step: "set_address q e n c ch a t s = Inr s'" and inv: "resolver_inv s"
  shows "resolver_inv s'"
proof -
  from edit_record_cases(1) [OF step] obtain r where r: "rv_forward s n = Some r"
    and s': "s' = rv_emit (ForwardSet n a ch t) (rv_put_record
           (if ch = DEFAULT_CHAIN then rv_emit (ReverseSet a n) (set_reverse a n (drop_old_address (rec_addresses r) a s))
            else s) n (r\<lparr>rec_addresses := map_set (rec_addresses r) ch a, rec_updated_at := t\<rparr>))" by blast
  let ?r = "r\<lparr>rec_addresses := map_set (rec_addresses r) ch a, rec_updated_at := t\<rparr>"
  note old = links_self [OF resolver_invD(2) [OF inv] r] links_self [OF resolver_invD(3) [OF inv] r]
  have wf: "record_wf n ?r" using resolver_invD(1) [OF inv r] by (simp add: record_wf_def)
  show ?thesis
  proof (cases "ch = DEFAULT_CHAIN")
    case True
    then have st: "stellar ?r = Some a" by simp
    show ?thesis
      by (rule resolver_inv_put [OF inv wf])
         (use True st drop_links [OF old st] links_point [OF drop_links(1) [OF old st] st] in \<open>simp_all add: s'\<close>)
  next
    case False
    then have "stellar ?r = stellar r" by simp
    then show ?thesis
      by (intro resolver_inv_put [OF inv wf]) (use False old links_same in \<open>simp_all add: s'\<close>)
  qed
qed

text \<open>The loop of a batch, on the record it works on and the indexes it has written so far.\<close>

lemma batch_step_inv:
  assumes step: "batch_step n t op (r, k, s) = (r', k', s')" and wf: "record_wf n r"
    and links: "links_ok (F(n \<mapsto> r)) (rv_reverse s)" "links_ok (F(n \<mapsto> r)) (rv_primary s)"
  shows "record_wf n r' \<and> links_ok (F(n \<mapsto> r')) (rv_reverse s') \<and> links_ok (F(n \<mapsto> r')) (rv_primary s')
    \<and> rv_forward s' = rv_forward s \<and> rec_owner r' = rec_owner r \<and> rv_wildcard s' = rv_wildcard s"
proof (cases op)
  case (SetAddress a)
  have st: "stellar (r\<lparr>rec_addresses := map_set (rec_addresses r) DEFAULT_CHAIN a\<rparr>) = Some a" by simp
  show ?thesis
    using step SetAddress wf drop_links [OF links st] links_point [OF drop_links(1) [OF links st] st]
    by (auto simp: record_wf_def)
next
  case (SetText k v)
  with step wf show ?thesis
    using links_same [OF links(1), of r'] links_same [OF links(2), of r']
    by (auto simp: record_wf_def length_constants not_le intro!: text_ok_set split: if_splits)
qed

lemma batch_loop_inv:
  assumes "fold (batch_step n t) ops (r, k, s) = (r', k', s')" and "record_wf n r"
    and "links_ok (F(n \<mapsto> r)) (rv_reverse s)" "links_ok (F(n \<mapsto> r)) (rv_primary s)"
  shows "record_wf n r' \<and> links_ok (F(n \<mapsto> r')) (rv_reverse s') \<and> links_ok (F(n \<mapsto> r')) (rv_primary s')
    \<and> rv_forward s' = rv_forward s \<and> rec_owner r' = rec_owner r \<and> rv_wildcard s' = rv_wildcard s"
  using assms
proof (induction ops arbitrary: r k s)
  case (Cons op ops)
  obtain r1 k1 s1 where one: "batch_step n t op (r, k, s) = (r1, k1, s1)" by (cases "batch_step n t op (r, k, s)")
  note s1 = batch_step_inv [OF one Cons.prems(2-4)]
  from Cons.prems(1) one have "fold (batch_step n t) ops (r1, k1, s1) = (r', k', s')" by simp
  from Cons.IH [OF this] s1 show ?case by (simp del: fun_upd_apply)
qed simp

lemma batch_inv:
  assumes step: "batch_set q e n c ops t s = Inr (k, s')" and inv: "resolver_inv s"
  shows "resolver_inv s'"
  using step
proof (rule batch_cases)
  fix r r' s1
  assume r: "rv_forward s n = Some r" and loop: "fold (batch_step n t) ops (r, 0, s) = (r', k, s1)"
    and s': "s' = rv_put_record s1 n (r'\<lparr>rec_updated_at := t\<rparr>)"
  note fin = batch_loop_inv [OF loop resolver_invD(1) [OF inv r] links_self [OF resolver_invD(2) [OF inv] r]
      links_self [OF resolver_invD(3) [OF inv] r]]
  have "record_wf n (r'\<lparr>rec_updated_at := t\<rparr>)" using fin by (simp add: record_wf_def)
  then show ?thesis
    by (rule resolver_inv_put [OF inv]) (use fin links_same in \<open>auto simp: s'\<close>)
qed

lemma remove_inv:
  assumes step: "remove_record q e n c s = Inr s'" and inv: "resolver_inv s"
  shows "resolver_inv s'"
  using step
proof (rule remove_cases)
  fix r
  assume r: "rv_forward s n = Some r"
    and s': "rv_forward s' = (rv_forward s)(n := None)"
    "rv_reverse s' = (case stellar r of None \<Rightarrow> rv_reverse s | Some a \<Rightarrow> (rv_reverse s)(a := None))"
    "rv_primary s' = (case stellar r of None \<Rightarrow> rv_primary s | Some a \<Rightarrow> (rv_primary s)(a := None))"
  show ?thesis
    using links_remove [OF resolver_invD(2) [OF inv] r] links_remove [OF resolver_invD(3) [OF inv] r]
      resolver_invD(1) [OF inv] by (auto simp: resolver_inv_def s')
qed

lemma cleanup_frames [simp]:
  "rv_forward (cleanup_stale_reverse a n s) = rv_forward s" "rv_registry (cleanup_stale_reverse a n s) = rv_registry s"
  "rv_wildcard (cleanup_stale_reverse a n s) = rv_wildcard s"
  by (simp_all add: cleanup_stale_reverse_def Let_def)

lemma cleanup_fewer:
  "rv_reverse (cleanup_stale_reverse a n s) b = Some m \<Longrightarrow> rv_reverse s b = Some m"
  "rv_primary (cleanup_stale_reverse a n s) b = Some m \<Longrightarrow> rv_primary s b = Some m"
  by (auto simp: cleanup_stale_reverse_def Let_def split: if_splits)

lemma reverse_cases:
  obtains "resolver_reverse q e a s = (None, snd (resolver_reverse q e a s))"
  | n s1 where "resolver_reverse q e a s = (Some n, s1)"
    "reverse_lookup_matches_current_owner q e s1 n a" "rv_primary s a = Some n \<or> rv_reverse s a = Some n"
    "rv_forward s1 = rv_forward s" "rv_registry s1 = rv_registry s"
proof (cases "resolver_reverse q e a s")
  case (Pair answer s1)
  show ?thesis
  proof (cases answer)
    case None
    with Pair that(1) show ?thesis by simp
  next
    case (Some n)
    with Pair show ?thesis
      by (intro that(2) [of n s1])
         (auto simp: resolver_reverse_def split: option.splits if_splits dest: cleanup_fewer)
  qed
qed

lemma reverse_frames [simp]:
  "rv_forward (snd (resolver_reverse q e a s)) = rv_forward s"
  "rv_registry (snd (resolver_reverse q e a s)) = rv_registry s"
  "rv_wildcard (snd (resolver_reverse q e a s)) = rv_wildcard s"
  by (simp_all add: resolver_reverse_def split: option.split)

lemma reverse_fewer:
  "rv_reverse (snd (resolver_reverse q e a s)) b = Some m \<Longrightarrow> rv_reverse s b = Some m"
  "rv_primary (snd (resolver_reverse q e a s)) b = Some m \<Longrightarrow> rv_primary s b = Some m"
  by (auto simp: resolver_reverse_def split: option.splits if_splits dest!: cleanup_fewer)

lemma resolver_inv_edit_record:
  assumes inv: "resolver_inv s" and r: "rv_forward s n = Some r" and "record_wf n r'" and same: "stellar r' = stellar r"
    and "rv_forward s' = (rv_forward s)(n \<mapsto> r')" "rv_reverse s' = rv_reverse s" "rv_primary s' = rv_primary s"
  shows "resolver_inv s'"
proof (rule resolver_inv_put [OF inv assms(3,5)])
  show "links_ok ((rv_forward s)(n \<mapsto> r')) (rv_reverse s')"
    unfolding assms(6) by (rule links_same [OF links_self [OF resolver_invD(2) [OF inv] r] same])
  show "links_ok ((rv_forward s)(n \<mapsto> r')) (rv_primary s')"
    unfolding assms(7) by (rule links_same [OF links_self [OF resolver_invD(3) [OF inv] r] same])
qed

lemma resolver_exec_inv:
  assumes exec: "resolver_exec q e cmd s = Inr s'" and inv: "resolver_inv s"
  shows "resolver_inv s'"
proof (cases cmd)
  case (VSetRecord n c a t)
  with exec inv show ?thesis by (auto intro: set_record_inv)
next
  case (VSetAddress n c ch a t)
  with exec inv show ?thesis by (auto intro: set_address_inv)
next
  case (VSetText n c k v t)
  with exec obtain r where r: "rv_forward s n = Some r" "validate_text_record_key k" "length v \<le> 256"
      "map_get (rec_text_records r) k = None \<longrightarrow> length (rec_text_records r) < 16"
    and s': "s' = rv_emit (TextSet n k v t) (rv_put_record s n
           (r\<lparr>rec_text_records := map_set (rec_text_records r) k v, rec_updated_at := t\<rparr>))"
    by (auto dest: edit_record_cases)
  have "record_wf n (r\<lparr>rec_text_records := map_set (rec_text_records r) k v, rec_updated_at := t\<rparr>)"
    using resolver_invD(1) [OF inv r(1)] r(2-4) by (auto simp: record_wf_def intro!: text_ok_set)
  then show ?thesis
    by (rule resolver_inv_edit_record [OF inv r(1)]) (simp_all add: s')
next
  case (VSetPrimary a c n)
  with exec obtain r where r: "rv_forward s n = Some r" "stellar r = Some a"
    and s': "s' = rv_emit (PrimarySet a n) (s\<lparr>rv_primary := (rv_primary s)(a \<mapsto> n)\<rparr>)"
    by (auto dest: edit_record_cases)
  have "links_ok (rv_forward s) ((rv_primary s)(a \<mapsto> n))"
    using links_point [OF links_self [OF resolver_invD(3) [OF inv] r(1)] r(2)] r(1) by (simp add: fun_upd_idem)
  then show ?thesis using inv by (simp add: resolver_inv_def s')
next
  case (VRemove n c)
  with exec inv show ?thesis by (auto intro: remove_inv)
next
  case (VClearReverse n a)
  with exec show ?thesis
    by (intro resolver_inv_fewer [OF inv]) (auto simp: clear_reverse_record_def Let_def split: outcome_splits if_splits)
next
  case (VUpdateOwner n c b)
  with exec obtain r where r: "rv_forward s n = Some r" "s' = rv_put_record s n (r\<lparr>rec_owner := b\<rparr>)"
    by (auto dest: edit_record_cases)
  then show ?thesis
    using resolver_invD(1) [OF inv r(1)]
    by (intro resolver_inv_edit_record [OF inv r(1), of "r\<lparr>rec_owner := b\<rparr>"]) (auto simp: record_wf_def)
next
  case (VTransferRecord n c b)
  with exec obtain r where r: "rv_forward s n = Some r" "s' = rv_put_record s n (r\<lparr>rec_owner := b\<rparr>)"
    by (auto dest: edit_record_cases)
  then show ?thesis
    using resolver_invD(1) [OF inv r(1)]
    by (intro resolver_inv_edit_record [OF inv r(1), of "r\<lparr>rec_owner := b\<rparr>"]) (auto simp: record_wf_def)
next
  case (VSetWildcard n c b t)
  with exec show ?thesis by (intro resolver_inv_same [OF inv]) (auto dest: edit_record_cases)
next
  case (VReverse a)
  with exec show ?thesis
    by (intro resolver_inv_fewer [OF inv]) (auto dest: reverse_fewer)
next
  case (VBatch n c ops t)
  with exec obtain k where "batch_set q e n c ops t s = Inr (k, s')"
    by (cases "batch_set q e n c ops t s") auto
  then show ?thesis using inv by (rule batch_inv)
qed (use exec in \<open>auto intro!: resolver_inv_same [OF inv] simp: resolver_initialize_def set_subdomain_contract_def
      resolver_upgrade_def Let_def split: outcome_splits\<close>)

lemma resolver_reachable_inv: "resolver_reachable s \<Longrightarrow> resolver_inv s"
  by (induction rule: resolver_reachable.induct) (auto simp: resolver_inv_empty intro: resolver_exec_inv)

section \<open>The fallback search\<close>

text \<open>A name and its ancestors, down to the bare TLD.\<close>

fun ancestors :: "string list \<Rightarrow> string list" where
  "ancestors [] = [fqdn_of []]"
| "ancestors (l # ls) = fqdn_of (l # ls) # ancestors ls"

text \<open>
  The specification: the nearest name among the first \<open>k + 1\<close> that has a record decides; an
  ancestor's record is used unless its wildcard switch is off.
\<close>

definition nearest_record :: "resolver \<Rightarrow> nat \<Rightarrow> string \<Rightarrow> string list \<Rightarrow> (resolution_record \<times> bool) option" where
  "nearest_record s k name candidates =
     (case find (\<lambda>c. rv_forward s c \<noteq> None) (take (Suc k) candidates) of
        None \<Rightarrow> None
      | Some c \<Rightarrow>
          (case rv_forward s c of
             None \<Rightarrow> None
           | Some record \<Rightarrow>
               (if c = name then Some (record, False)
                else if wildcard_resolution_enabled s c then Some (record, True) else None)))"

lemma fqdn_of_Cons: "fqdn_of (l # ls) = l @ CHR ''.'' # fqdn_of ls"
  by (simp add: fqdn_of_def)

lemma fqdn_nonempty [simp]: "fqdn_of ls \<noteq> []"
  by (simp add: fqdn_of_def)

lemma parent_name_xlm: "parent_name (fqdn_of []) = None"
  by (simp add: parent_name_def fqdn_of_def)

lemma parent_name_fqdn:
  assumes "\<forall>l' \<in> set (l # ls). valid_label l'" and "length (fqdn_of (l # ls)) \<le> 256"
  shows "parent_name (fqdn_of (l # ls)) = Some (fqdn_of ls)"
proof -
  have "position CHR ''.'' (l @ CHR ''.'' # fqdn_of ls) = Some (length l)"
    using assms(1) by (intro position_first valid_label_no_dot) simp
  moreover have "valid_utf8 (fqdn_of ls)" using assms(1) by (intro ascii_valid_utf8 fqdn_ascii) simp
  ultimately show ?thesis
    using assms(2) by (simp add: parent_name_def fqdn_of_Cons Let_def)
qed

lemma fallback_nearest:
  assumes "\<forall>l \<in> set ls. valid_label l" and "length (fqdn_of ls) \<le> 256"
  shows "fallback_loop s k name (fqdn_of ls) = nearest_record s k name (ancestors ls)"
  using assms
proof (induction ls arbitrary: k)
  case Nil
  show ?case
    by (subst fallback_loop.simps)
       (auto simp: nearest_record_def parent_name_xlm split: option.split nat.split)
next
  case (Cons l ls)
  have "length (fqdn_of ls) \<le> 256" using Cons.prems(2) by (simp add: fqdn_of_Cons)
  then have IH: "fallback_loop s k name (fqdn_of ls) = nearest_record s k name (ancestors ls)" for k
    using Cons by simp
  show ?case
    by (subst fallback_loop.simps)
       (auto simp: IH parent_name_fqdn [OF Cons.prems] nearest_record_def split: option.split nat.split)
qed

text \<open>The loop of a batch writes the stored records only at its end.\<close>

lemma batch_step_frames: "batch_step n t op (r, k, s) = (r', k', s') \<Longrightarrow>
   rv_forward s' = rv_forward s \<and> rv_registry s' = rv_registry s \<and> rec_owner r' = rec_owner r"
  by (cases op) (auto split: if_splits)

lemma batch_loop_forward:
  "fold (batch_step n t) ops (r, k, s) = (r', k', s') \<Longrightarrow> rv_forward s' = rv_forward s"
proof (induction ops arbitrary: r k s)
  case (Cons op ops)
  obtain r1 k1 s1 where "batch_step n t op (r, k, s) = (r1, k1, s1)" by (cases "batch_step n t op (r, k, s)")
  with Cons batch_step_frames [OF this] show ?case by simp
qed simp

section \<open>A batch is its operations in sequence\<close>

fun single_command :: "string \<Rightarrow> address \<Rightarrow> u64 \<Rightarrow> batch_op \<Rightarrow> resolver_command" where
  "single_command n c t (SetAddress a) = VSetAddress n c DEFAULT_CHAIN a t"
| "single_command n c t (SetText k v) = VSetText n c k v t"

text \<open>Each operation as a call of its own, the failing ones ignored, the others counted.\<close>

definition attempt :: "query \<Rightarrow> env \<Rightarrow> resolver_command \<Rightarrow> u32 \<times> resolver \<Rightarrow> u32 \<times> resolver" where
  "attempt q e cmd ks = (case resolver_exec q e cmd (snd ks) of Inr s' \<Rightarrow> (fst ks + 1, s') | Inl _ \<Rightarrow> ks)"

text \<open>The state of the sequence matches the loop's up to the time stamp and the event log.\<close>

definition batch_matches :: "string \<Rightarrow> resolution_record \<times> u32 \<times> resolver \<Rightarrow> u32 \<times> resolver \<Rightarrow> bool" where
  "batch_matches n rks ks \<longleftrightarrow> (case rks of (r, k, s) \<Rightarrow> case ks of (k', s') \<Rightarrow>
     k' = k \<and> (\<exists>u. rv_forward s' = (rv_forward s)(n \<mapsto> r\<lparr>rec_updated_at := u\<rparr>))
     \<and> rv_reverse s' = rv_reverse s \<and> rv_primary s' = rv_primary s \<and> rv_wildcard s' = rv_wildcard s
     \<and> rv_registry s' = rv_registry s)"

definition batch_owner :: "query \<Rightarrow> env \<Rightarrow> string \<Rightarrow> u64 \<Rightarrow> address \<Rightarrow> resolution_record \<Rightarrow> resolver \<Rightarrow> bool" where
  "batch_owner q e n t c r s \<longleftrightarrow> (case rv_registry s of None \<Rightarrow> rec_owner r = c
     | Some reg \<Rightarrow> \<exists>en. query_resolve q e reg n t = Some en \<and> re_owner en = c)"

lemma assert_owner_batch:
  "batch_owner q e n t c r s \<Longrightarrow> rv_registry s' = rv_registry s \<Longrightarrow> rec_owner r' = rec_owner r \<Longrightarrow>
     assert_owner q e s' n r' c t = Inr ()"
  by (auto simp: assert_owner_def registry_owner_def batch_owner_def split: option.splits)

lemma batch_step_frames2 [simp]:
  "rv_registry (drop_old_address m a s) = rv_registry s"
  by (simp add: drop_old_address_def split: option.split)

lemma attempt_matches:
  assumes m: "batch_matches n (r, k, s) (k', s')" and own: "batch_owner q e n t c r s" and auth: "require_auth e c"
  shows "batch_matches n (batch_step n t op (r, k, s)) (attempt q e (single_command n c t op) (k', s'))"
proof -
  from m obtain u where u: "rv_forward s' = (rv_forward s)(n \<mapsto> r\<lparr>rec_updated_at := u\<rparr>)" "k' = k"
    "rv_reverse s' = rv_reverse s" "rv_primary s' = rv_primary s" "rv_wildcard s' = rv_wildcard s"
    "rv_registry s' = rv_registry s" by (auto simp: batch_matches_def)
  have get: "rv_get_record s' n = Inr (r\<lparr>rec_updated_at := u\<rparr>)" by (simp add: rv_get_record_def u)
  have ok: "assert_owner q e s' n (r\<lparr>rec_updated_at := u\<rparr>) c t = Inr ()"
    using assert_owner_batch [OF own u(6)] by simp
  show ?thesis
  proof (cases op)
    case (SetAddress a)
    show ?thesis
      by (simp add: SetAddress attempt_def set_address_def auth get ok Let_def batch_matches_def u drop_indexes)
         (auto simp: u split: option.split)
  next
    case (SetText key v)
    show ?thesis
      by (simp add: SetText attempt_def set_text_record_def auth get ok Let_def batch_matches_def u)
         (metis fun_upd_upd)
  qed
qed

lemma batch_sequence:
  assumes "batch_matches n (r, k, s) ks" and "batch_owner q e n t c r s" and "require_auth e c"
  shows "batch_matches n (fold (batch_step n t) ops (r, k, s))
    (fold (\<lambda>op. attempt q e (single_command n c t op)) ops ks)"
  using assms
proof (induction ops arbitrary: r k s ks)
  case (Cons op ops)
  obtain k' s' where ks: "ks = (k', s')" by (cases ks)
  obtain r1 k1 s1 where one: "batch_step n t op (r, k, s) = (r1, k1, s1)" by (cases "batch_step n t op (r, k, s)")
  have "batch_owner q e n t c r1 s1"
    using Cons.prems(2) batch_step_frames [OF one] by (simp add: batch_owner_def cong: option.case_cong)
  moreover have "batch_matches n (r1, k1, s1) (attempt q e (single_command n c t op) ks)"
    using attempt_matches [of n r k s k' s' q e t c op] Cons.prems one by (simp add: ks)
  ultimately show ?case using Cons.IH Cons.prems(3) one by simp
qed simp

end
