(* ===== verification/Resolver_Properties.thy ===== *)
theory Resolver_Properties
  imports Resolver_Proofs Samples
begin

text \<open>
  The properties of the resolver: the invariant of its records and indexes, who can write, what
  \<open>resolve\<close> and \<open>reverse\<close> return, and what a batch is.
\<close>

section \<open>A sample resolver\<close>

definition no_query :: query where
  "no_query e a f args = None"

definition alice_record :: "string_map \<Rightarrow> resolution_record" where
  "alice_record texts = \<lparr>rec_owner = alice, rec_addresses = [(DEFAULT_CHAIN, ''GALICE'')], rec_text_records = texts,
     rec_updated_at = 100, rec_is_wildcard = False\<rparr>"

text \<open>Alice has set the record of \<open>alice.xlm\<close>; no registry is configured.\<close>

definition alice_resolver :: resolver where
  "alice_resolver = rv_emit (ReverseSet ''GALICE'' ''alice.xlm'')
     (rv_emit (ForwardSet ''alice.xlm'' ''GALICE'' DEFAULT_CHAIN 100)
       (set_reverse ''GALICE'' ''alice.xlm'' (rv_put_record resolver_empty ''alice.xlm'' (alice_record []))))"

lemma alice_xlm: "validate_fqdn_soroban ''alice.xlm'' = Inr ()" "validate_fqdn_soroban ''pay.alice.xlm'' = Inr ()"
  by code_simp+

lemma alice_sets_record:
  "set_record q (env_at t [alice]) ''alice.xlm'' alice ''GALICE'' 100 resolver_empty = Inr alice_resolver"
  by (simp add: set_record_def alice_xlm registry_owner_def resolver_empty_def alice_resolver_def alice_record_def
      map_set_def Let_def)

lemma alice_resolver_simps [simp]:
  "rv_forward alice_resolver n = (if n = ''alice.xlm'' then Some (alice_record []) else None)"
  "rv_reverse alice_resolver a = (if a = ''GALICE'' then Some ''alice.xlm'' else None)"
  "rv_primary alice_resolver = (\<lambda>_. None)" "rv_wildcard alice_resolver = (\<lambda>_. None)"
  "rv_registry alice_resolver = None" "rv_subdomain_contract alice_resolver = None"
  by (simp_all add: alice_resolver_def resolver_empty_def) (simp add: rv_emit_def set_reverse_def rv_put_record_def)

lemma alice_record_simps [simp]:
  "rec_owner (alice_record m) = alice" "stellar (alice_record m) = Some ''GALICE''"
  "rec_text_records (alice_record m) = m" "rec_is_wildcard (alice_record m) = False"
  by (simp_all add: alice_record_def map_get_def)

lemma alice_resolver_reachable: "resolver_reachable alice_resolver"
  by (rule resolver_reachable.command [OF resolver_reachable.start, where q = no_query and e = "env_at 0 [alice]"
        and cmd = "VSetRecord ''alice.xlm'' alice ''GALICE'' 100"]) (simp add: alice_sets_record)

section \<open>The invariant\<close>

text \<open>C11: in every reachable state of the resolver, whatever the registry answers, each record is filed under a valid name
  and has at most 16 text records with distinct valid keys and values of at most 256 bytes, and both the reverse
  and the primary index name only records whose default-chain address is the indexed address.\<close>

theorem resolver_invariant:
  assumes "resolver_reachable s"
  shows "(rv_forward s n = Some r \<longrightarrow> record_wf n r)
    \<and> (rv_reverse s a = Some n \<longrightarrow> get_address s n DEFAULT_CHAIN = Some a)
    \<and> (rv_primary s a = Some n \<longrightarrow> get_address s n DEFAULT_CHAIN = Some a)"
  using resolver_invD [OF resolver_reachable_inv [OF assms]] links_okD
  by (intro conjI impI) (fastforce simp: get_address_def)+

theorem resolver_invariant_witness:
  "get_address alice_resolver ''alice.xlm'' DEFAULT_CHAIN = Some ''GALICE'' \<and> record_wf ''alice.xlm'' (alice_record [])"
  using resolver_invariant [OF alice_resolver_reachable] by simp

section \<open>Who writes\<close>

text \<open>The name a command writes the record of, its caller, and the clock at which it asks the registry for the owner: the
  command's own argument, or 0 where it has none.\<close>

fun record_writer :: "resolver_command \<Rightarrow> (string \<times> address \<times> u64) option" where
  "record_writer (VSetRecord n c a t) = Some (n, c, t)"
| "record_writer (VSetAddress n c ch a t) = Some (n, c, t)"
| "record_writer (VSetText n c k v t) = Some (n, c, t)"
| "record_writer (VBatch n c ops t) = Some (n, c, t)"
| "record_writer (VRemove n c) = Some (n, c, 0)"
| "record_writer (VUpdateOwner n c b) = Some (n, c, 0)"
| "record_writer (VTransferRecord n c b) = Some (n, c, 0)"
| "record_writer _ = None"

text \<open>C12: records are written by their owners: if a successful command changes the record of a name, it is a command on
  that name whose caller signed and is the registry's owner of the name at the clock the command reads (the record's owner when
  no registry is configured), or is the record's stored owner handing the record on, or creates a record that did
  not exist while no registry is configured. The clock is the one given to \<open>set_record\<close>, \<open>set_address\<close>,
  \<open>set_text_record\<close> and the batch; \<open>remove_record\<close> and \<open>update_owner\<close> have none and ask for the owner at clock 0, at
  which the registry still answers with an owner whose name has expired.\<close>

theorem record_write_authorised:
  assumes exec: "resolver_exec q e cmd s = Inr s'" and "rv_forward s' n \<noteq> rv_forward s n"
  obtains c t where "record_writer cmd = Some (n, c, t)" "require_auth e c"
    "owner_at q e s n t c \<or> (\<exists>r b. cmd = VTransferRecord n c b \<and> rv_forward s n = Some r \<and> rec_owner r = c)
     \<or> (\<exists>a. cmd = VSetRecord n c a t \<and> rv_forward s n = None \<and> rv_registry s = None)"
proof (cases cmd)
  case (VSetRecord m c a t)
  with exec have "set_record q e m c a t s = Inr s'" by simp
  then show ?thesis
    by (rule set_record_cases)
       (cases "rv_registry s"; use VSetRecord assms(2) that [of c t] in \<open>auto split: if_splits\<close>)
next
  case (VRemove m c)
  with exec have "remove_record q e m c s = Inr s'" by simp
  then show ?thesis
    by (rule remove_cases) (use VRemove assms(2) that [of c] in \<open>auto split: if_splits\<close>)
next
  case (VBatch m c ops t)
  with exec obtain k where "batch_set q e m c ops t s = Inr (k, s')" by (cases "batch_set q e m c ops t s") auto
  then show ?thesis
  proof (rule batch_cases)
    fix r r' s1 assume c: "require_auth e c" "owner_at q e s m t c"
      and loop: "fold (batch_step m t) ops (r, 0, s) = (r', k, s1)"
      and s': "s' = rv_put_record s1 m (r'\<lparr>rec_updated_at := t\<rparr>)"
    have "rv_forward s1 = rv_forward s" by (rule batch_loop_forward [OF loop])
    then show ?thesis using VBatch assms(2) that [of c] c by (auto simp: s' split: if_splits)
  qed
next
  case (VSetAddress m c ch a t)
  with exec assms(2) show ?thesis by (auto dest!: edit_record_cases intro!: that [of c] split: if_splits)
next
  case (VSetText m c k v t)
  with exec assms(2) show ?thesis by (auto dest!: edit_record_cases intro!: that [of c] split: if_splits)
next
  case (VUpdateOwner m c b)
  with exec assms(2) show ?thesis by (auto dest!: edit_record_cases intro!: that [of c] split: if_splits)
next
  case (VTransferRecord m c b)
  with exec assms(2) show ?thesis by (auto dest!: edit_record_cases intro!: that [of c] split: if_splits)
qed (use exec assms(2) in \<open>auto dest!: edit_record_cases simp: resolver_initialize_def set_subdomain_contract_def
      resolver_upgrade_def clear_reverse_record_def Let_def split: outcome_splits if_splits\<close>)

theorem record_write_authorised_witness:
  "\<exists>c t. record_writer (VSetRecord ''alice.xlm'' alice ''GALICE'' 100) = Some (''alice.xlm'', c, t)
    \<and> require_auth (env_at 100 [alice]) c"
proof (rule record_write_authorised)
  show "resolver_exec no_query (env_at 100 [alice]) (VSetRecord ''alice.xlm'' alice ''GALICE'' 100) resolver_empty =
      Inr alice_resolver" by (simp add: alice_sets_record)
  show "rv_forward alice_resolver ''alice.xlm'' \<noteq> rv_forward resolver_empty ''alice.xlm''"
    by (simp add: resolver_empty_def)
qed blast

text \<open>The wildcard switch needs no signature: \<open>set_wildcard_resolution\<close> succeeds for whoever names the right owner as
  the caller, in an environment where nobody has signed anything.\<close>

theorem wildcard_switch_unsigned:
  assumes "validate_fqdn_soroban n = Inr ()" and "rv_forward s n = Some r" and "owner_at q e s n t owner"
  shows "set_wildcard_resolution q e n owner on t s = Inr (s\<lparr>rv_wildcard := (rv_wildcard s)(n \<mapsto> on)\<rparr>)"
  using assms assert_owner_iff [OF assms(2), of q e owner t "()"]
  by (simp add: set_wildcard_resolution_def rv_get_record_def)

theorem wildcard_switch_unsigned_witness:
  "set_wildcard_resolution no_query (env_at 0 []) ''alice.xlm'' alice False 0 alice_resolver =
     Inr (alice_resolver\<lparr>rv_wildcard := (rv_wildcard alice_resolver)(''alice.xlm'' \<mapsto> False)\<rparr>)
   \<and> \<not> require_auth (env_at 0 []) alice"
  using wildcard_switch_unsigned [OF alice_xlm(1), of alice_resolver "alice_record []" no_query "env_at 0 []" 0 alice False]
  by (simp add: owner_at_def)

section \<open>Resolution\<close>

text \<open>C13: \<open>resolve\<close> is the nearest-ancestor search: for a valid name, in any state, the loop with its hop
  limit returns what the specification says, the record of the nearest of the name and its first
  \<open>max_hops\<close> ancestors that has one (its own record as it is, an ancestor's only while the
  ancestor's wildcard switch is not off, marked as a wildcard answer); for any other name it returns nothing.\<close>

theorem resolve_is_nearest_ancestor:
  assumes "labels \<noteq> []" and "\<forall>l \<in> set labels. valid_label l" and "length (fqdn_of labels) \<le> 68"
  shows "resolve_name q e s (fqdn_of labels) =
    map_option (\<lambda>(r, wild). r\<lparr>rec_is_wildcard := wild\<rparr>)
      (nearest_record s (unat (fallback_depth_limit q e s)) (fqdn_of labels) (ancestors labels))
    \<and> (validate_fqdn_soroban n \<noteq> Inr () \<longrightarrow> resolve_name q e s n = None)"
proof (intro conjI impI)
  have "validate_fqdn_soroban (fqdn_of labels) = Inr ()" using assms validate_fqdn_soroban_iff by blast
  moreover have "fallback_loop s k (fqdn_of labels) (fqdn_of labels) = nearest_record s k (fqdn_of labels) (ancestors labels)" for k
    using assms(2,3) by (intro fallback_nearest) auto
  ultimately show "resolve_name q e s (fqdn_of labels) =
    map_option (\<lambda>(r, wild). r\<lparr>rec_is_wildcard := wild\<rparr>)
      (nearest_record s (unat (fallback_depth_limit q e s)) (fqdn_of labels) (ancestors labels))"
    by (auto simp: resolve_name_def resolve_with_fallback_def split: option.split)
  show "validate_fqdn_soroban n \<noteq> Inr () \<Longrightarrow> resolve_name q e s n = None"
    by (auto simp: resolve_name_def resolve_with_fallback_def split: sum.split)
qed

theorem resolve_is_nearest_ancestor_witness:
  "resolve_name no_query (env_at 0 []) alice_resolver ''pay.alice.xlm'' =
     Some ((alice_record [])\<lparr>rec_is_wildcard := True\<rparr>)"
proof -
  have labels: "\<forall>l \<in> set [''pay'', ''alice'']. valid_label l" "fqdn_of [''pay'', ''alice''] = ''pay.alice.xlm''"
    "ancestors [''pay'', ''alice''] = [''pay.alice.xlm'', ''alice.xlm'', ''xlm'']"
    by code_simp+
  show ?thesis
    using resolve_is_nearest_ancestor [of "[''pay'', ''alice'']" no_query "env_at 0 []" alice_resolver] labels
    by (simp add: nearest_record_def fallback_depth_limit_def DEFAULT_FALLBACK_DEPTH_def
        wildcard_resolution_enabled_def)
qed

lemma own_record_resolves:
  assumes "resolver_inv s" and "rv_forward s n = Some r"
  shows "resolve_name q e s n = Some (r\<lparr>rec_is_wildcard := False\<rparr>)"
proof -
  have "validate_fqdn_soroban n = Inr ()" using resolver_invD(1) [OF assms] by (simp add: record_wf_def)
  then show ?thesis
    by (simp add: resolve_name_def resolve_with_fallback_def fallback_loop.simps [of s _ n n] assms(2))
qed

text \<open>C14: a reverse answer is never stale: in a reachable state, if \<open>reverse\<close> answers name \<open>n\<close> for
  address \<open>a\<close>, then \<open>n\<close> resolves to \<open>a\<close> on the default chain, before and after the call, and if a registry is
  configured it knows \<open>n\<close> as active at the ledger's time under the same owner as the record.\<close>

theorem reverse_answer_sound:
  assumes reach: "resolver_reachable s" and rev: "resolver_reverse q e a s = (Some n, s')"
  shows "get_stellar_address q' e' s n = Some a \<and> get_stellar_address q' e' s' n = Some a
    \<and> (rv_registry s = Some reg \<longrightarrow>
      (\<exists>en r. query_resolve q e reg n (env_timestamp e) = Some en \<and> rv_forward s n = Some r \<and> re_owner en = rec_owner r))"
proof (intro conjI impI)
  have inv: "resolver_inv s" by (rule resolver_reachable_inv [OF reach])
  have inv': "resolver_inv s'"
    using resolver_exec_inv [of q e "VReverse a" s s'] inv rev by simp
  from rev obtain s1 where m: "reverse_lookup_matches_current_owner q e s1 n a"
    and same: "rv_forward s1 = rv_forward s" "rv_registry s1 = rv_registry s" "s1 = s'"
    by (cases rule: reverse_cases [of q e a s]) auto
  then obtain r where r: "rv_forward s n = Some r" "stellar r = Some a"
    by (auto simp: reverse_lookup_matches_current_owner_def split: option.splits if_splits)
  show "get_stellar_address q' e' s n = Some a" "get_stellar_address q' e' s' n = Some a"
    using own_record_resolves [OF inv r(1)] own_record_resolves [OF inv', of n r] r same
    by (simp_all add: get_stellar_address_def)
  show "\<exists>en r. query_resolve q e reg n (env_timestamp e) = Some en \<and> rv_forward s n = Some r \<and> re_owner en = rec_owner r"
    if "rv_registry s = Some reg"
    using m r that same by (auto simp: reverse_lookup_matches_current_owner_def split: option.splits)
qed

theorem reverse_answer_sound_witness:
  "get_stellar_address no_query (env_at 0 []) alice_resolver ''alice.xlm'' = Some ''GALICE''"
  by (rule reverse_answer_sound [where q = no_query and e = "env_at 0 []" and s' = alice_resolver,
        THEN conjunct1, OF alice_resolver_reachable])
     (simp add: resolver_reverse_def reverse_lookup_matches_current_owner_def)

text \<open>Names sharing an address undo each other: when the owner of \<open>n\<close> moves \<open>n\<close> away from address \<open>b\<close>,
  the reverse mapping of \<open>b\<close> is deleted even if it is that of another name \<open>m\<close> whose record still has
  address \<open>b\<close>, and \<open>reverse\<close> of \<open>b\<close> has no answer any more.\<close>

theorem shared_address_reverse_lost:
  assumes "resolver_reachable s" and "rv_registry s = None"
    and "rv_forward s n = Some r" "stellar r = Some b" "require_auth e (rec_owner r)"
    and "rv_reverse s b = Some m" "m \<noteq> n" "a \<noteq> b"
  obtains s' where "set_address q e n (rec_owner r) DEFAULT_CHAIN a t s = Inr s'"
    "get_stellar_address q' e' s' m = Some b" "fst (resolver_reverse q' e' b s') = None"
proof -
  have inv: "resolver_inv s" by (rule resolver_reachable_inv [OF assms(1)])
  have ok: "assert_owner q e s n r (rec_owner r) t = Inr ()"
    using assert_owner_iff [OF assms(3)] assms(2,3) by (simp add: owner_at_def)
  define s' where "s' = rv_emit (ForwardSet n a DEFAULT_CHAIN t) (rv_put_record
      (rv_emit (ReverseSet a n) (set_reverse a n (drop_old_address (rec_addresses r) a s))) n
      (r\<lparr>rec_addresses := map_set (rec_addresses r) DEFAULT_CHAIN a, rec_updated_at := t\<rparr>))"
  have step: "set_address q e n (rec_owner r) DEFAULT_CHAIN a t s = Inr s'"
    using assms(3,5) ok by (simp add: set_address_def rv_get_record_def s'_def Let_def)
  obtain r2 where r2: "rv_forward s m = Some r2" "stellar r2 = Some b"
    using links_okD [OF resolver_invD(2) [OF inv] assms(6)] by blast
  have "rv_forward s' m = Some r2" using r2 assms(7) by (simp add: s'_def)
  then have "get_stellar_address q' e' s' m = Some b"
    using own_record_resolves [OF set_address_inv [OF step inv]] r2 by (simp add: get_stellar_address_def)
  moreover have "rv_reverse s' b = None" "rv_primary s' b = None"
    using assms(4,8) by (auto simp: s'_def drop_indexes)
  then have "fst (resolver_reverse q' e' b s') = None" by (simp add: resolver_reverse_def)
  ultimately show ?thesis using that step by blast
qed

text \<open>Bob points \<open>bobby.xlm\<close> at Alice's address too, which overwrites its reverse mapping.\<close>

definition shared_resolver :: resolver where
  "shared_resolver = rv_emit (ReverseSet ''GALICE'' ''bobby.xlm'')
     (rv_emit (ForwardSet ''bobby.xlm'' ''GALICE'' DEFAULT_CHAIN 200)
       (set_reverse ''GALICE'' ''bobby.xlm'' (rv_put_record alice_resolver ''bobby.xlm''
         \<lparr>rec_owner = bob, rec_addresses = map_set [] DEFAULT_CHAIN ''GALICE'', rec_text_records = [],
          rec_updated_at = 200, rec_is_wildcard = False\<rparr>)))"

lemma shared_resolver_reachable: "resolver_reachable shared_resolver"
proof (rule resolver_reachable.command [OF alice_resolver_reachable])
  have "validate_fqdn_soroban ''bobby.xlm'' = Inr ()" by code_simp
  then show "resolver_exec no_query (env_at 0 [bob]) (VSetRecord ''bobby.xlm'' bob ''GALICE'' 200) alice_resolver =
      Inr shared_resolver"
    by (simp add: set_record_def registry_owner_def shared_resolver_def Let_def)
qed

theorem shared_address_reverse_lost_witness:
  "\<exists>s'. set_address no_query (env_at 0 [alice]) ''alice.xlm'' alice DEFAULT_CHAIN ''GNEW'' 300 shared_resolver = Inr s'
     \<and> get_stellar_address no_query (env_at 0 []) s' ''bobby.xlm'' = Some ''GALICE''
     \<and> fst (resolver_reverse no_query (env_at 0 []) ''GALICE'' s') = None"
  by (rule shared_address_reverse_lost [OF shared_resolver_reachable, of "''alice.xlm''" "alice_record []" "''GALICE''"
        "env_at 0 [alice]" "''bobby.xlm''" "''GNEW''" no_query 300])
     (auto simp: shared_resolver_def)

section \<open>Batches\<close>

text \<open>A batch is its operations one after the other: when \<open>batch_set\<close> succeeds it has at most 16 operations and
  leaves the records, the reverse and primary indexes and the wildcard switches exactly as the corresponding
  sequence of single \<open>set_address\<close> and \<open>set_text_record\<close> calls does, those that fail being skipped (only the
  batched record's time stamp is always renewed), and it returns the number of calls that succeed.\<close>

theorem batch_is_sequence:
  assumes step: "batch_set q e n c ops t s = Inr (k, s')"
    and run: "fold (\<lambda>op. attempt q e (single_command n c t op)) ops (0, s) = (k2, s2)"
  shows "length ops \<le> 16 \<and> k = k2
    \<and> rv_reverse s' = rv_reverse s2 \<and> rv_primary s' = rv_primary s2 \<and> rv_wildcard s' = rv_wildcard s2
    \<and> (\<exists>r. rv_forward s2 n = Some r \<and> rv_forward s' = (rv_forward s2)(n \<mapsto> r\<lparr>rec_updated_at := t\<rparr>))"
proof -
  from step obtain r r' s1 where c: "require_auth e c" and len: "length ops \<le> 16"
    and r: "rv_forward s n = Some r" and own: "owner_at q e s n t c"
    and loop: "fold (batch_step n t) ops (r, 0, s) = (r', k, s1)"
    and s': "s' = rv_put_record s1 n (r'\<lparr>rec_updated_at := t\<rparr>)" by (rule batch_cases)
  have "rv_forward s = (rv_forward s)(n \<mapsto> r\<lparr>rec_updated_at := rec_updated_at r\<rparr>)" using r by (simp add: fun_upd_idem)
  then have "\<exists>u. rv_forward s = (rv_forward s)(n \<mapsto> r\<lparr>rec_updated_at := u\<rparr>)" by (rule exI)
  then have "batch_matches n (r, 0, s) (0, s)" unfolding batch_matches_def by simp
  moreover have "batch_owner q e n t c r s"
    using own r by (auto simp: owner_at_def batch_owner_def split: option.splits)
  ultimately have "batch_matches n (r', k, s1) (k2, s2)" using batch_sequence c loop run by metis
  then show ?thesis
    using len by (auto simp: batch_matches_def s')
qed

definition alice_ops :: "batch_op list" where
  "alice_ops = [SetText ''Bad Key'' ''x'', SetText ''com.twitter'' ''@alice'', SetAddress ''GNEW'']"

theorem batch_is_sequence_witness:
  "\<exists>k s'. batch_set no_query (env_at 0 [alice]) ''alice.xlm'' alice alice_ops 300 alice_resolver = Inr (k, s') \<and> k = 2"
proof -
  have keys: "\<not> validate_text_record_key ''Bad Key''" "validate_text_record_key ''com.twitter''" by code_simp+
  have own: "assert_owner no_query e alice_resolver ''alice.xlm'' (alice_record []) alice 300 = Inr ()" for e
    by (simp add: assert_owner_def registry_owner_def)
  obtain r' k s1 where loop: "fold (batch_step ''alice.xlm'' 300) alice_ops (alice_record [], 0, alice_resolver) = (r', k, s1)"
    by (metis prod.exhaust)
  obtain k2 s2 where run: "fold (\<lambda>op. attempt no_query (env_at 0 [alice]) (single_command ''alice.xlm'' alice 300 op))
      alice_ops (0, alice_resolver) = (k2, s2)" by fastforce
  have step: "batch_set no_query (env_at 0 [alice]) ''alice.xlm'' alice alice_ops 300 alice_resolver =
      Inr (k, rv_put_record s1 ''alice.xlm'' (r'\<lparr>rec_updated_at := 300\<rparr>))"
    using loop by (simp add: batch_set_def alice_xlm rv_get_record_def own MAX_BATCH_OPS_def alice_ops_def)
  have "k = 2"
    using loop keys by (simp add: alice_ops_def length_constants map_get_def alice_record_def)
  with batch_is_sequence [OF step run] step show ?thesis by blast
qed

end
