(* ===== verification/Auction_Proofs.thy ===== *)
theory Auction_Proofs
  imports Auction "HOL-Library.Multiset"
begin

text \<open>
  The auction: what the settlement loop computes, that it agrees with the sorting reference, what the payout
  loop transfers, the commands with their invariant, and the listings as slices.
\<close>

section \<open>The settlement loop\<close>

text \<open>The highest amount of some bids, 0 when there are none.\<close>

definition top_amount :: "bid list \<Rightarrow> u64" where
  "top_amount bs = fold (\<lambda>b m. max (bid_amount b) m) bs 0"

lemma top_amount_snoc [simp]: "top_amount (bs @ [b]) = max (bid_amount b) (top_amount bs)"
  by (simp add: top_amount_def)

lemma top_amount_Nil [simp]: "top_amount [] = 0"
  by (simp add: top_amount_def)

lemma top_amount_single [simp]: "top_amount [b] = bid_amount b"
  by (simp add: top_amount_def max.absorb1)

lemma top_amount_ge: "b \<in> set bs \<Longrightarrow> bid_amount b \<le> top_amount bs"
proof (induction bs rule: rev_induct)
  case (snoc x bs)
  then show ?case by (auto simp: le_max_iff_disj)
qed simp

lemma top_amount_in: "bs \<noteq> [] \<Longrightarrow> \<exists>b \<in> set bs. bid_amount b = top_amount bs"
proof (induction bs rule: rev_induct)
  case (snoc x bs)
  show ?case
  proof (cases "bs = []")
    case False
    then show ?thesis using snoc.IH by (auto simp: max_def)
  qed simp
qed simp

lemma top_amount_unique:
  assumes "\<And>b. b \<in> set bs \<Longrightarrow> bid_amount b \<le> m" and "b \<in> set bs" and "bid_amount b = m"
  shows "top_amount bs = m"
proof (rule antisym)
  have "bs \<noteq> []" using assms(2) by auto
  then show "top_amount bs \<le> m" using top_amount_in assms(1) by metis
  show "m \<le> top_amount bs" using top_amount_ge [OF assms(2)] assms(3) by simp
qed

lemma top_amount_append: "top_amount (xs @ ys) = max (top_amount xs) (top_amount ys)"
proof (induction ys rule: rev_induct)
  case (snoc y ys)
  have "top_amount (xs @ ys @ [y]) = max (bid_amount y) (top_amount (xs @ ys))"
    using top_amount_snoc [of "xs @ ys" y] by simp
  then show ?case using snoc by (simp add: max.left_commute max.commute)
qed (simp add: max_def)

lemma top_amount_le: "(\<And>b. b \<in> set bs \<Longrightarrow> bid_amount b \<le> m) \<Longrightarrow> top_amount bs \<le> m"
  using top_amount_in [of bs] by (cases "bs = []") (simp, metis)

text \<open>
  After any number of bids the loop holds the first of the highest bids, and the highest amount of all the
  other bids.
\<close>

definition scan_ok :: "bid list \<Rightarrow> bid option \<times> u64 \<Rightarrow> bool" where
  "scan_ok bs acc \<longleftrightarrow> (case acc of
     (None, m) \<Rightarrow> bs = [] \<and> m = 0
   | (Some h, m) \<Rightarrow> \<exists>pre post. bs = pre @ h # post \<and> (\<forall>b \<in> set pre. bid_amount b < bid_amount h)
        \<and> (\<forall>b \<in> set post. bid_amount b \<le> bid_amount h) \<and> m = top_amount (pre @ post))"

lemma scan_step: "scan_ok bs acc \<Longrightarrow> scan_ok (bs @ [b]) (vickrey_step b acc)"
proof (cases acc)
  case (Pair h m)
  assume ok: "scan_ok bs acc"
  show ?thesis
  proof (cases h)
    case None
    with ok Pair show ?thesis by (auto simp: scan_ok_def vickrey_step_def intro!: exI [of _ "[]"])
  next
    case (Some best)
    with ok Pair obtain pre post where bs: "bs = pre @ best # post"
      and pre: "\<forall>b \<in> set pre. bid_amount b < bid_amount best"
      and post: "\<forall>b \<in> set post. bid_amount b \<le> bid_amount best" and m: "m = top_amount (pre @ post)"
      by (auto simp: scan_ok_def)
    have all: "x \<in> set bs \<Longrightarrow> bid_amount x \<le> bid_amount best" for x
      using pre post bs by fastforce
    show ?thesis
    proof (cases "bid_amount b > bid_amount best")
      case True
      have "bid_amount best = top_amount bs"
        using top_amount_unique [of bs "bid_amount best" best] all bs by simp
      moreover have "\<forall>x \<in> set bs. bid_amount x < bid_amount b" using all True by fastforce
      moreover have "scan_ok (bs @ [b]) (Some b, top_amount bs)"
        unfolding scan_ok_def prod.case option.case
        by (rule exI [of _ bs], rule exI [of _ "[]"]) (use calculation in simp)
      ultimately show ?thesis using Pair Some True by (simp add: vickrey_step_def)
    next
      case False
      have top: "top_amount (pre @ post @ [b]) = max (bid_amount b) m"
        using top_amount_snoc [of "pre @ post" b] by (simp add: m)
      have "scan_ok (bs @ [b]) (Some best, max (bid_amount b) m)"
        unfolding scan_ok_def prod.case option.case
        by (rule exI [of _ pre], rule exI [of _ "post @ [b]"]) (use top bs pre post False in \<open>auto simp: not_less\<close>)
      then show ?thesis using Pair Some False by (auto simp: vickrey_step_def max_def split: if_splits)
    qed
  qed
qed

lemma scan_fold: "scan_ok bs (fold vickrey_step bs (None, 0))"
proof (induction bs rule: rev_induct)
  case Nil
  show ?case by (simp add: scan_ok_def)
next
  case (snoc b bs)
  then show ?case using scan_step by simp
qed

lemma vickrey_cases:
  assumes "au_bids a \<noteq> []"
  obtains pre h post where "au_bids a = pre @ h # post" "\<forall>b \<in> set pre. bid_amount b < bid_amount h"
    "\<forall>b \<in> set post. bid_amount b \<le> bid_amount h"
    "settle_vickrey a t = Some (if bid_amount h < au_reserve_price a
       then \<lparr>st_winner = None, st_clearing_price = 0, st_winning_bid = bid_amount h, st_settled_at = t, st_sold = False\<rparr>
       else \<lparr>st_winner = Some (bid_bidder h), st_clearing_price = max (top_amount (pre @ post)) (au_reserve_price a),
             st_winning_bid = bid_amount h, st_settled_at = t, st_sold = True\<rparr>)"
proof -
  obtain h m where fold: "fold vickrey_step (au_bids a) (None, 0) = (h, m)" by fastforce
  with scan_fold [of "au_bids a"] assms obtain best where h: "h = Some best"
    by (cases h) (auto simp: scan_ok_def)
  from scan_fold [of "au_bids a"] fold h obtain pre post where bs: "au_bids a = pre @ best # post"
    "\<forall>b \<in> set pre. bid_amount b < bid_amount best" "\<forall>b \<in> set post. bid_amount b \<le> bid_amount best"
    "m = top_amount (pre @ post)" by (auto simp: scan_ok_def)
  moreover have "settle_vickrey a t = Some (if bid_amount best < au_reserve_price a
       then \<lparr>st_winner = None, st_clearing_price = 0, st_winning_bid = bid_amount best, st_settled_at = t, st_sold = False\<rparr>
       else \<lparr>st_winner = Some (bid_bidder best), st_clearing_price = max m (au_reserve_price a),
             st_winning_bid = bid_amount best, st_settled_at = t, st_sold = True\<rparr>)"
    using assms fold h by (auto simp: settle_vickrey_def Let_def max_def)
  ultimately show ?thesis using that by blast
qed

lemma vickrey_None: "settle_vickrey a t = None \<longleftrightarrow> au_bids a = []"
proof (cases "au_bids a = []")
  case False
  then show ?thesis by (rule vickrey_cases [of a t]) simp
qed (simp add: settle_vickrey_def)

section \<open>The sorting reference\<close>

abbreviation (input) by_amount :: "text_bid \<Rightarrow> int" where
  "by_amount \<equiv> \<lambda>b. - uint (tb_amount b)"

definition text_of :: "bid \<Rightarrow> text_bid" where
  "text_of b = bid_new (strkey (bid_bidder b)) (bid_amount b) (bid_placed_at b)"

lemma text_of_simps [simp]:
  "tb_amount (text_of b) = bid_amount b" "tb_bidder (text_of b) = strkey (bid_bidder b)"
  "tb_placed_at (text_of b) = bid_placed_at b"
  by (simp_all add: text_of_def bid_new_def)

text \<open>A stable sort starts with the first of the highest, and goes on with one of the highest of the others.\<close>

lemma sorted_head:
  assumes "bs = pre @ h # post" and "\<forall>b \<in> set pre. bid_amount b < bid_amount h"
    and "\<forall>b \<in> set post. bid_amount b \<le> bid_amount h"
  obtains rest where "sort_key by_amount (map text_of bs) = text_of h # rest"
    "mset rest = mset (map text_of (pre @ post))"
proof -
  let ?xs = "map text_of bs"
  let ?k = "by_amount (text_of h)"
  have "length (sort_key by_amount ?xs) = length bs" by simp
  then obtain x rest where s: "sort_key by_amount ?xs = x # rest"
    using assms(1) by (cases "sort_key by_amount ?xs") (metis append_is_Nil_conv length_0_conv list.distinct(1))+
  have least: "?k \<le> by_amount y" if "y \<in> set ?xs" for y
    using that assms by (auto simp: word_le_def word_less_def)
  have "text_of h \<in> set (x # rest)" using assms(1) by (simp flip: s)
  moreover have "sorted (map by_amount (x # rest))" unfolding s [symmetric] by (rule sorted_sort_key)
  ultimately have "by_amount x \<le> ?k" by auto
  moreover have "x \<in> set ?xs" by (metis list.set_intros(1) s set_sort)
  ultimately have k: "by_amount x = ?k" using least by (simp add: order_antisym)
  have "filter (\<lambda>y. by_amount y = ?k) (map text_of pre) = []"
    using assms(2) by (auto simp: filter_empty_conv word_less_def)
  then have "filter (\<lambda>y. by_amount y = ?k) ?xs = text_of h # filter (\<lambda>y. by_amount y = ?k) (map text_of post)"
    using assms(1) by simp
  moreover have "filter (\<lambda>y. by_amount y = ?k) (x # rest) = filter (\<lambda>y. by_amount y = ?k) ?xs"
    unfolding s [symmetric] by (rule sort_key_stable)
  ultimately have x: "x = text_of h" using k by simp
  have "mset (x # rest) = mset ?xs" unfolding s [symmetric] by simp
  then have "mset rest = mset (map text_of (pre @ post))" by (simp add: x assms(1))
  with that s x show ?thesis by blast
qed

lemma sorted_second:
  assumes "mset rest = mset (map text_of others)" and "sorted (map by_amount (x # rest))"
  shows "(case rest of [] \<Rightarrow> r | second # _ \<Rightarrow> max (tb_amount second) r) = max (top_amount others) r"
proof (cases rest)
  case Nil
  with assms(1) have "size (mset (map text_of others)) = 0" by (metis size_mset list.size(3))
  then have "others = []" by simp
  then show ?thesis by (simp add: Nil max.absorb2)
next
  case (Cons y ys)
  have set: "set rest = text_of ` set others" using mset_eq_setD [OF assms(1)] by simp
  have "y \<in> text_of ` set others" using set Cons by auto
  then obtain b where b: "b \<in> set others" "y = text_of b" by blast
  have "bid_amount c \<le> tb_amount y" if "c \<in> set others" for c
  proof -
    have "text_of c \<in> set (y # ys)" using set Cons that by auto
    moreover have "\<forall>z \<in> set ys. by_amount y \<le> by_amount z" using assms(2) Cons by simp
    ultimately have "by_amount y \<le> by_amount (text_of c)" by auto
    then show ?thesis by (simp add: word_le_def)
  qed
  then have "top_amount others = tb_amount y"
    by (rule top_amount_unique [OF _ b(1)]) (simp_all add: b(2))
  then show ?thesis unfolding Cons by (simp only: list.case)
qed

text \<open>The settlement of the contract, with the winner as a text.\<close>

definition text_settlement_of :: "settlement \<Rightarrow> text_settlement" where
  "text_settlement_of st = \<lparr>ts_winner = map_option strkey (st_winner st), ts_clearing_price = st_clearing_price st,
     ts_winning_bid = st_winning_bid st, ts_settled_at = st_settled_at st, ts_sold = st_sold st\<rparr>"

lemma vickrey_sorted:
  assumes valid: "\<forall>b \<in> set (au_bids a). bid_is_valid (text_of b) \<and> bid_placed_at b \<le> deadline"
  shows "settle_vickrey_sorted (map text_of (au_bids a)) (au_reserve_price a) deadline t =
    map_option text_settlement_of (settle_vickrey a t)"
proof (cases "au_bids a = []")
  case True
  then show ?thesis by (simp add: settle_vickrey_sorted_def settle_vickrey_def)
next
  case False
  have all: "filter (\<lambda>b. bid_is_valid b \<and> tb_placed_at b \<le> deadline) (map text_of (au_bids a)) = map text_of (au_bids a)"
    using valid by (simp add: filter_id_conv)
  show ?thesis
  proof (rule vickrey_cases [OF False, of t])
    fix pre h post
    assume bs: "au_bids a = pre @ h # post" "\<forall>b \<in> set pre. bid_amount b < bid_amount h"
      "\<forall>b \<in> set post. bid_amount b \<le> bid_amount h"
      and st: "settle_vickrey a t = Some (if bid_amount h < au_reserve_price a
       then \<lparr>st_winner = None, st_clearing_price = 0, st_winning_bid = bid_amount h, st_settled_at = t, st_sold = False\<rparr>
       else \<lparr>st_winner = Some (bid_bidder h), st_clearing_price = max (top_amount (pre @ post)) (au_reserve_price a),
             st_winning_bid = bid_amount h, st_settled_at = t, st_sold = True\<rparr>)"
    obtain rest where rest: "sort_key by_amount (map text_of (au_bids a)) = text_of h # rest"
      "mset rest = mset (map text_of (pre @ post))" using sorted_head [OF bs] by blast
    have "sorted (map by_amount (text_of h # rest))" unfolding rest(1) [symmetric] by (rule sorted_sort_key)
    note second = sorted_second [OF rest(2) this]
    show ?thesis
      unfolding settle_vickrey_sorted_def all Let_def rest(1) st
      by (simp add: second text_settlement_of_def)
  qed
qed

section \<open>Payouts\<close>

text \<open>The transfers of a settlement as a list of recipients and amounts, and their execution in order.\<close>

fun run_transfers :: "'w invoke \<Rightarrow> env \<Rightarrow> address \<Rightarrow> (address \<times> u64) list \<Rightarrow> 'w \<Rightarrow> 'w option" where
  "run_transfers call e asset [] w = Some w"
| "run_transfers call e asset ((recipient, amount) # orders) w =
     (case token_transfer call e asset (env_self e) recipient amount w of
        None \<Rightarrow> None
      | Some w' \<Rightarrow> run_transfers call e asset orders w')"

definition refunds :: "bid list \<Rightarrow> (address \<times> u64) list" where
  "refunds bs = map (\<lambda>b. (bid_bidder b, bid_amount b)) bs"

definition winner_orders :: "address \<Rightarrow> u64 \<Rightarrow> bid \<Rightarrow> (address \<times> u64) list" where
  "winner_orders treasury price b =
     (if bid_amount b > price then [(bid_bidder b, bid_amount b - price)] else [])
     @ (if price > 0 then [(treasury, price)] else [])"

lemma run_transfers_append:
  "run_transfers call e asset (xs @ ys) w =
     (case run_transfers call e asset xs w of None \<Rightarrow> None | Some w' \<Rightarrow> run_transfers call e asset ys w')"
  by (induction xs arbitrary: w) (auto split: option.split)

lemma pay_out_refunds:
  assumes "\<And>b. b \<in> set bs \<Longrightarrow> \<not> (st_sold st \<and> bid_amount b = st_winning_bid st \<and> \<not> paid)"
  shows "pay_out call e a st paid (bs @ rest) w =
    (case run_transfers call e (au_asset a) (refunds bs) w of None \<Rightarrow> None | Some w' \<Rightarrow> pay_out call e a st paid rest w')"
  using assms by (induction bs arbitrary: w) (auto simp: refunds_def split: option.split)

lemma sat_sub_order: "p \<le> m \<Longrightarrow> sat_sub m p = m - p" "(0 < m - p) = (p < m)" if "p \<le> m" for m p :: "'a::len word"
  using that by (auto simp: sat_sub_def word_less_nat_alt word_le_nat_alt unat_sub)

lemma pay_out_winner:
  assumes "st_sold st" "st_winner st = Some (bid_bidder b)" "bid_amount b = st_winning_bid st"
    and "st_clearing_price st \<le> bid_amount b"
  shows "pay_out call e a st False (b # rest) w =
    (case run_transfers call e (au_asset a) (winner_orders (au_treasury a) (st_clearing_price st) b) w of
       None \<Rightarrow> None | Some w' \<Rightarrow> pay_out call e a st True rest w')"
  using assms sat_sub_order [OF assms(4)]
  by (auto simp: winner_orders_def Let_def split: option.split)

definition payout_orders :: "auction \<Rightarrow> settlement \<Rightarrow> (address \<times> u64) list" where
  "payout_orders a st =
     (if st_sold st
      then let pre = takeWhile (\<lambda>b. bid_amount b < st_winning_bid st) (au_bids a);
               rest = dropWhile (\<lambda>b. bid_amount b < st_winning_bid st) (au_bids a)
           in refunds pre @ winner_orders (au_treasury a) (st_clearing_price st) (hd rest) @ refunds (tl rest)
      else refunds (au_bids a))"

text \<open>What \<open>settle_vickrey\<close> guarantees about its result.\<close>

definition vickrey_ok :: "auction \<Rightarrow> u64 \<Rightarrow> settlement \<Rightarrow> bool" where
  "vickrey_ok a t st \<longleftrightarrow> st_settled_at st = t \<and> (\<exists>pre h post. au_bids a = pre @ h # post
     \<and> (\<forall>b \<in> set pre. bid_amount b < bid_amount h) \<and> (\<forall>b \<in> set post. bid_amount b \<le> bid_amount h)
     \<and> st_winning_bid st = bid_amount h
     \<and> (if bid_amount h < au_reserve_price a
        then \<not> st_sold st \<and> st_winner st = None \<and> st_clearing_price st = 0
        else st_sold st \<and> st_winner st = Some (bid_bidder h)
          \<and> st_clearing_price st = max (top_amount (pre @ post)) (au_reserve_price a)
          \<and> st_clearing_price st \<le> bid_amount h))"

lemma vickrey_is_ok: "settle_vickrey a t = Some st \<Longrightarrow> vickrey_ok a t st"
proof -
  assume st: "settle_vickrey a t = Some st"
  then have ne: "au_bids a \<noteq> []" by (auto simp: settle_vickrey_def)
  show ?thesis
  proof (rule vickrey_cases [OF ne, of t])
    fix pre h post
    assume bs: "au_bids a = pre @ h # post" "\<forall>b \<in> set pre. bid_amount b < bid_amount h"
      "\<forall>b \<in> set post. bid_amount b \<le> bid_amount h"
      and eq: "settle_vickrey a t = Some (if bid_amount h < au_reserve_price a
       then \<lparr>st_winner = None, st_clearing_price = 0, st_winning_bid = bid_amount h, st_settled_at = t, st_sold = False\<rparr>
       else \<lparr>st_winner = Some (bid_bidder h), st_clearing_price = max (top_amount (pre @ post)) (au_reserve_price a),
             st_winning_bid = bid_amount h, st_settled_at = t, st_sold = True\<rparr>)"
    have "top_amount (pre @ post) \<le> bid_amount h" using bs by (intro top_amount_le) fastforce
    then show ?thesis
      using st eq bs unfolding vickrey_ok_def
      by (intro conjI exI [of _ pre] exI [of _ h] exI [of _ post]) (auto split: if_splits)
  qed
qed

lemma pay_out_orders:
  assumes "vickrey_ok a t st"
  shows "pay_out call e a st False (au_bids a) w = run_transfers call e (au_asset a) (payout_orders a st) w"
proof -
  from assms obtain pre h post where bs: "au_bids a = pre @ h # post"
    and pre: "\<forall>b \<in> set pre. bid_amount b < bid_amount h" and win: "st_winning_bid st = bid_amount h"
    and res: "if bid_amount h < au_reserve_price a
        then \<not> st_sold st \<and> st_winner st = None \<and> st_clearing_price st = 0
        else st_sold st \<and> st_winner st = Some (bid_bidder h)
          \<and> st_clearing_price st = max (top_amount (pre @ post)) (au_reserve_price a)
          \<and> st_clearing_price st \<le> bid_amount h"
    by (auto simp: vickrey_ok_def)
  show ?thesis
  proof (cases "st_sold st")
    case False
    then show ?thesis
      using pay_out_refunds [of "au_bids a" st False call e a "[]" w]
      by (simp add: payout_orders_def split: option.split)
  next
    case True
    then have sold: "st_winner st = Some (bid_bidder h)" "st_clearing_price st \<le> bid_amount h"
      using res by (auto split: if_splits)
    have "payout_orders a st = refunds pre @ winner_orders (au_treasury a) (st_clearing_price st) h @ refunds post"
      using True pre win by (simp add: payout_orders_def bs Let_def takeWhile_append dropWhile_append)
    moreover have "pay_out call e a st True post w = run_transfers call e (au_asset a) (refunds post) w" for w
      using pay_out_refunds [of post st True call e a "[]" w] by (simp split: option.split)
    moreover have "pay_out call e a st False (pre @ h # post) w = (case run_transfers call e (au_asset a) (refunds pre) w of
        None \<Rightarrow> None | Some w' \<Rightarrow> pay_out call e a st False (h # post) w')"
      using pre win by (intro pay_out_refunds) fastforce
    ultimately show ?thesis
      using pay_out_winner [OF True sold(1) win [symmetric] sold(2), of call e a]
      by (simp add: bs run_transfers_append del: pay_out.simps split: option.split)
  qed
qed

definition order_total :: "(address \<times> u64) list \<Rightarrow> nat" where
  "order_total orders = sum_list (map (\<lambda>(a, m). unat m) orders)"

lemma order_total_append [simp]: "order_total (xs @ ys) = order_total xs + order_total ys"
  by (simp add: order_total_def)

lemma order_total_refunds [simp]: "order_total (refunds bs) = sum_list (map (\<lambda>b. unat (bid_amount b)) bs)"
  by (simp add: order_total_def refunds_def comp_def)

lemma order_total_winner:
  assumes "p \<le> bid_amount b"
  shows "order_total (winner_orders treasury p b) = unat (bid_amount b)"
  using assms by (auto simp: order_total_def winner_orders_def unat_sub word_le_nat_alt word_less_nat_alt
      unat_eq_0 [symmetric] simp del: unat_eq_0)

lemma payouts_conserved:
  assumes "vickrey_ok a t st"
  shows "order_total (payout_orders a st) = sum_list (map (\<lambda>b. unat (bid_amount b)) (au_bids a))"
proof (cases "st_sold st")
  case True
  with assms obtain pre h post where bs: "au_bids a = pre @ h # post"
    and pre: "\<forall>b \<in> set pre. bid_amount b < bid_amount h" and win: "st_winning_bid st = bid_amount h"
    and le: "st_clearing_price st \<le> bid_amount h"
    by (auto simp: vickrey_ok_def split: if_splits)
  have "payout_orders a st = refunds pre @ winner_orders (au_treasury a) (st_clearing_price st) h @ refunds post"
    using True pre win by (simp add: payout_orders_def bs Let_def takeWhile_append dropWhile_append)
  then show ?thesis by (simp add: order_total_winner [OF le] bs)
qed (simp add: payout_orders_def)

section \<open>Listings are slices\<close>

lemma page_bound: "unat (capped limit) = min (unat limit) 100"
  by (auto simp: capped_def MAX_PAGE_SIZE_def word_less_nat_alt)

lemma drop_take_nth: "i < length xs \<Longrightarrow> drop i xs = xs ! i # drop (Suc i) xs"
  by (simp add: Cons_nth_drop_Suc)

lemma slice_loop_take:
  assumes "length index < 2 ^ 32" and "offset \<le> i" and "unat i \<le> length index"
  shows "slice_loop index offset c i out = out @ take (unat c - (unat i - unat offset)) (drop (unat i) index)"
  using assms
proof (induction index offset c i out rule: slice_loop.induct)
  case (1 index offset c i out)
  have len: "unat (vec_len index) = length index" using "1.prems"(1) by (rule unat_vec_len)
  have diff: "unat (i - offset) = unat i - unat offset" using "1.prems"(2) by (rule unat_sub)
  show ?case
  proof (cases "i < vec_len index \<and> i - offset < c")
    case True
    then have lt: "unat i < length index" "unat i - unat offset < unat c"
      using len diff by (simp_all add: word_less_nat_alt)
    have suc: "unat (i + 1) = Suc (unat i)" using True word_Suc_lt by blast
    have "slice_loop index offset c (i + 1) (out @ [index ! unat i]) =
        (out @ [index ! unat i]) @ take (unat c - (unat (i + 1) - unat offset)) (drop (unat (i + 1)) index)"
      using "1.IH" True lt "1.prems" suc by (simp add: vec_get_def word_le_nat_alt)
    moreover have "unat c - (unat i - unat offset) = Suc (unat c - (Suc (unat i) - unat offset))"
      using lt "1.prems"(2) by (simp add: word_le_nat_alt)
    ultimately show ?thesis
      using True lt by (subst slice_loop.simps) (simp add: vec_get_def suc drop_take_nth)
  next
    case False
    then have "unat i = length index \<or> unat c \<le> unat i - unat offset"
      using "1.prems"(3) len diff by (auto simp: word_less_nat_alt)
    with False show ?thesis by (subst slice_loop.simps) auto
  qed
qed

lemma slice_index_take:
  assumes "length index < 2 ^ 32"
  shows "slice_index index offset limit = take (min (unat limit) 100) (drop (unat offset) index)"
  using slice_loop_take [OF assms, of offset offset "capped limit" "[]"] unat_vec_len [OF assms]
  by (auto simp: slice_index_def page_bound word_le_nat_alt word_less_nat_alt not_le)

lemma filter_loop_take:
  assumes "length names + unat matched < 2 ^ 32" and "length emitted < 2 ^ 32 - 1"
    and "unat matched \<le> unat offset \<and> emitted = [] \<or> unat offset \<le> unat matched"
  shows "filter_loop keep offset c matched emitted names =
    emitted @ take (unat c - length emitted) (drop (unat offset - unat matched) (filter keep names))"
  using assms
proof (induction names arbitrary: matched emitted)
  case (Cons n ns)
  have lene: "unat (vec_len emitted) = length emitted" using Cons.prems(2) by (intro unat_vec_len) simp
  show ?case
  proof (cases "keep n")
    case False
    then show ?thesis using Cons by simp
  next
    case True
    have suc: "unat (matched + 1) = Suc (unat matched)"
      using Cons.prems(1) by (simp add: unat_word_ariths)
    consider (skip) "unat matched < unat offset" | (full) "unat offset \<le> unat matched" "unat c \<le> length emitted"
      | (take1) "unat offset \<le> unat matched" "length emitted < unat c" by linarith
    then show ?thesis
    proof cases
      case skip
      then have e: "emitted = []" using Cons.prems(3) by auto
      show ?thesis
      proof (cases "unat c = 0")
        case True
        then show ?thesis
          using \<open>keep n\<close> skip e by (simp add: Let_def word_le_nat_alt vec_len_def)
      next
        case False
        have "unat offset - unat matched = Suc (unat offset - unat (matched + 1))" using skip suc by simp
        then show ?thesis
          using \<open>keep n\<close> skip e False Cons.IH [of "matched + 1" "[]"] Cons.prems suc
          by (simp add: Let_def word_le_nat_alt vec_len_def)
      qed
    next
      case full
      then show ?thesis
        using \<open>keep n\<close> lene by (simp add: Let_def word_le_nat_alt word_less_nat_alt)
    next
      case take1
      have c: "unat c < 2 ^ 32" using unsigned_less [of c] by simp
      have lene1: "unat (vec_len (emitted @ [n])) = Suc (length emitted)"
        using Cons.prems(2) by (subst unat_vec_len) simp_all
      show ?thesis
      proof (cases "unat c = Suc (length emitted)")
        case True
        then show ?thesis
          using \<open>keep n\<close> take1 lene lene1 by (simp add: Let_def word_le_nat_alt word_less_nat_alt)
      next
        case False
        then have len: "length (emitted @ [n]) < 2 ^ 32 - 1" using take1 c by simp
        have "filter_loop keep offset c (matched + 1) (emitted @ [n]) ns =
            (emitted @ [n]) @ take (unat c - length (emitted @ [n])) (drop (unat offset - unat (matched + 1)) (filter keep ns))"
          by (rule Cons.IH) (use Cons.prems suc take1 len in simp_all)
        moreover have "unat c - length emitted = Suc (unat c - Suc (length emitted))" using take1 by simp
        ultimately show ?thesis
          using \<open>keep n\<close> take1 lene lene1 False suc
          by (simp add: Let_def word_le_nat_alt word_less_nat_alt)
      qed
    qed
  qed
qed simp

lemma filter_index_take:
  assumes "length (auction_index s) < 2 ^ 32"
  shows "filter_index s offset limit keep =
    take (min (unat limit) 100) (drop (unat offset) (filter keep (auction_index s)))"
  using filter_loop_take [of "auction_index s" 0 "[]" offset keep "capped limit"] assms
  by (simp add: filter_index_def page_bound)

section \<open>Commands and the invariant\<close>

datatype auction_command =
    AcInitialize address
  | AcUpgrade "u8 list" "u8 list"
  | AcCreate string address address u64 u64 u64
  | AcBid string address u64 u64
  | AcSettle string u64

definition ah_locally :: "(auction_error, auction_house) result \<Rightarrow> 'w \<Rightarrow> (auction_error, auction_house \<times> 'w) result" where
  "ah_locally r w = (case r of Inl err \<Rightarrow> Inl err | Inr s' \<Rightarrow> Inr (s', w))"

lemma ah_locally_iff [simp]: "ah_locally r w = Inr (s', w') \<longleftrightarrow> r = Inr s' \<and> w' = w"
  by (auto simp: ah_locally_def bind_Inr_iff)

fun auction_exec ::
    "'w invoke \<Rightarrow> env \<Rightarrow> auction_command \<Rightarrow> auction_house \<times> 'w \<Rightarrow> (auction_error, auction_house \<times> 'w) result" where
  "auction_exec call e (AcInitialize a) (s, w) = ah_locally (auction_initialize a s) w"
| "auction_exec call e (AcUpgrade h d) (s, w) = ah_locally (auction_upgrade e h d s) w"
| "auction_exec call e (AcCreate n asset tr r b f) (s, w) = ah_locally (create_auction e n asset tr r b f s) w"
| "auction_exec call e (AcBid n c m t) sw = place_bid call e n c m t sw"
| "auction_exec call e (AcSettle n t) sw =
     (case settle call e n t sw of Inl err \<Rightarrow> Inl err | Inr (r, sw') \<Rightarrow> Inr sw')"

inductive auction_reachable :: "'w invoke \<Rightarrow> auction_house \<times> 'w \<Rightarrow> bool" for call where
  start: "auction_reachable call (auction_empty, w)"
| command: "auction_reachable call (s, w) \<Longrightarrow> auction_exec call e cmd (s, w) = Inr (s', w')
     \<Longrightarrow> auction_reachable call (s', w')"
| others: "auction_reachable call (s, w) \<Longrightarrow> auction_reachable call (s, w')"

lemma lock_iff:
  "with_reentrancy_lock f (s, w) = Inr (s', w') \<longleftrightarrow> ah_lock s \<noteq> Some True
     \<and> (\<exists>s1. f (s\<lparr>ah_lock := Some True\<rparr>, w) = Inr (s1, w') \<and> s' = s1\<lparr>ah_lock := Some False\<rparr>)"
  by (auto simp: with_reentrancy_lock_def split: sum.splits option.splits if_splits)

lemma bid_cases:
  assumes "place_bid call e n c m t (s, w) = Inr (s', w')"
  obtains a where "require_auth e c" "m \<noteq> 0" "ah_auctions s n = Some a" "ah_settlements s n = None"
    "au_starts_at a \<le> t" "t \<le> au_ends_at a" "ah_lock s \<noteq> Some True"
    "token_transfer call e (au_asset a) c (env_self e) m w = Some w'"
    "s' = (put_auction s n (a\<lparr>au_bids := au_bids a @
       [\<lparr>bid_bidder = c, bid_amount = m, bid_placed_at = t\<rparr>]\<rparr>))\<lparr>ah_lock := Some False\<rparr>"
proof -
  let ?s1 = "s\<lparr>ah_lock := Some True\<rparr>"
  from assms obtain s1 where lock: "ah_lock s \<noteq> Some True" and s': "s' = s1\<lparr>ah_lock := Some False\<rparr>"
    and body: "(if \<not> require_auth e c then Inl Trap
      else if m = 0 then Inl (Err InvalidBid)
      else case get_auction ?s1 n of Inl err \<Rightarrow> Inl err | Inr a \<Rightarrow>
      (if ah_settlements ?s1 n \<noteq> None then Inl (Err AlreadySettled)
       else if \<not> is_time_window_open t (au_starts_at a) (au_ends_at a)
       then (if t < au_starts_at a then Inl (Err AuctionNotStarted) else Inl (Err AuctionClosed))
       else case token_transfer call e (au_asset a) c (env_self e) m w of
           None \<Rightarrow> Inl Trap
         | Some w' \<Rightarrow> Inr (put_auction ?s1 n (a\<lparr>au_bids := au_bids a @
                    [\<lparr>bid_bidder = c, bid_amount = m, bid_placed_at = t\<rparr>]\<rparr>), w')))
      = (Inr (s1, w') :: (auction_error, auction_house \<times> 'a) result)"
    unfolding place_bid_def lock_iff prod.case by blast
  from body obtain a where a: "require_auth e c" "m \<noteq> 0" "ah_auctions s n = Some a" "ah_settlements s n = None"
    "au_starts_at a \<le> t" "t \<le> au_ends_at a"
    "token_transfer call e (au_asset a) c (env_self e) m w = Some w'"
    "s1 = put_auction ?s1 n (a\<lparr>au_bids := au_bids a @ [\<lparr>bid_bidder = c, bid_amount = m, bid_placed_at = t\<rparr>]\<rparr>)"
    by (auto simp: get_auction_def is_time_window_open_def split: if_split_asm option.split_asm)
  show ?thesis
    by (rule that [OF a(1-6) lock a(7)]) (simp add: s' a(8) put_auction_def)
qed

lemma settle_cases:
  assumes "settle call e n t (s, w) = Inr (r, s', w')"
  obtains (nobid) a where "ah_auctions s n = Some a" "ah_settlements s n = None" "au_ends_at a \<le> t"
      "au_bids a = []" "r = None" "s' = s" "w' = w"
  | (bids) a st where "ah_auctions s n = Some a" "ah_settlements s n = None" "au_ends_at a \<le> t"
      "settle_vickrey a t = Some st" "r = Some st"
      "run_transfers call e (au_asset a) (payout_orders a st) w = Some w'"
      "s' = s\<lparr>ah_settlements := (ah_settlements s)(n \<mapsto> st)\<rparr>"
proof -
  from assms obtain a where a: "ah_auctions s n = Some a"
    by (cases "ah_auctions s n") (auto simp: settle_def get_auction_def)
  moreover have "ah_settlements s n = None \<and> au_ends_at a \<le> t"
    using assms a by (cases "ah_settlements s n"; cases "t < au_ends_at a"; simp add: settle_def get_auction_def not_less)
  ultimately have a: "ah_auctions s n = Some a" "ah_settlements s n = None" "au_ends_at a \<le> t" by auto
  then have due: "\<not> t < au_ends_at a" by simp
  show ?thesis
  proof (cases "settle_vickrey a t")
    case None
    have "au_bids a = []" using vickrey_None None by simp
    moreover from assms a due None have "r = None" "s' = s" "w' = w"
      by (auto simp: settle_def get_auction_def Let_def)
    ultimately show ?thesis by (rule that(1) [OF a])
  next
    case (Some st)
    with assms a due have "(case pay_out call e a st False (au_bids a) w of None \<Rightarrow> Inl Trap
        | Some w' \<Rightarrow> Inr (Some st, s\<lparr>ah_settlements := (ah_settlements s)(n \<mapsto> st)\<rparr>, w')) =
        (Inr (r, s', w') :: (auction_error, settlement option \<times> auction_house \<times> 'a) result)"
      by (auto simp: settle_def get_auction_def Let_def split: option.split_asm)
    then show ?thesis
      using that(2) [OF a Some] pay_out_orders [OF vickrey_is_ok [OF Some], of call e w]
      by (auto split: option.splits)
  qed
qed

definition auction_ok :: "string \<Rightarrow> auction \<Rightarrow> bool" where
  "auction_ok n a \<longleftrightarrow> au_name a = n \<and> validate_fqdn_soroban n = Inr ()
     \<and> (\<forall>b \<in> set (au_bids a). bid_amount b \<noteq> 0 \<and> au_starts_at a \<le> bid_placed_at b \<and> bid_placed_at b \<le> au_ends_at a)"

definition auction_inv :: "auction_house \<Rightarrow> bool" where
  "auction_inv s \<longleftrightarrow> distinct (auction_index s) \<and> set (auction_index s) = dom (ah_auctions s)
     \<and> (\<forall>n a. ah_auctions s n = Some a \<longrightarrow> auction_ok n a)
     \<and> (\<forall>n st. ah_settlements s n = Some st \<longrightarrow> (\<exists>a. ah_auctions s n = Some a
          \<and> settle_vickrey a (st_settled_at st) = Some st \<and> au_ends_at a \<le> st_settled_at st))
     \<and> ah_lock s \<noteq> Some True"

lemma auction_inv_empty: "auction_inv auction_empty"
  by (simp add: auction_inv_def auction_empty_def auction_index_def)

lemma auction_index_frames [simp]:
  "auction_index (s\<lparr>ah_settlements := x\<rparr>) = auction_index s" "auction_index (s\<lparr>ah_lock := l\<rparr>) = auction_index s"
  "auction_index (put_auction s n a) = auction_index s" "auction_index (s\<lparr>ah_auctions := y\<rparr>) = auction_index s"
  "auction_index (ah_emit ev s) = auction_index s" "auction_index (s\<lparr>ah_names := Some ns\<rparr>) = ns"
  "auction_index (s\<lparr>ah_admin := z, ah_contract_version := v\<rparr>) = auction_index s"
  "auction_index (s\<lparr>ah_contract_version := v, ah_wasm := h\<rparr>) = auction_index s"
  by (simp_all add: auction_index_def put_auction_def ah_emit_def)

lemma put_auction_simps [simp]:
  "ah_auctions (put_auction s n a) = (ah_auctions s)(n \<mapsto> a)" "ah_settlements (put_auction s n a) = ah_settlements s"
  "ah_lock (put_auction s n a) = ah_lock s"
  by (simp_all add: put_auction_def)

lemma bid_inv:
  assumes step: "place_bid call e n c m t (s, w) = Inr (s', w')" and inv: "auction_inv s"
  shows "auction_inv s'"
  using step
proof (rule bid_cases)
  fix a :: auction
  let ?a = "a\<lparr>au_bids := au_bids a @ [\<lparr>bid_bidder = c, bid_amount = m, bid_placed_at = t\<rparr>]\<rparr>"
  assume a: "ah_auctions s n = Some a" "ah_settlements s n = None" "m \<noteq> 0" "au_starts_at a \<le> t" "t \<le> au_ends_at a"
    and s': "s' = (put_auction s n ?a)\<lparr>ah_lock := Some False\<rparr>"
  have "auction_ok n ?a" using inv a by (auto simp: auction_inv_def auction_ok_def)
  moreover have "dom (ah_auctions s') = dom (ah_auctions s)" using a(1) by (auto simp: s')
  moreover have "ah_auctions s k = Some b \<Longrightarrow> k \<noteq> n \<Longrightarrow> ah_auctions s' k = Some b" for k b by (simp add: s')
  ultimately show ?thesis
    using inv a(2) unfolding auction_inv_def by (simp add: s')
qed

lemma settle_inv:
  assumes step: "settle call e n t (s, w) = Inr (r, s', w')" and inv: "auction_inv s"
  shows "auction_inv s'"
  using step
proof (cases rule: settle_cases)
  case (bids a st)
  have "st_settled_at st = t" using vickrey_is_ok [OF bids(4)] by (simp add: vickrey_ok_def)
  then show ?thesis using inv bids by (auto simp: auction_inv_def)
qed (use inv in simp)

lemma auction_exec_inv:
  assumes exec: "auction_exec call e cmd (s, w) = Inr (s', w')" and inv: "auction_inv s"
  shows "auction_inv s'"
proof (cases cmd)
  case (AcBid n c m t)
  with exec inv show ?thesis by (auto intro: bid_inv)
next
  case (AcSettle n t)
  with exec obtain r where "settle call e n t (s, w) = Inr (r, s', w')"
    by (cases "settle call e n t (s, w)") auto
  then show ?thesis using inv by (rule settle_inv)
next
  case (AcCreate n asset tr r b f)
  with exec have new: "validate_fqdn_soroban n = Inr ()" "ah_auctions s n = None"
    and s': "s' = s\<lparr>ah_auctions := (ah_auctions s)(n \<mapsto> \<lparr>au_name = n, au_reserve_price = r, au_starts_at = b,
        au_ends_at = f, au_bids = [], au_asset = asset, au_treasury = tr\<rparr>), ah_names := Some (auction_index s @ [n])\<rparr>"
    by (auto simp: create_auction_def bind_Inr_iff guard_Inr_iff Let_def split: option.splits)
  have "n \<notin> set (auction_index s)" "ah_settlements s n = None"
    using inv new(2) unfolding auction_inv_def by (blast, metis option.distinct(1) option.exhaust)
  then show ?thesis
    using inv new unfolding auction_inv_def s' by (auto simp: auction_ok_def)
qed (use exec inv in \<open>auto simp: auction_inv_def auction_initialize_def auction_upgrade_def ah_emit_def Let_def
      auction_index_def split: outcome_splits\<close>)

lemma auction_reachable_inv: "auction_reachable call sw \<Longrightarrow> auction_inv (fst sw)"
  by (induction rule: auction_reachable.induct) (auto simp: auction_inv_empty intro: auction_exec_inv)

end
