(* ===== verification/Auction_Properties.thy ===== *)
theory Auction_Properties
  imports Auction_Proofs Samples
begin

text \<open>
  The properties of the auction: the settlement rule and its reference, conservation of the escrow, finality, who can
  settle, bids, and the listings.
\<close>

section \<open>A sample auction\<close>

definition asset_id :: address where "asset_id = Address ''CTOKEN''"
definition treasury_id :: address where "treasury_id = Address ''GTREASURY''"

definition sample_bids :: "bid list" where
  "sample_bids = [\<lparr>bid_bidder = alice, bid_amount = 500, bid_placed_at = 20\<rparr>,
     \<lparr>bid_bidder = bob, bid_amount = 900, bid_placed_at = 30\<rparr>,
     \<lparr>bid_bidder = carol, bid_amount = 700, bid_placed_at = 40\<rparr>]"

definition sample_auction :: auction where
  "sample_auction = \<lparr>au_name = ''vip.xlm'', au_reserve_price = 600, au_starts_at = 10, au_ends_at = 50,
     au_bids = sample_bids, au_asset = asset_id, au_treasury = treasury_id\<rparr>"

definition sample_settlement :: settlement where
  "sample_settlement = \<lparr>st_winner = Some bob, st_clearing_price = 700, st_winning_bid = 900, st_settled_at = 60,
     st_sold = True\<rparr>"

lemma sample_auction_simps [simp]:
  "au_bids sample_auction = sample_bids" "au_reserve_price sample_auction = 600" "au_asset sample_auction = asset_id"
  "au_ends_at sample_auction = 50" "au_starts_at sample_auction = 10" "au_treasury sample_auction = treasury_id"
  by (simp_all add: sample_auction_def)

lemma sample_settles: "settle_vickrey sample_auction 60 = Some sample_settlement"
  by (simp add: settle_vickrey_def sample_bids_def vickrey_step_def sample_settlement_def)

definition sample_house :: auction_house where
  "sample_house = auction_empty\<lparr>ah_auctions := [''vip.xlm'' \<mapsto> sample_auction], ah_names := Some [''vip.xlm''],
     ah_admin := Some carol, ah_contract_version := Some CONTRACT_VERSION, ah_lock := Some False\<rparr>"

definition settled_house :: auction_house where
  "settled_house = sample_house\<lparr>ah_settlements := [''vip.xlm'' \<mapsto> sample_settlement]\<rparr>"

lemma accepting_token [simp]: "token_transfer accepting e a b c m w = Some ()"
  by (simp add: token_transfer_def accepting_def)

lemma accepting_runs [simp]: "run_transfers accepting e a orders w = Some ()"
  by (induction orders arbitrary: w) auto

lemma sample_settle:
  "settle accepting e ''vip.xlm'' 60 (sample_house, ()) = Inr (Some sample_settlement, settled_house, ())"
  using sample_settles vickrey_is_ok [OF sample_settles]
  by (simp add: settle_def get_auction_def sample_house_def auction_empty_def settled_house_def Let_def
      pay_out_orders [of sample_auction 60, simplified])

lemma sample_house_reachable: "auction_reachable accepting (sample_house, ())"
proof -
  have vip: "validate_fqdn_soroban ''vip.xlm'' = Inr ()" by code_simp
  define a0 where "a0 = sample_auction\<lparr>au_bids := []\<rparr>"
  define h0 where "h0 = auction_empty\<lparr>ah_admin := Some carol, ah_contract_version := Some CONTRACT_VERSION\<rparr>"
  define h where "h = (\<lambda>l bs. h0\<lparr>ah_auctions := [''vip.xlm'' \<mapsto> a0\<lparr>au_bids := bs\<rparr>], ah_names := Some [''vip.xlm''],
      ah_lock := l\<rparr>)"
  have bid: "place_bid accepting (env_at 0 [c]) ''vip.xlm'' c m t (h l bs, ()) =
      Inr (h (Some False) (bs @ [\<lparr>bid_bidder = c, bid_amount = m, bid_placed_at = t\<rparr>]), ())"
    if "m \<noteq> 0" "10 \<le> t" "t \<le> 50" "l \<noteq> Some True" for c m t l bs
    using that by (cases l) (auto simp: place_bid_def with_reentrancy_lock_def get_auction_def h_def h0_def a0_def
        auction_empty_def is_time_window_open_def put_auction_def)
  have "auction_reachable accepting (h0, ())"
    by (rule auction_reachable.command [OF auction_reachable.start [where w = "()"], where cmd = "AcInitialize carol"])
       (simp add: auction_initialize_def h0_def auction_empty_def)
  then have "auction_reachable accepting (h None [], ())"
    by (rule auction_reachable.command [where e = "env_at 0 [carol]"
          and cmd = "AcCreate ''vip.xlm'' asset_id treasury_id 600 10 50"])
       (simp add: create_auction_def vip h_def h0_def a0_def auction_empty_def auction_index_def sample_auction_def)
  then have "auction_reachable accepting (h (Some False) [sample_bids ! 0], ())"
    by (rule auction_reachable.command [where e = "env_at 0 [alice]" and cmd = "AcBid ''vip.xlm'' alice 500 20"])
       (simp add: bid sample_bids_def)
  then have "auction_reachable accepting (h (Some False) [sample_bids ! 0, sample_bids ! 1], ())"
    by (rule auction_reachable.command [where e = "env_at 0 [bob]" and cmd = "AcBid ''vip.xlm'' bob 900 30"])
       (simp add: bid sample_bids_def)
  then have "auction_reachable accepting (h (Some False) sample_bids, ())"
    by (rule auction_reachable.command [where e = "env_at 0 [carol]" and cmd = "AcBid ''vip.xlm'' carol 700 40"])
       (simp add: bid sample_bids_def)
  moreover have "h (Some False) sample_bids = sample_house"
    by (simp add: h_def h0_def a0_def sample_house_def sample_auction_def auction_empty_def)
  ultimately show ?thesis by simp
qed

lemma settled_house_reachable: "auction_reachable accepting (settled_house, ())"
  by (rule auction_reachable.command [OF sample_house_reachable, where cmd = "AcSettle ''vip.xlm'' 60" and e = "env_at 0 []"])
     (simp add: sample_settle)

section \<open>The settlement rule\<close>

text \<open>C15: Vickrey settlement: a settlement names the first of the highest bids; below the reserve price nothing
  is sold, otherwise its bidder wins at the larger of the reserve price and the highest other bid, which is never more
  than the winner bid. There is a settlement exactly when there is a bid.\<close>

theorem vickrey_settlement_correct:
  "(settle_vickrey a t = None \<longleftrightarrow> au_bids a = [])
    \<and> (settle_vickrey a t = Some st \<longrightarrow> vickrey_ok a t st)"
  using vickrey_None vickrey_is_ok by blast

theorem vickrey_settlement_correct_witness:
  "vickrey_ok sample_auction 60 sample_settlement"
  using vickrey_settlement_correct [of sample_auction] sample_settles by blast

text \<open>C17: one loop or a sort: on bids with a visible bidder and a nonzero amount, placed by the deadline, the one-pass
  settlement of the contract gives the same result as the sorting routine of \<open>settle.rs\<close>, ties
  included.\<close>

theorem vickrey_agrees_with_sorting:
  assumes "\<forall>b \<in> set (au_bids a). bid_is_valid (text_of b) \<and> bid_placed_at b \<le> deadline"
  shows "settle_vickrey_sorted (map text_of (au_bids a)) (au_reserve_price a) deadline t =
    map_option text_settlement_of (settle_vickrey a t)"
  by (rule vickrey_sorted [OF assms])

theorem vickrey_agrees_with_sorting_witness:
  "settle_vickrey_sorted (map text_of sample_bids) 600 50 60 = Some (text_settlement_of sample_settlement)"
  using vickrey_agrees_with_sorting [of sample_auction 50 60] sample_settles
  by (simp add: sample_bids_def bid_is_valid_def alice_def bob_def carol_def)

section \<open>Escrow\<close>

text \<open>C16: settling pays out exactly what was bid: a settlement with bids makes the transfers of \<open>payout_orders\<close>
  in order, the amounts add up to the sum of all bids, and in an auction that sold the winner's own bid is split into
  the clearing price for the treasury and the rest back to the winner while every other bid
  is refunded in full.\<close>

theorem settlement_pays_out_bids:
  assumes "settle call e n t (s, w) = Inr (Some st, s', w')"
  obtains a where "ah_auctions s n = Some a" "run_transfers call e (au_asset a) (payout_orders a st) w = Some w'"
    "order_total (payout_orders a st) = sum_list (map (\<lambda>b. unat (bid_amount b)) (au_bids a))"
    "st_sold st \<Longrightarrow> \<exists>pre h post. au_bids a = pre @ h # post \<and> st_winner st = Some (bid_bidder h)
        \<and> payout_orders a st = refunds pre @ winner_orders (au_treasury a) (st_clearing_price st) h @ refunds post"
  using assms
proof (cases rule: settle_cases)
  case (bids a st')
  then have ok: "vickrey_ok a t st" using vickrey_is_ok by simp
  have "\<exists>pre h post. au_bids a = pre @ h # post \<and> st_winner st = Some (bid_bidder h)
        \<and> payout_orders a st = refunds pre @ winner_orders (au_treasury a) (st_clearing_price st) h @ refunds post"
    if sold: "st_sold st"
  proof -
    from ok sold obtain pre h post where bs: "au_bids a = pre @ h # post" "\<forall>b \<in> set pre. bid_amount b < bid_amount h"
      and "st_winning_bid st = bid_amount h" "st_winner st = Some (bid_bidder h)"
      by (auto simp: vickrey_ok_def split: if_splits)
    then show ?thesis
      using sold by (intro exI [of _ pre] exI [of _ h] exI [of _ post])
        (simp add: payout_orders_def Let_def takeWhile_append dropWhile_append)
  qed
  with that [of a] bids payouts_conserved [OF ok] show ?thesis by simp
qed simp

theorem settlement_pays_out_bids_witness:
  "order_total (payout_orders sample_auction sample_settlement) = 2100
   \<and> payout_orders sample_auction sample_settlement = [(alice, 500), (bob, 200), (treasury_id, 700), (carol, 700)]"
proof (rule settlement_pays_out_bids [OF sample_settle [of "env_at 0 []"]], intro conjI)
  fix a assume a: "ah_auctions sample_house ''vip.xlm'' = Some a"
    "order_total (payout_orders a sample_settlement) = sum_list (map (\<lambda>b. unat (bid_amount b)) (au_bids a))"
  then show "order_total (payout_orders sample_auction sample_settlement) = 2100"
    by (simp add: sample_house_def sample_bids_def)
  show "payout_orders sample_auction sample_settlement = [(alice, 500), (bob, 200), (treasury_id, 700), (carol, 700)]"
    by (simp add: payout_orders_def sample_settlement_def sample_bids_def refunds_def winner_orders_def)
qed

section \<open>Finality\<close>

text \<open>Settlements are final: in a reachable state every settled auction exists, its recorded settlement
  is what \<open>settle_vickrey\<close> gives for its bids, at a clock not before its end, every bid is nonzero and was
  placed within the auction's window, and no later successful command changes the
  settlement or the bids of a settled auction.\<close>

theorem settlement_final:
  assumes reach: "auction_reachable call (s, w)" and st: "ah_settlements s n = Some st"
  obtains a where "auction_of s n = Some a" "settle_vickrey a (st_settled_at st) = Some st"
    "au_ends_at a \<le> st_settled_at st" "auction_ok n a"
    "\<And>e cmd s' w'. auction_exec call e cmd (s, w) = Inr (s', w') \<Longrightarrow>
       ah_settlements s' n = Some st \<and> auction_of s' n = Some a"
proof -
  have inv: "auction_inv s" using auction_reachable_inv [OF reach] by simp
  then obtain a where a: "ah_auctions s n = Some a" "settle_vickrey a (st_settled_at st) = Some st"
    "au_ends_at a \<le> st_settled_at st" "auction_ok n a"
    using st unfolding auction_inv_def by blast
  have "ah_settlements s' n = Some st \<and> auction_of s' n = Some a"
    if exec: "auction_exec call e cmd (s, w) = Inr (s', w')" for e cmd s' w'
  proof (cases cmd)
    case (AcBid m c k t)
    with exec st a show ?thesis by (auto elim!: bid_cases simp: auction_of_def)
  next
    case (AcSettle m t)
    with exec obtain r where "settle call e m t (s, w) = Inr (r, s', w')" by (cases "settle call e m t (s, w)") auto
    then show ?thesis using st a by (cases rule: settle_cases) (auto simp: auction_of_def)
  qed (use exec st a in \<open>auto simp: auction_of_def auction_initialize_def auction_upgrade_def create_auction_def
      ah_emit_def bind_Inr_iff guard_Inr_iff Let_def split: outcome_splits\<close>)
  with that a show ?thesis by (simp add: auction_of_def)
qed

theorem settlement_final_witness:
  "\<exists>a. auction_of settled_house ''vip.xlm'' = Some a \<and> settle_vickrey a 60 = Some sample_settlement"
  by (rule settlement_final [OF settled_house_reachable, of "''vip.xlm''" sample_settlement])
     (auto simp: settled_house_def sample_settlement_def)

text \<open>Anyone can close an auction at any time: \<open>settle\<close> asks for no signature and takes the clock from its caller, so on
  an auction that has bids and no settlement the call with \<open>now = ends_at\<close> succeeds in every environment, whatever
  the ledger's time, as soon as the refunds and payments can be made; from then on no bid is accepted.\<close>

theorem settle_by_anyone:
  assumes "ah_auctions s n = Some a" and "ah_settlements s n = None" and "au_bids a \<noteq> []"
    and "\<And>orders v. run_transfers call e (au_asset a) orders v \<noteq> None"
  obtains st s' w' where "settle call e n (au_ends_at a) (s, w) = Inr (Some st, s', w')"
    "\<And>e' c m t w''. \<exists>err. place_bid call e' n c m t (s', w'') = Inl err"
proof -
  obtain st where st: "settle_vickrey a (au_ends_at a) = Some st" using vickrey_None assms(3) by (cases "settle_vickrey a (au_ends_at a)") auto
  obtain w' where w': "run_transfers call e (au_asset a) (payout_orders a st) w = Some w'"
    using assms(4) [of "payout_orders a st" w] by (cases "run_transfers call e (au_asset a) (payout_orders a st) w") auto
  let ?s' = "s\<lparr>ah_settlements := (ah_settlements s)(n \<mapsto> st)\<rparr>"
  have "settle call e n (au_ends_at a) (s, w) = Inr (Some st, ?s', w')"
    using assms(1,2) st w' by (simp add: settle_def get_auction_def pay_out_orders [OF vickrey_is_ok [OF st]] Let_def)
  moreover have "\<exists>err. place_bid call e' n c m t (?s', w'') = Inl err" for e' c m t w''
  proof (cases "place_bid call e' n c m t (?s', w'')")
    case (Inr sw)
    then have "place_bid call e' n c m t (?s', w'') = Inr (fst sw, snd sw)" by simp
    then have False by (rule bid_cases) simp
    then show ?thesis ..
  qed simp
  ultimately show ?thesis by (rule that)
qed

theorem settle_by_anyone_witness:
  "\<exists>st s' w'. settle accepting (env_at 0 []) ''vip.xlm'' 50 (sample_house, ()) = Inr (Some st, s', w')"
  by (rule settle_by_anyone [of sample_house "''vip.xlm''" sample_auction accepting "env_at 0 []" "()"])
     (auto simp: sample_house_def auction_empty_def sample_bids_def)

section \<open>Listings\<close>

text \<open>C18: pages are slices: with fewer than \<open>2 ^ 32\<close> auctions, the page loops of the listings return exactly the
  elements \<open>offset, offset + 1, ...\<close>, at most \<open>limit\<close> and at most 100, of the creation-order index, of its
  open auctions, and of its settled auctions, so consecutive pages neither skip nor
  repeat a name.\<close>

theorem listings_are_slices:
  assumes "length (auction_index s) < 2 ^ 32"
  shows "list_auctions s offset limit = take (min (unat limit) 100) (drop (unat offset) (auction_index s))
    \<and> list_active_auctions s t offset limit = take (min (unat limit) 100) (drop (unat offset)
      (filter (\<lambda>n. ah_settlements s n = None \<and>
         (\<exists>a. ah_auctions s n = Some a \<and> au_starts_at a \<le> t \<and> t \<le> au_ends_at a)) (auction_index s)))
    \<and> list_settled_auctions s offset limit = take (min (unat limit) 100) (drop (unat offset)
      (filter (\<lambda>n. ah_settlements s n \<noteq> None) (auction_index s)))"
proof (intro conjI)
  have "(\<lambda>n. if ah_settlements s n \<noteq> None then False
             else case ah_auctions s n of Some a \<Rightarrow> au_starts_at a \<le> t \<and> t \<le> au_ends_at a | None \<Rightarrow> False) =
    (\<lambda>n. ah_settlements s n = None \<and> (\<exists>a. ah_auctions s n = Some a \<and> au_starts_at a \<le> t \<and> t \<le> au_ends_at a))"
    by (auto simp: fun_eq_iff split: option.split)
  then show "list_active_auctions s t offset limit = take (min (unat limit) 100) (drop (unat offset)
      (filter (\<lambda>n. ah_settlements s n = None \<and>
         (\<exists>a. ah_auctions s n = Some a \<and> au_starts_at a \<le> t \<and> t \<le> au_ends_at a)) (auction_index s)))"
    using filter_index_take [OF assms] by (simp add: list_active_auctions_def)
  show "list_auctions s offset limit = take (min (unat limit) 100) (drop (unat offset) (auction_index s))"
    "list_settled_auctions s offset limit = take (min (unat limit) 100) (drop (unat offset)
      (filter (\<lambda>n. ah_settlements s n \<noteq> None) (auction_index s)))"
    using slice_index_take [OF assms] filter_index_take [OF assms]
    by (simp_all add: list_auctions_def list_settled_auctions_def)
qed

theorem listings_are_slices_witness:
  "list_settled_auctions settled_house 0 5 = [''vip.xlm''] \<and> list_auctions settled_house 1 5 = []"
  using listings_are_slices [of settled_house]
  by (simp add: settled_house_def sample_house_def auction_index_def)

end
