(* ===== verification/Subdomain_Proofs.thy ===== *)
theory Subdomain_Proofs
  imports Subdomain
begin

text \<open>
  The subdomain contract as a state machine: the two indexes as instances of the owner index, purging, the
  commands, and the invariant.
\<close>

section \<open>The indexes\<close>

interpretation sd_par: owner_index get_parent_subdomains add_parent_subdomain remove_parent_subdomain
  by unfold_locales
     (auto simp: get_parent_subdomains_def add_parent_subdomain_def remove_parent_subdomain_def Let_def)

interpretation sd_own: owner_index get_owner_subdomains add_owner_subdomain remove_owner_subdomain
  by unfold_locales
     (auto simp: get_owner_subdomains_def add_owner_subdomain_def remove_owner_subdomain_def Let_def)

lemma index_frames [simp]:
  "sd_records (add_parent_subdomain s p f) = sd_records s" "sd_records (remove_parent_subdomain s p f) = sd_records s"
  "sd_records (add_owner_subdomain s a f) = sd_records s" "sd_records (remove_owner_subdomain s a f) = sd_records s"
  "sd_parents (add_parent_subdomain s p f) = sd_parents s" "sd_parents (remove_parent_subdomain s p f) = sd_parents s"
  "sd_parents (add_owner_subdomain s a f) = sd_parents s" "sd_parents (remove_owner_subdomain s a f) = sd_parents s"
  "sd_registry (add_parent_subdomain s p f) = sd_registry s" "sd_registry (remove_parent_subdomain s p f) = sd_registry s"
  "sd_registry (add_owner_subdomain s a f) = sd_registry s" "sd_registry (remove_owner_subdomain s a f) = sd_registry s"
  "get_owner_subdomains (add_parent_subdomain s p f) = get_owner_subdomains s"
  "get_owner_subdomains (remove_parent_subdomain s p f) = get_owner_subdomains s"
  "get_parent_subdomains (add_owner_subdomain s a f) = get_parent_subdomains s"
  "get_parent_subdomains (remove_owner_subdomain s a f) = get_parent_subdomains s"
  by (auto simp: fun_eq_iff add_parent_subdomain_def remove_parent_subdomain_def add_owner_subdomain_def
      remove_owner_subdomain_def get_owner_subdomains_def get_parent_subdomains_def Let_def)

lemma update_frames [simp]:
  "get_parent_subdomains (s\<lparr>sd_records := r\<rparr>) = get_parent_subdomains s"
  "get_owner_subdomains (s\<lparr>sd_records := r\<rparr>) = get_owner_subdomains s"
  "get_parent_subdomains (s\<lparr>sd_parents := p\<rparr>) = get_parent_subdomains s"
  "get_owner_subdomains (s\<lparr>sd_parents := p\<rparr>) = get_owner_subdomains s"
  "get_owner_subdomains (s\<lparr>sd_parent_index := i\<rparr>) = get_owner_subdomains s"
  "get_owner_subdomains (sd_emit ev s) = get_owner_subdomains s"
  "get_parent_subdomains (sd_emit ev s) = get_parent_subdomains s"
  "sd_records (sd_emit ev s) = sd_records s" "sd_parents (sd_emit ev s) = sd_parents s"
  "sd_registry (sd_emit ev s) = sd_registry s"
  by (simp_all add: fun_eq_iff get_parent_subdomains_def get_owner_subdomains_def sd_emit_def)

definition parent_of :: "subdomains \<Rightarrow> string \<Rightarrow> string option" where
  "parent_of s f = map_option sr_parent (sd_records s f)"

definition sub_owner_of :: "subdomains \<Rightarrow> string \<Rightarrow> address option" where
  "sub_owner_of s f = map_option sr_owner (sd_records s f)"

definition indexed :: "subdomains \<Rightarrow> bool" where
  "indexed s \<longleftrightarrow> index_consistent (parent_of s) (get_parent_subdomains s)
     \<and> index_consistent (sub_owner_of s) (get_owner_subdomains s)"

lemma of_upd:
  "sd_records t = (sd_records s)(f := v) \<Longrightarrow> parent_of t = (parent_of s)(f := map_option sr_parent v)"
  "sd_records t = (sd_records s)(f := v) \<Longrightarrow> sub_owner_of t = (sub_owner_of s)(f := map_option sr_owner v)"
  by (auto simp: parent_of_def sub_owner_of_def)

lemma of_same:
  "sd_records t = sd_records s \<Longrightarrow> parent_of t = parent_of s"
  "sd_records t = sd_records s \<Longrightarrow> sub_owner_of t = sub_owner_of s"
  by (auto simp: parent_of_def sub_owner_of_def fun_eq_iff)

lemma indexed_drop:
  assumes "indexed s" and r: "sd_records s f = Some r"
    and t: "sd_records t = (sd_records s)(f := None)"
    "get_parent_subdomains t = get_parent_subdomains (remove_parent_subdomain s (sr_parent r) f)"
    "get_owner_subdomains t = get_owner_subdomains (remove_owner_subdomain s (sr_owner r) f)"
  shows "indexed t"
proof -
  have "parent_of s f = Some (sr_parent r)" "sub_owner_of s f = Some (sr_owner r)"
    using r by (simp_all add: parent_of_def sub_owner_of_def)
  then show ?thesis
    using assms(1) sd_par.consistent_delete [of "parent_of s" s f "sr_parent r"]
      sd_own.consistent_delete [of "sub_owner_of s" s f "sr_owner r"] of_upd [OF t(1)]
    by (simp add: indexed_def t(2,3))
qed

lemma owner_list_frame: "get_owner_subdomains (remove_owner_subdomain (remove_parent_subdomain s p f) a g) =
   get_owner_subdomains (remove_owner_subdomain s a g)"
proof -
  have "get_owner_subdomains (remove_parent_subdomain s p f) = get_owner_subdomains s" by simp
  moreover have "sd_owner_index (remove_parent_subdomain s p f) = sd_owner_index s"
    by (simp add: remove_parent_subdomain_def Let_def)
  ultimately show ?thesis
    by (auto simp: fun_eq_iff remove_owner_subdomain_def Let_def get_owner_subdomains_def)
qed

lemma purge_record_simps:
  "sd_records (purge_subdomain_record f r s) = (sd_records s)(f := None)"
  "sd_parents (purge_subdomain_record f r s) = sd_parents s"
  "sd_registry (purge_subdomain_record f r s) = sd_registry s"
  "get_parent_subdomains (purge_subdomain_record f r s) = get_parent_subdomains (remove_parent_subdomain s (sr_parent r) f)"
  "get_owner_subdomains (purge_subdomain_record f r s) = get_owner_subdomains (remove_owner_subdomain s (sr_owner r) f)"
  by (simp_all add: purge_subdomain_record_def Let_def owner_list_frame)

lemma purge_listed_simps [simp]:
  "sd_records (purge_listed f s) = (sd_records s)(f := None)"
  "sd_parents (purge_listed f s) = sd_parents s" "sd_registry (purge_listed f s) = sd_registry s"
  by (auto simp: purge_listed_def purge_record_simps split: option.split)

lemma purge_listed_indexed: "indexed s \<Longrightarrow> indexed (purge_listed f s)"
  by (auto simp: purge_listed_def purge_record_simps intro: indexed_drop split: option.split)

lemma purge_fold:
  "sd_records (fold purge_listed fs s) = (\<lambda>f. if f \<in> set fs then None else sd_records s f)"
  "sd_parents (fold purge_listed fs s) = sd_parents s" "sd_registry (fold purge_listed fs s) = sd_registry s"
  "indexed s \<Longrightarrow> indexed (fold purge_listed fs s)"
  by (induction fs arbitrary: s) (auto simp: fun_eq_iff purge_listed_indexed)

text \<open>Purging a parent removes it and exactly its subdomains.\<close>

lemma purge_parent_simps:
  assumes "indexed s"
  shows "sd_records (purge_parent_namespace p s) = (\<lambda>f. if parent_of s f = Some p then None else sd_records s f)"
    and "sd_parents (purge_parent_namespace p s) = (sd_parents s)(p := None)"
    and "sd_registry (purge_parent_namespace p s) = sd_registry s"
    and "indexed (purge_parent_namespace p s)"
proof -
  let ?t = "fold purge_listed (get_parent_subdomains s p) s"
  have mem: "f \<in> set (get_parent_subdomains s p) \<longleftrightarrow> parent_of s f = Some p" for f
    using assms by (simp add: indexed_def index_consistentD)
  have recs: "sd_records ?t = (\<lambda>f. if parent_of s f = Some p then None else sd_records s f)"
    unfolding purge_fold(1) mem ..
  show "sd_records (purge_parent_namespace p s) = (\<lambda>f. if parent_of s f = Some p then None else sd_records s f)"
    "sd_parents (purge_parent_namespace p s) = (sd_parents s)(p := None)"
    "sd_registry (purge_parent_namespace p s) = sd_registry s"
    by (simp_all add: purge_parent_namespace_def Let_def recs purge_fold(2,3))
  have t: "indexed ?t" by (rule purge_fold(4) [OF assms])
  have "parent_of ?t f \<noteq> Some p" for f by (simp add: parent_of_def recs)
  then have empty: "get_parent_subdomains ?t p = []"
    using t index_consistentD(2) [of "parent_of ?t" "get_parent_subdomains ?t"]
    by (metis indexed_def last_in_set)
  have "get_parent_subdomains (purge_parent_namespace p s) = get_parent_subdomains ?t"
    using empty by (auto simp: fun_eq_iff purge_parent_namespace_def get_parent_subdomains_def Let_def)
  moreover have "get_owner_subdomains (purge_parent_namespace p s) = get_owner_subdomains ?t"
    by (simp add: purge_parent_namespace_def get_owner_subdomains_def Let_def fun_eq_iff)
  moreover have "sd_records (purge_parent_namespace p s) = sd_records ?t"
    by (simp add: purge_parent_namespace_def Let_def)
  ultimately show "indexed (purge_parent_namespace p s)"
    using t of_same [of "purge_parent_namespace p s" ?t] by (simp add: indexed_def)
qed

section \<open>Commands\<close>

text \<open>What the registry says about a parent; everything is fine without one.\<close>

definition parent_active :: "query \<Rightarrow> env \<Rightarrow> subdomains \<Rightarrow> string \<Rightarrow> bool" where
  "parent_active q e s parent \<longleftrightarrow> (case sd_registry s of None \<Rightarrow> True
     | Some registry \<Rightarrow> q (callee_env e registry) registry ''name_state'' [VStr parent, VU64 (env_timestamp e)] =
         Some (VNameState Active))"

lemma ensure_parent_iff:
  "ensure_parent_is_active q e p s = (if parent_active q e s p then (True, s) else (False, purge_parent_namespace p s))"
  by (auto simp: ensure_parent_is_active_def parent_active_def split: option.split val.split name_state.split)

lemma get_parent_iff:
  "get_parent q e p s = Inr (r, s1) \<longleftrightarrow> parent_active q e s p \<and> s1 = s \<and> sd_parents s p = Some r"
  by (auto simp: get_parent_def ensure_parent_iff split: option.splits)

text \<open>The people who govern a parent's namespace.\<close>

definition parent_governor :: "subdomains \<Rightarrow> string \<Rightarrow> address \<Rightarrow> bool" where
  "parent_governor s p c \<longleftrightarrow> (\<exists>r. sd_parents s p = Some r \<and> (pd_owner r = c \<or> c \<in> set (pd_controllers r)))"

datatype subdomain_command =
    SInitialize address
  | SSetRegistry address
  | SSetMaxDepth u32
  | SUpgrade "u8 list" "u8 list"
  | SRegisterParent string address
  | SAddController string address address
  | SRemoveController string address address
  | SCreate string string address address u64
  | STransfer string address address
  | SDelete string address
  | SRevoke string address
  | SQueryRecord string
  | SQueryParent string
  | SQuerySubdomains string

fun subdomain_exec :: "query \<Rightarrow> env \<Rightarrow> subdomain_command \<Rightarrow> subdomains \<Rightarrow> (subdomain_error, subdomains) result" where
  "subdomain_exec q e (SInitialize a) s = subdomain_initialize a s"
| "subdomain_exec q e (SSetRegistry a) s = set_registry_contract e a s"
| "subdomain_exec q e (SSetMaxDepth d) s = set_max_depth e d s"
| "subdomain_exec q e (SUpgrade h d) s = subdomain_upgrade e h d s"
| "subdomain_exec q e (SRegisterParent p a) s = register_parent q e p a s"
| "subdomain_exec q e (SAddController p c a) s = add_controller q e p c a s"
| "subdomain_exec q e (SRemoveController p c a) s = remove_controller q e p c a s"
| "subdomain_exec q e (SCreate l p c a t) s =
     (case subdomain_create q e l p c a t s of Inl err \<Rightarrow> Inl err | Inr (f, s') \<Rightarrow> Inr s')"
| "subdomain_exec q e (STransfer f c b) s = subdomain_transfer q e f c b s"
| "subdomain_exec q e (SDelete f c) s = subdomain_delete q e f c s"
| "subdomain_exec q e (SRevoke f c) s = subdomain_revoke q e f c s"
| "subdomain_exec q e (SQueryRecord f) s = Inr (snd (subdomain_exists q e f s))"
| "subdomain_exec q e (SQueryParent p) s = Inr (snd (subdomain_parent q e p s))"
| "subdomain_exec q e (SQuerySubdomains p) s = Inr (snd (subdomains_for_parent q e p s))"

inductive subdomain_reachable :: "subdomains \<Rightarrow> bool" where
  start: "subdomain_reachable subdomains_empty"
| command: "subdomain_reachable s \<Longrightarrow> subdomain_exec q e cmd s = Inr s' \<Longrightarrow> subdomain_reachable s'"

section \<open>What a successful command does\<close>

lemma register_parent_cases:
  assumes "register_parent q e p a s = Inr s'"
  obtains s1 where "require_auth e a" "validate_base_name_soroban p = Inr ()"
    "(s1 = s \<and> sd_parents s p = None)
     \<or> (s1 = purge_parent_namespace p s \<and> sd_registry s \<noteq> None \<and> (\<exists>d. sd_parents s p = Some d \<and> pd_owner d \<noteq> a))"
    "\<And>reg. sd_registry s = Some reg \<Longrightarrow>
       \<exists>en. query_resolve q e reg p (env_timestamp e) = Some en \<and> re_owner en = a"
    "s' = sd_emit (ParentRegistered p a) (s1\<lparr>sd_parents := (sd_parents s1)(p \<mapsto> \<lparr>pd_owner = a, pd_controllers = []\<rparr>)\<rparr>)"
  using assms that unfolding register_parent_def
  by (auto simp: bind_Inr_iff guard_Inr_iff split: option.splits if_splits)

lemma create_cases:
  assumes "subdomain_create q e l p c a t s = Inr (f, s')"
  obtains "require_auth e c" "parent_active q e s p" "parent_governor s p c" "f = l @ ''.'' @ p" "length f \<le> 256"
    "length l > 0 \<longrightarrow> label_depth l \<le> unat (max_depth s)" "sd_records s f = None"
    "s' = sd_emit (SubdomainCreated f p c a) (add_owner_subdomain (add_parent_subdomain
       (s\<lparr>sd_records := (sd_records s)(f \<mapsto> \<lparr>sr_parent = p, sr_owner = a, sr_created_at = t\<rparr>)\<rparr>) p f) a f)"
  using assms that unfolding subdomain_create_def parent_governor_def
  by (auto simp: bind_Inr_iff guard_Inr_iff get_parent_iff Let_def not_less)

lemma transfer_sub_cases:
  assumes "subdomain_transfer q e f c b s = Inr s'"
  obtains r where "require_auth e c" "sd_records s f = Some r" "sr_owner r = c" "parent_active q e s (sr_parent r)"
    "s' = sd_emit (SubdomainTransferred f c b) (add_owner_subdomain (remove_owner_subdomain
       (s\<lparr>sd_records := (sd_records s)(f \<mapsto> r\<lparr>sr_owner := b\<rparr>)\<rparr>) c f) b f)"
  using assms that unfolding subdomain_transfer_def
  by (auto simp: bind_Inr_iff guard_Inr_iff get_subdomain_def ensure_parent_iff Let_def split: option.splits if_splits)

lemma delete_cases:
  assumes "subdomain_delete q e f c s = Inr s'"
  obtains r where "require_auth e c" "sd_records s f = Some r" "sr_owner r = c \<or> parent_governor s (sr_parent r) c"
    "parent_active q e s (sr_parent r)" "s' = drop_subdomain (SubdomainDeleted f c) f r s"
  using assms that unfolding subdomain_delete_def parent_governor_def
  by (auto simp: bind_Inr_iff guard_Inr_iff get_subdomain_def ensure_parent_iff get_parent_iff
      split: option.splits if_splits)

lemma revoke_cases:
  assumes "subdomain_revoke q e f c s = Inr s'"
  obtains r where "require_auth e c" "sd_records s f = Some r" "sr_owner r = c \<or> parent_governor s (sr_parent r) c"
    "parent_active q e s (sr_parent r)" "s' = drop_subdomain (SubdomainRevoked f c) f r s"
proof -
  from assms obtain r where r: "require_auth e c" "sd_records s f = Some r" "parent_active q e s (sr_parent r)"
    by (auto simp: subdomain_revoke_def bind_Inr_iff guard_Inr_iff get_subdomain_def ensure_parent_iff
        split: option.splits if_splits)
  have "(sr_owner r = c \<or> parent_governor s (sr_parent r) c) \<and> s' = drop_subdomain (SubdomainRevoked f c) f r s"
  proof (cases "get_parent q e (sr_parent r) s")
    case (Inl err)
    with assms r show ?thesis
      by (auto simp: subdomain_revoke_def get_subdomain_def ensure_parent_iff split: if_splits)
  next
    case (Inr ds)
    obtain d s2 where "ds = (d, s2)" by (cases ds)
    with Inr have g: "get_parent q e (sr_parent r) s = Inr (d, s)" and d: "sd_parents s (sr_parent r) = Some d"
      using get_parent_iff by auto
    show ?thesis
      using assms r d by (auto simp: subdomain_revoke_def get_subdomain_def ensure_parent_iff g parent_governor_def
          split: if_splits)
  qed
  with that r show ?thesis by blast
qed

lemma controller_cases:
  shows "add_controller q e p c a s = Inr s' \<Longrightarrow> \<exists>r. require_auth e c \<and> parent_active q e s p
      \<and> sd_parents s p = Some r \<and> pd_owner r = c \<and> (s' = s \<or> (a \<notin> set (pd_controllers r)
        \<and> s' = sd_emit (ControllerAdded p c a) (s\<lparr>sd_parents := (sd_parents s)
             (p \<mapsto> r\<lparr>pd_controllers := pd_controllers r @ [a]\<rparr>)\<rparr>)))"
    and "remove_controller q e p c a s = Inr s' \<Longrightarrow> \<exists>r. require_auth e c \<and> parent_active q e s p
      \<and> sd_parents s p = Some r \<and> pd_owner r = c \<and> (s' = s \<or> (a \<in> set (pd_controllers r)
        \<and> s' = sd_emit (ControllerRemoved p c a) (s\<lparr>sd_parents := (sd_parents s)
             (p \<mapsto> r\<lparr>pd_controllers := remove1 a (pd_controllers r)\<rparr>)\<rparr>)))"
  by (auto simp: add_controller_def remove_controller_def bind_Inr_iff guard_Inr_iff get_parent_iff split: if_splits)

section \<open>The invariant\<close>

definition sub_ok :: "subdomains \<Rightarrow> string \<Rightarrow> subdomain_record \<Rightarrow> bool" where
  "sub_ok s f r \<longleftrightarrow> (\<exists>l. f = l @ ''.'' @ sr_parent r) \<and> length f \<le> 256 \<and> sd_parents s (sr_parent r) \<noteq> None"

definition subdomain_inv :: "subdomains \<Rightarrow> bool" where
  "subdomain_inv s \<longleftrightarrow> indexed s \<and> (\<forall>f r. sd_records s f = Some r \<longrightarrow> sub_ok s f r)
     \<and> (\<forall>p d. sd_parents s p = Some d \<longrightarrow> validate_base_name_soroban p = Inr () \<and> distinct (pd_controllers d))"

lemma subdomain_inv_empty: "subdomain_inv subdomains_empty"
  by (simp add: subdomain_inv_def subdomains_empty_def indexed_def index_consistent_def parent_of_def
      sub_owner_of_def get_parent_subdomains_def get_owner_subdomains_def)

lemma subdomain_invD:
  assumes "subdomain_inv s"
  shows "indexed s" and "sd_records s f = Some r \<Longrightarrow> sub_ok s f r"
    and "sd_parents s p = Some d \<Longrightarrow> validate_base_name_soroban p = Inr () \<and> distinct (pd_controllers d)"
  using assms by (auto simp: subdomain_inv_def)

lemma subdomain_inv_same:
  assumes "subdomain_inv s" and "sd_records t = sd_records s" "sd_parents t = sd_parents s"
    "sd_parent_index t = sd_parent_index s" "sd_owner_index t = sd_owner_index s"
  shows "subdomain_inv t"
proof -
  have "get_parent_subdomains t = get_parent_subdomains s" "get_owner_subdomains t = get_owner_subdomains s"
    using assms by (simp_all add: fun_eq_iff get_parent_subdomains_def get_owner_subdomains_def)
  with assms of_same [OF assms(2)] show ?thesis by (simp add: subdomain_inv_def indexed_def sub_ok_def)
qed

lemma purge_inv: "subdomain_inv s \<Longrightarrow> subdomain_inv (purge_parent_namespace p s)"
  using purge_parent_simps [of s p]
  by (auto simp: subdomain_inv_def sub_ok_def parent_of_def split: if_splits)

lemma put_parent_inv:
  assumes inv: "subdomain_inv s" and "validate_base_name_soroban p = Inr ()" and "distinct (pd_controllers d)"
  shows "subdomain_inv (s\<lparr>sd_parents := (sd_parents s)(p \<mapsto> d)\<rparr>)"
proof -
  have "indexed (s\<lparr>sd_parents := (sd_parents s)(p \<mapsto> d)\<rparr>)"
    using subdomain_invD(1) [OF inv] of_same [of "s\<lparr>sd_parents := (sd_parents s)(p \<mapsto> d)\<rparr>" s]
    by (simp add: indexed_def)
  then show ?thesis using inv assms(2,3) by (auto simp: subdomain_inv_def sub_ok_def)
qed

lemma emit_inv [simp]: "subdomain_inv (sd_emit ev s) = subdomain_inv s"
  using of_same [of "sd_emit ev s" s] by (simp add: subdomain_inv_def indexed_def sub_ok_def)

lemma add_sub_inv:
  assumes inv: "subdomain_inv s" and new: "sd_records s f = None" and ok: "sub_ok s f r"
  shows "subdomain_inv (add_owner_subdomain (add_parent_subdomain (s\<lparr>sd_records := (sd_records s)(f \<mapsto> r)\<rparr>)
    (sr_parent r) f) (sr_owner r) f)" (is "subdomain_inv ?t")
proof -
  let ?s1 = "s\<lparr>sd_records := (sd_records s)(f \<mapsto> r)\<rparr>"
  have "parent_of s f = None" "sub_owner_of s f = None" using new by (simp_all add: parent_of_def sub_owner_of_def)
  moreover have own: "get_owner_subdomains (add_parent_subdomain ?s1 p f) = get_owner_subdomains s" for p by simp
  ultimately have "indexed ?t"
    using subdomain_invD(1) [OF inv] of_upd [of ?t s f "Some r"]
      sd_par.consistent_insert [of "parent_of s" ?s1 f "sr_parent r"]
      sd_own.consistent_insert [of "sub_owner_of s" "add_parent_subdomain ?s1 (sr_parent r) f" f "sr_owner r"]
    by (simp add: indexed_def)
  then show ?thesis using inv ok by (auto simp: subdomain_inv_def sub_ok_def)
qed

lemma move_sub_inv:
  assumes inv: "subdomain_inv s" and r: "sd_records s f = Some r"
  shows "subdomain_inv (add_owner_subdomain (remove_owner_subdomain
    (s\<lparr>sd_records := (sd_records s)(f \<mapsto> r\<lparr>sr_owner := b\<rparr>)\<rparr>) (sr_owner r) f) b f)" (is "subdomain_inv ?t")
proof -
  let ?s1 = "s\<lparr>sd_records := (sd_records s)(f \<mapsto> r\<lparr>sr_owner := b\<rparr>)\<rparr>"
  have "sub_owner_of s f = Some (sr_owner r)" using r by (simp add: sub_owner_of_def)
  moreover have "parent_of ?t = parent_of s" using r by (auto simp: parent_of_def fun_eq_iff)
  ultimately have "indexed ?t"
    using subdomain_invD(1) [OF inv] of_upd(2) [of ?t s f "Some (r\<lparr>sr_owner := b\<rparr>)"]
      sd_own.consistent_move [of "sub_owner_of s" ?s1 f "sr_owner r" b]
    by (simp add: indexed_def)
  then show ?thesis using inv r by (auto simp: subdomain_inv_def sub_ok_def)
qed

lemma sd_drop_frames:
  "sd_records (drop_subdomain ev f r s) = (sd_records s)(f := None)" "sd_parents (drop_subdomain ev f r s) = sd_parents s"
  "sd_registry (drop_subdomain ev f r s) = sd_registry s"
  "get_parent_subdomains (drop_subdomain ev f r s) = get_parent_subdomains (remove_parent_subdomain s (sr_parent r) f)"
  "get_owner_subdomains (drop_subdomain ev f r s) = get_owner_subdomains (remove_owner_subdomain s (sr_owner r) f)"
  by (simp_all add: drop_subdomain_def Let_def owner_list_frame)

lemma drop_sub_inv:
  assumes inv: "subdomain_inv s" and r: "sd_records s f = Some r"
  shows "subdomain_inv (drop_subdomain ev f r s)"
proof -
  have "indexed (drop_subdomain ev f r s)"
    by (rule indexed_drop [OF subdomain_invD(1) [OF inv] r]) (simp_all add: sd_drop_frames)
  then show ?thesis using inv by (auto simp: subdomain_inv_def sub_ok_def sd_drop_frames)
qed

lemma ensure_inv: "subdomain_inv s \<Longrightarrow> subdomain_inv (snd (ensure_parent_is_active q e p s))"
  by (simp add: ensure_parent_iff purge_inv)

lemma query_states:
  "snd (subdomain_parent q e p s) = snd (ensure_parent_is_active q e p s)"
  "snd (subdomains_for_parent q e p s) = snd (ensure_parent_is_active q e p s)"
  by (simp_all add: subdomain_parent_def subdomains_for_parent_def split: prod.split)

text \<open>A record query of an inactive parent ends in the purged state: the last removal finds nothing left.\<close>

lemma purge_again:
  assumes "indexed s" and "sd_records s f = Some r"
  shows "sd_records (purge_subdomain_record f r (purge_parent_namespace (sr_parent r) s)) =
      sd_records (purge_parent_namespace (sr_parent r) s)"
    and "subdomain_inv s \<Longrightarrow> subdomain_inv (purge_subdomain_record f r (purge_parent_namespace (sr_parent r) s))"
proof -
  let ?t = "purge_parent_namespace (sr_parent r) s"
  have none: "sd_records ?t f = None" using assms purge_parent_simps(1) [OF assms(1)] by (simp add: parent_of_def)
  then show recs: "sd_records (purge_subdomain_record f r ?t) = sd_records ?t"
    by (simp add: purge_record_simps fun_upd_idem)
  assume "subdomain_inv s"
  then have t: "subdomain_inv ?t" by (rule purge_inv)
  then have "f \<notin> set (get_parent_subdomains ?t p)" "f \<notin> set (get_owner_subdomains ?t a)" for p a
    using none subdomain_invD(1) [OF t] by (auto simp: indexed_def index_consistentD parent_of_def sub_owner_of_def)
  then have "remove_parent_subdomain ?t (sr_parent r) f = ?t" "remove_owner_subdomain ?t (sr_owner r) f = ?t"
    by (simp_all add: remove_parent_subdomain_def remove_owner_subdomain_def)
  then have "purge_subdomain_record f r ?t = ?t\<lparr>sd_records := sd_records ?t\<rparr>"
    using none by (simp add: purge_subdomain_record_def Let_def fun_upd_idem)
  with t show "subdomain_inv (purge_subdomain_record f r ?t)" by simp
qed

lemma subdomain_exec_inv:
  assumes exec: "subdomain_exec q e cmd s = Inr s'" and inv: "subdomain_inv s"
  shows "subdomain_inv s'"
proof (cases cmd)
  case (SRegisterParent p a)
  with exec have "register_parent q e p a s = Inr s'" by simp
  then show ?thesis
    by (rule register_parent_cases) (auto intro!: put_parent_inv inv purge_inv)
next
  case (SAddController p c a)
  with exec have "add_controller q e p c a s = Inr s'" by simp
  then obtain r where r: "sd_parents s p = Some r" "s' = s \<or> (a \<notin> set (pd_controllers r)
      \<and> s' = sd_emit (ControllerAdded p c a) (s\<lparr>sd_parents := (sd_parents s)(p \<mapsto> r\<lparr>pd_controllers := pd_controllers r @ [a]\<rparr>)\<rparr>))"
    using controller_cases(1) [of q e p c a s s'] by blast
  with inv subdomain_invD(3) [OF inv r(1)] show ?thesis by (auto intro!: put_parent_inv)
next
  case (SRemoveController p c a)
  with exec have "remove_controller q e p c a s = Inr s'" by simp
  then obtain r where r: "sd_parents s p = Some r" "s' = s \<or> (a \<in> set (pd_controllers r)
      \<and> s' = sd_emit (ControllerRemoved p c a) (s\<lparr>sd_parents := (sd_parents s)(p \<mapsto> r\<lparr>pd_controllers := remove1 a (pd_controllers r)\<rparr>)\<rparr>))"
    using controller_cases(2) [of q e p c a s s'] by blast
  with inv subdomain_invD(3) [OF inv r(1)] show ?thesis by (auto intro!: put_parent_inv)
next
  case (SCreate l p c a t)
  with exec obtain f where "subdomain_create q e l p c a t s = Inr (f, s')"
    by (cases "subdomain_create q e l p c a t s") auto
  then show ?thesis
  proof (rule create_cases)
    let ?r = "\<lparr>sr_parent = p, sr_owner = a, sr_created_at = t\<rparr>"
    assume "parent_governor s p c" "f = l @ ''.'' @ p" "length f \<le> 256" and new: "sd_records s f = None"
      and s': "s' = sd_emit (SubdomainCreated f p c a) (add_owner_subdomain (add_parent_subdomain
       (s\<lparr>sd_records := (sd_records s)(f \<mapsto> ?r)\<rparr>) p f) a f)"
    then have "sub_ok s f ?r" by (auto simp: sub_ok_def parent_governor_def)
    from add_sub_inv [OF inv new this] show ?thesis by (simp add: s')
  qed
next
  case (STransfer f c b)
  with exec have "subdomain_transfer q e f c b s = Inr s'" by simp
  then show ?thesis by (rule transfer_sub_cases) (use move_sub_inv [OF inv] in auto)
next
  case (SDelete f c)
  with exec have "subdomain_delete q e f c s = Inr s'" by simp
  then show ?thesis by (rule delete_cases) (use drop_sub_inv [OF inv] in auto)
next
  case (SRevoke f c)
  with exec have "subdomain_revoke q e f c s = Inr s'" by simp
  then show ?thesis by (rule revoke_cases) (use drop_sub_inv [OF inv] in auto)
next
  case (SQueryRecord f)
  with exec inv purge_again(2) [OF subdomain_invD(1) [OF inv]] show ?thesis
    by (auto simp: subdomain_exists_def subdomain_record_of_def ensure_parent_iff split: option.split)
next
  case (SQueryParent p)
  with exec ensure_inv [OF inv] show ?thesis by (auto simp: query_states)
next
  case (SQuerySubdomains p)
  with exec ensure_inv [OF inv] show ?thesis by (auto simp: query_states)
qed (use exec in \<open>auto intro!: subdomain_inv_same [OF inv] simp: subdomain_initialize_def set_registry_contract_def
      set_max_depth_def subdomain_upgrade_def split: outcome_splits\<close>)

lemma subdomain_reachable_inv: "subdomain_reachable s \<Longrightarrow> subdomain_inv s"
  by (induction rule: subdomain_reachable.induct) (auto simp: subdomain_inv_empty intro: subdomain_exec_inv)

end
