(* ===== verification/Subdomain_Properties.thy ===== *)
theory Subdomain_Properties
  imports Subdomain_Proofs Registry_Links Common_Properties
begin

text \<open>
  The properties of the subdomain contract: its indexes and parents are consistent in every reachable state,
  records change only with the authority the code asks for, a namespace goes with its parent, and which
  names \<open>create\<close> accepts.
\<close>

section \<open>Evidence for the change of a record\<close>

text \<open>Why a record may be created, handed over, or removed.\<close>

definition may_create :: "query \<Rightarrow> env \<Rightarrow> subdomains \<Rightarrow> subdomain_record \<Rightarrow> bool" where
  "may_create q e s r \<longleftrightarrow>
     parent_active q e s (sr_parent r) \<and> (\<exists>c. require_auth e c \<and> parent_governor s (sr_parent r) c)"

definition may_move :: "query \<Rightarrow> env \<Rightarrow> subdomains \<Rightarrow> subdomain_record \<Rightarrow> subdomain_record \<Rightarrow> bool" where
  "may_move q e s r r' \<longleftrightarrow> parent_active q e s (sr_parent r) \<and> require_auth e (sr_owner r)
     \<and> sr_parent r' = sr_parent r \<and> sr_created_at r' = sr_created_at r"

definition parent_reclaimed :: "query \<Rightarrow> env \<Rightarrow> subdomains \<Rightarrow> string \<Rightarrow> bool" where
  "parent_reclaimed q e s p \<longleftrightarrow> (\<exists>a d. require_auth e a \<and> sd_parents s p = Some d \<and> pd_owner d \<noteq> a
     \<and> (\<exists>reg en. sd_registry s = Some reg
          \<and> query_resolve q e reg p (env_timestamp e) = Some en \<and> re_owner en = a))"

definition may_remove :: "query \<Rightarrow> env \<Rightarrow> subdomains \<Rightarrow> subdomain_record \<Rightarrow> bool" where
  "may_remove q e s r \<longleftrightarrow>
     (\<exists>c. require_auth e c \<and> (sr_owner r = c \<or> parent_governor s (sr_parent r) c))
     \<or> \<not> parent_active q e s (sr_parent r) \<or> parent_reclaimed q e s (sr_parent r)"

definition record_change_ok :: "query \<Rightarrow> env \<Rightarrow> subdomains \<Rightarrow> subdomains \<Rightarrow> string \<Rightarrow> bool" where
  "record_change_ok q e s s' f \<longleftrightarrow>
     (case sd_records s f of
        None \<Rightarrow> (case sd_records s' f of None \<Rightarrow> True | Some r' \<Rightarrow> may_create q e s r')
      | Some r \<Rightarrow> (case sd_records s' f of None \<Rightarrow> may_remove q e s r | Some r' \<Rightarrow> r' = r \<or> may_move q e s r r'))"

lemma change_same: "sd_records s' = sd_records s \<Longrightarrow> record_change_ok q e s s' f"
  by (auto simp: record_change_ok_def split: option.split)

text \<open>A purge of a parent only removes, and only that parent's records.\<close>

lemma change_purge:
  assumes "indexed s" and "sd_records s' = sd_records (purge_parent_namespace p s)"
    and "\<not> parent_active q e s p \<or> parent_reclaimed q e s p"
  shows "record_change_ok q e s s' f"
  using assms purge_parent_simps(1) [of s p]
  by (auto simp: record_change_ok_def parent_of_def may_remove_def split: option.split)

lemma change_ensure:
  "indexed s \<Longrightarrow> sd_records s' = sd_records (snd (ensure_parent_is_active q e p s)) \<Longrightarrow> record_change_ok q e s s' f"
  by (cases "parent_active q e s p") (auto simp: ensure_parent_iff intro: change_same change_purge)

lemma change_drop:
  assumes "sd_records s g = Some r" and "require_auth e c" and "sr_owner r = c \<or> parent_governor s (sr_parent r) c"
  shows "record_change_ok q e s (drop_subdomain ev g r s) f"
  using assms by (auto simp: record_change_ok_def sd_drop_frames may_remove_def split: option.split)

lemma change_record_query:
  assumes "indexed s"
  shows "record_change_ok q e s (snd (subdomain_exists q e g s)) f"
proof (cases "sd_records s g")
  case None
  then show ?thesis by (simp add: subdomain_exists_def subdomain_record_of_def change_same)
next
  case (Some r)
  then show ?thesis
    using purge_again(1) [OF assms Some] change_purge [OF assms, of _ "sr_parent r"]
    by (auto simp: subdomain_exists_def subdomain_record_of_def ensure_parent_iff change_same)
qed

lemma register_change:
  assumes "indexed s" and exec: "register_parent q e p a s = Inr s'"
  shows "record_change_ok q e s s' f"
  using exec
proof (rule register_parent_cases)
  fix s1
  assume auth: "require_auth e a"
    and s1: "s1 = s \<and> sd_parents s p = None \<or> s1 = purge_parent_namespace p s \<and> sd_registry s \<noteq> None \<and> (\<exists>d. sd_parents s p = Some d \<and> pd_owner d \<noteq> a)"
    and reg: "\<And>reg. sd_registry s = Some reg \<Longrightarrow> \<exists>en. query_resolve q e reg p (env_timestamp e) = Some en \<and> re_owner en = a"
    and s': "s' = sd_emit (ParentRegistered p a)
      (s1\<lparr>sd_parents := (sd_parents s1)(p \<mapsto> \<lparr>pd_owner = a, pd_controllers = []\<rparr>)\<rparr>)"
  from s1 show ?thesis
  proof
    assume "s1 = s \<and> sd_parents s p = None"
    then show ?thesis by (simp add: s' change_same)
  next
    assume p: "s1 = purge_parent_namespace p s \<and> sd_registry s \<noteq> None \<and> (\<exists>d. sd_parents s p = Some d \<and> pd_owner d \<noteq> a)"
    then have "parent_reclaimed q e s p" using auth reg by (auto simp: parent_reclaimed_def)
    with p show ?thesis by (intro change_purge [OF assms(1)]) (auto simp: s')
  qed
qed

lemma create_change:
  assumes "subdomain_create q e l p c a t s = Inr (g, s')"
  shows "record_change_ok q e s s' f"
  using assms by (rule create_cases) (auto simp: record_change_ok_def may_create_def split: option.split)

lemma transfer_change:
  assumes "subdomain_transfer q e g c b s = Inr s'"
  shows "record_change_ok q e s s' f"
  using assms by (rule transfer_sub_cases) (auto simp: record_change_ok_def may_move_def split: option.split)

lemma exec_change:
  assumes exec: "subdomain_exec q e cmd s = Inr s'" and ix: "indexed s"
  shows "record_change_ok q e s s' f"
proof (cases cmd)
  case (SAddController p c a)
  with exec show ?thesis by (auto dest!: controller_cases intro!: change_same)
next
  case (SRemoveController p c a)
  with exec show ?thesis by (auto dest!: controller_cases intro!: change_same)
next
  case (SRegisterParent p a)
  with exec register_change [OF ix] show ?thesis by simp
next
  case (SCreate l p c a t)
  with exec show ?thesis by (auto simp: bind_Inr_iff intro: create_change)
next
  case (STransfer g c b)
  with exec transfer_change show ?thesis by simp
next
  case (SDelete g c)
  with exec have "subdomain_delete q e g c s = Inr s'" by simp
  then show ?thesis by (rule delete_cases) (use change_drop in auto)
next
  case (SRevoke g c)
  with exec have "subdomain_revoke q e g c s = Inr s'" by simp
  then show ?thesis by (rule revoke_cases) (use change_drop in auto)
next
  case (SQueryRecord g)
  with exec change_record_query [OF ix] show ?thesis by auto
next
  case (SQueryParent p)
  with exec change_ensure [OF ix, of s'] show ?thesis by (auto simp: query_states)
next
  case (SQuerySubdomains p)
  with exec change_ensure [OF ix, of s'] show ?thesis by (auto simp: query_states)
qed (use exec in \<open>auto intro!: change_same simp: subdomain_initialize_def set_registry_contract_def
      set_max_depth_def subdomain_upgrade_def split: outcome_splits\<close>)

section \<open>A sample ledger\<close>

text \<open>Without a registry alice claims \<open>alice.xlm\<close> and creates \<open>pay.alice.xlm\<close> for bob; later the admin wires a registry.\<close>

definition sub_name :: string where "sub_name = ''pay.alice.xlm''"

definition sample_sub :: subdomain_record where
  "sample_sub = \<lparr>sr_parent = ''alice.xlm'', sr_owner = bob, sr_created_at = 100\<rparr>"

definition sample_parents :: subdomains where
  "sample_parents = subdomains_empty\<lparr>sd_admin := Some carol, sd_contract_version := Some CONTRACT_VERSION,
     sd_max_depth := Some 3,
     sd_parents := [''alice.xlm'' \<mapsto> \<lparr>pd_owner = alice, pd_controllers = []\<rparr>],
     sd_events := [ParentRegistered ''alice.xlm'' alice]\<rparr>"

definition sample_subs :: subdomains where
  "sample_subs = sample_parents\<lparr>sd_records := [sub_name \<mapsto> sample_sub],
     sd_parent_index := [''alice.xlm'' \<mapsto> [sub_name]], sd_owner_index := [bob \<mapsto> [sub_name]],
     sd_events := [ParentRegistered ''alice.xlm'' alice, SubdomainCreated sub_name ''alice.xlm'' alice bob]\<rparr>"

definition wired_subs :: subdomains where
  "wired_subs = sample_subs\<lparr>sd_registry := Some (Address ''CREG'')\<rparr>"

text \<open>A registry that answers nothing: every parent counts as inactive.\<close>

definition no_answers :: query where "no_answers e a f args = None"

lemma sample_parents_reachable: "subdomain_reachable sample_parents"
proof -
  have init: "subdomain_reachable (subdomains_empty\<lparr>sd_admin := Some carol,
      sd_contract_version := Some CONTRACT_VERSION, sd_max_depth := Some 3\<rparr>)"
    by (rule subdomain_reachable.command [OF subdomain_reachable.start, of no_answers "env_at 100 []" "SInitialize carol"])
       (simp add: subdomain_initialize_def subdomains_empty_def)
  have base: "validate_base_name_soroban ''alice.xlm'' = Inr ()" by code_simp
  show ?thesis
    by (rule subdomain_reachable.command [OF init, of no_answers "env_at 100 [alice]" "SRegisterParent ''alice.xlm'' alice"])
       (simp add: register_parent_def alice_fqdn base subdomains_empty_def sample_parents_def sd_emit_def)
qed

lemma sample_create:
  "subdomain_create q (env_at 100 [alice]) ''pay'' ''alice.xlm'' alice bob 100 sample_parents = Inr (sub_name, sample_subs)"
  by (simp add: subdomain_create_def get_parent_def ensure_parent_is_active_def sample_parents_def subdomains_empty_def
      label_depth_def max_depth_def sub_name_def sample_subs_def sample_sub_def add_owner_subdomain_def
      add_parent_subdomain_def get_parent_subdomains_def get_owner_subdomains_def sd_emit_def Let_def)

lemma sample_subs_reachable: "subdomain_reachable sample_subs"
  by (rule subdomain_reachable.command [OF sample_parents_reachable, of no_answers "env_at 100 [alice]"
        "SCreate ''pay'' ''alice.xlm'' alice bob 100"]) (simp add: sample_create)

lemma wired_subs_reachable: "subdomain_reachable wired_subs"
  by (rule subdomain_reachable.command [OF sample_subs_reachable, of no_answers "env_at 200 [carol]"
        "SSetRegistry (Address ''CREG'')"])
     (simp add: set_registry_contract_def sample_subs_def sample_parents_def wired_subs_def)

lemma wired_simps [simp]:
  "sd_records wired_subs = [sub_name \<mapsto> sample_sub]" "sd_registry wired_subs = Some (Address ''CREG'')"
  "sd_parents wired_subs = [''alice.xlm'' \<mapsto> \<lparr>pd_owner = alice, pd_controllers = []\<rparr>]"
  "get_parent_subdomains wired_subs p = (if p = ''alice.xlm'' then [sub_name] else [])"
  by (simp_all add: wired_subs_def sample_subs_def sample_parents_def get_parent_subdomains_def subdomains_empty_def)

lemma wired_inactive: "\<not> parent_active no_answers e wired_subs p"
  by (simp add: parent_active_def no_answers_def)

section \<open>Properties\<close>

text \<open>
  C19: In every reachable state of the subdomain contract the list of a parent is exactly the
  subdomains whose record names that parent, the list of an owner exactly the subdomains this owner holds, each without
  repetition; every parent is a valid base name; and every record belongs to a parent that is registered, under
  the name \<open>label.parent\<close> of at most 256 bytes.
\<close>

theorem subdomain_invariant:
  assumes "subdomain_reachable s"
  shows "(f \<in> set (get_parent_subdomains s p) \<longleftrightarrow> (\<exists>r. sd_records s f = Some r \<and> sr_parent r = p))
    \<and> (f \<in> set (get_owner_subdomains s a) \<longleftrightarrow> (\<exists>r. sd_records s f = Some r \<and> sr_owner r = a))
    \<and> distinct (get_parent_subdomains s p) \<and> distinct (get_owner_subdomains s a)
    \<and> (sd_parents s p = Some d \<longrightarrow> validate_base_name_soroban p = Inr ())
    \<and> (sd_records s f = Some r \<longrightarrow> sd_parents s (sr_parent r) \<noteq> None
         \<and> (\<exists>l. f = l @ ''.'' @ sr_parent r) \<and> length f \<le> 256)"
proof (intro conjI impI)
  have inv: "subdomain_inv s" by (rule subdomain_reachable_inv [OF assms])
  note ix = subdomain_invD(1) [OF inv, unfolded indexed_def]
  show "f \<in> set (get_parent_subdomains s p) \<longleftrightarrow> (\<exists>r. sd_records s f = Some r \<and> sr_parent r = p)"
    using index_consistentD(2) [OF conjunct1 [OF ix]] by (auto simp: parent_of_def)
  show "f \<in> set (get_owner_subdomains s a) \<longleftrightarrow> (\<exists>r. sd_records s f = Some r \<and> sr_owner r = a)"
    using index_consistentD(2) [OF conjunct2 [OF ix]] by (auto simp: sub_owner_of_def)
  show "distinct (get_parent_subdomains s p)" "distinct (get_owner_subdomains s a)"
    using ix by (auto dest: index_consistentD(1))
  show "sd_parents s p = Some d \<Longrightarrow> validate_base_name_soroban p = Inr ()"
    using subdomain_invD(3) [OF inv] by blast
  show "sd_records s f = Some r \<Longrightarrow> sd_parents s (sr_parent r) \<noteq> None"
    "sd_records s f = Some r \<Longrightarrow> \<exists>l. f = l @ ''.'' @ sr_parent r" "sd_records s f = Some r \<Longrightarrow> length f \<le> 256"
    using subdomain_invD(2) [OF inv] by (auto simp: sub_ok_def)
qed

theorem subdomain_invariant_witness:
  "sub_name \<in> set (get_parent_subdomains wired_subs ''alice.xlm'') \<and> sd_parents wired_subs (sr_parent sample_sub) \<noteq> None"
  using subdomain_invariant [OF wired_subs_reachable, of sub_name "''alice.xlm''"] by (simp add: sample_sub_def)

text \<open>
  C20: In a reachable state a successful call changes the record of a subdomain only so: it is created by a governor of
  its active parent (owner or controller, who signed); its owner, who signed, hands it over, and parent and creation time
  stay; it is removed by its owner or a governor, or because the registry no longer calls the parent active, or
  because the registry's new owner of the parent registers it anew.
\<close>

theorem subdomain_writes_authorised:
  assumes "subdomain_reachable s" and "subdomain_exec q e cmd s = Inr s'"
  shows "case sd_records s f of
      None \<Rightarrow> (case sd_records s' f of None \<Rightarrow> True | Some r' \<Rightarrow> may_create q e s r')
    | Some r \<Rightarrow> (case sd_records s' f of None \<Rightarrow> may_remove q e s r | Some r' \<Rightarrow> r' = r \<or> may_move q e s r r')"
  using exec_change [OF assms(2) subdomain_invD(1) [OF subdomain_reachable_inv [OF assms(1)]]]
  unfolding record_change_ok_def .

theorem subdomain_writes_authorised_witness: "may_create no_answers (env_at 100 [alice]) sample_parents sample_sub"
  using subdomain_writes_authorised [OF sample_parents_reachable, of no_answers "env_at 100 [alice]"
      "SCreate ''pay'' ''alice.xlm'' alice bob 100" sample_subs sub_name]
  by (simp add: sample_create) (simp add: sample_subs_def sample_parents_def subdomains_empty_def)

text \<open>
  When the registry does not call a parent active (missing, in its grace period, or claimable), asking for the
  parent or for its subdomains answers with nothing and deletes, in a reachable state, the parent and exactly the subdomains of this
  parent, whoever asks; and nobody can create, hand over, delete or revoke a subdomain of it.
\<close>

theorem inactive_parent_purged:
  assumes "subdomain_reachable s" and "\<not> parent_active q e s p"
  shows "(\<exists>t. subdomains_for_parent q e p s = ([], t) \<and> subdomain_parent q e p s = (None, t)
      \<and> sd_parents t = (sd_parents s)(p := None)
      \<and> (\<forall>f. sd_records t f = (case sd_records s f of None \<Rightarrow> None
              | Some r \<Rightarrow> if sr_parent r = p then None else Some r)))
    \<and> subdomain_create q e l p c a u s \<noteq> Inr x
    \<and> (sd_records s f = Some r \<and> sr_parent r = p \<longrightarrow> subdomain_transfer q e f c b s \<noteq> Inr y
      \<and> subdomain_delete q e f c s \<noteq> Inr y \<and> subdomain_revoke q e f c s \<noteq> Inr y)"
proof (intro conjI impI)
  have "indexed s" by (rule subdomain_invD(1) [OF subdomain_reachable_inv [OF assms(1)]])
  from purge_parent_simps(1,2) [OF this, of p] assms(2)
  show "\<exists>t. subdomains_for_parent q e p s = ([], t) \<and> subdomain_parent q e p s = (None, t)
      \<and> sd_parents t = (sd_parents s)(p := None)
      \<and> (\<forall>f. sd_records t f = (case sd_records s f of None \<Rightarrow> None
              | Some r \<Rightarrow> if sr_parent r = p then None else Some r))"
    by (auto simp: subdomains_for_parent_def subdomain_parent_def ensure_parent_iff parent_of_def split: option.split)
  show "subdomain_create q e l p c a u s \<noteq> Inr x"
    using assms(2) by (cases x) (auto elim!: create_cases)
  show "subdomain_transfer q e f c b s \<noteq> Inr y" "subdomain_delete q e f c s \<noteq> Inr y" "subdomain_revoke q e f c s \<noteq> Inr y"
    if "sd_records s f = Some r \<and> sr_parent r = p"
    using assms(2) that by (auto elim!: transfer_sub_cases delete_cases revoke_cases)
qed

theorem inactive_parent_purged_witness:
  "sd_records (snd (subdomains_for_parent no_answers (env_at 300 []) ''alice.xlm'' wired_subs)) sub_name = None
   \<and> sd_records wired_subs sub_name = Some sample_sub"
  using inactive_parent_purged [THEN conjunct1, OF wired_subs_reachable wired_inactive, of "env_at 300 []" "''alice.xlm''"]
  by (auto simp: sample_sub_def)

text \<open>
  \<open>create\<close> succeeds exactly when its caller signed and governs the active parent, the name \<open>label.parent\<close> is free
  and of at most 256 bytes, and the label, unless empty, has at most \<open>max_depth - 1\<close> dots. Nothing else is asked of the
  label: an empty one, one in capitals or one with empty parts is accepted.
\<close>

theorem subdomain_create_iff:
  "(\<exists>s'. subdomain_create q e l p c a t s = Inr (f, s')) \<longleftrightarrow>
     require_auth e c \<and> parent_active q e s p \<and> parent_governor s p c \<and> f = l @ ''.'' @ p \<and> length f \<le> 256
     \<and> sd_records s f = None \<and> (l = [] \<or> count_list l CHR ''.'' + 1 \<le> unat (max_depth s))"
proof -
  have depth: "label_depth l = count_list l CHR ''.'' + 1" for l
  proof -
    have "fold (\<lambda>b depth. if b = CHR ''.'' then depth + 1 else depth) l d = d + count_list l CHR ''.''" for d :: nat
      by (induction l arbitrary: d) auto
    then show ?thesis by (simp add: label_depth_def)
  qed
  show ?thesis
    by (auto simp: subdomain_create_def parent_governor_def bind_Inr_iff guard_Inr_iff get_parent_iff Let_def not_less depth)
qed

section \<open>Names of clients\<close>

lemma split_parts_iff:
  "split_subdomain_parts ps = Inr (l, p, t) \<longleftrightarrow> valid_label l \<and> valid_label p \<and> ps = [l, p, ''xlm'']"
proof (induction ps rule: split_subdomain_parts.induct)
  case (1 child parent ending)
  show ?case
    by (cases t; cases "validate_label child"; cases "validate_label parent")
       (auto simp: tld_parse_def simp flip: validate_label_iff)
qed auto

lemma build_subdomain_iff:
  "build_subdomain l p = Inr n \<longleftrightarrow> (\<exists>q. valid_label l \<and> valid_label q \<and> p = q @ ''.xlm'' \<and> n = l @ ''.'' @ q @ ''.xlm'')"
proof -
  have one: "tld_as_str b = ''xlm''" for b by (cases b) simp
  show ?thesis
    by (auto simp: build_subdomain_def bind_Inr_iff validate_label_iff parse_fqdn_iff one split: prod.splits)
qed

text \<open>
  Taking a client's subdomain name apart gives label and parent back, and only names built by the client come apart; and
  for such a name the contract's \<open>create\<close> files the subdomain under exactly that name.
\<close>

theorem subdomain_name_roundtrip:
  "split_subdomain n = Inr (l, p, t) \<longleftrightarrow> build_subdomain l (p @ ''.xlm'') = Inr n"
  "build_subdomain l parent = Inr n \<Longrightarrow> subdomain_create q e l parent c a u s = Inr (f, s') \<Longrightarrow> f = n"
proof -
  have "split_on CHR ''.'' n = [l, p, ''xlm''] \<longleftrightarrow> n = l @ ''.'' @ p @ ''.xlm''" if "valid_label l" "valid_label p"
  proof
    assume split: "split_on CHR ''.'' n = [l, p, ''xlm'']"
    have "concat (map (\<lambda>l. l @ ''.'') (split_on CHR ''.'' n)) = n @ ''.''" by (rule split_on_concat)
    with split show "n = l @ ''.'' @ p @ ''.xlm''" by simp
  next
    have "split_on CHR ''.'' (l @ CHR ''.'' # p @ CHR ''.'' # ''xlm'') = [l, p, ''xlm'']"
      using split_on_free [OF valid_label_no_dot [OF that(1)]] split_on_free [OF valid_label_no_dot [OF that(2)]] by simp
    then show "n = l @ ''.'' @ p @ ''.xlm'' \<Longrightarrow> split_on CHR ''.'' n = [l, p, ''xlm'']" by simp
  qed
  then show "split_subdomain n = Inr (l, p, t) \<longleftrightarrow> build_subdomain l (p @ ''.xlm'') = Inr n"
    unfolding split_subdomain_def split_parts_iff build_subdomain_iff by auto
  show "build_subdomain l parent = Inr n \<Longrightarrow> subdomain_create q e l parent c a u s = Inr (f, s') \<Longrightarrow> f = n"
    by (auto simp: build_subdomain_iff elim!: create_cases)
qed

theorem subdomain_name_roundtrip_witness:
  "build_subdomain ''pay'' ''alice.xlm'' = Inr sub_name \<and> split_subdomain sub_name = Inr (''pay'', ''alice'', Xlm)
   \<and> (\<exists>s'. subdomain_create no_answers (env_at 100 [alice]) ''pay'' ''alice.xlm'' alice bob 100 sample_parents = Inr (sub_name, s'))"
proof -
  have build: "build_subdomain ''pay'' ''alice.xlm'' = Inr sub_name" unfolding sub_name_def by code_simp
  have "split_subdomain sub_name = Inr (''pay'', ''alice'', Xlm)"
    using subdomain_name_roundtrip(1) [of sub_name "''pay''" "''alice''" Xlm] build by simp
  with build show ?thesis
    using subdomain_name_roundtrip(2) [OF build sample_create] sample_create [of no_answers] by blast
qed

end
