(* ===== verification/Nft_Properties.thy ===== *)
theory Nft_Properties
  imports Nft Samples
begin

text \<open>
  The entrypoints of the token contract as a step relation, and its properties: what its counters and lists say,
  who can change the owner of a token, and what is not asked of them.
\<close>

section \<open>Commands\<close>

datatype nft_command =
    TInitialize address
  | TUpgrade "u8 list" "u8 list"
  | TSetRegistry address address
  | TMint string address "string option" u64
  | TRefresh string
  | TApprove string address address
  | TApproveClear string address
  | TTransfer string address address
  | TTransferFrom address address address string
  | TBurn string
  | TSyncExpiry string u64
  | TSyncOwner string address

definition on_nft :: "nft \<times> 'w \<Rightarrow> (nft_error, nft) result \<Rightarrow> (nft_error, nft \<times> 'w) result" where
  "on_nft sw r = (case r of Inl err \<Rightarrow> Inl err | Inr t \<Rightarrow> Inr (t, snd sw))"

fun nft_exec :: "'w invoke \<Rightarrow> env \<Rightarrow> nft_command \<Rightarrow> nft \<times> 'w \<Rightarrow> (nft_error, nft \<times> 'w) result" where
  "nft_exec call e (TInitialize a) sw = on_nft sw (nft_initialize a (fst sw))"
| "nft_exec call e (TUpgrade h d) sw = on_nft sw (nft_upgrade e h d (fst sw))"
| "nft_exec call e (TSetRegistry a r) sw = on_nft sw (nft_set_registry e a r (fst sw))"
| "nft_exec call e (TMint n a u x) sw = on_nft sw (nft_mint (query_of call (snd sw)) e n a u x (fst sw))"
| "nft_exec call e (TRefresh n) sw = on_nft sw (nft_refresh_name_data (query_of call (snd sw)) e n (fst sw))"
| "nft_exec call e (TApprove n c a) sw = on_nft sw (nft_approve n c a (fst sw))"
| "nft_exec call e (TApproveClear n c) sw = on_nft sw (nft_approve_clear n c (fst sw))"
| "nft_exec call e (TTransfer n c b) sw = nft_transfer call e n c b sw"
| "nft_exec call e (TTransferFrom sp a b n) sw = nft_transfer_from call e sp a b n sw"
| "nft_exec call e (TBurn n) sw = on_nft sw (nft_burn e n (fst sw))"
| "nft_exec call e (TSyncExpiry n x) sw = on_nft sw (nft_sync_expiry e n x (fst sw))"
| "nft_exec call e (TSyncOwner n b) sw = on_nft sw (nft_sync_owner e n b (fst sw))"

text \<open>Between two commands the other contracts may change as they like.\<close>

inductive nft_reachable :: "'w invoke \<Rightarrow> nft \<times> 'w \<Rightarrow> bool" for call where
  start: "nft_reachable call (nft_empty, w)"
| command: "nft_reachable call sw \<Longrightarrow> nft_exec call e cmd sw = Inr tw \<Longrightarrow> nft_reachable call tw"
| world: "nft_reachable call (s, w) \<Longrightarrow> nft_reachable call (s, w')"

lemma on_nft_iff [simp]: "on_nft sw r = Inr tw \<longleftrightarrow> (\<exists>t. r = Inr t \<and> tw = (t, snd sw))"
  by (auto simp: on_nft_def split: sum.splits)

lemma nft_exec_inv:
  assumes "nft_exec call e cmd sw = Inr tw" and "nft_inv (fst sw)"
  shows "nft_inv (fst tw)"
  using assms
  by (cases cmd) (auto dest: nft_initialize_inv nft_upgrade_inv nft_set_registry_inv nft_mint_inv nft_refresh_inv nft_approve_inv nft_approve_clear_inv
      nft_transfer_inv nft_transfer_from_inv nft_burn_inv nft_sync_expiry_inv nft_sync_owner_inv)

lemma nft_reachable_inv: "nft_reachable call sw \<Longrightarrow> nft_inv (fst sw)"
  by (induction rule: nft_reachable.induct) (auto simp: nft_inv_empty intro: nft_exec_inv)

section \<open>Who moves a token\<close>

text \<open>The caller of a transfer names himself as the owner or the approved address.\<close>

fun moved_by :: "nft_command \<Rightarrow> string \<Rightarrow> token_record \<Rightarrow> bool" where
  "moved_by (TTransfer m c b) n r \<longleftrightarrow> m = n \<and> (tok_owner r = c \<or> tok_approved r = Some c)"
| "moved_by (TTransferFrom sp a b m) n r \<longleftrightarrow> m = n \<and> tok_owner r = a \<and> tok_approved r = Some sp"
| "moved_by _ n r \<longleftrightarrow> False"

definition admin_signed :: "env \<Rightarrow> nft \<Rightarrow> bool" where
  "admin_signed e s \<longleftrightarrow> (\<exists>admin. nft_admin s = Some admin \<and> require_auth e admin)"

lemma owner_of_iff: "nft_owner_of s n = Some a \<longleftrightarrow> (\<exists>r. nft_tokens s n = Some r \<and> tok_owner r = a)"
  by (auto simp: nft_owner_of_def)

lemma admin_cases:
  "nft_mint q e n a u x s = Inr t \<Longrightarrow> admin_signed e s"
  "nft_burn e n s = Inr t \<Longrightarrow> admin_signed e s"
  "nft_sync_owner e n b s = Inr t \<Longrightarrow> admin_signed e s"
  "nft_sync_expiry e n x s = Inr t \<Longrightarrow> admin_signed e s"
  by (auto simp: admin_signed_def nft_sync_owner_def nft_sync_expiry_def elim!: nft_mint_cases nft_burn_cases
      split: outcome_splits)

lemma same_tokens:
  "nft_initialize a s = Inr t \<Longrightarrow> nft_owner_of t = nft_owner_of s"
  "nft_upgrade e h d s = Inr t \<Longrightarrow> nft_owner_of t = nft_owner_of s"
  "nft_set_registry e a g s = Inr t \<Longrightarrow> nft_owner_of t = nft_owner_of s"
  "nft_refresh_name_data q e n s = Inr t \<Longrightarrow> nft_owner_of t = nft_owner_of s"
  "nft_approve n c a s = Inr t \<Longrightarrow> nft_owner_of t = nft_owner_of s"
  "nft_approve_clear n c s = Inr t \<Longrightarrow> nft_owner_of t = nft_owner_of s"
  by (auto simp: nft_initialize_def nft_upgrade_def nft_set_registry_def nft_refresh_name_data_def nft_approve_def
      nft_approve_clear_def Let_def nft_owner_of_def fun_eq_iff split: outcome_splits)

definition cleared_to :: "nft \<Rightarrow> string \<Rightarrow> address \<Rightarrow> bool" where
  "cleared_to t n b \<longleftrightarrow> (\<exists>r'. nft_tokens t n = Some r' \<and> tok_owner r' = b \<and> tok_approved r' = None)"

lemma transfer_moves:
  assumes "nft_transfer call e m c b sw = Inr tw" and "nft_owner_of (fst tw) n \<noteq> nft_owner_of (fst sw) n"
  shows "m = n \<and> (\<exists>r. nft_tokens (fst sw) n = Some r \<and> (tok_owner r = c \<or> tok_approved r = Some c)) \<and> cleared_to (fst tw) n b"
  using assms(1) by (rule nft_transfer_cases) (use assms(2) in \<open>auto simp: nft_owner_of_def cleared_to_def split: if_splits\<close>)

lemma transfer_from_moves:
  assumes "nft_transfer_from call e sp a b m sw = Inr tw" and "nft_owner_of (fst tw) n \<noteq> nft_owner_of (fst sw) n"
  shows "m = n \<and> (\<exists>r. nft_tokens (fst sw) n = Some r \<and> tok_owner r = a \<and> tok_approved r = Some sp) \<and> cleared_to (fst tw) n b"
  using assms(1)
  by (rule nft_transfer_from_cases) (use assms(2) in \<open>auto simp: nft_owner_of_def cleared_to_def split: if_splits\<close>)

lemma exec_moves:
  assumes exec: "nft_exec call e cmd sw = Inr tw" and new: "nft_owner_of (fst tw) n \<noteq> nft_owner_of (fst sw) n"
  shows "admin_signed e (fst sw)
    \<or> (\<exists>r b. nft_tokens (fst sw) n = Some r \<and> moved_by cmd n r \<and> cleared_to (fst tw) n b)"
proof (cases cmd)
  case (TTransfer m c b)
  with exec transfer_moves [OF _ new] show ?thesis by fastforce
next
  case (TTransferFrom sp a b m)
  with exec transfer_from_moves [OF _ new] show ?thesis by fastforce
qed (use exec new in \<open>auto dest: admin_cases same_tokens\<close>)

section \<open>Counting\<close>

lemma index_card:
  assumes "index_consistent own names"
  shows "length (names a) = card {n. own n = Some a}"
proof -
  have "set (names a) = {n. own n = Some a}" using index_consistentD(2) [OF assms] by blast
  with distinct_card [OF index_consistentD(1) [OF assms]] show ?thesis by metis
qed

section \<open>A sample ledger\<close>

text \<open>Carol administers the contract and mints \<open>alice.xlm\<close> to alice; no registry is configured.\<close>

definition alice_token :: token_record where
  "alice_token = \<lparr>tok_owner = alice, tok_approved = None, tok_metadata_uri = None, tok_expires_at = 1000\<rparr>"

definition sample_nft :: nft where
  "sample_nft = nft_emit (NftMint alice alice ''alice.xlm'') (minted (nft_empty\<lparr>nft_admin := Some carol,
     nft_contract_version := Some CONTRACT_VERSION\<rparr>) ''alice.xlm'' alice None 1000)"

lemma sample_nft_reachable: "nft_reachable call (sample_nft, w)"
proof -
  have init: "nft_reachable call (nft_empty\<lparr>nft_admin := Some carol, nft_contract_version := Some CONTRACT_VERSION\<rparr>, w)"
    by (rule nft_reachable.command [OF nft_reachable.start, of _ "env_at 1 []" "TInitialize carol" w])
       (simp add: nft_initialize_def nft_empty_def)
  show ?thesis
    by (rule nft_reachable.command [OF init, of "env_at 2 [carol]" "TMint ''alice.xlm'' alice None 1000"])
       (simp add: nft_mint_def sample_nft_def minted_def Let_def nft_empty_def)
qed

lemma sample_nft_simps [simp]:
  "nft_tokens sample_nft = [''alice.xlm'' \<mapsto> alice_token]" "nft_registry sample_nft = None"
  by (simp_all add: sample_nft_def alice_token_def nft_empty_def) (simp add: minted_def nft_empty_def)

text \<open>Every element of a list that \<open>u32\<close> can index has exactly one index when the list repeats nothing.\<close>

lemma vec_get_enumerates:
  assumes "distinct xs" and "length xs < 2 ^ 32"
  shows "n \<in> set xs \<longleftrightarrow> (\<exists>i. vec_get xs i = Some n)"
    and "vec_get xs i = Some n \<Longrightarrow> vec_get xs j = Some n \<Longrightarrow> i = j"
proof -
  have "unat (of_nat k :: u32) = k" if "k < length xs" for k
    using that assms(2) by (simp add: unsigned_of_nat take_bit_eq_mod)
  then show "n \<in> set xs \<longleftrightarrow> (\<exists>i. vec_get xs i = Some n)"
    unfolding in_set_conv_nth vec_get_def by (metis option.inject option.distinct(1))
  show "vec_get xs i = Some n \<Longrightarrow> vec_get xs j = Some n \<Longrightarrow> i = j"
    using nth_eq_iff_index_eq [OF assms(1)] unfolding vec_get_def
    by (metis option.inject option.distinct(1) unsigned_word_eqI)
qed

section \<open>Properties\<close>

text \<open>
  C21: In every reachable state of the token contract \<open>balance_of\<close> counts the tokens an address owns and \<open>total_supply\<close> all
  tokens (modulo 2^32, the width of the counters); and while there are fewer than 2^32 tokens, the enumeration
  \<open>token_by_index\<close> hits every token at exactly one index, and \<open>token_of_owner_by_index\<close> every token of the owner.
\<close>

theorem nft_enumeration_exact:
  assumes "nft_reachable call (s, w)"
  shows "nft_balance_of s a = of_nat (card {n. nft_owner_of s n = Some a})
    \<and> nft_total_supply s = of_nat (card {n. nft_owner_of s n \<noteq> None})
    \<and> (card {n. nft_owner_of s n \<noteq> None} < 2 ^ 32 \<longrightarrow>
       (nft_owner_of s n \<noteq> None \<longleftrightarrow> (\<exists>!i. nft_token_by_index s i = Some n))
     \<and> (nft_owner_of s n = Some a \<longleftrightarrow> (\<exists>!i. nft_token_of_owner_by_index s a i = Some n)))"
proof (intro conjI impI)
  have inv: "nft_inv s" using nft_reachable_inv [OF assms] by simp
  then have ix: "index_consistent (nft_owner_of s) (owner_tokens s)" and ids: "distinct (token_ids s)"
    "set (token_ids s) = {n. nft_owner_of s n \<noteq> None}" by (auto simp: nft_inv_def nft_owner_of_def)
  show "nft_balance_of s a = of_nat (card {n. nft_owner_of s n = Some a})"
    by (simp add: nft_balance_of_def vec_len_def index_card [OF ix])
  have len: "length (token_ids s) = card {n. nft_owner_of s n \<noteq> None}"
    using distinct_card [OF ids(1)] ids(2) by simp
  then show "nft_total_supply s = of_nat (card {n. nft_owner_of s n \<noteq> None})"
    by (simp add: nft_total_supply_def vec_len_def)
  assume small: "card {n. nft_owner_of s n \<noteq> None} < 2 ^ 32"
  have "finite {n. nft_owner_of s n \<noteq> None}" using ids(2) by (metis finite_set)
  then have "card {n. nft_owner_of s n = Some a} \<le> card {n. nft_owner_of s n \<noteq> None}"
    by (intro card_mono) auto
  with small have own: "length (owner_tokens s a) < 2 ^ 32" using index_card [OF ix, of a] by linarith
  have all: "length (token_ids s) < 2 ^ 32" using small len by simp
    show "nft_owner_of s n \<noteq> None \<longleftrightarrow> (\<exists>!i. nft_token_by_index s i = Some n)"
      using vec_get_enumerates [OF ids(1) all] ids(2) unfolding nft_token_by_index_def by blast
    show "nft_owner_of s n = Some a \<longleftrightarrow> (\<exists>!i. nft_token_of_owner_by_index s a i = Some n)"
      using vec_get_enumerates [OF index_consistentD(1) [OF ix] own] index_consistentD(2) [OF ix, of n a]
      unfolding nft_token_of_owner_by_index_def by blast
qed

theorem nft_enumeration_exact_witness:
  "nft_balance_of sample_nft alice = 1 \<and> (\<exists>!i. nft_token_by_index sample_nft i = Some ''alice.xlm'')"
proof -
  have own: "{n. nft_owner_of sample_nft n = Some alice} = {''alice.xlm''}"
    "{n. nft_owner_of sample_nft n \<noteq> None} = {''alice.xlm''}"
    by (auto simp: nft_owner_of_def alice_token_def)
  note facts = nft_enumeration_exact [OF sample_nft_reachable [of no_contracts "()"]]
  have "nft_balance_of sample_nft alice = 1" using facts [of alice] by (simp add: own)
  moreover have "\<exists>!i. nft_token_by_index sample_nft i = Some ''alice.xlm''"
    using facts [of alice "''alice.xlm''"] by (simp add: own) (simp add: nft_owner_of_def)
  ultimately show ?thesis ..
qed

text \<open>
  A successful call changes the owner of a token (mints and burns included) only when the administrator signed, or
  when it is a transfer whose named caller is the owner or the approved address; after such a
  transfer the token is approved to nobody.
\<close>

theorem nft_moves_accounted:
  assumes "nft_exec call e cmd (s, w) = Inr (s', w')" and "nft_owner_of s' n \<noteq> nft_owner_of s n"
  shows "(\<exists>admin. nft_admin s = Some admin \<and> require_auth e admin)
    \<or> (\<exists>r b r'. nft_tokens s n = Some r \<and> moved_by cmd n r
         \<and> nft_tokens s' n = Some r' \<and> tok_owner r' = b \<and> tok_approved r' = None)"
  using exec_moves [OF assms(1)] assms(2) unfolding admin_signed_def cleared_to_def by auto

theorem nft_moves_accounted_witness:
  "\<exists>s' r'. nft_exec no_contracts (env_at 5 []) (TTransfer ''alice.xlm'' alice bob) (sample_nft, ()) = Inr (s', ())
     \<and> nft_tokens s' ''alice.xlm'' = Some r' \<and> tok_approved r' = None"
proof -
  obtain s' where exec: "nft_exec no_contracts (env_at 5 []) (TTransfer ''alice.xlm'' alice bob) (sample_nft, ()) = Inr (s', ())"
    and "nft_owner_of s' ''alice.xlm'' = Some bob"
    by (simp add: nft_transfer_def nft_notify_registry_def nft_owner_of_def alice_token_def Let_def)
  moreover have "nft_owner_of sample_nft ''alice.xlm'' = Some alice" by (simp add: nft_owner_of_def alice_token_def)
  ultimately have "\<exists>r'. nft_tokens s' ''alice.xlm'' = Some r' \<and> tok_approved r' = None"
    using nft_moves_accounted [OF exec, of "''alice.xlm''"] by auto
  with exec show ?thesis by blast
qed

text \<open>
  No signature is asked for a token transfer: without a configured registry, a call that names the owner as its caller
  hands the token to anyone, in every environment.
\<close>

theorem nft_transfer_unsigned:
  assumes "nft_tokens s n = Some r" and "nft_registry s = None"
  shows "\<exists>s'. nft_transfer call e n (tok_owner r) b (s, w) = Inr (s', w) \<and> nft_owner_of s' n = Some b
    \<and> (\<forall>m. m \<noteq> n \<longrightarrow> nft_owner_of s' m = nft_owner_of s m)"
  using assms by (simp add: nft_transfer_def nft_notify_registry_def Let_def nft_owner_of_def)

theorem nft_transfer_unsigned_witness:
  "\<exists>s'. nft_transfer no_contracts (env_at 5 []) ''alice.xlm'' alice bob (sample_nft, ()) = Inr (s', ())
     \<and> nft_owner_of s' ''alice.xlm'' = Some bob"
  using nft_transfer_unsigned [of sample_nft "''alice.xlm''" alice_token no_contracts "env_at 5 []" bob "()"]
  by (auto simp: alice_token_def)

text \<open>
  A change of owner that comes from the registry (\<open>sync_owner\<close>) leaves the old owner's approval in place: the address
  approved before can take the token from the new owner.
\<close>

theorem nft_stale_approval:
  assumes "nft_tokens s n = Some r" and "tok_approved r = Some sp" and "nft_registry s = None"
    and "nft_sync_owner e n b s = Inr s'"
  shows "\<exists>s''. nft_transfer_from call e' sp b c n (s', w) = Inr (s'', w) \<and> nft_owner_of s'' n = Some c"
  using assms by (auto simp: nft_sync_owner_def nft_transfer_from_def nft_notify_registry_def Let_def nft_owner_of_def
      split: outcome_splits)

theorem nft_stale_approval_witness:
  "\<exists>s1 s2 s3. nft_approve ''alice.xlm'' alice carol sample_nft = Inr s1
     \<and> nft_sync_owner (env_at 9 [carol]) ''alice.xlm'' bob s1 = Inr s2
     \<and> nft_transfer_from no_contracts (env_at 10 []) carol bob carol ''alice.xlm'' (s2, ()) = Inr (s3, ())"
proof -
  let ?r = "alice_token\<lparr>tok_approved := Some carol\<rparr>"
  let ?s1 = "nft_emit (NftApprove alice carol ''alice.xlm'') (put_token sample_nft ''alice.xlm'' ?r)"
  have s1: "nft_approve ''alice.xlm'' alice carol sample_nft = Inr ?s1" by (simp add: nft_approve_def alice_token_def)
  have "nft_admin sample_nft = Some carol" by (simp add: sample_nft_def minted_def nft_empty_def)
  then obtain s2 where s2: "nft_sync_owner (env_at 9 [carol]) ''alice.xlm'' bob ?s1 = Inr s2"
    by (simp add: nft_sync_owner_def Let_def)
  from nft_stale_approval [OF _ _ _ s2, of ?r carol no_contracts "env_at 10 []" carol "()"] s1 s2
  show ?thesis by auto
qed

end
