(* ===== verification/Bridge_Properties.thy ===== *)
theory Bridge_Properties
  imports Bridge Samples
begin

text \<open>
  The properties of the bridge: routes lead to supported chains only, and what a message built for a route
  tells about its fields.
\<close>

section \<open>Messages field by field\<close>

lemma push_utf8_valid [simp]: "valid_utf8 t \<Longrightarrow> push_utf8 buf t = buf @ t"
  by (simp add: push_utf8_def)

definition quote_free :: "string \<Rightarrow> bool" where
  "quote_free t \<longleftrightarrow> CHR 0x22 \<notin> set t"

text \<open>A field without quotation marks ends where the first one stands.\<close>

lemma field_end:
  assumes "quote_free t" and "quote_free u" and "t @ dquote @ x = u @ dquote @ y"
  shows "t = u \<and> x = y"
  using assms
proof (induction t arbitrary: u)
  case Nil
  then show ?case by (cases u) (auto simp: quote_free_def dquote_def)
next
  case (Cons a t)
  then show ?case by (cases u) (auto simp: quote_free_def dquote_def)
qed

lemma fqdn_plain:
  assumes "validate_fqdn_soroban name = Inr ()"
  shows "valid_utf8 name" and "quote_free name" and "length name \<le> 68"
proof -
  obtain ls where ls: "\<forall>l \<in> set ls. valid_label l" and name: "name = fqdn_of ls" and len: "length name \<le> 68"
    using assms validate_fqdn_soroban_iff by blast
  have bytes: "b = CHR ''.'' \<or> label_byte b" if "b \<in> set name" for b
  proof -
    from that consider l where "l \<in> set ls" "b \<in> set l" | "b = CHR ''.''" | "b \<in> set ''xlm''"
      by (auto simp: name fqdn_of_def split: if_splits)
    then show ?thesis
    proof cases
      case 1
      with ls show ?thesis by (auto simp: valid_label_def list_all_iff)
    qed (auto simp: label_byte_def is_ascii_lowercase_def byte_in_def)
  qed
  then have "(of_char b :: nat) < 128 \<and> b \<noteq> CHR 0x22" if "b \<in> set name" for b
    using that by (fastforce dest: label_byte_ascii
        simp: label_byte_def is_ascii_lowercase_def is_ascii_digit_def byte_in_def)
  then show "valid_utf8 name" "quote_free name" by (auto intro: ascii_valid_utf8 simp: quote_free_def)
  show "length name \<le> 68" by (rule len)
qed

lemma forward_shape:
  assumes "valid_utf8 n"
  shows "\<exists>c' r'. (valid_utf8 c \<longrightarrow> c' = c) \<and> (valid_utf8 r \<longrightarrow> r' = r) \<and> axelar_forward_message n c r =
     first_keys ''xlm-ns-resolution'' ''name'' @ n @ dquote @ '','' @ dquote @ ''destination_chain'' @ dquote @ '':'' @
     dquote @ c' @ dquote @ '','' @ dquote @ ''resolver'' @ dquote @ '':'' @ dquote @ r' @ dquote @ ''}''"
  using assms
  by (intro exI [of _ "if valid_utf8 c then c else []"] exI [of _ "if valid_utf8 r then r else []"])
     (auto simp: axelar_forward_message_def push_utf8_def next_key_def Let_def)

lemma forward_fields:
  assumes "axelar_forward_message n c r = axelar_forward_message n' c' r'"
    and "valid_utf8 n" "valid_utf8 n'" "quote_free n" "quote_free n'"
  shows "n = n'" and "valid_utf8 c \<Longrightarrow> valid_utf8 c' \<Longrightarrow> quote_free c \<Longrightarrow> quote_free c' \<Longrightarrow> c = c'"
proof -
  obtain d s where d: "valid_utf8 c \<longrightarrow> d = c" and m: "axelar_forward_message n c r =
     first_keys ''xlm-ns-resolution'' ''name'' @ n @ dquote @ '','' @ dquote @ ''destination_chain'' @ dquote @ '':'' @
     dquote @ d @ dquote @ '','' @ dquote @ ''resolver'' @ dquote @ '':'' @ dquote @ s @ dquote @ ''}''"
    using forward_shape [OF assms(2)] by blast
  obtain d' s' where d': "valid_utf8 c' \<longrightarrow> d' = c'" and m': "axelar_forward_message n' c' r' =
     first_keys ''xlm-ns-resolution'' ''name'' @ n' @ dquote @ '','' @ dquote @ ''destination_chain'' @ dquote @ '':'' @
     dquote @ d' @ dquote @ '','' @ dquote @ ''resolver'' @ dquote @ '':'' @ dquote @ s' @ dquote @ ''}''"
    using forward_shape [OF assms(3)] by blast
  from assms(1) m m' have "n @ dquote @ '','' @ dquote @ ''destination_chain'' @ dquote @ '':'' @
     dquote @ d @ dquote @ '','' @ dquote @ ''resolver'' @ dquote @ '':'' @ dquote @ s @ dquote @ ''}'' =
     n' @ dquote @ '','' @ dquote @ ''destination_chain'' @ dquote @ '':'' @
     dquote @ d' @ dquote @ '','' @ dquote @ ''resolver'' @ dquote @ '':'' @ dquote @ s' @ dquote @ ''}''"
    by (metis same_append_eq)
  from field_end [OF assms(4,5) this] have n: "n = n'" and rest: "d @ dquote @ '','' @ dquote @ ''resolver'' @ dquote @
     '':'' @ dquote @ s @ dquote @ ''}'' = d' @ dquote @ '','' @ dquote @ ''resolver'' @ dquote @ '':'' @ dquote @ s' @
     dquote @ ''}''"
    by simp_all
  from n show "n = n'" .
  show "c = c'" if "valid_utf8 c" "valid_utf8 c'" "quote_free c" "quote_free c'"
    using that field_end [OF _ _ rest] d d' by auto
qed

lemma build_message_iff:
  "build_message s n c = Inr m \<longleftrightarrow> validate_fqdn_soroban n = Inr () \<and> c \<noteq> [] \<and> length c \<le> 32
     \<and> (\<exists>rt. bg_routes s c = Some rt \<and> buffered n \<and> buffered (destination_chain rt) \<and> buffered (destination_resolver rt)
          \<and> m = axelar_forward_message n (destination_chain rt) (destination_resolver rt))"
  by (auto simp: build_message_def bind_Inr_iff validate_chain_iff split: option.splits if_splits)

lemma build_reverse_iff:
  "build_reverse_message s a n c = Inr m \<longleftrightarrow> a \<noteq> [] \<and> validate_fqdn_soroban n = Inr () \<and> c \<noteq> [] \<and> length c \<le> 32
     \<and> (\<exists>rt. bg_routes s c = Some rt \<and> buffered a \<and> buffered n \<and> buffered (destination_chain rt)
          \<and> buffered (destination_resolver rt)
          \<and> m = axelar_reverse_message a n (destination_chain rt) (destination_resolver rt))"
  by (auto simp: build_reverse_message_def bind_Inr_iff guard_Inr_iff validate_chain_iff split: option.splits if_splits)
     (simp add: validate_fqdn_soroban_def copy_bytes_def rposition_def)

section \<open>A sample ledger\<close>

definition base_only :: bridge where
  "base_only = bridge_empty\<lparr>bg_admin := Some carol, bg_contract_version := Some CONTRACT_VERSION,
     bg_supported := [''base'' \<mapsto> \<lparr>chain_id = ''base'', resolver_address = ''0xabc''\<rparr>],
     bg_chain_ids := Some [''base''],
     bg_events := [SupportedChainAdded ''base'' ''0xabc'']\<rparr>"

definition base_routed :: bridge where
  "base_routed = base_only\<lparr>bg_routes :=
     [''base'' \<mapsto> \<lparr>destination_chain = ''base'', destination_resolver = ''0xabc'', gateway = ''''\<rparr>]\<rparr>"

lemma base_only_reachable: "bridge_reachable base_only"
proof -
  have init: "bridge_reachable (bridge_empty\<lparr>bg_admin := Some carol, bg_contract_version := Some CONTRACT_VERSION\<rparr>)"
    by (rule bridge_reachable.command [OF bridge_reachable.start, of "env_at 1 []" "BInitialize carol"])
       (simp add: bridge_initialize_def bridge_empty_def)
  show ?thesis
    by (rule bridge_reachable.command [OF init, of "env_at 2 [carol]" "BAddSupportedChain ''base'' ''0xabc''"])
       (simp add: add_supported_chain_def validate_chain_name_soroban_def length_constants bridge_empty_def
         base_only_def bg_emit_def)
qed

lemma base_routed_reachable: "bridge_reachable base_routed"
  by (rule bridge_reachable.command [OF base_only_reachable, of "env_at 3 [carol]" "BRegisterChain ''base''"])
     (simp add: register_chain_def validate_chain_name_soroban_def length_constants base_only_def base_routed_def
       bridge_empty_def)

lemma base_routed_simps [simp]:
  "bg_routes base_routed = [''base'' \<mapsto> \<lparr>destination_chain = ''base'', destination_resolver = ''0xabc'', gateway = ''''\<rparr>]"
  by (simp add: base_routed_def)

section \<open>Properties\<close>

text \<open>
  In every reachable state of the bridge a route exists only for a chain that is supported now, leads to the
  resolver this chain was registered with, and names the chain itself; the list of supported chains has each
  supported chain exactly once and nothing else. So a removed chain cannot be routed to.
\<close>

theorem bridge_routes_supported:
  assumes "bridge_reachable s"
  shows "(bg_routes s c = Some rt \<longrightarrow>
      bg_supported s c = Some \<lparr>chain_id = c, resolver_address = destination_resolver rt\<rparr> \<and> destination_chain rt = c)
    \<and> distinct (get_supported_chains s)
    \<and> (sc \<in> set (get_supported_chains s) \<longleftrightarrow> bg_supported s (chain_id sc) = Some sc)
    \<and> (remove_supported_chain e c s = Inr s' \<longrightarrow> build_message s' n c \<noteq> Inr m \<and> build_reverse_message s' a n c \<noteq> Inr m)"
proof (intro conjI impI)
  have inv: "bridge_inv s" by (rule bridge_reachable_inv [OF assms])
  let ?ids = "vec_or_empty (bg_chain_ids s)"
  show "bg_supported s c = Some \<lparr>chain_id = c, resolver_address = destination_resolver rt\<rparr>" "destination_chain rt = c"
    if "bg_routes s c = Some rt"
    using bridge_invD(2) [OF inv that] bridge_invD(1) [OF inv] by (auto simp: route_from_def)
  have "filter (\<lambda>i. bg_supported s i \<noteq> None) ?ids = ?ids"
    using bridge_invD(3) [OF inv] by (simp only: filter_id_conv) blast
  then have chains: "get_supported_chains s = map (\<lambda>i. the (bg_supported s i)) ?ids"
    by (simp add: get_supported_chains_def List.map_filter_def)
  have entry: "chain_id (the (bg_supported s i)) = i \<and> bg_supported s i = Some (the (bg_supported s i))"
    if "i \<in> set ?ids" for i
  proof -
    from that obtain sc where "bg_supported s i = Some sc" using bridge_invD(3) [OF inv] by auto
    with bridge_invD(1) [OF inv this] show ?thesis by simp
  qed
  have "inj_on (\<lambda>i. the (bg_supported s i)) (set ?ids)"
    by (rule inj_on_inverseI [where g = chain_id]) (use entry in blast)
  then show "distinct (get_supported_chains s)"
    using bridge_invD(4) [OF inv] by (simp add: chains distinct_map)
  show "sc \<in> set (get_supported_chains s) \<longleftrightarrow> bg_supported s (chain_id sc) = Some sc"
  proof
    assume "sc \<in> set (get_supported_chains s)"
    then obtain i where "i \<in> set ?ids" "sc = the (bg_supported s i)" by (auto simp: chains)
    with entry [of i] show "bg_supported s (chain_id sc) = Some sc" by simp
  next
    assume sc: "bg_supported s (chain_id sc) = Some sc"
    then have "chain_id sc \<in> set ?ids" using bridge_invD(3) [OF inv] by simp
    with sc show "sc \<in> set (get_supported_chains s)" unfolding chains by force
  qed
  show "build_message s' n c \<noteq> Inr m" "build_reverse_message s' a n c \<noteq> Inr m"
    if "remove_supported_chain e c s = Inr s'"
    using that by (auto simp: remove_supported_chain_def build_message_iff build_reverse_iff bg_emit_def split: outcome_splits)
qed

theorem bridge_routes_supported_witness:
  "bg_supported base_routed ''base'' = Some \<lparr>chain_id = ''base'', resolver_address = ''0xabc''\<rparr>"
  using bridge_routes_supported [THEN conjunct1, OF base_routed_reachable, of "''base''"] by simp

text \<open>
  C22: Two forward messages are equal only if they are about the same name, in whatever states of the bridge they were
  built; and about the same chain too, as long as the chain identifiers are UTF-8 without quotation marks.
\<close>

theorem forward_message_unambiguous:
  assumes "bridge_reachable s" "bridge_reachable s'"
    and "build_message s n c = Inr m" "build_message s' n' c' = Inr m"
  shows "n = n' \<and> (valid_utf8 c \<and> valid_utf8 c' \<and> quote_free c \<and> quote_free c' \<longrightarrow> c = c')"
proof -
  obtain rt rt' where rt: "bg_routes s c = Some rt" "bg_routes s' c' = Some rt'"
    and eq: "axelar_forward_message n (destination_chain rt) (destination_resolver rt) =
      axelar_forward_message n' (destination_chain rt') (destination_resolver rt')"
    and names: "validate_fqdn_soroban n = Inr ()" "validate_fqdn_soroban n' = Inr ()"
    using assms(3,4) by (auto simp: build_message_iff)
  have "destination_chain rt = c" "destination_chain rt' = c'"
    using rt bridge_invD(1,2) [OF bridge_reachable_inv [OF assms(1)]]
      bridge_invD(1,2) [OF bridge_reachable_inv [OF assms(2)]] by (fastforce simp: route_from_def)+
  with forward_fields [OF eq fqdn_plain(1) [OF names(1)] fqdn_plain(1) [OF names(2)] fqdn_plain(2) [OF names(1)]
      fqdn_plain(2) [OF names(2)]]
  show ?thesis by simp
qed

lemma base_message:
  "build_message base_routed ''abc.xlm'' ''base'' = Inr (axelar_forward_message ''abc.xlm'' ''base'' ''0xabc'')"
proof -
  have "validate_fqdn_soroban ''abc.xlm'' = Inr ()" by code_simp
  then show ?thesis by (simp add: build_message_iff buffered_def)
qed

theorem forward_message_unambiguous_witness:
  "build_message base_routed ''abc.xlm'' ''base'' = Inr (axelar_forward_message ''abc.xlm'' ''base'' ''0xabc'')
   \<and> build_message base_only ''abd.xlm'' ''base'' \<noteq> Inr (axelar_forward_message ''abc.xlm'' ''base'' ''0xabc'')
   \<and> build_message base_routed ''abd.xlm'' ''base'' \<noteq> Inr (axelar_forward_message ''abc.xlm'' ''base'' ''0xabc'')"
  using forward_message_unambiguous [OF base_only_reachable base_routed_reachable _ base_message, of "''abd.xlm''" "''base''"]
    forward_message_unambiguous [OF base_routed_reachable base_routed_reachable _ base_message, of "''abd.xlm''" "''base''"]
    base_message by auto

text \<open>
  The address of a reverse message is anybody's text and is not escaped: for every claimed name \<open>v\<close> the address
  \<open>a","primary_name":"v\<close> is accepted where \<open>a\<close> is, as long as it fits 256 bytes, and the message begins exactly as the
  message that binds \<open>a\<close> to \<open>v\<close>, up to the end of its field for the name.
\<close>

theorem reverse_message_forgeable:
  assumes "build_reverse_message s a n c = Inr m" and "build_reverse_message s a v c = Inr honest"
    and "valid_utf8 a" and "length a + 18 + length v \<le> 256" and "valid_utf8 (a @ next_key ''primary_name'' @ v)"
  shows "\<exists>forged rest rest'. build_reverse_message s (a @ next_key ''primary_name'' @ v) n c = Inr forged
     \<and> forged = first_keys ''xlm-ns-reverse-resolution'' ''address'' @ a @ next_key ''primary_name'' @ v @ dquote @ rest
     \<and> honest = first_keys ''xlm-ns-reverse-resolution'' ''address'' @ a @ next_key ''primary_name'' @ v @ dquote @ rest'"
proof -
  from assms(1) obtain rt where rt: "bg_routes s c = Some rt" "buffered n" "buffered (destination_chain rt)"
    "buffered (destination_resolver rt)" and n: "validate_fqdn_soroban n = Inr ()" and c: "c \<noteq> []" "length c \<le> 32"
    by (auto simp: build_reverse_iff)
  from assms(2) rt(1) have h: "honest = axelar_reverse_message a v (destination_chain rt) (destination_resolver rt)"
    and v: "validate_fqdn_soroban v = Inr ()" by (auto simp: build_reverse_iff)
  let ?f = "a @ next_key ''primary_name'' @ v"
  have "length ?f \<le> 256" using assms(4) by (simp add: next_key_def dquote_def)
  then have "build_reverse_message s ?f n c = Inr (axelar_reverse_message ?f n (destination_chain rt) (destination_resolver rt))"
    using rt n c by (simp add: build_reverse_iff buffered_def next_key_def dquote_def)
  moreover have "\<exists>rest. axelar_reverse_message ?f n (destination_chain rt) (destination_resolver rt) =
      first_keys ''xlm-ns-reverse-resolution'' ''address'' @ a @ next_key ''primary_name'' @ v @ dquote @ rest"
    using fqdn_plain(1) [OF n] assms(5) by (simp add: axelar_reverse_message_def Let_def push_utf8_def) (simp add: next_key_def)
  moreover have "\<exists>rest'. honest =
      first_keys ''xlm-ns-reverse-resolution'' ''address'' @ a @ next_key ''primary_name'' @ v @ dquote @ rest'"
    using fqdn_plain(1) [OF v] assms(3)
    by (simp add: h axelar_reverse_message_def Let_def push_utf8_def) (simp add: next_key_def)
  ultimately show ?thesis by blast
qed

theorem reverse_message_forgeable_witness:
  "\<exists>forged rest. build_reverse_message base_routed (''GBOB'' @ next_key ''primary_name'' @ ''alice.xlm'') ''bob.xlm'' ''base'' = Inr forged
     \<and> forged = first_keys ''xlm-ns-reverse-resolution'' ''address'' @ ''GBOB'' @ next_key ''primary_name'' @ ''alice.xlm'' @ dquote @ rest"
proof -
  have names: "validate_fqdn_soroban ''alice.xlm'' = Inr ()" "validate_fqdn_soroban ''bob.xlm'' = Inr ()" by code_simp+
  have "build_reverse_message base_routed ''GBOB'' n ''base'' =
      Inr (axelar_reverse_message ''GBOB'' n ''base'' ''0xabc'')" if "validate_fqdn_soroban n = Inr ()" for n
    using that fqdn_plain(3) [OF that] by (simp add: build_reverse_iff buffered_def)
  from reverse_message_forgeable [OF this this, OF names(2,1)] show ?thesis
    by (auto simp: next_key_def dquote_def)
qed

end
