(* ===== verification/System.thy ===== *)
theory System
  imports Registry_Links Registrar_Properties Nft_Properties Resolver_Proofs
begin

text \<open>
  Contracts together: registry and token contract, registrar and registry. The guarantees of the clients come from
  the interfaces their providers interpret; here they are carried along runs of the composed ledgers.
\<close>

section \<open>Registry and token contract\<close>

lemma exec_nft_contract:
  assumes exec: "registry_exec call e cmd (s, w) = Inr (s', w')" and "\<not> rewires cmd"
  shows "rg_nft_contract s' = rg_nft_contract s"
proof (cases cmd)
  case (CRegister n a u uri t x g)
  with exec show ?thesis by (auto elim!: register_cases)
next
  case (CRenew n c x g t)
  with exec show ?thesis by (auto elim!: renew_cases)
next
  case (CTransfer n c b t)
  with exec show ?thesis by (auto elim!: transfer_cases)
next
  case (CBurn n c t)
  with exec show ?thesis by (auto elim!: burn_cases)
next
  case (CLockName n c until reason t)
  with exec show ?thesis by (auto elim!: lock_cases)
next
  case (CUnlockName n c)
  with exec show ?thesis by (auto elim!: unlock_name_cases)
qed (use exec assms(2) in \<open>auto dest!: edit_cases simp: registry_initialize_def
      set_dispute_admin_def registry_upgrade_def Let_def split: outcome_splits\<close>)

text \<open>
  Runs of a registry at \<open>r\<close> wired to a token contract at \<open>a\<close>, on a ledger with other contracts; both start without names.
    \<^item> \<open>registry\<close>: the registry executes any of its commands, but is not wired to another token contract. The
      token contract has not signed: a contract signs only the calls it makes itself, and the only one the token contract
      makes to change the registry, \<open>update_owner\<close> from a transfer, is part of \<open>token\<close>.
    \<^item> \<open>token\<close>: anybody executes any command of the token contract directly, its administrator apart (the
      registry, when it is the administrator, signs only the calls it makes itself, in \<open>registry\<close>). The one
      exception is a transfer at a token contract that has not been told of the registry: it moves the token and nothing else
      (\<open>token_transfer_never_synced\<close>).
    \<^item> \<open>others\<close>: the other contracts change as they like.
\<close>

fun transfers_token :: "nft_command \<Rightarrow> bool" where
  "transfers_token (TTransfer n c b) = True"
| "transfers_token (TTransferFrom sp c b n) = True"
| "transfers_token _ = False"

inductive wired_run :: "address \<Rightarrow> address \<Rightarrow> registry \<times> nft \<times> 'v \<Rightarrow> bool" for a r where
  start: "rg_entries s = (\<lambda>_. None) \<Longrightarrow> rg_nft_contract s = Some a \<Longrightarrow> nft_tokens w = (\<lambda>_. None) \<Longrightarrow> wired_run a r (s, w, v)"
| registry: "wired_run a r (s, w, v) \<Longrightarrow> registry_exec (nft_contract_at a q others) e cmd (s, w, v) = Inr (s', w', v') \<Longrightarrow>
     \<not> require_auth e a \<Longrightarrow> (\<And>b. cmd = CSetNftContract b \<Longrightarrow> b = a) \<Longrightarrow> wired_run a r (s', w', v')"
| token: "wired_run a r (s, w, v) \<Longrightarrow> nft_exec (deployed_at r (registry_act others)) e tcmd (w, s, v) = Inr (w', s', v') \<Longrightarrow>
     \<not> admin_signed e w \<Longrightarrow> (transfers_token tcmd \<Longrightarrow> nft_registry w = Some r) \<Longrightarrow> wired_run a r (s', w', v')"
| others: "wired_run a r (s, w, v) \<Longrightarrow> wired_run a r (s, w, v')"

lemma wired_command:
  assumes exec: "registry_exec (nft_contract_at a q others) e cmd (s, w, v) = Inr (s', w', v')"
    and "\<not> require_auth e a" and "\<And>b. cmd = CSetNftContract b \<Longrightarrow> b = a"
    and wired: "rg_nft_contract s = Some a" and mirror: "token_view w = holdings s"
  shows "rg_nft_contract s' = Some a \<and> token_view w' = holdings s'"
proof (cases "rewires cmd")
  case False
  then show ?thesis
    using nft_tok.registry_exec_mirror [OF exec False wired] exec_nft_contract [OF exec False] wired mirror by simp
next
  case True
  then consider b where "cmd = CSetNftContract b" | n c b where "cmd = CUpdateOwner n c b" by (cases cmd) auto
  then show ?thesis
  proof cases
    case 1
    with exec assms(3) mirror show ?thesis
      by (auto simp: set_nft_contract_def holdings_def fun_eq_iff split: outcome_splits)
  next
    case 2
    with exec assms(2) wired show ?thesis by (auto elim!: update_owner_cases)
  qed
qed

lemma update_owner_refused: "registry_act call e ''update_owner'' [VStr n, VAddr b] sw = None"
  by (simp add: registry_act_def registry_dispatch_def)

lemma token_view_tokens: "nft_tokens w' = nft_tokens w \<Longrightarrow> token_view w' = token_view w"
  by (simp add: token_view_def fun_eq_iff)

lemma same_token_view:
  "nft_initialize b w = Inr w' \<Longrightarrow> token_view w' = token_view w"
  "nft_upgrade e h d w = Inr w' \<Longrightarrow> token_view w' = token_view w"
  "nft_set_registry e b g w = Inr w' \<Longrightarrow> token_view w' = token_view w"
  "nft_refresh_name_data q e n w = Inr w' \<Longrightarrow> token_view w' = token_view w"
  "nft_approve n c b w = Inr w' \<Longrightarrow> token_view w' = token_view w"
  "nft_approve_clear n c w = Inr w' \<Longrightarrow> token_view w' = token_view w"
  by (auto simp: nft_initialize_def nft_upgrade_def nft_set_registry_def nft_refresh_name_data_def nft_approve_def
      nft_approve_clear_def Let_def token_view_def fun_eq_iff split: outcome_splits)

lemma told_transfer_refused:
  assumes "nft_registry w = Some r"
  shows "nft_transfer (deployed_at r (registry_act others)) e n c b (w, sv) \<noteq> Inr tw"
    and "nft_transfer_from (deployed_at r (registry_act others)) e sp c b n (w, sv) \<noteq> Inr tw"
  using assms
  by (auto simp: nft_transfer_def nft_transfer_from_def nft_notify_registry_def deployed_at_def update_owner_refused Let_def
      split: option.splits if_splits)

lemma token_command:
  assumes "nft_exec (deployed_at r (registry_act others)) e tcmd (w, s, v) = Inr (w', s', v')"
    and "\<not> admin_signed e w" and "transfers_token tcmd \<Longrightarrow> nft_registry w = Some r"
  shows "s' = s \<and> token_view w' = token_view w"
  using assms by (cases tcmd) (auto dest: admin_cases same_token_view simp: told_transfer_refused)

lemma wired_run_mirror:
  "wired_run a r swv \<Longrightarrow> rg_nft_contract (fst swv) = Some a \<and> token_view (fst (snd swv)) = holdings (fst swv)"
proof (induction rule: wired_run.induct)
  case (start s w v)
  then show ?case by (simp add: token_view_def holdings_def fun_eq_iff)
next
  case (registry s w v q others e cmd s' w' v')
  then show ?case using wired_command [OF registry.hyps(2,3,4)] by simp
next
  case (token s w v others e tcmd w' s' v')
  then show ?case using token_command [OF token.hyps(2,3,4)] by simp
qed simp

section \<open>Registrar and registry\<close>

text \<open>Registry commands that leave all dates alone.\<close>

fun keeps_dates :: "registry_command \<Rightarrow> bool" where
  "keeps_dates (CRegister n a u uri t x g) = False"
| "keeps_dates (CRenew n c x g t) = False"
| "keeps_dates (CBurn n c t) = False"
| "keeps_dates _ = True"

definition dates_of :: "registry \<Rightarrow> string \<Rightarrow> (u64 \<times> u64) option" where
  "dates_of s n = map_option (\<lambda>en. (re_expires_at en, re_grace_period_ends_at en)) (rg_entries s n)"

lemma dates_of_upd:
  "rg_entries s n = Some en \<Longrightarrow> rg_entries s' = (rg_entries s)(n \<mapsto> en') \<Longrightarrow> re_expires_at en' = re_expires_at en \<Longrightarrow>
     re_grace_period_ends_at en' = re_grace_period_ends_at en \<Longrightarrow> dates_of s' = dates_of s"
  by (auto simp: dates_of_def fun_eq_iff)

lemma dates_of_same: "rg_entries s' = rg_entries s \<Longrightarrow> dates_of s' = dates_of s"
  by (simp add: dates_of_def fun_eq_iff)

lemma exec_keeps_dates:
  assumes exec: "registry_exec call e cmd (s, w) = Inr (s', w')" and "keeps_dates cmd"
  shows "dates_of s' = dates_of s"
proof (cases cmd)
  case (CTransfer n c b t)
  with exec show ?thesis by (auto elim!: transfer_cases intro!: dates_of_upd)
next
  case (CUpdateOwner n c b)
  with exec show ?thesis by (auto elim!: update_owner_cases intro!: dates_of_upd)
next
  case (CLockName n c until reason t)
  with exec show ?thesis by (auto elim!: lock_cases intro!: dates_of_same)
next
  case (CUnlockName n c)
  with exec show ?thesis by (auto elim!: unlock_name_cases intro!: dates_of_same)
next
  case (CSetResolver n c r t)
  with exec show ?thesis by (auto dest!: edit_cases intro!: dates_of_upd)
next
  case (CSetTargetAddress n c r t)
  with exec show ?thesis by (auto dest!: edit_cases intro!: dates_of_upd)
next
  case (CSetMetadata n c u t)
  with exec show ?thesis by (auto dest!: edit_cases intro!: dates_of_upd)
qed (use exec assms(2) in \<open>auto intro!: dates_of_same simp: registry_initialize_def
      set_dispute_admin_def set_nft_contract_def registry_upgrade_def Let_def split: outcome_splits\<close>)

lemma agree_dates_of:
  "dates_agree r (leases_of s) \<longleftrightarrow>
     (\<forall>n x. rs_registrations r n = Some x \<longrightarrow> dates_of s n = Some (rr_expires_at x, rr_grace_period_ends_at x))"
  by (auto simp: dates_agree_def dates_of_def)

text \<open>
  Runs of a registrar and the registry at \<open>reg\<close> it calls: the registrar starts with no registrations and executes its commands;
  at the registry names change hands, resolver, metadata and locks are set. (Registrations, renewals and burns that
  go to the registry directly are not part of these runs: nothing stops them, and they move dates behind the registrar's back.)
\<close>

inductive leased_run :: "'w invoke \<Rightarrow> address \<Rightarrow> registrar \<times> registry \<times> 'w \<Rightarrow> bool" for call reg where
  start: "rs_registrations r = (\<lambda>_. None) \<Longrightarrow> leased_run call reg (r, gw)"
| registrar: "leased_run call reg (r, gw) \<Longrightarrow>
     registrar_exec (deployed_at reg (registry_act call)) e cmd (r, gw) = Inr (r', gw') \<Longrightarrow> leased_run call reg (r', gw')"
| registry: "leased_run call reg (r, g, w) \<Longrightarrow> registry_exec call e rcmd (g, w) = Inr (g', w') \<Longrightarrow> keeps_dates rcmd \<Longrightarrow>
     leased_run call reg (r, g', w')"

lemma leased_run_dates: "leased_run call reg rgw \<Longrightarrow> dates_agree (fst rgw) (leases_of (fst (snd rgw)))"
proof (induction rule: leased_run.induct)
  case (start r gw)
  then show ?case by (simp add: dates_agree_def)
next
  case (registrar r gw e cmd r' gw')
  then show ?case using rg_lease.registrar_exec_dates by fastforce
next
  case (registry r g w e rcmd g' w')
  then show ?case using exec_keeps_dates [OF registry.hyps(2,3)] by (simp add: agree_dates_of)
qed

section \<open>A sample ledger\<close>

definition nft_id :: address where "nft_id = Address ''CNFT''"

definition wired_registry :: registry where
  "wired_registry = registry_empty\<lparr>rg_nft_contract := Some nft_id\<rparr>"

definition wired_nft :: nft where
  "wired_nft = nft_empty\<lparr>nft_admin := Some (Address ''CSELF''), nft_contract_version := Some CONTRACT_VERSION\<rparr>"

definition no_query :: query where "no_query e a f args = None"

lemma wired_start: "wired_run nft_id registry_id (wired_registry, wired_nft, ())"
  by (rule wired_run.start) (simp_all add: wired_registry_def wired_nft_def registry_empty_def nft_empty_def)

lemma wired_registers:
  "\<exists>s w. registry_exec (nft_contract_at nft_id no_query no_contracts) (env_at 100 [alice])
       (CRegister ''alice.xlm'' alice None None 100 1000 2000) (wired_registry, wired_nft, ()) = Inr (s, w, ())
     \<and> rg_entries s ''alice.xlm'' = Some alice_entry"
proof -
  let ?n = "''alice.xlm''"
  have mint: "nft_mint no_query (callee_env (env_at 100 [alice]) nft_id) ?n alice None 1000 wired_nft =
      Inr (nft_emit (NftMint alice alice ?n) (minted wired_nft ?n alice None 1000))"
    by (simp add: nft_mint_def wired_nft_def nft_empty_def minted_def Let_def) (simp add: env_at_def)
  have "nft_contract_at nft_id no_query no_contracts (callee_env (env_at 100 [alice]) nft_id) nft_id ''mint''
      [VStr ?n, VAddr alice, VOptStr None, VU64 1000] (wired_nft, ()) =
      Some (VUnit, nft_emit (NftMint alice alice ?n) (minted wired_nft ?n alice None 1000), ())"
    by (simp add: nft_contract_iff nft_dispatch_def mint)
  then show ?thesis
    by (simp add: registry_register_def alice_fqdn ensure_name_unlocked_def validate_metadata_def
      validate_lifecycle_timestamps_def is_active_at_def wired_registry_def registry_empty_def nft_client_call_def
      alice_entry_def fresh_entry_def add_owner_name_def put_entry_def names_for_owner_def Let_def)
qed

section \<open>Properties\<close>

text \<open>
  C3: A registry wired to a token contract keeps the tokens a mirror of its entries: a token exists
  exactly for the names with an entry, it belongs to the entry's owner, and it shows the entry's expiry. This holds along every run
  in which the registry executes any of its commands, in transactions that do not carry a signature of the token contract, and anybody
  any command of the token contract, in transactions that do not carry a signature of its administrator (a contract, such as the
  registry as the administrator, signs only the calls it makes itself), on a ledger with any other contracts. Two things are no part of these
  runs: wiring the registry to another token contract; and transferring a token at a token contract in which no registry, or another one,
  has been configured (with this registry configured transfers are tried too, and all of them trap).
\<close>

theorem tokens_mirror_registry:
  assumes "wired_run a r (s, w, v)"
  shows "map_option (\<lambda>r. (tok_owner r, tok_expires_at r)) (nft_tokens w n) =
     map_option (\<lambda>en. (re_owner en, re_expires_at en)) (rg_entries s n)"
  using wired_run_mirror [OF assms] by (simp add: fun_eq_iff token_view_def holdings_def)

theorem tokens_mirror_registry_witness:
  "\<exists>s w r. wired_run nft_id registry_id (s, w, ()) \<and> nft_tokens w ''alice.xlm'' = Some r \<and> tok_owner r = alice
     \<and> tok_expires_at r = 1000"
proof -
  obtain s w where exec: "registry_exec (nft_contract_at nft_id no_query no_contracts) (env_at 100 [alice])
       (CRegister ''alice.xlm'' alice None None 100 1000 2000) (wired_registry, wired_nft, ()) = Inr (s, w, ())"
    and entry: "rg_entries s ''alice.xlm'' = Some alice_entry" using wired_registers by blast
  have run: "wired_run nft_id registry_id (s, w, ())"
    by (rule wired_run.registry [OF wired_start exec]) (simp_all add: nft_id_def alice_def)
  with tokens_mirror_registry [OF run, of "''alice.xlm''"] entry show ?thesis by auto
qed

text \<open>
  Wired both ways, the two contracts can register nothing: \<open>mint\<close> asks the registry it has been told of for the name, while the
  registry's own \<open>register\<close> is still running, and the host refuses such a call back into a running contract.
\<close>

theorem wired_both_ways_registers_nothing:
  assumes "rg_nft_contract s = Some a" and "nft_registry w = Some r"
    and reentry: "\<And>e args. q e r ''resolve'' args = None"
  shows "registry_register (nft_contract_at a q others) e n owner target uri t x g (s, w, v) \<noteq> Inr (s', w', v')"
proof
  assume "registry_register (nft_contract_at a q others) e n owner target uri t x g (s, w, v) = Inr (s', w', v')"
  then show False
  proof (rule register_cases)
    fix s5 :: registry and w5 :: "nft \<times> 'a"
    assume old: "(rg_entries s n = None \<and> s5 = unlock s n \<and> w5 = (w, v))
     \<or> (\<exists>old. rg_entries s n = Some old \<and> \<not> entry_active_at old t \<and> entry_claimable_at old t
          \<and> s5 = rg_emit (RegBurn n (re_owner old)) (delete_entry (unlock s n) n old)
          \<and> nft_effect (nft_contract_at a q others) e ''burn'' [VStr n] (rg_nft_contract s) (w, v) w5)"
      and mint: "nft_effect (nft_contract_at a q others) e ''mint'' [VStr n, VAddr owner, VOptStr uri, VU64 x]
        (rg_nft_contract s) w5 (w', v')"
    have "nft_registry (fst w5) = Some r"
      using old assms(1,2)
      by (cases w5) (auto simp: nft_effect_def nft_contract_iff nft_dispatch_def elim!: nft_burn_cases)
    moreover have "nft_mint q (callee_env e a) n owner uri x (fst w5) = Inr w'"
      using mint assms(1) by (cases w5) (simp add: nft_effect_def nft_contract_iff nft_dispatch_def)
    ultimately show False by (auto simp: nft_mint_def query_resolve_def reentry Let_def split: outcome_splits)
  qed
qed

theorem wired_both_ways_registers_nothing_witness:
  "registry_register (nft_contract_at nft_id no_query no_contracts) (env_at 100 [alice]) ''alice.xlm'' alice None None 100 1000 2000
     (wired_registry, wired_nft\<lparr>nft_registry := Some registry_id\<rparr>, ()) \<noteq> Inr (s', w', v')"
  using wired_both_ways_registers_nothing [of wired_registry nft_id "wired_nft\<lparr>nft_registry := Some registry_id\<rparr>" registry_id no_query]
  by (simp add: wired_registry_def no_query_def)

text \<open>
  An owner whose name has expired still removes its record at the resolver: \<open>remove_record\<close> asks the registry for the owner at
  clock 0, at which every entry counts as active.
\<close>

theorem expired_owner_removes:
  assumes "registry_reachable call (g, w)" and "rg_entries g n = Some en" and "require_auth e (re_owner en)"
    and "rv_registry s = Some reg" and "rv_forward s n = Some record"
    and q: "\<And>e f args. q e reg f args = registry_query g f args"
  shows "\<exists>s'. remove_record q e n (re_owner en) s = Inr s' \<and> rv_forward s' n = None"
proof -
  have "registry_inv g" using registry_reachable_inv [OF assms(1)] by simp
  then have "validate_fqdn_soroban n = Inr ()" using registry_inv_entry [OF _ assms(2)] by (simp add: entry_ok_def)
  then have "registry_resolve g n 0 = Inr en"
    using assms(2) by (simp add: registry_resolve_def get_entry_def entry_active_at_def is_active_at_def)
  then have "owner_at q e s n 0 (re_owner en)"
    by (simp add: owner_at_def assms(4) query_resolve_def q registry_query_def)
  then have "assert_owner q e s n record (re_owner en) 0 = Inr ()" using assert_owner_iff [OF assms(5)] by simp
  with assms(3,5) show ?thesis
    by (cases "stellar record") (simp_all add: remove_record_def rv_get_record_def Let_def)
qed

theorem expired_owner_removes_witness:
  "\<exists>s'. remove_record (\<lambda>e a f args. registry_query alice_registry f args) (env_at 5000 [alice]) ''alice.xlm'' alice
     (resolver_empty\<lparr>rv_registry := Some registry_id, rv_forward := [''alice.xlm'' \<mapsto>
        \<lparr>rec_owner = alice, rec_addresses = [], rec_text_records = [], rec_updated_at = 100, rec_is_wildcard = False\<rparr>]\<rparr>) = Inr s'
   \<and> registry_name_state alice_registry ''alice.xlm'' 5000 = Claimable"
  using expired_owner_removes [OF alice_reachable [of no_contracts "()"], of "''alice.xlm''" alice_entry "env_at 5000 [alice]"
      "resolver_empty\<lparr>rv_registry := Some registry_id, rv_forward := [''alice.xlm'' \<mapsto>
        \<lparr>rec_owner = alice, rec_addresses = [], rec_text_records = [], rec_updated_at = 100, rec_is_wildcard = False\<rparr>]\<rparr>"
      registry_id _ "\<lambda>e a f args. registry_query alice_registry f args"]
  by (auto simp: registry_name_state_def entry_active_at_def entry_claimable_at_def is_active_at_def is_claimable_at_def)

text \<open>
  A transfer at the token contract never keeps token and registry together. With the registry configured there
  the call \<open>update_owner\<close> it makes has two arguments where the registry's function has three, so the transfer traps; without,
  the registry is not told and token and entry have different owners afterwards.
\<close>

theorem token_transfer_never_synced:
  assumes "token_view w = holdings s" and "nft_owner_of w n \<noteq> Some b"
    and "nft_transfer (deployed_at reg (registry_act call)) e n c b (w, s, v) = Inr (w', s', v')
       \<or> nft_transfer_from (deployed_at reg (registry_act call)) e sp c b n (w, s, v) = Inr (w', s', v')"
  shows "nft_registry w \<noteq> Some reg \<and> (nft_registry w = None \<longrightarrow> s' = s \<and> token_view w' \<noteq> holdings s')"
proof -
  have out: "nft_registry w = None \<and> s' = s \<and> nft_owner_of w' n = Some b"
    using assms(3)
    by (auto simp: nft_transfer_def nft_transfer_from_def nft_notify_registry_def deployed_at_def update_owner_refused Let_def nft_owner_of_def
        split: option.splits if_splits)
  have "map_option fst (token_view w n) = nft_owner_of w n" "map_option fst (token_view w' n) = nft_owner_of w' n"
    by (simp_all add: token_view_def nft_owner_of_def option.map_comp comp_def)
  then have "token_view w' \<noteq> token_view w" using out assms(2) by metis
  with out assms(1) show ?thesis by simp
qed

theorem token_transfer_never_synced_witness:
  "\<exists>w' s' v'. nft_transfer (deployed_at registry_id (registry_act no_contracts)) (env_at 500 [alice]) ''alice.xlm'' alice bob
      (sample_nft, alice_registry, ()) = Inr (w', s', v') \<and> token_view w' \<noteq> holdings s'"
proof -
  have mirror: "token_view sample_nft = holdings alice_registry"
    by (simp add: token_view_def holdings_def fun_eq_iff alice_token_def)
  obtain w' where exec: "nft_transfer (deployed_at registry_id (registry_act no_contracts)) (env_at 500 [alice]) ''alice.xlm''
      alice bob (sample_nft, alice_registry, ()) = Inr (w', alice_registry, ())"
    by (simp add: nft_transfer_def nft_notify_registry_def alice_token_def Let_def)
  moreover have "nft_owner_of sample_nft ''alice.xlm'' \<noteq> Some bob" by (simp add: nft_owner_of_def alice_token_def)
  ultimately have "token_view w' \<noteq> holdings alice_registry"
    using token_transfer_never_synced [OF mirror _ disjI1 [OF exec]] by simp
  with exec show ?thesis by blast
qed

text \<open>
  C9: Along runs of a registrar with its registry, in which names may change hands and records at the registry, every
  registration on the registrar's books has an entry in the registry that expires and leaves its grace period on the same dates.
\<close>

theorem registrar_registry_dates:
  assumes "leased_run call reg (r, g, w)" and "rs_registrations r n = Some record"
  shows "\<exists>en. rg_entries g n = Some en \<and> re_expires_at en = rr_expires_at record
    \<and> re_grace_period_ends_at en = rr_grace_period_ends_at record"
  using dates_agreeD [OF leased_run_dates [OF assms(1), simplified] assms(2)] by auto

definition leased_registry :: registry where
  "leased_registry = place_entry registry_empty ''alice.xlm'' (fresh_entry ''alice.xlm'' alice None None 100 31536100 34128100)"

lemma leased_register:
  "registrar_register (deployed_at registry_id (registry_act no_contracts)) (env_at 100 [alice]) ''alice'' alice 1 300000000 100
     (sample_registrar, registry_empty, ()) = Inr (sample_registered, leased_registry, ())"
proof -
  have "registry_register no_contracts (callee_env (env_at 100 [alice]) registry_id) ''alice.xlm'' alice None None 100
      31536100 34128100 (registry_empty, ()) = Inr (leased_registry, ())"
    by (simp add: registry_register_def alice_fqdn ensure_name_unlocked_def validate_metadata_def
      validate_lifecycle_timestamps_def is_active_at_def registry_empty_def nft_client_call_def
      leased_registry_def place_entry_def fresh_entry_def add_owner_name_def names_for_owner_def put_entry_def Let_def)
  then show ?thesis
    unfolding registrar_register_iff
    by (simp add: alice_label sample_registered_def available_iff alice_quote_def [symmetric] registry_act_iff registry_dispatch_def)
qed

lemma sample_books: "rs_registrations sample_registered = [''alice.xlm'' \<mapsto> quoted_record sample_registrar ''alice.xlm'' alice alice_quote 100]"
  by (simp add: sample_registered_def)

lemma leased_sample_run:
  "leased_run no_contracts registry_id (sample_registered, leased_registry, ())"
proof (rule leased_run.registrar [OF leased_run.start])
  show "registrar_exec (deployed_at registry_id (registry_act no_contracts)) (env_at 100 [alice])
      (RcRegister ''alice'' alice 1 300000000 100) (sample_registrar, registry_empty, ()) =
      Inr (sample_registered, leased_registry, ())"
    by (simp add: leased_register)
qed simp

theorem registrar_registry_dates_witness:
  "\<exists>en. rg_entries leased_registry ''alice.xlm'' = Some en \<and> re_expires_at en = 31536100
    \<and> re_grace_period_ends_at en = 34128100"
  using registrar_registry_dates [OF leased_sample_run, of "''alice.xlm''"] by (simp add: sample_books)

text \<open>
  Once a name registered through the registrar has been transferred to another owner at the registry, nobody can renew it
  through the registrar any more, neither in time nor in its grace period: the registrar knows only the old owner, and the
  registry accepts only the new one.
\<close>

theorem transfer_blocks_renewal:
  assumes "rs_registrations r n = Some record" and "b \<noteq> rr_owner record"
    and "registry_transfer call e n c b t (g, w) = Inr (g', w')"
  shows "registrar_renew (deployed_at reg (registry_act call)) e' n caller years payment t' (r, g', w') \<noteq> Inr rgw
    \<and> extend_during_grace (deployed_at reg (registry_act call)) e' n caller years payment t' (r, g', w') \<noteq> Inr rgw"
proof -
  obtain en where "rg_entries g' n = Some en" "re_owner en = b"
    using assms(3) by (auto elim!: transfer_cases)
  then have "leases_of g' n = Some (b, re_expires_at en, re_grace_period_ends_at en)" by simp
  then show ?thesis
    using rg_lease.foreign_owner_blocks_renewal [of r n _ "(g', w')"] assms(1,2) by (cases rgw; simp)+
qed

theorem transfer_blocks_renewal_witness:
  "\<exists>g'. registry_transfer no_contracts (env_at 500 [alice]) ''alice.xlm'' alice bob 500 (leased_registry, ()) = Inr (g', ())
    \<and> (\<forall>rgw. registrar_renew (deployed_at registry_id (registry_act no_contracts)) (env_at 600 [alice, bob]) ''alice.xlm'' bob 1
         300000000 600 (sample_registered, g', ()) \<noteq> Inr rgw)"
proof -
  let ?en = "fresh_entry ''alice.xlm'' alice None None 100 31536100 34128100"
  have "rg_entries leased_registry ''alice.xlm'' = Some ?en" "rg_locks leased_registry = (\<lambda>_. None)"
    "rg_nft_contract leased_registry = None" by (simp_all add: leased_registry_def registry_empty_def)
  then obtain g' where t: "registry_transfer no_contracts (env_at 500 [alice]) ''alice.xlm'' alice bob 500 (leased_registry, ()) =
      Inr (g', ())"
    by (simp add: registry_transfer_def ensure_name_unlocked_def get_entry_def ensure_owner_def entry_active_at_def
        is_active_at_def clear_resolver_def nft_client_call_def Let_def fresh_entry_def)
  have "rr_owner (quoted_record sample_registrar ''alice.xlm'' alice alice_quote 100) = alice" by simp
  with t transfer_blocks_renewal [OF _ _ t, of sample_registered "quoted_record sample_registrar ''alice.xlm'' alice alice_quote 100"]
  show ?thesis by (auto simp: sample_books)
qed

end
