(* ===== verification/Text_Format.thy ===== *)
theory Text_Format
  imports Common_Names
begin

text \<open>
  What the client libraries use of Rust's text functions: \<open>str::contains\<close>, \<open>to_ascii_lowercase\<close>, decimal and hexadecimal
  numbers, and durations (\<open>std::time::Duration\<close>, at most \<open>u64::MAX\<close> seconds and 999999999 nanoseconds).
\<close>

section \<open>Searching\<close>

fun contains :: "string \<Rightarrow> string \<Rightarrow> bool" where
  "contains [] pat = (pat = [])"
| "contains (c # cs) pat = (take (length pat) (c # cs) = pat \<or> contains cs pat)"

lemma contains_iff: "contains s pat \<longleftrightarrow> (\<exists>a b. s = a @ pat @ b)"
proof (induction s)
  case (Cons c cs)
  have "take (length pat) (c # cs) = pat \<longleftrightarrow> (\<exists>b. c # cs = pat @ b)"
    by (metis append_eq_conv_conj append_take_drop_id)
  moreover have "(\<exists>a b. c # cs = a @ pat @ b) \<longleftrightarrow> (\<exists>b. c # cs = pat @ b) \<or> (\<exists>a b. cs = a @ pat @ b)"
    by (metis Cons_eq_append_conv append_Cons append_Nil)
  ultimately show ?case using Cons.IH by simp
qed auto

definition ascii_lower :: "char \<Rightarrow> char" where
  "ascii_lower c = (if is_ascii_uppercase c then char_of ((of_char c :: nat) + 32) else c)"

definition to_ascii_lowercase :: "string \<Rightarrow> string" where
  "to_ascii_lowercase s = map ascii_lower s"

section \<open>Numbers\<close>

fun show_nat :: "nat \<Rightarrow> string" where
  "show_nat n = (if n < 10 then [char_of (48 + n)] else show_nat (n div 10) @ [char_of (48 + n mod 10)])"

declare show_nat.simps [simp del]

definition hex_digit :: "nat \<Rightarrow> char" where
  "hex_digit d = (if d < 10 then char_of (48 + d) else char_of (87 + d))"

text \<open>\<open>{:0kx}\<close>: the lowest \<open>k\<close> hexadecimal digits; all of them where the number has no more.\<close>

fun show_hex :: "nat \<Rightarrow> nat \<Rightarrow> string" where
  "show_hex 0 n = []"
| "show_hex (Suc k) n = show_hex k (n div 16) @ [hex_digit (n mod 16)]"

definition is_ascii_hexdigit :: "char \<Rightarrow> bool" where
  "is_ascii_hexdigit c \<longleftrightarrow> is_ascii_digit c \<or> byte_in CHR ''a'' CHR ''f'' c \<or> byte_in CHR ''A'' CHR ''F'' c"

definition hex_value :: "char \<Rightarrow> nat" where
  "hex_value c =
     (if is_ascii_digit c then of_char c - 48
      else if byte_in CHR ''a'' CHR ''f'' c then of_char c - 87
      else of_char c - 55)"

lemma hex_digit_hex:
  assumes "d < 16"
  shows "is_ascii_hexdigit (hex_digit d)" and "hex_value (hex_digit d) = d"
  using assms
  by (auto simp: hex_digit_def hex_value_def is_ascii_hexdigit_def is_ascii_digit_def byte_in_def of_char_of)

lemma length_show_hex [simp]: "length (show_hex k n) = k"
  by (induction k n rule: show_hex.induct) auto

lemma show_hex_digits: "list_all is_ascii_hexdigit (show_hex k n)"
  by (induction k n rule: show_hex.induct) (auto intro: hex_digit_hex)

section \<open>Durations\<close>

text \<open>A duration is its number of nanoseconds.\<close>

type_synonym duration = nat

definition DURATION_MAX :: duration where
  "DURATION_MAX = 2 ^ 64 * 1000000000 - 1"

definition from_secs :: "u64 \<Rightarrow> duration" where
  "from_secs n = unat n * 1000000000"

definition from_millis :: "u64 \<Rightarrow> duration" where
  "from_millis n = unat n * 1000000"

definition as_millis :: "duration \<Rightarrow> nat" where
  "as_millis d = d div 1000000"

definition duration_checked_mul :: "duration \<Rightarrow> u32 \<Rightarrow> duration option" where
  "duration_checked_mul d k = (if d * unat k \<le> DURATION_MAX then Some (d * unat k) else None)"

definition duration_checked_add :: "duration \<Rightarrow> duration \<Rightarrow> duration option" where
  "duration_checked_add a b = (if a + b \<le> DURATION_MAX then Some (a + b) else None)"

section \<open>Counters\<close>

text \<open>A loop that counts a word up to a limit.\<close>

lemma counter_next:
  assumes "a < (m :: 'a::len word)"
  shows "unat (a + 1) = Suc (unat a)" and "Suc (unat a) \<le> unat m"
    and "unat m - unat (a + 1) < unat m - unat a"
proof -
  have less: "unat a < unat m" using assms by (simp add: word_less_nat_alt)
  then have "Suc (unat a) < 2 ^ LENGTH('a)" using unsigned_less [of m] by (meson Suc_leI le_less_trans)
  then show "unat (a + 1) = Suc (unat a)" "Suc (unat a) \<le> unat m"
    using less by (simp_all add: unat_word_ariths)
  with less show "unat m - unat (a + 1) < unat m - unat a" by simp
qed

end
