(* ===== verification/Sdk_Errors.thy ===== *)
theory Sdk_Errors
  imports Text_Format Registry Registrar Resolver Auction Subdomain Nft Bridge
begin

text \<open>
  The errors of the client library (\<open>packages/xlm-ns-sdk/src/errors.rs\<close>): the variants it gives the numeric errors of the seven
  contracts, and which failures it retries. The numbers of the contracts' own errors are those of their enumerations.
\<close>

section \<open>Errors of contracts\<close>

datatype (plugins only: code size) contract_error_code =
    CeRegistryAlreadyRegistered | CeRegistryNotFound | CeRegistryNotYetClaimable | CeRegistryNotActive
  | CeRegistryUnauthorized | CeRegistryMetadataTooLong | CeRegistryValidation | CeRegistryInvalidExpiry
  | CeRegistryInvalidGracePeriod | CeRegistryUpgradeFailed | CeRegistryLocked | CeRegistrarInsufficientFee
  | CeRegistrarNotFound | CeRegistrarNotRenewable | CeRegistrarAlreadyRegistered | CeRegistrarReserved
  | CeRegistrarUnauthorized | CeRegistrarValidation | CeRegistrarRegistrationClaimable
  | CeRegistrarNotInitialized | CeRegistrarAlreadyInitialized | CeRegistrarRateLimitExceeded
  | CeRegistrarUpgradeFailed | CeRegistrarQuoteExpired | CeResolverValidation | CeResolverRecordNotFound
  | CeResolverUnauthorized | CeResolverTooManyTextRecords | CeResolverNotInitialized
  | CeResolverTextRecordValueTooLong | CeResolverInvalidChain | CeResolverInvalidKey
  | CeResolverBatchTooLarge | CeResolverUpgradeFailed | CeSubdomainValidation | CeSubdomainParentNotFound
  | CeSubdomainAlreadyExists | CeSubdomainNotFound | CeSubdomainUnauthorized | CeSubdomainUpgradeFailed
  | CeSubdomainDepthLimitExceeded | CeAuctionValidation | CeAuctionAlreadyExists | CeAuctionNotFound
  | CeAuctionClosed | CeAuctionNotStarted | CeAuctionNotEnded | CeAuctionAlreadySettled | CeAuctionInvalidBid
  | CeAuctionUpgradeFailed | CeAuctionReentrancyDetected | CeBridgeValidation | CeBridgeUnsupportedChain
  | CeBridgeUpgradeFailed | CeBridgeUnauthorized | CeBridgeNotFound | CeBridgeAlreadyExists
  | CeNftAlreadyMinted | CeNftNotFound | CeNftUnauthorized | CeNftUpgradeFailed | CeNftNotInitialized
  | CeNameNotFound | CeNotOwner | CeExpired | CeInvalidLabel | CeOther u32

text \<open>The arms of \<open>decode_error\<close>.\<close>

definition decode_table :: "((string \<times> u32) \<times> contract_error_code) list" where
  "decode_table = [
     ((''registry'', 1), CeRegistryAlreadyRegistered),
     ((''registry'', 2), CeRegistryNotFound),
     ((''registry'', 3), CeRegistryNotYetClaimable),
     ((''registry'', 4), CeRegistryNotActive),
     ((''registry'', 5), CeRegistryUnauthorized),
     ((''registry'', 6), CeRegistryMetadataTooLong),
     ((''registry'', 7), CeRegistryValidation),
     ((''registry'', 8), CeRegistryInvalidExpiry),
     ((''registry'', 9), CeRegistryInvalidGracePeriod),
     ((''registry'', 10), CeRegistryUpgradeFailed),
     ((''registry'', 11), CeRegistryLocked),
     ((''registrar'', 1), CeRegistrarInsufficientFee),
     ((''registrar'', 2), CeRegistrarNotFound),
     ((''registrar'', 3), CeRegistrarNotRenewable),
     ((''registrar'', 4), CeRegistrarAlreadyRegistered),
     ((''registrar'', 5), CeRegistrarReserved),
     ((''registrar'', 6), CeRegistrarUnauthorized),
     ((''registrar'', 7), CeRegistrarValidation),
     ((''registrar'', 8), CeRegistrarRegistrationClaimable),
     ((''registrar'', 9), CeRegistrarNotInitialized),
     ((''registrar'', 10), CeRegistrarAlreadyInitialized),
     ((''registrar'', 11), CeRegistrarRateLimitExceeded),
     ((''registrar'', 12), CeRegistrarUpgradeFailed),
     ((''registrar'', 13), CeRegistrarQuoteExpired),
     ((''resolver'', 1), CeResolverValidation),
     ((''resolver'', 2), CeResolverRecordNotFound),
     ((''resolver'', 3), CeResolverUnauthorized),
     ((''resolver'', 4), CeResolverTooManyTextRecords),
     ((''resolver'', 5), CeResolverNotInitialized),
     ((''resolver'', 6), CeResolverTextRecordValueTooLong),
     ((''resolver'', 7), CeResolverInvalidChain),
     ((''resolver'', 8), CeResolverInvalidKey),
     ((''resolver'', 9), CeResolverBatchTooLarge),
     ((''resolver'', 10), CeResolverUpgradeFailed),
     ((''subdomain'', 1), CeSubdomainValidation),
     ((''subdomain'', 2), CeSubdomainParentNotFound),
     ((''subdomain'', 3), CeSubdomainAlreadyExists),
     ((''subdomain'', 4), CeSubdomainNotFound),
     ((''subdomain'', 5), CeSubdomainUnauthorized),
     ((''subdomain'', 6), CeSubdomainUpgradeFailed),
     ((''subdomain'', 7), CeSubdomainDepthLimitExceeded),
     ((''auction'', 1), CeAuctionValidation),
     ((''auction'', 2), CeAuctionAlreadyExists),
     ((''auction'', 3), CeAuctionNotFound),
     ((''auction'', 4), CeAuctionClosed),
     ((''auction'', 5), CeAuctionNotStarted),
     ((''auction'', 6), CeAuctionNotEnded),
     ((''auction'', 7), CeAuctionAlreadySettled),
     ((''auction'', 8), CeAuctionInvalidBid),
     ((''auction'', 9), CeAuctionUpgradeFailed),
     ((''auction'', 10), CeAuctionReentrancyDetected),
     ((''bridge'', 1), CeBridgeValidation),
     ((''bridge'', 2), CeBridgeUnsupportedChain),
     ((''bridge'', 3), CeBridgeUpgradeFailed),
     ((''bridge'', 4), CeBridgeUnauthorized),
     ((''bridge'', 5), CeBridgeNotFound),
     ((''bridge'', 6), CeBridgeAlreadyExists),
     ((''nft'', 1), CeNftAlreadyMinted),
     ((''nft'', 2), CeNftNotFound),
     ((''nft'', 3), CeNftUnauthorized),
     ((''nft'', 4), CeNftUpgradeFailed),
     ((''nft'', 5), CeNftNotInitialized)]"

definition decode_error :: "string \<Rightarrow> u32 \<Rightarrow> contract_error_code" where
  "decode_error contract code =
     (case map_of decode_table (contract, code) of Some err \<Rightarrow> err | None \<Rightarrow> CeOther code)"

definition decode_error_generic :: "u32 \<Rightarrow> contract_error_code" where
  "decode_error_generic code =
     (if code = 1 then CeNameNotFound
      else if code = 2 then CeNotOwner
      else if code = 3 then CeExpired
      else if code = 4 then CeInvalidLabel
      else CeOther code)"

primrec display_contract_error :: "contract_error_code \<Rightarrow> string" where
  "display_contract_error CeRegistryAlreadyRegistered = ''registry: name is already registered''"
| "display_contract_error CeRegistryNotFound = ''registry: name was not found''"
| "display_contract_error CeRegistryNotYetClaimable = ''registry: name is expired but still in grace period''"
| "display_contract_error CeRegistryNotActive = ''registry: name is not currently active''"
| "display_contract_error CeRegistryUnauthorized = ''registry: caller is not authorized for this name''"
| "display_contract_error CeRegistryMetadataTooLong = ''registry: metadata URI exceeds the allowed length''"
| "display_contract_error CeRegistryValidation = ''registry: input failed validation''"
| "display_contract_error CeRegistryInvalidExpiry = ''registry: expires_at must be in the future''"
| "display_contract_error CeRegistryInvalidGracePeriod = ''registry: grace_period_ends_at must be >= expires_at''"
| "display_contract_error CeRegistryUpgradeFailed = ''registry: contract upgrade failed''"
| "display_contract_error CeRegistryLocked = ''registry: name is locked for dispute resolution''"
| "display_contract_error CeRegistrarInsufficientFee = ''registrar: fee paid is below the required amount''"
| "display_contract_error CeRegistrarNotFound = ''registrar: name was not found''"
| "display_contract_error CeRegistrarNotRenewable = ''registrar: name is not in a renewable state''"
| "display_contract_error CeRegistrarAlreadyRegistered = ''registrar: name is already registered''"
| "display_contract_error CeRegistrarReserved = ''registrar: name label is reserved''"
| "display_contract_error CeRegistrarUnauthorized = ''registrar: caller is not authorized''"
| "display_contract_error CeRegistrarValidation = ''registrar: input failed validation''"
| "display_contract_error CeRegistrarRegistrationClaimable = ''registrar: name is claimable, not renewable''"
| "display_contract_error CeRegistrarNotInitialized = ''registrar: contract is not initialized''"
| "display_contract_error CeRegistrarAlreadyInitialized = ''registrar: contract is already initialized''"
| "display_contract_error CeRegistrarRateLimitExceeded = ''registrar: registration rate limit exceeded''"
| "display_contract_error CeRegistrarUpgradeFailed = ''registrar: contract upgrade failed''"
| "display_contract_error CeRegistrarQuoteExpired = ''registrar: registration quote has expired''"
| "display_contract_error CeResolverValidation = ''resolver: input failed validation''"
| "display_contract_error CeResolverRecordNotFound = ''resolver: record was not found''"
| "display_contract_error CeResolverUnauthorized = ''resolver: caller is not authorized''"
| "display_contract_error CeResolverTooManyTextRecords = ''resolver: name has too many text records''"
| "display_contract_error CeResolverNotInitialized = ''resolver: contract is not initialized''"
| "display_contract_error CeResolverTextRecordValueTooLong = ''resolver: text record value is too long''"
| "display_contract_error CeResolverInvalidChain = ''resolver: chain identifier is not supported''"
| "display_contract_error CeResolverInvalidKey = ''resolver: text record key is invalid''"
| "display_contract_error CeResolverBatchTooLarge = ''resolver: batch request contains too many operations''"
| "display_contract_error CeResolverUpgradeFailed = ''resolver: contract upgrade failed''"
| "display_contract_error CeSubdomainValidation = ''subdomain: input failed validation''"
| "display_contract_error CeSubdomainParentNotFound = ''subdomain: parent domain was not found''"
| "display_contract_error CeSubdomainAlreadyExists = ''subdomain: subdomain already exists''"
| "display_contract_error CeSubdomainNotFound = ''subdomain: subdomain was not found''"
| "display_contract_error CeSubdomainUnauthorized = ''subdomain: caller is not authorized''"
| "display_contract_error CeSubdomainUpgradeFailed = ''subdomain: contract upgrade failed''"
| "display_contract_error CeSubdomainDepthLimitExceeded = ''subdomain: path exceeds maximum nesting depth''"
| "display_contract_error CeAuctionValidation = ''auction: input failed validation''"
| "display_contract_error CeAuctionAlreadyExists = ''auction: an auction already exists for this name''"
| "display_contract_error CeAuctionNotFound = ''auction: no auction found for this name''"
| "display_contract_error CeAuctionClosed = ''auction: auction is closed and cannot accept bids''"
| "display_contract_error CeAuctionNotStarted = ''auction: auction has not started yet''"
| "display_contract_error CeAuctionNotEnded = ''auction: auction has not ended yet''"
| "display_contract_error CeAuctionAlreadySettled = ''auction: auction was already settled''"
| "display_contract_error CeAuctionInvalidBid = ''auction: bid is below the reserve price or minimum increment''"
| "display_contract_error CeAuctionUpgradeFailed = ''auction: contract upgrade failed''"
| "display_contract_error CeAuctionReentrancyDetected = ''auction: reentrancy guard blocked this operation''"
| "display_contract_error CeBridgeValidation = ''bridge: input failed validation''"
| "display_contract_error CeBridgeUnsupportedChain = ''bridge: target chain is not supported''"
| "display_contract_error CeBridgeUpgradeFailed = ''bridge: contract upgrade failed''"
| "display_contract_error CeBridgeUnauthorized = ''bridge: caller is not authorized''"
| "display_contract_error CeBridgeNotFound = ''bridge: chain or route was not found''"
| "display_contract_error CeBridgeAlreadyExists = ''bridge: chain or route already exists''"
| "display_contract_error CeNftAlreadyMinted = ''nft: token has already been minted''"
| "display_contract_error CeNftNotFound = ''nft: token was not found''"
| "display_contract_error CeNftUnauthorized = ''nft: caller is not authorized''"
| "display_contract_error CeNftUpgradeFailed = ''nft: contract upgrade failed''"
| "display_contract_error CeNftNotInitialized = ''nft: contract is not initialized''"
| "display_contract_error CeNameNotFound = ''name was not found''"
| "display_contract_error CeNotOwner = ''caller is not the owner''"
| "display_contract_error CeExpired = ''name or record has expired''"
| "display_contract_error CeInvalidLabel = ''label is not a valid XLM name''"
| "display_contract_error (CeOther code) = ''unknown contract error code '' @ show_nat (unat code)"

section \<open>Errors of the library\<close>

datatype signing_error =
    SigningRejected string | SigningInvalidKey string | SigningExternalFailure string | SigningMalformedEnvelope string

text \<open>The constructors of \<open>SdkError\<close>; a rate limit error has the retries made and the milliseconds waited.\<close>

datatype sdk_error =
    InvalidRequest string
  | Transport string
  | Ingestion string
  | ContractError contract_error_code
  | NetworkPassphraseMismatch string string
  | TransactionPassphraseMismatch string string
  | ContractInvocationFailed string string "string option"
  | SimulationFailed string string
  | SdkInsufficientFee string "64 word" "64 word"
  | TransactionTimeout string u32
  | SigningFailed string signing_error
  | SdkRateLimitExceeded u32 u64

definition transport_markers :: "string list" where
  "transport_markers = [''timeout'', ''timed out'', ''connection refused'', ''connection reset'', ''connection closed'',
     ''broken pipe'', ''network unreachable'', ''dns error'', ''temporary failure'', ''failed to send'',
     ''error sending request'', ''error trying to connect'']"

definition transport_is_retryable :: "string \<Rightarrow> bool" where
  "transport_is_retryable message =
     (let msg = to_ascii_lowercase message in
      if contains msg ''invalid rpc url'' \<or> contains msg ''json decoding error''
        \<or> contains msg ''invalid response from server'' then False
      else if contains msg ''429'' \<or> contains msg ''too many requests'' \<or> contains msg ''rate limit''
        \<or> contains msg ''500'' \<or> contains msg ''502'' \<or> contains msg ''503'' \<or> contains msg ''504''
        \<or> contains msg ''service unavailable'' then True
      else if list_ex (contains msg) transport_markers then True
      else True)"

fun is_retryable :: "sdk_error \<Rightarrow> bool" where
  "is_retryable (TransactionTimeout operation ledger_submitted) = True"
| "is_retryable (Transport message) = transport_is_retryable message"
| "is_retryable err = False"

section \<open>The numbers of the contracts' errors\<close>

primrec registry_error_code :: "registry_error \<Rightarrow> u32" where
  "registry_error_code AlreadyRegistered = 1"
| "registry_error_code NotFound = 2"
| "registry_error_code NotYetClaimable = 3"
| "registry_error_code NotActive = 4"
| "registry_error_code Unauthorized = 5"
| "registry_error_code MetadataTooLong = 6"
| "registry_error_code Validation = 7"
| "registry_error_code InvalidExpiry = 8"
| "registry_error_code InvalidGracePeriod = 9"
| "registry_error_code UpgradeFailed = 10"
| "registry_error_code Locked = 11"

primrec registrar_error_code :: "registrar_error \<Rightarrow> u32" where
  "registrar_error_code InsufficientFee = 1"
| "registrar_error_code RrNotFound = 2"
| "registrar_error_code NotRenewable = 3"
| "registrar_error_code RrAlreadyRegistered = 4"
| "registrar_error_code Reserved = 5"
| "registrar_error_code RrUnauthorized = 6"
| "registrar_error_code RrValidation = 7"
| "registrar_error_code RegistrationClaimable = 8"
| "registrar_error_code RrNotInitialized = 9"
| "registrar_error_code AlreadyInitialized = 10"
| "registrar_error_code RateLimitExceeded = 11"
| "registrar_error_code RrUpgradeFailed = 12"
| "registrar_error_code QuoteExpired = 13"

primrec resolver_error_code :: "resolver_error \<Rightarrow> u32" where
  "resolver_error_code RvValidation = 1"
| "resolver_error_code RecordNotFound = 2"
| "resolver_error_code RvUnauthorized = 3"
| "resolver_error_code TooManyTextRecords = 4"
| "resolver_error_code RvNotInitialized = 5"
| "resolver_error_code TextRecordValueTooLong = 6"
| "resolver_error_code InvalidChain = 7"
| "resolver_error_code InvalidKey = 8"
| "resolver_error_code BatchTooLarge = 9"
| "resolver_error_code RvUpgradeFailed = 10"

primrec subdomain_error_code :: "subdomain_error \<Rightarrow> u32" where
  "subdomain_error_code SdValidation = 1"
| "subdomain_error_code ParentNotFound = 2"
| "subdomain_error_code SdAlreadyExists = 3"
| "subdomain_error_code SdNotFound = 4"
| "subdomain_error_code SdUnauthorized = 5"
| "subdomain_error_code SdUpgradeFailed = 6"
| "subdomain_error_code DepthLimitExceeded = 7"

primrec auction_error_code :: "auction_error \<Rightarrow> u32" where
  "auction_error_code AuValidation = 1"
| "auction_error_code AuAlreadyExists = 2"
| "auction_error_code AuNotFound = 3"
| "auction_error_code AuctionClosed = 4"
| "auction_error_code AuctionNotStarted = 5"
| "auction_error_code AuctionNotEnded = 6"
| "auction_error_code AlreadySettled = 7"
| "auction_error_code InvalidBid = 8"
| "auction_error_code AuUpgradeFailed = 9"
| "auction_error_code ReentrancyDetected = 10"

primrec bridge_error_code :: "bridge_error \<Rightarrow> u32" where
  "bridge_error_code BgValidation = 1"
| "bridge_error_code UnsupportedChain = 2"
| "bridge_error_code BgUpgradeFailed = 3"
| "bridge_error_code BgUnauthorized = 4"
| "bridge_error_code BgNotFound = 5"
| "bridge_error_code BgAlreadyExists = 6"

primrec nft_error_code :: "nft_error \<Rightarrow> u32" where
  "nft_error_code AlreadyMinted = 1"
| "nft_error_code NftNotFound = 2"
| "nft_error_code NftUnauthorized = 3"
| "nft_error_code NftUpgradeFailed = 4"
| "nft_error_code NftNotInitialized = 5"

section \<open>Variants and numbers\<close>

text \<open>The variant with the contract's own name for the error.\<close>

primrec sdk_registry :: "registry_error \<Rightarrow> contract_error_code" where
  "sdk_registry AlreadyRegistered = CeRegistryAlreadyRegistered"
| "sdk_registry NotFound = CeRegistryNotFound"
| "sdk_registry NotYetClaimable = CeRegistryNotYetClaimable"
| "sdk_registry NotActive = CeRegistryNotActive"
| "sdk_registry Unauthorized = CeRegistryUnauthorized"
| "sdk_registry MetadataTooLong = CeRegistryMetadataTooLong"
| "sdk_registry Validation = CeRegistryValidation"
| "sdk_registry InvalidExpiry = CeRegistryInvalidExpiry"
| "sdk_registry InvalidGracePeriod = CeRegistryInvalidGracePeriod"
| "sdk_registry UpgradeFailed = CeRegistryUpgradeFailed"
| "sdk_registry Locked = CeRegistryLocked"

primrec sdk_registrar :: "registrar_error \<Rightarrow> contract_error_code" where
  "sdk_registrar InsufficientFee = CeRegistrarInsufficientFee"
| "sdk_registrar RrNotFound = CeRegistrarNotFound"
| "sdk_registrar NotRenewable = CeRegistrarNotRenewable"
| "sdk_registrar RrAlreadyRegistered = CeRegistrarAlreadyRegistered"
| "sdk_registrar Reserved = CeRegistrarReserved"
| "sdk_registrar RrUnauthorized = CeRegistrarUnauthorized"
| "sdk_registrar RrValidation = CeRegistrarValidation"
| "sdk_registrar RegistrationClaimable = CeRegistrarRegistrationClaimable"
| "sdk_registrar RrNotInitialized = CeRegistrarNotInitialized"
| "sdk_registrar AlreadyInitialized = CeRegistrarAlreadyInitialized"
| "sdk_registrar RateLimitExceeded = CeRegistrarRateLimitExceeded"
| "sdk_registrar RrUpgradeFailed = CeRegistrarUpgradeFailed"
| "sdk_registrar QuoteExpired = CeRegistrarQuoteExpired"

primrec sdk_resolver :: "resolver_error \<Rightarrow> contract_error_code" where
  "sdk_resolver RvValidation = CeResolverValidation"
| "sdk_resolver RecordNotFound = CeResolverRecordNotFound"
| "sdk_resolver RvUnauthorized = CeResolverUnauthorized"
| "sdk_resolver TooManyTextRecords = CeResolverTooManyTextRecords"
| "sdk_resolver RvNotInitialized = CeResolverNotInitialized"
| "sdk_resolver TextRecordValueTooLong = CeResolverTextRecordValueTooLong"
| "sdk_resolver InvalidChain = CeResolverInvalidChain"
| "sdk_resolver InvalidKey = CeResolverInvalidKey"
| "sdk_resolver BatchTooLarge = CeResolverBatchTooLarge"
| "sdk_resolver RvUpgradeFailed = CeResolverUpgradeFailed"

primrec sdk_subdomain :: "subdomain_error \<Rightarrow> contract_error_code" where
  "sdk_subdomain SdValidation = CeSubdomainValidation"
| "sdk_subdomain ParentNotFound = CeSubdomainParentNotFound"
| "sdk_subdomain SdAlreadyExists = CeSubdomainAlreadyExists"
| "sdk_subdomain SdNotFound = CeSubdomainNotFound"
| "sdk_subdomain SdUnauthorized = CeSubdomainUnauthorized"
| "sdk_subdomain SdUpgradeFailed = CeSubdomainUpgradeFailed"
| "sdk_subdomain DepthLimitExceeded = CeSubdomainDepthLimitExceeded"

primrec sdk_auction :: "auction_error \<Rightarrow> contract_error_code" where
  "sdk_auction AuValidation = CeAuctionValidation"
| "sdk_auction AuAlreadyExists = CeAuctionAlreadyExists"
| "sdk_auction AuNotFound = CeAuctionNotFound"
| "sdk_auction AuctionClosed = CeAuctionClosed"
| "sdk_auction AuctionNotStarted = CeAuctionNotStarted"
| "sdk_auction AuctionNotEnded = CeAuctionNotEnded"
| "sdk_auction AlreadySettled = CeAuctionAlreadySettled"
| "sdk_auction InvalidBid = CeAuctionInvalidBid"
| "sdk_auction AuUpgradeFailed = CeAuctionUpgradeFailed"
| "sdk_auction ReentrancyDetected = CeAuctionReentrancyDetected"

primrec sdk_bridge :: "bridge_error \<Rightarrow> contract_error_code" where
  "sdk_bridge BgValidation = CeBridgeValidation"
| "sdk_bridge UnsupportedChain = CeBridgeUnsupportedChain"
| "sdk_bridge BgUpgradeFailed = CeBridgeUpgradeFailed"
| "sdk_bridge BgUnauthorized = CeBridgeUnauthorized"
| "sdk_bridge BgNotFound = CeBridgeNotFound"
| "sdk_bridge BgAlreadyExists = CeBridgeAlreadyExists"

primrec sdk_nft :: "nft_error \<Rightarrow> contract_error_code" where
  "sdk_nft AlreadyMinted = CeNftAlreadyMinted"
| "sdk_nft NftNotFound = CeNftNotFound"
| "sdk_nft NftUnauthorized = CeNftUnauthorized"
| "sdk_nft NftUpgradeFailed = CeNftUpgradeFailed"
| "sdk_nft NftNotInitialized = CeNftNotInitialized"

definition contract_codes :: "string \<Rightarrow> u32 set" where
  "contract_codes c =
     (if c = ''registry'' then range registry_error_code
      else if c = ''registrar'' then range registrar_error_code
      else if c = ''resolver'' then range resolver_error_code
      else if c = ''subdomain'' then range subdomain_error_code
      else if c = ''auction'' then range auction_error_code
      else if c = ''bridge'' then range bridge_error_code
      else if c = ''nft'' then range nft_error_code
      else {})"

lemma decode_table_distinct: "distinct (map fst decode_table)" "distinct (map snd decode_table)"
  by (simp_all add: decode_table_def)

text \<open>The arms are those of the enumerations, contract by contract.\<close>

lemma decode_table_arms:
  "decode_table =
     map (\<lambda>e. ((''registry'', registry_error_code e), sdk_registry e))
       [AlreadyRegistered, NotFound, NotYetClaimable, NotActive, Unauthorized, MetadataTooLong, Validation,
        InvalidExpiry, InvalidGracePeriod, UpgradeFailed, Locked]
     @ map (\<lambda>e. ((''registrar'', registrar_error_code e), sdk_registrar e))
       [InsufficientFee, RrNotFound, NotRenewable, RrAlreadyRegistered, Reserved, RrUnauthorized, RrValidation,
        RegistrationClaimable, RrNotInitialized, AlreadyInitialized, RateLimitExceeded, RrUpgradeFailed, QuoteExpired]
     @ map (\<lambda>e. ((''resolver'', resolver_error_code e), sdk_resolver e))
       [RvValidation, RecordNotFound, RvUnauthorized, TooManyTextRecords, RvNotInitialized, TextRecordValueTooLong, InvalidChain,
        InvalidKey, BatchTooLarge, RvUpgradeFailed]
     @ map (\<lambda>e. ((''subdomain'', subdomain_error_code e), sdk_subdomain e))
       [SdValidation, ParentNotFound, SdAlreadyExists, SdNotFound, SdUnauthorized, SdUpgradeFailed, DepthLimitExceeded]
     @ map (\<lambda>e. ((''auction'', auction_error_code e), sdk_auction e))
       [AuValidation, AuAlreadyExists, AuNotFound, AuctionClosed, AuctionNotStarted, AuctionNotEnded, AlreadySettled,
        InvalidBid, AuUpgradeFailed, ReentrancyDetected]
     @ map (\<lambda>e. ((''bridge'', bridge_error_code e), sdk_bridge e))
       [BgValidation, UnsupportedChain, BgUpgradeFailed, BgUnauthorized, BgNotFound, BgAlreadyExists]
     @ map (\<lambda>e. ((''nft'', nft_error_code e), sdk_nft e))
       [AlreadyMinted, NftNotFound, NftUnauthorized, NftUpgradeFailed, NftNotInitialized]"
  by (simp add: decode_table_def)

lemma decode_arm: "((c, k), v) \<in> set decode_table \<Longrightarrow> decode_error c k = v"
  by (simp add: decode_error_def decode_table_distinct(1))

lemma decode_contracts:
  "decode_error ''registry'' (registry_error_code e1) = sdk_registry e1"
  "decode_error ''registrar'' (registrar_error_code e2) = sdk_registrar e2"
  "decode_error ''resolver'' (resolver_error_code e3) = sdk_resolver e3"
  "decode_error ''subdomain'' (subdomain_error_code e4) = sdk_subdomain e4"
  "decode_error ''auction'' (auction_error_code e5) = sdk_auction e5"
  "decode_error ''bridge'' (bridge_error_code e6) = sdk_bridge e6"
  "decode_error ''nft'' (nft_error_code e7) = sdk_nft e7"
proof -
  have mem: "e \<in> set es \<Longrightarrow> ((c, f e), g e) \<in> set (map (\<lambda>e. ((c, f e), g e)) es)" for e es c f g by auto
  note arm = decode_arm [unfolded decode_table_arms set_append]
  show "decode_error ''registry'' (registry_error_code e1) = sdk_registry e1"
    by (rule arm, intro UnI1 mem, cases e1) simp_all
  show "decode_error ''registrar'' (registrar_error_code e2) = sdk_registrar e2"
    by (rule arm, rule UnI2, rule UnI1, rule mem, cases e2) simp_all
  show "decode_error ''resolver'' (resolver_error_code e3) = sdk_resolver e3"
    by (rule arm, rule UnI2, rule UnI2, rule UnI1, rule mem, cases e3) simp_all
  show "decode_error ''subdomain'' (subdomain_error_code e4) = sdk_subdomain e4"
    by (rule arm, rule UnI2, rule UnI2, rule UnI2, rule UnI1, rule mem, cases e4) simp_all
  show "decode_error ''auction'' (auction_error_code e5) = sdk_auction e5"
    by (rule arm, rule UnI2, rule UnI2, rule UnI2, rule UnI2, rule UnI1, rule mem, cases e5) simp_all
  show "decode_error ''bridge'' (bridge_error_code e6) = sdk_bridge e6"
    by (rule arm, rule UnI2, rule UnI2, rule UnI2, rule UnI2, rule UnI2, rule UnI1, rule mem, cases e6) simp_all
  show "decode_error ''nft'' (nft_error_code e7) = sdk_nft e7"
    by (rule arm, rule UnI2, rule UnI2, rule UnI2, rule UnI2, rule UnI2, rule UnI2, rule mem, cases e7) simp_all
qed

lemma contract_codes_simps [simp]:
  "contract_codes ''registry'' = range registry_error_code"
  "contract_codes ''registrar'' = range registrar_error_code"
  "contract_codes ''resolver'' = range resolver_error_code"
  "contract_codes ''subdomain'' = range subdomain_error_code"
  "contract_codes ''auction'' = range auction_error_code"
  "contract_codes ''bridge'' = range bridge_error_code"
  "contract_codes ''nft'' = range nft_error_code"
  by (simp_all add: contract_codes_def)

lemma sdk_variant_known:
  "sdk_registry e1 \<noteq> CeOther k" "sdk_registrar e2 \<noteq> CeOther k" "sdk_resolver e3 \<noteq> CeOther k"
  "sdk_subdomain e4 \<noteq> CeOther k" "sdk_auction e5 \<noteq> CeOther k" "sdk_bridge e6 \<noteq> CeOther k" "sdk_nft e7 \<noteq> CeOther k"
  by (cases e1; simp; fail) (cases e2; simp; fail | cases e3; simp; fail | cases e4; simp; fail | cases e5; simp; fail
     | cases e6; simp; fail | cases e7; simp; fail)+

lemma decode_coded: "k \<in> contract_codes c \<Longrightarrow> decode_error c k \<noteq> CeOther j"
  by (auto simp: contract_codes_def decode_contracts sdk_variant_known split: if_splits)

lemma decode_arms_codes:
  assumes "((c, k), v) \<in> set decode_table"
  shows "k \<in> contract_codes c"
  using assms unfolding decode_table_arms set_append set_map
  by (elim UnE imageE) simp_all

lemma decode_cases:
  obtains v where "((c, k), v) \<in> set decode_table" "decode_error c k = v" "k \<in> contract_codes c"
  | "decode_error c k = CeOther k" "k \<notin> contract_codes c"
proof (cases "map_of decode_table (c, k)")
  case None
  then have "decode_error c k = CeOther k" by (simp add: decode_error_def)
  with decode_coded that(2) show ?thesis by blast
next
  case (Some v)
  then have "((c, k), v) \<in> set decode_table" by (rule map_of_SomeD)
  with decode_arm decode_arms_codes that(1) show ?thesis by blast
qed

lemma decode_uncoded: "k \<notin> contract_codes c \<Longrightarrow> decode_error c k = CeOther k"
  by (cases rule: decode_cases [of c k]) auto

lemma decode_injective:
  assumes eq: "decode_error c k = decode_error c' k'"
  shows "k = k' \<and> (c = c' \<or> k \<notin> contract_codes c)"
proof (cases rule: decode_cases [of c k])
  case 1
  with eq decode_coded [of k c] have "((c', k'), decode_error c k) \<in> set decode_table"
    by (cases rule: decode_cases [of c' k']) auto
  moreover have "inj_on snd (set decode_table)" using decode_table_distinct(2) by (simp add: distinct_map)
  ultimately have "((c', k'), decode_error c k) = ((c, k), decode_error c k)"
    using 1 inj_onD [of snd "set decode_table" "((c', k'), decode_error c k)" "((c, k), decode_error c k)"] by simp
  then show ?thesis by simp
next
  case 2
  with eq decode_coded [of k' c'] show ?thesis by (cases rule: decode_cases [of c' k']) auto
qed

lemma display_names_contract:
  assumes "k \<in> contract_codes c"
  shows "\<exists>msg. display_contract_error (decode_error c k) = c @ '': '' @ msg"
proof -
  have "\<exists>msg. display_contract_error v = fst key @ '': '' @ msg" if "(key, v) \<in> set decode_table" for key v
    using that unfolding decode_table_def by (simp, elim disjE) simp_all
  then show ?thesis using assms by (cases rule: decode_cases [of c k]) fastforce+
qed

section \<open>Properties\<close>

text \<open>
  C25: The library decodes the numeric errors of the contracts exactly: each error of each contract's enumeration becomes the
  variant of that contract and that name, whose message begins with the contract; every other number
  becomes \<open>Other\<close> with the number kept; and two codes of the contracts never become the same variant.
\<close>

theorem decode_error_exact:
  "decode_error ''registry'' (registry_error_code e1) = sdk_registry e1
   \<and> decode_error ''registrar'' (registrar_error_code e2) = sdk_registrar e2
   \<and> decode_error ''resolver'' (resolver_error_code e3) = sdk_resolver e3
   \<and> decode_error ''subdomain'' (subdomain_error_code e4) = sdk_subdomain e4
   \<and> decode_error ''auction'' (auction_error_code e5) = sdk_auction e5
   \<and> decode_error ''bridge'' (bridge_error_code e6) = sdk_bridge e6
   \<and> decode_error ''nft'' (nft_error_code e7) = sdk_nft e7
   \<and> (k \<in> contract_codes c \<longrightarrow> (\<exists>msg. display_contract_error (decode_error c k) = c @ '': '' @ msg))
   \<and> (k \<notin> contract_codes c \<longrightarrow> decode_error c k = CeOther k)
   \<and> (decode_error c k = decode_error c' k' \<longrightarrow> k = k' \<and> (c = c' \<or> k \<notin> contract_codes c))"
  using decode_contracts display_names_contract decode_uncoded decode_injective by blast

theorem decode_error_exact_witness:
  "(\<exists>msg. display_contract_error (decode_error ''registrar'' 13) = ''registrar: '' @ msg)
   \<and> decode_error ''registry'' 99 = CeOther 99
   \<and> decode_error ''registry'' 1 = sdk_registry AlreadyRegistered"
proof -
  have known: "13 \<in> contract_codes ''registrar''" by (simp add: image_iff) (metis registrar_error_code.simps(13))
  have "99 \<noteq> registry_error_code e" for e by (cases e) simp_all
  then have unknown: "99 \<notin> contract_codes ''registry''" by auto
  note facts = decode_error_exact [of AlreadyRegistered]
  have "\<exists>msg. display_contract_error (decode_error ''registrar'' 13) = ''registrar'' @ '': '' @ msg"
    using facts known by blast
  moreover have "decode_error ''registry'' 99 = CeOther 99" using facts unknown by blast
  moreover have "decode_error ''registry'' (registry_error_code AlreadyRegistered) = sdk_registry AlreadyRegistered"
    using facts by blast
  ultimately show ?thesis by simp
qed

text \<open>
  The lists of retryable causes decide nothing: every transport failure is retried unless its
  message has one of the three markers of a permanent one.
\<close>

theorem transport_retryable_iff:
  "transport_is_retryable m \<longleftrightarrow> (\<forall>p \<in> {''invalid rpc url'', ''json decoding error'', ''invalid response from server''}.
     \<nexists>a b. to_ascii_lowercase m = a @ p @ b)"
  by (simp add: transport_is_retryable_def Let_def contains_iff)

end
