(* ===== verification/Sdk_Retry.thy ===== *)
theory Sdk_Retry
  imports Sdk_Errors
begin

text \<open>
  Retrying of the client library (\<open>packages/xlm-ns-sdk/src/config.rs\<close> and \<open>execute_with_retry\<close> of \<open>client.rs\<close>).

  What happens outside the library is a step on a world of any type \<open>'w\<close>: the operation that is retried, the sleep,
  the random number generator (\<open>draw m\<close> is \<open>gen_range(0..=m)\<close>). The loop carries its two counters; a
  panic (the sum of the delays does not fit a duration) is \<open>Trap\<close>.
\<close>

section \<open>Configuration (config.rs)\<close>

record retry_config =
  max_retries :: u32
  initial_backoff :: duration
  max_backoff :: duration
  jitter :: bool

definition DEFAULT_TIMEOUT :: duration where "DEFAULT_TIMEOUT = from_secs 30"
definition DEFAULT_MAX_RETRIES :: u32 where "DEFAULT_MAX_RETRIES = 3"
definition DEFAULT_INITIAL_BACKOFF :: duration where "DEFAULT_INITIAL_BACKOFF = from_secs 1"
definition DEFAULT_MAX_BACKOFF :: duration where "DEFAULT_MAX_BACKOFF = from_secs 30"
definition DEFAULT_TRANSACTION_POLL_TIMEOUT :: duration where "DEFAULT_TRANSACTION_POLL_TIMEOUT = from_secs 60"

definition retry_disabled :: retry_config where
  "retry_disabled = \<lparr>max_retries = 0, initial_backoff = 0, max_backoff = 0, jitter = False\<rparr>"

definition retry_default :: retry_config where
  "retry_default = \<lparr>max_retries = DEFAULT_MAX_RETRIES, initial_backoff = DEFAULT_INITIAL_BACKOFF,
     max_backoff = DEFAULT_MAX_BACKOFF, jitter = True\<rparr>"

text \<open>The factor is a \<open>u64\<close> power of two; \<open>try_into\<close> makes a \<open>u32\<close> of it, which never fails (the exponent is at most 16).\<close>

definition backoff_for :: "retry_config \<Rightarrow> u32 \<Rightarrow> duration" where
  "backoff_for rc attempt =
     (if max_retries rc = 0 then from_millis 0
      else
        let factor = push_bit (unat (min attempt 16)) (1 :: u64);
            factor32 = (if unat factor < 2 ^ 32 then ucast factor else - 1 :: u32);
            delay = (case duration_checked_mul (initial_backoff rc) factor32 of
                       Some d \<Rightarrow> d | None \<Rightarrow> max_backoff rc)
        in min delay (max_backoff rc))"

definition sleep_duration :: "retry_config \<Rightarrow> (u64 \<Rightarrow> 'w \<Rightarrow> u64 \<times> 'w) \<Rightarrow> u32 \<Rightarrow> 'w \<Rightarrow> duration \<times> 'w" where
  "sleep_duration rc draw attempt w =
     (let base = backoff_for rc attempt in
      if \<not> jitter rc \<or> base = 0 then (base, w)
      else
        let millis = (of_nat (min (as_millis base) (2 ^ 64 - 1)) :: u64) in
        if millis = 0 then (0, w)
        else (case draw millis w of (n, w') \<Rightarrow> (from_millis n, w')))"

record client_config =
  timeout :: duration
  retry :: retry_config
  user_agent :: string
  poll_final_status :: bool
  transaction_poll_timeout :: duration

section \<open>The loop (client.rs, execute\_with\_retry)\<close>

function retry_loop ::
    "retry_config \<Rightarrow> (u64 \<Rightarrow> 'w \<Rightarrow> u64 \<times> 'w) \<Rightarrow> (duration \<Rightarrow> 'w \<Rightarrow> 'w) \<Rightarrow> ('w \<Rightarrow> (sdk_error + 'a) \<times> 'w)
       \<Rightarrow> u32 \<Rightarrow> duration \<Rightarrow> 'w \<Rightarrow> (sdk_error, 'a) result \<times> 'w" where
  "retry_loop rc draw sleep f attempt total_wait w =
     (case f w of
        (Inr value, w1) \<Rightarrow> (Inr value, w1)
      | (Inl err, w1) \<Rightarrow>
          if is_retryable err \<and> attempt < max_retries rc then
            (case sleep_duration rc draw attempt w1 of (delay, w2) \<Rightarrow>
              (case duration_checked_add total_wait delay of
                 None \<Rightarrow> (Inl Trap, sleep delay w2)
               | Some total' \<Rightarrow> retry_loop rc draw sleep f (attempt + 1) total' (sleep delay w2)))
          else if is_retryable err then
            (Inl (Err (SdkRateLimitExceeded attempt (of_nat (as_millis total_wait)))), w1)
          else (Inl (Err err), w1))"
  by pat_completeness auto

termination
  by (relation "measure (\<lambda>(rc, draw, sleep, f, attempt, total_wait, w). unat (max_retries rc) - unat attempt)")
     (simp_all add: counter_next(3))

declare retry_loop.simps [simp del]

text \<open>\<open>new_client\<close> is the outcome of creating the RPC client for the configured URL, an error message or nothing.\<close>

definition execute_with_retry ::
    "retry_config \<Rightarrow> string option \<Rightarrow> (u64 \<Rightarrow> 'w \<Rightarrow> u64 \<times> 'w) \<Rightarrow> (duration \<Rightarrow> 'w \<Rightarrow> 'w)
       \<Rightarrow> ('w \<Rightarrow> (sdk_error + 'a) \<times> 'w) \<Rightarrow> 'w \<Rightarrow> (sdk_error, 'a) result \<times> 'w" where
  "execute_with_retry rc new_client draw sleep f w =
     (case new_client of
        Some e \<Rightarrow> (Inl (Err (InvalidRequest (''failed to create RPC client: '' @ e))), w)
      | None \<Rightarrow> retry_loop rc draw sleep f 0 0 w)"

section \<open>Delays\<close>

text \<open>The delay before retry \<open>k\<close> is the initial one doubled \<open>k\<close> times (16 times at most), but not more than the largest one.\<close>

lemma backoff_factor: "push_bit (unat (min attempt 16 :: u32)) (1 :: u64) = 2 ^ min (unat attempt) 16"
  by (simp add: push_bit_eq_mult min_def word_le_nat_alt)

lemma backoff_closed:
  "backoff_for rc attempt =
    (if max_retries rc = 0 then 0
     else if initial_backoff rc * 2 ^ min (unat attempt) 16 \<le> DURATION_MAX
     then min (initial_backoff rc * 2 ^ min (unat attempt) 16) (max_backoff rc) else max_backoff rc)"
proof -
  let ?k = "min (unat attempt) 16"
  have "(2 :: nat) ^ ?k \<le> 2 ^ 16" by (intro power_increasing) auto
  then have small: "(2 :: nat) ^ ?k < 2 ^ 32" by (rule order.strict_trans1) simp
  have "(2 ^ ?k :: u64) = of_nat (2 ^ ?k)" by simp
  then have factor: "unat (2 ^ ?k :: u64) = 2 ^ ?k"
    using small by (simp only: unsigned_of_nat take_bit_eq_mod) simp
  then have "unat (ucast (2 ^ ?k :: u64) :: u32) = 2 ^ ?k"
    using small by (simp add: unsigned_ucast_eq take_bit_eq_mod)
  with factor small show ?thesis
    unfolding backoff_for_def backoff_factor Let_def
    by (simp add: from_millis_def duration_checked_mul_def)
qed

lemma backoff_le: "backoff_for rc attempt \<le> max_backoff rc"
  by (simp add: backoff_closed)

lemma sleep_le:
  assumes "\<And>n w. fst (draw n w) \<le> n"
  shows "fst (sleep_duration rc draw attempt w) \<le> max_backoff rc"
proof -
  let ?base = "backoff_for rc attempt"
  let ?millis = "of_nat (min (as_millis ?base) (2 ^ 64 - 1)) :: u64"
  have "from_millis n \<le> ?base" if "n \<le> ?millis" for n
  proof -
    have "unat n \<le> unat ?millis" using that by (simp add: word_le_nat_alt)
    also have "\<dots> \<le> as_millis ?base" by (simp add: unsigned_of_nat take_bit_eq_mod)
    finally show ?thesis by (simp add: from_millis_def as_millis_def)
  qed
  moreover have "fst (draw ?millis w) \<le> ?millis" by (rule assms)
  ultimately have "fst (sleep_duration rc draw attempt w) \<le> ?base"
    by (auto simp: sleep_duration_def Let_def split: prod.split)
  then show ?thesis using backoff_le order_trans by blast
qed

section \<open>The loop\<close>

text \<open>
  What is assumed of the outside: the generator stays in its range, and a meter \<open>m\<close> of the world grows by at most \<open>c\<close> in
  a call and by at most \<open>b\<close> in a sleep no longer than the largest delay.
\<close>

definition metered :: "retry_config \<Rightarrow> (u64 \<Rightarrow> 'w \<Rightarrow> u64 \<times> 'w) \<Rightarrow> (duration \<Rightarrow> 'w \<Rightarrow> 'w) \<Rightarrow> ('w \<Rightarrow> (sdk_error + 'a) \<times> 'w)
    \<Rightarrow> ('w \<Rightarrow> nat) \<Rightarrow> nat \<Rightarrow> nat \<Rightarrow> bool" where
  "metered rc draw sleep f m c b \<longleftrightarrow> (\<forall>n w. fst (draw n w) \<le> n \<and> m (snd (draw n w)) \<le> m w)
     \<and> (\<forall>w. m (snd (f w)) \<le> m w + c) \<and> (\<forall>d w. d \<le> max_backoff rc \<longrightarrow> m (sleep d w) \<le> m w + b)"

lemma sleep_duration_world:
  assumes "\<And>n w. P w \<Longrightarrow> P (snd (draw n w))" and "P w"
  shows "P (snd (sleep_duration rc draw attempt w))"
  using assms by (auto simp: sleep_duration_def Let_def split: prod.split) (metis snd_conv)

text \<open>The ways the loop goes on.\<close>

lemma retry_loop_step:
  obtains v w1 where "f w = (Inr v, w1)" "retry_loop rc draw sleep f attempt waited w = (Inr v, w1)"
  | e w1 where "f w = (Inl e, w1)" "\<not> is_retryable e" "retry_loop rc draw sleep f attempt waited w = (Inl (Err e), w1)"
  | e w1 where "f w = (Inl e, w1)" "is_retryable e" "\<not> attempt < max_retries rc"
      "retry_loop rc draw sleep f attempt waited w = (Inl (Err (SdkRateLimitExceeded attempt (of_nat (as_millis waited)))), w1)"
  | e w1 d w2 where "f w = (Inl e, w1)" "is_retryable e" "attempt < max_retries rc"
      "sleep_duration rc draw attempt w1 = (d, w2)" "DURATION_MAX < waited + d"
      "retry_loop rc draw sleep f attempt waited w = (Inl Trap, sleep d w2)"
  | e w1 d w2 where "f w = (Inl e, w1)" "is_retryable e" "attempt < max_retries rc"
      "sleep_duration rc draw attempt w1 = (d, w2)" "waited + d \<le> DURATION_MAX"
      "retry_loop rc draw sleep f attempt waited w = retry_loop rc draw sleep f (attempt + 1) (waited + d) (sleep d w2)"
proof -
  obtain r w1 where f: "f w = (r, w1)" by fastforce
  obtain d w2 where d: "sleep_duration rc draw attempt w1 = (d, w2)" by fastforce
  note step = retry_loop.simps [of rc draw sleep f attempt waited w]
  show thesis
  proof (cases r)
    case (Inr v)
    with f step that(1) show thesis by simp
  next
    case (Inl e)
    consider "\<not> is_retryable e" | "is_retryable e" "\<not> attempt < max_retries rc"
      | "is_retryable e" "attempt < max_retries rc" "DURATION_MAX < waited + d"
      | "is_retryable e" "attempt < max_retries rc" "waited + d \<le> DURATION_MAX" by force
    then show thesis
    proof cases
      case 1
      with f Inl step that(2) show thesis by simp
    next
      case 2
      with f Inl step that(3) show thesis by simp
    next
      case 3
      with f Inl step d that(4) show thesis by (simp add: duration_checked_add_def)
    next
      case 4
      with f Inl step d that(5) show thesis by (simp add: duration_checked_add_def)
    qed
  qed
qed

lemma retry_loop_meter:
  assumes met: "metered rc draw sleep f m c b"
  shows "m (snd (retry_loop rc draw sleep f attempt waited w))
    \<le> m w + c + (unat (max_retries rc) - unat attempt) * (c + b)"
proof (induction "unat (max_retries rc) - unat attempt" arbitrary: attempt waited w rule: less_induct)
  case less
  have call: "m w1 \<le> m w + c" if "f w = (r, w1)" for r w1
    using met that unfolding metered_def by (metis snd_conv)
  have sleep: "m (sleep d w2) \<le> m w1 + b" if "sleep_duration rc draw attempt w1 = (d, w2)" for d w1 w2
  proof -
    have "d \<le> max_backoff rc" using sleep_le [of draw rc attempt w1] met that by (simp add: metered_def)
    then have "m (sleep d w2) \<le> m w2 + b" using met by (simp add: metered_def)
    moreover have "m (snd (sleep_duration rc draw attempt w1)) \<le> m w1"
      by (rule sleep_duration_world [where P = "\<lambda>w. m w \<le> m w1"])
         (use met in \<open>auto simp: metered_def intro: order_trans\<close>)
    ultimately show ?thesis using that by simp
  qed
  show ?case
  proof (cases rule: retry_loop_step [of f w rc draw sleep attempt waited])
    case (4 e w1 d w2)
    then show ?thesis
      using call [OF 4(1)] sleep [OF 4(4)] counter_next(1,2) [OF 4(3)]
      by (cases "unat (max_retries rc) - unat attempt") auto
  next
    case (5 e w1 d w2)
    let ?k = "unat (max_retries rc) - unat (attempt + 1)"
    have "m (snd (retry_loop rc draw sleep f (attempt + 1) (waited + d) (sleep d w2))) \<le> m (sleep d w2) + c + ?k * (c + b)"
      using less counter_next(3) [OF 5(3)] by blast
    moreover have "unat (max_retries rc) - unat attempt = Suc ?k" using counter_next(1,2) [OF 5(3)] by simp
    ultimately show ?thesis using 5 call [OF 5(1)] sleep [OF 5(4)] by simp
  qed (use call in fastforce)+
qed

lemma retry_loop_no_trap:
  assumes rng: "\<And>n w. fst (draw n w) \<le> n"
    and room: "waited + (unat (max_retries rc) - unat attempt) * max_backoff rc \<le> DURATION_MAX"
  shows "fst (retry_loop rc draw sleep f attempt waited w) \<noteq> Inl Trap"
  using room
proof (induction "unat (max_retries rc) - unat attempt" arbitrary: attempt waited w rule: less_induct)
  case less
  have small: "d \<le> max_backoff rc" if "sleep_duration rc draw attempt w1 = (d, w2)" for d w1 w2
    using sleep_le [of draw rc attempt w1] rng that by simp
  show ?case
  proof (cases rule: retry_loop_step [of f w rc draw sleep attempt waited])
    case (4 e w1 d w2)
    then show ?thesis
      using less.prems small [OF 4(4)] counter_next(1,2) [OF 4(3)]
      by (cases "unat (max_retries rc) - unat attempt") auto
  next
    case (5 e w1 d w2)
    let ?k = "unat (max_retries rc) - unat (attempt + 1)"
    have "unat (max_retries rc) - unat attempt = Suc ?k" using counter_next(1,2) [OF 5(3)] by simp
    then have "waited + d + ?k * max_backoff rc \<le> DURATION_MAX" using less.prems small [OF 5(4)] by simp
    with less.hyps counter_next(3) [OF 5(3)] 5 show ?thesis by simp
  qed simp_all
qed

text \<open>
  The outcomes of the calls are laid out in advance: \<open>script w i\<close> is what the call after \<open>i\<close> more calls gives. Sleeping
  and drawing change nothing of that.
\<close>

definition scripted :: "(u64 \<Rightarrow> 'w \<Rightarrow> u64 \<times> 'w) \<Rightarrow> (duration \<Rightarrow> 'w \<Rightarrow> 'w) \<Rightarrow> ('w \<Rightarrow> (sdk_error + 'a) \<times> 'w)
    \<Rightarrow> ('w \<Rightarrow> nat \<Rightarrow> sdk_error + 'a) \<Rightarrow> bool" where
  "scripted draw sleep f script \<longleftrightarrow>
     (\<forall>w. fst (f w) = script w 0 \<and> script (snd (f w)) = (\<lambda>i. script w (Suc i)))
     \<and> (\<forall>n w. fst (draw n w) \<le> n \<and> script (snd (draw n w)) = script w) \<and> (\<forall>d w. script (sleep d w) = script w)"

fun transient :: "sdk_error + 'a \<Rightarrow> bool" where
  "transient (Inl err) = is_retryable err"
| "transient (Inr v) = False"

fun outcome :: "sdk_error + 'a \<Rightarrow> (sdk_error, 'a) result" where
  "outcome (Inl err) = Inl (Err err)"
| "outcome (Inr v) = Inr v"

lemma retry_loop_script:
  assumes scr: "scripted draw sleep f script"
    and room: "waited + (unat (max_retries rc) - unat attempt) * max_backoff rc \<le> DURATION_MAX"
    and le: "unat attempt \<le> unat (max_retries rc)"
  shows "(k \<le> unat (max_retries rc) - unat attempt \<longrightarrow> (\<forall>i < k. transient (script w i)) \<longrightarrow> \<not> transient (script w k) \<longrightarrow>
       fst (retry_loop rc draw sleep f attempt waited w) = outcome (script w k))
    \<and> ((\<forall>i \<le> unat (max_retries rc) - unat attempt. transient (script w i)) \<longrightarrow>
       (\<exists>t. fst (retry_loop rc draw sleep f attempt waited w) = Inl (Err (SdkRateLimitExceeded (max_retries rc) t))))"
  using room le
proof (induction "unat (max_retries rc) - unat attempt" arbitrary: attempt waited w k rule: less_induct)
  case less
  let ?n = "unat (max_retries rc) - unat attempt" and ?loop = "retry_loop rc draw sleep f attempt waited w"
  have small: "d \<le> max_backoff rc" if "sleep_duration rc draw attempt w1 = (d, w2)" for d w1 w2
    using sleep_le [of draw rc attempt w1] scr that by (simp add: scripted_def)
  have head: "script w 0 = fst (f w)" using scr by (simp add: scripted_def)
  have now: "\<not> transient (fst (f w)) \<Longrightarrow> fst ?loop = outcome (fst (f w)) \<Longrightarrow> ?case"
    using head by (metis le0 not_gr_zero)
  show ?case
  proof (cases rule: retry_loop_step [of f w rc draw sleep attempt waited])
    case (3 e w1)
    then have "unat attempt = unat (max_retries rc)" using less.prems(2) by (simp add: word_le_nat_alt not_less)
    then have eq: "attempt = max_retries rc" by (simp add: word_unat_eq_iff)
    have "transient (script w 0)" using 3 head by simp
    with 3 eq show ?thesis by auto
  next
    case (4 e w1 d w2)
    then show ?thesis
      using less.prems small [OF 4(4)] counter_next(1,2) [OF 4(3)] by (cases ?n) auto
  next
    case (5 e w1 d w2)
    let ?k = "unat (max_retries rc) - unat (attempt + 1)"
    have n: "?n = Suc ?k" using counter_next(1,2) [OF 5(3)] by simp
    have "script (sleep d w2) = script w1"
      using sleep_duration_world [where P = "\<lambda>w. script w = script w1" and draw = draw and w = w1 and rc = rc
          and attempt = attempt] scr 5(4) by (simp add: scripted_def)
    then have tail: "script (sleep d w2) i = script w (Suc i)" for i
      using scr 5(1) by (metis scripted_def snd_conv)
    have "waited + d + ?k * max_backoff rc \<le> DURATION_MAX" using less.prems(1) small [OF 5(4)] n by simp
    moreover have "unat (attempt + 1) \<le> unat (max_retries rc)" using counter_next(1,2) [OF 5(3)] by simp
    ultimately have IH: "(j \<le> ?k \<longrightarrow> (\<forall>i < j. transient (script w (Suc i))) \<longrightarrow> \<not> transient (script w (Suc j)) \<longrightarrow>
         fst ?loop = outcome (script w (Suc j)))
      \<and> ((\<forall>i \<le> ?k. transient (script w (Suc i))) \<longrightarrow>
         (\<exists>t. fst ?loop = Inl (Err (SdkRateLimitExceeded (max_retries rc) t))))" for j
      using less.hyps [OF counter_next(3) [OF 5(3)], where w = "sleep d w2" and waited = "waited + d" and k = j] 5(6) tail
      by simp
    have first: "transient (script w 0)" using 5 head by simp
    show ?thesis
    proof (intro conjI impI)
      assume "k \<le> ?n" "\<forall>i < k. transient (script w i)" and last: "\<not> transient (script w k)"
      moreover obtain j where "k = Suc j" using first last by (cases k) auto
      ultimately show "fst ?loop = outcome (script w k)" using IH [of j] n by auto
    next
      assume "\<forall>i \<le> ?n. transient (script w i)"
      then show "\<exists>t. fst ?loop = Inl (Err (SdkRateLimitExceeded (max_retries rc) t))" using IH [of 0] n by auto
    qed
  qed (use now in auto)
qed

lemma retry_loop_final:
  assumes "fst (retry_loop rc draw sleep f attempt waited w) = Inl (Err e)"
  shows "\<not> is_retryable e"
  using assms
proof (induction "unat (max_retries rc) - unat attempt" arbitrary: attempt waited w rule: less_induct)
  case less
  show ?case
  proof (cases rule: retry_loop_step [of f w rc draw sleep attempt waited])
    case (5 e' w1 d w2)
    then show ?thesis using less.hyps [OF counter_next(3) [OF 5(3)]] less.prems by simp
  qed (use less.prems in auto)
qed

section \<open>Properties\<close>

text \<open>
  Retrying is bounded: a call is made at most once more than the configured number of retries, and the time slept is at
  most that number of largest delays, whatever the calls answer and the random numbers are. Unless that
  bound exceeds the range of a duration there is no panic, so the loop returns an answer.
\<close>

theorem retry_bounded:
  assumes "metered rc draw sleep f calls 1 0" and "metered rc draw sleep f slept 0 (max_backoff rc)"
  shows "calls (snd (execute_with_retry rc new_client draw sleep f w)) \<le> calls w + unat (max_retries rc) + 1
    \<and> slept (snd (execute_with_retry rc new_client draw sleep f w)) \<le> slept w + unat (max_retries rc) * max_backoff rc
    \<and> (unat (max_retries rc) * max_backoff rc \<le> DURATION_MAX \<longrightarrow>
        fst (execute_with_retry rc new_client draw sleep f w) \<noteq> Inl Trap)"
proof -
  have "fst (draw n w) \<le> n" for n w using assms(1) by (simp add: metered_def)
  then show ?thesis
    using retry_loop_meter [OF assms(1), of 0 0 w] retry_loop_meter [OF assms(2), of 0 0 w] retry_loop_no_trap [of draw 0 rc 0 sleep f w]
    by (auto simp: execute_with_retry_def split: option.split)
qed

text \<open>A world that counts calls and nanoseconds, where every call times out.\<close>

definition always_failing :: "nat \<times> duration \<Rightarrow> (sdk_error + unit) \<times> nat \<times> duration" where
  "always_failing w = (Inl (Transport ''timeout''), fst w + 1, snd w)"

definition clock_sleep :: "duration \<Rightarrow> nat \<times> duration \<Rightarrow> nat \<times> duration" where
  "clock_sleep d w = (fst w, snd w + d)"

definition full_draw :: "u64 \<Rightarrow> 'w \<Rightarrow> u64 \<times> 'w" where
  "full_draw m w = (m, w)"

theorem retry_bounded_witness:
  "fst (snd (execute_with_retry retry_default None full_draw clock_sleep always_failing (0, 0))) \<le> 4
   \<and> snd (snd (execute_with_retry retry_default None full_draw clock_sleep always_failing (0, 0))) \<le> 90000000000
   \<and> fst (execute_with_retry retry_default None full_draw clock_sleep always_failing (0, 0)) \<noteq> Inl Trap"
proof -
  have "metered retry_default full_draw clock_sleep always_failing fst 1 0"
    "metered retry_default full_draw clock_sleep always_failing snd 0 (max_backoff retry_default)"
    by (auto simp: metered_def full_draw_def clock_sleep_def always_failing_def)
  from retry_bounded [OF this, of None "(0, 0)"] show ?thesis
    by (simp add: retry_default_def DEFAULT_MAX_RETRIES_def DEFAULT_MAX_BACKOFF_def from_secs_def DURATION_MAX_def)
qed

text \<open>
  C26: The outcome of a retried operation is that of its first call which does not fail transiently, if there is one
  within the configured number of retries; if there is none it is a rate limit error with that number, whatever the cause was. The
  error returned is never one that \<open>is_retryable\<close> accepts.
\<close>

theorem retry_outcome:
  assumes "scripted draw sleep f script" and "unat (max_retries rc) * max_backoff rc \<le> DURATION_MAX"
  shows "(k \<le> unat (max_retries rc) \<and> (\<forall>i < k. transient (script w i)) \<and> \<not> transient (script w k) \<longrightarrow>
       fst (execute_with_retry rc None draw sleep f w) = outcome (script w k))
    \<and> ((\<forall>i \<le> unat (max_retries rc). transient (script w i)) \<longrightarrow>
       (\<exists>t. fst (execute_with_retry rc None draw sleep f w) = Inl (Err (SdkRateLimitExceeded (max_retries rc) t))))
    \<and> (fst (execute_with_retry rc new_client draw sleep f w) = Inl (Err e) \<longrightarrow> \<not> is_retryable e)"
  using retry_loop_script [OF assms(1), of 0 rc 0 k w] assms(2) retry_loop_final [of rc draw sleep f 0 0 w e]
  by (auto simp: execute_with_retry_def split: option.split)

text \<open>A world that is its own script: the service is unavailable a number of times, then answers.\<close>

definition answers_after :: "nat \<Rightarrow> (sdk_error + nat) \<times> nat" where
  "answers_after w = (if w = 0 then Inr 7 else Inl (Transport ''503 Service Unavailable''), w - 1)"

theorem retry_outcome_witness:
  "fst (execute_with_retry retry_default None full_draw (\<lambda>_ w. w) answers_after 2) = Inr 7
   \<and> (\<exists>t. fst (execute_with_retry retry_default None full_draw (\<lambda>_ w. w) answers_after 4) = Inl (Err (SdkRateLimitExceeded 3 t)))
   \<and> (\<exists>t. fst (execute_with_retry retry_disabled None full_draw (\<lambda>_ w. w) answers_after 1) = Inl (Err (SdkRateLimitExceeded 0 t)))"
proof -
  define script :: "nat \<Rightarrow> nat \<Rightarrow> sdk_error + nat" where
    "script w i = (if w \<le> i then Inr 7 else Inl (Transport ''503 Service Unavailable''))" for w i
  have busy: "transport_is_retryable ''503 Service Unavailable''" by code_simp
  have "scripted full_draw (\<lambda>_ w. w) answers_after script"
    by (auto simp: scripted_def full_draw_def answers_after_def script_def fun_eq_iff)
  note facts = retry_outcome [OF this]
  have room: "unat (max_retries retry_default) * max_backoff retry_default \<le> DURATION_MAX"
    "unat (max_retries retry_disabled) * max_backoff retry_disabled \<le> DURATION_MAX"
    by (simp_all add: retry_default_def DEFAULT_MAX_RETRIES_def DEFAULT_MAX_BACKOFF_def from_secs_def DURATION_MAX_def
        retry_disabled_def)
  have retries: "max_retries retry_default = 3" "max_retries retry_disabled = 0"
    by (simp_all add: retry_default_def DEFAULT_MAX_RETRIES_def retry_disabled_def)
  from facts [OF room(1), of 2 2] facts [OF room(1), of 2 4] facts [OF room(2), of 2 1] show ?thesis
    by (auto simp: script_def retries busy)
qed

end
