(* ===== verification/Sdk_Ingestion.thy ===== *)
theory Sdk_Ingestion
  imports Sdk_Errors
begin

text \<open>
  The ledger ingestion of the client library (\<open>packages/xlm-ns-sdk/src/ingestion.rs\<close>): a supervisor reads ledgers
  from a primary source (a captive core process), restarts it when it fails, and falls back to a remote source.

  The two sources, the clocks and the timer are the members of \<open>feed\<close>, steps on a world of any type: they stand for the
  traits \<open>CaptiveCoreBackend\<close> and \<open>RemoteLedgerSource\<close>, whose implementations are processes and network calls (theory \<open>Sdk_Backend\<close>). An instant is a
  number of nanoseconds without a bound: \<open>Instant + Duration\<close>, which panics when the sum is out of range (\<open>handle_primary_failure\<close>
  and the retry from the remote source add the restart back-off), is taken not to overflow; \<open>error.to_string()\<close> is \<open>feed_show\<close>, because it uses the debug format of the standard library.
  \<open>next_ledger\<close> is a loop that need not end: \<open>None\<close> is a call that does not return.
\<close>

section \<open>Sources and state\<close>

datatype ingestion_source = CaptiveCore | Remote

record 'p ingested_ledger =
  il_payload :: 'p
  il_raw_xdr :: "u8 list"
  il_sequence :: "u32 option"
  il_source :: ingestion_source

datatype output_target = Stdout | TcpSocket string

record core_config =
  cc_network_passphrase :: string
  cc_history_archive_urls :: "string list"
  cc_buckets_dir :: string
  cc_state_archive_dir :: string
  cc_start_ledger :: u32
  cc_heartbeat_timeout :: duration
  cc_restart_backoff :: duration
  cc_max_restart_attempts :: u32
  cc_output_target :: output_target
  cc_command_args :: "string list"

record ('p, 'w) feed =
  feed_start :: "u32 \<Rightarrow> string \<Rightarrow> 'w \<Rightarrow> (sdk_error + unit) \<times> 'w"
  feed_next_frame :: "duration \<Rightarrow> 'w \<Rightarrow> (sdk_error + u8 list) \<times> 'w"
  feed_archive_state :: "string \<Rightarrow> 'w \<Rightarrow> (sdk_error + string option) \<times> 'w"
  feed_stop :: "'w \<Rightarrow> (sdk_error + unit) \<times> 'w"
  feed_is_running :: "'w \<Rightarrow> bool \<times> 'w"
  feed_next_from :: "u32 \<Rightarrow> 'w \<Rightarrow> (sdk_error + 'p ingested_ledger) \<times> 'w"
  feed_decoder :: "u8 list \<Rightarrow> sdk_error + 'p"
  feed_sequence :: "'p \<Rightarrow> u32 option"
  feed_now :: "'w \<Rightarrow> nat \<times> 'w"
  feed_system_time :: "'w \<Rightarrow> nat \<times> 'w"
  feed_sleep :: "duration \<Rightarrow> 'w \<Rightarrow> 'w"
  feed_show :: "sdk_error \<Rightarrow> string"

record ingestor =
  ig_last_processed :: "u32 option"
  ig_failures :: u32
  ig_source :: ingestion_source
  ig_fallback_reason :: "string option"
  ig_next_retry_at :: nat
  ig_last_archive :: "string option"
  ig_last_heartbeat :: "nat option"

section \<open>Configuration of the process\<close>

text \<open>\<open>str::replace\<close> of a single character, twice.\<close>

definition replace_char :: "char \<Rightarrow> string \<Rightarrow> string \<Rightarrow> string" where
  "replace_char c to s = concat (map (\<lambda>b. if b = c then to else [b]) s)"

definition escape_toml :: "string \<Rightarrow> string" where
  "escape_toml value = replace_char (CHR 0x22) [CHR 0x5C, CHR 0x22] (replace_char (CHR 0x5C) [CHR 0x5C, CHR 0x5C] value)"

fun archive_sections :: "nat \<Rightarrow> string list \<Rightarrow> string" where
  "archive_sections idx [] = []"
| "archive_sections idx (url # urls) =
     [CHR 0x0A] @ ''[HISTORY.archive_'' @ show_nat idx @ '']'' @ [CHR 0x0A] @ ''get='' @ [CHR 0x22] @ escape_toml url
       @ [CHR 0x22, CHR 0x0A] @ archive_sections (Suc idx) urls"

definition rendered_toml :: "core_config \<Rightarrow> string" where
  "rendered_toml config =
     ''NODE_IS_VALIDATOR=false'' @ [CHR 0x0A] @ ''RUN_STANDALONE=false'' @ [CHR 0x0A] @ ''UNSAFE_QUORUM=true'' @ [CHR 0x0A]
       @ ''FAILURE_SAFETY=0'' @ [CHR 0x0A] @ ''HTTP_PORT=0'' @ [CHR 0x0A] @ ''PUBLIC_HTTP_PORT=false'' @ [CHR 0x0A]
       @ ''NETWORK_PASSPHRASE='' @ [CHR 0x22] @ escape_toml (cc_network_passphrase config) @ [CHR 0x22, CHR 0x0A]
       @ ''BUCKET_DIR_PATH='' @ [CHR 0x22] @ escape_toml (cc_buckets_dir config) @ [CHR 0x22, CHR 0x0A]
       @ archive_sections 0 (cc_history_archive_urls config)"

section \<open>Frames\<close>

text \<open>\<open>read_exact\<close> on a stream of bytes that ends.\<close>

definition read_exact :: "nat \<Rightarrow> u8 list \<Rightarrow> (u8 list \<times> u8 list) option" where
  "read_exact n stream = (if length stream < n then None else Some (take n stream, drop n stream))"

text \<open>\<open>eof\<close> is the text of the error that a stream which ends too early gives.\<close>

definition read_length_prefixed_frame :: "string \<Rightarrow> u8 list \<Rightarrow> sdk_error + (u8 list \<times> u8 list)" where
  "read_length_prefixed_frame eof stream =
     (case read_exact 4 stream of
        None \<Rightarrow> Inl (Ingestion (''failed to read XDR frame header: '' @ eof))
      | Some (header, rest) \<Rightarrow>
          (case read_exact (unat (from_be_bytes (bytes_get header 0) (bytes_get header 1) (bytes_get header 2) (bytes_get header 3))) rest of
             None \<Rightarrow> Inl (Ingestion (''failed to read XDR frame payload: '' @ eof))
           | Some (payload, rest') \<Rightarrow> Inr (payload, rest')))"

section \<open>The supervisor\<close>

definition ingestor_new :: "core_config \<Rightarrow> nat \<Rightarrow> ingestor" where
  "ingestor_new config now =
     \<lparr>ig_last_processed = (if cc_start_ledger config = 0 then None else Some (cc_start_ledger config - 1)),
      ig_failures = 0, ig_source = CaptiveCore, ig_fallback_reason = None, ig_next_retry_at = now,
      ig_last_archive = None, ig_last_heartbeat = None\<rparr>"

definition next_start_ledger :: "core_config \<Rightarrow> ingestor \<Rightarrow> u32" where
  "next_start_ledger config s =
     (case ig_last_processed s of None \<Rightarrow> cc_start_ledger config | Some ledger \<Rightarrow> sat_add ledger 1)"

text \<open>The shift is at most 8, so \<open>checked_shl\<close> succeeds.\<close>

definition restart_delay :: "core_config \<Rightarrow> u32 \<Rightarrow> duration" where
  "restart_delay config attempt =
     (let multiplier = push_bit (unat (min (sat_sub attempt 1) 8)) 1 in
      case duration_checked_mul (cc_restart_backoff config) multiplier of
        Some d \<Rightarrow> d | None \<Rightarrow> cc_restart_backoff config)"

definition ingestor_start :: "('p, 'w) feed \<Rightarrow> core_config \<Rightarrow> ingestor \<Rightarrow> 'w \<Rightarrow> (sdk_error + unit) \<times> 'w" where
  "ingestor_start fd config s w = feed_start fd (next_start_ledger config s) (rendered_toml config) w"

function restart_loop :: "('p, 'w) feed \<Rightarrow> core_config \<Rightarrow> ingestor \<Rightarrow> 'w \<Rightarrow> bool \<times> ingestor \<times> 'w" where
  "restart_loop fd config s w =
     (if ig_failures s < cc_max_restart_attempts config then
        let s1 = s\<lparr>ig_failures := ig_failures s + 1\<rparr>;
            w1 = feed_sleep fd (restart_delay config (ig_failures s1)) w
        in (case feed_start fd (next_start_ledger config s1) (rendered_toml config) w1 of
              (Inr _, w2) \<Rightarrow> (True, s1\<lparr>ig_source := CaptiveCore, ig_fallback_reason := None\<rparr>, w2)
            | (Inl err, w2) \<Rightarrow> restart_loop fd config (s1\<lparr>ig_fallback_reason := Some (feed_show fd err)\<rparr>) w2)
      else (False, s, w))"
  by pat_completeness auto

termination
  by (relation "measure (\<lambda>(fd, config, s, w). unat (cc_max_restart_attempts config) - unat (ig_failures s))")
     (simp_all add: counter_next(3))

declare restart_loop.simps [simp del]

definition handle_primary_failure ::
    "('p, 'w) feed \<Rightarrow> core_config \<Rightarrow> string \<Rightarrow> ingestor \<Rightarrow> 'w \<Rightarrow> (sdk_error + unit) \<times> ingestor \<times> 'w" where
  "handle_primary_failure fd config reason s w =
     (let s1 = s\<lparr>ig_fallback_reason := Some reason, ig_source := Remote\<rparr>;
          w1 = snd (feed_stop fd w)
      in (case feed_archive_state fd (cc_state_archive_dir config) w1 of
            (Inl err, w2) \<Rightarrow> (Inl err, s1, w2)
          | (Inr path, w2) \<Rightarrow>
              (case restart_loop fd config (s1\<lparr>ig_last_archive := path\<rparr>) w2 of
                 (True, s2, w3) \<Rightarrow> (Inr (), s2, w3)
               | (False, s2, w3) \<Rightarrow>
                   (case feed_now fd w3 of (now, w4) \<Rightarrow>
                      (Inr (), s2\<lparr>ig_next_retry_at := now + cc_restart_backoff config\<rparr>, w4)))))"

text \<open>A frame of the primary source, once received.\<close>

definition accept_frame ::
    "('p, 'w) feed \<Rightarrow> u8 list \<Rightarrow> ingestor \<Rightarrow> 'w \<Rightarrow> (sdk_error + 'p ingested_ledger) \<times> ingestor \<times> 'w" where
  "accept_frame fd frame s w =
     (case feed_decoder fd frame of
        Inl err \<Rightarrow> (Inl err, s, w)
      | Inr payload \<Rightarrow>
          (let seq = feed_sequence fd payload;
               s1 = (case seq of None \<Rightarrow> s | Some q \<Rightarrow> s\<lparr>ig_last_processed := Some q\<rparr>)
           in (case feed_system_time fd w of (now, w1) \<Rightarrow>
                 (Inr \<lparr>il_payload = payload, il_raw_xdr = frame, il_sequence = seq, il_source = CaptiveCore\<rparr>,
                  s1\<lparr>ig_source := CaptiveCore, ig_fallback_reason := None, ig_failures := 0,
                     ig_last_heartbeat := Some now\<rparr>, w1))))"

text \<open>The remote source is asked for the next ledger.\<close>

definition read_remote ::
    "('p, 'w) feed \<Rightarrow> core_config \<Rightarrow> ingestor \<Rightarrow> 'w \<Rightarrow> (sdk_error + 'p ingested_ledger) \<times> ingestor \<times> 'w" where
  "read_remote fd config s w =
     (case feed_next_from fd (next_start_ledger config s) w of
        (Inl err, w1) \<Rightarrow> (Inl err, s, w1)
      | (Inr ledger, w1) \<Rightarrow>
          (let s1 = (case il_sequence ledger of None \<Rightarrow> s | Some q \<Rightarrow> s\<lparr>ig_last_processed := Some q\<rparr>)
           in (case feed_system_time fd w1 of (now, w2) \<Rightarrow>
                 (Inr (ledger\<lparr>il_source := Remote\<rparr>),
                  s1\<lparr>ig_source := Remote, ig_last_heartbeat := Some now\<rparr>, w2))))"

partial_function (option) next_ledger ::
    "('p, 'w) feed \<Rightarrow> core_config \<Rightarrow> ingestor \<Rightarrow> 'w \<Rightarrow> ((sdk_error + 'p ingested_ledger) \<times> ingestor \<times> 'w) option" where
  "next_ledger fd config s w =
     (if ig_source s = CaptiveCore then
        (case feed_is_running fd w of (running, w1) \<Rightarrow>
          if \<not> running then
            (case handle_primary_failure fd config ''captive core process not running'' s w1 of
               (Inl err, s', w') \<Rightarrow> Some (Inl err, s', w')
             | (Inr _, s', w') \<Rightarrow> next_ledger fd config s' w')
          else
            (case feed_next_frame fd (cc_heartbeat_timeout config) w1 of
               (Inr frame, w2) \<Rightarrow> Some (accept_frame fd frame s w2)
             | (Inl error, w2) \<Rightarrow>
                 (case handle_primary_failure fd config (feed_show fd error) s w2 of
                    (Inl err, s', w') \<Rightarrow> Some (Inl err, s', w')
                  | (Inr _, s', w') \<Rightarrow> next_ledger fd config s' w')))
      else
        (case feed_now fd w of (now, w1) \<Rightarrow>
          if ig_next_retry_at s \<le> now then
            (case feed_start fd (next_start_ledger config s) (rendered_toml config) w1 of
               (Inr _, w2) \<Rightarrow> next_ledger fd config (s\<lparr>ig_source := CaptiveCore, ig_fallback_reason := None\<rparr>) w2
             | (Inl err, w2) \<Rightarrow>
                 (case feed_now fd w2 of (now', w3) \<Rightarrow>
                    Some (read_remote fd config
                      (s\<lparr>ig_fallback_reason := Some (feed_show fd err), ig_next_retry_at := now' + cc_restart_backoff config\<rparr>) w3)))
          else Some (read_remote fd config s w1)))"

end
