(* ===== verification/Sdk_Ingestion_Properties.thy ===== *)
theory Sdk_Ingestion_Properties
  imports Sdk_Ingestion
begin

text \<open>
  Properties of the ingestion: frames, what the supervisor delivers, and when a call of it returns.
\<close>

section \<open>Frames\<close>

lemma read_exact_append [simp]: "length a = n \<Longrightarrow> read_exact n (a @ b) = Some (a, b)"
  by (simp add: read_exact_def)

lemma length_be_bytes [simp]: "length (to_be_bytes v) = 4"
  by (simp add: to_be_bytes_def)

lemma be_bytes_roundtrip:
  "from_be_bytes (bytes_get (to_be_bytes v) 0) (bytes_get (to_be_bytes v) (Suc 0)) (bytes_get (to_be_bytes v) 2)
     (bytes_get (to_be_bytes v) 3) = v"
  using decode_to_be_bytes [of v "[]"] by (simp add: decode_target_version_def)

text \<open>
  A frame written with its length in four bytes, big endian, is read back exactly, and the rest of the stream is left for the next
  frame. A stream that ends within a frame gives an ingestion error, never a shorter frame.
\<close>

theorem frame_roundtrip:
  assumes "length payload < 2 ^ 32"
  shows "read_length_prefixed_frame eof (to_be_bytes (of_nat (length payload)) @ payload @ rest) = Inr (payload, rest)
    \<and> (k < 4 + length payload \<longrightarrow>
        (\<exists>msg. read_length_prefixed_frame eof (take k (to_be_bytes (of_nat (length payload)) @ payload)) = Inl (Ingestion msg)))"
proof -
  let ?h = "to_be_bytes (of_nat (length payload))"
  have len: "unat (of_nat (length payload) :: u32) = length payload"
    using assms by (simp add: unsigned_of_nat take_bit_eq_mod)
  have "\<exists>msg. read_length_prefixed_frame eof (take k (?h @ payload)) = Inl (Ingestion msg)" if "k < 4 + length payload"
  proof (cases "k < 4")
    case True
    then show ?thesis by (simp add: read_length_prefixed_frame_def read_exact_def)
  next
    case False
    then have "take k (?h @ payload) = ?h @ take (k - 4) payload" "length (take (k - 4) payload) < length payload"
      using that by simp_all
    then show ?thesis by (simp add: read_length_prefixed_frame_def be_bytes_roundtrip len) (simp add: read_exact_def)
  qed
  then show ?thesis by (simp add: read_length_prefixed_frame_def be_bytes_roundtrip len)
qed

theorem frame_roundtrip_witness:
  "read_length_prefixed_frame ''early eof'' [0, 0, 0, 2, 7, 9, 0] = Inr ([7, 9], [0])
   \<and> (\<exists>msg. read_length_prefixed_frame ''early eof'' [0, 0, 0, 2, 7] = Inl (Ingestion msg))"
  using frame_roundtrip [of "[7, 9]" "''early eof''" "[0]" 5] by (simp add: to_be_bytes_def)

section \<open>Restarts\<close>

lemma restart_loop_cases:
  obtains s' w' where "restart_loop fd config s w = (True, s', w')" "ig_last_processed s' = ig_last_processed s"
      "ig_source s' = CaptiveCore" "unat (ig_failures s) < unat (ig_failures s')"
      "unat (ig_failures s') \<le> unat (cc_max_restart_attempts config)"
      "\<exists>w1. feed_start fd (next_start_ledger config s) (rendered_toml config) w1 = (Inr (), w')"
  | s' w' where "restart_loop fd config s w = (False, s', w')" "ig_last_processed s' = ig_last_processed s"
      "ig_source s' = ig_source s"
proof (induction "unat (cc_max_restart_attempts config) - unat (ig_failures s)" arbitrary: s w thesis rule: less_induct)
  case less
  let ?s1 = "s\<lparr>ig_failures := ig_failures s + 1\<rparr>"
  let ?w1 = "feed_sleep fd (restart_delay config (ig_failures s + 1)) w"
  note step = restart_loop.simps [of fd config s w]
  show ?case
  proof (cases "ig_failures s < cc_max_restart_attempts config")
    case False
    with step less.prems(2) show ?thesis by simp
  next
    case True
    note nxt = counter_next [OF True]
    have same: "next_start_ledger config (s\<lparr>ig_failures := a, ig_fallback_reason := b\<rparr>) = next_start_ledger config s" for a b
      by (simp add: next_start_ledger_def)
    obtain r w2 where start: "feed_start fd (next_start_ledger config ?s1) (rendered_toml config) ?w1 = (r, w2)" by fastforce
    show ?thesis
    proof (cases r)
      case (Inr u)
      with start step True have "restart_loop fd config s w =
          (True, ?s1\<lparr>ig_source := CaptiveCore, ig_fallback_reason := None\<rparr>, w2)" by (simp add: Let_def)
      moreover have "\<exists>w1. feed_start fd (next_start_ledger config s) (rendered_toml config) w1 = (Inr (), w2)"
        using start Inr by (auto simp: next_start_ledger_def)
      ultimately show ?thesis using less.prems(1) nxt by simp
    next
      case (Inl err)
      let ?s2 = "?s1\<lparr>ig_fallback_reason := Some (feed_show fd err)\<rparr>"
      have eq: "restart_loop fd config s w = restart_loop fd config ?s2 w2" using start step True Inl by (simp add: Let_def)
      have dec: "unat (cc_max_restart_attempts config) - unat (ig_failures ?s2)
          < unat (cc_max_restart_attempts config) - unat (ig_failures s)" using nxt by simp
      show ?thesis
        by (rule less.hyps [OF dec, where w = w2])
           (use less.prems nxt in \<open>auto simp: eq next_start_ledger_def\<close>)
    qed
  qed
qed

lemma handle_failure_cases:
  obtains err s' w' where "handle_primary_failure fd config reason s w = (Inl err, s', w')"
      "ig_last_processed s' = ig_last_processed s" "ig_source s' = Remote"
      "fst (feed_archive_state fd (cc_state_archive_dir config) (snd (feed_stop fd w))) = Inl err"
  | s' w' where "handle_primary_failure fd config reason s w = (Inr (), s', w')"
      "ig_last_processed s' = ig_last_processed s" "ig_source s' = CaptiveCore"
      "unat (ig_failures s) < unat (ig_failures s')" "unat (ig_failures s') \<le> unat (cc_max_restart_attempts config)"
      "\<exists>w1. feed_start fd (next_start_ledger config s) (rendered_toml config) w1 = (Inr (), w')"
  | s' w' w3 now where "handle_primary_failure fd config reason s w = (Inr (), s', w')"
      "ig_last_processed s' = ig_last_processed s" "ig_source s' = Remote"
      "feed_now fd w3 = (now, w')" "ig_next_retry_at s' = now + cc_restart_backoff config"
proof -
  obtain r w2 where arch: "feed_archive_state fd (cc_state_archive_dir config) (snd (feed_stop fd w)) = (r, w2)" by fastforce
  note def = handle_primary_failure_def [of fd config reason s w] arch
  show thesis
  proof (cases r)
    case (Inl err)
    with def that(1) arch show thesis by (simp add: Let_def)
  next
    case (Inr path)
    let ?s2 = "s\<lparr>ig_fallback_reason := Some reason, ig_source := Remote, ig_last_archive := path\<rparr>"
    have same: "next_start_ledger config ?s2 = next_start_ledger config s" by (simp add: next_start_ledger_def)
    show thesis
    proof (cases rule: restart_loop_cases [of fd config ?s2 w2])
      case (1 s' w')
      with def Inr same show thesis using that(2) [of s' w'] by (simp add: Let_def)
    next
      case (2 s' w')
      obtain now w4 where "feed_now fd w' = (now, w4)" by fastforce
      with 2 def Inr show thesis
        using that(3) [of "s'\<lparr>ig_next_retry_at := now + cc_restart_backoff config\<rparr>" w4 w' now] by (simp add: Let_def)
    qed
  qed
qed

section \<open>What is delivered\<close>

text \<open>
  Sources that keep their promises: \<open>pos w\<close> is the ledger a running primary source delivers next. A start at a ledger puts
  it there; a frame is the ledger at the position and moves the position on; the remote source gives the
  ledger it is asked for. Everything else may fail at any time.
\<close>

definition faithful_feed :: "('p, 'w) feed \<Rightarrow> ('w \<Rightarrow> u32) \<Rightarrow> bool" where
  "faithful_feed fd pos \<longleftrightarrow>
     (\<forall>n toml w w'. feed_start fd n toml w = (Inr (), w') \<longrightarrow> pos w' = n)
     \<and> (\<forall>d w frame w'. feed_next_frame fd d w = (Inr frame, w') \<longrightarrow>
          (\<exists>p. feed_decoder fd frame = Inr p \<and> feed_sequence fd p = Some (pos w)) \<and> pos w' = pos w + 1)
     \<and> (\<forall>w. pos (snd (feed_is_running fd w)) = pos w) \<and> (\<forall>w. pos (snd (feed_system_time fd w)) = pos w)
     \<and> (\<forall>n w l w'. feed_next_from fd n w = (Inr l, w') \<longrightarrow> il_sequence l = Some n)"

lemma faithful_feedD:
  assumes "faithful_feed fd pos"
  shows "feed_start fd n toml w = (Inr (), w') \<Longrightarrow> pos w' = n"
    and "feed_next_frame fd d w = (Inr frame, w') \<Longrightarrow> \<exists>p. feed_decoder fd frame = Inr p \<and> feed_sequence fd p = Some (pos w)"
    and "feed_next_frame fd d w = (Inr frame, w') \<Longrightarrow> pos w' = pos w + 1"
    and "feed_is_running fd w = (b, w') \<Longrightarrow> pos w' = pos w"
    and "feed_system_time fd w = (k, w') \<Longrightarrow> pos w' = pos w"
    and "feed_next_from fd n w = (Inr l, w') \<Longrightarrow> il_sequence l = Some n"
  using assms unfolding faithful_feed_def by (blast, blast, blast, metis snd_conv, metis snd_conv, blast)

text \<open>While the primary source is active it stands at the ledger after the last one processed.\<close>

definition in_step :: "core_config \<Rightarrow> ('w \<Rightarrow> u32) \<Rightarrow> ingestor \<Rightarrow> 'w \<Rightarrow> bool" where
  "in_step config pos s w \<longleftrightarrow> (ig_source s = CaptiveCore \<longrightarrow> pos w = next_start_ledger config s)"

lemma next_start_same: "ig_last_processed s' = ig_last_processed s \<Longrightarrow> next_start_ledger config s' = next_start_ledger config s"
  by (simp add: next_start_ledger_def)

lemma handle_failure_in_step:
  assumes faithful: "faithful_feed fd pos" and eq: "handle_primary_failure fd config reason s w = (r, s', w')"
  shows "in_step config pos s' w' \<and> ig_last_processed s' = ig_last_processed s"
proof (cases rule: handle_failure_cases [of fd config reason s w])
  case (2 t v)
  then have "pos w' = next_start_ledger config s" using faithful_feedD(1) [OF faithful] eq by auto
  with 2 eq show ?thesis by (simp add: in_step_def next_start_ledger_def)
qed (use eq in \<open>simp_all add: in_step_def\<close>)

text \<open>One call, if it returns: the next ledger, or an error and nothing processed.\<close>

definition delivers :: "core_config \<Rightarrow> ('w \<Rightarrow> u32) \<Rightarrow> ingestor \<Rightarrow> (sdk_error + 'p ingested_ledger) \<times> ingestor \<times> 'w \<Rightarrow> bool" where
  "delivers config pos s r \<longleftrightarrow>
     (case r of (out, s', w') \<Rightarrow>
        (next_start_ledger config s < - 1 \<longrightarrow> in_step config pos s' w') \<and>
        (case out of
           Inl err \<Rightarrow> ig_last_processed s' = ig_last_processed s
         | Inr l \<Rightarrow> il_sequence l = Some (next_start_ledger config s) \<and> ig_last_processed s' = Some (next_start_ledger config s)))"

lemma delivers_same: "ig_last_processed s' = ig_last_processed s \<Longrightarrow> delivers config pos s' r \<longleftrightarrow> delivers config pos s r"
  by (simp add: delivers_def next_start_same [of s' s] split: sum.split prod.split)

lemma delivers_error:
  "in_step config pos s' w' \<Longrightarrow> ig_last_processed s' = ig_last_processed s \<Longrightarrow> delivers config pos s (Inl err, s', w')"
  by (simp add: delivers_def)

lemma sat_next: "(n :: u32) < - 1 \<Longrightarrow> sat_add n 1 = n + 1"
  by (simp add: sat_add_def word_less_nat_alt unat_max_word)

lemma accept_frame_delivers:
  assumes faithful: "faithful_feed fd pos" and frame: "feed_next_frame fd d w1 = (Inr frame, w2)"
    and at: "pos w1 = next_start_ledger config s"
  shows "delivers config pos s (accept_frame fd frame s w2)"
proof -
  obtain p where p: "feed_decoder fd frame = Inr p" "feed_sequence fd p = Some (pos w1)"
    using faithful_feedD(2) [OF faithful frame] by blast
  obtain now w3 where clock: "feed_system_time fd w2 = (now, w3)" by fastforce
  have "pos w3 = pos w1 + 1" using faithful_feedD(3) [OF faithful frame] faithful_feedD(5) [OF faithful clock] by simp
  with p clock at show ?thesis
    by (simp add: delivers_def accept_frame_def in_step_def Let_def) (simp add: next_start_ledger_def sat_next)
qed

lemma read_remote_delivers:
  assumes faithful: "faithful_feed fd pos" and "ig_source s = Remote"
  shows "delivers config pos s (read_remote fd config s w)"
proof -
  obtain r w1 where fetch: "feed_next_from fd (next_start_ledger config s) w = (r, w1)" by fastforce
  obtain now w2 where clock: "feed_system_time fd w1 = (now, w2)" by fastforce
  show ?thesis
  proof (cases r)
    case (Inl err)
    with fetch assms(2) show ?thesis by (simp add: delivers_def read_remote_def in_step_def)
  next
    case (Inr l)
    with fetch have "il_sequence l = Some (next_start_ledger config s)" using faithful_feedD(6) [OF faithful] by blast
    with Inr fetch clock show ?thesis by (simp add: delivers_def read_remote_def in_step_def Let_def)
  qed
qed

lemma next_ledger_delivers:
  assumes faithful: "faithful_feed fd pos" and ret: "next_ledger fd config s w = Some r" and "in_step config pos s w"
  shows "delivers config pos s r"
proof -
  have "faithful_feed fd pos \<longrightarrow> in_step config pos s w \<longrightarrow> delivers config pos s r"
  proof (rule next_ledger.raw_induct [where P = "\<lambda>fd config s w r. faithful_feed fd pos \<longrightarrow> in_step config pos s w \<longrightarrow>
        delivers config pos s r", OF _ ret], intro impI, goal_cases)
    case (1 f fd config s w r)
    note IH = 1(1) and body = 1(2) and faithful = 1(3) and at = 1(4)
    have after: "delivers config pos s r"
      if "handle_primary_failure fd config reason s v = (Inl err, s', w') \<and> r = (Inl err, s', w')
        \<or> handle_primary_failure fd config reason s v = (Inr (), s', w') \<and> f fd config s' w' = Some r" for reason v err s' w'
    proof -
      from that have ok: "in_step config pos s' w'" "ig_last_processed s' = ig_last_processed s"
        using handle_failure_in_step [OF faithful] by blast+
      from that consider "r = (Inl err, s', w')" | "f fd config s' w' = Some r" by blast
      then show ?thesis
      proof cases
        case 1
        with ok show ?thesis by (simp add: delivers_error)
      next
        case 2
        with IH faithful ok(1) have "delivers config pos s' r" by blast
        then show ?thesis using delivers_same [OF ok(2)] by blast
      qed
    qed
    show ?case
    proof (cases "ig_source s = CaptiveCore")
      case True
      obtain running w1 where run: "feed_is_running fd w = (running, w1)" by fastforce
      obtain x w2 where frame: "feed_next_frame fd (cc_heartbeat_timeout config) w1 = (x, w2)" by fastforce
      have pos: "pos w1 = next_start_ledger config s"
        using faithful_feedD(4) [OF faithful run] at True by (simp add: in_step_def)
      show ?thesis
      proof (cases "running \<and> isl x \<or> \<not> running")
        case True
        define reason v where "reason = (if running then feed_show fd (projl x) else ''captive core process not running'')"
          and "v = (if running then w2 else w1)"
        obtain y s' w' where h: "handle_primary_failure fd config reason s v = (y, s', w')" by (metis prod.exhaust)
        from body run frame True \<open>ig_source s = CaptiveCore\<close> h
        have "case y of Inl err \<Rightarrow> r = (Inl err, s', w') | Inr u \<Rightarrow> f fd config s' w' = Some r"
          by (cases x; cases y; cases running; simp add: reason_def v_def)
        with after [of reason v _ s' w'] h show ?thesis by (cases y) auto
      next
        case False
        then obtain fr where fr: "x = Inr fr" "running" by (cases x) auto
        with body run frame True have "r = accept_frame fd fr s w2" by simp
        with accept_frame_delivers [OF faithful _ pos] frame fr show ?thesis by simp
      qed
    next
      case False
      then have remote: "ig_source s = Remote" by (cases "ig_source s") auto
      obtain now w1 where clock: "feed_now fd w = (now, w1)" by fastforce
      obtain x w2 where start: "feed_start fd (next_start_ledger config s) (rendered_toml config) w1 = (x, w2)" by fastforce
      obtain now' w3 where clock': "feed_now fd w2 = (now', w3)" by fastforce
      show ?thesis
      proof (cases "ig_next_retry_at s \<le> now \<and> \<not> isl x")
        case True
        let ?s = "s\<lparr>ig_source := CaptiveCore, ig_fallback_reason := None\<rparr>"
        from True obtain u where x: "x = Inr u" by (cases x) auto
        with body clock start True remote have "f fd config ?s w2 = Some r" by simp
        moreover have "in_step config pos ?s w2"
          using faithful_feedD(1) [OF faithful] start x by (simp add: in_step_def next_start_ledger_def)
        ultimately show ?thesis
          using IH [of fd config ?s w2 r] faithful delivers_same [of ?s s config pos r] by simp
      next
        case False
        then have "\<exists>t v. r = read_remote fd config t v \<and> ig_last_processed t = ig_last_processed s \<and> ig_source t = Remote"
          using body clock clock' start remote by (cases x) (auto split: if_splits)
        then show ?thesis using read_remote_delivers [OF faithful] delivers_same by metis
      qed
    qed
  qed
  with assms show ?thesis by blast
qed

section \<open>When a call returns\<close>

text \<open>Two readings of the clock in a row are less than the restart backoff apart.\<close>

definition brisk :: "('p, 'w) feed \<Rightarrow> core_config \<Rightarrow> bool" where
  "brisk fd config \<longleftrightarrow> (\<forall>w now w'. feed_now fd w = (now, w') \<longrightarrow> fst (feed_now fd w') < now + cc_restart_backoff config)"

lemma next_ledger_remote_returns:
  assumes "ig_source s = Remote" and "fst (feed_now fd w) < ig_next_retry_at s"
  shows "next_ledger fd config s w \<noteq> None"
  using assms by (subst next_ledger.simps) (auto split: prod.split simp del: not_None_eq)

lemma next_ledger_handled_returns:
  assumes clock: "brisk fd config"
    and again: "\<And>s' w'. ig_source s' = CaptiveCore \<Longrightarrow> unat (ig_failures s) < unat (ig_failures s') \<Longrightarrow>
      unat (ig_failures s') \<le> unat (cc_max_restart_attempts config) \<Longrightarrow> next_ledger fd config s' w' \<noteq> None"
  shows "(case handle_primary_failure fd config reason s w of
      (Inl err, s', w') \<Rightarrow> Some (Inl err, s', w') | (Inr u, s', w') \<Rightarrow> next_ledger fd config s' w') \<noteq> None"
proof (cases rule: handle_failure_cases [of fd config reason s w])
  case (2 s' w')
  then show ?thesis using again by simp
next
  case (3 s' w' w3 now)
  then have "fst (feed_now fd w') < ig_next_retry_at s'" using clock by (simp add: brisk_def)
  with 3 next_ledger_remote_returns [of s' fd w' config] show ?thesis by simp
qed simp

lemma next_ledger_primary_returns:
  assumes "brisk fd config" and "ig_source s = CaptiveCore"
  shows "next_ledger fd config s w \<noteq> None"
  using assms(2)
proof (induction "unat (cc_max_restart_attempts config) - unat (ig_failures s)" arbitrary: s w rule: less_induct)
  case less
  have handled: "(case handle_primary_failure fd config reason s v of
      (Inl err, s', w') \<Rightarrow> Some (Inl err, s', w') | (Inr u, s', w') \<Rightarrow> next_ledger fd config s' w') \<noteq> None" for reason v
    by (rule next_ledger_handled_returns [OF assms(1)], rule less.hyps) auto
  show ?case
    by (subst next_ledger.simps)
       (use less.prems handled in \<open>simp del: not_None_eq split: prod.split sum.split add: handled\<close>)
qed

lemma next_ledger_total:
  assumes "brisk fd config"
  shows "next_ledger fd config s w \<noteq> None"
proof (cases "ig_source s")
  case Remote
  with next_ledger_primary_returns [OF assms] show ?thesis
    by (subst next_ledger.simps) (simp del: not_None_eq split: prod.split sum.split)
qed (use next_ledger_primary_returns [OF assms] in simp)

text \<open>
  C28: A call of the supervisor always returns, with a ledger or an error, however often the primary source fails: it is enough that two
  readings of the clock in a row are less than the restart backoff apart.
\<close>

theorem next_ledger_returns:
  assumes "brisk fd config"
  shows "next_ledger fd config s w \<noteq> None"
  by (rule next_ledger_total [OF assms])

text \<open>A source that always starts, never runs, and leaves an archive; time does not run backwards.\<close>

definition crashing :: "('p, 'w) feed \<Rightarrow> core_config \<Rightarrow> bool" where
  "crashing fd config \<longleftrightarrow> cc_restart_backoff config = 0 \<and> (\<forall>w. \<not> fst (feed_is_running fd w))
     \<and> (\<forall>n toml w. fst (feed_start fd n toml w) = Inr ()) \<and> (\<forall>p w err. fst (feed_archive_state fd p w) \<noteq> Inl err)
     \<and> (\<forall>w. fst (feed_now fd w) \<le> fst (feed_now fd (snd (feed_now fd w))))"

text \<open>
  The condition on the clock is needed: with a restart backoff of zero, a process that starts and exits at once keeps a call of the
  supervisor busy for ever, and the remote source is never asked.
\<close>

theorem zero_backoff_never_returns:
  assumes "crashing fd config" and "ig_source s = CaptiveCore"
  shows "next_ledger fd config s w = None"
proof -
  let ?stuck = "\<lambda>fd s w. ig_source s = CaptiveCore \<or> ig_next_retry_at s \<le> fst (feed_now fd w)"
  have "\<not> (crashing fd config \<and> ?stuck fd s w)" if "next_ledger fd config s w = Some r" for r
  proof (rule next_ledger.raw_induct [where P = "\<lambda>fd config s w r. \<not> (crashing fd config \<and> ?stuck fd s w)", OF _ that],
      rule notI, goal_cases)
    case (1 f fd config s w r)
    note IH = 1(1) and body = 1(2)
    from 1(3) have crash: "crashing fd config" and stuck: "?stuck fd s w" by simp_all
    obtain w1 where run: "feed_is_running fd w = (False, w1)" using crash by (metis crashing_def prod.collapse)
    obtain now v1 where clock: "feed_now fd w = (now, v1)" by fastforce
    obtain v2 where start: "feed_start fd (next_start_ledger config s) (rendered_toml config) v1 = (Inr (), v2)"
      using crash by (metis crashing_def prod.collapse)
    show False
    proof (cases "ig_source s = CaptiveCore")
      case True
      show False
      proof (cases rule: handle_failure_cases [of fd config "''captive core process not running''" s w1])
        case (2 s' w')
        with body run True have "f fd config s' w' = Some r" by simp
        with IH crash 2 show False by blast
      next
        case (3 s' w' w3 now)
        then have "ig_next_retry_at s' \<le> fst (feed_now fd w')" using crash by (simp add: crashing_def) (metis fst_conv snd_conv)
        moreover from 3 body run True have "f fd config s' w' = Some r" by simp
        ultimately show False using IH crash by blast
      qed (use crash in \<open>simp add: crashing_def\<close>)
    next
      case False
      with stuck clock start body
      have "f fd config (s\<lparr>ig_source := CaptiveCore, ig_fallback_reason := None\<rparr>) v2 = Some r" by simp
      with IH crash show False by fastforce
    qed
  qed
  with assms show ?thesis by (cases "next_ledger fd config s w") auto
qed

section \<open>Runs\<close>

text \<open>A consumer that calls the supervisor \<open>n\<close> times and collects the ledgers, errors skipped.\<close>

primrec ingest :: "nat \<Rightarrow> ('p, 'w) feed \<Rightarrow> core_config \<Rightarrow> ingestor \<Rightarrow> 'w
    \<Rightarrow> ('p ingested_ledger list \<times> ingestor \<times> 'w) option" where
  "ingest 0 fd config s w = Some ([], s, w)"
| "ingest (Suc n) fd config s w =
     (case next_ledger fd config s w of None \<Rightarrow> None | Some (out, s1, w1) \<Rightarrow>
      (case ingest n fd config s1 w1 of None \<Rightarrow> None | Some (ls, s2, w2) \<Rightarrow>
         Some ((case out of Inl err \<Rightarrow> ls | Inr l \<Rightarrow> l # ls), s2, w2)))"

lemma ingest_returns: "brisk fd config \<Longrightarrow> ingest n fd config s w \<noteq> None"
proof (induction n arbitrary: s w)
  case (Suc n)
  have "next_ledger fd config s w \<noteq> None" by (rule next_ledger_total [OF Suc.prems])
  then obtain out s1 w1 where "next_ledger fd config s w = Some (out, s1, w1)" by auto
  moreover obtain ls s2 w2 where "ingest n fd config s1 w1 = Some (ls, s2, w2)" using Suc by fastforce
  ultimately show ?case by simp
qed simp

text \<open>
  C27: The supervisor delivers every ledger once and in order across failures, restarts and changes of source: with sources that keep
  their promises, the sequence numbers it hands out from any point on are consecutive, beginning with
  the ledger after the last one processed, until the numbers run out.
\<close>

theorem gapless_ingestion:
  assumes "faithful_feed fd pos" and "in_step config pos s w" and "unat (next_start_ledger config s) + n < 2 ^ 32 - 1"
    and "ingest n fd config s w = Some (ls, s', w')"
  shows "map il_sequence ls = map (\<lambda>i. Some (next_start_ledger config s + of_nat i)) [0..<length ls]"
  using assms(2-)
proof (induction n arbitrary: s w ls)
  case (Suc n)
  let ?k = "next_start_ledger config s"
  obtain out s1 w1 ls1 where step: "next_ledger fd config s w = Some (out, s1, w1)"
    and rest: "ingest n fd config s1 w1 = Some (ls1, s', w')"
    and ls: "ls = (case out of Inl err \<Rightarrow> ls1 | Inr l \<Rightarrow> l # ls1)"
    using Suc.prems(3) by (auto split: option.splits)
  have "?k < - 1" using Suc.prems(2) by (simp add: word_less_nat_alt unat_max_word)
  note one = next_ledger_delivers [OF assms(1) step Suc.prems(1)] sat_next [OF this]
  show ?case
  proof (cases out)
    case (Inl err)
    with one have "in_step config pos s1 w1" "next_start_ledger config s1 = ?k"
      using \<open>?k < - 1\<close> by (simp_all add: delivers_def next_start_same [of s1 s])
    with Suc.IH [OF _ _ rest] Suc.prems(2) Inl ls show ?thesis by simp
  next
    case (Inr l)
    with one have at: "in_step config pos s1 w1" and l: "il_sequence l = Some ?k" and next1: "next_start_ledger config s1 = ?k + 1"
      using \<open>?k < - 1\<close> by (simp_all add: delivers_def next_start_ledger_def [of config s1] sat_next)
    have "unat (?k + 1) = Suc (unat ?k)" by (rule counter_next(1) [OF \<open>?k < - 1\<close>])
    then have "map il_sequence ls1 = map (\<lambda>i. Some (?k + 1 + of_nat i)) [0..<length ls1]"
      using Suc.IH [OF at _ rest] Suc.prems(2) next1 by simp
    with Inr ls l show ?thesis by (simp add: map_upt_Suc add.assoc del: upt_Suc)
  qed
qed simp

text \<open>A primary source that crashes after each ledger it delivers, and a clock that ticks at each reading.\<close>

definition crash_feed :: "(u32, u32 \<times> nat \<times> nat) feed" where
  "crash_feed = \<lparr>feed_start = (\<lambda>n toml (p, k, t). (Inr (), (n, 1, t))),
     feed_next_frame = (\<lambda>d (p, k, t). if k = 0 then (Inl (Ingestion ''process exited''), (p, 0, t + d))
       else (Inr (to_be_bytes p), (p + 1, k - 1, t))),
     feed_archive_state = (\<lambda>root w. (Inr None, w)), feed_stop = (\<lambda>w. (Inr (), w)), feed_is_running = (\<lambda>w. (True, w)),
     feed_next_from = (\<lambda>n w. (Inr \<lparr>il_payload = n, il_raw_xdr = [], il_sequence = Some n, il_source = Remote\<rparr>, w)),
     feed_decoder = (\<lambda>f. Inr (decode_target_version f)), feed_sequence = Some,
     feed_now = (\<lambda>(p, k, t). (t, (p, k, t + 1))), feed_system_time = (\<lambda>(p, k, t). (t, (p, k, t + 1))),
     feed_sleep = (\<lambda>d (p, k, t). (p, k, t + d)), feed_show = (\<lambda>err. ''failed'')\<rparr>"

definition core_sample :: core_config where
  "core_sample = \<lparr>cc_network_passphrase = ''Test SDF Network ; September 2015'', cc_history_archive_urls = [],
     cc_buckets_dir = ''/tmp/xlm-ns-captive-core/buckets'', cc_state_archive_dir = ''/tmp/xlm-ns-captive-core-archive'',
     cc_start_ledger = 41, cc_heartbeat_timeout = from_secs 15, cc_restart_backoff = from_secs 5,
     cc_max_restart_attempts = 3, cc_output_target = Stdout, cc_command_args = []\<rparr>"

lemma crash_feed_simps:
  "feed_start crash_feed n toml (p, k, t) = (Inr (), (n, 1, t))"
  "feed_next_frame crash_feed d (p, k, t) =
     (if k = 0 then (Inl (Ingestion ''process exited''), (p, 0, t + d)) else (Inr (to_be_bytes p), (p + 1, k - 1, t)))"
  "feed_archive_state crash_feed root w = (Inr None, w)" "feed_stop crash_feed w = (Inr (), w)"
  "feed_is_running crash_feed w = (True, w)" "feed_decoder crash_feed f = Inr (decode_target_version f)"
  "feed_sequence crash_feed q = Some q" "feed_system_time crash_feed (p, k, t) = (t, (p, k, t + 1))"
  "feed_sleep crash_feed d (p, k, t) = (p, k, t + d)" "cc_max_restart_attempts core_sample = 3"
  "ig_source (ingestor_new core_sample 0) = CaptiveCore" "ig_failures (ingestor_new core_sample 0) = 0"
  by (simp_all add: crash_feed_def core_sample_def ingestor_new_def)

lemma crash_feed_laws: "faithful_feed crash_feed fst" "brisk crash_feed core_sample"
  using decode_to_be_bytes [of _ "[]"]
  by (auto simp: faithful_feed_def brisk_def crash_feed_def core_sample_def from_secs_def split: if_splits)

theorem next_ledger_returns_witness: "next_ledger crash_feed core_sample (ingestor_new core_sample 0) (41, 1, 0) \<noteq> None"
  by (rule next_ledger_returns [OF crash_feed_laws(2)])

theorem gapless_ingestion_witness:
  "\<exists>ls r. ingest 1 crash_feed core_sample (ingestor_new core_sample 0) (41, 0, 0) = Some (ls, r)
     \<and> map il_sequence ls = [Some 41]"
proof -
  have start: "next_start_ledger core_sample (ingestor_new core_sample 0) = 41"
    by (simp add: next_start_ledger_def ingestor_new_def core_sample_def sat_next)
  obtain ls s w where run: "ingest 1 crash_feed core_sample (ingestor_new core_sample 0) (41, 0, 0) = Some (ls, s, w)"
    using ingest_returns [OF crash_feed_laws(2), of 1 "ingestor_new core_sample 0" "(41, 0, 0)"]
    by (cases "ingest 1 crash_feed core_sample (ingestor_new core_sample 0) (41, 0, 0)") (simp del: ingest.simps, metis prod.exhaust)
  let ?s = "ingestor_new core_sample 0" and ?d = "cc_heartbeat_timeout core_sample"
  obtain s1 t where failed: "handle_primary_failure crash_feed core_sample
      (feed_show crash_feed (Ingestion ''process exited'')) ?s (41, 0, ?d) = (Inr (), s1, (41, 1, t))"
    and active: "ig_source s1 = CaptiveCore"
    using start
    by (simp add: handle_primary_failure_def restart_loop.simps crash_feed_simps Let_def next_start_ledger_def)
  obtain l s2 w2 where second: "next_ledger crash_feed core_sample s1 (41, 1, t) = Some (Inr l, s2, w2)"
    by (simp add: next_ledger.simps [of crash_feed core_sample s1] active crash_feed_simps accept_frame_def Let_def)
  have "next_ledger crash_feed core_sample ?s (41, 0, 0) = Some (Inr l, s2, w2)"
    using second by (simp add: next_ledger.simps [of crash_feed core_sample ?s] crash_feed_simps failed)
  with run have "length ls = 1" by auto
  with gapless_ingestion [OF crash_feed_laws(1) _ _ run] start run show ?thesis
    by (auto simp: in_step_def upt_rec simp del: split_paired_Ex)
qed

theorem zero_backoff_never_returns_witness:
  "next_ledger (crash_feed\<lparr>feed_is_running := (\<lambda>w. (False, w))\<rparr>) (core_sample\<lparr>cc_restart_backoff := 0\<rparr>)
     (ingestor_new core_sample 0) (41, 1, 0) = None"
proof (rule zero_backoff_never_returns)
  show "ig_source (ingestor_new core_sample 0) = CaptiveCore" by (simp add: ingestor_new_def)
  show "crashing (crash_feed\<lparr>feed_is_running := (\<lambda>w. (False, w))\<rparr>) (core_sample\<lparr>cc_restart_backoff := 0\<rparr>)"
    by (simp add: crashing_def crash_feed_def split: prod.split)
qed

end
