(* ===== verification/Sdk_Display.thy ===== *)
theory Sdk_Display
  imports Sdk_Errors
begin

text \<open>
  The texts of the library's errors (\<open>errors.rs\<close>, the \<open>Display\<close> implementations of \<open>SdkError\<close>, \<open>SigningError\<close> and
  \<open>RateLimitError\<close>). The debug format of a string, which the standard library defines by Unicode tables, is the parameter \<open>dbg\<close>.
\<close>

definition show_int :: "int \<Rightarrow> string" where
  "show_int i = (if i < 0 then ''-'' @ show_nat (nat (- i)) else show_nat (nat i))"

primrec display_signing_error :: "signing_error \<Rightarrow> string" where
  "display_signing_error (SigningRejected reason) = ''signing rejected: '' @ reason"
| "display_signing_error (SigningInvalidKey reason) = ''invalid signing key: '' @ reason"
| "display_signing_error (SigningExternalFailure reason) = ''external signer failed: '' @ reason"
| "display_signing_error (SigningMalformedEnvelope reason) = ''malformed transaction envelope: '' @ reason"

definition display_rate_limit :: "u32 \<Rightarrow> u64 \<Rightarrow> string" where
  "display_rate_limit retries total_wait_ms =
     ''rate limit exceeded after '' @ show_nat (unat retries) @ '' retries (waited '' @ show_nat (unat total_wait_ms) @ ''ms)''"

fun display_sdk_error :: "(string \<Rightarrow> string) \<Rightarrow> sdk_error \<Rightarrow> string" where
  "display_sdk_error dbg (InvalidRequest message) = ''invalid request: '' @ message"
| "display_sdk_error dbg (Transport message) = ''transport error: '' @ message"
| "display_sdk_error dbg (Ingestion message) = ''ingestion error: '' @ message"
| "display_sdk_error dbg (ContractError code) = ''contract error: '' @ display_contract_error code"
| "display_sdk_error dbg (NetworkPassphraseMismatch configured rpc_reported) =
     ''network passphrase mismatch: configured='' @ dbg configured @ '', rpc_reported='' @ dbg rpc_reported"
| "display_sdk_error dbg (TransactionPassphraseMismatch configured in_transaction) =
     ''transaction passphrase mismatch: configured='' @ dbg configured @ '', in_transaction='' @ dbg in_transaction"
| "display_sdk_error dbg (ContractInvocationFailed operation reason (Some tx_hash)) =
     operation @ '' failed: '' @ reason @ '' (tx: '' @ tx_hash @ '')''"
| "display_sdk_error dbg (ContractInvocationFailed operation reason None) = operation @ '' failed: '' @ reason"
| "display_sdk_error dbg (SimulationFailed operation reason) = operation @ '' simulation failed: '' @ reason"
| "display_sdk_error dbg (SdkInsufficientFee operation required available) =
     operation @ '' has insufficient fee: required '' @ show_int (sint required) @ '', available '' @ show_int (sint available)"
| "display_sdk_error dbg (TransactionTimeout operation ledger_submitted) =
     operation @ '' timed out after submission at ledger '' @ show_nat (unat ledger_submitted)"
| "display_sdk_error dbg (SigningFailed operation source) = operation @ '' signing failed: '' @ display_signing_error source"
| "display_sdk_error dbg (SdkRateLimitExceeded retries total_wait_ms) = display_rate_limit retries total_wait_ms"

text \<open>
  The text of a contract error names the contract after the words \<open>contract error: \<close>, so a reader of the text finds no number
  in it.
\<close>

lemma display_contract_code:
  assumes "k \<in> contract_codes c"
  shows "\<exists>msg. display_sdk_error dbg (ContractError (decode_error c k)) = ''contract error: '' @ c @ '': '' @ msg"
  using display_names_contract [OF assms] by auto

end
