(* ===== verification/Cli_Errors.thy ===== *)
theory Cli_Errors
  imports Sdk_Display
begin

text \<open>
  The reports of the command line interface (\<open>cli/src/error.rs\<close>): what it tells its user about a failed command. A contract error reaches it
  as a variant of the library's enumeration or as a number in a text; the tables of the two matches are lists of arms here.
  An \<open>anyhow\<close> error is the texts of its chain, outermost first, with the library error it wraps, if any. The regular
  expression of \<open>extract_contract_code\<close> is the parameter \<open>re\<close> (the digits of the first match), the debug format of a text
  the parameter \<open>dbg\<close>.
\<close>

section \<open>Contexts and reports\<close>

datatype error_domain = EdRegistrar | EdRegistry | EdResolver | EdSubdomain | EdBridge | EdAuction | EdNft | EdGeneral

datatype subject_kind = SkName | SkAddress | SkTokenId | SkChain | SkFile | SkUnknown

record error_context =
  ec_domain :: error_domain
  ec_subject :: "string option"
  ec_subject_kind :: subject_kind
  ec_command :: string

record friendly_error =
  fe_summary :: string
  fe_suggestion :: string
  fe_docs :: "string list"
  fe_technical :: string

record cli_error =
  err_chain :: "string list"
  err_sdk :: "sdk_error option"

fun join :: "string \<Rightarrow> string list \<Rightarrow> string" where
  "join sep [] = []"
| "join sep [x] = x"
| "join sep (x # xs) = x @ sep @ join sep xs"

definition err_to_string :: "cli_error \<Rightarrow> string" where
  "err_to_string err = (case err_chain err of [] \<Rightarrow> [] | t # _ \<Rightarrow> t)"

definition human_message :: "friendly_error \<Rightarrow> bool \<Rightarrow> string" where
  "human_message report verbose =
     ''Error: '' @ fe_summary report @ ''. Suggestion: '' @ fe_suggestion report @ ''.''
     @ (if fe_docs report \<noteq> [] then '' Docs: '' @ join '', '' (fe_docs report) @ ''.'' else [])
     @ (if verbose then '' Technical details: '' @ fe_technical report @ ''.'' else [])"

definition subject_name :: "error_context \<Rightarrow> string" where
  "subject_name ctx =
     (let raw = (case ec_subject ctx of Some s \<Rightarrow> s | None \<Rightarrow> ''the requested name'') in
      if ec_subject_kind ctx = SkName then if CHR ''.'' \<in> set raw then raw else raw @ ''.xlm''
      else raw)"

definition technical_chain :: "cli_error \<Rightarrow> string" where
  "technical_chain err = join '' | '' (err_chain err)"

definition technical_chain_or :: "cli_error option \<Rightarrow> string \<Rightarrow> string" where
  "technical_chain_or err fallback =
     (case err of None \<Rightarrow> fallback
      | Some e \<Rightarrow> if technical_chain e \<noteq> [] then technical_chain e else fallback)"

definition technical_with_tx :: "cli_error option \<Rightarrow> string \<Rightarrow> string option \<Rightarrow> string" where
  "technical_with_tx err reason tx_hash =
     join '' | ''
       ([reason]
        @ (case tx_hash of Some h \<Rightarrow> [''tx_hash='' @ h] | None \<Rightarrow> [])
        @ (case err of Some e \<Rightarrow> [technical_chain e] | None \<Rightarrow> []))"

section \<open>Contract errors by variant\<close>

text \<open>
  A summary is a fixed text or a format with the subject in its one place. An arm has the summary, the suggestion, the
  documents and the technical text if there is no error to take it from.
\<close>

datatype headline = Fixed string | About string string

type_synonym report_arm = "headline \<times> string \<times> string list \<times> string"

primrec headline_text :: "error_context \<Rightarrow> headline \<Rightarrow> string" where
  "headline_text ctx (Fixed s) = s"
| "headline_text ctx (About before after) = before @ subject_name ctx @ after"

fun arm_report :: "report_arm \<Rightarrow> error_context \<Rightarrow> cli_error option \<Rightarrow> friendly_error" where
  "arm_report (summary, suggestion, docs, technical) ctx err =
     \<lparr>fe_summary = headline_text ctx summary, fe_suggestion = suggestion, fe_docs = docs,
      fe_technical = technical_chain_or err technical\<rparr>"

definition cli_generic_arms :: "(contract_error_code \<times> report_arm) list" where
  "cli_generic_arms =
  [
   (CeNameNotFound, About '''' '' was not found'', ''Use `xlm-ns whois <name>` or `xlm-ns resolve <name>` to confirm the current record'', [''docs/error-reference.md''], ''contract error: NameNotFound''),
   (CeNotOwner, About '''' '' is owned by a different account'', ''Use the current owner or the admin signer, then retry'', [''docs/error-reference.md''], ''contract error: NotOwner''),
   (CeExpired, About '''' '' has expired'', ''Renew it during the grace period, or register it again if it is claimable'', [''docs/error-reference.md''], ''contract error: Expired''),
   (CeInvalidLabel, About '''' '' is not a valid XLM name label'', ''Use a lowercase label with only supported characters'', [''docs/error-reference.md''], ''contract error: InvalidLabel'')
  ]"

definition cli_registry_arms :: "(contract_error_code \<times> report_arm) list" where
  "cli_registry_arms =
  [
   (CeRegistryAlreadyRegistered, About '''' '' is already registered'', ''Use `xlm-ns whois <name>` to inspect the current owner and expiry'', [''docs/error-reference.md''], ''contract error: RegistryAlreadyRegistered''),
   (CeRegistryNotFound, About '''' '' was not found in the registry'', ''Check the name spelling or use `xlm-ns resolve <name>`'', [''docs/error-reference.md''], ''contract error: RegistryNotFound''),
   (CeRegistryNotYetClaimable, About '''' '' is not yet claimable (grace period active)'', ''Wait until the grace period ends, then register it'', [''docs/error-reference.md''], ''contract error: RegistryNotYetClaimable''),
   (CeRegistryNotActive, About '''' '' is not currently active'', ''Renew the name or wait until it becomes active again'', [''docs/error-reference.md''], ''contract error: RegistryNotActive''),
   (CeRegistryUnauthorized, Fixed ''The registry action is unauthorized'', ''Use the current owner or admin signer profile'', [''docs/error-reference.md''], ''contract error: RegistryUnauthorized''),
   (CeRegistryMetadataTooLong, Fixed ''The metadata URI is too long'', ''Shorten the metadata URI and retry'', [''docs/error-reference.md''], ''contract error: RegistryMetadataTooLong''),
   (CeRegistryValidation, About '''' '' failed registry validation'', ''Check the name format and registry inputs'', [''docs/error-reference.md''], ''contract error: RegistryValidation''),
   (CeRegistryInvalidExpiry, Fixed ''The expiry timestamp is invalid'', ''Use a future expiry time and retry'', [''docs/error-reference.md''], ''contract error: RegistryInvalidExpiry''),
   (CeRegistryInvalidGracePeriod, Fixed ''The grace period value is invalid'', ''Choose a grace period that is >= the expiry timestamp'', [''docs/error-reference.md''], ''contract error: RegistryInvalidGracePeriod''),
   (CeRegistryUpgradeFailed, Fixed ''The registry upgrade failed'', ''Verify the admin signer and try the upgrade again'', [''docs/error-reference.md''], ''contract error: RegistryUpgradeFailed''),
   (CeRegistryLocked, About '''' '' is locked for dispute resolution'', ''Wait for the lock to expire or ask the admin to remove it'', [''docs/error-reference.md''], ''contract error: RegistryLocked'')
  ]"

definition cli_registrar_arms :: "(contract_error_code \<times> report_arm) list" where
  "cli_registrar_arms =
  [
   (CeRegistrarInsufficientFee, About '''' '' requires a higher registration fee'', ''Fund the account, then rerun `xlm-ns quote <name> 1` to verify the cost'', [''docs/error-reference.md''], ''contract error: RegistrarInsufficientFee''),
   (CeRegistrarNotFound, About '''' '' is not registered'', ''Use `xlm-ns whois <name>` to inspect the current record'', [''docs/error-reference.md''], ''contract error: RegistrarNotFound''),
   (CeRegistrarNotRenewable, About '''' '' is not renewable in its current state'', ''Renew it during the grace period, or wait until it becomes claimable'', [''docs/error-reference.md''], ''contract error: RegistrarNotRenewable''),
   (CeRegistrarAlreadyRegistered, About '''' '' is already registered'', ''Use `xlm-ns whois <name>` to inspect the current owner and expiry'', [''docs/error-reference.md''], ''contract error: RegistrarAlreadyRegistered''),
   (CeRegistrarReserved, About '''' '' is reserved'', ''Choose another label or remove the reservation if you control the admin'', [''docs/error-reference.md''], ''contract error: RegistrarReserved''),
   (CeRegistrarUnauthorized, Fixed ''The signer is not authorized for this registrar action'', ''Switch to the owner or admin signer profile and retry'', [''docs/error-reference.md''], ''contract error: RegistrarUnauthorized''),
   (CeRegistrarValidation, About '''' '' failed registrar validation'', ''Check the label format and try again'', [''docs/error-reference.md''], ''contract error: RegistrarValidation''),
   (CeRegistrarRegistrationClaimable, About '''' '' is claimable rather than renewable'', ''Register it as a new name instead of renewing it'', [''docs/error-reference.md''], ''contract error: RegistrarRegistrationClaimable''),
   (CeRegistrarNotInitialized, Fixed ''The registrar is not initialized'', ''Deploy or initialize the registrar contract, then retry'', [''docs/error-reference.md''], ''contract error: RegistrarNotInitialized''),
   (CeRegistrarAlreadyInitialized, Fixed ''The registrar was already initialized'', ''Skip initialization and use the existing contract state'', [''docs/error-reference.md''], ''contract error: RegistrarAlreadyInitialized''),
   (CeRegistrarRateLimitExceeded, Fixed ''You hit the registrar rate limit'', ''Wait for the window to reset, or spread registrations out more evenly'', [''docs/error-reference.md''], ''contract error: RegistrarRateLimitExceeded''),
   (CeRegistrarUpgradeFailed, Fixed ''The registrar upgrade failed'', ''Verify the admin signer and wasm hash, then retry'', [''docs/error-reference.md''], ''contract error: RegistrarUpgradeFailed''),
   (CeRegistrarQuoteExpired, About ''The registration quote for '' '' has expired'', ''Run `xlm-ns quote <name> <years>` to get a fresh quote, then retry'', [''docs/error-reference.md''], ''contract error: RegistrarQuoteExpired'')
  ]"

definition cli_resolver_arms :: "(contract_error_code \<times> report_arm) list" where
  "cli_resolver_arms =
  [
   (CeResolverValidation, About '''' '' failed resolver validation'', ''Check the name, text key, and resolver inputs'', [''docs/error-reference.md''], ''contract error: ResolverValidation''),
   (CeResolverRecordNotFound, About '''' '' has no resolver record'', ''Use `xlm-ns whois <name>` or register a resolver record first'', [''docs/error-reference.md''], ''contract error: ResolverRecordNotFound''),
   (CeResolverUnauthorized, Fixed ''The resolver action is unauthorized'', ''Use the owner signer profile and retry'', [''docs/error-reference.md''], ''contract error: ResolverUnauthorized''),
   (CeResolverTooManyTextRecords, Fixed ''Too many text records are attached to this name'', ''Remove some records or split them across fewer updates'', [''docs/error-reference.md''], ''contract error: ResolverTooManyTextRecords''),
   (CeResolverNotInitialized, Fixed ''The resolver is not initialized'', ''Deploy or initialize the resolver contract, then retry'', [''docs/error-reference.md''], ''contract error: ResolverNotInitialized''),
   (CeResolverTextRecordValueTooLong, Fixed ''The text record value is too long'', ''Shorten the text record value and try again'', [''docs/error-reference.md''], ''contract error: ResolverTextRecordValueTooLong''),
   (CeResolverInvalidChain, Fixed ''The requested chain is not supported'', ''Pick one of the supported chains and retry'', [''docs/error-reference.md''], ''contract error: ResolverInvalidChain''),
   (CeResolverInvalidKey, Fixed ''The text record key is invalid'', ''Use a normalized, lowercase key'', [''docs/error-reference.md''], ''contract error: ResolverInvalidKey''),
   (CeResolverBatchTooLarge, Fixed ''The batch payload is too large'', ''Split the request into smaller batches'', [''docs/error-reference.md''], ''contract error: ResolverBatchTooLarge''),
   (CeResolverUpgradeFailed, Fixed ''The resolver upgrade failed'', ''Verify the admin signer and wasm hash, then retry'', [''docs/error-reference.md''], ''contract error: ResolverUpgradeFailed'')
  ]"

definition cli_subdomain_arms :: "(contract_error_code \<times> report_arm) list" where
  "cli_subdomain_arms =
  [
   (CeSubdomainValidation, About '''' '' failed subdomain validation'', ''Check the parent domain and label format'', [''docs/error-reference.md''], ''contract error: SubdomainValidation''),
   (CeSubdomainParentNotFound, About '''' '' has no registered parent domain'', ''Register the parent domain first, then retry'', [''docs/error-reference.md''], ''contract error: SubdomainParentNotFound''),
   (CeSubdomainAlreadyExists, About '''' '' already exists'', ''Choose another subdomain label'', [''docs/error-reference.md''], ''contract error: SubdomainAlreadyExists''),
   (CeSubdomainNotFound, About '''' '' was not found'', ''Double-check the subdomain name and parent domain'', [''docs/error-reference.md''], ''contract error: SubdomainNotFound''),
   (CeSubdomainUnauthorized, Fixed ''The subdomain action is unauthorized'', ''Use the parent owner or authorized controller signer'', [''docs/error-reference.md''], ''contract error: SubdomainUnauthorized''),
   (CeSubdomainUpgradeFailed, Fixed ''The subdomain upgrade failed'', ''Verify the admin signer and try again'', [''docs/error-reference.md''], ''contract error: SubdomainUpgradeFailed''),
   (CeSubdomainDepthLimitExceeded, Fixed ''The requested subdomain exceeds the allowed depth'', ''Use a shorter subdomain path'', [''docs/error-reference.md''], ''contract error: SubdomainDepthLimitExceeded'')
  ]"

definition cli_auction_arms :: "(contract_error_code \<times> report_arm) list" where
  "cli_auction_arms =
  [
   (CeAuctionValidation, About '''' '' failed auction validation'', ''Check the auction name, timestamps, and reserve price'', [''docs/error-reference.md''], ''contract error: AuctionValidation''),
   (CeAuctionAlreadyExists, About '''' '' already has an auction'', ''Inspect the current auction or choose a different name'', [''docs/error-reference.md''], ''contract error: AuctionAlreadyExists''),
   (CeAuctionNotFound, About '''' '' has no auction'', ''Create an auction first, then retry'', [''docs/error-reference.md''], ''contract error: AuctionNotFound''),
   (CeAuctionClosed, About '''' '' is already closed'', ''Settle the auction or choose another name'', [''docs/error-reference.md''], ''contract error: AuctionClosed''),
   (CeAuctionNotStarted, About '''' '' has not started yet'', ''Wait for the auction start time and retry'', [''docs/error-reference.md''], ''contract error: AuctionNotStarted''),
   (CeAuctionNotEnded, About '''' '' has not ended yet'', ''Wait for the end time before settling or inspecting settlement results'', [''docs/error-reference.md''], ''contract error: AuctionNotEnded''),
   (CeAuctionAlreadySettled, Fixed ''The auction was already settled'', ''Inspect the final result or choose another auction'', [''docs/error-reference.md''], ''contract error: AuctionAlreadySettled''),
   (CeAuctionInvalidBid, Fixed ''The bid is below the reserve price or minimum increment'', ''Increase the bid amount and make sure it clears the reserve price'', [''docs/error-reference.md''], ''contract error: AuctionInvalidBid''),
   (CeAuctionUpgradeFailed, Fixed ''The auction upgrade failed'', ''Verify the admin signer and wasm hash, then retry'', [''docs/error-reference.md''], ''contract error: AuctionUpgradeFailed''),
   (CeAuctionReentrancyDetected, Fixed ''A reentrancy guard blocked this auction operation'', ''Retry the operation after the in-flight transaction completes'', [''docs/security/reentrancy-audit.md''], ''contract error: AuctionReentrancyDetected'')
  ]"

definition cli_bridge_arms :: "(contract_error_code \<times> report_arm) list" where
  "cli_bridge_arms =
  [
   (CeBridgeValidation, About '''' '' failed bridge validation'', ''Check the chain name and resolver address format'', [''docs/error-reference.md''], ''contract error: BridgeValidation''),
   (CeBridgeUnsupportedChain, About '''' '' is not a supported chain'', ''Use one of the registered chains or add a new supported-chain entry'', [''docs/error-reference.md''], ''contract error: BridgeUnsupportedChain''),
   (CeBridgeUpgradeFailed, Fixed ''The bridge upgrade failed'', ''Verify the admin signer and wasm hash, then retry'', [''docs/error-reference.md''], ''contract error: BridgeUpgradeFailed''),
   (CeBridgeUnauthorized, Fixed ''The bridge action is unauthorized'', ''Use the admin signer profile and retry'', [''docs/error-reference.md''], ''contract error: BridgeUnauthorized''),
   (CeBridgeNotFound, About '''' '' was not found'', ''Check the chain or route name and try again'', [''docs/error-reference.md''], ''contract error: BridgeNotFound''),
   (CeBridgeAlreadyExists, About '''' '' already exists'', ''Choose a different chain name or update the existing route'', [''docs/error-reference.md''], ''contract error: BridgeAlreadyExists'')
  ]"

definition cli_nft_arms :: "(contract_error_code \<times> report_arm) list" where
  "cli_nft_arms =
  [
   (CeNftAlreadyMinted, About '''' '' is already minted'', ''Use the existing token or choose a different token id'', [''docs/error-reference.md''], ''contract error: NftAlreadyMinted''),
   (CeNftNotFound, About '''' '' was not found'', ''Check the token id and try again'', [''docs/error-reference.md''], ''contract error: NftNotFound''),
   (CeNftUnauthorized, Fixed ''You are not authorized to inspect or modify this NFT'', ''Use the token owner or admin signer profile and retry'', [''docs/error-reference.md''], ''contract error: NftUnauthorized''),
   (CeNftUpgradeFailed, Fixed ''The NFT upgrade failed'', ''Verify the admin signer and wasm hash, then retry'', [''docs/error-reference.md''], ''contract error: NftUpgradeFailed''),
   (CeNftNotInitialized, Fixed ''The NFT contract is not initialized'', ''Deploy or initialize the NFT contract, then retry'', [''docs/error-reference.md''], ''contract error: NftNotInitialized'')
  ]"

definition cli_variant_arms :: "(contract_error_code \<times> report_arm) list" where
  "cli_variant_arms = cli_generic_arms @ cli_registry_arms @ cli_registrar_arms @ cli_resolver_arms @ cli_subdomain_arms
     @ cli_auction_arms @ cli_bridge_arms @ cli_nft_arms"

definition debug_other :: "contract_error_code \<Rightarrow> string" where
  "debug_other code = (case code of CeOther n \<Rightarrow> ''Other('' @ show_nat (unat n) @ '')'' | _ \<Rightarrow> [])"

definition contract_error :: "contract_error_code \<Rightarrow> error_context \<Rightarrow> cli_error option \<Rightarrow> friendly_error" where
  "contract_error code ctx err =
     (case map_of cli_variant_arms code of
        Some arm \<Rightarrow> arm_report arm ctx err
      | None \<Rightarrow>
          \<lparr>fe_summary = ''The contract returned an unknown error'',
           fe_suggestion = ''Run again with `--verbose` and inspect the log file for the contract reason'',
           fe_docs = [''docs/error-reference.md''],
           fe_technical = technical_chain_or err (''contract error: '' @ debug_other code)\<rparr>)"

section \<open>Contract errors by number\<close>

definition registrar_code_arms :: "(u32 \<times> report_arm) list" where
  "registrar_code_arms =
  [
   (1, About '''' '' needs a higher registration fee'', ''Fund the account, then rerun `xlm-ns quote <name> 1` to verify the cost'', [''docs/contract-specs.md''], ''contract error 1''),
   (2, About '''' '' is not registered'', ''Use `xlm-ns whois <name>` to inspect the current record'', [''docs/contract-specs.md''], ''contract error 2''),
   (3, About '''' '' is not renewable in its current state'', ''Renew it during the grace period, or wait until it becomes claimable'', [''docs/contract-specs.md''], ''contract error 3''),
   (4, About '''' '' is already registered'', ''Use `xlm-ns whois <name>` to inspect the current owner and expiry'', [''docs/contract-specs.md''], ''contract error 4''),
   (5, About '''' '' is reserved'', ''Choose another label or remove the reservation if you control the admin'', [''docs/contract-specs.md''], ''contract error 5''),
   (6, Fixed ''The signer is not authorized for this registrar action'', ''Switch to the owner or admin signer profile and retry'', [''docs/contract-specs.md''], ''contract error 6''),
   (7, About '''' '' failed validation'', ''Check the label format and try again'', [''docs/contract-specs.md''], ''contract error 7''),
   (8, About '''' '' is claimable rather than renewable'', ''Register it as a new name instead of renewing it'', [''docs/contract-specs.md''], ''contract error 8''),
   (9, Fixed ''The registrar is not initialized'', ''Deploy or initialize the registrar contract, then retry'', [''docs/sdk-quickstart.md''], ''contract error 9''),
   (10, Fixed ''The registrar was already initialized'', ''Skip initialization and use the existing contract state'', [''docs/sdk-quickstart.md''], ''contract error 10''),
   (11, Fixed ''You hit the registrar rate limit'', ''Wait for the window to reset, or spread registrations out more evenly'', [''RATE_LIMITING_QUICK_REFERENCE.md''], ''contract error 11''),
   (12, Fixed ''The registrar upgrade failed'', ''Verify the admin signer and wasm hash, then retry'', [''docs/contract-specs.md''], ''contract error 12''),
   (13, About ''The registration quote for '' '' has expired'', ''Run `xlm-ns quote <name> <years>` to get a fresh quote, then retry'', [''docs/error-reference.md''], ''contract error 13'')
  ]"

definition registry_code_arms :: "(u32 \<times> report_arm) list" where
  "registry_code_arms =
  [
   (1, About '''' '' is already registered'', ''Use `xlm-ns whois <name>` to inspect the current owner'', [''docs/contract-specs.md''], ''contract error 1''),
   (2, About '''' '' was not found in the registry'', ''Check the name spelling or try `xlm-ns resolve <name>`'', [''docs/contract-specs.md''], ''contract error 2''),
   (3, About '''' '' is not yet claimable'', ''Wait until the grace period ends, then try again'', [''docs/contract-specs.md''], ''contract error 3''),
   (4, About '''' '' is not active right now'', ''Renew the name or wait until it becomes active again'', [''docs/contract-specs.md''], ''contract error 4''),
   (5, Fixed ''The registry action is unauthorized'', ''Use the current owner or admin signer profile'', [''docs/contract-specs.md''], ''contract error 5''),
   (6, Fixed ''The metadata URI is too long'', ''Shorten the metadata URI and retry'', [''docs/contract-specs.md''], ''contract error 6''),
   (7, About '''' '' failed validation'', ''Check the name format and registry inputs'', [''docs/contract-specs.md''], ''contract error 7''),
   (8, Fixed ''The expiry timestamp is invalid'', ''Use a future expiry time and retry'', [''docs/contract-specs.md''], ''contract error 8''),
   (9, Fixed ''The grace period value is invalid'', ''Choose a grace period within the supported bounds'', [''docs/contract-specs.md''], ''contract error 9''),
   (10, Fixed ''The registry upgrade failed'', ''Verify the admin signer and try the upgrade again'', [''docs/contract-specs.md''], ''contract error 10''),
   (11, About '''' '' is locked'', ''Wait for the lock to expire or ask the admin to remove it'', [''docs/contract-specs.md''], ''contract error 11'')
  ]"

definition resolver_code_arms :: "(u32 \<times> report_arm) list" where
  "resolver_code_arms =
  [
   (1, About '''' '' failed validation'', ''Check the name, text key, and resolver inputs'', [''docs/contract-specs.md''], ''contract error 1''),
   (2, About '''' '' has no resolver record'', ''Use `xlm-ns whois <name>` or register a resolver record first'', [''docs/contract-specs.md''], ''contract error 2''),
   (3, Fixed ''The resolver action is unauthorized'', ''Use the owner signer profile and retry'', [''docs/contract-specs.md''], ''contract error 3''),
   (4, Fixed ''Too many text records are attached to this name'', ''Remove some records or split them across fewer updates'', [''docs/contract-specs.md''], ''contract error 4''),
   (5, Fixed ''The resolver is not initialized'', ''Deploy or initialize the resolver contract, then retry'', [''docs/sdk-quickstart.md''], ''contract error 5''),
   (6, Fixed ''The text record value is too long'', ''Shorten the text record value and try again'', [''docs/contract-specs.md''], ''contract error 6''),
   (7, Fixed ''The requested chain is not supported'', ''Pick one of the supported chains and retry'', [''docs/contract-specs.md''], ''contract error 7''),
   (8, Fixed ''The text record key is invalid'', ''Use a normalized, lowercase key'', [''docs/contract-specs.md''], ''contract error 8''),
   (9, Fixed ''The batch payload is too large'', ''Split the request into smaller batches'', [''docs/contract-specs.md''], ''contract error 9''),
   (10, Fixed ''The resolver upgrade failed'', ''Verify the admin signer and wasm hash, then retry'', [''docs/contract-specs.md''], ''contract error 10'')
  ]"

definition subdomain_code_arms :: "(u32 \<times> report_arm) list" where
  "subdomain_code_arms =
  [
   (1, About '''' '' failed validation'', ''Check the parent domain and label format'', [''docs/contract-specs.md''], ''contract error 1''),
   (2, About '''' '' has no registered parent domain'', ''Register the parent domain first, then retry'', [''docs/contract-specs.md''], ''contract error 2''),
   (3, About '''' '' already exists'', ''Choose another subdomain label'', [''docs/contract-specs.md''], ''contract error 3''),
   (4, About '''' '' was not found'', ''Double-check the subdomain name and parent domain'', [''docs/contract-specs.md''], ''contract error 4''),
   (5, Fixed ''The subdomain action is unauthorized'', ''Use the parent owner or authorized controller signer'', [''docs/contract-specs.md''], ''contract error 5''),
   (6, Fixed ''The subdomain upgrade failed'', ''Verify the admin signer and try again'', [''docs/contract-specs.md''], ''contract error 6''),
   (7, Fixed ''The requested subdomain exceeds the allowed depth'', ''Use a shorter subdomain path'', [''docs/contract-specs.md''], ''contract error 7'')
  ]"

definition bridge_code_arms :: "(u32 \<times> report_arm) list" where
  "bridge_code_arms =
  [
   (1, About '''' '' failed validation'', ''Check the chain name and resolver address format'', [''docs/contract-specs.md''], ''contract error 1''),
   (2, About '''' '' is not a supported chain'', ''Use one of the registered chains or add a new supported-chain entry'', [''docs/contract-specs.md''], ''contract error 2''),
   (3, Fixed ''The bridge upgrade failed'', ''Verify the admin signer and wasm hash, then retry'', [''docs/contract-specs.md''], ''contract error 3''),
   (4, Fixed ''The bridge action is unauthorized'', ''Use the admin signer profile and retry'', [''docs/contract-specs.md''], ''contract error 4''),
   (5, About '''' '' was not found'', ''Check the chain or route name and try again'', [''docs/contract-specs.md''], ''contract error 5''),
   (6, About '''' '' already exists'', ''Choose a different chain name or update the existing route'', [''docs/contract-specs.md''], ''contract error 6'')
  ]"

definition auction_code_arms :: "(u32 \<times> report_arm) list" where
  "auction_code_arms =
  [
   (1, About '''' '' failed validation'', ''Check the auction name, timestamps, and reserve price'', [''docs/contract-specs.md''], ''contract error 1''),
   (2, About '''' '' already has an auction'', ''Inspect the current auction or choose a different name'', [''docs/contract-specs.md''], ''contract error 2''),
   (3, About '''' '' has no auction'', ''Create an auction first, then retry'', [''docs/contract-specs.md''], ''contract error 3''),
   (4, About '''' '' is already closed'', ''Settle the auction or choose another name'', [''docs/contract-specs.md''], ''contract error 4''),
   (5, About '''' '' has not started yet'', ''Wait for the auction start time and retry'', [''docs/contract-specs.md''], ''contract error 5''),
   (6, About '''' '' has not ended yet'', ''Wait for the end time before settling or inspecting settlement results'', [''docs/contract-specs.md''], ''contract error 6''),
   (7, Fixed ''The auction was already settled'', ''Inspect the final result or choose another auction'', [''docs/contract-specs.md''], ''contract error 7''),
   (8, Fixed ''The bid is invalid'', ''Increase the bid amount and make sure it clears the reserve price'', [''docs/contract-specs.md''], ''contract error 8''),
   (9, Fixed ''The auction upgrade failed'', ''Verify the admin signer and wasm hash, then retry'', [''docs/contract-specs.md''], ''contract error 9''),
   (10, Fixed ''A reentrancy guard blocked this auction operation'', ''Retry the operation after the in-flight transaction completes'', [''docs/security/reentrancy-audit.md''], ''contract error 10'')
  ]"

definition nft_code_arms :: "(u32 \<times> report_arm) list" where
  "nft_code_arms =
  [
   (1, About '''' '' is already minted'', ''Use the existing token or choose a different token id'', [''docs/contract-specs.md''], ''contract error 1''),
   (2, About '''' '' was not found'', ''Check the token id and try again'', [''docs/contract-specs.md''], ''contract error 2''),
   (3, Fixed ''You are not authorized to inspect or modify this NFT'', ''Use the token owner or admin signer profile and retry'', [''docs/contract-specs.md''], ''contract error 3''),
   (4, Fixed ''The NFT upgrade failed'', ''Verify the admin signer and wasm hash, then retry'', [''docs/contract-specs.md''], ''contract error 4''),
   (5, Fixed ''The NFT contract is not initialized'', ''Deploy or initialize the NFT contract, then retry'', [''docs/sdk-quickstart.md''], ''contract error 5'')
  ]"

definition unknown_contract_error :: "error_context \<Rightarrow> cli_error option \<Rightarrow> string option \<Rightarrow> friendly_error" where
  "unknown_contract_error ctx err default_summary =
     \<lparr>fe_summary = (case default_summary of Some s \<Rightarrow> s | None \<Rightarrow> ''The contract returned an unknown error''),
      fe_suggestion = ''Run again with `--verbose` and inspect the log file for the full reason'',
      fe_docs = [''docs/contract-specs.md''], fe_technical = technical_chain_or err ''contract error''\<rparr>"

primrec code_arms :: "error_domain \<Rightarrow> (u32 \<times> report_arm) list" where
  "code_arms EdRegistrar = registrar_code_arms"
| "code_arms EdRegistry = registry_code_arms"
| "code_arms EdResolver = resolver_code_arms"
| "code_arms EdSubdomain = subdomain_code_arms"
| "code_arms EdBridge = bridge_code_arms"
| "code_arms EdAuction = auction_code_arms"
| "code_arms EdNft = nft_code_arms"
| "code_arms EdGeneral = []"

definition contract_error_for_domain ::
    "error_domain \<Rightarrow> u32 \<Rightarrow> error_context \<Rightarrow> cli_error option \<Rightarrow> string option \<Rightarrow> friendly_error" where
  "contract_error_for_domain domain code ctx err default_summary =
     (case map_of (code_arms domain) code of
        Some arm \<Rightarrow> arm_report arm ctx err
      | None \<Rightarrow> unknown_contract_error ctx err default_summary)"

end
