(* ===== verification/Std_Path.thy ===== *)
theory Std_Path
  imports Cli_Errors
begin

text \<open>
  \<open>std::path::Path\<close> on Unix, as the commands use it: the components of a path without the empty ones and the dots between separators, its
  last component, its extension and its parent. A leading dot is a component of its own. \<open>path_prefix\<close> is what stands before the
  first ordinary component: the root, a leading dot, or nothing.
\<close>

section \<open>Suffixes\<close>

definition strip_suffix :: "string \<Rightarrow> string \<Rightarrow> string option" where
  "strip_suffix suffix s =
     (if length suffix \<le> length s \<and> drop (length s - length suffix) s = suffix then Some (take (length s - length suffix) s) else None)"

lemma strip_suffix_append [simp]: "strip_suffix suffix (s @ suffix) = Some s"
  by (simp add: strip_suffix_def)

lemma strip_suffix_shorter: "strip_suffix suffix s = Some s' \<Longrightarrow> s = s' @ suffix"
  unfolding strip_suffix_def by (metis append_take_drop_id option.distinct(1) option.inject)

text \<open>\<open>str::trim_end_matches\<close> with a text.\<close>

function trim_end_matches :: "string \<Rightarrow> string \<Rightarrow> string" where
  "trim_end_matches suffix s =
     (if suffix = [] then s else case strip_suffix suffix s of Some s' \<Rightarrow> trim_end_matches suffix s' | None \<Rightarrow> s)"
  by auto
termination by (relation "measure (\<lambda>(suffix, s). length s)") (auto dest: strip_suffix_shorter)

declare trim_end_matches.simps [simp del]

section \<open>Paths\<close>

definition path_prefix :: "string \<Rightarrow> string" where
  "path_prefix path =
     (if take 1 path = ''/'' then ''/'' else if path = ''.'' \<or> take 2 path = ''./'' then ''.'' else [])"

definition trim_components :: "string list \<Rightarrow> string list" where
  "trim_components cs = rev (dropWhile (\<lambda>c. c = [] \<or> c = ''.'') (rev cs))"

definition path_body :: "string \<Rightarrow> string list" where
  "path_body path = trim_components (split_on CHR ''/'' (drop (length (path_prefix path)) path))"

definition path_file_name :: "string \<Rightarrow> string option" where
  "path_file_name path =
     (if path_body path = [] \<or> last (path_body path) = ''..'' then None else Some (last (path_body path)))"

definition path_parent :: "string \<Rightarrow> string option" where
  "path_parent path =
     (if path_body path \<noteq> [] then Some (path_prefix path @ join ''/'' (trim_components (butlast (path_body path))))
      else if path_prefix path = ''.'' then Some [] else None)"

definition path_extension :: "string \<Rightarrow> string option" where
  "path_extension path =
     (case path_file_name path of
        None \<Rightarrow> None
      | Some name \<Rightarrow>
          (case rposition CHR ''.'' name of
             None \<Rightarrow> None | Some i \<Rightarrow> if i = 0 then None else Some (drop (i + 1) name)))"

definition path_join :: "string \<Rightarrow> string \<Rightarrow> string" where
  "path_join base rel = (if base = [] \<or> last base = CHR ''/'' then base @ rel else base @ ''/'' @ rel)"

text \<open>The last component of a path that ends with it.\<close>

lemma split_on_append: "split_on c (xs @ c # ys) = split_on c xs @ split_on c ys"
proof (induction xs)
  case (Cons x xs)
  then show ?case by (cases "split_on c xs") auto
qed simp

lemma last_split_on: "c \<notin> set name \<Longrightarrow> last (split_on c (xs @ c # name)) = name"
  by (simp add: split_on_append split_on_single)

lemma path_file_name_last:
  assumes "CHR ''/'' \<notin> set name" and "name \<notin> {[], ''.'', ''..''}"
  shows "path_file_name (dir @ CHR ''/'' # name) = Some name"
proof -
  let ?path = "dir @ CHR ''/'' # name"
  have ends: "\<exists>cs. split_on CHR ''/'' (drop (length (path_prefix ?path)) ?path) = cs @ [name]"
  proof (cases dir)
    case Nil
    then show ?thesis using split_on_single [OF assms(1)] by (simp add: path_prefix_def)
  next
    case (Cons a dir')
    have "drop (length (path_prefix ?path)) ?path = drop (length (path_prefix ?path)) dir @ CHR ''/'' # name"
      using Cons by (auto simp: path_prefix_def)
    then show ?thesis using split_on_append [of "CHR ''/''" "drop (length (path_prefix ?path)) dir" name] split_on_single [OF assms(1)] by auto
  qed
  then obtain cs where "split_on CHR ''/'' (drop (length (path_prefix ?path)) ?path) = cs @ [name]" by blast
  then have "path_body ?path = cs @ [name]" using assms(2) by (auto simp: path_body_def trim_components_def)
  then show ?thesis using assms(2) by (simp add: path_file_name_def)
qed

end
