(* ===== verification/Sdk_Backend.thy ===== *)
theory Sdk_Backend
  imports Sdk_Ingestion Sdk_Retry Std_Path
begin

text \<open>
  The implementations of the two traits of the ingestion (\<open>packages/xlm-ns-sdk/src/ingestion.rs\<close>): the captive core process that Tokio runs
  (\<open>TokioCaptiveCoreBackend\<close>) and the ledgers of the RPC service. \<open>process_host\<close> is the operating system and Tokio: directories, processes
  (a process is its number), streams (a stream is a number; \<open>ph_read\<close> is \<open>read_exact\<close>), connections, and \<open>timeout\<close>, which gives the
  result of what it runs or cuts it off. \<open>rpc_ledgers\<close> is the RPC service with the XDR codec. \<open>tokio_feed\<close> puts both in the place of
  the parameter \<open>feed\<close> of the supervisor. A loop that need not end is a partial function. The entries of a directory are listed at
  once; the log of the process's standard error is left out.
\<close>

section \<open>The process configuration\<close>

record process_config = core_config +
  pc_binary_path :: string
  pc_working_dir :: string

text \<open>\<open>temp\<close> is the temporary directory of the system.\<close>

definition process_config_default :: "string \<Rightarrow> process_config" where
  "process_config_default temp =
     (let dir = path_join temp ''xlm-ns-captive-core'' in
      \<lparr>cc_network_passphrase = ''Test SDF Network ; September 2015'', cc_history_archive_urls = [],
       cc_buckets_dir = path_join dir ''buckets'', cc_state_archive_dir = path_join temp ''xlm-ns-captive-core-archive'',
       cc_start_ledger = 1, cc_heartbeat_timeout = from_secs 15, cc_restart_backoff = from_secs 5,
       cc_max_restart_attempts = 3, cc_output_target = Stdout, cc_command_args = [],
       pc_binary_path = ''stellar-core'', pc_working_dir = dir\<rparr>)"

text \<open>\<open>str::replace\<close> of a text that is not empty.\<close>

function replace_text :: "string \<Rightarrow> string \<Rightarrow> string \<Rightarrow> string" where
  "replace_text pat to s =
     (if s = [] \<or> pat = [] then s
      else if take (length pat) s = pat then to @ replace_text pat to (drop (length pat) s)
      else hd s # replace_text pat to (tl s))"
  by auto
termination by (relation "measure (\<lambda>(pat, to, s). length s)") auto

declare replace_text.simps [simp del]

definition base_args :: "process_config \<Rightarrow> string list" where
  "base_args config =
     (if cc_command_args config = [] then
        [''run'', ''--conf'', ''{config}'', ''--start-at-ledger'', ''{start_ledger}'', ''--metadata-output-stream'',
         case cc_output_target config of Stdout \<Rightarrow> ''stdout'' | TcpSocket address \<Rightarrow> address]
      else cc_command_args config)"

definition command_line :: "process_config \<Rightarrow> string \<Rightarrow> u32 \<Rightarrow> string list" where
  "command_line config config_path start_ledger =
     map (\<lambda>arg. replace_text ''{start_ledger}'' (show_nat (unat start_ledger)) (replace_text ''{config}'' config_path arg))
       (base_args config)"

section \<open>The process (TokioCaptiveCoreBackend)\<close>

datatype connect_error = ConnectionRefused string | ConnectFailed string

datatype entry_kind = DirEntry | FileEntry | OtherEntry

record 'w process_host =
  ph_create_dirs :: "string \<Rightarrow> 'w \<Rightarrow> (string + unit) \<times> 'w"
  ph_write :: "string \<Rightarrow> string \<Rightarrow> 'w \<Rightarrow> (string + unit) \<times> 'w"
  ph_exists :: "string \<Rightarrow> 'w \<Rightarrow> bool"
  ph_read_dir :: "string \<Rightarrow> 'w \<Rightarrow> (string + (string + string \<times> (string + entry_kind)) list) \<times> 'w"
  ph_copy :: "string \<Rightarrow> string \<Rightarrow> 'w \<Rightarrow> (string + unit) \<times> 'w"
  ph_spawn :: "string \<Rightarrow> string list \<Rightarrow> string \<Rightarrow> bool \<Rightarrow> 'w \<Rightarrow> (string + nat \<times> nat option) \<times> 'w"
  ph_try_wait :: "nat \<Rightarrow> 'w \<Rightarrow> (string + string option) \<times> 'w"
  ph_kill :: "nat \<Rightarrow> 'w \<Rightarrow> 'w"
  ph_connect :: "string \<Rightarrow> 'w \<Rightarrow> (connect_error + nat) \<times> 'w"
  ph_read :: "nat \<Rightarrow> nat \<Rightarrow> 'w \<Rightarrow> (string + u8 list) \<times> 'w"
  ph_timeout_connect :: "duration \<Rightarrow> ('w \<Rightarrow> ((string + nat) \<times> 'w) option) \<Rightarrow> 'w \<Rightarrow> (string + nat) option \<times> 'w"
  ph_timeout_frame :: "duration \<Rightarrow> ('w \<Rightarrow> (sdk_error + u8 list) \<times> 'w) \<Rightarrow> 'w \<Rightarrow> (sdk_error + u8 list) option \<times> 'w"
  ph_sleep :: "duration \<Rightarrow> 'w \<Rightarrow> 'w"
  ph_unix_millis :: "'w \<Rightarrow> nat \<times> 'w"
  ph_instant :: "'w \<Rightarrow> nat \<times> 'w"
  ph_system_time :: "'w \<Rightarrow> nat \<times> 'w"

record backend =
  be_child :: "nat option"
  be_reader :: "nat option"
  be_config_path :: "string option"

definition backend_new :: backend where
  "backend_new = \<lparr>be_child = None, be_reader = None, be_config_path = None\<rparr>"

definition write_runtime_config ::
    "'w process_host \<Rightarrow> process_config \<Rightarrow> u32 \<Rightarrow> string \<Rightarrow> 'w \<Rightarrow> (sdk_error + string) \<times> 'w" where
  "write_runtime_config ph config start_ledger toml w =
     (case ph_create_dirs ph (pc_working_dir config) w of
        (Inl e, w1) \<Rightarrow> (Inl (Ingestion (''failed to create working dir: '' @ e)), w1)
      | (Inr _, w1) \<Rightarrow>
          (let config_path = path_join (pc_working_dir config)
                 (''stellar-core-'' @ show_nat (unat start_ledger) @ ''.cfg.toml'') in
           case ph_write ph config_path toml w1 of
             (Inl e, w2) \<Rightarrow> (Inl (Ingestion (''failed to write captive core config: '' @ e)), w2)
           | (Inr _, w2) \<Rightarrow> (Inr config_path, w2)))"

partial_function (option) connect_loop :: "'w process_host \<Rightarrow> string \<Rightarrow> 'w \<Rightarrow> ((string + nat) \<times> 'w) option" where
  "connect_loop ph address w =
     (case ph_connect ph address w of
        (Inr stream, w1) \<Rightarrow> Some (Inr stream, w1)
      | (Inl (ConnectFailed e), w1) \<Rightarrow> Some (Inl e, ph_sleep ph (200 * 1000000) w1)
      | (Inl (ConnectionRefused e), w1) \<Rightarrow> connect_loop ph address (ph_sleep ph (200 * 1000000) w1))"

definition attach_reader ::
    "'w process_host \<Rightarrow> process_config \<Rightarrow> nat option \<Rightarrow> 'w \<Rightarrow> (sdk_error + nat) \<times> 'w" where
  "attach_reader ph config child_stdout w =
     (case cc_output_target config of
        Stdout \<Rightarrow>
          (case child_stdout of
             None \<Rightarrow> (Inl (Ingestion ''captive core stdout pipe unavailable''), w)
           | Some stream \<Rightarrow> (Inr stream, w))
      | TcpSocket address \<Rightarrow>
          (case ph_timeout_connect ph (cc_heartbeat_timeout config) (connect_loop ph address) w of
             (None, w1) \<Rightarrow> (Inl (Ingestion (''timed out connecting to captive core metadata socket '' @ address)), w1)
           | (Some (Inl e), w1) \<Rightarrow>
               (Inl (Ingestion (''failed to connect to captive core metadata socket '' @ address @ '': '' @ e)), w1)
           | (Some (Inr stream), w1) \<Rightarrow> (Inr stream, w1)))"

definition backend_is_running :: "'w process_host \<Rightarrow> backend \<Rightarrow> 'w \<Rightarrow> bool \<times> 'w" where
  "backend_is_running ph s w =
     (case be_child s of
        None \<Rightarrow> (False, w)
      | Some child \<Rightarrow> (case ph_try_wait ph child w of (Inr None, w1) \<Rightarrow> (True, w1) | (_, w1) \<Rightarrow> (False, w1)))"

definition backend_stop :: "'w process_host \<Rightarrow> backend \<Rightarrow> 'w \<Rightarrow> (sdk_error + unit) \<times> backend \<times> 'w" where
  "backend_stop ph s w =
     (Inr (), s\<lparr>be_child := None, be_reader := None\<rparr>, case be_child s of Some child \<Rightarrow> ph_kill ph child w | None \<Rightarrow> w)"

definition backend_start ::
    "'w process_host \<Rightarrow> process_config \<Rightarrow> u32 \<Rightarrow> string \<Rightarrow> backend \<Rightarrow> 'w \<Rightarrow> (sdk_error + unit) \<times> backend \<times> 'w" where
  "backend_start ph config start_ledger toml s w =
     (case backend_is_running ph s w of (running, w0) \<Rightarrow>
      (case (if running then snd (backend_stop ph s w0) else (s, w0)) of (s1, w1) \<Rightarrow>
       (case write_runtime_config ph config start_ledger toml w1 of
          (Inl e, w2) \<Rightarrow> (Inl e, s1, w2)
        | (Inr config_path, w2) \<Rightarrow>
            (case ph_spawn ph (pc_binary_path config) (command_line config config_path start_ledger) (pc_working_dir config)
                    (cc_output_target config = Stdout) w2 of
               (Inl e, w3) \<Rightarrow> (Inl (Ingestion (''failed to spawn captive core: '' @ e)), s1, w3)
             | (Inr (child, child_stdout), w3) \<Rightarrow>
                 (case attach_reader ph config child_stdout w3 of
                    (Inl e, w4) \<Rightarrow> (Inl e, s1, w4)
                  | (Inr reader, w4) \<Rightarrow>
                      (Inr (), s1\<lparr>be_config_path := Some config_path, be_reader := Some reader, be_child := Some child\<rparr>, w4))))))"

definition read_frame :: "'w process_host \<Rightarrow> nat \<Rightarrow> 'w \<Rightarrow> (sdk_error + u8 list) \<times> 'w" where
  "read_frame ph stream w =
     (case ph_read ph stream 4 w of
        (Inl e, w1) \<Rightarrow> (Inl (Ingestion (''failed to read XDR frame header: '' @ e)), w1)
      | (Inr header, w1) \<Rightarrow>
          (case ph_read ph stream
                  (unat (from_be_bytes (bytes_get header 0) (bytes_get header 1) (bytes_get header 2) (bytes_get header 3))) w1 of
             (Inl e, w2) \<Rightarrow> (Inl (Ingestion (''failed to read XDR frame payload: '' @ e)), w2)
           | (Inr payload, w2) \<Rightarrow> (Inr payload, w2)))"

definition reader_next_frame :: "'w process_host \<Rightarrow> nat \<Rightarrow> duration \<Rightarrow> 'w \<Rightarrow> (sdk_error + u8 list) \<times> 'w" where
  "reader_next_frame ph stream limit w =
     (case ph_timeout_frame ph limit (read_frame ph stream) w of
        (None, w1) \<Rightarrow>
          (Inl (Ingestion (''captive core heartbeat timed out after '' @ show_nat (as_millis limit) @ '' ms'')), w1)
      | (Some r, w1) \<Rightarrow> (r, w1))"

definition backend_next_frame ::
    "'w process_host \<Rightarrow> duration \<Rightarrow> backend \<Rightarrow> 'w \<Rightarrow> (sdk_error + u8 list) \<times> backend \<times> 'w" where
  "backend_next_frame ph limit s w =
     (let attached = (\<lambda>w1. case be_reader s of
            None \<Rightarrow> (Inl (Ingestion ''captive core stream is not attached''), s, w1)
          | Some stream \<Rightarrow> (case reader_next_frame ph stream limit w1 of (r, w2) \<Rightarrow> (r, s, w2))) in
      case be_child s of
        None \<Rightarrow> attached w
      | Some child \<Rightarrow>
          (case ph_try_wait ph child w of
             (Inl e, w1) \<Rightarrow> (Inl (Ingestion (''failed to inspect captive core: '' @ e)), s, w1)
           | (Inr (Some status), w1) \<Rightarrow>
               (Inl (Ingestion (''captive core exited before next frame: '' @ status)),
                s\<lparr>be_reader := None, be_child := None\<rparr>, w1)
           | (Inr None, w1) \<Rightarrow> attached w1))"

section \<open>Archives\<close>

text \<open>The entries of a directory: a directory is queued, a file copied.\<close>

fun copy_entries ::
    "'w process_host \<Rightarrow> string \<Rightarrow> string \<Rightarrow> (string + string \<times> (string + entry_kind)) list \<Rightarrow> 'w
       \<Rightarrow> (sdk_error + (string \<times> string) list) \<times> 'w" where
  "copy_entries ph src dst [] w = (Inr [], w)"
| "copy_entries ph src dst (Inl e # entries) w = (Inl (Ingestion (''failed to read directory entry: '' @ e)), w)"
| "copy_entries ph src dst (Inr (name, Inl e) # entries) w = (Inl (Ingestion (''failed to inspect entry: '' @ e)), w)"
| "copy_entries ph src dst (Inr (name, Inr DirEntry) # entries) w =
     (case copy_entries ph src dst entries w of
        (Inl e, w1) \<Rightarrow> (Inl e, w1) | (Inr dirs, w1) \<Rightarrow> (Inr ((path_join src name, path_join dst name) # dirs), w1))"
| "copy_entries ph src dst (Inr (name, Inr FileEntry) # entries) w =
     (case ph_copy ph (path_join src name) (path_join dst name) w of
        (Inl e, w1) \<Rightarrow>
          (Inl (Ingestion (''failed to copy '' @ CHR 0x27 # path_join src name @ CHR 0x27 # '' into archive: '' @ e)), w1)
      | (Inr _, w1) \<Rightarrow> copy_entries ph src dst entries w1)"
| "copy_entries ph src dst (Inr (name, Inr OtherEntry) # entries) w = copy_entries ph src dst entries w"

partial_function (option) copy_queue ::
    "'w process_host \<Rightarrow> (string \<times> string) list \<Rightarrow> 'w \<Rightarrow> ((sdk_error + unit) \<times> 'w) option" where
  "copy_queue ph queue w =
     (case queue of
        [] \<Rightarrow> Some (Inr (), w)
      | (src, dst) # rest \<Rightarrow>
          (case ph_create_dirs ph dst w of
             (Inl e, w1) \<Rightarrow> Some (Inl (Ingestion (''failed to create directory: '' @ e)), w1)
           | (Inr _, w1) \<Rightarrow>
               (case ph_read_dir ph src w1 of
                  (Inl e, w2) \<Rightarrow> Some (Inl (Ingestion (''failed to read directory: '' @ e)), w2)
                | (Inr entries, w2) \<Rightarrow>
                    (case copy_entries ph src dst entries w2 of
                       (Inl e, w3) \<Rightarrow> Some (Inl e, w3)
                     | (Inr dirs, w3) \<Rightarrow> copy_queue ph (rest @ dirs) w3))))"

definition copy_directory :: "'w process_host \<Rightarrow> string \<Rightarrow> string \<Rightarrow> 'w \<Rightarrow> ((sdk_error + unit) \<times> 'w) option" where
  "copy_directory ph src dst w =
     (case ph_create_dirs ph dst w of
        (Inl e, w1) \<Rightarrow> Some (Inl (Ingestion (''failed to create archive directory: '' @ e)), w1)
      | (Inr _, w1) \<Rightarrow> copy_queue ph [(src, dst)] w1)"

definition backend_archive_state ::
    "'w process_host \<Rightarrow> process_config \<Rightarrow> string \<Rightarrow> 'w \<Rightarrow> ((sdk_error + string option) \<times> 'w) option" where
  "backend_archive_state ph config archive_root w =
     (if \<not> ph_exists ph (pc_working_dir config) w then Some (Inr None, w)
      else
        (case ph_create_dirs ph archive_root w of
           (Inl e, w1) \<Rightarrow> Some (Inl (Ingestion (''failed to create archive root: '' @ e)), w1)
         | (Inr _, w1) \<Rightarrow>
             (case ph_unix_millis ph w1 of (millis, w2) \<Rightarrow>
                (let dir = path_join archive_root (''archive-'' @ show_nat millis) in
                 map_option (apfst (map_sum id (\<lambda>_. Some dir))) (copy_directory ph (pc_working_dir config) dir w2)))))"

section \<open>The ledgers of the RPC service\<close>

text \<open>What the code reads of a \<open>Ledger\<close> of the RPC client; \<open>rl_metadata_json\<close> is the decoded \<open>metadataJson\<close>.\<close>

record 'p rpc_ledger =
  rl_sequence :: u32
  rl_metadata_xdr :: string
  rl_metadata_json :: "'p option"

record ('p, 'w) rpc_host =
  rh_client_new :: "string \<Rightarrow> string + unit"
  rh_get_ledgers :: "u32 \<Rightarrow> nat \<Rightarrow> string option \<Rightarrow> 'w \<Rightarrow> (string + 'p rpc_ledger list) \<times> 'w"
  rh_from_xdr :: "u8 list \<Rightarrow> string + 'p"
  rh_from_xdr_base64 :: "string \<Rightarrow> string + 'p"
  rh_to_xdr :: "'p \<Rightarrow> string + u8 list"

definition decode_ledger_close_meta_xdr :: "('p, 'w) rpc_host \<Rightarrow> u8 list \<Rightarrow> sdk_error + 'p" where
  "decode_ledger_close_meta_xdr rh frame =
     (case rh_from_xdr rh frame of
        Inl e \<Rightarrow> Inl (Ingestion (''failed to decode LedgerCloseMeta XDR: '' @ e)) | Inr p \<Rightarrow> Inr p)"

record 'p rpc_source =
  rs_xdr_format :: "string option"
  rs_mapper :: "'p rpc_ledger \<Rightarrow> sdk_error + 'p ingested_ledger"

definition rpc_source_new ::
    "('p, 'w) rpc_host \<Rightarrow> string \<Rightarrow> string option \<Rightarrow> ('p rpc_ledger \<Rightarrow> sdk_error + 'p ingested_ledger)
       \<Rightarrow> sdk_error + 'p rpc_source" where
  "rpc_source_new rh rpc_url xdr_format mapper =
     (case rh_client_new rh rpc_url of
        Inl e \<Rightarrow> Inl (Ingestion (''failed to create RPC fallback client: '' @ e))
      | Inr _ \<Rightarrow> Inr \<lparr>rs_xdr_format = xdr_format, rs_mapper = mapper\<rparr>)"

definition rpc_next_from ::
    "('p, 'w) rpc_host \<Rightarrow> 'p rpc_source \<Rightarrow> u32 \<Rightarrow> 'w \<Rightarrow> (sdk_error + 'p ingested_ledger) \<times> 'w" where
  "rpc_next_from rh src start_ledger w =
     (case rh_get_ledgers rh start_ledger 1 (rs_xdr_format src) w of
        (Inl e, w1) \<Rightarrow>
          (Inl (Ingestion (''failed to fetch ledger '' @ show_nat (unat start_ledger) @ '' from RPC fallback: '' @ e)), w1)
      | (Inr [], w1) \<Rightarrow>
          (Inl (Ingestion (''RPC fallback returned no ledgers starting at '' @ show_nat (unat start_ledger))), w1)
      | (Inr (ledger # _), w1) \<Rightarrow> (rs_mapper src ledger, w1))"

definition close_meta_mapper :: "('p, 'w) rpc_host \<Rightarrow> 'p rpc_ledger \<Rightarrow> sdk_error + 'p ingested_ledger" where
  "close_meta_mapper rh ledger =
     (let number = show_nat (unat (rl_sequence ledger));
          ingested = (\<lambda>metadata raw. \<lparr>il_payload = metadata, il_raw_xdr = raw, il_sequence = Some (rl_sequence ledger),
            il_source = Remote\<rparr>)
      in (case rl_metadata_json ledger of
            Some metadata \<Rightarrow>
              (case rh_to_xdr rh metadata of
                 Inl e \<Rightarrow> Inl (Ingestion (''failed to serialize RPC metadata for ledger '' @ number @ '': '' @ e))
               | Inr raw \<Rightarrow> Inr (ingested metadata raw))
          | None \<Rightarrow>
              (case rh_from_xdr_base64 rh (rl_metadata_xdr ledger) of
                 Inl e \<Rightarrow>
                   Inl (Ingestion (''failed to decode RPC fallback metadata XDR for ledger '' @ number @ '': '' @ e))
               | Inr metadata \<Rightarrow>
                   (case rh_to_xdr rh metadata of
                      Inl e \<Rightarrow>
                        Inl (Ingestion (''failed to re-encode RPC fallback metadata for ledger '' @ number @ '': '' @ e))
                    | Inr raw \<Rightarrow> Inr (ingested metadata raw)))))"

definition close_meta_source_new :: "('p, 'w) rpc_host \<Rightarrow> string \<Rightarrow> sdk_error + 'p rpc_source" where
  "close_meta_source_new rh rpc_url = rpc_source_new rh rpc_url (Some ''json'') (close_meta_mapper rh)"

section \<open>The sources of the supervisor\<close>

record supervisor_status =
  st_active_source :: ingestion_source
  st_last_processed :: "u32 option"
  st_restart_failures :: u32
  st_fallback_reason :: "string option"
  st_last_archive :: "string option"
  st_last_heartbeat :: "nat option"

definition ingestor_status :: "ingestor \<Rightarrow> supervisor_status" where
  "ingestor_status s =
     \<lparr>st_active_source = ig_source s, st_last_processed = ig_last_processed s, st_restart_failures = ig_failures s,
      st_fallback_reason = ig_fallback_reason s, st_last_archive = ig_last_archive s, st_last_heartbeat = ig_last_heartbeat s\<rparr>"

text \<open>
  The backend and the RPC source as the two traits, on a world that holds the backend. A copy of the working directory that
  does not end has no value in the supervisor's model, which takes it for a failed archive.
\<close>

definition tokio_feed ::
    "'w process_host \<Rightarrow> ('p, 'w) rpc_host \<Rightarrow> process_config \<Rightarrow> 'p rpc_source \<Rightarrow> ('p \<Rightarrow> u32 option) \<Rightarrow> (sdk_error \<Rightarrow> string)
       \<Rightarrow> ('p, backend \<times> 'w) feed" where
  "tokio_feed ph rh config src seq_of shown =
     \<lparr>feed_start = (\<lambda>n toml (s, w). backend_start ph config n toml s w),
      feed_next_frame = (\<lambda>d (s, w). backend_next_frame ph d s w),
      feed_archive_state = (\<lambda>root (s, w). case backend_archive_state ph config root w of
         Some (r, w1) \<Rightarrow> (r, s, w1) | None \<Rightarrow> (Inl (Ingestion ''archive does not end''), s, w)),
      feed_stop = (\<lambda>(s, w). backend_stop ph s w),
      feed_is_running = (\<lambda>(s, w). case backend_is_running ph s w of (b, w1) \<Rightarrow> (b, s, w1)),
      feed_next_from = (\<lambda>n (s, w). case rpc_next_from rh src n w of (r, w1) \<Rightarrow> (r, s, w1)),
      feed_decoder = decode_ledger_close_meta_xdr rh,
      feed_sequence = seq_of,
      feed_now = (\<lambda>(s, w). case ph_instant ph w of (t, w1) \<Rightarrow> (t, s, w1)),
      feed_system_time = (\<lambda>(s, w). case ph_system_time ph w of (t, w1) \<Rightarrow> (t, s, w1)),
      feed_sleep = (\<lambda>d (s, w). (s, ph_sleep ph d w)),
      feed_show = shown\<rparr>"

end
