(* ===== verification/Sdk_Backend_Properties.thy ===== *)
theory Sdk_Backend_Properties
  imports Sdk_Backend Sdk_Ingestion_Properties "HOL-Library.Multiset"
begin

text \<open>
  The process backend and the RPC source behind the supervisor: the command line, the frames, the ends of a process, how many
  processes run at a time, where an archive ends, and when the RPC source keeps the promise that the supervisor relies on.
\<close>

section \<open>The command line and the frames\<close>

lemma replace_text_none:
  "(\<And>xs ys. s \<noteq> xs @ pat @ ys) \<Longrightarrow> replace_text pat to s = s"
proof (induction pat to s rule: replace_text.induct)
  case (1 pat to s)
  have no: "take (length pat) s \<noteq> pat"
  proof
    assume "take (length pat) s = pat"
    then have "s = [] @ pat @ drop (length pat) s" by (metis append.left_neutral append_take_drop_id)
    with 1(3) show False by blast
  qed
  show ?case
  proof (cases "s = [] \<or> pat = []")
    case True
    then show ?thesis by (subst replace_text.simps) simp
  next
    case False
    have "tl s \<noteq> xs @ pat @ ys" for xs ys
      using 1(3) [of "hd s # xs" ys] False by (metis append_Cons list.collapse)
    with 1(2) False no have "replace_text pat to (tl s) = tl s" by blast
    with False no show ?thesis by (subst replace_text.simps) simp
  qed
qed

text \<open>A frame read through the host is the frame of the stream, when the host reads a list of bytes.\<close>

definition reads_stream :: "'w process_host \<Rightarrow> nat \<Rightarrow> string \<Rightarrow> ('w \<Rightarrow> u8 list) \<Rightarrow> bool" where
  "reads_stream ph stream eof left \<longleftrightarrow>
     (\<forall>n w. case read_exact n (left w) of
        None \<Rightarrow> fst (ph_read ph stream n w) = Inl eof
      | Some (got, rest) \<Rightarrow> fst (ph_read ph stream n w) = Inr got \<and> left (snd (ph_read ph stream n w)) = rest)"

lemma reads_streamD:
  assumes "reads_stream ph stream eof left"
  shows "read_exact n (left w) = None \<Longrightarrow> fst (ph_read ph stream n w) = Inl eof"
    and "read_exact n (left w) = Some (got, rest) \<Longrightarrow>
      fst (ph_read ph stream n w) = Inr got \<and> left (snd (ph_read ph stream n w)) = rest"
  using spec [OF spec [OF assms [unfolded reads_stream_def], of n], of w] by simp_all

lemma read_frame_stream:
  assumes "reads_stream ph stream eof left"
  shows "case read_length_prefixed_frame eof (left w) of
      Inl e \<Rightarrow> fst (read_frame ph stream w) = Inl e
    | Inr (payload, rest) \<Rightarrow> fst (read_frame ph stream w) = Inr payload \<and> left (snd (read_frame ph stream w)) = rest"
proof (cases "read_exact 4 (left w)")
  case None
  note reads_streamD(1) [OF assms this]
  then show ?thesis using None
    by (auto simp: read_frame_def read_length_prefixed_frame_def split: prod.split sum.split)
next
  case (Some hr)
  obtain header rest where hr: "hr = (header, rest)" by force
  obtain w1 where one: "ph_read ph stream 4 w = (Inr header, w1)" "left w1 = rest"
    using reads_streamD(2) [OF assms Some [unfolded hr]] by (metis prod.collapse)
  define n where "n = unat (from_be_bytes (bytes_get header 0) (bytes_get header 1) (bytes_get header 2) (bytes_get header 3))"
  show ?thesis
  proof (cases "read_exact n rest")
    case None
    obtain r w2 where two: "ph_read ph stream n w1 = (r, w2)" by force
    have "r = Inl eof" using reads_streamD(1) [OF assms, of n w1] None one(2) two by simp
    then show ?thesis
      using Some hr one None two by (simp add: read_frame_def read_length_prefixed_frame_def n_def)
  next
    case (Some pr)
    obtain payload rest' where pr: "pr = (payload, rest')" by force
    obtain r w2 where two: "ph_read ph stream n w1 = (r, w2)" by force
    have "r = Inr payload" "left w2 = rest'"
      using reads_streamD(2) [OF assms, of n w1 payload rest'] Some pr one(2) two by simp_all
    then show ?thesis
      using \<open>read_exact 4 (left w) = Some hr\<close> hr one Some pr two
      by (simp add: read_frame_def read_length_prefixed_frame_def n_def)
  qed
qed

section \<open>The life of a process\<close>

text \<open>A start that fails leaves the backend without a process, although one may have been spawned.\<close>

lemma failed_start_forgets:
  assumes "backend_start ph config n toml backend_new w = (Inl e, s', w')"
  shows "s' = backend_new \<and> backend_stop ph s' w' = (Inr (), backend_new, w')"
  using assms
  by (auto simp: backend_start_def backend_is_running_def backend_new_def backend_stop_def split: sum.splits prod.splits)

text \<open>A process that has exited is forgotten with its stream; the next call reports that.\<close>

lemma exited_process_forgotten:
  assumes "be_child s = Some child" and "ph_try_wait ph child w = (Inr (Some status), w1)"
  shows "backend_next_frame ph d s w =
      (Inl (Ingestion (''captive core exited before next frame: '' @ status)), s\<lparr>be_reader := None, be_child := None\<rparr>, w1)"
    and "fst (backend_next_frame ph d (s\<lparr>be_reader := None, be_child := None\<rparr>) w1)
      = Inl (Ingestion ''captive core stream is not attached'')"
  using assms by (simp_all add: backend_next_frame_def Let_def)

section \<open>Where an archive ends\<close>

text \<open>The directories that a directory adds to the queue are entries of it.\<close>

lemma copy_entries_dirs:
  "copy_entries ph src dst entries w = (Inr dirs, w') \<Longrightarrow> (a, b) \<in> set dirs \<Longrightarrow>
     \<exists>name. a = path_join src name \<and> Inr (name, Inr DirEntry) \<in> set entries"
  by (induction ph src dst entries w arbitrary: dirs w' rule: copy_entries.induct)
     (fastforce split: prod.splits sum.splits)+

text \<open>
  When the depth of a directory is bounded, with every subdirectory listed in it less deep, the copy ends. (A destination
  inside the source is a tree without such a bound.)
\<close>

definition bounded_dirs :: "'w process_host \<Rightarrow> (string \<Rightarrow> nat) \<Rightarrow> bool" where
  "bounded_dirs ph depth \<longleftrightarrow>
     (\<forall>src w entries w' name. ph_read_dir ph src w = (Inr entries, w') \<longrightarrow> Inr (name, Inr DirEntry) \<in> set entries \<longrightarrow>
        depth (path_join src name) < depth src)"

lemma copy_queue_ends:
  assumes "bounded_dirs ph depth"
  shows "copy_queue ph queue w \<noteq> None"
proof (induction "mset (map (depth \<circ> fst) queue)" arbitrary: queue w rule: wf_induct_rule [OF wf_mult [OF wf_less_than]])
  case 1
  have depth: "ph_read_dir ph src w = (Inr entries, w') \<Longrightarrow> Inr (name, Inr DirEntry) \<in> set entries \<Longrightarrow>
    depth (path_join src name) < depth src" for src w entries w' name
    using assms unfolding bounded_dirs_def by blast
  show ?case
  proof (cases queue)
    case Nil
    then show ?thesis by (subst copy_queue.simps) simp
  next
    case (Cons sd rest)
    obtain src dst where sd: "sd = (src, dst)" by force
    obtain a w1 where mk: "ph_create_dirs ph dst w = (a, w1)" by force
    obtain d w2 where ls: "ph_read_dir ph src w1 = (d, w2)" by force
    obtain x w3 where cp: "copy_entries ph src dst (projr d) w2 = (x, w3)" by force
    have go: "copy_queue ph (rest @ dirs) w3 \<noteq> None" if "d = Inr entries" "x = Inr dirs" for entries dirs
    proof (rule 1)
      have "depth (fst y) < depth src" if "y \<in> set dirs" for y
        using copy_entries_dirs [of ph src dst entries w2 dirs w3 "fst y" "snd y"] depth [of src w1 entries w2] cp ls
          \<open>d = Inr entries\<close> \<open>x = Inr dirs\<close> that by auto
      then have "(mset (map (depth \<circ> fst) rest) + mset (map (depth \<circ> fst) dirs), mset (map (depth \<circ> fst) rest) + {#depth src#})
          \<in> mult less_than"
        by (intro one_step_implies_mult) (auto simp: less_than_iff)
      then show "(mset (map (depth \<circ> fst) (rest @ dirs)), mset (map (depth \<circ> fst) queue)) \<in> mult less_than"
        using Cons sd by simp
    qed
    show ?thesis
      by (subst copy_queue.simps, cases a; cases d; cases x)
         (use Cons sd mk ls cp go in \<open>simp_all del: not_None_eq\<close>)
  qed
qed

lemma archive_ends:
  assumes "bounded_dirs ph depth"
  shows "backend_archive_state ph config root w \<noteq> None"
  by (auto simp: copy_queue_ends [OF assms] backend_archive_state_def copy_directory_def Let_def simp del: not_None_eq split: prod.split sum.split)

section \<open>The RPC source\<close>

text \<open>What the mapper gives: the bytes are the encoding of the payload, under the number that the service states.\<close>

lemma close_meta_mapper_exact:
  assumes "close_meta_mapper rh ledger = Inr l"
  shows "il_sequence l = Some (rl_sequence ledger) \<and> rh_to_xdr rh (il_payload l) = Inr (il_raw_xdr l) \<and> il_source l = Remote
    \<and> (rl_metadata_json ledger = Some (il_payload l)
       \<or> rl_metadata_json ledger = None \<and> rh_from_xdr_base64 rh (rl_metadata_xdr ledger) = Inr (il_payload l))"
  using assms by (auto simp: close_meta_mapper_def Let_def split: option.splits sum.splits)

text \<open>A service that begins its answer at the ledger it is asked for keeps the promise the supervisor relies on.\<close>

lemma rpc_source_in_order:
  assumes source: "close_meta_source_new rh url = Inr src"
    and first: "\<And>k fmt w ledger rest w1. rh_get_ledgers rh n k fmt w = (Inr (ledger # rest), w1) \<Longrightarrow> rl_sequence ledger = n"
    and got: "rpc_next_from rh src n w = (Inr l, w')"
  shows "il_sequence l = Some n \<and> rh_to_xdr rh (il_payload l) = Inr (il_raw_xdr l)"
proof -
  have src: "rs_mapper src = close_meta_mapper rh"
    using source by (auto simp: close_meta_source_new_def rpc_source_new_def split: sum.splits)
  obtain a w1 where ask: "rh_get_ledgers rh n 1 (rs_xdr_format src) w = (a, w1)" by force
  with got src obtain ledger rest where a: "a = Inr (ledger # rest)" and l: "close_meta_mapper rh ledger = Inr l"
    by (cases a) (auto simp: rpc_next_from_def split: list.splits)
  with first ask close_meta_mapper_exact [OF l] show ?thesis by blast
qed

end
