(* ===== verification/Sdk_Processes.thy ===== *)
theory Sdk_Processes
  imports Sdk_Backend_Properties
begin

text \<open>
  The processes behind the supervisor. First two statements about the world, one for the time when the supervisor reads the primary
  source and one for the time when it reads the remote one: if the operations of the sources keep them, and starting and stopping go from
  one to the other, every call of the supervisor keeps them. Then the laws of the operating system, with the set of processes that run,
  under which the backend runs one process at a time; and a system whose metadata socket never opens, on which every
  restart leaves a process behind.
\<close>

section \<open>What the sources keep, the supervisor keeps\<close>

text \<open>\<open>I\<close> holds while the primary source is in use, \<open>J\<close> once it has been stopped.\<close>

definition feed_keeps :: "('p, 'w) feed \<Rightarrow> ('w \<Rightarrow> bool) \<Rightarrow> ('w \<Rightarrow> bool) \<Rightarrow> bool" where
  "feed_keeps fd I J \<longleftrightarrow>
     (\<forall>w. I w \<longrightarrow>
        (\<forall>d. I (snd (feed_next_frame fd d w))) \<and> I (snd (feed_is_running fd w)) \<and> I (snd (feed_system_time fd w))
        \<and> J (snd (feed_stop fd w)))
     \<and> (\<forall>w. J w \<longrightarrow>
        (\<forall>root. J (snd (feed_archive_state fd root w))) \<and> (\<forall>n. J (snd (feed_next_from fd n w)))
        \<and> J (snd (feed_now fd w)) \<and> J (snd (feed_system_time fd w)) \<and> (\<forall>d. J (feed_sleep fd d w))
        \<and> (\<forall>n toml. if isl (fst (feed_start fd n toml w)) then J (snd (feed_start fd n toml w))
             else I (snd (feed_start fd n toml w))))"

lemma feed_keepsD:
  assumes "feed_keeps fd I J"
  shows "I w \<Longrightarrow> feed_next_frame fd d w = (f, w') \<Longrightarrow> I w'" and "I w \<Longrightarrow> feed_is_running fd w = (b, w') \<Longrightarrow> I w'"
    and "I w \<Longrightarrow> feed_system_time fd w = (t, w') \<Longrightarrow> I w'" and "I w \<Longrightarrow> feed_stop fd w = (u, w') \<Longrightarrow> J w'"
    and "J w \<Longrightarrow> feed_archive_state fd root w = (a, w') \<Longrightarrow> J w'" and "J w \<Longrightarrow> feed_next_from fd n w = (l, w') \<Longrightarrow> J w'"
    and "J w \<Longrightarrow> feed_now fd w = (t, w') \<Longrightarrow> J w'" and "J w \<Longrightarrow> feed_system_time fd w = (t, w') \<Longrightarrow> J w'"
    and "J w \<Longrightarrow> J (feed_sleep fd dur w)"
    and "J w \<Longrightarrow> feed_start fd n toml w = (Inl e, w') \<Longrightarrow> J w'" and "J w \<Longrightarrow> feed_start fd n toml w = (Inr v, w') \<Longrightarrow> I w'"
  using assms unfolding feed_keeps_def by (metis sum.disc fst_conv snd_conv)+

text \<open>What holds between two calls depends on the source the supervisor is at.\<close>

definition supervised :: "('w \<Rightarrow> bool) \<Rightarrow> ('w \<Rightarrow> bool) \<Rightarrow> ingestor \<Rightarrow> 'w \<Rightarrow> bool" where
  "supervised I J s w \<longleftrightarrow> (if ig_source s = CaptiveCore then I w else J w)"

lemma not_captive: "ig_source s \<noteq> CaptiveCore \<longleftrightarrow> ig_source s = Remote"
  by (cases "ig_source s") simp_all

lemma restart_loop_keeps:
  assumes keeps: "feed_keeps fd I J" and "J w" and "ig_source s = Remote" and "restart_loop fd config s w = (b, s', w')"
  shows "supervised I J s' w'"
  using assms(2-)
proof (induction "unat (cc_max_restart_attempts config) - unat (ig_failures s)" arbitrary: s w rule: less_induct)
  case less
  note step = restart_loop.simps [of fd config s w]
  show ?case
  proof (cases "ig_failures s < cc_max_restart_attempts config")
    case False
    with step less.prems show ?thesis by (auto simp: supervised_def)
  next
    case True
    let ?s1 = "s\<lparr>ig_failures := ig_failures s + 1\<rparr>"
    let ?w1 = "feed_sleep fd (restart_delay config (ig_failures ?s1)) w"
    have w1: "J ?w1" by (rule feed_keepsD(9) [OF keeps less.prems(1)])
    obtain r w2 where start: "feed_start fd (next_start_ledger config ?s1) (rendered_toml config) ?w1 = (r, w2)" by force
    show ?thesis
    proof (cases r)
      case (Inr u)
      with feed_keepsD(11) [OF keeps w1] start have "I w2" by simp
      with step start True less.prems(3) Inr show ?thesis by (auto simp: Let_def supervised_def)
    next
      case (Inl err)
      let ?s2 = "?s1\<lparr>ig_fallback_reason := Some (feed_show fd err)\<rparr>"
      have w2: "J w2" using feed_keepsD(10) [OF keeps w1] start Inl by simp
      have "restart_loop fd config ?s2 w2 = (b, s', w')" using step start True Inl less.prems(3) by (simp add: Let_def)
      moreover have "unat (cc_max_restart_attempts config) - unat (ig_failures ?s2)
          < unat (cc_max_restart_attempts config) - unat (ig_failures s)"
        using counter_next [OF True] by simp
      ultimately show ?thesis using less.hyps [of ?s2 w2] w2 less.prems(2) by simp
    qed
  qed
qed

text \<open>The loop ends without a started process only at the remote source.\<close>

lemma restart_loop_source:
  "ig_source s = Remote \<Longrightarrow> restart_loop fd config s w = (False, s', w') \<Longrightarrow> ig_source s' = Remote"
proof (induction fd config s w rule: restart_loop.induct)
  case (1 fd config s w)
  note step = restart_loop.simps [of fd config s w]
  show ?case
  proof (cases "ig_failures s < cc_max_restart_attempts config")
    case False
    with step 1(2,3) show ?thesis by auto
  next
    case True
    let ?s1 = "s\<lparr>ig_failures := ig_failures s + 1\<rparr>"
    let ?w1 = "feed_sleep fd (restart_delay config (ig_failures ?s1)) w"
    obtain r w2 where start: "feed_start fd (next_start_ledger config ?s1) (rendered_toml config) ?w1 = (r, w2)" by force
    show ?thesis
    proof (cases r)
      case (Inr u)
      with step start True 1(3) show ?thesis by (simp add: Let_def)
    next
      case (Inl err)
      with step start True 1(3) have
        "restart_loop fd config (?s1\<lparr>ig_fallback_reason := Some (feed_show fd err)\<rparr>) w2 = (False, s', w')"
        by (simp add: Let_def)
      with 1(1) [OF True refl refl start [symmetric] Inl] 1(2) show ?thesis by simp
    qed
  qed
qed

lemma handle_failure_keeps:
  assumes keeps: "feed_keeps fd I J" and "I w" and "handle_primary_failure fd config reason s w = (r, s', w')"
  shows "supervised I J s' w'"
proof -
  obtain u w1 where stop: "feed_stop fd w = (u, w1)" by force
  obtain a w2 where arch: "feed_archive_state fd (cc_state_archive_dir config) w1 = (a, w2)" by force
  have w2: "J w2" using feed_keepsD(5) [OF keeps feed_keepsD(4) [OF keeps assms(2) stop] arch] .
  let ?s = "s\<lparr>ig_fallback_reason := Some reason, ig_source := Remote, ig_last_archive := projr a\<rparr>"
  obtain b s2 w3 where loop: "restart_loop fd config ?s w2 = (b, s2, w3)" by (metis prod.exhaust)
  have w3: "supervised I J s2 w3" by (rule restart_loop_keeps [OF keeps w2 _ loop]) simp
  obtain now w4 where now: "feed_now fd w3 = (now, w4)" by force
  have "supervised I J s2 w4" if "\<not> b"
  proof -
    have "ig_source s2 = Remote" using restart_loop_source [of ?s fd config w2 s2 w3] loop that by simp
    with w3 feed_keepsD(7) [OF keeps _ now] show ?thesis by (simp add: supervised_def)
  qed
  with assms(3) stop arch loop now w2 w3 show ?thesis
    by (cases a; cases b) (auto simp: handle_primary_failure_def supervised_def)
qed

lemma accept_frame_keeps:
  assumes "feed_keeps fd I J" and "I w" and "ig_source s = CaptiveCore" and "accept_frame fd frame s w = (r, s', w')"
  shows "supervised I J s' w'"
  using assms(2-4) feed_keepsD(3) [OF assms(1,2)]
  by (auto simp: accept_frame_def Let_def supervised_def split: sum.splits prod.splits)

lemma read_remote_keeps:
  assumes "feed_keeps fd I J" and "J w" and "ig_source s = Remote" and "read_remote fd config s w = (r, s', w')"
  shows "supervised I J s' w'"
proof -
  obtain l w1 where l: "feed_next_from fd (next_start_ledger config s) w = (l, w1)" by force
  obtain t w2 where t: "feed_system_time fd w1 = (t, w2)" by force
  have "J w1" by (rule feed_keepsD(6) [OF assms(1,2) l])
  moreover from this have "J w2" by (rule feed_keepsD(8) [OF assms(1) _ t])
  ultimately show ?thesis using assms(3,4) l t by (cases l) (auto simp: read_remote_def Let_def supervised_def)
qed

lemma next_ledger_keeps:
  assumes "feed_keeps fd I J" and "supervised I J s w" and ret: "next_ledger fd config s w = Some (out, s', w')"
  shows "supervised I J s' w'"
proof -
  let ?ok = "\<lambda>r. supervised I J (fst (snd r)) (snd (snd r))"
  have "feed_keeps fd I J \<longrightarrow> supervised I J s w \<longrightarrow> ?ok (out, s', w')"
  proof (rule next_ledger.raw_induct [where P = "\<lambda>fd config s w r. feed_keeps fd I J \<longrightarrow> supervised I J s w \<longrightarrow> ?ok r", OF _ ret],
      intro impI, goal_cases)
    case (1 f fd config s w r)
    note IH = 1(1) and body = 1(2) and keeps = 1(3) and w = 1(4)
    have go: "?ok r" if "f fd config t v = Some r" "supervised I J t v" for t v using IH keeps that by blast
    have handled: "?ok r"
      if "(case handle_primary_failure fd config reason s v of
          (Inl err, s', w') \<Rightarrow> Some (Inl err, s', w') | (Inr u, s', w') \<Rightarrow> f fd config s' w') = Some r" "I v" for reason v
    proof -
      obtain y t v' where h: "handle_primary_failure fd config reason s v = (y, t, v')" by (metis prod.exhaust)
      have "supervised I J t v'" by (rule handle_failure_keeps [OF keeps that(2) h])
      then show ?thesis using that h go by (cases y) auto
    qed
    show ?case
    proof (cases "ig_source s = CaptiveCore")
      case True
      with w have up: "I w" by (simp add: supervised_def)
      have accepted: "?ok r" if "accept_frame fd fr s v = r" "I v" for fr v
        using accept_frame_keeps [OF keeps that(2) True] that(1) by (metis prod.collapse)
      obtain b w1 where run: "feed_is_running fd w = (b, w1)" by force
      obtain x w2 where frame: "feed_next_frame fd (cc_heartbeat_timeout config) w1 = (x, w2)" by force
      have w1: "I w1" by (rule feed_keepsD(2) [OF keeps up run])
      have w2: "I w2" by (rule feed_keepsD(1) [OF keeps w1 frame])
      show ?thesis
        using body True run frame handled [OF _ w1] handled [OF _ w2] accepted [OF _ w2]
        by (cases b; cases x) auto
    next
      case False
      with w have down: "J w" by (simp add: supervised_def)
      have remote: "?ok r" if "read_remote fd config t v = r" "J v" "ig_source t = Remote" for t v
        using read_remote_keeps [OF keeps that(2,3)] that(1) by (metis prod.collapse)
      obtain now w1 where clock: "feed_now fd w = (now, w1)" by force
      have w1: "J w1" by (rule feed_keepsD(7) [OF keeps down clock])
      obtain x w2 where start: "feed_start fd (next_start_ledger config s) (rendered_toml config) w1 = (x, w2)" by force
      obtain now' w3 where clock': "feed_now fd w2 = (now', w3)" by force
      show ?thesis
      proof (cases x)
        case (Inl err)
        have "J w3" by (rule feed_keepsD(7) [OF keeps feed_keepsD(10) [OF keeps w1 start [unfolded Inl]] clock'])
        then show ?thesis
          using body False clock start clock' Inl remote [OF _ w1] remote not_captive by (auto split: if_splits)
      next
        case (Inr u)
        have "I w2" by (rule feed_keepsD(11) [OF keeps w1 start [unfolded Inr]])
        then have "supervised I J (s\<lparr>ig_source := CaptiveCore, ig_fallback_reason := None\<rparr>) w2" by (simp add: supervised_def)
        then show ?thesis
          using body False clock start Inr remote [OF _ w1] go not_captive by (auto split: if_splits)
      qed
    qed
  qed
  with assms show ?thesis by simp
qed

lemma ingest_keeps:
  assumes "feed_keeps fd I J" and "supervised I J s w" and "ingest n fd config s w = Some (ls, s', w')"
  shows "supervised I J s' w'"
  using assms(2,3)
proof (induction n arbitrary: s w ls)
  case (Suc n)
  then obtain out s1 w1 ls1 where "next_ledger fd config s w = Some (out, s1, w1)" "ingest n fd config s1 w1 = Some (ls1, s', w')"
    by (auto split: option.splits)
  with Suc next_ledger_keeps [OF assms(1)] show ?case by blast
qed simp

section \<open>One process at a time\<close>

text \<open>
  What the operating system promises, with \<open>live w\<close> the processes that run in \<open>w\<close>: a process runs only after its spawn, a killed or
  exited process does not run, nothing else starts one; a piped process has its pipe. \<open>try_wait\<close> may fail, and says nothing then.
\<close>

definition wait_law :: "'w process_host \<Rightarrow> ('w \<Rightarrow> nat set) \<Rightarrow> bool" where
  "wait_law ph live \<longleftrightarrow>
     (\<forall>c w. case ph_try_wait ph c w of
        (Inr (Some st), w1) \<Rightarrow> live w1 \<subseteq> live w - {c} | (_, w1) \<Rightarrow> live w1 \<subseteq> live w)"

definition spawn_law :: "'w process_host \<Rightarrow> ('w \<Rightarrow> nat set) \<Rightarrow> bool" where
  "spawn_law ph live \<longleftrightarrow>
     (\<forall>b args dir piped w. case ph_spawn ph b args dir piped w of
        (Inl e, w1) \<Rightarrow> live w1 \<subseteq> live w
      | (Inr (c, out), w1) \<Rightarrow> live w1 \<subseteq> insert c (live w) \<and> (piped \<longrightarrow> out \<noteq> None))"

definition process_laws :: "'w process_host \<Rightarrow> ('w \<Rightarrow> nat set) \<Rightarrow> bool" where
  "process_laws ph live \<longleftrightarrow>
     (\<forall>p w. live (snd (ph_create_dirs ph p w)) \<subseteq> live w) \<and> (\<forall>p t w. live (snd (ph_write ph p t w)) \<subseteq> live w)
     \<and> (\<forall>p w. live (snd (ph_read_dir ph p w)) \<subseteq> live w) \<and> (\<forall>p q w. live (snd (ph_copy ph p q w)) \<subseteq> live w)
     \<and> (\<forall>n k w. live (snd (ph_read ph n k w)) \<subseteq> live w) \<and> (\<forall>d w. live (ph_sleep ph d w) \<subseteq> live w)
     \<and> (\<forall>w. live (snd (ph_unix_millis ph w)) \<subseteq> live w) \<and> (\<forall>w. live (snd (ph_instant ph w)) \<subseteq> live w)
     \<and> (\<forall>w. live (snd (ph_system_time ph w)) \<subseteq> live w)
     \<and> (\<forall>f d w. (\<forall>v. live (snd (f v)) \<subseteq> live v) \<longrightarrow> live (snd (ph_timeout_frame ph d f w)) \<subseteq> live w)
     \<and> (\<forall>c w. live (ph_kill ph c w) \<subseteq> live w - {c})
     \<and> wait_law ph live \<and> spawn_law ph live"

definition held :: "('w \<Rightarrow> nat set) \<Rightarrow> backend \<times> 'w \<Rightarrow> bool" where
  "held live sw \<longleftrightarrow> live (snd sw) \<subseteq> set_option (be_child (fst sw))"

text \<open>A stopped backend holds no process, and none runs.\<close>

definition idle :: "('w \<Rightarrow> nat set) \<Rightarrow> backend \<times> 'w \<Rightarrow> bool" where
  "idle live sw \<longleftrightarrow> be_child (fst sw) = None \<and> live (snd sw) = {}"

lemma idle_fewer: "idle live (s, w) \<Longrightarrow> live w' \<subseteq> live w \<Longrightarrow> idle live (s, w')"
  by (auto simp: idle_def)

lemma held_fewer: "held live (s, w) \<Longrightarrow> live w' \<subseteq> live w \<Longrightarrow> held live (s, w')"
  by (auto simp: held_def)

lemma process_lawsD:
  assumes "process_laws ph live"
  shows "ph_create_dirs ph p w = (a, w') \<Longrightarrow> live w' \<subseteq> live w" and "ph_write ph p t w = (a, w') \<Longrightarrow> live w' \<subseteq> live w"
    and "ph_read_dir ph p w = (d, w') \<Longrightarrow> live w' \<subseteq> live w" and "ph_copy ph p q w = (a, w') \<Longrightarrow> live w' \<subseteq> live w"
    and "ph_read ph n k w = (x, w') \<Longrightarrow> live w' \<subseteq> live w" and "live (ph_sleep ph dur w) \<subseteq> live w"
    and "ph_unix_millis ph w = (m, w') \<Longrightarrow> live w' \<subseteq> live w" and "ph_instant ph w = (m, w') \<Longrightarrow> live w' \<subseteq> live w"
    and "ph_system_time ph w = (m, w') \<Longrightarrow> live w' \<subseteq> live w" and "live (ph_kill ph c w) \<subseteq> live w - {c}"
    and "(\<And>v. live (snd (f v)) \<subseteq> live v) \<Longrightarrow> ph_timeout_frame ph dur f w = (y, w') \<Longrightarrow> live w' \<subseteq> live w"
    and "ph_try_wait ph c w = (Inl e, w') \<Longrightarrow> live w' \<subseteq> live w" and "ph_try_wait ph c w = (Inr None, w') \<Longrightarrow> live w' \<subseteq> live w"
    and "ph_try_wait ph c w = (Inr (Some st), w') \<Longrightarrow> live w' \<subseteq> live w - {c}"
    and "ph_spawn ph b args dir piped w = (Inl e, w') \<Longrightarrow> live w' \<subseteq> live w"
    and "ph_spawn ph b args dir piped w = (Inr (c, out), w') \<Longrightarrow> live w' \<subseteq> insert c (live w)"
    and "ph_spawn ph b args dir True w = (Inr (c, out), w') \<Longrightarrow> out \<noteq> None"
proof -
  have wait: "wait_law ph live" and spawn: "spawn_law ph live" using assms by (simp_all add: process_laws_def)
  show "ph_try_wait ph c w = (Inl e, w') \<Longrightarrow> live w' \<subseteq> live w" "ph_try_wait ph c w = (Inr None, w') \<Longrightarrow> live w' \<subseteq> live w"
    "ph_try_wait ph c w = (Inr (Some st), w') \<Longrightarrow> live w' \<subseteq> live w - {c}"
    using spec [OF spec [OF wait [unfolded wait_law_def], of c], of w] by auto
  show "ph_spawn ph b args dir piped w = (Inl e, w') \<Longrightarrow> live w' \<subseteq> live w"
    "ph_spawn ph b args dir piped w = (Inr (c, out), w') \<Longrightarrow> live w' \<subseteq> insert c (live w)"
    "ph_spawn ph b args dir True w = (Inr (c, out), w') \<Longrightarrow> out \<noteq> None"
    using spec [OF spec [OF spec [OF spec [OF spec [OF spawn [unfolded spawn_law_def], of b], of args], of dir], of piped], of w]
      spec [OF spec [OF spec [OF spec [OF spec [OF spawn [unfolded spawn_law_def], of b], of args], of dir], of True], of w]
    by simp_all
qed (use assms [unfolded process_laws_def] in \<open>metis snd_conv\<close>)+

lemma write_runtime_config_idle:
  assumes "process_laws ph live" and "idle live (s, w)" and "write_runtime_config ph config n toml w = (r, w')"
  shows "idle live (s, w')"
  using assms(2,3) process_lawsD(1,2) [OF assms(1)]
  by (fastforce simp: write_runtime_config_def Let_def idle_def split: prod.splits sum.splits)

lemma is_running_held:
  assumes "process_laws ph live" and "held live (s, w)" and "backend_is_running ph s w = (b, w')"
  shows "held live (s, w')"
proof (cases "be_child s")
  case None
  with assms(2,3) show ?thesis by (simp add: backend_is_running_def)
next
  case (Some c)
  obtain x w1 where wait: "ph_try_wait ph c w = (x, w1)" by force
  with Some assms(3) have "w' = w1" by (auto simp: backend_is_running_def split: sum.splits option.splits)
  moreover have "live w1 \<subseteq> live w"
  proof (cases x)
    case (Inl e)
    with wait show ?thesis using process_lawsD(12) [OF assms(1)] by blast
  next
    case (Inr st)
    with wait show ?thesis
      using process_lawsD(13) [OF assms(1), of c w w1] process_lawsD(14) [OF assms(1), of c w _ w1] by (cases st) blast+
  qed
  ultimately show ?thesis using held_fewer [OF assms(2)] by simp
qed

lemma stop_idle:
  assumes "process_laws ph live" and "held live (s, w)" and "backend_stop ph s w = (r, s', w')"
  shows "idle live (s', w')"
proof (cases "be_child s")
  case None
  with assms show ?thesis by (auto simp: backend_stop_def held_def idle_def)
next
  case (Some c)
  then show ?thesis using assms(2,3) process_lawsD(10) [OF assms(1), of c w] by (auto simp: backend_stop_def held_def idle_def)
qed

lemma start_held:
  assumes laws: "process_laws ph live" and piped: "cc_output_target config = Stdout" and idle: "idle live (s, w)"
    and start: "backend_start ph config n toml s w = (r, s', w')"
  shows "if isl r then idle live (s', w') else held live (s', w')"
proof -
  have run: "backend_is_running ph s w = (False, w)" using idle by (simp add: backend_is_running_def idle_def)
  obtain c w2 where conf: "write_runtime_config ph config n toml w = (c, w2)" by force
  have two: "idle live (s, w2)" by (rule write_runtime_config_idle [OF laws idle conf])
  show ?thesis
  proof (cases c)
    case (Inl e)
    with start run conf two show ?thesis by (auto simp: backend_start_def)
  next
    case (Inr path)
    obtain x w3 where spawn: "ph_spawn ph (pc_binary_path config) (command_line config path n) (pc_working_dir config) True w2 = (x, w3)"
      by force
    show ?thesis
    proof (cases x)
      case (Inl e)
      with spawn idle_fewer [OF two] have "idle live (s, w3)" using process_lawsD(15) [OF laws] by blast
      with start run conf Inr Inl spawn piped show ?thesis by (auto simp: backend_start_def)
    next
      case (Inr y)
      obtain child out where y: "y = (child, out)" by force
      with Inr spawn two have "live w3 \<subseteq> {child}" using process_lawsD(16) [OF laws] by (fastforce simp: idle_def)
      moreover obtain stream where "out = Some stream" using process_lawsD(17) [OF laws] spawn Inr y by blast
      ultimately show ?thesis
        using start run conf \<open>c = Inr path\<close> Inr y spawn piped
        by (auto simp: backend_start_def attach_reader_def held_def)
    qed
  qed
qed

lemma read_frame_held:
  assumes "process_laws ph live"
  shows "live (snd (read_frame ph stream w)) \<subseteq> live w"
proof -
  obtain h w1 where one: "ph_read ph stream 4 w = (h, w1)" by force
  obtain x w2 where two: "ph_read ph stream (unat (from_be_bytes (bytes_get (projr h) 0) (bytes_get (projr h) 1)
      (bytes_get (projr h) 2) (bytes_get (projr h) 3))) w1 = (x, w2)" by force
  from process_lawsD(5) [OF assms one] process_lawsD(5) [OF assms two] show ?thesis
    by (cases h; cases x) (use one two in \<open>auto simp: read_frame_def\<close>)
qed

lemma next_frame_held:
  assumes laws: "process_laws ph live" and held: "held live (s, w)" and frame: "backend_next_frame ph d s w = (r, s', w')"
  shows "held live (s', w')"
proof -
  have attached: "held live (s', w')"
    if "(case be_reader s of None \<Rightarrow> (Inl (Ingestion ''captive core stream is not attached''), s, v)
        | Some stream \<Rightarrow> (case reader_next_frame ph stream d v of (r, w2) \<Rightarrow> (r, s, w2))) = (r, s', w')"
      and v: "live v \<subseteq> live w" for v
  proof (cases "be_reader s")
    case None
    with that held_fewer [OF held v] show ?thesis by simp
  next
    case (Some stream)
    obtain y w2 where limit: "ph_timeout_frame ph d (read_frame ph stream) v = (y, w2)" by force
    from process_lawsD(11) [OF laws read_frame_held [OF laws] this] v have "live w2 \<subseteq> live w" by blast
    with that(1) Some limit held_fewer [OF held, of w2] show ?thesis
      by (cases y) (simp_all add: reader_next_frame_def)
  qed
  show ?thesis
  proof (cases "be_child s")
    case None
    with frame have "(case be_reader s of None \<Rightarrow> (Inl (Ingestion ''captive core stream is not attached''), s, w)
        | Some stream \<Rightarrow> (case reader_next_frame ph stream d w of (r, w2) \<Rightarrow> (r, s, w2))) = (r, s', w')"
      by (simp add: backend_next_frame_def Let_def)
    with attached show ?thesis by blast
  next
    case (Some c)
    obtain x w1 where wait: "ph_try_wait ph c w = (x, w1)" by force
    show ?thesis
    proof (cases x)
      case (Inl e)
      with wait have "live w1 \<subseteq> live w" using process_lawsD(12) [OF laws] by blast
      with frame Some Inl wait held_fewer [OF held] show ?thesis by (simp add: backend_next_frame_def Let_def)
    next
      case (Inr st)
      show ?thesis
      proof (cases st)
        case None
        with Inr wait have "live w1 \<subseteq> live w" using process_lawsD(13) [OF laws] by blast
        moreover have "(case be_reader s of None \<Rightarrow> (Inl (Ingestion ''captive core stream is not attached''), s, w1)
            | Some stream \<Rightarrow> (case reader_next_frame ph stream d w1 of (r, w2) \<Rightarrow> (r, s, w2))) = (r, s', w')"
          using frame Some Inr None wait by (simp add: backend_next_frame_def Let_def)
        ultimately show ?thesis using attached by blast
      next
        case (Some st')
        with Inr wait have "live w1 \<subseteq> live w - {c}" using process_lawsD(14) [OF laws] by blast
        with frame Some Inr wait \<open>be_child s = Some c\<close> held show ?thesis
          by (auto simp: backend_next_frame_def Let_def held_def)
      qed
    qed
  qed
qed

lemma copy_entries_held:
  assumes laws: "process_laws ph live" and "copy_entries ph src dst entries w = (r, w')"
  shows "live w' \<subseteq> live w"
  using assms(2)
proof (induction entries arbitrary: w r w')
  case (Cons entry entries)
  obtain x w1 where rest: "copy_entries ph src dst entries w = (x, w1)" by force
  consider (failed) e where "entry = Inl e" | (hidden) n e where "entry = Inr (n, Inl e)"
    | (folder) n where "entry = Inr (n, Inr DirEntry)" | (plain) n where "entry = Inr (n, Inr FileEntry)"
    | (special) n where "entry = Inr (n, Inr OtherEntry)"
    by (rule copy_entries.cases [of "(ph, src, dst, entry # entries, w)"]) auto
  then show ?case
  proof cases
    case plain
    obtain y w2 where copy: "ph_copy ph (path_join src n) (path_join dst n) w = (y, w2)" by force
    have "live w2 \<subseteq> live w" by (rule process_lawsD(4) [OF laws copy])
    with Cons plain copy show ?thesis by (cases y) fastforce+
  next
    case folder
    have "live w1 \<subseteq> live w" by (rule Cons.IH [OF rest])
    with Cons.prems folder rest show ?thesis by (cases x) auto
  qed (use Cons in auto)
qed simp

lemma copy_queue_held:
  assumes laws: "process_laws ph live" and ret: "copy_queue ph queue w = Some (r, w')"
  shows "live w' \<subseteq> live w"
proof -
  have "process_laws ph live \<longrightarrow> live (snd (r, w')) \<subseteq> live w"
  proof (rule copy_queue.raw_induct [where P = "\<lambda>ph queue w r. process_laws ph live \<longrightarrow> live (snd r) \<subseteq> live w", OF _ ret],
      intro impI, goal_cases)
    case (1 f ph queue w r)
    note IH = 1(1) and body = 1(2) and laws = 1(3)
    show ?case
    proof (cases queue)
      case Nil
      with body show ?thesis by auto
    next
      case (Cons sd rest)
      obtain src dst where sd: "sd = (src, dst)" by force
      obtain a w1 where mk: "ph_create_dirs ph dst w = (a, w1)" by force
      obtain d w2 where ls: "ph_read_dir ph src w1 = (d, w2)" by force
      obtain x w3 where cp: "copy_entries ph src dst (projr d) w2 = (x, w3)" by force
      have fewer: "live w1 \<subseteq> live w" "live w2 \<subseteq> live w1" "live w3 \<subseteq> live w2"
        by (rule process_lawsD(1) [OF laws mk] process_lawsD(3) [OF laws ls] copy_entries_held [OF laws cp])+
      have w3: "live w2 \<subseteq> live w" "live w3 \<subseteq> live w" using fewer by blast+
      have go: "live (snd r) \<subseteq> live w" if "f ph q w3 = Some r" for q using IH laws that w3 by blast
      show ?thesis
        by (cases a; cases d; cases x) (use body Cons sd mk ls cp fewer(1) w3 go in auto)
    qed
  qed
  with laws show ?thesis by simp
qed

lemma archive_state_held:
  assumes laws: "process_laws ph live" and ret: "backend_archive_state ph config root w = Some (r, w')"
  shows "live w' \<subseteq> live w"
proof (cases "ph_exists ph (pc_working_dir config) w")
  case True
  obtain a w1 where mk: "ph_create_dirs ph root w = (a, w1)" by force
  obtain m w2 where millis: "ph_unix_millis ph w1 = (m, w2)" by force
  define dir where "dir = path_join root (''archive-'' @ show_nat m)"
  obtain b w3 where mk2: "ph_create_dirs ph dir w2 = (b, w3)" by force
  have fewer: "live w1 \<subseteq> live w" "live w2 \<subseteq> live w1" "live w3 \<subseteq> live w2"
    by (rule process_lawsD(1) [OF laws mk] process_lawsD(7) [OF laws millis] process_lawsD(1) [OF laws mk2])+
  have w2: "live w2 \<subseteq> live w" "live w3 \<subseteq> live w" using fewer by blast+
  show ?thesis
  proof (cases "copy_directory ph (pc_working_dir config) dir w2")
    case None
    with ret True mk millis fewer(1) show ?thesis by (cases a) (simp_all add: backend_archive_state_def Let_def dir_def)
  next
    case (Some y)
    have "live (snd y) \<subseteq> live w"
    proof (cases b)
      case (Inl e)
      with Some mk2 w2 show ?thesis by (auto simp: copy_directory_def)
    next
      case (Inr u)
      with Some mk2 have "copy_queue ph [(pc_working_dir config, dir)] w3 = Some (fst y, snd y)"
        by (simp add: copy_directory_def)
      then show ?thesis using copy_queue_held [OF laws] w2 by blast
    qed
    with Some ret True mk millis fewer(1) show ?thesis
      by (cases a; cases y) (auto simp: backend_archive_state_def Let_def dir_def)
  qed
qed (use ret in \<open>simp add: backend_archive_state_def\<close>)

lemma tokio_feed_keeps:
  assumes laws: "process_laws ph live" and rpc: "\<And>n k fmt w. live (snd (rh_get_ledgers rh n k fmt w)) \<subseteq> live w"
    and piped: "cc_output_target config = Stdout"
  shows "feed_keeps (tokio_feed ph rh config src seq_of shown) (held live) (idle live)"
proof -
  let ?fd = "tokio_feed ph rh config src seq_of shown"
  have rpc': "live (snd (rpc_next_from rh src n w)) \<subseteq> live w" for n w
    using rpc [of n 1 "rs_xdr_format src" w] by (auto simp: rpc_next_from_def split: prod.splits sum.splits list.splits)
  have "held live (snd (feed_next_frame ?fd d (s, w)))" if "held live (s, w)" for d s w
    using next_frame_held [OF laws that] by (simp add: tokio_feed_def) (metis prod.collapse)
  moreover have "held live (snd (feed_is_running ?fd (s, w)))" if "held live (s, w)" for s w
    using is_running_held [OF laws that] by (simp add: tokio_feed_def split: prod.split)
  moreover have "held live (snd (feed_system_time ?fd (s, w)))" if "held live (s, w)" for s w
    using held_fewer [OF that] process_lawsD(9) [OF laws] by (simp add: tokio_feed_def split: prod.split)
  moreover have "idle live (snd (feed_stop ?fd (s, w)))" if "held live (s, w)" for s w
    using stop_idle [OF laws that] by (simp add: tokio_feed_def) (metis prod.collapse)
  moreover have "idle live (snd (feed_archive_state ?fd root (s, w)))" if "idle live (s, w)" for root s w
    using archive_state_held [OF laws, of config root w] idle_fewer [OF that] that
    by (auto simp: tokio_feed_def split: option.split)
  moreover have "idle live (snd (feed_next_from ?fd n (s, w)))" if "idle live (s, w)" for n s w
    using idle_fewer [OF that rpc'] by (simp add: tokio_feed_def split: prod.split) (metis snd_conv)
  moreover have "idle live (snd (feed_now ?fd (s, w)))" "idle live (snd (feed_system_time ?fd (s, w)))"
      "idle live (feed_sleep ?fd d (s, w))" if "idle live (s, w)" for d s w
    using idle_fewer [OF that] process_lawsD(6,8,9) [OF laws] by (simp_all add: tokio_feed_def split: prod.split)
  moreover have "if isl (fst (feed_start ?fd n toml (s, w))) then idle live (snd (feed_start ?fd n toml (s, w)))
      else held live (snd (feed_start ?fd n toml (s, w)))" if "idle live (s, w)" for n toml s w
    using start_held [OF laws piped that] by (simp add: tokio_feed_def) (metis prod.collapse)
  ultimately show ?thesis by (simp add: feed_keeps_def)
qed

text \<open>
  C29: One process at a time: along any number of reads, whatever fails (\<open>try_wait\<close>, the spawn, a read, the archive, the RPC
  service) and however often the supervisor restarts, the only process that can run between two of them is the one the backend holds,
  which its \<open>stop\<close> kills; and while the supervisor is at the remote source, none runs. This assumes that the output
  of the process is piped, that a killed process ends, that a process which \<open>try_wait\<close> reports as exited has ended, that
  nothing but a spawn starts a process and a spawn that fails starts none; and that the backend starts out holding the process that
  runs, if one does, and none when the supervisor is at the remote source.
\<close>

theorem one_core_process:
  assumes "process_laws ph live" and "\<And>n k fmt w. live (snd (rh_get_ledgers rh n k fmt w)) \<subseteq> live w"
    and "cc_output_target config = Stdout" and "live w \<subseteq> set_option (be_child b)" and "ig_source s = Remote \<Longrightarrow> be_child b = None"
    and "ingest n (tokio_feed ph rh config src seq_of shown) supervisor s (b, w) = Some (ls, s', b', w')"
  shows "live w' \<subseteq> set_option (be_child b') \<and> live (snd (snd (backend_stop ph b' w'))) = {}
    \<and> (ig_source s' = Remote \<longrightarrow> live w' = {})"
proof -
  have "supervised (held live) (idle live) s (b, w)"
    using assms(4,5) by (cases "ig_source s") (auto simp: supervised_def held_def idle_def)
  from ingest_keeps [OF tokio_feed_keeps [OF assms(1-3)] this assms(6)] have after: "supervised (held live) (idle live) s' (b', w')" .
  then have held: "held live (b', w')" and remote: "ig_source s' = Remote \<longrightarrow> live w' = {}"
    by (auto simp: supervised_def held_def idle_def split: if_splits)
  obtain r b2 w2 where "backend_stop ph b' w' = (r, b2, w2)" by (metis prod.exhaust)
  with stop_idle [OF assms(1) held this] held remote show ?thesis by (simp add: held_def idle_def)
qed

section \<open>Processes that are left behind\<close>

text \<open>
  A system on which processes start and the metadata socket refuses until the timeout; the world counts the processes that run.
  A process that is stopped leaves the count.
\<close>

definition stuck_host :: "nat process_host" where
  "stuck_host = \<lparr>ph_create_dirs = (\<lambda>p w. (Inr (), w)), ph_write = (\<lambda>p t w. (Inr (), w)), ph_exists = (\<lambda>p w. False),
     ph_read_dir = (\<lambda>p w. (Inr [], w)), ph_copy = (\<lambda>p q w. (Inr (), w)),
     ph_spawn = (\<lambda>b args dir piped w. (Inr (w, if piped then Some w else None), Suc w)),
     ph_try_wait = (\<lambda>c w. (Inr None, w)), ph_kill = (\<lambda>c w. w - 1), ph_connect = (\<lambda>a w. (Inl (ConnectionRefused ''refused''), w)),
     ph_read = (\<lambda>n k w. (Inl ''end'', w)), ph_timeout_connect = (\<lambda>d f w. (None, w)), ph_timeout_frame = (\<lambda>d f w. (None, w)),
     ph_sleep = (\<lambda>d w. w), ph_unix_millis = (\<lambda>w. (0, w)), ph_instant = (\<lambda>w. (0, w)), ph_system_time = (\<lambda>w. (0, w))\<rparr>"

lemma stuck_start:
  assumes "cc_output_target config = TcpSocket address"
  shows "feed_start (tokio_feed stuck_host rh config src seq_of shown) n toml (backend_new, w) =
    (Inl (Ingestion (''timed out connecting to captive core metadata socket '' @ address)), backend_new, Suc w)"
  using assms
  by (simp add: tokio_feed_def backend_start_def backend_is_running_def backend_new_def write_runtime_config_def attach_reader_def
      stuck_host_def Let_def)

lemma stuck_sleep: "feed_sleep (tokio_feed stuck_host rh config src seq_of shown) d sw = sw"
  by (cases sw) (simp add: tokio_feed_def stuck_host_def)

text \<open>
  With a metadata socket that never opens, each restart leaves a process behind: the backend holds none of them, so
  nothing stops them. The supervisor's next retry from the remote source adds another.
\<close>

lemma failed_restarts_leak:
  assumes "cc_output_target config = TcpSocket address"
  shows "\<exists>s'. restart_loop (tokio_feed stuck_host rh config src seq_of shown) supervisor s (backend_new, w) =
      (False, s', backend_new, w + (unat (cc_max_restart_attempts supervisor) - unat (ig_failures s)))"
proof (induction "unat (cc_max_restart_attempts supervisor) - unat (ig_failures s)" arbitrary: s w)
  case 0
  then have "\<not> ig_failures s < cc_max_restart_attempts supervisor" by (simp add: word_less_nat_alt)
  with 0 show ?case by (subst restart_loop.simps) simp
next
  case (Suc k)
  let ?fd = "tokio_feed stuck_host rh config src seq_of shown"
  define err where "err = Ingestion (''timed out connecting to captive core metadata socket '' @ address)"
  let ?s = "s\<lparr>ig_failures := ig_failures s + 1, ig_fallback_reason := Some (feed_show ?fd err)\<rparr>"
  note start = stuck_start [OF assms, folded err_def]
  have more: "ig_failures s < cc_max_restart_attempts supervisor" using Suc.hyps(2) by (simp add: word_less_nat_alt)
  note nxt = counter_next [OF more]
  have "restart_loop ?fd supervisor s (backend_new, w) = restart_loop ?fd supervisor ?s (backend_new, Suc w)"
    by (subst restart_loop.simps) (simp add: more start stuck_sleep Let_def)
  moreover have "\<exists>s'. restart_loop ?fd supervisor ?s (backend_new, Suc w) =
      (False, s', backend_new, Suc w + (unat (cc_max_restart_attempts supervisor) - unat (ig_failures ?s)))"
    by (rule Suc.hyps(1)) (use Suc.hyps(2) nxt in simp)
  moreover have "Suc w + (unat (cc_max_restart_attempts supervisor) - unat (ig_failures ?s))
      = w + (unat (cc_max_restart_attempts supervisor) - unat (ig_failures s))"
    using nxt by simp
  ultimately show ?case by (simp only:)
qed

lemma stuck_host_stop: "backend_stop stuck_host backend_new w = (Inr (), backend_new, w)"
  by (simp add: backend_stop_def backend_new_def)

section \<open>A system that keeps the laws\<close>

text \<open>The world is the set of processes that run; frames are four bytes long, and the RPC service has no ledgers.\<close>

definition core_host :: "nat set process_host" where
  "core_host = \<lparr>ph_create_dirs = (\<lambda>p w. (Inr (), w)), ph_write = (\<lambda>p t w. (Inr (), w)), ph_exists = (\<lambda>p w. False),
     ph_read_dir = (\<lambda>p w. (Inr [], w)), ph_copy = (\<lambda>p q w. (Inr (), w)),
     ph_spawn = (\<lambda>b args dir piped w. (Inr (7, if piped then Some 0 else None), insert 7 w)),
     ph_try_wait = (\<lambda>c w. if c \<in> w then (Inr None, w) else (Inr (Some ''exit status: 1''), w)), ph_kill = (\<lambda>c w. w - {c}),
     ph_connect = (\<lambda>a w. (Inr 0, w)), ph_read = (\<lambda>n k w. (Inr [0, 0, 0, 4], w)), ph_timeout_connect = (\<lambda>d f w. (None, w)),
     ph_timeout_frame = (\<lambda>d f w. case f w of (r, w1) \<Rightarrow> (Some r, w1)),
     ph_sleep = (\<lambda>d w. w), ph_unix_millis = (\<lambda>w. (0, w)), ph_instant = (\<lambda>w. (0, w)), ph_system_time = (\<lambda>w. (0, w))\<rparr>"

text \<open>
  When \<open>try_wait\<close> fails, \<open>is_running\<close> answers no, and a \<open>start\<close> by the caller spawns a second process without a kill: the
  first still runs and nothing holds it. (The supervisor stops the backend before every start of its own.)
\<close>

definition blind_host :: "nat set process_host" where
  "blind_host = core_host\<lparr>ph_try_wait := (\<lambda>c w. (Inl ''interrupted'', w)),
     ph_spawn := (\<lambda>b args dir piped w. (Inr (card w, if piped then Some 0 else None), insert (card w) w))\<rparr>"

lemma blind_start_leaks:
  "\<exists>b'. backend_start blind_host (process_config_default temp) n toml \<lparr>be_child = Some 0, be_reader = Some 0, be_config_path = None\<rparr> {0} =
      (Inr (), b', {0, 1}) \<and> be_child b' = Some 1 \<and> snd (snd (backend_stop blind_host b' {0, 1})) = {0}"
  by (auto simp: backend_start_def backend_is_running_def backend_stop_def write_runtime_config_def attach_reader_def blind_host_def
      core_host_def process_config_default_def Let_def insert_commute)

definition core_rpc :: "(u8 list, nat set) rpc_host" where
  "core_rpc = \<lparr>rh_client_new = (\<lambda>url. Inr ()), rh_get_ledgers = (\<lambda>n k fmt w. (Inr [], w)), rh_from_xdr = Inr,
     rh_from_xdr_base64 = (\<lambda>s. Inr []), rh_to_xdr = Inr\<rparr>"

lemma core_host_laws: "process_laws core_host id"
  by (auto simp: process_laws_def wait_law_def spawn_law_def core_host_def split: prod.split)
     (metis snd_conv subsetD)

definition core_feed :: "(u8 list, backend \<times> nat set) feed" where
  "core_feed = tokio_feed core_host core_rpc (process_config_default ''/tmp'')
     \<lparr>rs_xdr_format = Some ''json'', rs_mapper = close_meta_mapper core_rpc\<rparr>
     (\<lambda>p. Some (decode_target_version p)) (\<lambda>err. ''failed'')"

lemma core_feed_brisk: "brisk core_feed core_sample"
  by (auto simp: brisk_def core_feed_def tokio_feed_def core_host_def core_sample_def from_secs_def)

theorem one_core_process_witness:
  "\<exists>ls s' b' w'. ingest 5 core_feed core_sample (ingestor_new core_sample 0) (backend_new, {}) = Some (ls, s', b', w')
     \<and> w' \<subseteq> set_option (be_child b') \<and> snd (snd (backend_stop core_host b' w')) = {}"
proof -
  obtain ls s' b' w' where run:
    "ingest 5 core_feed core_sample (ingestor_new core_sample 0) (backend_new, {}) = Some (ls, s', b', w')"
    using ingest_returns [OF core_feed_brisk] by (metis option.exhaust prod.exhaust)
  have "id w' \<subseteq> set_option (be_child b') \<and> id (snd (snd (backend_stop core_host b' w'))) = {}
      \<and> (ig_source s' = Remote \<longrightarrow> id w' = {})"
    by (rule one_core_process [OF core_host_laws _ _ _ _ run [unfolded core_feed_def]])
       (simp_all add: core_rpc_def process_config_default_def ingestor_new_def backend_new_def Let_def)
  with run show ?thesis by auto
qed

end
