(* ===== verification/Sdk_Client.thy ===== *)
theory Sdk_Client
  imports Sdk_Retry
begin

text \<open>
  The asynchronous client (\<open>packages/xlm-ns-sdk/src/client.rs\<close>, \<open>network.rs\<close>, and the structures of \<open>types.rs\<close>): quotes, the
  check of the network, submissions and the operations that write. Its answers to most questions are constants in this
  version of the library; these are not modelled.

  \<open>host\<close> holds what is outside: the RPC service (creating a client, the network's passphrase, polling a
  transaction), the sleep, the random numbers, the clock in seconds, and the hasher of the standard
  library (whose algorithm Rust does not specify).
\<close>

section \<open>Structures (types.rs)\<close>

record registration_request =
  rreq_label :: string
  rreq_owner :: string
  rreq_duration_years :: u32
  rreq_signer :: "string option"

record renewal_request =
  nreq_name :: string
  nreq_additional_years :: u32
  nreq_signer :: "string option"

record fee_breakdown =
  fee_base :: u64
  fee_premium :: u64
  fee_network :: u64

definition fee_total :: "fee_breakdown \<Rightarrow> u64" where
  "fee_total b = sat_add (sat_add (fee_base b) (fee_premium b)) (fee_network b)"

record sdk_quote =
  sq_label :: string
  sq_duration_years :: u32
  sq_fee_breakdown :: fee_breakdown
  sq_total_fee :: u64
  sq_fee_currency :: string
  sq_expires_at :: u64
  sq_grace_period_ends_at :: u64
  sq_quoted_at :: u64
  sq_contract_id :: "string option"

datatype submission_status = Simulated | Submitted | Confirmed | Failed

record submission =
  sub_tx_hash :: string
  sub_status :: submission_status
  sub_ledger :: "u32 option"
  sub_submitted_at :: u64
  sub_contract_id :: "string option"
  sub_network_passphrase :: "string option"
  sub_signer :: "string option"

record registration_receipt =
  rrec_name :: string
  rrec_owner :: string
  rrec_duration_years :: u32
  rrec_expires_at :: u64
  rrec_fee_paid :: u64
  rrec_submission :: submission

record renewal_receipt =
  nrec_name :: string
  nrec_additional_years :: u32
  nrec_new_expiry :: u64
  nrec_fee_paid :: u64
  nrec_submission :: submission

record simulation_result =
  sim_fee_estimate :: u64
  sim_auth_addresses :: "string list"
  sim_error :: "string option"
  sim_success :: bool

record sdk_client =
  rpc_url :: string
  network_passphrase :: "string option"
  registry_contract_id :: "string option"
  registrar_contract_id :: "string option"
  resolver_contract_id :: "string option"
  auction_contract_id :: "string option"
  bridge_contract_id :: "string option"
  subdomain_contract_id :: "string option"
  nft_contract_id :: "string option"
  config :: client_config

record 'w host =
  h_new_client :: "string \<Rightarrow> string option"
  h_get_network :: "'w \<Rightarrow> (string + string) \<times> 'w"
  h_get_transaction :: "u8 list \<Rightarrow> duration \<Rightarrow> 'w \<Rightarrow> (string + (u32 option \<times> string)) \<times> 'w"
  h_sleep :: "duration \<Rightarrow> 'w \<Rightarrow> 'w"
  h_draw :: "u64 \<Rightarrow> 'w \<Rightarrow> u64 \<times> 'w"
  h_now :: "'w \<Rightarrow> u64 \<times> 'w"
  h_hash :: "string \<Rightarrow> string \<Rightarrow> u64"

section \<open>Constants and checks\<close>

definition MOCK_REFERENCE_TIMESTAMP :: u64 where "MOCK_REFERENCE_TIMESTAMP = 1682200000"
definition SECONDS_PER_YEAR :: u64 where "SECONDS_PER_YEAR = 31536000"
definition BASE_FEE_PER_YEAR :: u64 where "BASE_FEE_PER_YEAR = 10"
definition NETWORK_FEE :: u64 where "NETWORK_FEE = 1"

definition sdk_price_for_label_length :: "nat \<Rightarrow> u64" where
  "sdk_price_for_label_length n = (if n \<le> 3 then 1000000000 else if n \<le> 6 then 250000000 else 100000000)"

fun display_common_error :: "common_error \<Rightarrow> string" where
  "display_common_error NameTooShort = ''name is too short''"
| "display_common_error NameTooLong = ''name is too long''"
| "display_common_error InvalidCharacters = ''name contains invalid characters''"
| "display_common_error InvalidLabelBoundary = ''name label cannot start or end with a hyphen''"
| "display_common_error UnsupportedTld = ''tld is not supported''"
| "display_common_error MissingTld = ''name must include a supported tld''"
| "display_common_error InvalidName = ''name is malformed''"
| "display_common_error EmptyOwner = ''owner must not be empty''"
| "display_common_error InvalidRegistrationPeriod = ''registration period is outside the supported range''"
| "display_common_error EmptyChainName = ''chain name must not be empty''"
| "display_common_error EmptyContractId = ''contract ID must not be empty''"
| "display_common_error InvalidContractId = ''contract ID is not a valid Stellar contract address''"
| "display_common_error EmptyAccountAddress = ''account address must not be empty''"
| "display_common_error InvalidAccountAddress = ''account address is not a valid Stellar account address''"

definition require_label :: "string \<Rightarrow> string \<Rightarrow> sdk_error + unit" where
  "require_label value field = (if is_blank value then Inl (InvalidRequest (field @ '' must not be empty'')) else Inr ())"

definition require_contract_id :: "string option \<Rightarrow> string \<Rightarrow> sdk_error + string" where
  "require_contract_id contract_id field =
     (case contract_id of
        None \<Rightarrow> Inl (InvalidRequest (field @ '' not configured''))
      | Some i \<Rightarrow>
          (case validate_contract_id i of
             Inl err \<Rightarrow> Inl (InvalidRequest (field @ '' is invalid: '' @ display_common_error err))
           | Inr _ \<Rightarrow> Inr i))"

definition validate_account :: "string \<Rightarrow> string \<Rightarrow> sdk_error + unit" where
  "validate_account value field =
     (case validate_account_address value of
        Inl err \<Rightarrow> Inl (InvalidRequest (field @ '' is invalid: '' @ display_common_error err))
      | Inr _ \<Rightarrow> Inr ())"

section \<open>Steps\<close>

text \<open>The \<open>?\<close> operator: a failure ends the operation, in the world it happened in.\<close>

definition try_step :: "(sdk_error, 'a) result \<times> 'w \<Rightarrow> ('a \<Rightarrow> 'w \<Rightarrow> (sdk_error, 'b) result \<times> 'w) \<Rightarrow> (sdk_error, 'b) result \<times> 'w" where
  "try_step r f = (case r of (Inl e, w) \<Rightarrow> (Inl e, w) | (Inr a, w) \<Rightarrow> f a w)"

definition try_check :: "sdk_error + 'a \<Rightarrow> ('a \<Rightarrow> 'w \<Rightarrow> (sdk_error, 'b) result \<times> 'w) \<Rightarrow> 'w \<Rightarrow> (sdk_error, 'b) result \<times> 'w" where
  "try_check r f w = (case r of Inl e \<Rightarrow> (Inl (Err e), w) | Inr a \<Rightarrow> f a w)"

definition retrying :: "'w host \<Rightarrow> sdk_client \<Rightarrow> ('w \<Rightarrow> (sdk_error + 'a) \<times> 'w) \<Rightarrow> 'w \<Rightarrow> (sdk_error, 'a) result \<times> 'w" where
  "retrying h c f w = execute_with_retry (retry (config c)) (h_new_client h (rpc_url c)) (h_draw h) (h_sleep h) f w"

section \<open>The check of the network (network.rs)\<close>

definition verify_network_passphrase :: "string \<Rightarrow> 'w host \<Rightarrow> 'w \<Rightarrow> (sdk_error + unit) \<times> 'w" where
  "verify_network_passphrase configured h w =
     (case h_get_network h w of
        (Inl e, w') \<Rightarrow> (Inl (Transport (''failed to get network: '' @ e)), w')
      | (Inr rpc_reported, w') \<Rightarrow>
          ((if configured \<noteq> rpc_reported then Inl (NetworkPassphraseMismatch configured rpc_reported) else Inr ()), w'))"

definition verify_transaction_passphrase :: "string \<Rightarrow> string \<Rightarrow> sdk_error + unit" where
  "verify_transaction_passphrase configured in_transaction =
     (if configured \<noteq> in_transaction then Inl (TransactionPassphraseMismatch configured in_transaction) else Inr ())"

definition verify_write_network :: "'w host \<Rightarrow> sdk_client \<Rightarrow> 'w \<Rightarrow> (sdk_error, unit) result \<times> 'w" where
  "verify_write_network h c w =
     (case network_passphrase c of
        None \<Rightarrow> (Inl (Err (InvalidRequest ''network passphrase not configured'')), w)
      | Some configured \<Rightarrow>
          (case retrying h c (verify_network_passphrase configured h) w of
             (Inr _, w') \<Rightarrow> (Inr (), w')
           | (Inl Trap, w') \<Rightarrow> (Inl Trap, w')
           | (Inl (Err err), w') \<Rightarrow>
               ((case err of NetworkPassphraseMismatch a b \<Rightarrow> Inl (Err (NetworkPassphraseMismatch a b)) | _ \<Rightarrow> Inr ()), w')))"

section \<open>Submissions\<close>

fun hex_pairs :: "string \<Rightarrow> u8 list" where
  "hex_pairs (a # b # cs) = of_nat (16 * hex_value a + hex_value b) # hex_pairs cs"
| "hex_pairs cs = []"

definition parse_submission_hash :: "string \<Rightarrow> u8 list option" where
  "parse_submission_hash hash =
     (let trimmed = trim hash in
      if length trimmed \<noteq> 64 \<or> \<not> list_all is_ascii_hexdigit trimmed then None else Some (hex_pairs trimmed))"

definition generated_submission_hash :: "'w host \<Rightarrow> string \<Rightarrow> string \<Rightarrow> string" where
  "generated_submission_hash h operation payload =
     (let seed = h_hash h operation payload;
          words = [seed, word_rotl 13 seed, word_rotl 27 seed, xor seed 0xa5a5a5a5a5a5a5a5]
      in concat (map (\<lambda>word. show_hex 16 (unat word)) words))"

definition maybe_hydrate_submission :: "'w host \<Rightarrow> sdk_client \<Rightarrow> submission \<Rightarrow> 'w \<Rightarrow> (sdk_error, submission) result \<times> 'w" where
  "maybe_hydrate_submission h c submission w =
     (if \<not> poll_final_status (config c) then (Inr submission, w)
      else
        (case parse_submission_hash (sub_tx_hash submission) of
           None \<Rightarrow> (Inr submission, w)
         | Some tx_hash \<Rightarrow>
             (case retrying h c (\<lambda>w. case h_get_transaction h tx_hash (transaction_poll_timeout (config c)) w of
                      (Inl e, w') \<Rightarrow> (Inl (Transport e), w') | (Inr response, w') \<Rightarrow> (Inr response, w')) w of
                (Inr (ledger, status), w') \<Rightarrow>
                  (Inr (submission\<lparr>sub_ledger := ledger,
                     sub_status := (if status = ''SUCCESS'' then Confirmed else if status = ''FAILED'' then Failed
                       else sub_status submission)\<rparr>), w')
              | (Inl Trap, w') \<Rightarrow> (Inl Trap, w')
              | (Inl (Err err), w') \<Rightarrow> (Inr submission, w'))))"

definition new_submission ::
    "'w host \<Rightarrow> sdk_client \<Rightarrow> string \<Rightarrow> string \<Rightarrow> string option \<Rightarrow> string option \<Rightarrow> submission" where
  "new_submission h c operation payload contract signer =
     \<lparr>sub_tx_hash = generated_submission_hash h operation payload, sub_status = Submitted, sub_ledger = None,
      sub_submitted_at = MOCK_REFERENCE_TIMESTAMP, sub_contract_id = contract,
      sub_network_passphrase = network_passphrase c, sub_signer = signer\<rparr>"

definition simulate_and_submit ::
    "'w host \<Rightarrow> sdk_client \<Rightarrow> string option \<Rightarrow> string \<Rightarrow> string option \<Rightarrow> bool \<Rightarrow> 'w \<Rightarrow> (sdk_error, submission) result \<times> 'w" where
  "simulate_and_submit h c contract_id function signer dry_run w =
     try_check (require_contract_id contract_id ''contract ID'') (\<lambda>i.
       maybe_hydrate_submission h c
         \<lparr>sub_tx_hash = generated_submission_hash h function i, sub_status = (if dry_run then Simulated else Submitted),
          sub_ledger = None, sub_submitted_at = 0, sub_contract_id = Some i,
          sub_network_passphrase = network_passphrase c, sub_signer = signer\<rparr>) w"

text \<open>The context of the operations that do not poll: an RPC client and the passphrase, or an empty text.\<close>

definition rpc_context :: "'w host \<Rightarrow> sdk_client \<Rightarrow> sdk_error + string" where
  "rpc_context h c =
     (case h_new_client h (rpc_url c) of
        Some e \<Rightarrow> Inl (InvalidRequest (''failed to create RPC client: '' @ e))
      | None \<Rightarrow> Inr (case network_passphrase c of None \<Rightarrow> [] | Some p \<Rightarrow> p))"

definition make_submission :: "'w host \<Rightarrow> string \<Rightarrow> string option \<Rightarrow> string option \<Rightarrow> string option \<Rightarrow> submission" where
  "make_submission h operation contract_id signer passphrase =
     \<lparr>sub_tx_hash = generated_submission_hash h operation (case contract_id of None \<Rightarrow> [] | Some i \<Rightarrow> i),
      sub_status = Submitted, sub_ledger = None, sub_submitted_at = MOCK_REFERENCE_TIMESTAMP,
      sub_contract_id = contract_id, sub_network_passphrase = passphrase, sub_signer = signer\<rparr>"

section \<open>Quotes\<close>

definition positive_years :: "u32 \<Rightarrow> string \<Rightarrow> sdk_error + unit" where
  "positive_years years field = (if years = 0 then Inl (InvalidRequest (field @ '' must be greater than zero'')) else Inr ())"

definition sdk_quote_registration :: "'w host \<Rightarrow> sdk_client \<Rightarrow> string \<Rightarrow> u32 \<Rightarrow> 'w \<Rightarrow> (sdk_error, sdk_quote) result \<times> 'w" where
  "sdk_quote_registration h c label duration_years =
     try_check (require_label label ''label'') (\<lambda>_.
     try_check (positive_years duration_years ''duration_years'') (\<lambda>_.
     try_check (require_contract_id (registrar_contract_id c) ''registrar contract ID'') (\<lambda>registrar_id w.
       (case h_now h w of (now, w') \<Rightarrow>
         let years = (ucast duration_years :: u64);
             annual_fee = sdk_price_for_label_length (length (trim label));
             breakdown = \<lparr>fee_base = sat_mul annual_fee years, fee_premium = 0, fee_network = 0\<rparr>;
             expires_at = sat_add now (sat_mul years YEAR_SECONDS)
         in (Inr \<lparr>sq_label = label, sq_duration_years = duration_years, sq_fee_breakdown = breakdown,
                  sq_total_fee = fee_total breakdown, sq_fee_currency = ''XLM'', sq_expires_at = expires_at,
                  sq_grace_period_ends_at = sat_add expires_at GRACE_PERIOD_SECONDS, sq_quoted_at = now,
                  sq_contract_id = Some registrar_id\<rparr>, w')))))"

definition simulate_register :: "'w host \<Rightarrow> sdk_client \<Rightarrow> registration_request \<Rightarrow> 'w \<Rightarrow> (sdk_error, simulation_result) result \<times> 'w" where
  "simulate_register h c request =
     try_check (require_label (rreq_label request) ''label'') (\<lambda>_.
     try_check (require_label (rreq_owner request) ''owner'') (\<lambda>_.
     try_check (positive_years (rreq_duration_years request) ''duration_years'') (\<lambda>_.
     try_check (require_contract_id (registrar_contract_id c) ''registrar contract ID'') (\<lambda>_ w.
     try_step (sdk_quote_registration h c (rreq_label request) (rreq_duration_years request) w) (\<lambda>quote w'.
       (Inr \<lparr>sim_fee_estimate = sq_total_fee quote, sim_auth_addresses = [rreq_owner request], sim_error = None,
             sim_success = True\<rparr>, w'))))))"

definition renewal_fee :: "u32 \<Rightarrow> u64" where
  "renewal_fee additional_years = sat_add (sat_mul BASE_FEE_PER_YEAR (ucast additional_years)) NETWORK_FEE"

definition simulate_renew :: "sdk_client \<Rightarrow> renewal_request \<Rightarrow> 'w \<Rightarrow> (sdk_error, simulation_result) result \<times> 'w" where
  "simulate_renew c request =
     try_check (require_label (nreq_name request) ''name'') (\<lambda>_.
     try_check (positive_years (nreq_additional_years request) ''additional_years'') (\<lambda>_.
     try_check (require_contract_id (registrar_contract_id c) ''registrar contract ID'') (\<lambda>_ w.
       (Inr \<lparr>sim_fee_estimate = renewal_fee (nreq_additional_years request), sim_auth_addresses = [], sim_error = None,
             sim_success = True\<rparr>, w))))"

section \<open>Operations that write\<close>

text \<open>\<open>checked h c f\<close>: the network is verified, then \<open>f\<close> runs.\<close>

definition checked :: "'w host \<Rightarrow> sdk_client \<Rightarrow> ('w \<Rightarrow> (sdk_error, 'a) result \<times> 'w) \<Rightarrow> 'w \<Rightarrow> (sdk_error, 'a) result \<times> 'w" where
  "checked h c f w = try_step (verify_write_network h c w) (\<lambda>_. f)"

definition sdk_set_text_record ::
    "'w host \<Rightarrow> sdk_client \<Rightarrow> string \<Rightarrow> string \<Rightarrow> string option \<Rightarrow> string option \<Rightarrow> 'w \<Rightarrow> (sdk_error, submission) result \<times> 'w" where
  "sdk_set_text_record h c name key value signer =
     checked h c (
     try_check (require_label name ''name'') (\<lambda>_.
     try_check (require_label key ''key'') (\<lambda>_.
     try_check (case value of None \<Rightarrow> Inr () | Some v \<Rightarrow> require_label v ''value'') (\<lambda>_.
       maybe_hydrate_submission h c
         (new_submission h c ''set_text_record'' name (resolver_contract_id c) signer)))))"

definition sdk_set_text_records ::
    "'w host \<Rightarrow> sdk_client \<Rightarrow> string \<Rightarrow> string option \<Rightarrow> 'w \<Rightarrow> (sdk_error, submission) result \<times> 'w" where
  "sdk_set_text_records h c name signer =
     try_check (require_label name ''name'') (\<lambda>_.
       maybe_hydrate_submission h c
         (new_submission h c ''set_text_records'' name (resolver_contract_id c) signer))"

definition sdk_register ::
    "'w host \<Rightarrow> sdk_client \<Rightarrow> registration_request \<Rightarrow> 'w \<Rightarrow> (sdk_error, registration_receipt) result \<times> 'w" where
  "sdk_register h c request =
     try_check (require_label (rreq_label request) ''label'') (\<lambda>_.
     try_check (require_label (rreq_owner request) ''owner'') (\<lambda>_.
     try_check (positive_years (rreq_duration_years request) ''duration_years'') (\<lambda>_.
     try_check (require_contract_id (registrar_contract_id c) ''registrar contract ID'') (\<lambda>_.
     checked h c (\<lambda>w1.
     try_step (sdk_quote_registration h c (rreq_label request) (rreq_duration_years request) w1) (\<lambda>quote w2.
     try_step (maybe_hydrate_submission h c
         (new_submission h c ''register'' (rreq_label request) (registrar_contract_id c) (rreq_signer request)) w2) (\<lambda>sub w3.
       (Inr \<lparr>rrec_name = rreq_label request @ ''.xlm'', rrec_owner = rreq_owner request,
             rrec_duration_years = rreq_duration_years request, rrec_expires_at = sq_expires_at quote,
             rrec_fee_paid = sq_total_fee quote, rrec_submission = sub\<rparr>, w3))))))))"

definition sdk_renew ::
    "'w host \<Rightarrow> sdk_client \<Rightarrow> renewal_request \<Rightarrow> 'w \<Rightarrow> (sdk_error, renewal_receipt) result \<times> 'w" where
  "sdk_renew h c request =
     try_check (require_label (nreq_name request) ''name'') (\<lambda>_.
     try_check (positive_years (nreq_additional_years request) ''additional_years'') (\<lambda>_.
     try_check (require_contract_id (registrar_contract_id c) ''registrar contract ID'') (\<lambda>_.
     checked h c (\<lambda>w1.
     try_step (maybe_hydrate_submission h c
         (new_submission h c ''renew'' (nreq_name request) (registrar_contract_id c) (nreq_signer request)) w1) (\<lambda>sub w2.
       (Inr \<lparr>nrec_name = nreq_name request, nrec_additional_years = nreq_additional_years request,
             nrec_new_expiry = MOCK_REFERENCE_TIMESTAMP + ucast (nreq_additional_years request) * SECONDS_PER_YEAR,
             nrec_fee_paid = renewal_fee (nreq_additional_years request), nrec_submission = sub\<rparr>, w2))))))"

definition sdk_transfer ::
    "'w host \<Rightarrow> sdk_client \<Rightarrow> string \<Rightarrow> string \<Rightarrow> string option \<Rightarrow> 'w \<Rightarrow> (sdk_error, submission) result \<times> 'w" where
  "sdk_transfer h c name new_owner signer =
     checked h c (
     try_check (require_label name ''name'') (\<lambda>_.
     try_check (require_label new_owner ''new_owner'') (\<lambda>_.
     try_check (validate_account new_owner ''new_owner'') (\<lambda>_.
       maybe_hydrate_submission h c (new_submission h c ''transfer'' name (registry_contract_id c) signer)))))"

text \<open>A simulated and submitted call, whose submission is polled once more by the operation.\<close>

definition submit_twice ::
    "'w host \<Rightarrow> sdk_client \<Rightarrow> string option \<Rightarrow> string \<Rightarrow> string \<Rightarrow> bool \<Rightarrow> 'w \<Rightarrow> (sdk_error, submission) result \<times> 'w" where
  "submit_twice h c contract function signer dry_run w =
     try_step (simulate_and_submit h c contract function (Some signer) dry_run w) (maybe_hydrate_submission h c)"

definition sdk_register_parent ::
    "'w host \<Rightarrow> sdk_client \<Rightarrow> string \<Rightarrow> string \<Rightarrow> bool \<Rightarrow> 'w \<Rightarrow> (sdk_error, submission) result \<times> 'w" where
  "sdk_register_parent h c parent owner dry_run =
     checked h c (
     try_check (require_label parent ''parent'') (\<lambda>_.
     try_check (validate_account owner ''owner'') (\<lambda>_.
       submit_twice h c (subdomain_contract_id c) ''register_parent'' owner dry_run)))"

definition sdk_add_controller ::
    "'w host \<Rightarrow> sdk_client \<Rightarrow> string \<Rightarrow> string \<Rightarrow> bool \<Rightarrow> 'w \<Rightarrow> (sdk_error, submission) result \<times> 'w" where
  "sdk_add_controller h c parent controller dry_run =
     checked h c (
     try_check (require_label parent ''parent'') (\<lambda>_.
     try_check (validate_account controller ''controller'') (\<lambda>_.
       submit_twice h c (subdomain_contract_id c) ''add_controller'' controller dry_run)))"

definition sdk_create_subdomain ::
    "'w host \<Rightarrow> sdk_client \<Rightarrow> string \<Rightarrow> string \<Rightarrow> string \<Rightarrow> bool \<Rightarrow> 'w \<Rightarrow> (sdk_error, submission) result \<times> 'w" where
  "sdk_create_subdomain h c label parent owner dry_run =
     checked h c (
     try_check (require_label label ''label'') (\<lambda>_.
     try_check (require_label parent ''parent'') (\<lambda>_.
     try_check (validate_account owner ''owner'') (\<lambda>_.
       submit_twice h c (subdomain_contract_id c) ''create_subdomain'' owner dry_run))))"

definition sdk_transfer_subdomain ::
    "'w host \<Rightarrow> sdk_client \<Rightarrow> string \<Rightarrow> string \<Rightarrow> bool \<Rightarrow> 'w \<Rightarrow> (sdk_error, submission) result \<times> 'w" where
  "sdk_transfer_subdomain h c fqdn new_owner dry_run =
     checked h c (
     try_check (require_label fqdn ''fqdn'') (\<lambda>_.
     try_check (validate_account new_owner ''new_owner'') (\<lambda>_.
       submit_twice h c (subdomain_contract_id c) ''transfer_subdomain'' new_owner dry_run)))"

definition mint_nft ::
    "'w host \<Rightarrow> sdk_client \<Rightarrow> string \<Rightarrow> string \<Rightarrow> bool \<Rightarrow> 'w \<Rightarrow> (sdk_error, submission) result \<times> 'w" where
  "mint_nft h c token_id owner dry_run =
     try_check (require_label token_id ''token_id'') (\<lambda>_.
     try_check (validate_account owner ''owner'') (\<lambda>_.
       submit_twice h c (nft_contract_id c) ''mint'' owner dry_run))"

definition approve_nft ::
    "'w host \<Rightarrow> sdk_client \<Rightarrow> string \<Rightarrow> string \<Rightarrow> bool \<Rightarrow> 'w \<Rightarrow> (sdk_error, submission) result \<times> 'w" where
  "approve_nft h c token_id operator dry_run =
     try_check (require_label token_id ''token_id'') (\<lambda>_.
     try_check (validate_account operator ''operator'') (\<lambda>_.
       submit_twice h c (nft_contract_id c) ''approve'' operator dry_run))"

definition transfer_nft ::
    "'w host \<Rightarrow> sdk_client \<Rightarrow> string \<Rightarrow> string \<Rightarrow> bool \<Rightarrow> 'w \<Rightarrow> (sdk_error, submission) result \<times> 'w" where
  "transfer_nft h c token_id new_owner dry_run =
     try_check (require_label token_id ''token_id'') (\<lambda>_.
     try_check (validate_account new_owner ''new_owner'') (\<lambda>_.
       submit_twice h c (nft_contract_id c) ''transfer'' new_owner dry_run))"

definition positive :: "u64 \<Rightarrow> string \<Rightarrow> sdk_error + unit" where
  "positive n field = (if n = 0 then Inl (InvalidRequest (field @ '' must be greater than zero'')) else Inr ())"

definition sdk_create_auction ::
    "'w host \<Rightarrow> sdk_client \<Rightarrow> string \<Rightarrow> string \<Rightarrow> string \<Rightarrow> u64 \<Rightarrow> u64 \<Rightarrow> string option
       \<Rightarrow> 'w \<Rightarrow> (sdk_error, submission) result \<times> 'w" where
  "sdk_create_auction h c name asset treasury reserve_price duration_seconds signer =
     checked h c (
     try_check (require_label name ''name'') (\<lambda>_.
     try_check (positive reserve_price ''reserve_price'') (\<lambda>_.
     try_check (positive duration_seconds ''duration_seconds'') (\<lambda>_.
     try_check (require_label asset ''asset'') (\<lambda>_.
     try_check (validate_account treasury ''treasury'') (\<lambda>_.
     try_check (rpc_context h c) (\<lambda>passphrase w.
       (Inr (make_submission h ''create_auction'' (auction_contract_id c) signer (Some passphrase)), w))))))))"

definition sdk_bid_auction ::
    "'w host \<Rightarrow> sdk_client \<Rightarrow> string \<Rightarrow> u64 \<Rightarrow> string option \<Rightarrow> 'w \<Rightarrow> (sdk_error, submission) result \<times> 'w" where
  "sdk_bid_auction h c name amount signer =
     checked h c (
     try_check (require_label name ''name'') (\<lambda>_.
     try_check (positive amount ''bid amount'') (\<lambda>_.
     try_check (rpc_context h c) (\<lambda>passphrase w.
       (Inr (make_submission h ''bid_auction'' (auction_contract_id c) signer (Some passphrase)), w)))))"

definition sdk_settle_auction ::
    "'w host \<Rightarrow> sdk_client \<Rightarrow> string \<Rightarrow> string option \<Rightarrow> 'w \<Rightarrow> (sdk_error, submission) result \<times> 'w" where
  "sdk_settle_auction h c name signer =
     checked h c (
     try_check (require_label name ''name'') (\<lambda>_.
     try_check (rpc_context h c) (\<lambda>passphrase w.
       (Inr (make_submission h ''settle_auction'' (auction_contract_id c) signer (Some passphrase)), w))))"

definition sdk_load_reserved_manifest ::
    "'w host \<Rightarrow> sdk_client \<Rightarrow> string list \<Rightarrow> string option \<Rightarrow> 'w \<Rightarrow> (sdk_error, submission) result \<times> 'w" where
  "sdk_load_reserved_manifest h c labels signer =
     try_check (if labels = [] then Inl (InvalidRequest ''labels must not be empty'') else Inr ()) (\<lambda>_.
     try_check (case registrar_contract_id c of
         None \<Rightarrow> Inl (InvalidRequest ''registrar contract ID not configured'') | Some i \<Rightarrow> Inr i) (\<lambda>registrar_id.
     try_check (rpc_context h c) (\<lambda>passphrase w.
       (Inr (make_submission h ''load_reserved_manifest'' (Some registrar_id) signer (Some passphrase)), w))))"

definition sdk_register_chain :: "'w host \<Rightarrow> sdk_client \<Rightarrow> string \<Rightarrow> 'w \<Rightarrow> (sdk_error, unit) result \<times> 'w" where
  "sdk_register_chain h c chain =
     checked h c (
     try_check (require_label chain ''chain'') (\<lambda>_.
     try_check (rpc_context h c) (\<lambda>_.
     try_check (if bridge_contract_id c = None then Inl (InvalidRequest ''bridge contract ID not configured'') else Inr ()) (\<lambda>_.
     try_check (if chain \<in> {''base'', ''ethereum'', ''arbitrum''} then Inr ()
         else Inl (InvalidRequest (''unsupported chain: '' @ chain))) (\<lambda>_ w. (Inr (), w))))))"

end
