(* ===== verification/Sdk_Client_Properties.thy ===== *)
theory Sdk_Client_Properties
  imports Sdk_Client
begin

text \<open>
  Properties of the client: its quotes against those of the registrar contract, transaction hashes, and the check of the
  network before an operation that writes.
\<close>

section \<open>Texts without white space\<close>

definition graphic :: "char \<Rightarrow> bool" where
  "graphic b \<longleftrightarrow> 33 \<le> (of_char b :: nat) \<and> (of_char b :: nat) < 127"

lemma graphic_not_blank: "graphic b \<Longrightarrow> \<not> is_blank (b # bs)"
  by (simp add: graphic_def Let_def)

lemma trim_graphic:
  assumes "list_all graphic s"
  shows "trim s = s"
proof -
  have "trim_end s = s" using assms by (induction s) (simp_all add: graphic_not_blank del: is_blank.simps)
  moreover have "trim_start s = s"
  proof (cases s)
    case (Cons b bs)
    with assms graphic_not_blank [of b] have "\<not> is_blank (take k s)" if "0 < k" for k
      using that by (cases k) (simp_all del: is_blank.simps)
    then show ?thesis by (subst trim_start.simps) simp
  qed (simp add: trim_start.simps)
  ultimately show ?thesis by (simp add: trim_def)
qed

lemma label_graphic: "label_byte b \<Longrightarrow> graphic b"
  by (auto simp: graphic_def label_byte_def is_ascii_lowercase_def is_ascii_digit_def byte_in_def)

lemma hexdigit_graphic: "is_ascii_hexdigit b \<Longrightarrow> graphic b"
  by (auto simp: graphic_def is_ascii_hexdigit_def is_ascii_digit_def byte_in_def)

lemma trim_valid_label: "valid_label l \<Longrightarrow> trim l = l"
  by (rule trim_graphic) (auto simp: valid_label_def list_all_iff label_graphic)

lemma valid_label_not_blank: "valid_label l \<Longrightarrow> \<not> is_blank l"
  by (cases l) (auto simp: valid_label_def intro: label_graphic dest!: graphic_not_blank [OF label_graphic] simp del: is_blank.simps)

section \<open>Steps\<close>

lemma try_check_Inr: "fst (try_check r f w) = Inr x \<longleftrightarrow> (\<exists>a. r = Inr a \<and> fst (f a w) = Inr x)"
  by (cases r) (auto simp: try_check_def)

lemma require_label_iff: "require_label v f = Inr () \<longleftrightarrow> \<not> is_blank v"
  by (simp add: require_label_def)

lemma require_contract_iff: "require_contract_id i f = Inr x \<longleftrightarrow> i = Some x \<and> validate_contract_id x = Inr ()"
  by (auto simp: require_contract_id_def split: option.split sum.split)

lemma positive_years_iff: "positive_years n f = Inr () \<longleftrightarrow> n \<noteq> 0"
  by (simp add: positive_years_def)

section \<open>Quotes\<close>

lemma sdk_quote_iff:
  "fst (sdk_quote_registration h c label years w) = Inr q \<longleftrightarrow> \<not> is_blank label \<and> years \<noteq> 0
     \<and> (\<exists>i. registrar_contract_id c = Some i \<and> validate_contract_id i = Inr ()
        \<and> q = (let now = fst (h_now h w); annual = sdk_price_for_label_length (length (trim label));
              b = \<lparr>fee_base = sat_mul annual (ucast years), fee_premium = 0, fee_network = 0\<rparr>;
              x = sat_add now (sat_mul (ucast years) YEAR_SECONDS)
            in \<lparr>sq_label = label, sq_duration_years = years, sq_fee_breakdown = b, sq_total_fee = fee_total b,
               sq_fee_currency = ''XLM'', sq_expires_at = x, sq_grace_period_ends_at = sat_add x GRACE_PERIOD_SECONDS,
               sq_quoted_at = now, sq_contract_id = Some i\<rparr>))"
  by (cases "h_now h w")
     (auto simp: sdk_quote_registration_def try_check_Inr require_label_iff require_contract_iff positive_years_iff Let_def)

lemma sat_mul_commute: "sat_mul a b = sat_mul b a"
  by (simp add: sat_mul_def mult.commute)

lemma sat_add_0 [simp]: "sat_add a 0 = a"
  using unsigned_less [of a] by (simp add: sat_add_def)

text \<open>
  C30: The client's quote is the registrar's: for a label the contract accepts, a period of one to ten years and a contract with
  the default grace period, the fee, the expiry and the end of the grace period are those of \<open>quote_registration\<close> at the same
  time. But the client quotes for every label that is not blank and every period but zero.
\<close>

theorem quote_parity:
  "(valid_label label \<and> 1 \<le> years \<and> years \<le> 10 \<and> get_grace_period_seconds s = GRACE_PERIOD_SECONDS
      \<and> fst (sdk_quote_registration h c label years w) = Inr q \<longrightarrow>
     (\<exists>cq. quote_registration s label (ucast years) (sq_quoted_at q) = Inr cq \<and> sq_total_fee q = rq_fee_stroops cq
        \<and> sq_expires_at q = rq_expiry_unix cq \<and> sq_grace_period_ends_at q = rq_grace_period_ends_at cq))
   \<and> ((\<exists>q. fst (sdk_quote_registration h c label years w) = Inr q) \<longleftrightarrow> \<not> is_blank label \<and> years \<noteq> 0
        \<and> (\<exists>i. registrar_contract_id c = Some i \<and> validate_contract_id i = Inr ()))"
proof (intro conjI impI)
  assume asm: "valid_label label \<and> 1 \<le> years \<and> years \<le> 10 \<and> get_grace_period_seconds s = GRACE_PERIOD_SECONDS
      \<and> fst (sdk_quote_registration h c label years w) = Inr q"
  have "unat years \<le> 10" "1 \<le> unat years" using asm by (simp_all add: word_le_nat_alt)
  then have years: "1 \<le> (ucast years :: u64)" "(ucast years :: u64) \<le> 10"
    by (simp_all add: word_le_nat_alt unsigned_ucast_eq take_bit_eq_mod)
  have price: "sdk_price_for_label_length n = price_for_label_length n" for n
    by (simp add: sdk_price_for_label_length_def price_for_label_length_def)
  have "quote_registration s label (ucast years) (sq_quoted_at q) = Inr (build_quote s label (ucast years) (sq_quoted_at q))"
    using asm years validate_label_soroban_iff [of label]
    by (auto simp: quote_registration_def validate_registration_years_soroban_def MIN_REGISTRATION_YEARS_def
        MAX_REGISTRATION_YEARS_def split: sum.split)
  then show "\<exists>cq. quote_registration s label (ucast years) (sq_quoted_at q) = Inr cq \<and> sq_total_fee q = rq_fee_stroops cq
        \<and> sq_expires_at q = rq_expiry_unix cq \<and> sq_grace_period_ends_at q = rq_grace_period_ends_at cq"
    using asm
    by (auto simp: sdk_quote_iff trim_valid_label price build_quote_def fee_total_def expiry_from_now_def Let_def
        sat_mul_commute [of YEAR_SECONDS] compute_grace_period_ends_at_def grace_period_ends_at_with_duration_def)
qed (auto simp: sdk_quote_iff)

text \<open>A client for the testnet, and hosts by what they say about the network.\<close>

definition some_contract :: string where
  "some_contract = CHR ''C'' # replicate 55 CHR ''A''"

definition some_account :: string where
  "some_account = CHR ''G'' # replicate 55 CHR ''A''"

lemma alphanumeric_graphic: "is_ascii_alphanumeric b \<Longrightarrow> graphic b"
  by (auto simp: graphic_def is_ascii_alphanumeric_def is_ascii_lowercase_def is_ascii_uppercase_def is_ascii_digit_def byte_in_def)

lemma some_ids: "validate_contract_id some_contract = Inr ()" "validate_account_address some_account = Inr ()"
proof -
  have "list_all is_ascii_alphanumeric some_contract" "list_all is_ascii_alphanumeric some_account"
    by (simp_all add: some_contract_def some_account_def list_all_iff is_ascii_alphanumeric_def is_ascii_uppercase_def byte_in_def)
  moreover from this have "trim some_contract = some_contract" "trim some_account = some_account"
    by (auto intro!: trim_graphic alphanumeric_graphic simp: list_all_iff)
  ultimately show "validate_contract_id some_contract = Inr ()" "validate_account_address some_account = Inr ()"
    by (simp_all add: validate_contract_id_def validate_account_address_def Let_def some_contract_def some_account_def)
qed

definition some_client :: sdk_client where
  "some_client = \<lparr>rpc_url = ''https://soroban-testnet.stellar.org'', network_passphrase = Some ''Test SDF Network ; September 2015'',
     registry_contract_id = Some some_contract, registrar_contract_id = Some some_contract, resolver_contract_id = None,
     auction_contract_id = None, bridge_contract_id = None, subdomain_contract_id = None, nft_contract_id = Some some_contract,
     config = \<lparr>timeout = DEFAULT_TIMEOUT, retry = retry_default, user_agent = ''xlm-ns-sdk'', poll_final_status = False,
       transaction_poll_timeout = DEFAULT_TRANSACTION_POLL_TIMEOUT\<rparr>\<rparr>"

lemma some_client_simps [simp]:
  "registrar_contract_id some_client = Some some_contract" "nft_contract_id some_client = Some some_contract"
  "poll_final_status (config some_client) = False"
  "network_passphrase some_client = Some ''Test SDF Network ; September 2015''"
  by (simp_all add: some_client_def)

definition host_on :: "string \<Rightarrow> unit host" where
  "host_on network = \<lparr>h_new_client = (\<lambda>u. None), h_get_network = (\<lambda>w. (Inr network, w)),
     h_get_transaction = (\<lambda>t d w. (Inl ''timeout'', w)), h_sleep = (\<lambda>d w. w), h_draw = full_draw,
     h_now = (\<lambda>w. (1700000000, w)), h_hash = (\<lambda>a b. 7)\<rparr>"

theorem quote_parity_witness:
  "\<exists>q cq. fst (sdk_quote_registration (host_on ''test'') some_client ''alice'' 2 ()) = Inr q
     \<and> quote_registration registrar_empty ''alice'' 2 (sq_quoted_at q) = Inr cq \<and> sq_total_fee q = rq_fee_stroops cq"
proof -
  have label: "valid_label ''alice''" by code_simp
  note facts = quote_parity [of "''alice''" 2 registrar_empty "host_on ''test''" some_client "()"]
  obtain q where q: "fst (sdk_quote_registration (host_on ''test'') some_client ''alice'' 2 ()) = Inr q"
    using facts some_ids(1) valid_label_not_blank [OF label] by auto
  have "get_grace_period_seconds registrar_empty = GRACE_PERIOD_SECONDS"
    by (simp add: get_grace_period_seconds_def registrar_empty_def DEFAULT_GRACE_PERIOD_SECONDS_def)
  then have "\<exists>cq. quote_registration registrar_empty ''alice'' 2 (sq_quoted_at q) = Inr cq \<and> sq_total_fee q = rq_fee_stroops cq"
    using facts [of q] label q by auto
  with q show ?thesis by blast
qed

section \<open>Renewals\<close>

text \<open>
  The fee that the client reports for a renewal, before it and on the receipt, is ten units a year and one more; the contract charges at
  least a hundred million units a year, for every name and period it quotes.
\<close>

theorem renewal_fee_never_charged:
  assumes "quote_renewal s name (ucast years) t = Inr q"
  shows "renewal_fee years < nq_fee_stroops q"
proof -
  have range: "1 \<le> unat (ucast years :: u64)" "unat (ucast years :: u64) \<le> 10"
    using assms by (auto simp: quote_renewal_def validate_registration_years_soroban_def MIN_REGISTRATION_YEARS_def
        MAX_REGISTRATION_YEARS_def word_le_nat_alt split: sum.splits if_splits)
  obtain n where fee: "nq_fee_stroops q = sat_mul (price_for_label_length n) (ucast years)"
    using assms by (auto simp: quote_renewal_def Let_def split: sum.splits option.splits)
  have "100000000 \<le> unat (price_for_label_length n)" "unat (price_for_label_length n) \<le> 1000000000"
    by (simp_all add: price_for_label_length_def)
  then have "100000000 * unat (ucast years :: u64) \<le> unat (price_for_label_length n) * unat (ucast years :: u64)"
    and "unat (price_for_label_length n) * unat (ucast years :: u64) \<le> 1000000000 * 10"
    using range(2) by (simp, intro mult_le_mono)
  then have "100000000 * unat (ucast years :: u64) \<le> unat (nq_fee_stroops q)"
    unfolding fee unat_sat_mul by simp
  moreover have "unat (renewal_fee years) \<le> 10 * unat (ucast years :: u64) + 1"
    unfolding renewal_fee_def BASE_FEE_PER_YEAR_def NETWORK_FEE_def unat_sat_add unat_sat_mul by simp
  ultimately show ?thesis using range(1) by (simp add: word_less_nat_alt)
qed

text \<open>The expiry on the receipt of a renewal does not overflow.\<close>

lemma renewal_expiry_exact:
  "unat (MOCK_REFERENCE_TIMESTAMP + ucast (years :: u32) * SECONDS_PER_YEAR) = 1682200000 + unat years * 31536000"
proof -
  have "unat years < 2 ^ 32" using unsigned_less [of years] by simp
  then show ?thesis
    by (simp add: MOCK_REFERENCE_TIMESTAMP_def SECONDS_PER_YEAR_def unat_word_ariths unsigned_ucast_eq take_bit_eq_mod)
qed

section \<open>Transaction hashes\<close>

lemma hex_pairs_show:
  "hex_pairs (concat (map (\<lambda>b. show_hex 2 (unat (b :: u8))) bytes)) = bytes"
proof (induction bytes)
  case (Cons b bytes)
  have "unat b < 256" using unsigned_less [of b] by simp
  then have "16 * (unat b div 16 mod 16) + unat b mod 16 = unat b" by simp
  then have "of_nat (16 * (unat b div 16 mod 16) + unat b mod 16) = b" by simp
  with Cons show ?case by (simp add: numeral_2_eq_2 hex_digit_hex(2))
qed simp

lemma parse_hex:
  assumes "length s = 64" and "list_all is_ascii_hexdigit s"
  shows "parse_submission_hash s = Some (hex_pairs s)"
proof -
  have "trim s = s" using assms(2) by (intro trim_graphic) (auto simp: list_all_iff intro: hexdigit_graphic)
  with assms show ?thesis by (simp add: parse_submission_hash_def)
qed

text \<open>
  A transaction hash of 32 bytes written in hexadecimal digits is parsed back to its bytes. The hash the client makes up for a
  submission has that form too, whatever the hasher, so the service is polled for it.
\<close>

theorem submission_hash_roundtrip:
  "(length bytes = 32 \<longrightarrow> parse_submission_hash (concat (map (\<lambda>b. show_hex 2 (unat b)) bytes)) = Some bytes)
   \<and> parse_submission_hash (generated_submission_hash h operation payload) \<noteq> None"
proof (intro conjI impI)
  assume len: "length bytes = 32"
  let ?s = "concat (map (\<lambda>b. show_hex 2 (unat b)) bytes)"
  have "length ?s = 2 * length bytes" by (induction bytes) simp_all
  moreover have "list_all is_ascii_hexdigit ?s" using show_hex_digits by (auto simp: list_all_iff)
  ultimately show "parse_submission_hash ?s = Some bytes" using len parse_hex hex_pairs_show by simp
next
  let ?s = "generated_submission_hash h operation payload"
  have "length ?s = 64" by (simp add: generated_submission_hash_def Let_def)
  moreover have "list_all is_ascii_hexdigit ?s"
    using show_hex_digits by (auto simp: generated_submission_hash_def Let_def list_all_iff)
  ultimately show "parse_submission_hash ?s \<noteq> None" by (simp add: parse_hex)
qed

theorem submission_hash_roundtrip_witness:
  "parse_submission_hash (concat (map (\<lambda>b. show_hex 2 (unat b)) (replicate 32 (255 :: u8)))) = Some (replicate 32 255)"
  by (rule submission_hash_roundtrip [THEN conjunct1, THEN mp]) simp

section \<open>The network\<close>

text \<open>An operation that never submits; a service that reports another network than the configured one.\<close>

definition refused :: "('w \<Rightarrow> (sdk_error, 'a) result \<times> 'w) \<Rightarrow> bool" where
  "refused m \<longleftrightarrow> (\<forall>w r. fst (m w) \<noteq> Inr r)"

definition wrong_network :: "'w host \<Rightarrow> sdk_client \<Rightarrow> bool" where
  "wrong_network h c \<longleftrightarrow> h_new_client h (rpc_url c) = None
     \<and> (\<forall>w. \<exists>p. fst (h_get_network h w) = Inr p \<and> network_passphrase c \<noteq> Some p)"

lemma verify_refuses:
  assumes "wrong_network h c"
  shows "\<exists>e. fst (verify_write_network h c w) = Inl e"
proof (cases "network_passphrase c")
  case (Some configured)
  obtain p w' where net: "h_get_network h w = (Inr p, w')" and "configured \<noteq> p"
    using assms Some by (metis prod.collapse option.inject wrong_network_def)
  then have "verify_network_passphrase configured h w = (Inl (NetworkPassphraseMismatch configured p), w')"
    by (simp add: verify_network_passphrase_def)
  then show ?thesis
    using assms Some
    by (simp add: verify_write_network_def retrying_def execute_with_retry_def wrong_network_def retry_loop.simps [of _ _ _ _ 0 0 w])
qed (simp add: verify_write_network_def)

lemma refused_checked: "wrong_network h c \<Longrightarrow> refused (checked h c m)"
  unfolding refused_def checked_def try_step_def
  by (clarsimp split: sum.split_asm prod.split_asm) (metis Inl_Inr_False fst_conv verify_refuses)

lemma refused_check: "(\<And>a. refused (f a)) \<Longrightarrow> refused (try_check r f)"
  by (simp add: refused_def try_check_Inr)

lemma writes_refused:
  assumes "wrong_network h c"
  shows "refused (sdk_register h c rreq)" "refused (sdk_renew h c nreq)" "refused (sdk_transfer h c name owner signer)"
    "refused (sdk_set_text_record h c name key value signer)" "refused (sdk_register_parent h c parent owner dry_run)"
    "refused (sdk_add_controller h c parent owner dry_run)" "refused (sdk_create_subdomain h c label parent owner dry_run)"
    "refused (sdk_transfer_subdomain h c name owner dry_run)"
    "refused (sdk_create_auction h c name asset owner reserve duration signer)" "refused (sdk_bid_auction h c name amount signer)"
    "refused (sdk_settle_auction h c name signer)" "refused (sdk_register_chain h c chain)"
  unfolding sdk_register_def sdk_renew_def sdk_transfer_def sdk_set_text_record_def sdk_register_parent_def
    sdk_add_controller_def sdk_create_subdomain_def sdk_transfer_subdomain_def sdk_create_auction_def sdk_bid_auction_def
    sdk_settle_auction_def sdk_register_chain_def
  by (intro refused_check refused_checked [OF assms])+

text \<open>
  While the service reports a network other than the client's, registrations, renewals, transfers, text records, subdomain and
  auction operations and new chains all fail, whatever their arguments.
\<close>

theorem wrong_network_refused:
  assumes "wrong_network h c"
  shows "refused (sdk_register h c rreq) \<and> refused (sdk_renew h c nreq) \<and> refused (sdk_transfer h c name owner signer)
    \<and> refused (sdk_set_text_record h c name key value signer) \<and> refused (sdk_register_parent h c parent owner dry_run)
    \<and> refused (sdk_add_controller h c parent owner dry_run) \<and> refused (sdk_create_subdomain h c label parent owner dry_run)
    \<and> refused (sdk_transfer_subdomain h c name owner dry_run)
    \<and> refused (sdk_create_auction h c name asset owner reserve duration signer) \<and> refused (sdk_bid_auction h c name amount signer)
    \<and> refused (sdk_settle_auction h c name signer) \<and> refused (sdk_register_chain h c chain)"
  by (intro conjI writes_refused [OF assms])

theorem wrong_network_refused_witness:
  "\<forall>r. fst (sdk_transfer (host_on ''Public Global Stellar Network ; September 2015'') some_client ''alice.xlm'' some_account None ())
     \<noteq> Inr r"
proof -
  have "wrong_network (host_on ''Public Global Stellar Network ; September 2015'') some_client"
    by (simp add: wrong_network_def host_on_def some_client_def)
  then have "refused (sdk_transfer (host_on ''Public Global Stellar Network ; September 2015'') some_client ''alice.xlm'' some_account None)"
    using wrong_network_refused by blast
  then show ?thesis by (simp add: refused_def)
qed

text \<open>
  The bulk update of text records, the reserved manifest and the operations on tokens do not ask for the network: on the same
  service they submit.
\<close>

theorem unchecked_writes_submit:
  assumes "poll_final_status (config c) = False"
  shows "(\<not> is_blank name \<longrightarrow> (\<exists>s. fst (sdk_set_text_records h c name signer w) = Inr s))
    \<and> (\<not> is_blank token \<and> validate_account_address a = Inr () \<and> nft_contract_id c = Some i \<and> validate_contract_id i = Inr () \<longrightarrow>
        (\<exists>s. fst (mint_nft h c token a dry_run w) = Inr s) \<and> (\<exists>s. fst (approve_nft h c token a dry_run w) = Inr s)
        \<and> (\<exists>s. fst (transfer_nft h c token a dry_run w) = Inr s))"
  using assms
  by (auto simp: sdk_set_text_records_def mint_nft_def approve_nft_def transfer_nft_def submit_twice_def simulate_and_submit_def
      try_check_def try_step_def require_label_def validate_account_def require_contract_id_def maybe_hydrate_submission_def)

theorem unchecked_writes_submit_witness:
  "\<exists>s. fst (transfer_nft (host_on ''Public Global Stellar Network ; September 2015'') some_client ''alice.xlm'' some_account False ()) = Inr s"
proof -
  have "\<not> is_blank ''alice.xlm''" by code_simp
  then have given: "\<not> is_blank ''alice.xlm'' \<and> validate_account_address some_account = Inr ()
      \<and> nft_contract_id some_client = Some some_contract \<and> validate_contract_id some_contract = Inr ()" using some_ids by simp
  show ?thesis
    by (rule unchecked_writes_submit [OF some_client_simps(3), THEN conjunct2, rule_format, OF given,
          THEN conjunct2, THEN conjunct2])
qed

end
