(* ===== verification/Sdk_Submissions.thy ===== *)
theory Sdk_Submissions
  imports Sdk_Client_Properties
begin

text \<open>
  The type of what a write of the client returns (\<open>packages/xlm-ns-sdk/src/client.rs\<close>): whatever the service answers, a submission has a
  hash the client can poll for and the network it was made for, and it is a simulation only if one was asked for.
\<close>

definition wf_submission :: "sdk_client \<Rightarrow> bool \<Rightarrow> submission \<Rightarrow> bool" where
  "wf_submission c dry_run s \<longleftrightarrow>
     parse_submission_hash (sub_tx_hash s) \<noteq> None \<and> sub_network_passphrase s = network_passphrase c
     \<and> (sub_status s = Simulated \<longrightarrow> dry_run)"

definition yields :: "('w \<Rightarrow> (sdk_error, 'a) result \<times> 'w) \<Rightarrow> ('a \<Rightarrow> bool) \<Rightarrow> bool" where
  "yields m P \<longleftrightarrow> (\<forall>w a w'. m w = (Inr a, w') \<longrightarrow> P a)"

lemma yieldsD: "yields m P \<Longrightarrow> m w = (Inr a, w') \<Longrightarrow> P a"
  by (simp add: yields_def) blast

lemma yields_check: "(\<And>a. r = Inr a \<Longrightarrow> yields (f a) P) \<Longrightarrow> yields (try_check r f) P"
  by (cases r) (auto simp: yields_def try_check_def [abs_def])

lemma yields_answer:
  assumes "yields m Q" and "\<And>a. Q a \<Longrightarrow> yields (f a) P"
  shows "yields (\<lambda>w. try_step (m w) f) P"
  unfolding yields_def try_step_def
  using yieldsD [OF assms(1)] yieldsD [OF assms(2)] by (fastforce split: prod.splits sum.splits)

lemma yields_step: "(\<And>a. yields (f a) P) \<Longrightarrow> yields (\<lambda>w. try_step (m w) f) P"
  by (rule yields_answer [where Q = "\<lambda>_. True"]) (simp_all add: yields_def)

lemma yields_return: "P a \<Longrightarrow> yields (\<lambda>w. (Inr a, w)) P"
  by (simp add: yields_def)

lemma yields_checked:
  assumes "\<And>configured. network_passphrase c = Some configured \<Longrightarrow> yields f P"
  shows "yields (checked h c f) P"
proof (cases "network_passphrase c")
  case None
  then show ?thesis by (simp add: yields_def checked_def verify_write_network_def try_step_def)
next
  case (Some configured)
  then show ?thesis using yields_step [of "\<lambda>_. f" P "verify_write_network h c"] assms by (simp add: checked_def [abs_def])
qed

lemma hydrated_wf:
  assumes "wf_submission c dry_run s"
  shows "yields (maybe_hydrate_submission h c s) (wf_submission c dry_run)"
  unfolding yields_def
proof (intro allI impI)
  fix w a w'
  assume "maybe_hydrate_submission h c s w = (Inr a, w')"
  then have "sub_tx_hash a = sub_tx_hash s \<and> sub_network_passphrase a = sub_network_passphrase s
      \<and> (sub_status a = sub_status s \<or> sub_status a \<noteq> Simulated)"
    by (auto simp: maybe_hydrate_submission_def split: if_splits option.splits prod.splits sum.splits failure.splits)
  with assms show "wf_submission c dry_run a" by (auto simp: wf_submission_def)
qed

lemma made_hash: "parse_submission_hash (generated_submission_hash h operation payload) \<noteq> None"
  using submission_hash_roundtrip by blast

lemma made_wf:
  "wf_submission c False (new_submission h c operation payload contract signer)"
  "network_passphrase c = Some p \<Longrightarrow> wf_submission c False (make_submission h operation contract signer (Some p))"
  using made_hash by (simp_all add: wf_submission_def new_submission_def make_submission_def)

lemma simulated_wf: "yields (simulate_and_submit h c contract function signer dry_run) (wf_submission c dry_run)"
  unfolding simulate_and_submit_def
  by (rule yields_check, rule hydrated_wf) (use made_hash in \<open>simp add: wf_submission_def\<close>)

lemma twice_wf: "yields (submit_twice h c contract function signer dry_run) (wf_submission c dry_run)"
  unfolding submit_twice_def [abs_def] by (rule yields_answer [OF simulated_wf]) (rule hydrated_wf)

text \<open>The manifest names a network in any case, the empty one when none is configured.\<close>

lemma manifest_wf:
  "yields (sdk_load_reserved_manifest h c labels signer) (\<lambda>s. parse_submission_hash (sub_tx_hash s) \<noteq> None
     \<and> sub_network_passphrase s = Some (case network_passphrase c of None \<Rightarrow> [] | Some p \<Rightarrow> p) \<and> sub_status s \<noteq> Simulated)"
  unfolding sdk_load_reserved_manifest_def
  by (intro yields_check yields_return) (auto simp: rpc_context_def make_submission_def made_hash split: option.splits)

lemma context_wf:
  assumes "network_passphrase c = Some p" and "rpc_context h c = Inr passphrase"
  shows "wf_submission c False (make_submission h operation contract signer (Some passphrase))"
  using assms made_wf(2) by (simp add: rpc_context_def split: option.splits)

lemma receipts_wf:
  "yields (sdk_register h c rreq) (\<lambda>r. wf_submission c False (rrec_submission r))"
  "yields (sdk_renew h c nreq) (\<lambda>r. wf_submission c False (nrec_submission r))"
  unfolding sdk_register_def sdk_renew_def
  by (intro yields_check yields_checked, rule yields_step, rule yields_answer, rule hydrated_wf, rule made_wf(1), rule yields_return, simp)
    (intro yields_check yields_checked, rule yields_answer, rule hydrated_wf, rule made_wf(1), rule yields_return, simp)

text \<open>
  C31: Whatever the service answers, every submission a write returns has a hash of 32 bytes that can be polled for, names the network
  passphrase the client is configured with, or none where none is configured, and is a simulation only if a dry run was asked for; receipts
  carry such a submission. The one exception is \<open>load_reserved_manifest\<close>, which names the empty passphrase where none
  is configured.
\<close>

theorem submissions_well_formed:
  "yields (sdk_set_text_record h c name key val signer) (wf_submission c False)
   \<and> yields (sdk_set_text_records h c name signer) (wf_submission c False)
   \<and> yields (sdk_transfer h c name owner signer) (wf_submission c False)
   \<and> yields (sdk_register h c rreq) (\<lambda>r. wf_submission c False (rrec_submission r))
   \<and> yields (sdk_renew h c nreq) (\<lambda>r. wf_submission c False (nrec_submission r))
   \<and> yields (sdk_register_parent h c parent owner dry_run) (wf_submission c dry_run)
   \<and> yields (sdk_add_controller h c parent owner dry_run) (wf_submission c dry_run)
   \<and> yields (sdk_create_subdomain h c label parent owner dry_run) (wf_submission c dry_run)
   \<and> yields (sdk_transfer_subdomain h c name owner dry_run) (wf_submission c dry_run)
   \<and> yields (mint_nft h c token owner dry_run) (wf_submission c dry_run)
   \<and> yields (approve_nft h c token owner dry_run) (wf_submission c dry_run)
   \<and> yields (transfer_nft h c token owner dry_run) (wf_submission c dry_run)
   \<and> yields (sdk_create_auction h c name asset owner reserve duration signer) (wf_submission c False)
   \<and> yields (sdk_bid_auction h c name amount signer) (wf_submission c False)
   \<and> yields (sdk_settle_auction h c name signer) (wf_submission c False)
   \<and> yields (simulate_and_submit h c contract function signer' dry_run) (wf_submission c dry_run)
   \<and> yields (sdk_load_reserved_manifest h c labels signer) (\<lambda>s. parse_submission_hash (sub_tx_hash s) \<noteq> None
        \<and> sub_network_passphrase s = Some (case network_passphrase c of None \<Rightarrow> [] | Some p \<Rightarrow> p) \<and> sub_status s \<noteq> Simulated)"
  unfolding sdk_set_text_record_def sdk_set_text_records_def sdk_transfer_def sdk_register_parent_def
    sdk_add_controller_def sdk_create_subdomain_def sdk_transfer_subdomain_def mint_nft_def approve_nft_def transfer_nft_def
    sdk_create_auction_def sdk_bid_auction_def sdk_settle_auction_def
  by (intro conjI receipts_wf manifest_wf simulated_wf; (assumption | rule yields_check yields_checked twice_wf hydrated_wf made_wf(1) yields_return context_wf)+)

end
