(* ===== verification/Sdk_Queries.thy ===== *)
theory Sdk_Queries
  imports Sdk_Client
begin

text \<open>
  The read operations of the client (\<open>packages/xlm-ns-sdk/src/client.rs\<close>) and its constructors. In this version of the library their
  answers are made up in place, after the checks and retries that a real query would have; what callers can rely on are those
  checks, so both are written down. \<open>usize\<close> is a word of 64 bits.
\<close>

type_synonym usize = "64 word"

section \<open>Structures (types.rs)\<close>

record resolution_result =
  rres_name :: string
  rres_address :: "string option"
  rres_resolver :: "string option"
  rres_expires_at :: "u64 option"
  rres_is_wildcard :: bool

record portfolio_page =
  page_items :: "resolution_result list"
  page_next_cursor :: "usize option"
  page_total :: usize

record reverse_resolution =
  rev_address :: string
  rev_primary_name :: "string option"
  rev_resolver :: "string option"

record sdk_text_record =
  tr_name :: string
  tr_key :: string
  tr_value :: "string option"

record sdk_subdomain_info =
  sdi_label :: string
  sdi_owner :: string

record sdk_bridge_route =
  br_destination_chain :: string
  br_destination_resolver :: string
  br_gateway :: string

record nft_info =
  ni_token_id :: string
  ni_owner :: string
  ni_metadata_uri :: "string option"

record sdk_registrar_metrics =
  rm_treasury_balance :: u64
  rm_total_registrations :: u64
  rm_total_renewals :: u64

record name_info =
  nmi_owner :: string
  nmi_registered_at :: u64
  nmi_expires_at :: u64
  nmi_grace_period_ends_at :: u64
  nmi_resolver :: "string option"

record sdk_registry_entry =
  sre_name :: string
  sre_owner :: string
  sre_resolver :: "string option"
  sre_target_address :: "string option"
  sre_metadata_uri :: "string option"
  sre_ttl_seconds :: u64
  sre_registered_at :: u64
  sre_expires_at :: u64
  sre_grace_period_ends_at :: u64
  sre_transfer_count :: u32

record sdk_resolution_record =
  srr_owner :: string
  srr_address :: string
  srr_text_records :: "string \<Rightarrow> string option"
  srr_updated_at :: u64
  srr_is_wildcard :: bool

datatype sdk_auction_status = SaActive | SaEnded | SaSettled

record auction_info =
  ai_name :: string
  ai_owner :: string
  ai_reserve_price :: u64
  ai_highest_bid :: u64
  ai_highest_bidder :: "string option"
  ai_ends_at :: u64
  ai_status :: sdk_auction_status

section \<open>Configuration and construction\<close>

definition client_config_default :: client_config where
  "client_config_default =
     \<lparr>timeout = DEFAULT_TIMEOUT, retry = retry_default, user_agent = ''xlm-ns-sdk/0.1.0'', poll_final_status = True,
      transaction_poll_timeout = DEFAULT_TRANSACTION_POLL_TIMEOUT\<rparr>"

definition with_timeout :: "client_config \<Rightarrow> duration \<Rightarrow> client_config" where
  "with_timeout cfg d = cfg\<lparr>timeout := d\<rparr>"

definition with_retry :: "client_config \<Rightarrow> retry_config \<Rightarrow> client_config" where
  "with_retry cfg rc = cfg\<lparr>retry := rc\<rparr>"

definition with_max_retries :: "client_config \<Rightarrow> u32 \<Rightarrow> client_config" where
  "with_max_retries cfg n = cfg\<lparr>retry := (retry cfg)\<lparr>max_retries := n\<rparr>\<rparr>"

definition with_initial_backoff :: "client_config \<Rightarrow> duration \<Rightarrow> client_config" where
  "with_initial_backoff cfg d = cfg\<lparr>retry := (retry cfg)\<lparr>initial_backoff := d\<rparr>\<rparr>"

definition with_max_backoff :: "client_config \<Rightarrow> duration \<Rightarrow> client_config" where
  "with_max_backoff cfg d = cfg\<lparr>retry := (retry cfg)\<lparr>max_backoff := d\<rparr>\<rparr>"

definition with_jitter :: "client_config \<Rightarrow> bool \<Rightarrow> client_config" where
  "with_jitter cfg enabled = cfg\<lparr>retry := (retry cfg)\<lparr>jitter := enabled\<rparr>\<rparr>"

definition with_user_agent :: "client_config \<Rightarrow> string \<Rightarrow> client_config" where
  "with_user_agent cfg s = cfg\<lparr>user_agent := s\<rparr>"

definition with_poll_final_status :: "client_config \<Rightarrow> bool \<Rightarrow> client_config" where
  "with_poll_final_status cfg b = cfg\<lparr>poll_final_status := b\<rparr>"

definition with_transaction_poll_timeout :: "client_config \<Rightarrow> duration \<Rightarrow> client_config" where
  "with_transaction_poll_timeout cfg d = cfg\<lparr>transaction_poll_timeout := d\<rparr>"

datatype network_preset = PresetTestnet | PresetMainnet

primrec preset_rpc_url :: "network_preset \<Rightarrow> string" where
  "preset_rpc_url PresetTestnet = ''https://soroban-testnet.stellar.org''"
| "preset_rpc_url PresetMainnet = ''https://soroban.stellar.org''"

primrec preset_passphrase :: "network_preset \<Rightarrow> string" where
  "preset_passphrase PresetTestnet = ''Test SDF Network ; September 2015''"
| "preset_passphrase PresetMainnet = ''Public Global Stellar Network ; September 2015''"

definition client_new ::
    "string \<Rightarrow> string option \<Rightarrow> string option \<Rightarrow> string option \<Rightarrow> string option \<Rightarrow> string option \<Rightarrow> sdk_client" where
  "client_new url passphrase registry subdomain bridge auction =
     \<lparr>rpc_url = url, network_passphrase = passphrase, registry_contract_id = registry, registrar_contract_id = None,
      resolver_contract_id = None, auction_contract_id = auction, bridge_contract_id = bridge,
      subdomain_contract_id = subdomain, nft_contract_id = None, config = client_config_default\<rparr>"

definition with_registrar :: "sdk_client \<Rightarrow> string \<Rightarrow> sdk_client" where
  "with_registrar c i = c\<lparr>registrar_contract_id := Some i\<rparr>"

definition with_resolver :: "sdk_client \<Rightarrow> string \<Rightarrow> sdk_client" where
  "with_resolver c i = c\<lparr>resolver_contract_id := Some i\<rparr>"

definition with_auction :: "sdk_client \<Rightarrow> string \<Rightarrow> sdk_client" where
  "with_auction c i = c\<lparr>auction_contract_id := Some i\<rparr>"

definition with_nft :: "sdk_client \<Rightarrow> string \<Rightarrow> sdk_client" where
  "with_nft c i = c\<lparr>nft_contract_id := Some i\<rparr>"

definition with_config :: "sdk_client \<Rightarrow> client_config \<Rightarrow> sdk_client" where
  "with_config c cfg = c\<lparr>config := cfg\<rparr>"

text \<open>The builder has the fields of the client; \<open>build\<close> copies them.\<close>

definition builder_new :: "string \<Rightarrow> sdk_client" where
  "builder_new url = client_new url None None None None None"

definition from_preset :: "network_preset \<Rightarrow> sdk_client" where
  "from_preset preset = (builder_new (preset_rpc_url preset))\<lparr>network_passphrase := Some (preset_passphrase preset)\<rparr>"

section \<open>Names\<close>

definition make_text_records :: "string \<Rightarrow> string \<Rightarrow> string option" where
  "make_text_records name =
     [''url'' \<mapsto> ''https://'' @ name, ''twitter'' \<mapsto> ''@'' @ takeWhile (\<lambda>c. c \<noteq> CHR ''.'') name]"

definition mock_registry_entry :: "string option \<Rightarrow> string \<Rightarrow> u32 \<Rightarrow> sdk_registry_entry" where
  "mock_registry_entry resolver name ledger =
     \<lparr>sre_name = name, sre_owner = ''GDRA...OWNER'',
      sre_resolver = (case resolver of Some r \<Rightarrow> Some r | None \<Rightarrow> Some ''CDAD...RESOLVER''),
      sre_target_address = Some ''GDRA...TARGET'', sre_metadata_uri = None, sre_ttl_seconds = 3600,
      sre_registered_at = sat_add MOCK_REFERENCE_TIMESTAMP (ucast ledger),
      sre_expires_at = MOCK_REFERENCE_TIMESTAMP + SECONDS_PER_YEAR,
      sre_grace_period_ends_at = MOCK_REFERENCE_TIMESTAMP + SECONDS_PER_YEAR + GRACE_PERIOD_SECONDS,
      sre_transfer_count = 0\<rparr>"

definition mock_resolution_record :: "string \<Rightarrow> u32 \<Rightarrow> sdk_resolution_record" where
  "mock_resolution_record name ledger =
     \<lparr>srr_owner = ''GDRA...OWNER'', srr_address = ''GDRA...RESOLVED_ADDR:'' @ name @ '':'' @ show_nat (unat ledger),
      srr_text_records = make_text_records name, srr_updated_at = MOCK_REFERENCE_TIMESTAMP, srr_is_wildcard = False\<rparr>"

definition sdk_resolve :: "'w host \<Rightarrow> sdk_client \<Rightarrow> string \<Rightarrow> 'w \<Rightarrow> (sdk_error, resolution_result) result \<times> 'w" where
  "sdk_resolve h c name =
     try_check (require_contract_id (registry_contract_id c) ''registry contract ID'') (\<lambda>_ w.
     try_step (retrying h c (\<lambda>w. (Inr (mock_registry_entry (resolver_contract_id c) name 0), w)) w) (\<lambda>entry w1.
       (let answer = \<lparr>rres_name = name, rres_address = sre_target_address entry, rres_resolver = sre_resolver entry,
              rres_expires_at = Some (sre_expires_at entry), rres_is_wildcard = False\<rparr> in
        case sre_resolver entry of
          None \<Rightarrow> (Inr answer, w1)
        | Some _ \<Rightarrow>
            try_step (retrying h c (\<lambda>w. (Inr (Some (mock_resolution_record name 0)), w)) w1) (\<lambda>record w2.
              (Inr (case record of
                      Some r \<Rightarrow> answer\<lparr>rres_address := Some (srr_address r), rres_is_wildcard := False\<rparr>
                    | None \<Rightarrow> answer), w2)))))"

definition get_registry_metadata :: "'w host \<Rightarrow> sdk_client \<Rightarrow> string \<Rightarrow> 'w \<Rightarrow> (sdk_error, name_info) result \<times> 'w" where
  "get_registry_metadata h c name =
     try_check (require_contract_id (registry_contract_id c) ''registry contract ID'') (\<lambda>_ w.
     try_step (retrying h c (\<lambda>w. (Inr (mock_registry_entry (resolver_contract_id c) name 0), w)) w) (\<lambda>entry w1.
       (Inr \<lparr>nmi_owner = sre_owner entry, nmi_registered_at = sre_registered_at entry, nmi_expires_at = sre_expires_at entry,
             nmi_grace_period_ends_at = sre_grace_period_ends_at entry, nmi_resolver = sre_resolver entry\<rparr>, w1)))"

definition get_registration :: "'w host \<Rightarrow> sdk_client \<Rightarrow> string \<Rightarrow> 'w \<Rightarrow> (sdk_error, resolution_result option) result \<times> 'w" where
  "get_registration h c name w =
     (if name = ''notfound.xlm'' then (Inr None, w)
      else try_step (sdk_resolve h c name w) (\<lambda>r w1. (Inr (Some r), w1)))"

section \<open>Portfolios\<close>

definition get_owner_portfolio :: "sdk_client \<Rightarrow> string \<Rightarrow> sdk_error + name_info list" where
  "get_owner_portfolio c owner =
     (if is_blank owner then Inl (InvalidRequest ''owner must not be empty'')
      else case validate_account owner ''owner'' of
        Inl e \<Rightarrow> Inl e
      | Inr _ \<Rightarrow> Inr
          [\<lparr>nmi_owner = owner, nmi_registered_at = MOCK_REFERENCE_TIMESTAMP - 86400,
            nmi_expires_at = MOCK_REFERENCE_TIMESTAMP + SECONDS_PER_YEAR,
            nmi_grace_period_ends_at = MOCK_REFERENCE_TIMESTAMP + SECONDS_PER_YEAR + 86400,
            nmi_resolver = resolver_contract_id c\<rparr>,
           \<lparr>nmi_owner = owner, nmi_registered_at = MOCK_REFERENCE_TIMESTAMP - 172800,
            nmi_expires_at = MOCK_REFERENCE_TIMESTAMP + 2 * SECONDS_PER_YEAR,
            nmi_grace_period_ends_at = MOCK_REFERENCE_TIMESTAMP + 2 * SECONDS_PER_YEAR + 86400,
            nmi_resolver = resolver_contract_id c\<rparr>])"

definition owned_items :: "sdk_client \<Rightarrow> string \<Rightarrow> resolution_result list" where
  "owned_items c owner =
     [\<lparr>rres_name = ''alice.xlm'', rres_address = Some owner, rres_resolver = resolver_contract_id c,
       rres_expires_at = Some (MOCK_REFERENCE_TIMESTAMP + SECONDS_PER_YEAR), rres_is_wildcard = False\<rparr>,
      \<lparr>rres_name = ''bob.xlm'', rres_address = Some owner, rres_resolver = resolver_contract_id c,
       rres_expires_at = Some (MOCK_REFERENCE_TIMESTAMP + 2 * SECONDS_PER_YEAR), rres_is_wildcard = False\<rparr>]"

text \<open>The page of a list that starts at the cursor.\<close>

definition page_of :: "resolution_result list \<Rightarrow> usize option \<Rightarrow> usize \<Rightarrow> portfolio_page" where
  "page_of all_items cursor limit =
     (let len = of_nat (length all_items);
          start = min (case cursor of Some c \<Rightarrow> c | None \<Rightarrow> 0) len;
          stop = min (sat_add start limit) len
      in \<lparr>page_items = drop (unat start) (take (unat stop) all_items),
          page_next_cursor = (if stop < len then Some stop else None), page_total = len\<rparr>)"

definition list_registrations_by_owner_page ::
    "sdk_client \<Rightarrow> string \<Rightarrow> usize option \<Rightarrow> usize \<Rightarrow> sdk_error + portfolio_page" where
  "list_registrations_by_owner_page c owner cursor limit =
     (case require_label owner ''owner'' of
        Inl e \<Rightarrow> Inl e
      | Inr _ \<Rightarrow>
          if limit = 0 then Inl (InvalidRequest ''portfolio page size must be greater than zero'')
          else Inr (page_of (owned_items c owner) cursor limit))"

definition list_registrations_by_owner :: "sdk_client \<Rightarrow> string \<Rightarrow> sdk_error + resolution_result list" where
  "list_registrations_by_owner c owner = map_sum id page_items (list_registrations_by_owner_page c owner None (- 1))"

section \<open>Addresses and texts\<close>

definition reverse_resolve :: "sdk_client \<Rightarrow> string \<Rightarrow> sdk_error + reverse_resolution" where
  "reverse_resolve c address =
     (if is_blank address then Inl (InvalidRequest ''address must not be empty'')
      else case validate_account address ''address'' of
        Inl e \<Rightarrow> Inl e
      | Inr _ \<Rightarrow> Inr \<lparr>rev_address = address, rev_primary_name = Some ''primary.xlm'', rev_resolver = resolver_contract_id c\<rparr>)"

definition reverse_lookup :: "sdk_client \<Rightarrow> string \<Rightarrow> sdk_error + string option" where
  "reverse_lookup c address = map_sum id rev_primary_name (reverse_resolve c address)"

definition get_primary_name :: "sdk_client \<Rightarrow> string \<Rightarrow> sdk_error + string option" where
  "get_primary_name c address = reverse_lookup c address"

definition get_text_records :: "string \<Rightarrow> sdk_error + (string \<Rightarrow> string option)" where
  "get_text_records name = map_sum id (\<lambda>_. make_text_records name) (require_label name ''name'')"

definition get_text_record :: "string \<Rightarrow> string \<Rightarrow> sdk_error + sdk_text_record" where
  "get_text_record name key =
     (case require_label name ''name'' of
        Inl e \<Rightarrow> Inl e
      | Inr _ \<Rightarrow>
          (case require_label key ''key'' of
             Inl e \<Rightarrow> Inl e
           | Inr _ \<Rightarrow>
               map_sum id (\<lambda>records. \<lparr>tr_name = name, tr_key = key, tr_value = records key\<rparr>) (get_text_records name)))"

section \<open>The other contracts\<close>

definition get_subdomains :: "string \<Rightarrow> sdk_error + sdk_subdomain_info list" where
  "get_subdomains parent =
     map_sum id (\<lambda>_. [\<lparr>sdi_label = ''blog'', sdi_owner = ''GDRA...OWNER''\<rparr>, \<lparr>sdi_label = ''shop'', sdi_owner = ''GDRA...OWNER''\<rparr>])
       (require_label parent ''parent'')"

definition known_route :: "string \<Rightarrow> sdk_bridge_route option" where
  "known_route chain =
     (if chain = ''base'' then
        Some \<lparr>br_destination_chain = ''base'', br_destination_resolver = ''0xbaseResolver'', br_gateway = ''0xbaseGateway''\<rparr>
      else if chain = ''ethereum'' then
        Some \<lparr>br_destination_chain = ''ethereum'', br_destination_resolver = ''0xethResolver'', br_gateway = ''0xethGateway''\<rparr>
      else if chain = ''arbitrum'' then
        Some \<lparr>br_destination_chain = ''arbitrum'', br_destination_resolver = ''0xarbResolver'', br_gateway = ''0xarbGateway''\<rparr>
      else None)"

definition sdk_get_route :: "'w host \<Rightarrow> sdk_client \<Rightarrow> string \<Rightarrow> sdk_error + sdk_bridge_route option" where
  "sdk_get_route h c chain =
     (case require_label chain ''chain'' of
        Inl e \<Rightarrow> Inl e
      | Inr _ \<Rightarrow> map_sum id (\<lambda>_. known_route chain) (rpc_context h c))"

definition get_bridge_routes :: "string \<Rightarrow> sdk_error + sdk_bridge_route list" where
  "get_bridge_routes name =
     map_sum id (\<lambda>_.
       [\<lparr>br_destination_chain = ''ethereum'', br_destination_resolver = ''0xethResolver'', br_gateway = ''0xethGateway''\<rparr>,
        \<lparr>br_destination_chain = ''base'', br_destination_resolver = ''0xbaseResolver'', br_gateway = ''0xbaseGateway''\<rparr>])
       (require_label name ''name'')"

definition sdk_build_message :: "'w host \<Rightarrow> sdk_client \<Rightarrow> string \<Rightarrow> string \<Rightarrow> sdk_error + string" where
  "sdk_build_message h c name chain =
     (case require_label name ''name'' of
        Inl e \<Rightarrow> Inl e
      | Inr _ \<Rightarrow>
          (case require_label chain ''chain'' of
             Inl e \<Rightarrow> Inl e
           | Inr _ \<Rightarrow>
               (case sdk_get_route h c chain of
                  Inl e \<Rightarrow> Inl e
                | Inr None \<Rightarrow> Inl (InvalidRequest (''unsupported chain: '' @ chain))
                | Inr (Some route) \<Rightarrow> Inr
                    (''{\"type\":\"xlm-ns-resolution\",\"name\":\"'' @ name @ ''\",\"destination_chain\":\"''
                     @ br_destination_chain route @ ''\",\"resolver\":\"'' @ br_destination_resolver route @ ''\"}''))))"

definition get_nft_record :: "string \<Rightarrow> sdk_error + nft_info" where
  "get_nft_record token_id =
     (if is_blank token_id then Inl (InvalidRequest ''token_id must not be empty'')
      else Inr \<lparr>ni_token_id = token_id, ni_owner = ''GDRA...NFT_OWNER'', ni_metadata_uri = Some (''ipfs://metadata/'' @ token_id)\<rparr>)"

definition get_nft_metadata :: "string \<Rightarrow> sdk_error + string option" where
  "get_nft_metadata token_id = map_sum id (\<lambda>_. Some (''ipfs://'' @ token_id)) (require_label token_id ''token_id'')"

definition sdk_get_auction :: "string \<Rightarrow> sdk_error + auction_info option" where
  "sdk_get_auction name =
     map_sum id (\<lambda>_.
       if name = ''active.xlm'' then
         Some \<lparr>ai_name = name, ai_owner = ''GDRA...OWNER'', ai_reserve_price = 100, ai_highest_bid = 150,
           ai_highest_bidder = Some ''GDRA...BIDDER'', ai_ends_at = MOCK_REFERENCE_TIMESTAMP + 3600, ai_status = SaActive\<rparr>
       else if name = ''ended.xlm'' then
         Some \<lparr>ai_name = name, ai_owner = ''GDRA...OWNER'', ai_reserve_price = 100, ai_highest_bid = 200,
           ai_highest_bidder = Some ''GDRA...WINNER'', ai_ends_at = MOCK_REFERENCE_TIMESTAMP - 3600, ai_status = SaEnded\<rparr>
       else None) (require_label name ''name'')"

text \<open>The highest bid, an \<open>i128\<close>, and the end.\<close>

definition get_auction_state :: "string \<Rightarrow> sdk_error + (int \<times> u64)" where
  "get_auction_state name =
     (case sdk_get_auction name of
        Inl e \<Rightarrow> Inl e
      | Inr None \<Rightarrow> Inl (ContractError CeNameNotFound)
      | Inr (Some info) \<Rightarrow> Inr (uint (ai_highest_bid info), ai_ends_at info))"

definition get_treasury_balance :: "sdk_client \<Rightarrow> sdk_error + u64" where
  "get_treasury_balance c = map_sum id (\<lambda>_. 0) (require_contract_id (registrar_contract_id c) ''registrar contract ID'')"

definition get_fee_metrics :: "sdk_client \<Rightarrow> sdk_error + sdk_registrar_metrics" where
  "get_fee_metrics c =
     map_sum id (\<lambda>_. \<lparr>rm_treasury_balance = 0, rm_total_registrations = 0, rm_total_renewals = 0\<rparr>)
       (require_contract_id (registrar_contract_id c) ''registrar contract ID'')"

end
