(* ===== verification/Sdk_Blocking.thy ===== *)
theory Sdk_Blocking
  imports Sdk_Submissions Sdk_Queries
begin

text \<open>
  The blocking client (\<open>packages/xlm-ns-sdk/src/blocking.rs\<close>): it holds a client and a runtime on which each call
  runs the asynchronous function. The parameter \<open>inside\<close> says whether the thread that calls already runs a Tokio runtime: then
  \<open>Runtime::block_on\<close> panics, as its documentation states; the result is \<open>Trap\<close>. A function of the client that does not
  wait has a value in the model; \<open>ready\<close> is the future of it. Three wrappers call synchronous functions and have no runtime.
\<close>

record blocking_client =
  bl_inner :: sdk_client

definition from_async :: "('w \<Rightarrow> (string + unit) \<times> 'w) \<Rightarrow> sdk_client \<Rightarrow> 'w \<Rightarrow> (sdk_error + blocking_client) \<times> 'w" where
  "from_async build_runtime inner w =
     (case build_runtime w of
        (Inl e, w1) \<Rightarrow> (Inl (Transport (''failed to start runtime: '' @ e)), w1)
      | (Inr _, w1) \<Rightarrow> (Inr \<lparr>bl_inner = inner\<rparr>, w1))"

definition blocking_new ::
    "('w \<Rightarrow> (string + unit) \<times> 'w) \<Rightarrow> string \<Rightarrow> string option \<Rightarrow> string option \<Rightarrow> string option \<Rightarrow> string option
       \<Rightarrow> string option \<Rightarrow> 'w \<Rightarrow> (sdk_error + blocking_client) \<times> 'w" where
  "blocking_new build_runtime url passphrase registry subdomain bridge auction =
     from_async build_runtime (client_new url passphrase registry subdomain bridge auction)"

definition into_async :: "blocking_client \<Rightarrow> sdk_client" where
  "into_async b = bl_inner b"

definition blocking_config :: "blocking_client \<Rightarrow> client_config" where
  "blocking_config b = config (bl_inner b)"

definition block_on :: "bool \<Rightarrow> ('w \<Rightarrow> (sdk_error, 'a) result \<times> 'w) \<Rightarrow> 'w \<Rightarrow> (sdk_error, 'a) result \<times> 'w" where
  "block_on inside fut w = (if inside then (Inl Trap, w) else fut w)"

definition ready :: "sdk_error + 'a \<Rightarrow> 'w \<Rightarrow> (sdk_error, 'a) result \<times> 'w" where
  "ready r w = (map_sum Err id r, w)"

section \<open>Read-path wrappers\<close>

definition blocking_resolve ::
    "'w host \<Rightarrow> bool \<Rightarrow> blocking_client \<Rightarrow> string \<Rightarrow> 'w \<Rightarrow> (sdk_error, resolution_result) result \<times> 'w" where
  "blocking_resolve h inside b name =
     block_on inside (sdk_resolve h (bl_inner b) name)"

definition blocking_get_registration ::
    "'w host \<Rightarrow> bool \<Rightarrow> blocking_client \<Rightarrow> string \<Rightarrow> 'w \<Rightarrow> (sdk_error, resolution_result option) result \<times> 'w" where
  "blocking_get_registration h inside b name =
     block_on inside (get_registration h (bl_inner b) name)"

definition blocking_list_registrations_by_owner ::
    "blocking_client \<Rightarrow> string \<Rightarrow> sdk_error + resolution_result list" where
  "blocking_list_registrations_by_owner b owner =
     list_registrations_by_owner (bl_inner b) owner"

definition blocking_list_registrations_by_owner_page ::
    "blocking_client \<Rightarrow> string \<Rightarrow> usize option \<Rightarrow> usize \<Rightarrow> sdk_error + portfolio_page" where
  "blocking_list_registrations_by_owner_page b owner cursor limit =
     list_registrations_by_owner_page (bl_inner b) owner cursor limit"

definition blocking_reverse_resolve ::
    "bool \<Rightarrow> blocking_client \<Rightarrow> string \<Rightarrow> 'w \<Rightarrow> (sdk_error, reverse_resolution) result \<times> 'w" where
  "blocking_reverse_resolve inside b address =
     block_on inside (ready (reverse_resolve (bl_inner b) address))"

definition blocking_get_text_record ::
    "bool \<Rightarrow> blocking_client \<Rightarrow> string \<Rightarrow> string \<Rightarrow> 'w \<Rightarrow> (sdk_error, sdk_text_record) result \<times> 'w" where
  "blocking_get_text_record inside b name key =
     block_on inside (ready (get_text_record name key))"

definition blocking_quote_registration ::
    "'w host \<Rightarrow> bool \<Rightarrow> blocking_client \<Rightarrow> string \<Rightarrow> u32 \<Rightarrow> 'w \<Rightarrow> (sdk_error, sdk_quote) result \<times> 'w" where
  "blocking_quote_registration h inside b label duration_years =
     block_on inside (sdk_quote_registration h (bl_inner b) label duration_years)"

definition blocking_get_route ::
    "'w host \<Rightarrow> bool \<Rightarrow> blocking_client \<Rightarrow> string \<Rightarrow> 'w \<Rightarrow> (sdk_error, sdk_bridge_route option) result \<times> 'w" where
  "blocking_get_route h inside b chain =
     block_on inside (ready (sdk_get_route h (bl_inner b) chain))"

definition blocking_get_nft_record ::
    "blocking_client \<Rightarrow> string \<Rightarrow> sdk_error + nft_info" where
  "blocking_get_nft_record b token_id =
     get_nft_record token_id"

definition blocking_get_auction ::
    "bool \<Rightarrow> blocking_client \<Rightarrow> string \<Rightarrow> 'w \<Rightarrow> (sdk_error, auction_info option) result \<times> 'w" where
  "blocking_get_auction inside b name =
     block_on inside (ready (sdk_get_auction name))"

section \<open>Write-path wrappers\<close>

text \<open>The calls on subdomains are never dry runs.\<close>

definition blocking_set_text_record ::
    "'w host \<Rightarrow> bool \<Rightarrow> blocking_client \<Rightarrow> string \<Rightarrow> string \<Rightarrow> string option \<Rightarrow> string option \<Rightarrow> 'w \<Rightarrow> (sdk_error, submission) result \<times> 'w" where
  "blocking_set_text_record h inside b name key value signer =
     block_on inside (sdk_set_text_record h (bl_inner b) name key value signer)"

definition blocking_set_text_records ::
    "'w host \<Rightarrow> bool \<Rightarrow> blocking_client \<Rightarrow> string \<Rightarrow> string option \<Rightarrow> 'w \<Rightarrow> (sdk_error, submission) result \<times> 'w" where
  "blocking_set_text_records h inside b name signer =
     block_on inside (sdk_set_text_records h (bl_inner b) name signer)"

definition blocking_register ::
    "'w host \<Rightarrow> bool \<Rightarrow> blocking_client \<Rightarrow> registration_request \<Rightarrow> 'w \<Rightarrow> (sdk_error, registration_receipt) result \<times> 'w" where
  "blocking_register h inside b request =
     block_on inside (sdk_register h (bl_inner b) request)"

definition blocking_renew ::
    "'w host \<Rightarrow> bool \<Rightarrow> blocking_client \<Rightarrow> renewal_request \<Rightarrow> 'w \<Rightarrow> (sdk_error, renewal_receipt) result \<times> 'w" where
  "blocking_renew h inside b request =
     block_on inside (sdk_renew h (bl_inner b) request)"

definition blocking_transfer ::
    "'w host \<Rightarrow> bool \<Rightarrow> blocking_client \<Rightarrow> string \<Rightarrow> string \<Rightarrow> string option \<Rightarrow> 'w \<Rightarrow> (sdk_error, submission) result \<times> 'w" where
  "blocking_transfer h inside b name new_owner signer =
     block_on inside (sdk_transfer h (bl_inner b) name new_owner signer)"

definition blocking_register_parent ::
    "'w host \<Rightarrow> bool \<Rightarrow> blocking_client \<Rightarrow> string \<Rightarrow> string \<Rightarrow> 'w \<Rightarrow> (sdk_error, submission) result \<times> 'w" where
  "blocking_register_parent h inside b parent owner =
     block_on inside (sdk_register_parent h (bl_inner b) parent owner False)"

definition blocking_add_controller ::
    "'w host \<Rightarrow> bool \<Rightarrow> blocking_client \<Rightarrow> string \<Rightarrow> string \<Rightarrow> 'w \<Rightarrow> (sdk_error, submission) result \<times> 'w" where
  "blocking_add_controller h inside b parent controller =
     block_on inside (sdk_add_controller h (bl_inner b) parent controller False)"

definition blocking_create_subdomain ::
    "'w host \<Rightarrow> bool \<Rightarrow> blocking_client \<Rightarrow> string \<Rightarrow> string \<Rightarrow> string \<Rightarrow> 'w \<Rightarrow> (sdk_error, submission) result \<times> 'w" where
  "blocking_create_subdomain h inside b label parent owner =
     block_on inside (sdk_create_subdomain h (bl_inner b) label parent owner False)"

definition blocking_transfer_subdomain ::
    "'w host \<Rightarrow> bool \<Rightarrow> blocking_client \<Rightarrow> string \<Rightarrow> string \<Rightarrow> 'w \<Rightarrow> (sdk_error, submission) result \<times> 'w" where
  "blocking_transfer_subdomain h inside b fqdn new_owner =
     block_on inside (sdk_transfer_subdomain h (bl_inner b) fqdn new_owner False)"

definition blocking_register_chain ::
    "'w host \<Rightarrow> bool \<Rightarrow> blocking_client \<Rightarrow> string \<Rightarrow> 'w \<Rightarrow> (sdk_error, unit) result \<times> 'w" where
  "blocking_register_chain h inside b chain =
     block_on inside (sdk_register_chain h (bl_inner b) chain)"

definition blocking_build_message ::
    "'w host \<Rightarrow> bool \<Rightarrow> blocking_client \<Rightarrow> string \<Rightarrow> string \<Rightarrow> 'w \<Rightarrow> (sdk_error, string) result \<times> 'w" where
  "blocking_build_message h inside b name chain =
     block_on inside (ready (sdk_build_message h (bl_inner b) name chain))"

definition blocking_load_reserved_manifest ::
    "'w host \<Rightarrow> bool \<Rightarrow> blocking_client \<Rightarrow> string list \<Rightarrow> string option \<Rightarrow> 'w \<Rightarrow> (sdk_error, submission) result \<times> 'w" where
  "blocking_load_reserved_manifest h inside b labels signer =
     block_on inside (sdk_load_reserved_manifest h (bl_inner b) labels signer)"

definition blocking_create_auction ::
    "'w host \<Rightarrow> bool \<Rightarrow> blocking_client \<Rightarrow> string \<Rightarrow> string \<Rightarrow> string \<Rightarrow> u64 \<Rightarrow> u64 \<Rightarrow> string option \<Rightarrow> 'w \<Rightarrow> (sdk_error, submission) result \<times> 'w" where
  "blocking_create_auction h inside b name asset treasury reserve_price duration_seconds signer =
     block_on inside (sdk_create_auction h (bl_inner b) name asset treasury reserve_price duration_seconds signer)"

definition blocking_bid_auction ::
    "'w host \<Rightarrow> bool \<Rightarrow> blocking_client \<Rightarrow> string \<Rightarrow> u64 \<Rightarrow> string option \<Rightarrow> 'w \<Rightarrow> (sdk_error, submission) result \<times> 'w" where
  "blocking_bid_auction h inside b name amount signer =
     block_on inside (sdk_bid_auction h (bl_inner b) name amount signer)"

definition blocking_settle_auction ::
    "'w host \<Rightarrow> bool \<Rightarrow> blocking_client \<Rightarrow> string \<Rightarrow> string option \<Rightarrow> 'w \<Rightarrow> (sdk_error, submission) result \<times> 'w" where
  "blocking_settle_auction h inside b name signer =
     block_on inside (sdk_settle_auction h (bl_inner b) name signer)"

section \<open>The wrappers and the functions they wrap\<close>

text \<open>
  Outside a runtime a wrapper is the function it wraps, with the same effects; inside it panics before any effect, reads
  and writes alike.
\<close>

lemma block_on_outside [simp]: "block_on False fut w = fut w"
  by (simp add: block_on_def)

lemma block_on_inside [simp]: "block_on True fut w = (Inl Trap, w)"
  by (simp add: block_on_def)

lemma from_async_config:
  assumes "from_async build_runtime inner w = (Inr b, w')"
  shows "blocking_config b = config inner \<and> into_async b = inner"
  using assms by (auto simp: from_async_def blocking_config_def into_async_def split: prod.splits sum.splits)

text \<open>A wrapped write that succeeds is a write of the client it was made from, and it was made outside a runtime.\<close>

lemma blocking_register_exact:
  assumes "from_async build_runtime inner v = (Inr b, v')" and "blocking_register h inside b request w = (Inr receipt, w')"
  shows "\<not> inside \<and> sdk_register h inner request w = (Inr receipt, w')"
  using assms by (cases inside) (auto simp: blocking_register_def from_async_def split: prod.splits sum.splits)

lemma blocking_renew_exact:
  assumes "from_async build_runtime inner v = (Inr b, v')" and "blocking_renew h inside b request w = (Inr receipt, w')"
  shows "\<not> inside \<and> sdk_renew h inner request w = (Inr receipt, w')"
  using assms by (cases inside) (auto simp: blocking_renew_def from_async_def split: prod.splits sum.splits)

end
