(* ===== verification/Sdk_Signing.thy ===== *)
theory Sdk_Signing
  imports Sdk_Submissions Sdk_Queries
begin

text \<open>
  The signers of the client library (\<open>packages/xlm-ns-sdk/src/types.rs\<close>) and the builder of its client (\<open>client.rs\<close>). The decoding of a
  secret key (\<open>stellar_strkey\<close>) and the derivation of its address (\<open>ed25519_dalek\<close>) are parameters. No operation of the client
  takes a signer in this version.
\<close>

section \<open>Keys\<close>

datatype strkey = PrivateKeyEd25519 "u8 list" | OtherStrkey

record keypair =
  kp_secret_key :: string
  kp_public_key :: string

definition keypair_from_secret ::
    "(string \<Rightarrow> strkey option) \<Rightarrow> (u8 list \<Rightarrow> string) \<Rightarrow> string \<Rightarrow> signing_error + keypair" where
  "keypair_from_secret decode derive secret_key =
     (let trimmed = trim secret_key in
      if trimmed = [] then Inl (SigningInvalidKey ''secret key must not be empty'')
      else if hd trimmed \<noteq> CHR ''S'' \<or> length trimmed < 2 then Inl (SigningInvalidKey (''secret key must start with '' @ [CHR 0x27, CHR ''S'', CHR 0x27]))
      else
        (case decode trimmed of
           None \<Rightarrow> Inl (SigningInvalidKey ''failed to decode secret key strkey encoding'')
         | Some OtherStrkey \<Rightarrow> Inl (SigningInvalidKey ''expected an ed25519 private key'')
         | Some (PrivateKeyEd25519 seed) \<Rightarrow> Inr \<lparr>kp_secret_key = trimmed, kp_public_key = derive seed\<rparr>))"

datatype signer = KeypairSigner keypair | ExternalSigner "u8 list \<Rightarrow> string + u8 list" string

definition keypair_signer_new ::
    "(string \<Rightarrow> strkey option) \<Rightarrow> (u8 list \<Rightarrow> string) \<Rightarrow> string \<Rightarrow> sdk_error + signer" where
  "keypair_signer_new decode derive secret_key =
     (case keypair_from_secret decode derive secret_key of
        Inl source \<Rightarrow> Inl (SigningFailed ''constructing keypair signer'' source)
      | Inr keypair \<Rightarrow> Inr (KeypairSigner keypair))"

definition external_signer_new :: "string \<Rightarrow> (u8 list \<Rightarrow> string + u8 list) \<Rightarrow> signer" where
  "external_signer_new pubkey sign_fn = ExternalSigner sign_fn pubkey"

fun sign_transaction :: "signer \<Rightarrow> u8 list \<Rightarrow> signing_error + u8 list" where
  "sign_transaction (KeypairSigner keypair) envelope = Inr envelope"
| "sign_transaction (ExternalSigner sign_fn pubkey) envelope = map_sum SigningExternalFailure id (sign_fn envelope)"

fun signer_public_key :: "signer \<Rightarrow> string" where
  "signer_public_key (KeypairSigner keypair) = kp_public_key keypair"
| "signer_public_key (ExternalSigner sign_fn pubkey) = pubkey"

text \<open>
  A signer made from a secret key signs nothing: whatever the keys of two such signers, they return the same bytes, those of the
  envelope. So no check of signatures that refuses the unsigned envelope accepts what it returns.
\<close>

lemma keypair_signs_nothing:
  assumes "keypair_signer_new decode derive secret = Inr s"
    and "\<And>key envelope. \<not> verify key envelope envelope"
  shows "\<exists>signed. sign_transaction s envelope = Inr signed \<and> signed = envelope \<and> \<not> verify (signer_public_key s) envelope signed"
  using assms by (auto simp: keypair_signer_new_def split: sum.splits)

text \<open>Which secrets are accepted, and as what.\<close>

lemma keypair_from_secret_iff:
  "keypair_from_secret decode derive secret = Inr kp \<longleftrightarrow>
     length (trim secret) \<ge> 2 \<and> hd (trim secret) = CHR ''S''
     \<and> (\<exists>seed. decode (trim secret) = Some (PrivateKeyEd25519 seed) \<and> kp = \<lparr>kp_secret_key = trim secret, kp_public_key = derive seed\<rparr>)"
  by (auto simp: keypair_from_secret_def Let_def split: option.splits strkey.splits)

section \<open>The builder\<close>

text \<open>The builder has the fields of the client.\<close>

definition builder_network_passphrase :: "sdk_client \<Rightarrow> string \<Rightarrow> sdk_client" where
  "builder_network_passphrase b passphrase = b\<lparr>network_passphrase := Some passphrase\<rparr>"

definition builder_registry :: "sdk_client \<Rightarrow> string \<Rightarrow> sdk_client" where
  "builder_registry b contract_id = b\<lparr>registry_contract_id := Some contract_id\<rparr>"

definition builder_registrar :: "sdk_client \<Rightarrow> string \<Rightarrow> sdk_client" where
  "builder_registrar b contract_id = b\<lparr>registrar_contract_id := Some contract_id\<rparr>"

definition builder_resolver :: "sdk_client \<Rightarrow> string \<Rightarrow> sdk_client" where
  "builder_resolver b contract_id = b\<lparr>resolver_contract_id := Some contract_id\<rparr>"

definition builder_auction :: "sdk_client \<Rightarrow> string \<Rightarrow> sdk_client" where
  "builder_auction b contract_id = b\<lparr>auction_contract_id := Some contract_id\<rparr>"

definition builder_bridge :: "sdk_client \<Rightarrow> string \<Rightarrow> sdk_client" where
  "builder_bridge b contract_id = b\<lparr>bridge_contract_id := Some contract_id\<rparr>"

definition builder_subdomain :: "sdk_client \<Rightarrow> string \<Rightarrow> sdk_client" where
  "builder_subdomain b contract_id = b\<lparr>subdomain_contract_id := Some contract_id\<rparr>"

definition builder_nft :: "sdk_client \<Rightarrow> string \<Rightarrow> sdk_client" where
  "builder_nft b contract_id = b\<lparr>nft_contract_id := Some contract_id\<rparr>"

definition builder_config :: "sdk_client \<Rightarrow> client_config \<Rightarrow> sdk_client" where
  "builder_config b cfg = b\<lparr>config := cfg\<rparr>"

definition builder_build :: "sdk_client \<Rightarrow> sdk_client" where
  "builder_build b =
     \<lparr>rpc_url = rpc_url b, network_passphrase = network_passphrase b, registry_contract_id = registry_contract_id b,
      registrar_contract_id = registrar_contract_id b, resolver_contract_id = resolver_contract_id b,
      auction_contract_id = auction_contract_id b, bridge_contract_id = bridge_contract_id b,
      subdomain_contract_id = subdomain_contract_id b, nft_contract_id = nft_contract_id b, config = config b\<rparr>"

definition sdk_get_nft_owner :: "string \<Rightarrow> sdk_error + string" where
  "sdk_get_nft_owner token_id = Inr ''GDRA...OWNER''"

text \<open>The two ways to make a client with the same contracts agree; the registrar, resolver and token have functions of their own.\<close>

lemma builder_agrees:
  "builder_build (builder_auction (builder_bridge (builder_subdomain (builder_registry (builder_network_passphrase
       (builder_new url) passphrase) registry) subdomain) bridge) auction)
     = client_new url (Some passphrase) (Some registry) (Some subdomain) (Some bridge) (Some auction)"
  "builder_build (builder_registrar b i) = with_registrar (builder_build b) i"
  "builder_build (builder_resolver b i) = with_resolver (builder_build b) i"
  "builder_build (builder_nft b i) = with_nft (builder_build b) i"
  "builder_build (builder_config b cfg) = with_config (builder_build b) cfg"
  by (simp_all add: builder_build_def builder_auction_def builder_bridge_def builder_subdomain_def builder_registry_def
      builder_network_passphrase_def builder_new_def client_new_def builder_registrar_def with_registrar_def builder_resolver_def
      with_resolver_def builder_nft_def with_nft_def builder_config_def with_config_def)

text \<open>Two questions about the owner of a token have different answers, for every token.\<close>

lemma nft_owners_differ:
  "get_nft_record token_id = Inr info \<Longrightarrow> sdk_get_nft_owner token_id \<noteq> Inr (ni_owner info)"
  by (auto simp: get_nft_record_def sdk_get_nft_owner_def split: if_splits)

end
