(* ===== verification/Cli_Classify.thy ===== *)
theory Cli_Classify
  imports Cli_Errors
begin

text \<open>
  The classification of a failed command (\<open>cli/src/error.rs\<close>, \<open>classify_error\<close> and what it calls): a library error goes by its variant, any
  other error by what its text contains, in the order of the code.
\<close>

section \<open>Texts\<close>

definition trim_dots :: "string \<Rightarrow> string" where
  "trim_dots s = rev (dropWhile (\<lambda>c. c = CHR ''.'') (rev (dropWhile (\<lambda>c. c = CHR ''.'') s)))"

text \<open>\<open>str::parse::<u32>\<close>.\<close>

fun digits_value :: "string \<Rightarrow> nat \<Rightarrow> nat option" where
  "digits_value [] acc = Some acc"
| "digits_value (c # cs) acc = (if is_ascii_digit c then digits_value cs (10 * acc + (of_char c - 48)) else None)"

definition parse_u32 :: "string \<Rightarrow> u32 option" where
  "parse_u32 s =
     (let digits = (if take 1 s = ''+'' then drop 1 s else s) in
      if digits = [] then None
      else case digits_value digits 0 of
        Some n \<Rightarrow> if n < 2 ^ 32 then Some (of_nat n) else None
      | None \<Rightarrow> None)"

definition extract_contract_code :: "(string \<Rightarrow> string option) \<Rightarrow> string \<Rightarrow> u32 option" where
  "extract_contract_code re text = Option.bind (re text) parse_u32"

definition plain_report :: "string \<Rightarrow> string \<Rightarrow> string \<Rightarrow> cli_error option \<Rightarrow> string \<Rightarrow> friendly_error" where
  "plain_report summary suggestion doc err technical =
     \<lparr>fe_summary = summary, fe_suggestion = suggestion, fe_docs = [doc], fe_technical = technical_chain_or err technical\<rparr>"

definition classify_text ::
    "(string \<Rightarrow> string option) \<Rightarrow> string \<Rightarrow> error_context \<Rightarrow> cli_error option \<Rightarrow> friendly_error option" where
  "classify_text re text ctx err =
     (let lower = to_ascii_lowercase text; summary = trim_dots (trim text) in
      if contains lower ''cannot be used with'' then
        Some (plain_report summary ''Remove the incompatible flag or switch to the matching command''
          ''docs/contract-specs.md'' err text)
      else if contains lower ''requires'' \<and> contains lower ''contract'' then
        Some (plain_report summary ''Set the missing contract ID with a flag, environment variable, or config file''
          ''docs/sdk-quickstart.md'' err text)
      else if contains lower ''not configured'' then
        Some (plain_report summary ''Create or update your config file, or pass the missing value on the command line''
          ''docs/sdk-quickstart.md'' err text)
      else if contains lower ''failed to deserialize'' \<or> contains lower ''failed to open file'' then
        Some (plain_report summary ''Check the file path and ensure the input is valid JSON or CSV''
          ''docs/contract-specs.md'' err text)
      else if contains lower ''healthcheck reported a degraded status'' then
        Some (plain_report ''The healthcheck found a degraded dependency''
          ''Run `xlm-ns healthcheck --verbose` to see which check failed'' ''docs/sdk-integration-tests.md'' err text)
      else case extract_contract_code re text of
        Some code \<Rightarrow> Some (contract_error_for_domain (ec_domain ctx) code ctx err None)
      | None \<Rightarrow>
          if contains lower ''already registered'' then
            Some (contract_error_for_domain (ec_domain ctx) 4 ctx err (Some ''That name is already registered''))
          else if contains lower ''no primary name'' then
            Some (plain_report (subject_name ctx @ '' does not have a primary name set'')
              ''Set a primary name record or inspect the registry entry for this address'' ''docs/contract-specs.md'' err text)
          else if contains lower ''not registered'' \<or> contains lower ''not found'' then
            Some (contract_error_for_domain (ec_domain ctx) 2 ctx err (Some ''The requested record was not found''))
          else if contains lower ''expired'' then
            Some (contract_error_for_domain (ec_domain ctx) 3 ctx err (Some ''The name or record has expired''))
          else if contains lower ''insufficient balance'' \<or> contains lower ''insufficient fee'' then
            Some (plain_report ''Insufficient balance to pay the required fee'' ''Fund the account with more XLM and retry''
              ''docs/sdk-quickstart.md'' err text)
          else None)"

definition transport_error :: "string \<Rightarrow> cli_error option \<Rightarrow> friendly_error" where
  "transport_error message err =
     (let lower = to_ascii_lowercase message in
      if contains lower ''429'' \<or> contains lower ''too many requests'' \<or> contains lower ''rate limit'' then
        plain_report ''The RPC server rate-limited the request''
          ''Wait a moment, reduce request frequency, and try again'' ''RATE_LIMITING_QUICK_REFERENCE.md'' err message
      else if contains lower ''timeout'' \<or> contains lower ''timed out'' then
        plain_report ''The RPC request timed out'' ''Check connectivity and retry the command''
          ''docs/sdk-integration-tests.md'' err message
      else if contains lower ''connection refused'' \<or> contains lower ''connection reset''
          \<or> contains lower ''network unreachable'' \<or> contains lower ''dns'' then
        plain_report ''The RPC server could not be reached'' ''Verify the RPC URL and network connectivity, then retry''
          ''docs/sdk-quickstart.md'' err message
      else
        plain_report ''The RPC transport failed'' ''Retry the command or check the RPC endpoint''
          ''docs/sdk-quickstart.md'' err message)"

section \<open>Errors of the library\<close>

fun classify_sdk_error ::
    "(string \<Rightarrow> string option) \<Rightarrow> (string \<Rightarrow> string) \<Rightarrow> sdk_error \<Rightarrow> error_context \<Rightarrow> cli_error option \<Rightarrow> friendly_error" where
  "classify_sdk_error re dbg (InvalidRequest message) ctx err =
     (case classify_text re message ctx err of
        Some report \<Rightarrow> report
      | None \<Rightarrow> plain_report (''The request was invalid: '' @ message) ''Check the command arguments and try again''
                  ''docs/contract-specs.md'' err message)"
| "classify_sdk_error re dbg (Transport message) ctx err = transport_error message err"
| "classify_sdk_error re dbg (Ingestion message) ctx err =
     plain_report ''The RPC ingestion layer returned an error'' ''Verify the RPC endpoint is healthy and retry''
       ''docs/sdk-integration-tests.md'' err message"
| "classify_sdk_error re dbg (ContractError code) ctx err = contract_error code ctx err"
| "classify_sdk_error re dbg (NetworkPassphraseMismatch configured rpc_reported) ctx err =
     plain_report ''The configured network passphrase does not match the RPC server''
       ''Double-check `--network` and `--network-passphrase`, then retry'' ''docs/sdk-integration-tests.md'' err
       (''configured='' @ dbg configured @ '', rpc_reported='' @ dbg rpc_reported)"
| "classify_sdk_error re dbg (TransactionPassphraseMismatch configured in_transaction) ctx err =
     plain_report ''The transaction passphrase does not match the configured network''
       ''Rebuild the transaction against the correct network and submit again'' ''docs/sdk-integration-tests.md'' err
       (''configured='' @ dbg configured @ '', in_transaction='' @ dbg in_transaction)"
| "classify_sdk_error re dbg (ContractInvocationFailed operation reason tx_hash) ctx err =
     (case classify_text re reason ctx err of
        Some report \<Rightarrow> report
      | None \<Rightarrow>
          \<lparr>fe_summary = operation @ '' failed'',
           fe_suggestion = ''Run with `--verbose` and inspect the debug log for the contract reason'',
           fe_docs = [''docs/contract-specs.md''], fe_technical = technical_with_tx err reason tx_hash\<rparr>)"
| "classify_sdk_error re dbg (SimulationFailed operation reason) ctx err =
     (case classify_text re reason ctx err of
        Some report \<Rightarrow> report
      | None \<Rightarrow> plain_report (operation @ '' simulation failed'')
                  ''Check the input values, account balance, and signer permissions, then retry''
                  ''docs/contract-specs.md'' err reason)"
| "classify_sdk_error re dbg (SdkInsufficientFee operation required available) ctx err =
     plain_report (''Insufficient balance for '' @ operation @ '': need '' @ show_int (sint required) @ '' stroops but only ''
         @ show_int (sint available) @ '' are available'')
       ''Fund the source account, then rerun the command'' ''docs/sdk-quickstart.md'' err
       (''required='' @ show_int (sint required) @ '', available='' @ show_int (sint available))"
| "classify_sdk_error re dbg (TransactionTimeout operation ledger_submitted) ctx err =
     plain_report (operation @ '' timed out after submission at ledger '' @ show_nat (unat ledger_submitted))
       ''Retry the command after the network catches up'' ''docs/sdk-integration-tests.md'' err
       (''ledger_submitted='' @ show_nat (unat ledger_submitted))"
| "classify_sdk_error re dbg (SigningFailed operation source) ctx err =
     plain_report (operation @ '' signing failed'') ''Recheck the signer profile or hardware wallet connection'' ''README.md'' err
       (display_signing_error source)"
| "classify_sdk_error re dbg (SdkRateLimitExceeded retries total_wait_ms) ctx err =
     plain_report (''The RPC rate limit was exceeded after '' @ show_nat (unat retries) @ '' retries'')
       ''Wait a moment, reduce the batch size, and retry'' ''RATE_LIMITING_QUICK_REFERENCE.md'' err
       (display_rate_limit retries total_wait_ms)"

definition classify_error ::
    "(string \<Rightarrow> string option) \<Rightarrow> (string \<Rightarrow> string) \<Rightarrow> cli_error \<Rightarrow> error_context \<Rightarrow> friendly_error" where
  "classify_error re dbg err ctx =
     (case err_sdk err of
        Some e \<Rightarrow> classify_sdk_error re dbg e ctx (Some err)
      | None \<Rightarrow>
          (case classify_text re (err_to_string err) ctx (Some err) of
             Some report \<Rightarrow> report
           | None \<Rightarrow>
               \<lparr>fe_summary = ''The command failed unexpectedly'',
                fe_suggestion = ''Run again with `--verbose` and check `~/.xlm-ens/error.log` for details'',
                fe_docs = [''docs/contract-specs.md''], fe_technical = technical_chain err\<rparr>))"

end
