(* ===== verification/Cli_Error_Properties.thy ===== *)
theory Cli_Error_Properties
  imports Cli_Classify
begin

text \<open>
  Properties of the reports: the two tables of contract errors against each other, the library's decoding and the contracts' own
  enumerations; and what a classification by text gets wrong.
\<close>

section \<open>The two tables\<close>

definition domain_contract :: "error_domain \<Rightarrow> string" where
  "domain_contract d =
     (case d of EdRegistrar \<Rightarrow> ''registrar'' | EdRegistry \<Rightarrow> ''registry'' | EdResolver \<Rightarrow> ''resolver''
      | EdSubdomain \<Rightarrow> ''subdomain'' | EdBridge \<Rightarrow> ''bridge'' | EdAuction \<Rightarrow> ''auction'' | EdNft \<Rightarrow> ''nft'' | EdGeneral \<Rightarrow> ''general'')"

text \<open>The errors for which the two tables have different words.\<close>

definition reworded_suggestions :: "(error_domain \<times> u32) list" where
  "reworded_suggestions = [(EdRegistry, 1), (EdRegistry, 2), (EdRegistry, 3), (EdRegistry, 9)]"

definition reworded_summaries :: "(error_domain \<times> u32) list" where
  "reworded_summaries =
     [(EdRegistrar, 1), (EdRegistrar, 7), (EdRegistry, 3), (EdRegistry, 4), (EdRegistry, 7), (EdRegistry, 11),
      (EdResolver, 1), (EdSubdomain, 1), (EdBridge, 1), (EdAuction, 1), (EdAuction, 8)]"

fun same_shape :: "headline \<Rightarrow> headline \<Rightarrow> bool" where
  "same_shape (Fixed _) (Fixed _) = True"
| "same_shape (About before _) (About before' _) = (before = before')"
| "same_shape _ _ = False"

lemma same_shape_text: "same_shape h h' \<Longrightarrow> headline_text ctx h = headline_text ctx h' \<longleftrightarrow> h = h'"
  by (cases h; cases h') auto

definition row_agrees :: "error_domain \<Rightarrow> u32 \<times> report_arm \<Rightarrow> contract_error_code \<times> report_arm \<Rightarrow> bool" where
  "row_agrees d row row' \<longleftrightarrow>
     (case (row, row') of ((k, h, s, _), (v, h', s', _)) \<Rightarrow>
        same_shape h h' \<and> (s = s' \<longleftrightarrow> (d, k) \<notin> set reworded_suggestions) \<and> (h = h' \<longleftrightarrow> (d, k) \<notin> set reworded_summaries))"

lemmas reworded_defs = row_agrees_def reworded_suggestions_def reworded_summaries_def

lemma rows_agree:
  "list_all2 (row_agrees EdRegistry) registry_code_arms cli_registry_arms"
  "list_all2 (row_agrees EdRegistrar) registrar_code_arms cli_registrar_arms"
  by (simp_all add: registry_code_arms_def cli_registry_arms_def registrar_code_arms_def cli_registrar_arms_def reworded_defs)

lemma rows_agree2:
  "list_all2 (row_agrees EdResolver) resolver_code_arms cli_resolver_arms"
  "list_all2 (row_agrees EdSubdomain) subdomain_code_arms cli_subdomain_arms"
  "list_all2 (row_agrees EdBridge) bridge_code_arms cli_bridge_arms"
  "list_all2 (row_agrees EdAuction) auction_code_arms cli_auction_arms"
  "list_all2 (row_agrees EdNft) nft_code_arms cli_nft_arms"
  by (simp_all add: resolver_code_arms_def cli_resolver_arms_def subdomain_code_arms_def cli_subdomain_arms_def
      bridge_code_arms_def cli_bridge_arms_def auction_code_arms_def cli_auction_arms_def nft_code_arms_def cli_nft_arms_def
      reworded_defs)

primrec variant_arms :: "error_domain \<Rightarrow> (contract_error_code \<times> report_arm) list" where
  "variant_arms EdRegistrar = cli_registrar_arms"
| "variant_arms EdRegistry = cli_registry_arms"
| "variant_arms EdResolver = cli_resolver_arms"
| "variant_arms EdSubdomain = cli_subdomain_arms"
| "variant_arms EdBridge = cli_bridge_arms"
| "variant_arms EdAuction = cli_auction_arms"
| "variant_arms EdNft = cli_nft_arms"
| "variant_arms EdGeneral = []"

lemma domain_rows: "list_all2 (row_agrees d) (code_arms d) (variant_arms d)"
  by (cases d) (simp_all add: rows_agree rows_agree2)

text \<open>Row by row, the two tables have the keys of the arms of \<open>decode_error\<close>.\<close>

lemma arm_keys:
  "map fst registry_code_arms = [1, 2, 3, 4, 5, 6, 7, 8, 9, 10, 11]"
  "map fst registrar_code_arms = [1, 2, 3, 4, 5, 6, 7, 8, 9, 10, 11, 12, 13]"
  "map fst resolver_code_arms = [1, 2, 3, 4, 5, 6, 7, 8, 9, 10]"
  "map fst subdomain_code_arms = [1, 2, 3, 4, 5, 6, 7]"
  "map fst bridge_code_arms = [1, 2, 3, 4, 5, 6]"
  "map fst auction_code_arms = [1, 2, 3, 4, 5, 6, 7, 8, 9, 10]"
  "map fst nft_code_arms = [1, 2, 3, 4, 5]"
  by (simp_all add: registry_code_arms_def registrar_code_arms_def resolver_code_arms_def subdomain_code_arms_def
      bridge_code_arms_def auction_code_arms_def nft_code_arms_def)

lemma variant_keys:
  "map fst cli_generic_arms = [CeNameNotFound, CeNotOwner, CeExpired, CeInvalidLabel]"
  "map fst cli_registry_arms = map sdk_registry [AlreadyRegistered, NotFound, NotYetClaimable, NotActive, Unauthorized,
     MetadataTooLong, Validation, InvalidExpiry, InvalidGracePeriod, UpgradeFailed, Locked]"
  "map fst cli_registrar_arms = map sdk_registrar [InsufficientFee, RrNotFound, NotRenewable, RrAlreadyRegistered, Reserved,
     RrUnauthorized, RrValidation, RegistrationClaimable, RrNotInitialized, AlreadyInitialized, RateLimitExceeded,
     RrUpgradeFailed, QuoteExpired]"
  "map fst cli_resolver_arms = map sdk_resolver [RvValidation, RecordNotFound, RvUnauthorized, TooManyTextRecords,
     RvNotInitialized, TextRecordValueTooLong, InvalidChain, InvalidKey, BatchTooLarge, RvUpgradeFailed]"
  "map fst cli_subdomain_arms = map sdk_subdomain [SdValidation, ParentNotFound, SdAlreadyExists, SdNotFound, SdUnauthorized,
     SdUpgradeFailed, DepthLimitExceeded]"
  "map fst cli_auction_arms = map sdk_auction [AuValidation, AuAlreadyExists, AuNotFound, AuctionClosed, AuctionNotStarted,
     AuctionNotEnded, AlreadySettled, InvalidBid, AuUpgradeFailed, ReentrancyDetected]"
  "map fst cli_bridge_arms = map sdk_bridge [BgValidation, UnsupportedChain, BgUpgradeFailed, BgUnauthorized, BgNotFound,
     BgAlreadyExists]"
  "map fst cli_nft_arms = map sdk_nft [AlreadyMinted, NftNotFound, NftUnauthorized, NftUpgradeFailed, NftNotInitialized]"
  by (simp_all add: cli_generic_arms_def cli_registry_arms_def cli_registrar_arms_def cli_resolver_arms_def
      cli_subdomain_arms_def cli_auction_arms_def cli_bridge_arms_def cli_nft_arms_def)

lemma domain_keys:
  "zip (map fst (code_arms d)) (map fst (variant_arms d))
     = map (\<lambda>row. (snd (fst row), snd row)) (filter (\<lambda>row. fst (fst row) = domain_contract d) decode_table)"
  by (cases d) (simp_all add: arm_keys variant_keys decode_table_def domain_contract_def)

lemma keys_distinct: "distinct (map fst (code_arms d))" "distinct (map fst cli_variant_arms)"
  by (cases d; simp add: arm_keys) (simp add: cli_variant_arms_def variant_keys)

lemma variant_arms_included: "set (variant_arms d) \<subseteq> set cli_variant_arms"
  by (cases d) (auto simp: cli_variant_arms_def)

lemma known_code:
  assumes "k \<in> contract_codes (domain_contract d)"
  obtains arm arm' where "map_of (code_arms d) k = Some arm"
    and "map_of cli_variant_arms (decode_error (domain_contract d) k) = Some arm'"
    and "row_agrees d (k, arm) (decode_error (domain_contract d) k, arm')"
proof -
  let ?c = "domain_contract d" and ?rows = "zip (code_arms d) (variant_arms d)"
  obtain v where v: "((?c, k), v) \<in> set decode_table" "decode_error ?c k = v"
    using assms by (cases rule: decode_cases [of ?c k]) auto
  then have "(k, v) \<in> set (zip (map fst (code_arms d)) (map fst (variant_arms d)))"
    unfolding domain_keys set_map by (intro image_eqI [of _ _ "((?c, k), v)"]) simp_all
  then have "(k, v) \<in> (\<lambda>(row, row'). (fst row, fst row')) ` set ?rows" unfolding zip_map_map set_map .
  then obtain row row' where rows: "(row, row') \<in> set ?rows" "k = fst row" "v = fst row'"
    by (elim imageE) (simp split: prod.splits)
  then have "row_agrees d row row'" using domain_rows [of d] rows(1) unfolding list_all2_iff by blast
  moreover have "map_of (code_arms d) k = Some (snd row)"
    unfolding rows(2) by (rule map_of_is_SomeI [OF keys_distinct(1)]) (simp add: set_zip_leftD [OF rows(1)])
  moreover have "map_of cli_variant_arms v = Some (snd row')"
    unfolding rows(3)
    by (rule map_of_is_SomeI [OF keys_distinct(2)]) (simp add: subsetD [OF variant_arms_included set_zip_rightD [OF rows(1)]])
  ultimately show thesis using that [of "snd row" "snd row'"] v(2) rows(2,3) by simp
qed

lemma unknown_code:
  assumes "k \<notin> contract_codes (domain_contract d)"
  shows "map_of (code_arms d) k = None"
proof -
  have "k \<notin> set (map fst (code_arms d))"
  proof
    assume "k \<in> set (map fst (code_arms d))"
    moreover have "length (code_arms d) = length (variant_arms d)" using domain_rows [of d] by (rule list_all2_lengthD)
    ultimately obtain v where "(k, v) \<in> set (zip (map fst (code_arms d)) (map fst (variant_arms d)))"
      by (metis in_set_impl_in_set_zip1 length_map)
    then have "((domain_contract d, k), v) \<in> set decode_table" by (auto simp: domain_keys)
    with assms decode_arms_codes show False by blast
  qed
  then show ?thesis by (simp add: map_of_eq_None_iff)
qed

lemma variant_known: "map_of cli_variant_arms v = None \<longleftrightarrow> (\<exists>n. v = CeOther n)"
proof -
  have "fst ` set cli_variant_arms = set (map fst cli_variant_arms)" by simp
  then show ?thesis unfolding map_of_eq_None_iff by (cases v) (simp_all add: cli_variant_arms_def variant_keys)
qed

lemma arm_report_simps [simp]:
  "fe_summary (arm_report arm ctx err) = headline_text ctx (fst arm)"
  "fe_suggestion (arm_report arm ctx err) = fst (snd arm)"
  by (cases arm; simp)+

section \<open>Properties\<close>

text \<open>
  C32: The interface knows the errors of the contracts exactly. For a number of the enumeration of the
  contract of a command, its report by number and its report by the variant which the library decodes from it give the same advice
  in the same words, up to four suggestions and eleven summaries that are worded differently; for any other number both say that the
  error is unknown; and every variant but \<open>Other\<close> has a report of its own.
\<close>

theorem cli_reports_exact:
  "(k \<in> contract_codes (domain_contract d) \<longrightarrow>
      (fe_suggestion (contract_error_for_domain d k ctx err dflt)
         = fe_suggestion (contract_error (decode_error (domain_contract d) k) ctx err)
       \<longleftrightarrow> (d, k) \<notin> set reworded_suggestions)
      \<and> (fe_summary (contract_error_for_domain d k ctx err dflt)
         = fe_summary (contract_error (decode_error (domain_contract d) k) ctx err)
       \<longleftrightarrow> (d, k) \<notin> set reworded_summaries))
   \<and> (k \<notin> contract_codes (domain_contract d) \<longrightarrow>
      contract_error_for_domain d k ctx err dflt = unknown_contract_error ctx err dflt
      \<and> fe_summary (contract_error (decode_error (domain_contract d) k) ctx err) = ''The contract returned an unknown error'')
   \<and> (map_of cli_variant_arms v = None \<longleftrightarrow> (\<exists>n. v = CeOther n))"
proof (intro conjI impI)
  assume "k \<in> contract_codes (domain_contract d)"
  then obtain h s r h' s' r' where arms: "map_of (code_arms d) k = Some (h, s, r)"
    "map_of cli_variant_arms (decode_error (domain_contract d) k) = Some (h', s', r')"
    and "row_agrees d (k, h, s, r) (decode_error (domain_contract d) k, h', s', r')"
    by (metis known_code prod.exhaust)
  then have "same_shape h h'" "s = s' \<longleftrightarrow> (d, k) \<notin> set reworded_suggestions" "h = h' \<longleftrightarrow> (d, k) \<notin> set reworded_summaries"
    by (auto simp: row_agrees_def split: prod.splits)
  with arms show
    "fe_suggestion (contract_error_for_domain d k ctx err dflt)
         = fe_suggestion (contract_error (decode_error (domain_contract d) k) ctx err)
       \<longleftrightarrow> (d, k) \<notin> set reworded_suggestions"
    "fe_summary (contract_error_for_domain d k ctx err dflt)
         = fe_summary (contract_error (decode_error (domain_contract d) k) ctx err)
       \<longleftrightarrow> (d, k) \<notin> set reworded_summaries"
    by (simp_all add: contract_error_for_domain_def contract_error_def same_shape_text del: arm_report.simps)
next
  assume not: "k \<notin> contract_codes (domain_contract d)"
  then show "contract_error_for_domain d k ctx err dflt = unknown_contract_error ctx err dflt"
    by (simp add: contract_error_for_domain_def unknown_code)
  have "map_of cli_variant_arms (CeOther k) = None" using variant_known by blast
  with not show "fe_summary (contract_error (decode_error (domain_contract d) k) ctx err) = ''The contract returned an unknown error''"
    by (simp add: contract_error_def decode_uncoded)
qed (rule variant_known)

theorem cli_reports_exact_witness:
  "fe_suggestion (contract_error_for_domain EdRegistrar 13
        \<lparr>ec_domain = EdRegistrar, ec_subject = Some ''alice'', ec_subject_kind = SkName, ec_command = ''quote''\<rparr> None None)
     = fe_suggestion (contract_error (decode_error ''registrar'' 13)
        \<lparr>ec_domain = EdRegistrar, ec_subject = Some ''alice'', ec_subject_kind = SkName, ec_command = ''quote''\<rparr> None)
   \<and> contract_error_for_domain EdRegistry 99
        \<lparr>ec_domain = EdRegistry, ec_subject = None, ec_subject_kind = SkUnknown, ec_command = ''watch''\<rparr> None None
     = unknown_contract_error
        \<lparr>ec_domain = EdRegistry, ec_subject = None, ec_subject_kind = SkUnknown, ec_command = ''watch''\<rparr> None None"
proof -
  have contracts: "domain_contract EdRegistrar = ''registrar''" "domain_contract EdRegistry = ''registry''"
    by (simp_all add: domain_contract_def)
  have known: "13 \<in> contract_codes ''registrar''" by (simp add: image_iff) (metis registrar_error_code.simps(13))
  have "99 \<noteq> registry_error_code e" for e by (cases e) simp_all
  then have unknown: "99 \<notin> contract_codes ''registry''" by auto
  show ?thesis
    using cli_reports_exact [of 13 EdRegistrar] cli_reports_exact [of 99 EdRegistry] known unknown
    unfolding contracts by (simp add: reworded_suggestions_def)
qed

section \<open>What the text decides\<close>

text \<open>A text that none of the first six tests of \<open>classify_text\<close> takes.\<close>

definition late_text :: "(string \<Rightarrow> string option) \<Rightarrow> string \<Rightarrow> bool" where
  "late_text re text \<longleftrightarrow>
     list_all (\<lambda>p. \<not> contains (to_ascii_lowercase text) p)
       [''cannot be used with'', ''requires'', ''not configured'', ''failed to deserialize'', ''failed to open file'',
        ''healthcheck reported a degraded status'']
     \<and> extract_contract_code re text = None"

definition taken_summary :: "error_context \<Rightarrow> string" where
  "taken_summary ctx =
     (case ec_domain ctx of
        EdRegistrar \<Rightarrow> subject_name ctx @ '' is already registered''
      | EdRegistry \<Rightarrow> subject_name ctx @ '' is not active right now''
      | EdResolver \<Rightarrow> ''Too many text records are attached to this name''
      | EdSubdomain \<Rightarrow> subject_name ctx @ '' was not found''
      | EdBridge \<Rightarrow> ''The bridge action is unauthorized''
      | EdAuction \<Rightarrow> subject_name ctx @ '' is already closed''
      | EdNft \<Rightarrow> ''The NFT upgrade failed''
      | EdGeneral \<Rightarrow> ''That name is already registered'')"

lemma taken_report:
  "fe_summary (contract_error_for_domain (ec_domain ctx) 4 ctx err (Some ''That name is already registered'')) = taken_summary ctx"
  by (cases "ec_domain ctx")
    (simp_all add: contract_error_for_domain_def taken_summary_def registry_code_arms_def registrar_code_arms_def
      resolver_code_arms_def subdomain_code_arms_def bridge_code_arms_def auction_code_arms_def nft_code_arms_def
      unknown_contract_error_def del: arm_report.simps)

text \<open>
  A text that says a name is already registered is read as the fourth error of whatever contract the command uses. That is the right error
  for the registrar alone: a transfer is told that the name is not active, a bid that the auction is closed.
\<close>

theorem taken_name_misreported:
  assumes "late_text re text" and "contains (to_ascii_lowercase text) ''already registered''"
  shows "\<exists>report. classify_text re text ctx err = Some report \<and> fe_summary report = taken_summary ctx"
  using assms unfolding late_text_def classify_text_def Let_def by (simp add: taken_report)

theorem taken_name_misreported_witness:
  "\<exists>report. classify_text (\<lambda>_. None) (display_contract_error CeRegistryAlreadyRegistered)
       \<lparr>ec_domain = EdRegistry, ec_subject = Some ''alice'', ec_subject_kind = SkName, ec_command = ''transfer''\<rparr> None
     = Some report \<and> fe_summary report = ''alice.xlm is not active right now''"
proof -
  have "late_text (\<lambda>_. None) ''registry: name is already registered''"
    "contains (to_ascii_lowercase ''registry: name is already registered'') ''already registered''"
    by code_simp+
  from taken_name_misreported [OF this, of "\<lparr>ec_domain = EdRegistry, ec_subject = Some ''alice'', ec_subject_kind = SkName,
      ec_command = ''transfer''\<rparr>" None] show ?thesis by (simp add: taken_summary_def subject_name_def)
qed

text \<open>
  The name a user asks about is part of the text, so it can decide the report: whatever goes wrong with a query about
  a name that contains the word expired, the answer is that the name is not yet claimable.
\<close>

definition availability_failure :: "string \<Rightarrow> string \<Rightarrow> string" where
  "availability_failure name cause = ''ERROR: Failed to check availability for '' @ name @ '': '' @ cause"

theorem name_decides_report:
  assumes "late_text re (availability_failure name cause)"
    and "list_all (\<lambda>p. \<not> contains (to_ascii_lowercase (availability_failure name cause)) p)
           [''already registered'', ''no primary name'', ''not registered'', ''not found'']"
    and "contains (to_ascii_lowercase name) ''expired''"
    and "ec_domain ctx = EdRegistry" and "ec_subject_kind ctx = SkName" and "ec_subject ctx = Some name" and "CHR ''.'' \<in> set name"
  shows "\<exists>report. classify_text re (availability_failure name cause) ctx err = Some report
    \<and> fe_summary report = name @ '' is not yet claimable''"
proof -
  have "contains (to_ascii_lowercase (availability_failure name cause)) ''expired''"
    using assms(3) unfolding contains_iff availability_failure_def to_ascii_lowercase_def map_append
    by (metis append.assoc)
  with assms show ?thesis
    unfolding late_text_def classify_text_def Let_def
    by (simp add: contract_error_for_domain_def registry_code_arms_def subject_name_def)
qed

theorem name_decides_report_witness:
  "\<exists>report. classify_text (\<lambda>_. None) (availability_failure ''expired.xlm'' ''transport error: broken pipe'')
       \<lparr>ec_domain = EdRegistry, ec_subject = Some ''expired.xlm'', ec_subject_kind = SkName, ec_command = ''availability''\<rparr> None
     = Some report \<and> fe_summary report = ''expired.xlm is not yet claimable''"
proof -
  have "late_text (\<lambda>_. None) (availability_failure ''expired.xlm'' ''transport error: broken pipe'')"
    "list_all (\<lambda>p. \<not> contains (to_ascii_lowercase (availability_failure ''expired.xlm'' ''transport error: broken pipe'')) p)
           [''already registered'', ''no primary name'', ''not registered'', ''not found'']"
    "contains (to_ascii_lowercase ''expired.xlm'') ''expired''"
    by code_simp+
  from name_decides_report [OF this, of "\<lparr>ec_domain = EdRegistry, ec_subject = Some ''expired.xlm'', ec_subject_kind = SkName,
      ec_command = ''availability''\<rparr>" None] show ?thesis by simp
qed

end
