(* ===== verification/Cli_Config.thy ===== *)
theory Cli_Config
  imports Sdk_Client Std_Path
begin

text \<open>
  The configuration of the command line interface (\<open>cli/src/config.rs\<close>): flags, environment, file and built-in values, in this order of
  precedence, and the validation of the result. A path is its text. \<open>os\<close> is what the operating system answers; reading a file and parsing
  TOML (the \<open>toml\<close> crate) are parameters in it.
\<close>

section \<open>Networks and contracts\<close>

datatype network = Testnet | Mainnet

primrec network_str :: "network \<Rightarrow> string" where
  "network_str Testnet = ''testnet''"
| "network_str Mainnet = ''mainnet''"

definition network_parse :: "string \<Rightarrow> network option" where
  "network_parse value =
     (let v = to_ascii_lowercase value in
      if v = ''testnet'' then Some Testnet else if v = ''mainnet'' then Some Mainnet else None)"

primrec default_rpc_url :: "network \<Rightarrow> string" where
  "default_rpc_url Testnet = ''https://soroban-testnet.stellar.org''"
| "default_rpc_url Mainnet = ''https://mainnet.stellar.org:443''"

primrec default_network_passphrase :: "network \<Rightarrow> string" where
  "default_network_passphrase Testnet = ''Test SDF Network ; September 2015''"
| "default_network_passphrase Mainnet = ''Public Global Stellar Network ; September 2015''"

datatype contract_kind = CkRegistry | CkRegistrar | CkResolver | CkAuction | CkBridge | CkSubdomain | CkNft

primrec display_name :: "contract_kind \<Rightarrow> string" where
  "display_name CkRegistry = ''registry contract''"
| "display_name CkRegistrar = ''registrar contract''"
| "display_name CkResolver = ''resolver contract''"
| "display_name CkAuction = ''auction contract''"
| "display_name CkBridge = ''bridge contract''"
| "display_name CkSubdomain = ''subdomain contract''"
| "display_name CkNft = ''nft contract''"

primrec env_var :: "contract_kind \<Rightarrow> string" where
  "env_var CkRegistry = ''REGISTRY_CONTRACT_ID''"
| "env_var CkRegistrar = ''REGISTRAR_CONTRACT_ID''"
| "env_var CkResolver = ''RESOLVER_CONTRACT_ID''"
| "env_var CkAuction = ''AUCTION_CONTRACT_ID''"
| "env_var CkBridge = ''BRIDGE_CONTRACT_ID''"
| "env_var CkSubdomain = ''SUBDOMAIN_CONTRACT_ID''"
| "env_var CkNft = ''NFT_CONTRACT_ID''"

primrec flag_name :: "contract_kind \<Rightarrow> string" where
  "flag_name CkRegistry = ''registry-contract-id''"
| "flag_name CkRegistrar = ''registrar-contract-id''"
| "flag_name CkResolver = ''resolver-contract-id''"
| "flag_name CkAuction = ''auction-contract-id''"
| "flag_name CkBridge = ''bridge-contract-id''"
| "flag_name CkSubdomain = ''subdomain-contract-id''"
| "flag_name CkNft = ''nft-contract-id''"

definition all_kinds :: "contract_kind list" where
  "all_kinds = [CkRegistry, CkRegistrar, CkResolver, CkAuction, CkBridge, CkSubdomain, CkNft]"

record contract_overrides =
  co_registry :: "string option"
  co_registrar :: "string option"
  co_resolver :: "string option"
  co_auction :: "string option"
  co_bridge :: "string option"
  co_subdomain :: "string option"
  co_nft :: "string option"

primrec co_get :: "contract_overrides \<Rightarrow> contract_kind \<Rightarrow> string option" where
  "co_get c CkRegistry = co_registry c"
| "co_get c CkRegistrar = co_registrar c"
| "co_get c CkResolver = co_resolver c"
| "co_get c CkAuction = co_auction c"
| "co_get c CkBridge = co_bridge c"
| "co_get c CkSubdomain = co_subdomain c"
| "co_get c CkNft = co_nft c"

definition provided_kinds :: "contract_overrides \<Rightarrow> contract_kind list" where
  "provided_kinds c = filter (\<lambda>kind. co_get c kind \<noteq> None) all_kinds"

record network_config =
  nc_network :: network
  nc_rpc_url :: string
  nc_network_passphrase :: string
  nc_registry :: "string option"
  nc_registrar :: "string option"
  nc_resolver :: "string option"
  nc_auction :: "string option"
  nc_bridge :: "string option"
  nc_subdomain :: "string option"
  nc_nft :: "string option"
  nc_config_path :: "string option"

primrec contract_id :: "network_config \<Rightarrow> contract_kind \<Rightarrow> string option" where
  "contract_id c CkRegistry = nc_registry c"
| "contract_id c CkRegistrar = nc_registrar c"
| "contract_id c CkResolver = nc_resolver c"
| "contract_id c CkAuction = nc_auction c"
| "contract_id c CkBridge = nc_bridge c"
| "contract_id c CkSubdomain = nc_subdomain c"
| "contract_id c CkNft = nc_nft c"

record resolve_options =
  ro_config_path :: "string option"
  ro_rpc_url :: "string option"
  ro_network_passphrase :: "string option"
  ro_overrides :: contract_overrides

datatype config_error =
    ReadFailed string string
  | ParseFailed string string
  | ConfigInvalid "string option" "string list"

fun display_config_error :: "config_error \<Rightarrow> string" where
  "display_config_error (ReadFailed path source) = ''failed to read config file '' @ path @ '': '' @ source"
| "display_config_error (ParseFailed path source) = ''failed to parse config file '' @ path @ '': '' @ source"
| "display_config_error (ConfigInvalid (Some path) messages) = ''invalid config '' @ path @ '': '' @ join ''; '' messages"
| "display_config_error (ConfigInvalid None messages) = ''invalid config: '' @ join ''; '' messages"

section \<open>Values by source\<close>

record partial_config =
  pc_rpc_url :: "string option"
  pc_network_passphrase :: "string option"
  pc_registry :: "string option"
  pc_registrar :: "string option"
  pc_resolver :: "string option"
  pc_auction :: "string option"
  pc_bridge :: "string option"
  pc_subdomain :: "string option"
  pc_nft :: "string option"

definition empty_values :: partial_config where
  "empty_values = \<lparr>pc_rpc_url = None, pc_network_passphrase = None, pc_registry = None, pc_registrar = None, pc_resolver = None,
     pc_auction = None, pc_bridge = None, pc_subdomain = None, pc_nft = None\<rparr>"

record file_config =
  fc_default :: partial_config
  fc_networks :: "string \<Rightarrow> partial_config option"

record os =
  os_env :: "string \<Rightarrow> string option"
  os_exists :: "string \<Rightarrow> bool"
  os_read :: "string \<Rightarrow> string + string"
  os_parse :: "string \<Rightarrow> string + file_config"

text \<open>\<open>Option::or\<close>, and the overlay of one value on another.\<close>

definition or_else :: "'a option \<Rightarrow> 'a option \<Rightarrow> 'a option" where
  "or_else a b = (case a of Some x \<Rightarrow> Some x | None \<Rightarrow> b)"

lemma or_else_simps [simp]: "or_else (Some x) b = Some x" "or_else None b = b" "or_else a None = a"
  by (cases a; simp add: or_else_def)+

definition from_env :: "os \<Rightarrow> partial_config" where
  "from_env os =
     \<lparr>pc_rpc_url = os_env os ''SOROBAN_RPC_URL'', pc_network_passphrase = os_env os ''SOROBAN_NETWORK_PASSPHRASE'',
      pc_registry = os_env os ''REGISTRY_CONTRACT_ID'',
      pc_registrar = os_env os ''REGISTRAR_CONTRACT_ID'',
      pc_resolver = os_env os ''RESOLVER_CONTRACT_ID'',
      pc_auction = os_env os ''AUCTION_CONTRACT_ID'',
      pc_bridge = os_env os ''BRIDGE_CONTRACT_ID'',
      pc_subdomain = os_env os ''SUBDOMAIN_CONTRACT_ID'',
      pc_nft = os_env os ''NFT_CONTRACT_ID''\<rparr>"

definition apply_values :: "partial_config \<Rightarrow> partial_config \<Rightarrow> partial_config" where
  "apply_values self other =
     \<lparr>pc_rpc_url = or_else (pc_rpc_url other) (pc_rpc_url self),
      pc_network_passphrase = or_else (pc_network_passphrase other) (pc_network_passphrase self),
      pc_registry = or_else (pc_registry other) (pc_registry self),
      pc_registrar = or_else (pc_registrar other) (pc_registrar self),
      pc_resolver = or_else (pc_resolver other) (pc_resolver self),
      pc_auction = or_else (pc_auction other) (pc_auction self),
      pc_bridge = or_else (pc_bridge other) (pc_bridge self),
      pc_subdomain = or_else (pc_subdomain other) (pc_subdomain self),
      pc_nft = or_else (pc_nft other) (pc_nft self)\<rparr>"

definition file_network :: "file_config \<Rightarrow> network \<Rightarrow> partial_config" where
  "file_network file network =
     (case fc_networks file (network_str network) of
        Some overlay \<Rightarrow> apply_values (fc_default file) overlay
      | None \<Rightarrow> fc_default file)"

section \<open>The file\<close>

text \<open>\<open>PathBuf::join\<close> of a relative path.\<close>

definition config_search_paths :: "os \<Rightarrow> string list" where
  "config_search_paths os =
     [''.xlm-ns.toml'', ''xlm-ns.toml'']
     @ (case os_env os ''XDG_CONFIG_HOME'' of
          Some d \<Rightarrow> [path_join (path_join d ''xlm-ns'') ''config.toml''] | None \<Rightarrow> [])
     @ (case os_env os ''HOME'' of
          Some d \<Rightarrow> [path_join (path_join (path_join d ''.config'') ''xlm-ns'') ''config.toml''] | None \<Rightarrow> [])"

definition config_path_from_env :: "os \<Rightarrow> string option" where
  "config_path_from_env os = os_env os ''XLM_NS_CONFIG''"

definition read_config_file :: "os \<Rightarrow> string \<Rightarrow> config_error + (string \<times> file_config)" where
  "read_config_file os path =
     (case os_read os path of
        Inl source \<Rightarrow> Inl (ReadFailed path source)
      | Inr raw \<Rightarrow>
          (case os_parse os raw of
             Inl source \<Rightarrow> Inl (ParseFailed path source)
           | Inr parsed \<Rightarrow> Inr (path, parsed)))"

definition load_config_file :: "os \<Rightarrow> string option \<Rightarrow> config_error + (string \<times> file_config) option" where
  "load_config_file os explicit_path =
     (case or_else explicit_path (config_path_from_env os) of
        Some path \<Rightarrow> map_sum id Some (read_config_file os path)
      | None \<Rightarrow>
          (case find (os_exists os) (config_search_paths os) of
             Some candidate \<Rightarrow> map_sum id Some (read_config_file os candidate)
           | None \<Rightarrow> Inr None))"

section \<open>Loading and validation\<close>

definition config_messages :: "network_config \<Rightarrow> string list" where
  "config_messages c =
     (if is_blank (nc_rpc_url c) then [''rpc_url must not be empty''] else [])
     @ (if is_blank (nc_network_passphrase c) then [''network_passphrase must not be empty''] else [])
     @ concat (map (\<lambda>kind. case contract_id c kind of
           None \<Rightarrow> []
         | Some i \<Rightarrow> (case validate_contract_id i of
              Inl err \<Rightarrow> [flag_name kind @ '': '' @ display_common_error err]
            | Inr _ \<Rightarrow> [])) all_kinds)"

definition validate_network_config :: "network_config \<Rightarrow> config_error + unit" where
  "validate_network_config c =
     (if config_messages c = [] then Inr () else Inl (ConfigInvalid (nc_config_path c) (config_messages c)))"

text \<open>The value of each field, before validation.\<close>

definition assembled :: "os \<Rightarrow> network \<Rightarrow> resolve_options \<Rightarrow> (string \<times> file_config) option \<Rightarrow> network_config" where
  "assembled os network options file =
     (let file_values = (case file of Some (_, f) \<Rightarrow> file_network f network | None \<Rightarrow> empty_values);
          env_values = from_env os;
          flags = ro_overrides options in
      \<lparr>nc_network = network,
       nc_rpc_url = (case or_else (or_else (ro_rpc_url options) (pc_rpc_url env_values)) (pc_rpc_url file_values) of
          Some v \<Rightarrow> v | None \<Rightarrow> default_rpc_url network),
       nc_network_passphrase =
         (case or_else (or_else (ro_network_passphrase options) (pc_network_passphrase env_values))
             (pc_network_passphrase file_values) of
          Some v \<Rightarrow> v | None \<Rightarrow> default_network_passphrase network),
       nc_registry = or_else (or_else (co_registry flags) (pc_registry env_values)) (pc_registry file_values),
       nc_registrar = or_else (or_else (co_registrar flags) (pc_registrar env_values)) (pc_registrar file_values),
       nc_resolver = or_else (or_else (co_resolver flags) (pc_resolver env_values)) (pc_resolver file_values),
       nc_auction = or_else (or_else (co_auction flags) (pc_auction env_values)) (pc_auction file_values),
       nc_bridge = or_else (or_else (co_bridge flags) (pc_bridge env_values)) (pc_bridge file_values),
       nc_subdomain = or_else (or_else (co_subdomain flags) (pc_subdomain env_values)) (pc_subdomain file_values),
       nc_nft = or_else (or_else (co_nft flags) (pc_nft env_values)) (pc_nft file_values),
       nc_config_path = map_option fst file\<rparr>)"

definition load_config :: "os \<Rightarrow> network \<Rightarrow> resolve_options \<Rightarrow> config_error + network_config" where
  "load_config os network options =
     (case load_config_file os (ro_config_path options) of
        Inl err \<Rightarrow> Inl err
      | Inr file \<Rightarrow>
          (case validate_network_config (assembled os network options file) of
             Inl err \<Rightarrow> Inl err
           | Inr _ \<Rightarrow> Inr (assembled os network options file)))"

section \<open>The template\<close>

definition template_id :: string where
  "template_id = ''C'' @ replicate 64 CHR ''.''"

definition config_template :: "network \<Rightarrow> string" where
  "config_template network =
     concat (map (\<lambda>line. line @ [CHR 0x0A])
       [''# xlm-ns configuration file'',
        ''#'',
        ''# Values in [default] apply to every network unless a per-network section'',
        ''# overrides them.'',
        '''',
        ''[default]'',
        ''rpc_url = \"'' @ default_rpc_url network @ ''\"'',
        ''network_passphrase = \"'' @ default_network_passphrase network @ ''\"'',
        ''registry_contract_id = \"'' @ template_id @ ''\"'',
        ''registrar_contract_id = \"'' @ template_id @ ''\"'',
        ''resolver_contract_id = \"'' @ template_id @ ''\"'',
        ''auction_contract_id = \"'' @ template_id @ ''\"'',
        ''bridge_contract_id = \"'' @ template_id @ ''\"'',
        ''subdomain_contract_id = \"'' @ template_id @ ''\"'',
        ''nft_contract_id = \"'' @ template_id @ ''\"'',
        '''',
        ''[networks.'' @ network_str network @ '']''])"

end
