(* ===== verification/Cli_Commands.thy ===== *)
theory Cli_Commands
  imports Cli_Config Cli_Classify
begin

text \<open>
  The commands of the command line interface (\<open>cli/src/main.rs\<close>): their arguments, the contracts each may and must be given, and the context in
  which its errors are reported. The parsing of arguments (the \<open>clap\<close> crate) and terminal output are not modelled.
\<close>

section \<open>Commands\<close>

datatype migrate_command =
    MigrateTransform u32 u32 string string
  | MigrateVerify string string bool
  | MigrateDryRun u32 u32 string
  | MigrateRollbackMetadata string string
  | MigrateExport string string
  | MigrateImport string string

datatype bulk_command = BulkRegister string | BulkRenew string

datatype auction_command =
    AuctionCreate string u64 u64 "string option"
  | AuctionBid string u64 "string option"
  | AuctionInspect string
  | AuctionSettle string "string option"
  | AuctionExport string "string option"
  | AuctionImport string string "string option"

datatype subdomain_command =
    SubRegisterParent string string
  | SubAddController string string
  | SubCreate string string string
  | SubTransfer string string

datatype bridge_command = BridgeRegister string | BridgeInspect string | BridgePayload string string | BridgeTestVectors

datatype nft_command = NftInspect string

datatype config_command =
    ConfigInit "string option" network bool
  | ConfigEdit "string option" network
  | ConfigValidate "string option" network bool
  | ConfigShow "string option" network

datatype text_command = TextGet string string | TextSet string string "string option" "string option"

datatype watch_command = WatchAdd string | WatchRemove string | WatchList | WatchCheck "string option" bool

datatype completion_command = CompleteBash | CompleteZsh | CompleteFish | CompleteInstall

datatype cli_command =
    CmdMigrate migrate_command
  | CmdRegister "string option" "string option" bool "string option"
  | CmdResolve string
  | CmdReverseResolve string
  | CmdText text_command
  | CmdTransfer string string "string option"
  | CmdRenew string u64 "string option"
  | CmdAuction auction_command
  | CmdCompletions completion_command
  | CmdBridge bridge_command
  | CmdSubdomain subdomain_command
  | CmdNft nft_command
  | CmdConfig config_command
  | CmdWatch watch_command
  | CmdWhois string
  | CmdPortfolio string "64 word" "64 word option" "64 word option"
  | CmdQuote string u32
  | CmdBulk bulk_command
  | CmdAvailability string
  | CmdHealthcheck

section \<open>Contracts of a command\<close>

text \<open>The name of a command, the contracts whose flags it accepts and those it needs.\<close>

fun command_policy :: "cli_command \<Rightarrow> string \<times> contract_kind list \<times> contract_kind list" where
  "command_policy (CmdRegister _ _ _ _) = (''register'', [CkRegistrar, CkRegistry], [CkRegistrar])"
| "command_policy (CmdResolve _) = (''resolve'', [CkResolver, CkRegistry], [CkResolver])"
| "command_policy (CmdReverseResolve _) = (''reverse-resolve'', [CkResolver, CkRegistry], [CkResolver])"
| "command_policy (CmdText _) = (''text'', [CkResolver, CkRegistry], [CkResolver])"
| "command_policy (CmdTransfer _ _ _) = (''transfer'', [CkRegistry], [CkRegistry])"
| "command_policy (CmdRenew _ _ _) = (''renew'', [CkRegistrar, CkRegistry], [CkRegistrar])"
| "command_policy (CmdAuction _) = (''auction'', [CkAuction, CkRegistry], [CkAuction])"
| "command_policy (CmdCompletions _) = (''completions'', [], [])"
| "command_policy (CmdBridge _) = (''bridge'', [CkBridge, CkRegistry], [CkBridge])"
| "command_policy (CmdSubdomain _) = (''subdomain'', [CkSubdomain, CkRegistry], [CkSubdomain])"
| "command_policy (CmdNft _) = (''nft'', [CkNft, CkRegistry], [CkNft])"
| "command_policy (CmdConfig _) = (''config'', [], [])"
| "command_policy (CmdWatch _) = (''watch'', [CkRegistry], [])"
| "command_policy (CmdWhois _) = (''whois'', [CkRegistry, CkResolver], [CkRegistry])"
| "command_policy (CmdPortfolio _ _ _ _) = (''portfolio'', [CkRegistry, CkResolver], [CkRegistry])"
| "command_policy (CmdQuote _ _) = (''quote'', [CkRegistrar, CkRegistry], [CkRegistrar])"
| "command_policy (CmdAvailability _) = (''availability'', [CkRegistry], [])"
| "command_policy (CmdMigrate _) = (''migrate'', [], [])"
| "command_policy CmdHealthcheck =
     (''healthcheck'', [CkRegistry, CkRegistrar, CkResolver, CkAuction, CkBridge, CkSubdomain, CkNft], [])"
| "command_policy (CmdBulk (BulkRegister _)) = (''bulk register'', [CkRegistrar, CkRegistry], [CkRegistrar])"
| "command_policy (CmdBulk (BulkRenew _)) = (''bulk renew'', [CkRegistrar, CkRegistry], [CkRegistrar])"

text \<open>The checks over that table, with the text of the first failure.\<close>

definition flag_rejection :: "string \<Rightarrow> contract_kind \<Rightarrow> string" where
  "flag_rejection command_name kind = ''`--'' @ flag_name kind @ ''` cannot be used with `'' @ command_name @ ''`''"

definition missing_rejection :: "string \<Rightarrow> contract_kind \<Rightarrow> string" where
  "missing_rejection command_name kind =
     ''`'' @ command_name @ ''` requires '' @ display_name kind @ ''. Set `--'' @ flag_name kind @ ''`, `'' @ env_var kind
       @ ''`, or the config file value.''"

definition validate_contract_policy :: "cli_command \<Rightarrow> contract_overrides \<Rightarrow> network_config \<Rightarrow> string + unit" where
  "validate_contract_policy command overrides conf =
     (case command_policy command of (command_name, allowed, required) \<Rightarrow>
        case find (\<lambda>kind. kind \<notin> set allowed) (provided_kinds overrides) of
          Some kind \<Rightarrow> Inl (flag_rejection command_name kind)
        | None \<Rightarrow>
            (case find (\<lambda>kind. contract_id conf kind = None) required of
               Some kind \<Rightarrow> Inl (missing_rejection command_name kind)
             | None \<Rightarrow> Inr ()))"

section \<open>Contexts of errors\<close>

definition ctx :: "error_domain \<Rightarrow> string option \<Rightarrow> subject_kind \<Rightarrow> string \<Rightarrow> error_context" where
  "ctx domain subject kind command =
     \<lparr>ec_domain = domain, ec_subject = subject, ec_subject_kind = kind, ec_command = command\<rparr>"

primrec auction_name :: "auction_command \<Rightarrow> string" where
  "auction_name (AuctionCreate name _ _ _) = name"
| "auction_name (AuctionBid name _ _) = name"
| "auction_name (AuctionInspect name) = name"
| "auction_name (AuctionSettle name _) = name"
| "auction_name (AuctionExport name _) = name"
| "auction_name (AuctionImport name _ _) = name"

fun command_context :: "cli_command \<Rightarrow> error_context" where
  "command_context (CmdRegister name _ _ _) = ctx EdRegistrar name SkName ''register''"
| "command_context (CmdResolve name) = ctx EdResolver (Some name) SkName ''resolve''"
| "command_context (CmdReverseResolve address) = ctx EdResolver (Some address) SkAddress ''reverse-resolve''"
| "command_context (CmdText (TextGet name _)) = ctx EdResolver (Some name) SkName ''text''"
| "command_context (CmdText (TextSet name _ _ _)) = ctx EdResolver (Some name) SkName ''text''"
| "command_context (CmdTransfer name _ _) = ctx EdRegistry (Some name) SkName ''transfer''"
| "command_context (CmdRenew name _ _) = ctx EdRegistrar (Some name) SkName ''renew''"
| "command_context (CmdAuction sub) = ctx EdAuction (Some (auction_name sub)) SkName ''auction''"
| "command_context (CmdBridge (BridgeRegister chain)) = ctx EdBridge (Some chain) SkChain ''bridge''"
| "command_context (CmdBridge (BridgeInspect chain)) = ctx EdBridge (Some chain) SkChain ''bridge''"
| "command_context (CmdBridge (BridgePayload _ chain)) = ctx EdBridge (Some chain) SkChain ''bridge''"
| "command_context (CmdBridge BridgeTestVectors) = ctx EdBridge None SkUnknown ''bridge''"
| "command_context (CmdSubdomain (SubRegisterParent parent _)) = ctx EdSubdomain (Some parent) SkName ''subdomain''"
| "command_context (CmdSubdomain (SubAddController parent _)) = ctx EdSubdomain (Some parent) SkName ''subdomain''"
| "command_context (CmdSubdomain (SubCreate label parent _)) =
     ctx EdSubdomain (Some (label @ ''.'' @ parent)) SkName ''subdomain''"
| "command_context (CmdSubdomain (SubTransfer fqdn _)) = ctx EdSubdomain (Some fqdn) SkName ''subdomain''"
| "command_context (CmdNft (NftInspect token_id)) = ctx EdNft (Some token_id) SkTokenId ''nft''"
| "command_context (CmdConfig _) = ctx EdGeneral None SkUnknown ''config''"
| "command_context (CmdWatch _) = ctx EdRegistry None SkUnknown ''watch''"
| "command_context (CmdWhois name) = ctx EdRegistry (Some name) SkName ''whois''"
| "command_context (CmdPortfolio owner _ _ _) = ctx EdRegistry (Some owner) SkAddress ''portfolio''"
| "command_context (CmdQuote name _) = ctx EdRegistrar (Some name) SkName ''quote''"
| "command_context (CmdBulk (BulkRegister file)) = ctx EdRegistrar (Some file) SkFile ''bulk register''"
| "command_context (CmdBulk (BulkRenew file)) = ctx EdRegistrar (Some file) SkFile ''bulk renew''"
| "command_context (CmdAvailability name) = ctx EdRegistry (Some name) SkName ''availability''"
| "command_context CmdHealthcheck = ctx EdGeneral None SkUnknown ''healthcheck''"
| "command_context (CmdCompletions _) = ctx EdGeneral None SkUnknown ''completions''"
| "command_context (CmdMigrate _) = ctx EdGeneral None SkUnknown ''migrate''"

section \<open>Before a command runs\<close>

text \<open>
  What \<open>run_with_cli\<close> does before it dispatches: nothing for completions; for every other command it loads the configuration and, unless
  this is a dry run, checks the contracts. The result is the configuration the command is run with, if it is run.
\<close>

record cli =
  cli_network :: network
  cli_config :: "string option"
  cli_dry_run :: bool
  cli_rpc_url :: "string option"
  cli_network_passphrase :: "string option"
  cli_overrides :: contract_overrides
  cli_command :: cli_command

definition policy_error :: "string \<Rightarrow> cli_error" where
  "policy_error msg = \<lparr>err_chain = [msg], err_sdk = None\<rparr>"

definition prepare :: "os \<Rightarrow> cli \<Rightarrow> cli_error + network_config option" where
  "prepare os cli =
     (case cli_command cli of
        CmdCompletions _ \<Rightarrow> Inr None
      | _ \<Rightarrow>
          (case load_config os (cli_network cli)
               \<lparr>ro_config_path = cli_config cli, ro_rpc_url = cli_rpc_url cli,
                ro_network_passphrase = cli_network_passphrase cli, ro_overrides = cli_overrides cli\<rparr> of
             Inl err \<Rightarrow> Inl \<lparr>err_chain = [''failed to load configuration'', display_config_error err], err_sdk = None\<rparr>
           | Inr conf \<Rightarrow>
               if \<not> cli_dry_run cli then
                 (case validate_contract_policy (cli_command cli) (cli_overrides cli) conf of
                    Inl msg \<Rightarrow> Inl (policy_error msg)
                  | Inr _ \<Rightarrow> Inr (Some conf))
               else Inr (Some conf)))"

end
