(* ===== verification/Cli_Signer.thy ===== *)
theory Cli_Signer
  imports Cli_Commands
begin

text \<open>
  Signer profiles (\<open>cli/src/signer.rs\<close>) and their use by the commands (\<open>resolve_signer\<close> of \<open>main.rs\<close>). A profile names two
  environment variables: the public address, which is read, and the secret, whose presence alone is checked. Deriving a
  key pair from a secret (\<open>load_signing_key\<close>) is a call of the \<open>stellar_sdk\<close> crate and is not modelled.
\<close>

record signer_profile =
  sp_name :: string
  sp_public_address :: string
  sp_public_var :: string
  sp_secret_var :: string

datatype signer_error = MissingPublic string | MissingSecret string | EmptyProfileName

fun display_signer_error :: "signer_error \<Rightarrow> string" where
  "display_signer_error (MissingPublic var) = ''signer profile is missing public address; expected env var '' @ var"
| "display_signer_error (MissingSecret var) = ''signer profile is missing signing material; expected env var '' @ var"
| "display_signer_error EmptyProfileName = ''signer profile name must not be empty''"

definition ascii_upper :: "char \<Rightarrow> char" where
  "ascii_upper c = (if is_ascii_lowercase c then char_of ((of_char c :: nat) - 32) else c)"

definition to_ascii_uppercase :: "string \<Rightarrow> string" where
  "to_ascii_uppercase s = map ascii_upper s"

definition slug :: "string \<Rightarrow> string" where
  "slug trimmed = map (\<lambda>c. if c = CHR ''-'' then CHR ''_'' else c) (to_ascii_uppercase trimmed)"

definition load_profile :: "os \<Rightarrow> string \<Rightarrow> signer_error + signer_profile" where
  "load_profile os name =
     (let trimmed = trim name in
      if trimmed = [] then Inl EmptyProfileName
      else
        let public_var = ''XLM_NS_SIGNER_'' @ slug trimmed @ ''_PUBLIC'';
            secret_var = ''XLM_NS_SIGNER_'' @ slug trimmed @ ''_SECRET'' in
        case os_env os public_var of
          None \<Rightarrow> Inl (MissingPublic public_var)
        | Some public_address \<Rightarrow>
            if os_env os secret_var = None then Inl (MissingSecret secret_var)
            else Inr \<lparr>sp_name = trimmed, sp_public_address = public_address, sp_public_var = public_var,
                      sp_secret_var = secret_var\<rparr>)"

definition describe :: "signer_profile \<Rightarrow> string" where
  "describe p =
     ''profile '' @ [CHR 0x27] @ sp_name p @ [CHR 0x27] @ '' -> '' @ sp_public_address p @ '' (public env: ''
       @ sp_public_var p @ '', secret env: '' @ sp_secret_var p @ '')''"

text \<open>An \<open>anyhow\<close> error with one line of context, and one around an error of the library.\<close>

definition chain_error :: "string \<Rightarrow> string \<Rightarrow> cli_error" where
  "chain_error msg cause = \<lparr>err_chain = [msg, cause], err_sdk = None\<rparr>"

definition resolve_signer :: "os \<Rightarrow> string option \<Rightarrow> cli_error + signer_profile option" where
  "resolve_signer os name =
     (case name of
        None \<Rightarrow> Inr None
      | Some n \<Rightarrow>
          (case load_profile os n of
             Inl e \<Rightarrow> Inl (chain_error ''failed to load signer profile'' (display_signer_error e))
           | Inr p \<Rightarrow> Inr (Some p)))"

section \<open>Secrets\<close>

text \<open>Two environments that differ at most in the values of signers' secrets.\<close>

definition secret_var_name :: "string \<Rightarrow> bool" where
  "secret_var_name v \<longleftrightarrow> (\<exists>s. v = ''XLM_NS_SIGNER_'' @ s @ ''_SECRET'')"

definition same_but_secrets :: "os \<Rightarrow> os \<Rightarrow> bool" where
  "same_but_secrets o1 o2 \<longleftrightarrow>
     os_exists o1 = os_exists o2 \<and> os_read o1 = os_read o2 \<and> os_parse o1 = os_parse o2
     \<and> (\<forall>v. if secret_var_name v then (os_env o1 v = None) = (os_env o2 v = None) else os_env o1 v = os_env o2 v)"

lemma same_but_secretsD:
  assumes "same_but_secrets o1 o2"
  shows "\<not> secret_var_name v \<Longrightarrow> os_env o1 v = os_env o2 v" and "(os_env o1 v = None) = (os_env o2 v = None)"
    and "os_exists o1 = os_exists o2" and "os_read o1 = os_read o2" and "os_parse o1 = os_parse o2"
  using assms unfolding same_but_secrets_def by (metis)+

lemma secret_var_name_last:
  assumes "secret_var_name v"
  shows "take 14 v = ''XLM_NS_SIGNER_'' \<and> last v = CHR ''T''"
  using assms by (auto simp: secret_var_name_def)

lemma public_not_secret: "\<not> secret_var_name (''XLM_NS_SIGNER_'' @ s @ ''_PUBLIC'')"
proof
  assume "secret_var_name (''XLM_NS_SIGNER_'' @ s @ ''_PUBLIC'')"
  from secret_var_name_last [OF this] show False by simp
qed

lemma load_profile_no_secret:
  assumes "same_but_secrets o1 o2"
  shows "load_profile o1 name = load_profile o2 name"
proof -
  note same = same_but_secretsD [OF assms]
  show ?thesis
    unfolding load_profile_def Let_def same(2) same(1) [OF public_not_secret] ..
qed

lemma resolve_signer_no_secret:
  "same_but_secrets o1 o2 \<Longrightarrow> resolve_signer o1 name = resolve_signer o2 name"
  using load_profile_no_secret by (simp add: resolve_signer_def split: option.split)

end
