(* ===== verification/Cli_Actions.thy ===== *)
theory Cli_Actions
  imports Cli_Signer Sdk_Queries
begin

text \<open>
  The commands that call one operation of the client and print its answer (\<open>cli/src/commands/\<close>: \<open>resolve\<close>, \<open>reverse\<close>, \<open>text\<close>,
  \<open>transfer\<close>, \<open>renew\<close>, \<open>auction\<close>, \<open>bridge\<close>, \<open>subdomain\<close>, \<open>nft\<close>, \<open>whois\<close>, \<open>quote\<close>, \<open>healthcheck\<close>). A command answers with the text it
  prints in its human format, before colours, or with the error that \<open>main\<close> reports; the JSON format and the
  progress indicators are not modelled.
\<close>

section \<open>Running a command\<close>

type_synonym 'w run = "(cli_error, string) result \<times> 'w"

definition cli_client :: "network_config \<Rightarrow> sdk_client" where
  "cli_client conf =
     client_new (nc_rpc_url conf) (Some (nc_network_passphrase conf)) (nc_registry conf) (nc_subdomain conf) (nc_bridge conf)
       (nc_auction conf)"

text \<open>\<open>with_context(msg)?\<close> on the answer of the client, and the answer of an operation that leaves the world alone.\<close>

definition attach :: "(string \<Rightarrow> string) \<Rightarrow> string \<Rightarrow> sdk_error \<Rightarrow> cli_error" where
  "attach dbg msg e = \<lparr>err_chain = [msg, display_sdk_error dbg e], err_sdk = Some e\<rparr>"

definition calling ::
    "(string \<Rightarrow> string) \<Rightarrow> string \<Rightarrow> (sdk_error, 'a) result \<times> 'w \<Rightarrow> ('a \<Rightarrow> 'w \<Rightarrow> (cli_error, 'b) result \<times> 'w)
       \<Rightarrow> (cli_error, 'b) result \<times> 'w" where
  "calling dbg msg r f =
     (case r of
        (Inl (Err e), w) \<Rightarrow> (Inl (Err (attach dbg msg e)), w)
      | (Inl Trap, w) \<Rightarrow> (Inl Trap, w)
      | (Inr a, w) \<Rightarrow> f a w)"

definition answer :: "sdk_error + 'a \<Rightarrow> 'w \<Rightarrow> (sdk_error, 'a) result \<times> 'w" where
  "answer r w = ((case r of Inl e \<Rightarrow> Inl (Err e) | Inr a \<Rightarrow> Inr a), w)"

text \<open>The commands that put the error into a text of their own lose the error itself.\<close>

definition reporting ::
    "(string \<Rightarrow> string) \<Rightarrow> string \<Rightarrow> (sdk_error, 'a) result \<times> 'w \<Rightarrow> ('a \<Rightarrow> 'w \<Rightarrow> (cli_error, 'b) result \<times> 'w)
       \<Rightarrow> (cli_error, 'b) result \<times> 'w" where
  "reporting dbg msg r f =
     (case r of
        (Inl (Err e), w) \<Rightarrow> (Inl (Err (policy_error (msg @ '': '' @ display_sdk_error dbg e))), w)
      | (Inl Trap, w) \<Rightarrow> (Inl Trap, w)
      | (Inr a, w) \<Rightarrow> f a w)"

definition finish :: "string list \<Rightarrow> 'w \<Rightarrow> 'w run" where
  "finish ls w = (Inr (join [CHR 0x0A] ls), w)"

definition fail_with :: "string \<Rightarrow> 'w \<Rightarrow> 'w run" where
  "fail_with msg w = (Inl (Err (policy_error msg)), w)"

section \<open>Texts\<close>

definition show_word :: "'a::len word \<Rightarrow> string" where
  "show_word n = show_nat (unat n)"

definition quoted :: "string \<Rightarrow> string" where
  "quoted s = CHR 0x27 # s @ [CHR 0x27]"

definition or_unknown :: "string option \<Rightarrow> string" where
  "or_unknown v = (case v of Some s \<Rightarrow> s | None \<Rightarrow> ''[UNKNOWN]'')"

fun display_submission_status :: "submission_status \<Rightarrow> string" where
  "display_submission_status Simulated = ''simulated''"
| "display_submission_status Submitted = ''submitted''"
| "display_submission_status Confirmed = ''confirmed''"
| "display_submission_status Failed = ''failed''"

fun display_auction_status :: "sdk_auction_status \<Rightarrow> string" where
  "display_auction_status SaActive = ''active''"
| "display_auction_status SaEnded = ''ended''"
| "display_auction_status SaSettled = ''settled''"

definition signer_lines :: "signer_profile option \<Rightarrow> string list" where
  "signer_lines signer = (case signer of Some p \<Rightarrow> [''  Signer: '' @ describe p] | None \<Rightarrow> [])"

definition hash_line :: "submission \<Rightarrow> string" where
  "hash_line s = ''  Transaction Hash: '' @ sub_tx_hash s"

definition status_line :: "submission \<Rightarrow> string" where
  "status_line s = ''  Status: '' @ display_submission_status (sub_status s)"

section \<open>Reading\<close>

definition run_resolve :: "'w host \<Rightarrow> (string \<Rightarrow> string) \<Rightarrow> network_config \<Rightarrow> string \<Rightarrow> 'w \<Rightarrow> 'w run" where
  "run_resolve h dbg conf name w =
     calling dbg ''Failed to resolve name'' (sdk_resolve h (cli_client conf) name w) (\<lambda>r w'.
       case rres_address r of
         Some addr \<Rightarrow>
           finish ([''Name: '' @ rres_name r, ''Address: '' @ addr]
             @ (case rres_resolver r of Some i \<Rightarrow> [''Resolver: '' @ i] | None \<Rightarrow> [])
             @ [''Resolved via wildcard: '' @ (if rres_is_wildcard r then ''yes'' else ''no'')]
             @ (case rres_expires_at r of Some t \<Rightarrow> [''Expires at: '' @ show_word t] | None \<Rightarrow> [])) w'
       | None \<Rightarrow> fail_with (''Name '' @ quoted name @ '' not found or has no resolution'') w')"

definition run_reverse :: "(string \<Rightarrow> string) \<Rightarrow> network_config \<Rightarrow> string \<Rightarrow> 'w \<Rightarrow> 'w run" where
  "run_reverse dbg conf address w =
     calling dbg ''Failed to perform reverse lookup'' (answer (reverse_resolve (cli_client conf) address) w) (\<lambda>r w'.
       case rev_primary_name r of
         Some name \<Rightarrow> finish [rev_address r @ '' -> '' @ name] w'
       | None \<Rightarrow> fail_with (rev_address r @ '' -> [NO PRIMARY NAME]'') w')"

definition run_text_get :: "(string \<Rightarrow> string) \<Rightarrow> string \<Rightarrow> string \<Rightarrow> 'w \<Rightarrow> 'w run" where
  "run_text_get dbg name key w =
     calling dbg ''Failed to fetch text record'' (answer (get_text_record name key) w) (\<lambda>r w'.
       finish [case tr_value r of
                 Some val \<Rightarrow> name @ '': '' @ key @ '' = '' @ CHR 0x22 # val @ [CHR 0x22]
               | None \<Rightarrow> name @ '': '' @ key @ '' = [NOT SET]''] w')"

definition run_whois :: "'w host \<Rightarrow> (string \<Rightarrow> string) \<Rightarrow> network_config \<Rightarrow> string \<Rightarrow> 'w \<Rightarrow> 'w run" where
  "run_whois h dbg conf name w =
     (let client = with_resolver (cli_client conf) (case nc_resolver conf of Some i \<Rightarrow> i | None \<Rightarrow> ''unknown'') in
      reporting dbg (''ERROR: Failed to fetch registration for '' @ name) (get_registration h client name w) (\<lambda>r w'.
        case r of
          Some entry \<Rightarrow>
            finish [name, ''  Owner: '' @ or_unknown (rres_address entry),
              ''  Expires at: '' @ or_unknown (map_option show_word (rres_expires_at entry)),
              ''  Resolver: '' @ or_unknown (rres_resolver entry), ''  Registry: '' @ or_unknown (nc_registry conf),
              ''  RPC: '' @ nc_rpc_url conf] w'
        | None \<Rightarrow> finish [name, ''  Status: [NOT REGISTERED]''] w'))"

definition run_nft_inspect :: "(string \<Rightarrow> string) \<Rightarrow> network_config \<Rightarrow> string \<Rightarrow> 'w \<Rightarrow> 'w run" where
  "run_nft_inspect dbg conf token_id w =
     (case nc_nft conf of
        None \<Rightarrow> fail_with ''NFT contract ID not configured'' w
      | Some nft \<Rightarrow>
          reporting dbg (''ERROR: Failed to inspect token '' @ token_id) (answer (get_nft_record token_id) w) (\<lambda>r w'.
            finish [''Token '' @ token_id, ''  Owner: '' @ ni_owner r,
              ''  Metadata URI: '' @ (case ni_metadata_uri r of Some u \<Rightarrow> u | None \<Rightarrow> ''[NONE]''), ''  NFT: '' @ nft] w'))"

text \<open>The quote expects a registrar: without one it panics.\<close>

definition run_quote :: "'w host \<Rightarrow> (string \<Rightarrow> string) \<Rightarrow> network_config \<Rightarrow> string \<Rightarrow> u32 \<Rightarrow> 'w \<Rightarrow> 'w run" where
  "run_quote h dbg conf label duration_years w =
     (case nc_registrar conf of
        None \<Rightarrow> (Inl Trap, w)
      | Some registrar \<Rightarrow>
          reporting dbg ''ERROR: Failed to fetch registration quote''
            (sdk_quote_registration h (with_registrar (cli_client conf) registrar) label duration_years w) (\<lambda>q w'.
              (let b = sq_fee_breakdown q; amount = (\<lambda>n. show_word n @ '' '' @ sq_fee_currency q) in
               finish ([''Quote for '' @ label @ ''.xlm ('' @ show_word duration_years @ '' year(s)):'',
                 ''  Registrar:      '' @ registrar, '''', ''  Fee breakdown:'',
                 ''    Base fee:     '' @ amount (fee_base b), ''    Premium fee:  '' @ amount (fee_premium b),
                 ''    Network fee:  '' @ amount (fee_network b), ''    Total:        '' @ amount (sq_total_fee q), '''',
                 ''  Lifecycle timestamps:'', ''    Quoted at:    '' @ show_word (sq_quoted_at q),
                 ''    Expires at:   '' @ show_word (sq_expires_at q)]
                 @ (case sq_contract_id q of Some i \<Rightarrow> [''  Quote contract: '' @ i] | None \<Rightarrow> [])
                 @ ['''', ''(This is a read-only price estimate. No transaction has been submitted.)'']) w')))"

section \<open>Writing\<close>

definition run_text_set ::
    "'w host \<Rightarrow> (string \<Rightarrow> string) \<Rightarrow> network_config \<Rightarrow> string \<Rightarrow> string \<Rightarrow> string option \<Rightarrow> signer_profile option \<Rightarrow> 'w \<Rightarrow> 'w run" where
  "run_text_set h dbg conf name key value signer w =
     calling dbg ''Failed to update text record''
       (sdk_set_text_record h (cli_client conf) name key value (map_option sp_name signer) w) (\<lambda>s w'.
         finish (signer_lines signer @ [''SUCCESS: text record update submitted'', status_line s, hash_line s]) w')"

definition run_transfer ::
    "'w host \<Rightarrow> (string \<Rightarrow> string) \<Rightarrow> network_config \<Rightarrow> string \<Rightarrow> string \<Rightarrow> signer_profile option \<Rightarrow> 'w \<Rightarrow> 'w run" where
  "run_transfer h dbg conf name new_owner signer w =
     calling dbg ''Failed to submit transfer''
       (sdk_transfer h (cli_client conf) name new_owner (map_option sp_name signer) w) (\<lambda>s w'.
         case get_registration h (cli_client conf) name w' of
           (Inl Trap, w2) \<Rightarrow> (Inl Trap, w2)
         | (reg, w2) \<Rightarrow>
             (let verified = (case reg of Inr (Some r) \<Rightarrow> rres_address r | _ \<Rightarrow> None) in
              finish ([''Initiating transfer of '' @ name @ '' to '' @ new_owner @ ''...''] @ signer_lines signer
                @ [''SUCCESS: '' @ name @ '' ownership transferred to '' @ new_owner, status_line s, hash_line s,
                   case verified of Some a \<Rightarrow> ''Verified: Current owner is now '' @ a
                   | None \<Rightarrow> ''Warning: Could not verify ownership change immediately.'']) w2))"

text \<open>\<open>years as u32\<close> keeps the low 32 bits.\<close>

definition run_renew ::
    "'w host \<Rightarrow> (string \<Rightarrow> string) \<Rightarrow> network_config \<Rightarrow> string \<Rightarrow> u64 \<Rightarrow> signer_profile option \<Rightarrow> 'w \<Rightarrow> 'w run" where
  "run_renew h dbg conf name years signer w =
     (case nc_registrar conf of
        None \<Rightarrow> fail_with ''Registrar contract ID not configured'' w
      | Some registrar \<Rightarrow>
          (let client = with_registrar (cli_client conf) registrar in
           calling dbg ''Failed to fetch registration state'' (get_registration h client name w) (\<lambda>registration w1.
             case registration of
               None \<Rightarrow> fail_with (''Name '' @ quoted name @ '' is not registered and cannot be renewed.'') w1
             | Some _ \<Rightarrow>
                 calling dbg ''Failed to renew name''
                   (sdk_renew h client \<lparr>nreq_name = name, nreq_additional_years = ucast years,
                      nreq_signer = map_option sp_name signer\<rparr> w1) (\<lambda>r w2.
                     finish (signer_lines signer @ [''SUCCESS: Renewed '' @ name @ '' for '' @ show_word years @ '' year(s)'',
                       ''  Fee Paid: '' @ show_word (nrec_fee_paid r) @ '' XLM'', ''  New Expiry: '' @ show_word (nrec_new_expiry r),
                       status_line (nrec_submission r), hash_line (nrec_submission r)]) w2))))"

section \<open>Auctions, routes and subdomains\<close>

definition default_treasury :: string where
  "default_treasury = CHR ''G'' # replicate 55 CHR ''A''"

definition run_auction_create ::
    "'w host \<Rightarrow> (string \<Rightarrow> string) \<Rightarrow> network_config \<Rightarrow> string \<Rightarrow> u64 \<Rightarrow> u64 \<Rightarrow> signer_profile option \<Rightarrow> 'w \<Rightarrow> 'w run" where
  "run_auction_create h dbg conf name reserve duration signer w =
     (let treasury = (case signer of Some p \<Rightarrow> sp_public_address p | None \<Rightarrow> default_treasury) in
      calling dbg ''Failed to create auction''
        (sdk_create_auction h (cli_client conf) name ''XLM'' treasury reserve duration (map_option sp_name signer) w) (\<lambda>s w'.
          finish ([''Creating auction for '' @ name @ ''...''] @ signer_lines signer
            @ [''SUCCESS: auction created for '' @ name, ''  Reserve: '' @ show_word reserve @ '' XLM'',
               ''  Duration: '' @ show_word duration @ ''s'', hash_line s]) w'))"

definition run_auction_bid ::
    "'w host \<Rightarrow> (string \<Rightarrow> string) \<Rightarrow> network_config \<Rightarrow> string \<Rightarrow> u64 \<Rightarrow> signer_profile option \<Rightarrow> 'w \<Rightarrow> 'w run" where
  "run_auction_bid h dbg conf name amount signer w =
     calling dbg ''Failed to place bid'' (sdk_bid_auction h (cli_client conf) name amount (map_option sp_name signer) w) (\<lambda>s w'.
       finish ([''Placing bid of '' @ show_word amount @ '' XLM on '' @ name @ ''...''] @ signer_lines signer
         @ [''SUCCESS: bid placed on '' @ name, hash_line s]) w')"

definition run_auction_inspect :: "(string \<Rightarrow> string) \<Rightarrow> string \<Rightarrow> 'w \<Rightarrow> 'w run" where
  "run_auction_inspect dbg name w =
     calling dbg ''Failed to fetch auction state'' (answer (sdk_get_auction name) w) (\<lambda>a w'.
       case a of
         None \<Rightarrow> fail_with (''No active auction found for '' @ quoted name) w'
       | Some i \<Rightarrow>
           finish ([''Auction for '' @ ai_name i @ '':'', ''  Status: '' @ display_auction_status (ai_status i),
             ''  Owner: '' @ ai_owner i, ''  Reserve Price: '' @ show_word (ai_reserve_price i) @ '' XLM'',
             ''  Highest Bid: '' @ show_word (ai_highest_bid i) @ '' XLM'']
             @ (case ai_highest_bidder i of Some b \<Rightarrow> [''  Highest Bidder: '' @ b] | None \<Rightarrow> [])
             @ [''  Ends at: '' @ show_word (ai_ends_at i)]) w')"

definition run_auction_settle ::
    "'w host \<Rightarrow> (string \<Rightarrow> string) \<Rightarrow> network_config \<Rightarrow> string \<Rightarrow> signer_profile option \<Rightarrow> 'w \<Rightarrow> 'w run" where
  "run_auction_settle h dbg conf name signer w =
     calling dbg ''Failed to settle auction'' (sdk_settle_auction h (cli_client conf) name (map_option sp_name signer) w) (\<lambda>s w'.
       finish ([''Settling auction for '' @ name @ ''...''] @ signer_lines signer
         @ [''SUCCESS: auction settled for '' @ name, hash_line s]) w')"

definition run_register_chain :: "'w host \<Rightarrow> (string \<Rightarrow> string) \<Rightarrow> network_config \<Rightarrow> string \<Rightarrow> 'w \<Rightarrow> 'w run" where
  "run_register_chain h dbg conf chain w =
     calling dbg ''Failed to register chain'' (sdk_register_chain h (cli_client conf) chain w) (\<lambda>_.
       finish [''SUCCESS: registered bridge route for chain '' @ chain])"

definition run_inspect_route :: "'w host \<Rightarrow> (string \<Rightarrow> string) \<Rightarrow> network_config \<Rightarrow> string \<Rightarrow> 'w \<Rightarrow> 'w run" where
  "run_inspect_route h dbg conf chain w =
     calling dbg ''Failed to inspect route'' (answer (sdk_get_route h (cli_client conf) chain) w) (\<lambda>r w'.
       case r of
         None \<Rightarrow> fail_with (''No route found for chain '' @ quoted chain) w'
       | Some route \<Rightarrow>
           finish [''Bridge route for chain '' @ quoted chain @ '':'', ''  Chain: '' @ br_destination_chain route,
             ''  Gateway: '' @ br_gateway route, ''  Resolver: '' @ br_destination_resolver route] w')"

definition run_generate_payload :: "'w host \<Rightarrow> (string \<Rightarrow> string) \<Rightarrow> network_config \<Rightarrow> string \<Rightarrow> string \<Rightarrow> 'w \<Rightarrow> 'w run" where
  "run_generate_payload h dbg conf name chain w =
     calling dbg ''Failed to generate payload'' (answer (sdk_build_message h (cli_client conf) name chain) w) (\<lambda>payload.
       finish [''Generated payload for '' @ quoted name @ '' on chain '' @ quoted chain @ '':'', payload])"

definition run_register_parent :: "'w host \<Rightarrow> (string \<Rightarrow> string) \<Rightarrow> network_config \<Rightarrow> string \<Rightarrow> string \<Rightarrow> 'w \<Rightarrow> 'w run" where
  "run_register_parent h dbg conf parent owner w =
     calling dbg ''Failed to register parent domain'' (sdk_register_parent h (cli_client conf) parent owner False w) (\<lambda>s.
       finish [''SUCCESS: registered parent domain '' @ parent @ '' with owner '' @ owner, hash_line s])"

definition run_add_controller :: "'w host \<Rightarrow> (string \<Rightarrow> string) \<Rightarrow> network_config \<Rightarrow> string \<Rightarrow> string \<Rightarrow> 'w \<Rightarrow> 'w run" where
  "run_add_controller h dbg conf parent controller w =
     calling dbg ''Failed to add controller'' (sdk_add_controller h (cli_client conf) parent controller False w) (\<lambda>s.
       finish [''SUCCESS: added controller '' @ controller @ '' to parent domain '' @ parent, hash_line s])"

definition run_create_subdomain ::
    "'w host \<Rightarrow> (string \<Rightarrow> string) \<Rightarrow> network_config \<Rightarrow> string \<Rightarrow> string \<Rightarrow> string \<Rightarrow> 'w \<Rightarrow> 'w run" where
  "run_create_subdomain h dbg conf label parent owner w =
     calling dbg ''Failed to create subdomain'' (sdk_create_subdomain h (cli_client conf) label parent owner False w) (\<lambda>s.
       finish [''SUCCESS: created subdomain '' @ label @ ''.'' @ parent @ '' with owner '' @ owner, hash_line s])"

definition run_transfer_subdomain :: "'w host \<Rightarrow> (string \<Rightarrow> string) \<Rightarrow> network_config \<Rightarrow> string \<Rightarrow> string \<Rightarrow> 'w \<Rightarrow> 'w run" where
  "run_transfer_subdomain h dbg conf fqdn new_owner w =
     calling dbg ''Failed to transfer subdomain'' (sdk_transfer_subdomain h (cli_client conf) fqdn new_owner False w) (\<lambda>s.
       finish [''SUCCESS: transferred subdomain '' @ fqdn @ '' to new owner '' @ new_owner, hash_line s])"

section \<open>The health check\<close>

definition pad :: "nat \<Rightarrow> string \<Rightarrow> string" where
  "pad n s = s @ replicate (n - length s) CHR '' ''"

definition dash :: string where
  "dash = CHR '' '' # CHR 0xE2 # CHR 0x80 # CHR 0x94 # '' ''"

definition health_checks ::
    "'w host \<Rightarrow> (string \<Rightarrow> string) \<Rightarrow> network_config \<Rightarrow> 'w \<Rightarrow> (sdk_error, (string \<times> bool \<times> string) list) result \<times> 'w" where
  "health_checks h dbg conf w =
     (let passphrase_ok = nc_network_passphrase conf \<noteq> [];
          probe = (cli_client conf)
            \<lparr>registry_contract_id := Some (case nc_registry conf of Some i \<Rightarrow> i | None \<Rightarrow> ''HEALTHCHECK_PROBE'')\<rparr>;
          rest = (\<lambda>rpc_ok rpc_detail.
            [(''config'', True, ''network='' @ network_str (nc_network conf)),
             (''passphrase'', passphrase_ok,
              if passphrase_ok then nc_network_passphrase conf else ''empty'' @ dash @ ''network passphrase is not set''),
             (''rpc'', rpc_ok, rpc_detail)]) in
      case get_registration h probe ''healthcheck-probe.xlm'' w of
        (Inl Trap, w') \<Rightarrow> (Inl Trap, w')
      | (Inr _, w') \<Rightarrow> (Inr (rest True (''reachable'' @ dash @ nc_rpc_url conf)), w')
      | (Inl (Err (Transport msg)), w') \<Rightarrow> (Inr (rest False (''unreachable'' @ dash @ msg)), w')
      | (Inl (Err err), w') \<Rightarrow> (Inr (rest True (''reachable ('' @ display_sdk_error dbg err @ '')'')), w'))"

definition run_healthcheck :: "'w host \<Rightarrow> (string \<Rightarrow> string) \<Rightarrow> network_config \<Rightarrow> 'w \<Rightarrow> 'w run" where
  "run_healthcheck h dbg conf w =
     calling dbg [] (health_checks h dbg conf w) (\<lambda>checks w'.
       (let all_ok = list_all (\<lambda>(_, ok, _). ok) checks;
            ls = [''Healthcheck ['' @ (if all_ok then ''OK'' else ''DEGRADED'') @ '']'' @ dash @ ''network=''
                    @ network_str (nc_network conf), '''', ''  Checks:'']
              @ map (\<lambda>(name, ok, detail). ''    ['' @ (if ok then ''PASS'' else ''FAIL'') @ '']  '' @ pad 12 name @ ''  '' @ detail) checks
              @ ['''', ''  Contracts:'']
              @ map (\<lambda>kind. ''    '' @ pad 22 (flag_name kind) @ ''  ''
                    @ (case contract_id conf kind of Some i \<Rightarrow> i | None \<Rightarrow> ''[not configured]'')) all_kinds in
        if all_ok then finish ls w' else fail_with ''healthcheck reported a degraded status'' w'))"

end
