(* ===== verification/Cli_Register.thy ===== *)
theory Cli_Register
  imports Cli_Actions
begin

text \<open>
  The command \<open>register\<close> (\<open>cli/src/commands/register.rs\<close>) and its questions at the terminal. \<open>t_read_line\<close> is one line of standard input, or the
  error of reading it; at the end of the input a line is empty. Writing to the terminal is taken to succeed. A run that asks again for
  ever has the value \<open>None\<close>.
\<close>

record 'w terminal =
  t_tty :: bool
  t_read_line :: "'w \<Rightarrow> (string + string) \<times> 'w"

section \<open>Inputs\<close>

definition normalize_label :: "string \<Rightarrow> cli_error + string" where
  "normalize_label value =
     (let trimmed = trim value;
          label = (case strip_suffix ''.xlm'' trimmed of Some l \<Rightarrow> l | None \<Rightarrow> trimmed) in
      case validate_label label of
        Inl err \<Rightarrow> Inl (policy_error (''invalid name: '' @ display_common_error err))
      | Inr _ \<Rightarrow> Inr label)"

definition normalize_owner :: "string \<Rightarrow> cli_error + string" where
  "normalize_owner value =
     (let trimmed = trim value in
      case validate_account_address trimmed of
        Inl err \<Rightarrow> Inl (policy_error (''invalid owner address: '' @ display_common_error err))
      | Inr _ \<Rightarrow> Inr trimmed)"

text \<open>The question for a text, with its default, until an answer is valid.\<close>

partial_function (option) prompt_text ::
    "('w \<Rightarrow> (string + string) \<times> 'w) \<Rightarrow> (string \<Rightarrow> cli_error + string) \<Rightarrow> string option \<Rightarrow> 'w
       \<Rightarrow> ((cli_error + string) \<times> 'w) option" where
  "prompt_text read validate existing w =
     (case (case existing of None \<Rightarrow> Inr [] | Some v \<Rightarrow> validate v) of
        Inl e \<Rightarrow> Some (Inl e, w)
      | Inr default_value \<Rightarrow>
          (case read w of
             (Inl e, w') \<Rightarrow> Some (Inl (chain_error ''Failed to read response'' e), w')
           | (Inr input, w') \<Rightarrow>
               if trim input = [] then
                 (if default_value \<noteq> [] then Some (Inr default_value, w') else prompt_text read validate existing w')
               else
                 (case validate (trim input) of
                    Inr valid \<Rightarrow> Some (Inr valid, w')
                  | Inl _ \<Rightarrow> prompt_text read validate existing w')))"

partial_function (option) prompt_confirm ::
    "('w \<Rightarrow> (string + string) \<times> 'w) \<Rightarrow> 'w \<Rightarrow> ((cli_error + bool) \<times> 'w) option" where
  "prompt_confirm read w =
     (case read w of
        (Inl e, w') \<Rightarrow> Some (Inl (chain_error ''Failed to read confirmation'' e), w')
      | (Inr input, w') \<Rightarrow>
          (let reply = to_ascii_lowercase (trim input) in
           if reply \<in> {''y'', ''yes''} then Some (Inr True, w')
           else if reply \<in> {'''', ''n'', ''no''} then Some (Inr False, w')
           else prompt_confirm read w'))"

definition prompt_registration_inputs ::
    "('w \<Rightarrow> (string + string) \<times> 'w) \<Rightarrow> string option \<Rightarrow> string option \<Rightarrow> 'w \<Rightarrow> ((cli_error, string \<times> string) result \<times> 'w) option" where
  "prompt_registration_inputs read name owner w =
     (case prompt_text read normalize_label name w of
        None \<Rightarrow> None
      | Some (Inl e, w1) \<Rightarrow> Some (Inl (Err e), w1)
      | Some (Inr label, w1) \<Rightarrow>
          (case prompt_text read normalize_owner owner w1 of
             None \<Rightarrow> None
           | Some (Inl e, w2) \<Rightarrow> Some (Inl (Err e), w2)
           | Some (Inr who, w2) \<Rightarrow> Some (Inr (label, who), w2)))"

text \<open>Without questions; a missing argument would be a panic of \<open>expect\<close>.\<close>

definition direct_inputs :: "string option \<Rightarrow> string option \<Rightarrow> (cli_error, string \<times> string) result" where
  "direct_inputs name owner =
     (case name of
        None \<Rightarrow> Inl Trap
      | Some n \<Rightarrow>
          (case normalize_label n of
             Inl e \<Rightarrow> Inl (Err e)
           | Inr label \<Rightarrow>
               (case owner of
                  None \<Rightarrow> Inl Trap
                | Some who \<Rightarrow>
                    (case normalize_owner who of Inl e \<Rightarrow> Inl (Err e) | Inr a \<Rightarrow> Inr (label, a)))))"

section \<open>The registration\<close>

definition next_stage ::
    "(cli_error, 'a) result \<times> 'w \<Rightarrow> ('a \<Rightarrow> 'w \<Rightarrow> ((cli_error, 'b) result \<times> 'w) option) \<Rightarrow> ((cli_error, 'b) result \<times> 'w) option" where
  "next_stage r f = (case r of (Inl e, w) \<Rightarrow> Some (Inl e, w) | (Inr a, w) \<Rightarrow> f a w)"

definition check_unregistered ::
    "'w host \<Rightarrow> (string \<Rightarrow> string) \<Rightarrow> sdk_client \<Rightarrow> string \<Rightarrow> bool \<Rightarrow> 'w \<Rightarrow> (cli_error, unit) result \<times> 'w" where
  "check_unregistered h dbg client label interactive w =
     (if interactive then
        calling dbg ''Failed to check name availability'' (get_registration h client (label @ ''.xlm'') w) (\<lambda>r w'.
          case r of
            Some _ \<Rightarrow> (Inl (Err (policy_error (''name '' @ label @ ''.xlm is already registered''))), w')
          | None \<Rightarrow> (Inr (), w'))
      else (Inr (), w))"

definition confirm_payment ::
    "('w \<Rightarrow> (string + string) \<times> 'w) \<Rightarrow> bool \<Rightarrow> 'w \<Rightarrow> ((cli_error, unit) result \<times> 'w) option" where
  "confirm_payment read interactive w =
     (if interactive then
        (case prompt_confirm read w of
           None \<Rightarrow> None
         | Some (Inl e, w') \<Rightarrow> Some (Inl (Err e), w')
         | Some (Inr confirmed, w') \<Rightarrow>
             Some ((if confirmed then Inr () else Inl (Err (policy_error ''registration aborted by user''))), w'))
      else Some (Inr (), w))"

definition registered_lines ::
    "string \<Rightarrow> string \<Rightarrow> u32 \<Rightarrow> signer_profile option \<Rightarrow> sdk_quote \<Rightarrow> registration_receipt \<Rightarrow> string list" where
  "registered_lines label registrar duration_years signer q r =
     (let b = sq_fee_breakdown q in
      [''Registration quote for '' @ label @ ''.xlm:'', ''  Registrar: '' @ registrar,
       ''  Fee: '' @ show_word (sq_total_fee q) @ '' '' @ sq_fee_currency q @ '' (base '' @ show_word (fee_base b) @ '', premium ''
         @ show_word (fee_premium b) @ '', network '' @ show_word (fee_network b) @ '')'',
       ''  Duration: '' @ show_word duration_years @ '' year(s)'', ''  Expiry: '' @ show_word (sq_expires_at q)]
      @ signer_lines signer
      @ ['''', ''SUCCESS: registered '' @ rrec_name r @ '' to '' @ rrec_owner r,
         ''  Fee paid: '' @ show_word (rrec_fee_paid r) @ '' '' @ sq_fee_currency q,
         ''  Expires at: '' @ show_word (rrec_expires_at r), status_line (rrec_submission r), hash_line (rrec_submission r)])"

definition submit_registration ::
    "'w host \<Rightarrow> (string \<Rightarrow> string) \<Rightarrow> 'w terminal \<Rightarrow> sdk_client \<Rightarrow> string \<Rightarrow> signer_profile option \<Rightarrow> bool \<Rightarrow> string \<Rightarrow> string \<Rightarrow> 'w
       \<Rightarrow> ('w run) option" where
  "submit_registration h dbg t client registrar signer interactive label owner w =
     next_stage (check_unregistered h dbg client label interactive w) (\<lambda>_ w1.
     next_stage (calling dbg ''Failed to fetch registration quote'' (sdk_quote_registration h client label 1 w1) (\<lambda>q w. (Inr q, w))) (\<lambda>q w2.
     case confirm_payment (t_read_line t) interactive w2 of
       None \<Rightarrow> None
     | Some confirmed \<Rightarrow> next_stage confirmed (\<lambda>_ w3. Some (
         calling dbg ''Failed to submit registration''
           (sdk_register h client \<lparr>rreq_label = label, rreq_owner = owner, rreq_duration_years = 1,
              rreq_signer = map_option sp_name signer\<rparr> w3) (\<lambda>r.
             finish (registered_lines label registrar 1 signer q r))))))"

definition run_register ::
    "'w host \<Rightarrow> (string \<Rightarrow> string) \<Rightarrow> 'w terminal \<Rightarrow> os \<Rightarrow> network_config \<Rightarrow> string option \<Rightarrow> string option \<Rightarrow> signer_profile option \<Rightarrow> bool
       \<Rightarrow> 'w \<Rightarrow> ('w run) option" where
  "run_register h dbg t os conf name owner signer interactive w =
     (case nc_registrar conf of
        None \<Rightarrow> Some (fail_with ''Registrar contract ID not configured'' w)
      | Some registrar \<Rightarrow>
          (let client = with_registrar (cli_client conf) registrar;
               tty_available = (t_tty t \<or> os_env os ''XLM_NS_FORCE_INTERACTIVE'' \<noteq> None);
               need_prompt = (interactive \<or> name = None \<or> owner = None);
               should_prompt = (need_prompt \<and> tty_available) in
           if need_prompt \<and> \<not> tty_available \<and> (name = None \<or> owner = None) then
             Some (fail_with ''interactive registration requires a TTY; provide both name and owner explicitly or run in a terminal'' w)
           else
             case (if should_prompt then prompt_registration_inputs (t_read_line t) name owner w
                   else Some (direct_inputs name owner, w)) of
               None \<Rightarrow> None
             | Some inputs \<Rightarrow>
                 next_stage inputs (\<lambda>(label, who). submit_registration h dbg t client registrar signer interactive label who)))"

section \<open>The questions\<close>

text \<open>What a question answers was accepted by its check.\<close>

lemma prompt_text_valid:
  assumes "prompt_text read validate existing w = Some (Inr v, w')"
  shows "\<exists>x. validate x = Inr v"
proof -
  have "\<forall>v. fst y = Inr v \<longrightarrow> (\<exists>x. validate x = Inr v)" if "prompt_text read validate existing w = Some y" for y
  proof (rule prompt_text.raw_induct [where P = "\<lambda>read validate existing w y. \<forall>v. fst y = Inr v \<longrightarrow> (\<exists>x. validate x = Inr v)",
      OF _ that], goal_cases)
    case (1 f read validate existing w y)
    then show ?case by (auto split: option.splits sum.splits prod.splits if_splits)
  qed
  from this [OF assms] show ?thesis by simp
qed

text \<open>Without a default a question waits for an answer, also when the input has ended.\<close>

lemma prompt_text_waits:
  assumes "\<And>w. \<exists>w'. read w = (Inr [], w')"
  shows "prompt_text read validate None w = None"
proof (rule ccontr)
  let ?ended = "\<lambda>read :: 'a \<Rightarrow> (string + string) \<times> 'a. \<forall>w. \<exists>w'. read w = (Inr [], w')"
  assume "prompt_text read validate None w \<noteq> None"
  then obtain y where y: "prompt_text read validate None w = Some y" by blast
  have "\<not> (?ended read \<and> (None :: string option) = None)"
  proof (rule prompt_text.raw_induct [where P = "\<lambda>read validate existing w y. \<not> (?ended read \<and> existing = None)", OF _ y], goal_cases)
    case (1 f read validate existing w y)
    show ?case
    proof
      assume ended: "?ended read \<and> existing = None"
      then obtain w' where "read w = (Inr [], w')" by blast
      with 1(2) ended have "f read validate existing w' = Some y" by (simp add: trim_def trim_start.simps)
      with 1(1) ended show False by blast
    qed
  qed
  with assms show False by blast
qed

text \<open>The lines of a file as the input.\<close>

fun file_lines :: "string list \<Rightarrow> (string + string) \<times> string list" where
  "file_lines [] = (Inr [], [])"
| "file_lines (l # ls) = (Inr l, ls)"

lemma prompt_text_first:
  assumes "list_all (\<lambda>l. trim l = [] \<or> isl (validate (trim l))) skipped" and "trim l \<noteq> []" and "validate (trim l) = Inr v"
  shows "prompt_text file_lines validate None (skipped @ l # rest) = Some (Inr v, rest)"
  using assms(1)
proof (induction skipped)
  case Nil
  show ?case by (subst prompt_text.simps) (simp add: assms(2,3))
next
  case (Cons s skipped)
  then show ?case by (subst prompt_text.simps) (auto split: sum.split)
qed

section \<open>Guided registration\<close>

lemma check_unregistered_known:
  assumes "label \<noteq> ''notfound''"
  shows "\<exists>e w'. check_unregistered h dbg client label True w = (Inl e, w')"
proof -
  have "label @ ''.xlm'' \<noteq> ''notfound'' @ ''.xlm''" using assms by (simp only: append_same_eq) simp
  then have "label @ ''.xlm'' \<noteq> ''notfound.xlm''" by simp
  then show ?thesis
    by (auto simp: check_unregistered_def calling_def get_registration_def try_step_def
        split: prod.split sum.split failure.split option.split)
qed

lemma guided_submission_refused:
  assumes "label \<noteq> ''notfound''"
  shows "\<exists>e w'. submit_registration h dbg t client registrar signer True label owner w = Some (Inl e, w')"
  using check_unregistered_known [OF assms, of h dbg client w] by (auto simp: submit_registration_def next_stage_def)

lemma submit_registration_text:
  assumes "submit_registration h dbg t client registrar signer interactive label owner w = Some (Inr out, w')"
  shows "\<exists>rest. out = ''Registration quote for '' @ label @ ''.xlm:'' @ rest"
  using assms
  by (auto simp: submit_registration_def next_stage_def calling_def finish_def registered_lines_def Let_def
      split: prod.splits sum.splits failure.splits option.splits)

end
