(* ===== verification/Cli_Bulk.thy ===== *)
theory Cli_Bulk
  imports Cli_Actions
begin

text \<open>
  The bulk commands (\<open>cli/src/commands/bulk.rs\<close>): one registration or renewal per record of a file. Opening a file and the parsers of CSV
  and JSON are parameters. The locale \<open>bulk_step\<close> is what the loop over the records relies on; both commands interpret it.
\<close>

section \<open>Files\<close>

record bulk_record =
  bk_name :: string
  bk_duration :: u64
  bk_owner :: string

record renew_record =
  rn_name :: string
  rn_duration :: u64

record 'r bulk_files =
  bf_open :: "string \<Rightarrow> string + string"
  bf_csv :: "string \<Rightarrow> string + 'r list"
  bf_json :: "string \<Rightarrow> string + 'r list"

definition read_records :: "'r bulk_files \<Rightarrow> string \<Rightarrow> cli_error + 'r list" where
  "read_records files file =
     (if path_extension file = Some ''csv'' then
        (case bf_open files file of
           Inl e \<Rightarrow> Inl (chain_error ''Failed to open file'' e)
         | Inr content \<Rightarrow>
             (case bf_csv files content of
                Inl e \<Rightarrow> Inl (chain_error ''Failed to deserialize CSV record'' e) | Inr rs \<Rightarrow> Inr rs))
      else if path_extension file = Some ''json'' then
        (case bf_open files file of
           Inl e \<Rightarrow> Inl (chain_error ''Failed to open file'' e)
         | Inr content \<Rightarrow>
             (case bf_json files content of
                Inl e \<Rightarrow> Inl (chain_error ''Failed to deserialize JSON'' e) | Inr rs \<Rightarrow> Inr rs))
      else Inl (policy_error ''Unsupported file format. Please use a .csv or .json file.''))"

section \<open>The loop\<close>

text \<open>A failed record is a line of the output; only a panic ends the loop.\<close>

fun bulk_each ::
    "('r \<Rightarrow> 'w \<Rightarrow> (cli_error, string list) result \<times> 'w) \<Rightarrow> 'r list \<Rightarrow> 'w \<Rightarrow> (cli_error, string list) result \<times> 'w" where
  "bulk_each step [] w = (Inr [], w)"
| "bulk_each step (r # rs) w =
     (case step r w of
        (Inl e, w1) \<Rightarrow> (Inl e, w1)
      | (Inr ls, w1) \<Rightarrow>
          (case bulk_each step rs w1 of
             (Inl e, w2) \<Rightarrow> (Inl e, w2)
           | (Inr others, w2) \<Rightarrow> (Inr (ls @ others), w2)))"

definition receipt_lines :: "u64 \<Rightarrow> string \<Rightarrow> u64 \<Rightarrow> submission \<Rightarrow> string list" where
  "receipt_lines fee expiry_label expiry s =
     [''    Fee paid: '' @ show_word fee @ '' XLM'', ''    '' @ expiry_label @ '': '' @ show_word expiry,
      ''    Status: '' @ display_submission_status (sub_status s), ''    Transaction Hash: '' @ sub_tx_hash s]"

definition register_record ::
    "'w host \<Rightarrow> (string \<Rightarrow> string) \<Rightarrow> sdk_client \<Rightarrow> bulk_record \<Rightarrow> 'w \<Rightarrow> (cli_error, string list) result \<times> 'w" where
  "register_record h dbg client r w =
     (let heading = ''Registering '' @ bk_name r @ ''...'' in
      case sdk_register h client \<lparr>rreq_label = bk_name r, rreq_owner = bk_owner r, rreq_duration_years = ucast (bk_duration r),
             rreq_signer = None\<rparr> w of
        (Inr receipt, w') \<Rightarrow>
          (Inr ([heading, ''  - SUCCESS: registered '' @ rrec_name receipt @ '' to '' @ rrec_owner receipt]
             @ receipt_lines (rrec_fee_paid receipt) ''Expires at'' (rrec_expires_at receipt) (rrec_submission receipt)), w')
      | (Inl (Err e), w') \<Rightarrow>
          (Inr [heading, ''  - ERROR: Failed to register '' @ bk_name r @ '': '' @ display_sdk_error dbg e], w')
      | (Inl Trap, w') \<Rightarrow> (Inl Trap, w'))"

definition renew_record_of ::
    "'w host \<Rightarrow> (string \<Rightarrow> string) \<Rightarrow> sdk_client \<Rightarrow> renew_record \<Rightarrow> 'w \<Rightarrow> (cli_error, string list) result \<times> 'w" where
  "renew_record_of h dbg client r w =
     (let heading = ''Renewing '' @ rn_name r @ ''...'' in
      case sdk_renew h client \<lparr>nreq_name = rn_name r, nreq_additional_years = ucast (rn_duration r), nreq_signer = None\<rparr> w of
        (Inr receipt, w') \<Rightarrow>
          (Inr ([heading, ''  - SUCCESS: renewed '' @ nrec_name receipt]
             @ receipt_lines (nrec_fee_paid receipt) ''New expiry'' (nrec_new_expiry receipt) (nrec_submission receipt)), w')
      | (Inl (Err e), w') \<Rightarrow>
          (Inr [heading, ''  - ERROR: Failed to renew '' @ rn_name r @ '': '' @ display_sdk_error dbg e], w')
      | (Inl Trap, w') \<Rightarrow> (Inl Trap, w'))"

definition run_bulk_register ::
    "'w host \<Rightarrow> (string \<Rightarrow> string) \<Rightarrow> bulk_record bulk_files \<Rightarrow> network_config \<Rightarrow> string \<Rightarrow> bool \<Rightarrow> 'w \<Rightarrow> 'w run" where
  "run_bulk_register h dbg files conf file dry_run w =
     (case read_records files file of
        Inl e \<Rightarrow> (Inl (Err e), w)
      | Inr records \<Rightarrow>
          if dry_run then
            finish (''Dry run: The following names would be registered:''
              # map (\<lambda>r. ''  - Name: '' @ bk_name r @ '', Duration: '' @ show_word (bk_duration r) @ '', Owner: '' @ bk_owner r) records) w
          else
            (case nc_registrar conf of
               None \<Rightarrow> fail_with ''Registrar contract ID not configured'' w
             | Some registrar \<Rightarrow>
                 (case bulk_each (register_record h dbg (with_registrar (cli_client conf) registrar)) records w of
                    (Inl e, w') \<Rightarrow> (Inl e, w')
                  | (Inr ls, w') \<Rightarrow> finish ls w')))"

definition run_bulk_renew ::
    "'w host \<Rightarrow> (string \<Rightarrow> string) \<Rightarrow> renew_record bulk_files \<Rightarrow> network_config \<Rightarrow> string \<Rightarrow> bool \<Rightarrow> 'w \<Rightarrow> 'w run" where
  "run_bulk_renew h dbg files conf file dry_run w =
     (case read_records files file of
        Inl e \<Rightarrow> (Inl (Err e), w)
      | Inr records \<Rightarrow>
          if dry_run then
            finish (''Dry run: The following names would be renewed:''
              # map (\<lambda>r. ''  - Name: '' @ rn_name r @ '', Duration: '' @ show_word (rn_duration r)) records) w
          else
            (case nc_registrar conf of
               None \<Rightarrow> fail_with ''Registrar contract ID not configured'' w
             | Some registrar \<Rightarrow>
                 (case bulk_each (renew_record_of h dbg (with_registrar (cli_client conf) registrar)) records w of
                    (Inl e, w') \<Rightarrow> (Inl e, w')
                  | (Inr ls, w') \<Rightarrow> finish ls w')))"

section \<open>What the loop relies on\<close>

locale bulk_step =
  fixes step :: "'r \<Rightarrow> 'w \<Rightarrow> (cli_error, string list) result \<times> 'w"
    and view :: "'r \<Rightarrow> 'v"
  assumes no_error: "fst (step r w) \<noteq> Inl (Err e)"
    and by_view: "view r = view s \<Longrightarrow> step r = step s"
begin

lemma each_no_error: "fst (bulk_each step rs w) \<noteq> Inl (Err e)"
proof (induction rs arbitrary: w)
  case (Cons r rs)
  obtain a w1 where one: "step r w = (a, w1)" by fastforce
  obtain b w2 where rest: "bulk_each step rs w1 = (b, w2)" by fastforce
  show ?case using no_error [of r w] Cons.IH [of w1] by (cases a; cases b) (auto simp: one rest)
qed simp

lemma each_by_view: "map view rs = map view ss \<Longrightarrow> bulk_each step rs w = bulk_each step ss w"
proof (induction rs arbitrary: ss w)
  case (Cons r rs)
  then obtain s ss' where ss: "ss = s # ss'" "view r = view s" "map view rs = map view ss'" by auto
  then show ?case using Cons.IH [OF ss(3)] by_view [OF ss(2)] by (simp split: prod.split sum.split)
qed simp

lemma each_append:
  "bulk_each step (rs @ ss) w =
     (case bulk_each step rs w of
        (Inl e, w1) \<Rightarrow> (Inl e, w1)
      | (Inr ls, w1) \<Rightarrow> (case bulk_each step ss w1 of (Inl e, w2) \<Rightarrow> (Inl e, w2) | (Inr others, w2) \<Rightarrow> (Inr (ls @ others), w2)))"
  by (induction rs arbitrary: w) (auto split: prod.split sum.split)

end

text \<open>What a record asks of the client: its years are the low 32 bits of its duration.\<close>

definition registration_asked :: "bulk_record \<Rightarrow> string \<times> u32 \<times> string" where
  "registration_asked r = (bk_name r, ucast (bk_duration r), bk_owner r)"

definition renewal_asked :: "renew_record \<Rightarrow> string \<times> u32" where
  "renewal_asked r = (rn_name r, ucast (rn_duration r))"

interpretation registrations: bulk_step "register_record h dbg client" registration_asked
proof unfold_locales
  show "fst (register_record h dbg client r w) \<noteq> Inl (Err e)" for r w e
    by (auto simp: register_record_def Let_def split: prod.split sum.split failure.split)
  show "register_record h dbg client r = register_record h dbg client s" if "registration_asked r = registration_asked s" for r s
  proof -
    have "bk_name r = bk_name s" "ucast (bk_duration r) = (ucast (bk_duration s) :: u32)" "bk_owner r = bk_owner s"
      using that unfolding registration_asked_def prod.inject by blast+
    then show ?thesis by (intro ext) (simp only: register_record_def)
  qed
qed

interpretation renewals: bulk_step "renew_record_of h dbg client" renewal_asked
proof unfold_locales
  show "fst (renew_record_of h dbg client r w) \<noteq> Inl (Err e)" for r w e
    by (auto simp: renew_record_of_def Let_def split: prod.split sum.split failure.split)
  show "renew_record_of h dbg client r = renew_record_of h dbg client s" if "renewal_asked r = renewal_asked s" for r s
  proof -
    have "rn_name r = rn_name s" "ucast (rn_duration r) = (ucast (rn_duration s) :: u32)"
      using that unfolding renewal_asked_def prod.inject by blast+
    then show ?thesis by (intro ext) (simp only: renew_record_of_def)
  qed
qed

section \<open>Properties\<close>

text \<open>
  A bulk run answers for every record, in the order of the file, and goes on after a failure: whatever the client answers, the
  command itself does not fail, so that a file whose every record was refused ends like one whose every record was registered.
\<close>

theorem bulk_register_goes_on:
  assumes "read_records files file = Inr (rs @ ss)" and "nc_registrar conf = Some i"
    and "bulk_each (register_record h dbg (with_registrar (cli_client conf) i)) rs w = (Inr ls, w1)"
    and "bulk_each (register_record h dbg (with_registrar (cli_client conf) i)) ss w1 = (Inr others, w2)"
  shows "run_bulk_register h dbg files conf file False w = finish (ls @ others) w2
    \<and> fst (run_bulk_register h dbg files conf file False w) \<noteq> Inl (Err e)"
  using registrations.each_append [of h dbg "with_registrar (cli_client conf) i" rs ss w]
  by (simp add: run_bulk_register_def assms finish_def)

text \<open>
  Durations are cut to 32 bits: two files whose names and owners agree and whose durations agree modulo \<open>2 ^ 32\<close> are the same
  to \<open>bulk register\<close>; 4294967297 years are registered, and paid for, as one.
\<close>

theorem bulk_register_truncates:
  assumes "read_records files file = Inr rs" and "read_records files other = Inr ss"
    and "map (\<lambda>r. (bk_name r, unat (bk_duration r) mod 2 ^ 32, bk_owner r)) rs
      = map (\<lambda>r. (bk_name r, unat (bk_duration r) mod 2 ^ 32, bk_owner r)) ss"
  shows "run_bulk_register h dbg files conf file False w = run_bulk_register h dbg files conf other False w"
proof -
  have cut: "(ucast d :: u32) = of_nat (unat d mod 2 ^ 32)" for d :: u64
  proof -
    have "take_bit 32 (unat d) = take_bit 32 (unat d mod 2 ^ 32)" by (simp add: take_bit_eq_mod)
    then have "(of_nat (unat d) :: u32) = of_nat (unat d mod 2 ^ 32)" unfolding word_of_nat_eq_iff by simp
    then show ?thesis by (simp only: of_nat_unat)
  qed
  let ?cut = "\<lambda>r. (bk_name r, unat (bk_duration r) mod 2 ^ 32, bk_owner r)"
  have "registration_asked r = (\<lambda>(n, d, a). (n, of_nat d, a)) (?cut r)" for r
    unfolding registration_asked_def cut [of "bk_duration r"] prod.case ..
  then have "registration_asked = (\<lambda>(n, d, a). (n, of_nat d, a)) \<circ> ?cut" by (intro ext) (simp only: comp_apply)
  then have "map registration_asked rs = map (\<lambda>(n, d, a). (n, of_nat d, a)) (map ?cut rs)" for rs by (simp only: map_map)
  then have "map registration_asked rs = map registration_asked ss" by (simp only: assms(3))
  note same = registrations.each_by_view [OF this]
  show ?thesis by (cases "nc_registrar conf") (simp_all only: run_bulk_register_def assms(1,2) sum.case if_False option.case same)
qed

definition sample_files :: "bulk_record bulk_files" where
  "sample_files =
     \<lparr>bf_open = (\<lambda>p. Inr p), bf_csv = (\<lambda>_. Inl []),
      bf_json = (\<lambda>c. Inr [\<lparr>bk_name = ''alice'', bk_duration = (if c = ''a.json'' then 4294967297 else 1), bk_owner = ''G''\<rparr>])\<rparr>"

theorem bulk_register_truncates_witness:
  "(2 ^ 32 + 1) mod 2 ^ 32 = (1 :: nat)
   \<and> run_bulk_register h dbg sample_files conf ''a.json'' False w = run_bulk_register h dbg sample_files conf ''b.json'' False w"
proof
  have ext: "path_extension ''a.json'' = Some ''json''" "path_extension ''b.json'' = Some ''json''" by code_simp+
  show "run_bulk_register h dbg sample_files conf ''a.json'' False w = run_bulk_register h dbg sample_files conf ''b.json'' False w"
    by (rule bulk_register_truncates [where rs = "[\<lparr>bk_name = ''alice'', bk_duration = 4294967297, bk_owner = ''G''\<rparr>]"
          and ss = "[\<lparr>bk_name = ''alice'', bk_duration = 1, bk_owner = ''G''\<rparr>]"])
      (simp_all add: read_records_def ext sample_files_def)
qed simp

end
