(* ===== verification/Cli_Status.thy ===== *)
theory Cli_Status
  imports Cli_Actions Registry
begin

text \<open>
  How the commands judge the state of a name: \<open>availability\<close> (\<open>commands/quote.rs\<close>), the exported records of \<open>portfolio\<close> (\<open>export.rs\<close>,
  \<open>commands/portfolio.rs\<close>) and \<open>watch\<close> (\<open>commands/watch.rs\<close>), against the states of the registry. \<open>i64\<close> times are integers. Calendar times
  are those of the \<open>chrono\<close> crate, a parameter: an instant is its nanoseconds since 1970, and making or shifting one fails outside
  the crate's range. The watchlist file, the webhook and the format of dates are parameters too.
\<close>

section \<open>availability\<close>

definition GRACE_SECONDS :: u64 where "GRACE_SECONDS = 30 * 24 * 3600"

definition availability_status :: "u64 option \<Rightarrow> u64 \<Rightarrow> string \<times> bool" where
  "availability_status expires_at now =
     (case expires_at of
        Some expiry \<Rightarrow>
          if expiry \<le> now then (''claimable (expired, past grace period)'', True)
          else if expiry \<le> now + GRACE_SECONDS then (''grace-period (expired, in grace window)'', False)
          else (''active'', False)
      | None \<Rightarrow> (''active (no expiry set)'', False))"

definition show_bool :: "bool \<Rightarrow> string" where
  "show_bool b = (if b then ''true'' else ''false'')"

definition run_availability ::
    "'w host \<Rightarrow> (string \<Rightarrow> string) \<Rightarrow> ('w \<Rightarrow> u64 \<times> 'w) \<Rightarrow> network_config \<Rightarrow> string \<Rightarrow> 'w \<Rightarrow> 'w run" where
  "run_availability h dbg clock conf name w =
     reporting dbg (''ERROR: Failed to check availability for '' @ name)
       (get_registration h (cli_client conf) name w) (\<lambda>registration w1.
         case registration of
           Some record \<Rightarrow>
             (case (if rres_expires_at record \<noteq> None then clock w1 else (0, w1)) of (now, w') \<Rightarrow>
              case availability_status (rres_expires_at record) now of (status_label, available) \<Rightarrow>
                finish ([''Availability for '' @ name @ '':'', ''  Status:     '' @ status_label,
                  ''  Available:  '' @ show_bool available, ''  Owner:      '' @ or_unknown (rres_address record)]
                  @ (case rres_expires_at record of Some expiry \<Rightarrow> [''  Expires at: '' @ show_word expiry] | None \<Rightarrow> [])
                  @ ['''', ''(This is a read-only check. No transaction has been submitted.)'']) w')
         | None \<Rightarrow>
             finish [''Availability for '' @ name @ '':'', ''  Status:    available'', ''  Available: true'', '''',
               ''(This is a read-only check. No transaction has been submitted.)''] w1)"

section \<open>Exported records\<close>

record portfolio_record =
  pr_name :: string
  pr_owner :: string
  pr_resolver :: string
  pr_target_address :: string
  pr_registered_at :: int
  pr_expires_at :: int
  pr_grace_period_ends_at :: int
  pr_status :: string

text \<open>\<open>as i64\<close> of a \<open>u64\<close> is its two's complement value.\<close>

definition record_status :: "u64 \<Rightarrow> u64 \<Rightarrow> int \<Rightarrow> string" where
  "record_status expires_at grace_end now =
     (if now \<le> sint expires_at then ''active'' else if now \<le> sint grace_end then ''grace'' else ''expired'')"

definition from_name_record :: "sdk_registry_entry \<Rightarrow> int \<Rightarrow> portfolio_record" where
  "from_name_record record now =
     \<lparr>pr_name = sre_name record, pr_owner = sre_owner record,
      pr_resolver = (case sre_resolver record of Some r \<Rightarrow> r | None \<Rightarrow> []),
      pr_target_address = (case sre_target_address record of Some a \<Rightarrow> a | None \<Rightarrow> []),
      pr_registered_at = sint (sre_registered_at record), pr_expires_at = sint (sre_expires_at record),
      pr_grace_period_ends_at = sint (sre_grace_period_ends_at record),
      pr_status = record_status (sre_expires_at record) (sre_grace_period_ends_at record) now\<rparr>"

fun build_portfolio_records ::
    "'w host \<Rightarrow> sdk_client \<Rightarrow> resolution_result list \<Rightarrow> int \<Rightarrow> 'w \<Rightarrow> (sdk_error, portfolio_record list) result \<times> 'w" where
  "build_portfolio_records h client [] now w = (Inr [], w)"
| "build_portfolio_records h client (entry # entries) now w =
     try_step (get_registry_metadata h client (rres_name entry) w) (\<lambda>metadata w1.
       (let owner = (case rres_address entry of Some a \<Rightarrow> a | None \<Rightarrow> nmi_owner metadata);
            record = \<lparr>sre_name = rres_name entry, sre_owner = owner,
              sre_resolver = (case nmi_resolver metadata of Some r \<Rightarrow> Some r | None \<Rightarrow> rres_resolver entry),
              sre_target_address = rres_address entry, sre_metadata_uri = None, sre_ttl_seconds = 0,
              sre_registered_at = nmi_registered_at metadata, sre_expires_at = nmi_expires_at metadata,
              sre_grace_period_ends_at = nmi_grace_period_ends_at metadata, sre_transfer_count = 0\<rparr> in
        try_step (build_portfolio_records h client entries now w1) (\<lambda>records w2.
          (Inr (from_name_record record now # records), w2))))"

section \<open>watch\<close>

record chrono =
  ch_from_timestamp :: "int \<Rightarrow> int option"
  ch_shift :: "int \<Rightarrow> int \<Rightarrow> int option"
  ch_date :: "int \<Rightarrow> string"

datatype expiry_status = ExSafe int | ExExpiringSoon int | ExInGracePeriod int | ExExpired | ExNotRegistered

text \<open>A duration of days, in nanoseconds; shifting an instant out of the crate's range is a panic, the outer \<open>None\<close>.\<close>

definition days :: "int \<Rightarrow> int" where
  "days n = n * 86400 * 1000000000"

definition from_expires_at :: "chrono \<Rightarrow> int \<Rightarrow> int option \<Rightarrow> expiry_status option" where
  "from_expires_at ch now expires_at =
     (case expires_at of
        None \<Rightarrow> Some ExNotRegistered
      | Some expiry \<Rightarrow>
          (case ch_shift ch expiry (days 90) of
             None \<Rightarrow> None
           | Some late \<Rightarrow>
               if now > late then Some ExExpired
               else if now > expiry then Some (ExInGracePeriod expiry)
               else (case ch_shift ch expiry (- days 30) of
                       None \<Rightarrow> None
                     | Some early \<Rightarrow> Some (if now > early then ExExpiringSoon expiry else ExSafe expiry))))"

definition watched_status :: "chrono \<Rightarrow> int \<Rightarrow> resolution_result option \<Rightarrow> expiry_status option" where
  "watched_status ch now registration =
     from_expires_at ch now
       (Option.bind (Option.bind registration rres_expires_at) (\<lambda>ts. ch_from_timestamp ch (sint ts)))"

fun expiry_text :: "chrono \<Rightarrow> expiry_status \<Rightarrow> string" where
  "expiry_text ch (ExSafe expiry) = ''Safe (expires on '' @ ch_date ch expiry @ '')''"
| "expiry_text ch (ExExpiringSoon expiry) = ''Expiring soon (expires on '' @ ch_date ch expiry @ '')''"
| "expiry_text ch (ExInGracePeriod expiry) = ''In grace period (expired on '' @ ch_date ch expiry @ '')''"
| "expiry_text ch ExExpired = ''Expired and available''"
| "expiry_text ch ExNotRegistered = ''Not registered''"

record 'w watch_files =
  wf_load :: "'w \<Rightarrow> (string + string list) \<times> 'w"
  wf_save :: "string list \<Rightarrow> 'w \<Rightarrow> (string + unit) \<times> 'w"
  wf_post :: "string \<Rightarrow> string \<Rightarrow> 'w \<Rightarrow> (string + unit) \<times> 'w"

definition watch_io :: "(string + 'a) \<times> 'w \<Rightarrow> ('a \<Rightarrow> 'w \<Rightarrow> 'w run) \<Rightarrow> 'w run" where
  "watch_io r f = (case r of (Inl e, w) \<Rightarrow> fail_with e w | (Inr a, w) \<Rightarrow> f a w)"

fun watch_names ::
    "'w host \<Rightarrow> (string \<Rightarrow> string) \<Rightarrow> chrono \<Rightarrow> ('w \<Rightarrow> int \<times> 'w) \<Rightarrow> sdk_client \<Rightarrow> string list \<Rightarrow> 'w
       \<Rightarrow> (cli_error, string list) result \<times> 'w" where
  "watch_names h dbg ch clock client [] w = (Inr [], w)"
| "watch_names h dbg ch clock client (name # names) w =
     (case get_registration h client name w of
        (Inl Trap, w1) \<Rightarrow> (Inl Trap, w1)
      | (Inl (Err e), w1) \<Rightarrow> (Inl (Err \<lparr>err_chain = [display_sdk_error dbg e], err_sdk = Some e\<rparr>), w1)
      | (Inr registration, w1) \<Rightarrow>
          (case clock w1 of (now, w2) \<Rightarrow>
             case watched_status ch now registration of
               None \<Rightarrow> (Inl Trap, w2)
             | Some status \<Rightarrow>
                 (case watch_names h dbg ch clock client names w2 of
                    (Inl e, w3) \<Rightarrow> (Inl e, w3)
                  | (Inr ls, w3) \<Rightarrow> (Inr ((name @ '': '' @ expiry_text ch status) # ls), w3))))"

definition run_watch ::
    "'w host \<Rightarrow> (string \<Rightarrow> string) \<Rightarrow> chrono \<Rightarrow> ('w \<Rightarrow> int \<times> 'w) \<Rightarrow> 'w watch_files \<Rightarrow> network_config \<Rightarrow> watch_command \<Rightarrow> 'w \<Rightarrow> 'w run" where
  "run_watch h dbg ch clock files conf command w =
     (case command of
        WatchAdd name \<Rightarrow>
          watch_io (wf_load files w) (\<lambda>names w1.
            if name \<notin> set names then
              watch_io (wf_save files (names @ [name]) w1) (\<lambda>_.
                finish [''Added '' @ quoted name @ '' to the watchlist.''])
            else finish [quoted name @ '' is already in the watchlist.''] w1)
      | WatchRemove name \<Rightarrow>
          watch_io (wf_load files w) (\<lambda>names w1.
            if name \<in> set names then
              watch_io (wf_save files (remove1 name names) w1) (\<lambda>_.
                finish [''Removed '' @ quoted name @ '' from the watchlist.''])
            else finish [quoted name @ '' is not in the watchlist.''] w1)
      | WatchList \<Rightarrow>
          watch_io (wf_load files w) (\<lambda>names.
            if names = [] then finish [''The watchlist is empty.'']
            else finish (''Watched names:'' # map (\<lambda>n. ''- '' @ n) names))
      | WatchCheck webhook_url cron \<Rightarrow>
          watch_io (wf_load files w) (\<lambda>names w1.
            if names = [] then finish (if cron then [] else [''The watchlist is empty.'']) w1
            else
              (case watch_names h dbg ch clock (cli_client conf) names w1 of
                 (Inl e, w2) \<Rightarrow> (Inl e, w2)
               | (Inr notifications, w2) \<Rightarrow>
                   (case webhook_url of
                      None \<Rightarrow> finish (if cron then [] else notifications) w2
                    | Some url \<Rightarrow>
                        watch_io (wf_post files url (join [CHR 0x0A] notifications) w2) (\<lambda>_.
                          finish (if cron then [] else notifications))))))"

section \<open>Lemmas\<close>

lemma sint_small:
  fixes x :: u64
  assumes "unat x < 2 ^ 63"
  shows "sint x = int (unat x)"
proof -
  have "int (unat x) < 2 ^ 63" using assms by (metis of_nat_less_iff of_nat_numeral of_nat_power)
  moreover have "- (2 ^ 63) \<le> int (unat x)" by (rule order_trans [of _ 0]) simp_all
  ultimately have "signed_take_bit 63 (int (unat x)) = int (unat x)" by (rule signed_take_bit_int_eq_self [rotated])
  moreover have "LENGTH(64) - Suc 0 = 63" by simp
  ultimately show ?thesis by (simp only: sint_uint uint_nat)
qed

lemma GRACE_SECONDS_default: "GRACE_SECONDS = GRACE_PERIOD_SECONDS"
  by (simp add: GRACE_SECONDS_def GRACE_PERIOD_SECONDS_def)

lemma unat_grace_end:
  assumes "unat x + 2592000 < 2 ^ 64"
  shows "unat (grace_period_ends_at x) = unat x + 2592000"
  using assms by (simp add: grace_period_ends_at_def grace_period_ends_at_with_duration_def unat_sat_add GRACE_PERIOD_SECONDS_def)

lemma unat_add_small: "unat x + unat y < 2 ^ 64 \<Longrightarrow> unat (x + y) = unat x + unat y" for x y :: u64
  by (simp add: unat_word_ariths)

text \<open>The state of an entry by numbers.\<close>

lemma name_state_nat:
  assumes "rg_entries s name = Some en"
  shows "registry_name_state s name t =
    (if unat t \<le> unat (re_expires_at en) then Active
     else if unat (re_grace_period_ends_at en) < unat t then Claimable else GracePeriod)"
  using assms by (simp add: registry_name_state_def entry_active_at_def entry_claimable_at_def is_active_at_def
      is_claimable_at_def word_le_nat_alt word_less_nat_alt)

section \<open>Properties\<close>

fun availability_label :: "name_state \<Rightarrow> string \<times> bool" where
  "availability_label Active = (''active'', False)"
| "availability_label GracePeriod = (''grace-period (expired, in grace window)'', False)"
| "availability_label Claimable = (''claimable (expired, past grace period)'', True)"
| "availability_label Missing = (''available'', True)"

text \<open>
  What \<open>availability\<close> reports of a name with the default grace period is its state at the registry a grace period and a
  second later: it calls an active name expired during its last thirty days, and one in its grace period, which the registry
  refuses to register, available.
\<close>

theorem availability_is_early:
  assumes "rg_entries s name = Some en" and "re_grace_period_ends_at en = grace_period_ends_at (re_expires_at en)"
    and "unat (re_expires_at en) + 2592000 < 2 ^ 64" and "unat now + 2592001 < 2 ^ 64"
  shows "availability_status (Some (re_expires_at en)) now
    = availability_label (registry_name_state s name (now + GRACE_PERIOD_SECONDS + 1))"
proof -
  have later: "unat (now + GRACE_SECONDS) = unat now + 2592000" "unat (now + GRACE_PERIOD_SECONDS + 1) = unat now + 2592001"
    using assms(4) by (simp_all add: unat_word_ariths GRACE_SECONDS_def GRACE_PERIOD_SECONDS_def)
  show ?thesis
    by (simp add: availability_status_def name_state_nat [OF assms(1)] assms(2) unat_grace_end [OF assms(3)] later
        word_le_nat_alt)
qed

definition default_entry :: "u64 \<Rightarrow> registry_entry" where
  "default_entry expiry =
     \<lparr>re_name = ''alice.xlm'', re_owner = Address ''G'', re_resolver = None, re_target_address = None, re_metadata_uri = None,
      re_ttl_seconds = 0, re_registered_at = 0, re_expires_at = expiry, re_grace_period_ends_at = grace_period_ends_at expiry,
      re_transfer_count = 0\<rparr>"

definition one_name :: "registry_entry \<Rightarrow> registry" where
  "one_name en = registry_empty\<lparr>rg_entries := [re_name en \<mapsto> en]\<rparr>"

theorem availability_is_early_witness:
  "availability_status (Some 1700000000) 1700000000 = (''claimable (expired, past grace period)'', True)
   \<and> registry_name_state (one_name (default_entry 1700000000)) ''alice.xlm'' 1700000000 = Active"
  using availability_is_early [of "one_name (default_entry 1700000000)" "''alice.xlm''" "default_entry 1700000000" 1700000000]
  by (simp add: one_name_def default_entry_def name_state_nat unat_grace_end GRACE_PERIOD_SECONDS_def)

text \<open>
  The status of an exported record is the registry's state of the name at that time, for every entry whose dates are
  below \<open>2 ^ 63\<close>.
\<close>

theorem export_status_agrees:
  assumes "rg_entries s name = Some en" and "unat (re_expires_at en) < 2 ^ 63" and "unat (re_grace_period_ends_at en) < 2 ^ 63"
  shows "record_status (re_expires_at en) (re_grace_period_ends_at en) (int (unat now))
    = (case registry_name_state s name now of Active \<Rightarrow> ''active'' | GracePeriod \<Rightarrow> ''grace'' | _ \<Rightarrow> ''expired'')"
  unfolding record_status_def sint_small [OF assms(2)] sint_small [OF assms(3)] name_state_nat [OF assms(1)] of_nat_le_iff
  by (simp add: not_less)

theorem export_status_agrees_witness:
  "record_status 1700000000 1702592000 1700000001 = ''grace''"
  using export_status_agrees [of "one_name (default_entry 1700000000)" "''alice.xlm''" "default_entry 1700000000" 1700000001]
  by (simp add: one_name_def default_entry_def name_state_nat unat_grace_end grace_period_ends_at_def
      grace_period_ends_at_with_duration_def GRACE_PERIOD_SECONDS_def sat_add_def)

text \<open>
  \<open>watch\<close> against the registry, for a time of whole seconds: a name is safe or about to expire while it is active, and after that it is
  reported in its grace period for ninety days, sixty of which the registry counts it as claimable.
\<close>

theorem watch_grace_too_long:
  assumes "rg_entries s name = Some en" and "rres_expires_at r = Some (re_expires_at en)" and "unat (re_expires_at en) < 2 ^ 63"
    and "ch_from_timestamp ch (int (unat (re_expires_at en))) = Some expiry" and "expiry = int (unat (re_expires_at en)) * 1000000000"
    and "ch_shift ch expiry (days 90) = Some (expiry + days 90)" and "ch_shift ch expiry (- days 30) = Some (expiry - days 30)"
  shows "watched_status ch (int (unat t) * 1000000000) (Some r) = Some
    (if unat (re_expires_at en) + 7776000 < unat t then ExExpired
     else if registry_name_state s name t \<noteq> Active then ExInGracePeriod expiry
     else if unat (re_expires_at en) < unat t + 2592000 then ExExpiringSoon expiry
     else ExSafe expiry)"
proof -
  have over: "expiry + days 90 < int (unat t) * 1000000000 \<longleftrightarrow> unat (re_expires_at en) + 7776000 < unat t"
    "expiry < int (unat t) * 1000000000 \<longleftrightarrow> unat (re_expires_at en) < unat t"
    "expiry - days 30 < int (unat t) * 1000000000 \<longleftrightarrow> unat (re_expires_at en) < unat t + 2592000"
    unfolding assms(5) days_def by linarith+
  have state: "registry_name_state s name t \<noteq> Active \<longleftrightarrow> unat (re_expires_at en) < unat t"
    by (simp add: name_state_nat [OF assms(1)] not_le)
  have "watched_status ch (int (unat t) * 1000000000) (Some r) = from_expires_at ch (int (unat t) * 1000000000) (Some expiry)"
    unfolding watched_status_def using assms(2,4) by (simp add: sint_small [OF assms(3)])
  also have "\<dots> = Some
    (if unat (re_expires_at en) + 7776000 < unat t then ExExpired
     else if registry_name_state s name t \<noteq> Active then ExInGracePeriod expiry
     else if unat (re_expires_at en) < unat t + 2592000 then ExExpiringSoon expiry
     else ExSafe expiry)"
    unfolding from_expires_at_def assms(6,7) option.case over state by simp
  finally show ?thesis .
qed

definition wide_chrono :: chrono where
  "wide_chrono = \<lparr>ch_from_timestamp = (\<lambda>s. Some (s * 1000000000)), ch_shift = (\<lambda>t d. Some (t + d)), ch_date = (\<lambda>_. ''date'')\<rparr>"

theorem watch_grace_too_long_witness:
  "watched_status wide_chrono (1705000000 * 1000000000)
       (Some \<lparr>rres_name = ''alice.xlm'', rres_address = None, rres_resolver = None, rres_expires_at = Some 1700000000, rres_is_wildcard = False\<rparr>)
     = Some (ExInGracePeriod (1700000000 * 1000000000))
   \<and> registry_name_state (one_name (default_entry 1700000000)) ''alice.xlm'' 1705000000 = Claimable"
  using watch_grace_too_long [of "one_name (default_entry 1700000000)" "''alice.xlm''" "default_entry 1700000000"
      "\<lparr>rres_name = ''alice.xlm'', rres_address = None, rres_resolver = None, rres_expires_at = Some 1700000000, rres_is_wildcard = False\<rparr>"
      wide_chrono "1700000000 * 1000000000" 1705000000]
  by (simp add: one_name_def default_entry_def name_state_nat unat_grace_end wide_chrono_def)

section \<open>The watchlist\<close>

text \<open>The commands that change the watchlist, on a set of names, and what the file has to promise: a list that was saved is loaded.\<close>

fun watch_effect :: "watch_command \<Rightarrow> string set \<Rightarrow> string set" where
  "watch_effect (WatchAdd name) ns = insert name ns"
| "watch_effect (WatchRemove name) ns = ns - {name}"
| "watch_effect _ ns = ns"

definition file_keeps :: "'w watch_files \<Rightarrow> bool" where
  "file_keeps files \<longleftrightarrow>
     (\<forall>w ns w'. wf_load files w = (Inr ns, w') \<longrightarrow> wf_load files w' = (Inr ns, w'))
     \<and> (\<forall>w ns w'. wf_save files ns w = (Inr (), w') \<longrightarrow> wf_load files w' = (Inr ns, w'))"

definition watches :: "'w watch_files \<Rightarrow> 'w \<Rightarrow> string set \<Rightarrow> bool" where
  "watches files w ns \<longleftrightarrow> (\<exists>l w'. wf_load files w = (Inr l, w') \<and> distinct l \<and> set l = ns)"

text \<open>
  The watchlist is a set: \<open>watch add\<close> and \<open>watch remove\<close>, when they succeed, change the list in the file as inserting and removing
  a name changes a set, and keep it free of repetitions.
\<close>

theorem watchlist_is_set:
  assumes "file_keeps files" and "watches files w ns" and "\<nexists>url cron. command = WatchCheck url cron"
    and "run_watch h dbg ch clock files conf command w = (Inr out, w')"
  shows "watches files w' (watch_effect command ns)"
proof -
  obtain l w1 where l: "wf_load files w = (Inr l, w1)" "distinct l" "set l = ns"
    using assms(2) by (auto simp: watches_def)
  then have again: "wf_load files w1 = (Inr l, w1)" using assms(1) by (auto simp: file_keeps_def)
  have saved: "wf_load files w2 = (Inr k, w2)" if "wf_save files k w1 = (Inr (), w2)" for k w2
    using that assms(1) by (auto simp: file_keeps_def)
  show ?thesis
    using assms(4) l again assms(3)
    by (cases command)
       (auto simp: run_watch_def watch_io_def finish_def fail_with_def watches_def insert_absorb dest!: saved
         split: prod.splits sum.splits if_splits)
qed

definition list_file :: "string list watch_files" where
  "list_file = \<lparr>wf_load = (\<lambda>w. (Inr w, w)), wf_save = (\<lambda>ns _. (Inr (), ns)), wf_post = (\<lambda>_ _ w. (Inr (), w))\<rparr>"

theorem watchlist_is_set_witness:
  "watches list_file [''a.xlm'', ''b.xlm''] {''a.xlm'', ''b.xlm''}"
  using watchlist_is_set [of list_file "[''a.xlm'']" "{''a.xlm''}" "WatchAdd ''b.xlm''" undefined undefined undefined undefined undefined
      "''Added '' @ quoted ''b.xlm'' @ '' to the watchlist.''" "[''a.xlm'', ''b.xlm'']"]
  by (simp add: file_keeps_def list_file_def watches_def run_watch_def watch_io_def finish_def insert_commute)

end
