(* ===== verification/Cli_Migrate.thy ===== *)
theory Cli_Migrate
  imports Cli_Actions "HOL-Library.List_Lexorder" "HOL-Library.Char_ord" "HOL-Library.Product_Lexorder"
begin

text \<open>
  The commands on exported contract state (\<open>cli/src/commands/migrate.rs\<close>). Files are read and written through parameters, and so are the JSON
  parser and printer; the texts of the answers are those of the human format, which do not show the details.
\<close>

section \<open>States\<close>

datatype storage_scope = ScInstance | ScPersistent | ScTemporary

text \<open>\<open>derive(PartialOrd, Ord)\<close>: the order of the constructors.\<close>

primrec scope_rank :: "storage_scope \<Rightarrow> nat" where
  "scope_rank ScInstance = 0"
| "scope_rank ScPersistent = 1"
| "scope_rank ScTemporary = 2"

instantiation storage_scope :: linorder
begin

definition less_eq_storage_scope :: "storage_scope \<Rightarrow> storage_scope \<Rightarrow> bool" where
  "less_eq_storage_scope a b \<longleftrightarrow> scope_rank a \<le> scope_rank b"

definition less_storage_scope :: "storage_scope \<Rightarrow> storage_scope \<Rightarrow> bool" where
  "less_storage_scope a b \<longleftrightarrow> scope_rank a < scope_rank b"

instance
proof
  fix a b c :: storage_scope
  show "(a < b) = (a \<le> b \<and> \<not> b \<le> a)" "a \<le> a" "a \<le> b \<Longrightarrow> b \<le> c \<Longrightarrow> a \<le> c" "a \<le> b \<or> b \<le> a"
    by (auto simp: less_eq_storage_scope_def less_storage_scope_def)
  show "a \<le> b \<Longrightarrow> b \<le> a \<Longrightarrow> a = b"
    by (cases a; cases b) (simp_all add: less_eq_storage_scope_def)
qed

end

type_synonym storage_key = "storage_scope \<times> string"

record storage_entry =
  se_scope :: storage_scope
  se_key :: string
  se_value :: string

record export_metadata =
  em_source_wasm_hash :: "string option"
  em_exported_at_unix :: "int option"
  em_note :: "string option"

record contract_state_file =
  cs_schema_version :: u32
  cs_contract_id :: "string option"
  cs_export_metadata :: export_metadata
  cs_scopes :: "storage_entry list"

section \<open>Comparing\<close>

text \<open>A later entry of a key replaces an earlier one; the keys of the map in their order.\<close>

definition entry_pairs :: "contract_state_file \<Rightarrow> (storage_key \<times> string) list" where
  "entry_pairs state = map (\<lambda>e. ((se_scope e, se_key e), se_value e)) (cs_scopes state)"

definition map_entries :: "contract_state_file \<Rightarrow> storage_key \<Rightarrow> string option" where
  "map_entries state = map_of (rev (entry_pairs state))"

definition entry_keys :: "contract_state_file \<Rightarrow> storage_key list" where
  "entry_keys state = sort (remdups (map fst (entry_pairs state)))"

record verify_report =
  vr_ok :: bool
  vr_missing_in_target :: "(storage_key \<times> string) list"
  vr_extra_in_target :: "(storage_key \<times> string) list"
  vr_mismatched :: "(storage_key \<times> string \<times> string) list"

definition verify_states :: "contract_state_file \<Rightarrow> contract_state_file \<Rightarrow> verify_report" where
  "verify_states source target =
     (let src = map_entries source; tgt = map_entries target;
          missing = [(k, the (src k)). k \<leftarrow> entry_keys source, tgt k = None];
          mismatched = [(k, the (src k), the (tgt k)). k \<leftarrow> entry_keys source, tgt k \<noteq> None \<and> tgt k \<noteq> src k];
          extra = [(k, the (tgt k)). k \<leftarrow> entry_keys target, src k = None] in
      \<lparr>vr_ok = (missing = [] \<and> extra = [] \<and> mismatched = []), vr_missing_in_target = missing, vr_extra_in_target = extra,
       vr_mismatched = mismatched\<rparr>)"

section \<open>Transforming\<close>

definition transform_state :: "contract_state_file \<Rightarrow> u32 \<Rightarrow> u32 \<Rightarrow> contract_state_file" where
  "transform_state state from_version to_version =
     (if to_version = from_version then state else state\<lparr>cs_schema_version := to_version\<rparr>)"

section \<open>Commands\<close>

record 'w state_files =
  sf_read :: "string \<Rightarrow> 'w \<Rightarrow> string + string"
  sf_write :: "string \<Rightarrow> string \<Rightarrow> 'w \<Rightarrow> (string + unit) \<times> 'w"
  sf_parse :: "string \<Rightarrow> string + contract_state_file"
  sf_print :: "contract_state_file \<Rightarrow> string"
  sf_print_object :: "(string \<times> string option) list \<Rightarrow> string"

definition read_state_file :: "'w state_files \<Rightarrow> string \<Rightarrow> 'w \<Rightarrow> cli_error + contract_state_file" where
  "read_state_file files path w =
     (case sf_read files path w of
        Inl e \<Rightarrow> Inl (chain_error (''failed to read state file: '' @ path) e)
      | Inr raw \<Rightarrow>
          (case sf_parse files raw of
             Inl e \<Rightarrow> Inl (chain_error (''failed to parse JSON state file: '' @ path) e) | Inr state \<Rightarrow> Inr state))"

definition write_state_file ::
    "'w state_files \<Rightarrow> string \<Rightarrow> contract_state_file \<Rightarrow> 'w \<Rightarrow> (cli_error + unit) \<times> 'w" where
  "write_state_file files path state w =
     (case sf_write files path (sf_print files state) w of
        (Inl e, w') \<Rightarrow> (Inl (chain_error (''failed to write state file: '' @ path) e), w')
      | (Inr _, w') \<Rightarrow> (Inr (), w'))"

definition run_transform ::
    "'w state_files \<Rightarrow> u32 \<Rightarrow> u32 \<Rightarrow> string \<Rightarrow> string \<Rightarrow> bool \<Rightarrow> 'w \<Rightarrow> 'w run" where
  "run_transform files from_version to_version in_file out_file dry_run w =
     (case read_state_file files in_file w of
        Inl e \<Rightarrow> (Inl (Err e), w)
      | Inr input \<Rightarrow>
          (let transformed = transform_state input from_version to_version in
           if dry_run then finish [''Transform dry-run completed''] w
           else
             (case write_state_file files out_file transformed w of
                (Inl e, w') \<Rightarrow> (Inl (Err e), w')
              | (Inr _, w') \<Rightarrow> finish [''Transform completed''] w')))"

definition run_verify :: "'w state_files \<Rightarrow> string \<Rightarrow> string \<Rightarrow> bool \<Rightarrow> 'w \<Rightarrow> 'w run" where
  "run_verify files source_file target_file strict w =
     (case read_state_file files source_file w of
        Inl e \<Rightarrow> (Inl (Err e), w)
      | Inr source \<Rightarrow>
          (case read_state_file files target_file w of
             Inl e \<Rightarrow> (Inl (Err e), w)
           | Inr target \<Rightarrow>
               (let ok = vr_ok (verify_states source target) in
                if strict \<and> \<not> ok then fail_with ''verify failed: storage states do not match'' w
                else finish [if ok then ''Verify OK'' else ''Verify FAILED''] w)))"

definition run_rollback_metadata :: "'w state_files \<Rightarrow> string \<Rightarrow> string \<Rightarrow> 'w \<Rightarrow> 'w run" where
  "run_rollback_metadata files cid wasm_hash_out w =
     (case sf_write files wasm_hash_out (sf_print_object files
          [(''contract_id'', Some cid), (''source_wasm_hash'', None),
           (''note'', Some ''Rollback metadata extraction is not implemented in this environment; storage/WASM inspection primitives are incomplete in this CLI.'')]) w of
        (Inl e, w') \<Rightarrow> (Inl (Err (chain_error (''failed to write rollback metadata to '' @ wasm_hash_out) e)), w')
      | (Inr _, w') \<Rightarrow> finish [''Rollback metadata generated''] w')"

definition exported_state :: "string \<Rightarrow> contract_state_file" where
  "exported_state cid =
     \<lparr>cs_schema_version = 1, cs_contract_id = Some cid,
      cs_export_metadata = \<lparr>em_source_wasm_hash = Some ''mock_hash'', em_exported_at_unix = Some 0, em_note = Some ''Mock export''\<rparr>,
      cs_scopes = [\<lparr>se_scope = ScPersistent, se_key = ''mock_key'', se_value = ''mock_value''\<rparr>]\<rparr>"

definition run_export :: "'w state_files \<Rightarrow> bool \<Rightarrow> string \<Rightarrow> string \<Rightarrow> 'w \<Rightarrow> 'w run" where
  "run_export files dry_run cid out_file w =
     (if dry_run then finish [''Export dry-run completed''] w
      else
        (case write_state_file files out_file (exported_state cid) w of
           (Inl e, w') \<Rightarrow> (Inl (Err e), w')
         | (Inr _, w') \<Rightarrow> finish [''Export completed''] w'))"

definition import_batches :: "contract_state_file \<Rightarrow> nat" where
  "import_batches state =
     (let total_entries = length (cs_scopes state); batch_size = 100 in
      if total_entries > 0 then (total_entries + batch_size - 1) div batch_size else 0)"

definition run_import :: "'w state_files \<Rightarrow> bool \<Rightarrow> string \<Rightarrow> 'w \<Rightarrow> 'w run" where
  "run_import files dry_run in_file w =
     (case read_state_file files in_file w of
        Inl e \<Rightarrow> (Inl (Err e), w)
      | Inr state \<Rightarrow> finish [if dry_run then ''Import dry-run completed'' else ''Import completed''] w)"

section \<open>Lemmas\<close>

lemma map_entries_dom: "k \<in> set (entry_keys s) \<longleftrightarrow> map_entries s k \<noteq> None"
  by (simp add: entry_keys_def map_entries_def map_of_eq_None_iff)

lemma entry_keys_strict: "sorted_wrt (<) (entry_keys s)"
  unfolding entry_keys_def strict_sorted_iff by (intro conjI sorted_sort) (simp only: distinct_sort distinct_remdups)

text \<open>A list comprehension over the keys, as the entries it has.\<close>

lemma report_list:
  "set [(k, f k). k \<leftarrow> ks, P k] = {(k, f k) | k. k \<in> set ks \<and> P k}"
  "map fst [(k, f k). k \<leftarrow> ks, P k] = filter P ks"
  by (induction ks) auto

lemma report_empty: "[(k, f k). k \<leftarrow> ks, P k] = [] \<longleftrightarrow> (\<forall>k \<in> set ks. \<not> P k)"
  by (induction ks) auto

lemma verify_ok_iff: "vr_ok (verify_states s t) \<longleftrightarrow> map_entries s = map_entries t"
proof
  assume "vr_ok (verify_states s t)"
  then have none: "map_entries t k \<noteq> None" "\<not> (map_entries t k \<noteq> None \<and> map_entries t k \<noteq> map_entries s k)"
      if "map_entries s k \<noteq> None" for k
    using that unfolding verify_states_def Let_def verify_report.simps report_empty Ball_def map_entries_dom by blast+
  have extra: "map_entries s k \<noteq> None" if "map_entries t k \<noteq> None" for k
    using that \<open>vr_ok (verify_states s t)\<close>
    unfolding verify_states_def Let_def verify_report.simps report_empty Ball_def map_entries_dom by blast
  show "map_entries s = map_entries t"
  proof
    fix k
    show "map_entries s k = map_entries t k" using none [of k] extra [of k] by metis
  qed
next
  assume "map_entries s = map_entries t"
  then show "vr_ok (verify_states s t)"
    unfolding verify_states_def Let_def verify_report.simps report_empty Ball_def map_entries_dom by simp
qed

section \<open>Properties\<close>

text \<open>The value that counts for a key, said of the list of entries itself: no later entry has the key.\<close>

definition last_entry :: "contract_state_file \<Rightarrow> storage_key \<Rightarrow> string \<Rightarrow> bool" where
  "last_entry state k v \<longleftrightarrow>
     (\<exists>before e after. cs_scopes state = before @ e # after \<and> (se_scope e, se_key e) = k \<and> se_value e = v
        \<and> (\<forall>e' \<in> set after. (se_scope e', se_key e') \<noteq> k))"

lemma map_of_last:
  "map_of (rev (map (\<lambda>e. (key e, val e)) es)) k = Some v \<longleftrightarrow>
     (\<exists>before e after. es = before @ e # after \<and> key e = k \<and> val e = v \<and> (\<forall>e' \<in> set after. key e' \<noteq> k))"
    (is "_ \<longleftrightarrow> ?last es")
proof (induction es rule: rev_induct)
  case (snoc x es)
  show ?case
  proof (cases "key x = k")
    case True
    have "?last (es @ [x]) \<longleftrightarrow> val x = v"
    proof
      assume "?last (es @ [x])"
      then obtain before e after where split: "es @ [x] = before @ e # after" and e: "val e = v" and later: "\<forall>e' \<in> set after. key e' \<noteq> k"
        by blast
      with True have "after = []" by (cases after rule: rev_cases) auto
      with split e show "val x = v" by simp
    next
      assume "val x = v"
      with True show "?last (es @ [x])" by (intro exI [of _ es] exI [of _ x] exI [of _ "[]"]) simp
    qed
    with True show ?thesis by simp
  next
    case False
    have "?last (es @ [x]) \<longleftrightarrow> ?last es"
    proof
      assume "?last (es @ [x])"
      then obtain before e after where split: "es @ [x] = before @ e # after" and e: "key e = k" "val e = v"
        and later: "\<forall>e' \<in> set after. key e' \<noteq> k" by blast
      with False obtain after' where after: "after = after' @ [x]" by (cases after rule: rev_cases) auto
      with split have "es = before @ e # after'" by simp
      with e later after show "?last es" by auto
    next
      assume "?last es"
      then obtain before e after where "es = before @ e # after" "key e = k" "val e = v" "\<forall>e' \<in> set after. key e' \<noteq> k" by blast
      with False show "?last (es @ [x])" by (intro exI [of _ before] exI [of _ e] exI [of _ "after @ [x]"]) simp
    qed
    with False snoc.IH show ?thesis by simp
  qed
qed simp

lemma last_entry_iff: "last_entry state k v \<longleftrightarrow> map_entries state k = Some v"
  unfolding last_entry_def map_entries_def entry_pairs_def map_of_last ..

lemma no_last_entry: "(\<forall>v. \<not> last_entry state k v) \<longleftrightarrow> map_entries state k = None"
  by (simp add: last_entry_iff)

lemma same_last_entries: "(\<forall>k v. last_entry s k v \<longleftrightarrow> last_entry t k v) \<longleftrightarrow> map_entries s = map_entries t"
  unfolding last_entry_iff fun_eq_iff by (metis not_None_eq)

text \<open>
  C38: Two states are verified exactly if they give the same value to the same keys, where the value of a key is that of its last
  entry in the file; otherwise the report lists, each once and in the order of the keys, the keys that are missing, extra and different,
  with their values. Nothing else of the files is compared, their schema versions and contracts included.
\<close>

theorem verify_exact:
  "(vr_ok (verify_states s t) \<longleftrightarrow> (\<forall>k v. last_entry s k v \<longleftrightarrow> last_entry t k v))
   \<and> set (vr_missing_in_target (verify_states s t)) = {(k, v). last_entry s k v \<and> (\<forall>u. \<not> last_entry t k u)}
   \<and> set (vr_extra_in_target (verify_states s t)) = {(k, v). last_entry t k v \<and> (\<forall>u. \<not> last_entry s k u)}
   \<and> set (vr_mismatched (verify_states s t)) = {(k, v, u). last_entry s k v \<and> last_entry t k u \<and> u \<noteq> v}
   \<and> sorted_wrt (<) (map fst (vr_missing_in_target (verify_states s t)))
   \<and> sorted_wrt (<) (map fst (vr_extra_in_target (verify_states s t)))
   \<and> sorted_wrt (<) (map fst (vr_mismatched (verify_states s t)))"
proof -
  have keys: "k \<in> set (entry_keys x) \<longleftrightarrow> (\<exists>v. map_entries x k = Some v)" for k x
    by (simp add: map_entries_dom)
  have lists: "vr_missing_in_target (verify_states s t) = [(k, the (map_entries s k)). k \<leftarrow> entry_keys s, map_entries t k = None]"
    "vr_extra_in_target (verify_states s t) = [(k, the (map_entries t k)). k \<leftarrow> entry_keys t, map_entries s k = None]"
    "vr_mismatched (verify_states s t)
      = [(k, the (map_entries s k), the (map_entries t k)). k \<leftarrow> entry_keys s, map_entries t k \<noteq> None \<and> map_entries t k \<noteq> map_entries s k]"
    by (simp_all add: verify_states_def Let_def)
  show ?thesis
    unfolding same_last_entries no_last_entry
    unfolding last_entry_iff lists report_list keys verify_ok_iff
    using entry_keys_strict [of s] entry_keys_strict [of t]
    by (auto intro: sorted_wrt_filter)
qed

text \<open>What the files have to promise: what is written to a path is read there, and other paths are left alone.\<close>

definition faithful_files :: "'w state_files \<Rightarrow> bool" where
  "faithful_files files \<longleftrightarrow>
     (\<forall>path text w w'. sf_write files path text w = (Inr (), w') \<longrightarrow>
        sf_read files path w' = Inr text \<and> (\<forall>other. other \<noteq> path \<longrightarrow> sf_read files other w' = sf_read files other w))"

text \<open>
  A transform changes no entry: whenever \<open>migrate transform\<close> succeeds, \<open>migrate verify --strict\<close> on its input and its output
  succeeds, whatever the two versions are, provided the parser reads back what the printer wrote.
\<close>

theorem transform_verifies:
  assumes "faithful_files files" and "in_file \<noteq> out_file" and "read_state_file files in_file w = Inr input"
    and "sf_parse files (sf_print files (transform_state input from_version to_version)) = Inr (transform_state input from_version to_version)"
    and "run_transform files from_version to_version in_file out_file False w = (Inr out, w')"
  shows "run_verify files in_file out_file True w' = finish [''Verify OK''] w'"
proof -
  have "write_state_file files out_file (transform_state input from_version to_version) w = (Inr (), w')"
    using assms(3,5) by (auto simp: run_transform_def finish_def split: sum.splits prod.splits)
  then have w: "sf_write files out_file (sf_print files (transform_state input from_version to_version)) w = (Inr (), w')"
    by (auto simp: write_state_file_def split: sum.splits prod.splits)
  have "read_state_file files out_file w' = Inr (transform_state input from_version to_version)"
    using w assms(1,4) by (simp add: faithful_files_def read_state_file_def)
  moreover have "read_state_file files in_file w' = Inr input"
    using w assms(1,2,3) by (simp add: faithful_files_def read_state_file_def)
  moreover have "map_entries input = map_entries (transform_state input from_version to_version)"
    by (simp add: transform_state_def map_entries_def entry_pairs_def)
  ultimately show ?thesis by (simp add: run_verify_def verify_ok_iff)
qed

text \<open>Files as a map from paths to texts, with names for two states.\<close>

definition two_states :: "(string \<Rightarrow> string option) state_files" where
  "two_states =
     \<lparr>sf_read = (\<lambda>path w. case w path of Some s \<Rightarrow> Inr s | None \<Rightarrow> Inl ''No such file''),
      sf_write = (\<lambda>path s w. (Inr (), w(path \<mapsto> s))),
      sf_parse = (\<lambda>s. Inr (if s = ''old'' then exported_state ''C'' else transform_state (exported_state ''C'') 1 2)),
      sf_print = (\<lambda>s. if s = exported_state ''C'' then ''old'' else ''new''), sf_print_object = (\<lambda>_. [])\<rparr>"

theorem transform_verifies_witness:
  "run_verify two_states ''in.json'' ''out.json'' True [''in.json'' \<mapsto> ''old'', ''out.json'' \<mapsto> ''new'']
     = finish [''Verify OK''] [''in.json'' \<mapsto> ''old'', ''out.json'' \<mapsto> ''new'']"
proof (rule transform_verifies [where input = "exported_state ''C''" and from_version = 1 and to_version = 2 and w = "[''in.json'' \<mapsto> ''old'']"
      and out = "''Transform completed''"])
  have new: "transform_state (exported_state ''C'') 1 2 \<noteq> exported_state ''C''"
    by (simp add: transform_state_def exported_state_def)
  show "faithful_files two_states" by (simp add: faithful_files_def two_states_def)
  show read: "read_state_file two_states ''in.json'' [''in.json'' \<mapsto> ''old''] = Inr (exported_state ''C'')"
    by (simp add: read_state_file_def two_states_def)
  show "sf_parse two_states (sf_print two_states (transform_state (exported_state ''C'') 1 2)) = Inr (transform_state (exported_state ''C'') 1 2)"
    using new by (simp add: two_states_def)
  have "write_state_file two_states ''out.json'' (transform_state (exported_state ''C'') 1 2) [''in.json'' \<mapsto> ''old'']
      = (Inr (), [''in.json'' \<mapsto> ''old'', ''out.json'' \<mapsto> ''new''])"
    using new by (simp add: write_state_file_def two_states_def)
  then show "run_transform two_states 1 2 ''in.json'' ''out.json'' False [''in.json'' \<mapsto> ''old'']
      = (Inr ''Transform completed'', [''in.json'' \<mapsto> ''old'', ''out.json'' \<mapsto> ''new''])"
    by (simp add: run_transform_def read finish_def)
qed simp

lemma import_batches_bound:
  assumes "0 < length (cs_scopes s)"
  shows "100 * (import_batches s - 1) < length (cs_scopes s) \<and> length (cs_scopes s) \<le> 100 * import_batches s"
proof -
  let ?n = "length (cs_scopes s)" and ?q = "(length (cs_scopes s) + 99) div 100"
  have "100 * ?q \<le> ?n + 99" "?n + 99 < 100 * ?q + 100"
    using div_mult_mod_eq [of "?n + 99" 100] mod_less_divisor [of 100 "?n + 99"] by linarith+
  moreover have "import_batches s = ?q" using assms by (simp add: import_batches_def Let_def)
  ultimately show ?thesis using assms by (simp only: diff_mult_distrib2) linarith
qed

text \<open>
  An import leaves everything as it was: with or without \<open>--dry-run\<close>, \<open>migrate import\<close> reads its file, says that the import is
  completed, and sends nothing; an export writes one made-up entry, whatever the contract.
\<close>

theorem import_imports_nothing:
  "snd (run_import files dry_run in_file w) = w
   \<and> (read_state_file files in_file w = Inr state \<longrightarrow> run_import files False in_file w = finish [''Import completed''] w)"
  by (simp add: run_import_def finish_def split: sum.split)

end
