(* ===== verification/Cli_Setup.thy ===== *)
theory Cli_Setup
  imports Cli_Actions Sdk_Client_Properties
begin

text \<open>
  The commands on the configuration file (\<open>cli/src/commands/config.rs\<close>, \<open>validate.rs\<close>). The file system, the editor, the request that probes the
  RPC endpoint and the derivation of an address from a secret key are parameters. A validation that fails ends the process with
  status 1 and no report: the error with an empty chain.
\<close>

record 'w config_host =
  su_exists :: "string \<Rightarrow> 'w \<Rightarrow> bool"
  su_mkdir :: "string \<Rightarrow> 'w \<Rightarrow> (string + unit) \<times> 'w"
  su_create :: "string \<Rightarrow> string \<Rightarrow> 'w \<Rightarrow> (string + unit) \<times> 'w"
  su_editor :: "string \<Rightarrow> string \<Rightarrow> 'w \<Rightarrow> (string + unit) \<times> 'w"
  su_get :: "string \<Rightarrow> 'w \<Rightarrow> (string + unit) \<times> 'w"
  su_address :: "string \<Rightarrow> string option"

section \<open>Writing the file\<close>

definition resolve_path :: "string option \<Rightarrow> string" where
  "resolve_path path = (case path of Some p \<Rightarrow> p | None \<Rightarrow> ''.xlm-ns.toml'')"

definition make_parent :: "'w config_host \<Rightarrow> string \<Rightarrow> 'w \<Rightarrow> (cli_error, unit) result \<times> 'w" where
  "make_parent su parent w =
     (case su_mkdir su parent w of
        (Inl e, w') \<Rightarrow> (Inl (Err (policy_error (''failed to create '' @ parent @ '': '' @ e))), w')
      | (Inr _, w') \<Rightarrow> (Inr (), w'))"

definition write_template ::
    "'w config_host \<Rightarrow> string \<Rightarrow> network \<Rightarrow> bool \<Rightarrow> 'w \<Rightarrow> (cli_error, unit) result \<times> 'w" where
  "write_template su path network force w =
     (if su_exists su path w \<and> \<not> force then
        (Inl (Err (policy_error (''config file '' @ path @ '' already exists (pass --force to overwrite)''))), w)
      else
        (case (case path_parent path of Some p \<Rightarrow> if p \<noteq> [] then make_parent su p w else (Inr (), w) | None \<Rightarrow> (Inr (), w)) of
           (Inl e, w1) \<Rightarrow> (Inl e, w1)
         | (Inr _, w1) \<Rightarrow>
             (case su_create su path (config_template network) w1 of
                (Inl e, w2) \<Rightarrow> (Inl (Err (policy_error e)), w2)
              | (Inr _, w2) \<Rightarrow> (Inr (), w2))))"

definition run_config_init :: "'w config_host \<Rightarrow> string option \<Rightarrow> network \<Rightarrow> bool \<Rightarrow> 'w \<Rightarrow> 'w run" where
  "run_config_init su path network force w =
     (case write_template su (resolve_path path) network force w of
        (Inl e, w') \<Rightarrow> (Inl e, w')
      | (Inr _, w') \<Rightarrow> finish [''Wrote config template to '' @ resolve_path path] w')"

definition open_editor :: "'w config_host \<Rightarrow> os \<Rightarrow> string \<Rightarrow> 'w \<Rightarrow> 'w run" where
  "open_editor su os path w =
     (let editor = (case or_else (os_env os ''VISUAL'') (os_env os ''EDITOR'') of Some e \<Rightarrow> e | None \<Rightarrow> ''vi'') in
      case su_editor su editor path w of
        (Inl e, w') \<Rightarrow> fail_with e w'
      | (Inr _, w') \<Rightarrow> finish [] w')"

definition run_config_edit :: "'w config_host \<Rightarrow> os \<Rightarrow> string option \<Rightarrow> network \<Rightarrow> 'w \<Rightarrow> 'w run" where
  "run_config_edit su os path network w =
     (case (if \<not> su_exists su (resolve_path path) w then write_template su (resolve_path path) network False w else (Inr (), w)) of
        (Inl e, w') \<Rightarrow> (Inl e, w')
      | (Inr _, w') \<Rightarrow> open_editor su os (resolve_path path) w')"

section \<open>Validation\<close>

record validation_result =
  va_name :: string
  va_pass :: bool
  va_message :: string

definition all_contract_ids :: "network_config \<Rightarrow> (string \<times> string option) list" where
  "all_contract_ids conf =
     [(''registry'', nc_registry conf), (''registrar'', nc_registrar conf), (''resolver'', nc_resolver conf),
      (''auction'', nc_auction conf), (''bridge'', nc_bridge conf), (''subdomain'', nc_subdomain conf), (''nft'', nc_nft conf)]"

text \<open>The regular expression \<open>^C[A-Z0-9]{55}$\<close>.\<close>

definition contract_id_format :: "string \<Rightarrow> bool" where
  "contract_id_format s \<longleftrightarrow> length s = 56 \<and> hd s = CHR ''C'' \<and> list_all (\<lambda>c. is_ascii_uppercase c \<or> is_ascii_digit c) s"

definition validate_contract_id_formats :: "network_config \<Rightarrow> validation_result list" where
  "validate_contract_id_formats conf =
     map (\<lambda>(name, i). case i of
           Some s \<Rightarrow> \<lparr>va_name = name, va_pass = contract_id_format s,
                      va_message = (if contract_id_format s then [] else ''invalid format for '' @ name)\<rparr>
         | None \<Rightarrow> \<lparr>va_name = name, va_pass = False, va_message = name @ '' not configured''\<rparr>)
       (all_contract_ids conf)"

definition validate_rpc :: "'w config_host \<Rightarrow> network_config \<Rightarrow> 'w \<Rightarrow> (validation_result \<times> validation_result) \<times> 'w" where
  "validate_rpc su conf w =
     (case su_get su (nc_rpc_url conf) w of
        (Inr _, w') \<Rightarrow>
          ((\<lparr>va_name = ''RPC Connectivity'', va_pass = True, va_message = []\<rparr>,
            if nc_network_passphrase conf = ''Test SDF Network ; September 2015''
            then \<lparr>va_name = ''Network Passphrase'', va_pass = True, va_message = []\<rparr>
            else \<lparr>va_name = ''Network Passphrase'', va_pass = False, va_message = ''incorrect network passphrase''\<rparr>), w')
      | (Inl e, w') \<Rightarrow>
          ((\<lparr>va_name = ''RPC Connectivity'', va_pass = False, va_message = e\<rparr>,
            \<lparr>va_name = ''Network Passphrase'', va_pass = False,
             va_message = ''cannot check network passphrase due to RPC connectivity failure''\<rparr>), w'))"

definition validate_signing_key :: "'w config_host \<Rightarrow> os \<Rightarrow> validation_result" where
  "validate_signing_key su os =
     (case os_env os ''XLM_NS_SIGNER_USER_SECRET'' of
        Some secret \<Rightarrow>
          (case su_address su secret of
             Some address \<Rightarrow>
               if take 1 address = ''G'' then \<lparr>va_name = ''Signing Key'', va_pass = True, va_message = []\<rparr>
               else \<lparr>va_name = ''Signing Key'', va_pass = False, va_message = ''invalid public key''\<rparr>
           | None \<Rightarrow> \<lparr>va_name = ''Signing Key'', va_pass = False, va_message = ''invalid secret key''\<rparr>)
      | None \<Rightarrow> \<lparr>va_name = ''Signing Key'', va_pass = False, va_message = ''XLM_NS_SIGNER_USER_SECRET not set''\<rparr>)"

definition validation_results :: "'w config_host \<Rightarrow> os \<Rightarrow> network_config \<Rightarrow> 'w \<Rightarrow> validation_result list \<times> 'w" where
  "validation_results su os conf w =
     (case validate_rpc su conf w of
        ((rpc, passphrase), w') \<Rightarrow> (validate_contract_id_formats conf @ [rpc, passphrase, validate_signing_key su os], w'))"

definition exit_quietly :: cli_error where
  "exit_quietly = \<lparr>err_chain = [], err_sdk = None\<rparr>"

definition path_options :: "string option \<Rightarrow> resolve_options" where
  "path_options path =
     \<lparr>ro_config_path = path, ro_rpc_url = None, ro_network_passphrase = None,
      ro_overrides = \<lparr>co_registry = None, co_registrar = None, co_resolver = None, co_auction = None, co_bridge = None,
        co_subdomain = None, co_nft = None\<rparr>\<rparr>"

definition run_config_validate :: "'w config_host \<Rightarrow> os \<Rightarrow> string option \<Rightarrow> network \<Rightarrow> 'w \<Rightarrow> 'w run" where
  "run_config_validate su os path network w =
     (case load_config os network (path_options path) of
        Inl e \<Rightarrow> fail_with (display_config_error e) w
      | Inr conf \<Rightarrow>
          (case validation_results su os conf w of
             (results, w') \<Rightarrow>
               if list_all va_pass results then
                 finish ([''Validating configuration for '' @ network_str network @ ''...'']
                   @ map (\<lambda>r. ''['' @ (if va_pass r then ''PASS'' else ''FAIL'') @ ''] '' @ va_name r) results
                   @ ['''', ''Configuration is valid.'']) w'
               else (Inl (Err exit_quietly), w')))"

definition run_config_show :: "os \<Rightarrow> string option \<Rightarrow> network \<Rightarrow> 'w \<Rightarrow> 'w run" where
  "run_config_show os path network w =
     (case load_config os network (path_options path) of
        Inl e \<Rightarrow> fail_with (display_config_error e) w
      | Inr conf \<Rightarrow> finish [''Current configuration''] w)"

section \<open>Properties\<close>

text \<open>
  The validation knows one network: it passes only with the passphrase of the test network, so no configuration for the main
  network that has the main network's passphrase is ever valid.
\<close>

theorem mainnet_never_validates:
  assumes "load_config os network (path_options path) = Inr conf"
    and "nc_network_passphrase conf = default_network_passphrase Mainnet"
  shows "\<exists>w'. run_config_validate su os path network w = (Inl (Err exit_quietly), w')"
proof -
  obtain x w1 where "su_get su (nc_rpc_url conf) w = (x, w1)" by fastforce
  then obtain rpc passphrase where "validate_rpc su conf w = ((rpc, passphrase), w1)" "\<not> va_pass passphrase"
    using assms(2) by (cases x) (simp_all add: validate_rpc_def)
  then show ?thesis using assms(1) by (simp add: run_config_validate_def validation_results_def)
qed

text \<open>
  The two checks of contract ids differ: what the validation accepts is accepted when the configuration is loaded, but not the
  reverse, since loading ignores blanks around an id and accepts small letters.
\<close>

theorem id_checks_differ:
  "(contract_id_format s \<longrightarrow> validate_contract_id s = Inr ())
   \<and> (\<exists>i. validate_contract_id i = Inr () \<and> \<not> contract_id_format i)"
proof
  show "contract_id_format s \<longrightarrow> validate_contract_id s = Inr ()"
  proof
    assume ok: "contract_id_format s"
    then have chars: "list_all is_ascii_alphanumeric s" by (auto simp: contract_id_format_def list_all_iff is_ascii_alphanumeric_def)
    then have "list_all graphic s" by (auto simp: list_all_iff alphanumeric_graphic)
    then have "trim s = s" by (rule trim_graphic)
    moreover have "s \<noteq> []" "length s = 56" "take 1 s = ''C''" using ok by (cases s; simp add: contract_id_format_def)+
    ultimately show "validate_contract_id s = Inr ()" using chars by (simp add: validate_contract_id_def)
  qed
  have "validate_contract_id (CHR ''C'' # replicate 55 CHR ''a'') = Inr () \<and> \<not> contract_id_format (CHR ''C'' # replicate 55 CHR ''a'')"
    by code_simp
  then show "\<exists>i. validate_contract_id i = Inr () \<and> \<not> contract_id_format i" by blast
qed

end
