(* ===== verification/Cli_Portfolio.thy ===== *)
theory Cli_Portfolio
  imports Sdk_Queries
begin

text \<open>
  The portfolio command (\<open>cli/src/commands/portfolio.rs\<close>): pages of an owner's names are fetched until there are no more, with smaller
  requests after a timeout. The locale \<open>pager\<close> is what the command relies on; the client's pages are an interpretation.
\<close>

section \<open>The command\<close>

record portfolio_options =
  po_batch_size :: usize
  po_limit :: "usize option"
  po_page :: "usize option"

definition DEFAULT_BATCH_SIZE :: usize where "DEFAULT_BATCH_SIZE = 50"
definition MIN_BATCH_SIZE :: usize where "MIN_BATCH_SIZE = 1"

definition portfolio_options_default :: portfolio_options where
  "portfolio_options_default = \<lparr>po_batch_size = DEFAULT_BATCH_SIZE, po_limit = None, po_page = None\<rparr>"

definition normalized :: "portfolio_options \<Rightarrow> portfolio_options" where
  "normalized options = options\<lparr>po_batch_size := max (po_batch_size options) MIN_BATCH_SIZE\<rparr>"

definition is_timeout_error :: "sdk_error \<Rightarrow> bool" where
  "is_timeout_error err =
     (case err of
        Transport message \<Rightarrow>
          contains (to_ascii_lowercase message) ''timeout'' \<or> contains (to_ascii_lowercase message) ''timed out''
      | InvalidRequest message \<Rightarrow>
          contains (to_ascii_lowercase message) ''timeout'' \<or> contains (to_ascii_lowercase message) ''timed out''
      | TransactionTimeout _ _ \<Rightarrow> True
      | _ \<Rightarrow> False)"

type_synonym pages = "string \<Rightarrow> usize option \<Rightarrow> usize \<Rightarrow> sdk_error + portfolio_page"

lemma word_one:
  assumes "x \<noteq> 0" and "\<not> 1 < x"
  shows "x = (1 :: 'a::len word)"
proof -
  have "unat x \<le> unat (1 :: 'a word)" using assms(2) by (simp add: word_less_nat_alt not_less)
  moreover have "unat x \<noteq> 0" using assms(1) by (simp add: unat_eq_0)
  ultimately have "unat x = unat (1 :: 'a word)" by simp
  then show ?thesis by (simp only: word_unat_eq_iff)
qed

lemma half_less:
  assumes "(MIN_BATCH_SIZE :: usize) < n"
  shows "unat (max (n div 2) MIN_BATCH_SIZE) < unat n"
  using assms by (auto simp: MIN_BATCH_SIZE_def max_def word_less_nat_alt unat_div)

text \<open>The inner loop: the page and the page size that succeeded.\<close>

function fetch_page ::
    "pages \<Rightarrow> string \<Rightarrow> usize option \<Rightarrow> usize option \<Rightarrow> usize \<Rightarrow> sdk_error + (portfolio_page \<times> usize)" where
  "fetch_page pages owner cursor remaining_limit page_size =
     (let requested = (case remaining_limit of None \<Rightarrow> page_size | Some remaining \<Rightarrow> min remaining page_size) in
      case pages owner cursor requested of
        Inr page \<Rightarrow> Inr (page, page_size)
      | Inl err \<Rightarrow>
          if is_timeout_error err \<and> page_size > MIN_BATCH_SIZE
          then fetch_page pages owner cursor remaining_limit (max (page_size div 2) MIN_BATCH_SIZE)
          else Inl err)"
  by pat_completeness auto
termination
  by (relation "measure (\<lambda>(pages, owner, cursor, remaining, page_size). unat page_size)") (auto intro: half_less)

declare fetch_page.simps [simp del]

text \<open>The outer loop; it ends when the pages end, or not at all.\<close>

partial_function (option) portfolio_loop ::
    "pages \<Rightarrow> string \<Rightarrow> portfolio_options \<Rightarrow> usize option \<Rightarrow> usize \<Rightarrow> usize \<Rightarrow> resolution_result list
       \<Rightarrow> (sdk_error + resolution_result list) option" where
  "portfolio_loop pages owner options cursor page_size fetched names =
     (let remaining_limit = map_option (\<lambda>limit. sat_sub limit fetched) (po_limit options) in
      if remaining_limit = Some 0 then Some (Inr names)
      else case fetch_page pages owner cursor remaining_limit page_size of
        Inl err \<Rightarrow> Some (Inl err)
      | Inr (page, page_size') \<Rightarrow>
          (if po_page options \<noteq> None \<or> cursor = page_next_cursor page \<or> page_next_cursor page = None
           then Some (Inr (names @ page_items page))
           else portfolio_loop pages owner options (page_next_cursor page) page_size'
                  (fetched + of_nat (length (page_items page))) (names @ page_items page)))"

text \<open>A round that ends the loop, and one that does not.\<close>

lemma loop_last:
  assumes "remaining = map_option (\<lambda>limit. sat_sub limit fetched) (po_limit options)" and "remaining \<noteq> Some 0"
    and "fetch_page pages owner cursor remaining page_size = Inr (page, page_size')"
    and "po_page options \<noteq> None \<or> cursor = page_next_cursor page \<or> page_next_cursor page = None"
  shows "portfolio_loop pages owner options cursor page_size fetched names = Some (Inr (names @ page_items page))"
  by (subst portfolio_loop.simps) (simp only: Let_def assms(1) [symmetric] assms(2,3,4) if_False if_True sum.case prod.case)

lemma loop_more:
  assumes "remaining = map_option (\<lambda>limit. sat_sub limit fetched) (po_limit options)" and "remaining \<noteq> Some 0"
    and "fetch_page pages owner cursor remaining page_size = Inr (page, page_size')"
    and "\<not> (po_page options \<noteq> None \<or> cursor = page_next_cursor page \<or> page_next_cursor page = None)"
  shows "portfolio_loop pages owner options cursor page_size fetched names
    = portfolio_loop pages owner options (page_next_cursor page) page_size' (fetched + of_nat (length (page_items page)))
        (names @ page_items page)"
  by (subst portfolio_loop.simps) (simp only: Let_def assms(1) [symmetric] assms(2,3,4) if_False if_True sum.case prod.case)

text \<open>The names that \<open>run_portfolio\<close> lists.\<close>

definition portfolio_names :: "pages \<Rightarrow> string \<Rightarrow> portfolio_options \<Rightarrow> (sdk_error + resolution_result list) option" where
  "portfolio_names pages owner given =
     (let options = normalized given in
      portfolio_loop pages owner options
        (map_option (\<lambda>page. sat_sub page 1 * po_batch_size options) (po_page options)) (po_batch_size options) 0 [])"

section \<open>Pages\<close>

lemma unat_min_word: "unat (min a b :: 'a::len word) = min (unat a) (unat b)"
  by (simp add: min_def word_le_nat_alt)

lemma unat_small: "n < 2 ^ 64 \<Longrightarrow> unat (of_nat n :: usize) = n"
  by (simp add: unat_of_nat)

lemma page_of_at:
  assumes few: "length items < 2 ^ 64" and k: "k \<le> length items" and "(case cursor of Some c \<Rightarrow> c | None \<Rightarrow> 0) = of_nat k"
  shows "page_items (page_of items cursor limit) = drop k (take (k + unat limit) items)"
    and "page_next_cursor (page_of items cursor limit)
      = (if k + unat limit < length items then Some (of_nat (k + unat limit)) else None)"
proof -
  have word: "unat (of_nat n :: usize) = n" if "n \<le> length items" for n
    using few that by (intro unat_small) simp
  let ?start = "min (case cursor of Some c \<Rightarrow> c | None \<Rightarrow> 0) (of_nat (length items)) :: usize"
  let ?stop = "min (sat_add ?start limit) (of_nat (length items)) :: usize"
  have start: "unat ?start = k" using k word assms(3) by (simp add: unat_min_word)
  have stop: "unat ?stop = min (k + unat limit) (length items)"
    unfolding unat_min_word [of "sat_add ?start limit"] unat_sat_add start word [OF order_refl] using few by (simp add: min_def)
  show "page_items (page_of items cursor limit) = drop k (take (k + unat limit) items)"
    unfolding page_of_def Let_def using start stop by (simp add: min_def)
  have "?stop < of_nat (length items) \<longleftrightarrow> k + unat limit < length items"
    unfolding word_less_nat_alt stop word [OF order_refl] by linarith
  moreover have "?stop = of_nat (k + unat limit)" if "k + unat limit < length items"
    using that stop word [of "k + unat limit"] by (simp only: word_unat_eq_iff)
  ultimately show "page_next_cursor (page_of items cursor limit)
      = (if k + unat limit < length items then Some (of_nat (k + unat limit)) else None)"
    unfolding page_of_def Let_def by simp
qed

lemma page_items_at:
  assumes "length items < 2 ^ 64"
  shows "page_items (page_of items cursor limit)
    = take (unat limit) (drop (unat (case cursor of Some c \<Rightarrow> c | None \<Rightarrow> 0)) items)"
proof (cases "unat (case cursor of Some c \<Rightarrow> c | None \<Rightarrow> 0) \<le> length items")
  case True
  let ?c = "case cursor of Some c \<Rightarrow> c | None \<Rightarrow> 0"
  have "?c = of_nat (unat ?c)" by simp
  from page_of_at(1) [OF assms True this, of limit] show ?thesis by (simp add: drop_take)
next
  case False
  then have "min (case cursor of Some c \<Rightarrow> c | None \<Rightarrow> 0) (of_nat (length items)) = (of_nat (length items) :: usize)"
    using assms by (simp add: min_def word_le_nat_alt unat_small del: of_nat_numeral)
  with False assms show ?thesis by (simp add: page_of_def Let_def unat_small del: of_nat_numeral)
qed

lemma fetched_request:
  "fetch_page pages owner cursor remaining page_size = Inr (page, page_size')
    \<Longrightarrow> pages owner cursor (case remaining of None \<Rightarrow> page_size' | Some r \<Rightarrow> min r page_size') = Inr page"
proof (induction pages owner cursor remaining page_size rule: fetch_page.induct)
  case (1 pages owner cursor remaining page_size)
  then show ?case by (auto simp: fetch_page.simps [of pages owner cursor remaining page_size] Let_def
      split: sum.splits if_splits)
qed

section \<open>What it relies on\<close>

locale pager =
  fixes pages :: pages
    and owned :: "string \<Rightarrow> resolution_result list"
    and capacity :: usize
  assumes few: "length (owned owner) < 2 ^ 64"
    and capacity: "capacity \<noteq> 0"
    and served: "\<not> is_blank owner \<Longrightarrow> limit \<noteq> 0 \<Longrightarrow> limit \<le> capacity
      \<Longrightarrow> pages owner cursor limit = Inr (page_of (owned owner) cursor limit)"
    and busy: "\<not> is_blank owner \<Longrightarrow> capacity < limit
      \<Longrightarrow> pages owner cursor limit = Inr (page_of (owned owner) cursor limit)
        \<or> (\<exists>err. pages owner cursor limit = Inl err \<and> is_timeout_error err)"
begin

lemma fetch_serves:
  assumes "\<not> is_blank owner" and "page_size \<noteq> 0" and "remaining \<noteq> Some 0"
  obtains page_size' where "page_size' \<noteq> 0" and "page_size' \<le> page_size"
    and "fetch_page pages owner cursor remaining page_size
      = Inr (page_of (owned owner) cursor (case remaining of None \<Rightarrow> page_size' | Some r \<Rightarrow> min r page_size'), page_size')"
  using assms(2,3)
proof (induction "unat page_size" arbitrary: page_size thesis rule: less_induct)
  case less
  let ?request = "case remaining of None \<Rightarrow> page_size | Some r \<Rightarrow> min r page_size"
  have request: "?request \<noteq> 0" "?request \<le> page_size" using less.prems by (auto simp: min_def split: option.split)
  consider "pages owner cursor ?request = Inr (page_of (owned owner) cursor ?request)"
    | err where "pages owner cursor ?request = Inl err" "is_timeout_error err" "capacity < ?request"
    using served [OF assms(1) request(1)] busy [OF assms(1)] by (meson linorder_not_less)
  then show thesis
  proof cases
    case 1
    then show thesis using less.prems(1) [of page_size] less.prems(2) by (simp add: fetch_page.simps Let_def)
  next
    case 2
    have "page_size > MIN_BATCH_SIZE"
    proof (rule ccontr)
      assume "\<not> page_size > MIN_BATCH_SIZE"
      then have "page_size = 1" using less.prems(2) unfolding MIN_BATCH_SIZE_def by (rule word_one [rotated])
      then have "capacity < 1" using 2(3) request(2) by (meson less_le_trans)
      then show False using capacity by (simp add: word_less_1)
    qed
    let ?half = "max (page_size div 2) MIN_BATCH_SIZE"
    have half: "unat ?half < unat page_size" using half_less [OF \<open>page_size > MIN_BATCH_SIZE\<close>] .
    have "?half \<noteq> 0" by (auto simp: MIN_BATCH_SIZE_def max_def)
    then obtain ps where ps: "ps \<noteq> 0" "ps \<le> ?half"
      "fetch_page pages owner cursor remaining ?half
        = Inr (page_of (owned owner) cursor (case remaining of None \<Rightarrow> ps | Some r \<Rightarrow> min r ps), ps)"
      using less.hyps [OF half, of thesis] less.prems(3) by blast
    have "ps \<le> page_size" using ps(2) half by (simp add: word_le_nat_alt)
    then show thesis
      using less.prems(1) [of ps] ps 2 \<open>page_size > MIN_BATCH_SIZE\<close> fetch_page.simps [of pages owner cursor remaining page_size]
      by (simp add: Let_def)
  qed
qed

text \<open>Before a round of the loop the first \<open>k\<close> names are listed and the cursor is at the next.\<close>

lemma loop_completes:
  assumes "\<not> is_blank owner" and "po_page options = None"
  shows "page_size \<noteq> 0 \<Longrightarrow> k \<le> length (owned owner) \<Longrightarrow> (case cursor of Some c \<Rightarrow> c | None \<Rightarrow> 0) = of_nat k
    \<Longrightarrow> (\<And>l. po_limit options = Some l \<Longrightarrow> k \<le> unat l)
    \<Longrightarrow> portfolio_loop pages owner options cursor page_size (of_nat k) (take k (owned owner))
      = Some (Inr (case po_limit options of None \<Rightarrow> owned owner | Some l \<Rightarrow> take (unat l) (owned owner)))"
proof (induction "length (owned owner) - k" arbitrary: k cursor page_size rule: less_induct)
  case less
  let ?all = "owned owner"
  let ?remaining = "map_option (\<lambda>limit. sat_sub limit (of_nat k)) (po_limit options)"
  have k: "unat (of_nat k :: usize) = k" using less.prems(2) few [of owner] by (simp add: unat_of_nat)
  show ?case
  proof (cases "?remaining = Some 0")
    case True
    then obtain l where "po_limit options = Some l" "unat (sat_sub l (of_nat k)) = 0" by auto
    then have "po_limit options = Some l" "unat l = k" using less.prems(4) k by (auto simp: unat_sat_sub)
    with True show ?thesis by (subst portfolio_loop.simps) simp
  next
    case False
    obtain ps where ps: "ps \<noteq> 0" and fetched: "fetch_page pages owner cursor ?remaining page_size
        = Inr (page_of ?all cursor (case ?remaining of None \<Rightarrow> ps | Some r \<Rightarrow> min r ps), ps)"
      using fetch_serves [OF assms(1) less.prems(1) False] by blast
    define request where "request = (case ?remaining of None \<Rightarrow> ps | Some r \<Rightarrow> min r ps)"
    note fetched = fetched [folded request_def] and page = page_of_at [OF few less.prems(2,3), of request]
    have pos: "0 < unat request" using ps False by (auto simp: request_def unat_gt_0 min_def split: option.split)
    have room: "k + unat request \<le> unat l" if "po_limit options = Some l" for l
      using that k less.prems(4) [OF that] by (simp add: request_def unat_min_word unat_sat_sub)
    have joined: "take k ?all @ page_items (page_of ?all cursor request) = take (k + unat request) ?all"
      using less.prems(2) by (simp add: page(1) take_add drop_take min_absorb2)
    show ?thesis
    proof (cases "k + unat request < length ?all")
      case more: True
      then have next_page: "page_next_cursor (page_of ?all cursor request) = Some (of_nat (k + unat request))" by (simp add: page(2))
      have "cursor \<noteq> Some (of_nat (k + unat request))"
      proof
        assume "cursor = Some (of_nat (k + unat request))"
        then have "(of_nat (k + unat request) :: usize) = of_nat k" using less.prems(3) by simp
        moreover have "unat (of_nat (k + unat request) :: usize) = k + unat request"
          using more few [of owner] by (intro unat_small) simp
        ultimately show False using k pos by simp
      qed
      moreover have "of_nat k + of_nat (length (page_items (page_of ?all cursor request))) = (of_nat (k + unat request) :: usize)"
        using more by (simp add: page(1))
      moreover have "portfolio_loop pages owner options (Some (of_nat (k + unat request))) ps (of_nat (k + unat request))
          (take (k + unat request) ?all)
        = Some (Inr (case po_limit options of None \<Rightarrow> ?all | Some l \<Rightarrow> take (unat l) ?all))"
        using less.hyps [of "k + unat request" ps "Some (of_nat (k + unat request))"] ps pos more room by simp
      ultimately show ?thesis
        using loop_more [OF refl False fetched, of "take k ?all"] next_page joined assms(2) by simp
    next
      case last: False
      then have "page_next_cursor (page_of ?all cursor request) = None" by (simp add: page(2))
      moreover have "take (k + unat request) ?all = (case po_limit options of None \<Rightarrow> ?all | Some l \<Rightarrow> take (unat l) ?all)"
        using last room by (fastforce split: option.split)
      ultimately show ?thesis
        using loop_last [OF refl False fetched, of "take k ?all"] joined by simp
    qed
  qed
qed

lemma completes:
  assumes "\<not> is_blank owner" and "po_page given = None"
  shows "portfolio_names pages owner given
    = Some (Inr (case po_limit given of None \<Rightarrow> owned owner | Some l \<Rightarrow> take (unat l) (owned owner)))"
proof -
  have "max (po_batch_size given) MIN_BATCH_SIZE \<noteq> 0" by (auto simp: MIN_BATCH_SIZE_def max_def)
  then show ?thesis
    using loop_completes [OF assms(1), of "normalized given" _ 0 None] assms(2)
    by (simp add: portfolio_names_def normalized_def)
qed

lemma one_page:
  assumes "\<not> is_blank owner" and "po_page given = Some p" and "po_limit given = None"
  obtains n page_size where "n = max (po_batch_size given) MIN_BATCH_SIZE" and "page_size \<le> n"
    and "portfolio_names pages owner given
      = Some (Inr (take (unat page_size) (drop (unat (sat_sub p 1 * n)) (owned owner))))"
    and "pages owner (Some (sat_sub p 1 * n)) page_size = Inr (page_of (owned owner) (Some (sat_sub p 1 * n)) page_size)"
proof -
  define n where "n = max (po_batch_size given) MIN_BATCH_SIZE"
  have "n \<noteq> 0" by (auto simp: n_def MIN_BATCH_SIZE_def max_def)
  then obtain ps where ps: "ps \<le> n"
    "fetch_page pages owner (Some (sat_sub p 1 * n)) None n = Inr (page_of (owned owner) (Some (sat_sub p 1 * n)) ps, ps)"
    using fetch_serves [OF assms(1) \<open>n \<noteq> 0\<close>, of None "Some (sat_sub p 1 * n)"] by auto
  have "portfolio_names pages owner given = Some (Inr (take (unat ps) (drop (unat (sat_sub p 1 * n)) (owned owner))))"
    using loop_last [where options = "normalized given" and names = "[]" and fetched = 0, OF _ _ ps(2)] assms(2,3)
    by (simp add: portfolio_names_def normalized_def n_def [symmetric] page_items_at [OF few])
  then show thesis using that n_def ps(1) fetched_request [OF ps(2)] by simp
qed

end

section \<open>The client's pages\<close>

interpretation sdk_pages: pager "list_registrations_by_owner_page c" "owned_items c" "- 1" for c
  by unfold_locales
    (auto simp: list_registrations_by_owner_page_def require_label_def owned_items_def simp flip: not_le)

text \<open>A service in front of them that times out when more than a number of names is asked for.\<close>

definition throttled :: "usize \<Rightarrow> pages \<Rightarrow> pages" where
  "throttled capacity pages owner cursor limit =
     (if capacity < limit then Inl (Transport ''request timed out'') else pages owner cursor limit)"

interpretation slow_pages: pager "throttled 1 (list_registrations_by_owner_page c)" "owned_items c" 1 for c
proof unfold_locales
  have "is_timeout_error (Transport ''request timed out'')" by code_simp
  then show "\<And>owner limit cursor. \<not> is_blank owner \<Longrightarrow> 1 < limit
      \<Longrightarrow> throttled 1 (list_registrations_by_owner_page c) owner cursor limit = Inr (page_of (owned_items c owner) cursor limit)
        \<or> (\<exists>err. throttled 1 (list_registrations_by_owner_page c) owner cursor limit = Inl err \<and> is_timeout_error err)"
    by (auto simp: throttled_def)
qed (auto simp: throttled_def list_registrations_by_owner_page_def require_label_def owned_items_def simp flip: not_le)

section \<open>Properties\<close>

text \<open>
  C35: Without the option \<open>--page\<close> and for an owner that is not blank, the portfolio command lists every name of the owner once, in
  order, or the first of them up to the limit, and it returns, whatever the batch size; also if the service times out on requests for
  more than some number of names (at least one), and whatever that number is. The service is one that answers a request it does not
  time out on with the names after the cursor, as \<open>pager\<close> says; a single page can lose names (\<open>portfolio_page_skips\<close>).
\<close>

theorem portfolio_complete:
  assumes "pager pages owned capacity" and "\<not> is_blank owner" and "po_page given = None"
  shows "portfolio_names pages owner given
    = Some (Inr (case po_limit given of None \<Rightarrow> owned owner | Some l \<Rightarrow> take (unat l) (owned owner)))"
  by (rule pager.completes [OF assms])

theorem portfolio_complete_witness:
  "portfolio_names (throttled 1 (list_registrations_by_owner_page (client_new ''url'' None None None None None))) ''G''
      portfolio_options_default
    = Some (Inr (owned_items (client_new ''url'' None None None None None) ''G''))"
  using portfolio_complete [OF slow_pages.pager_axioms, of "''G''" portfolio_options_default "client_new ''url'' None None None None None"]
  by (simp add: portfolio_options_default_def)

text \<open>
  With the option for a single page the same retry loses names: the page starts where full pages would put it, but a
  service that serves fewer names than the batch size makes it shorter, so the names behind it are on no page.
\<close>

theorem portfolio_page_skips:
  assumes "pager pages owned capacity" and "\<not> is_blank owner" and "po_page given = Some p" and "po_limit given = None"
    and "\<And>cursor limit. capacity < limit \<Longrightarrow> \<exists>err. pages owner cursor limit = Inl err"
    and "capacity < po_batch_size given"
  shows "\<exists>n \<le> unat capacity. portfolio_names pages owner given
    = Some (Inr (take n (drop (unat (sat_sub p 1 * po_batch_size given)) (owned owner))))"
proof -
  have "po_batch_size given \<noteq> 0" using assms(6) by (metis word_not_simps(1))
  then have "max (po_batch_size given) MIN_BATCH_SIZE = po_batch_size given"
    using word_one [of "po_batch_size given"]
    by (cases "1 < po_batch_size given") (auto simp: MIN_BATCH_SIZE_def max_def)
  then show ?thesis
    using pager.one_page [OF assms(1-4)] assms(5) by (metis Inl_Inr_False not_le word_le_nat_alt)
qed

theorem portfolio_page_skips_witness:
  "\<exists>n \<le> 1. portfolio_names (throttled 1 (list_registrations_by_owner_page (client_new ''url'' None None None None None))) ''G''
      \<lparr>po_batch_size = 2, po_limit = None, po_page = Some 1\<rparr>
    = Some (Inr (take n (owned_items (client_new ''url'' None None None None None) ''G'')))"
  using portfolio_page_skips [OF slow_pages.pager_axioms, of "''G''" "\<lparr>po_batch_size = 2, po_limit = None, po_page = Some 1\<rparr>" 1
      "client_new ''url'' None None None None None"]
  by (simp add: throttled_def sat_sub_def)

end
