(* ===== verification/Cli_Completions.thy ===== *)
theory Cli_Completions
  imports Cli_Actions Std_Path
begin

text \<open>
  The command \<open>completions\<close> (\<open>cli/src/commands/completions.rs\<close>): which shell is in use, and where its script goes. The \<open>clap_complete\<close> crate,
  which writes the scripts, and the file system are parameters.
\<close>

datatype shell = ShBash | ShZsh | ShFish

record 'w completion_host =
  ch_generate :: "shell \<Rightarrow> string"
  ch_mkdir :: "string \<Rightarrow> 'w \<Rightarrow> (string + unit) \<times> 'w"
  ch_generate_to :: "shell \<Rightarrow> string \<Rightarrow> 'w \<Rightarrow> (string + string) \<times> 'w"

primrec shell_name :: "shell \<Rightarrow> string" where
  "shell_name ShBash = ''bash''"
| "shell_name ShZsh = ''zsh''"
| "shell_name ShFish = ''fish''"

definition shell_from_path :: "string \<Rightarrow> shell option" where
  "shell_from_path value =
     (case path_file_name value of
        None \<Rightarrow> None
      | Some name \<Rightarrow>
          (let n = trim_end_matches ''.exe'' (to_ascii_lowercase name) in
           if n = ''bash'' then Some ShBash else if n = ''zsh'' then Some ShZsh else if n = ''fish'' then Some ShFish else None))"

definition detect_shell :: "os \<Rightarrow> shell option" where
  "detect_shell os = Option.bind (or_else (os_env os ''SHELL'') (os_env os ''ComSpec'')) shell_from_path"

definition home_dir :: "os \<Rightarrow> string option" where
  "home_dir os = or_else (os_env os ''HOME'') (os_env os ''USERPROFILE'')"

primrec completion_install_dir_from_home :: "string \<Rightarrow> shell \<Rightarrow> string" where
  "completion_install_dir_from_home home ShBash =
     path_join (path_join (path_join (path_join home ''.local'') ''share'') ''bash-completion'') ''completions''"
| "completion_install_dir_from_home home ShZsh =
     path_join (path_join (path_join (path_join home ''.local'') ''share'') ''zsh'') ''site-functions''"
| "completion_install_dir_from_home home ShFish = path_join (path_join (path_join home ''.config'') ''fish'') ''completions''"

definition completion_install_dir :: "os \<Rightarrow> shell \<Rightarrow> string option" where
  "completion_install_dir os shell = map_option (\<lambda>home. completion_install_dir_from_home home shell) (home_dir os)"

definition install_completion :: "'w completion_host \<Rightarrow> os \<Rightarrow> 'w \<Rightarrow> 'w run" where
  "install_completion ch os w =
     (case detect_shell os of
        None \<Rightarrow> fail_with ''could not detect your shell; run `xlm-ns completions bash|zsh|fish` instead'' w
      | Some shell \<Rightarrow>
          (case completion_install_dir os shell of
             None \<Rightarrow> fail_with ''could not determine your home directory'' w
           | Some dir \<Rightarrow>
               (case ch_mkdir ch dir w of
                  (Inl e, w1) \<Rightarrow> fail_with (''failed to create completion directory '' @ dir @ '': '' @ e) w1
                | (Inr _, w1) \<Rightarrow>
                    (case ch_generate_to ch shell dir w1 of
                       (Inl e, w2) \<Rightarrow> fail_with (''failed to install completion script into '' @ dir @ '': '' @ e) w2
                     | (Inr installed, w2) \<Rightarrow>
                         finish [''Installed '' @ shell_name shell @ '' completion script to '' @ installed] w2))))"

primrec run_completion_command :: "'w completion_host \<Rightarrow> os \<Rightarrow> completion_command \<Rightarrow> 'w \<Rightarrow> 'w run" where
  "run_completion_command ch os CompleteBash = finish [ch_generate ch ShBash]"
| "run_completion_command ch os CompleteZsh = finish [ch_generate ch ShZsh]"
| "run_completion_command ch os CompleteFish = finish [ch_generate ch ShFish]"
| "run_completion_command ch os CompleteInstall = install_completion ch os"

text \<open>The path of every supported shell is recognised, in whatever directory it lies, also with the ending of Windows.\<close>

lemma trim_exe:
  "trim_end_matches ''.exe'' (shell_name shell) = shell_name shell"
  "trim_end_matches ''.exe'' (shell_name shell @ ''.exe'') = shell_name shell"
  by (cases shell; simp add: trim_end_matches.simps strip_suffix_def)+

theorem shell_detected:
  "shell_from_path (dir @ CHR ''/'' # shell_name shell) = Some shell
   \<and> shell_from_path (dir @ CHR ''/'' # shell_name shell @ ''.exe'') = Some shell"
proof -
  have lower: "to_ascii_lowercase (shell_name shell) = shell_name shell"
    "to_ascii_lowercase (shell_name shell @ ''.exe'') = shell_name shell @ ''.exe''"
    by (cases shell; simp add: to_ascii_lowercase_def ascii_lower_def is_ascii_uppercase_def byte_in_def)+
  have plain: "CHR ''/'' \<notin> set (shell_name shell)" "shell_name shell \<notin> {[], ''.'', ''..''}" by (cases shell; simp)+
  then have "CHR ''/'' \<notin> set (shell_name shell @ ''.exe'')" "shell_name shell @ ''.exe'' \<notin> {[], ''.'', ''..''}" by (cases shell; simp)+
  note names = path_file_name_last [OF plain, of dir] path_file_name_last [OF this, of dir]
  have "(if shell_name shell = ''bash'' then Some ShBash else if shell_name shell = ''zsh'' then Some ShZsh
      else if shell_name shell = ''fish'' then Some ShFish else None) = Some shell"
    by (cases shell; simp)
  then show ?thesis unfolding shell_from_path_def names option.case lower trim_exe Let_def by simp
qed

end
