(* ===== verification/Cli_Dispatch.thy ===== *)
theory Cli_Dispatch
  imports Cli_Register Cli_Bulk Cli_Status Cli_Migrate Cli_Setup Cli_Portfolio Cli_Completions
begin

text \<open>
  The dispatch of the commands (\<open>run_with_cli\<close> and \<open>main\<close> of \<open>cli/src/main.rs\<close>). A \<open>console\<close> is everything outside: the host of the client
  library, the environment, the terminal, the files, the clocks, and the writer of completion scripts. A command
  that never returns has the value \<open>None\<close>.
\<close>

record 'w console =
  con_host :: "'w host"
  con_dbg :: "string \<Rightarrow> string"
  con_os :: os
  con_terminal :: "'w terminal"
  con_config :: "'w config_host"
  con_states :: "'w state_files"
  con_registrations :: "bulk_record bulk_files"
  con_renewals :: "renew_record bulk_files"
  con_watch :: "'w watch_files"
  con_chrono :: chrono
  con_clock :: "'w \<Rightarrow> int \<times> 'w"
  con_seconds :: "'w \<Rightarrow> u64 \<times> 'w"
  con_completion :: "'w completion_host"

section \<open>The portfolio\<close>

definition portfolio_lines :: "string \<Rightarrow> resolution_result list \<Rightarrow> string list" where
  "portfolio_lines owner names =
     (''Portfolio for '' @ owner @ '':'')
     # (if names = [] then [''  [no names found]'']
        else map (\<lambda>entry. ''  - '' @ rres_name entry @ '' (expires_at: ''
               @ (case rres_expires_at entry of Some t \<Rightarrow> show_word t | None \<Rightarrow> ''unknown'') @ '')'') names)"

definition run_portfolio ::
    "(string \<Rightarrow> string) \<Rightarrow> network_config \<Rightarrow> string \<Rightarrow> portfolio_options \<Rightarrow> 'w \<Rightarrow> ('w run) option" where
  "run_portfolio dbg conf owner options w =
     (let client = with_resolver (cli_client conf) (case nc_resolver conf of Some i \<Rightarrow> i | None \<Rightarrow> ''unknown'') in
      case portfolio_names (list_registrations_by_owner_page client) owner options of
        None \<Rightarrow> None
      | Some (Inl err) \<Rightarrow>
          Some (fail_with (''ERROR: Failed to fetch portfolio for '' @ owner @ '': '' @ display_sdk_error dbg err) w)
      | Some (Inr names) \<Rightarrow> Some (finish (portfolio_lines owner names) w))"

section \<open>Dispatch\<close>

definition with_signer :: "os \<Rightarrow> string option \<Rightarrow> (signer_profile option \<Rightarrow> 'w \<Rightarrow> 'w run) \<Rightarrow> 'w \<Rightarrow> 'w run" where
  "with_signer os name f w = (case resolve_signer os name of Inl e \<Rightarrow> (Inl (Err e), w) | Inr signer \<Rightarrow> f signer w)"

fun run_migrate :: "'w state_files \<Rightarrow> bool \<Rightarrow> migrate_command \<Rightarrow> 'w \<Rightarrow> 'w run" where
  "run_migrate files dry_run (MigrateTransform from_version to_version in_file out_file) =
     run_transform files from_version to_version in_file out_file dry_run"
| "run_migrate files dry_run (MigrateDryRun from_version to_version in_file) =
     run_transform files from_version to_version in_file ''/dev/null'' True"
| "run_migrate files dry_run (MigrateVerify source_file target_file strict) = run_verify files source_file target_file strict"
| "run_migrate files dry_run (MigrateRollbackMetadata cid wasm_hash_out) = run_rollback_metadata files cid wasm_hash_out"
| "run_migrate files dry_run (MigrateExport cid out_file) = run_export files dry_run cid out_file"
| "run_migrate files dry_run (MigrateImport cid in_file) = run_import files dry_run in_file"

fun run_auction ::
    "'w host \<Rightarrow> (string \<Rightarrow> string) \<Rightarrow> os \<Rightarrow> network_config \<Rightarrow> auction_command \<Rightarrow> 'w \<Rightarrow> 'w run" where
  "run_auction h dbg os conf (AuctionCreate name reserve duration signer) =
     with_signer os signer (run_auction_create h dbg conf name reserve duration)"
| "run_auction h dbg os conf (AuctionBid name amount signer) = with_signer os signer (run_auction_bid h dbg conf name amount)"
| "run_auction h dbg os conf (AuctionInspect name) = run_auction_inspect dbg name"
| "run_auction h dbg os conf (AuctionSettle name signer) = with_signer os signer (run_auction_settle h dbg conf name)"
| "run_auction h dbg os conf (AuctionExport name f) = fail_with ''auction text import/export is not implemented''"
| "run_auction h dbg os conf (AuctionImport name f g) = fail_with ''auction text import/export is not implemented''"

fun run_bridge :: "'w host \<Rightarrow> (string \<Rightarrow> string) \<Rightarrow> network_config \<Rightarrow> bridge_command \<Rightarrow> 'w \<Rightarrow> 'w run" where
  "run_bridge h dbg conf (BridgeRegister chain) = run_register_chain h dbg conf chain"
| "run_bridge h dbg conf (BridgeInspect chain) = run_inspect_route h dbg conf chain"
| "run_bridge h dbg conf (BridgePayload name chain) = run_generate_payload h dbg conf name chain"
| "run_bridge h dbg conf BridgeTestVectors = fail_with ''bridge test vector export is not implemented''"

fun run_subdomain :: "'w host \<Rightarrow> (string \<Rightarrow> string) \<Rightarrow> network_config \<Rightarrow> subdomain_command \<Rightarrow> 'w \<Rightarrow> 'w run" where
  "run_subdomain h dbg conf (SubRegisterParent parent owner) = run_register_parent h dbg conf parent owner"
| "run_subdomain h dbg conf (SubAddController parent controller) = run_add_controller h dbg conf parent controller"
| "run_subdomain h dbg conf (SubCreate label parent owner) = run_create_subdomain h dbg conf label parent owner"
| "run_subdomain h dbg conf (SubTransfer fqdn new_owner) = run_transfer_subdomain h dbg conf fqdn new_owner"

fun run_config :: "'w config_host \<Rightarrow> os \<Rightarrow> string option \<Rightarrow> config_command \<Rightarrow> 'w \<Rightarrow> 'w run" where
  "run_config su os given (ConfigInit path network force) = run_config_init su (or_else path given) network force"
| "run_config su os given (ConfigEdit path network) = run_config_edit su os (or_else path given) network"
| "run_config su os given (ConfigValidate path network fixed) = run_config_validate su os (or_else path given) network"
| "run_config su os given (ConfigShow path network) = run_config_show os (or_else path given) network"

definition dispatch :: "'w console \<Rightarrow> cli \<Rightarrow> network_config \<Rightarrow> 'w \<Rightarrow> ('w run) option" where
  "dispatch con cli conf w =
     (let h = con_host con; dbg = con_dbg con; os = con_os con in
      case cli_command cli of
        CmdMigrate command \<Rightarrow> Some (run_migrate (con_states con) (cli_dry_run cli) command w)
      | CmdRegister name owner interactive signer \<Rightarrow>
          (case resolve_signer os signer of
             Inl e \<Rightarrow> Some (Inl (Err e), w)
           | Inr s \<Rightarrow> run_register h dbg (con_terminal con) os conf name owner s interactive w)
      | CmdResolve name \<Rightarrow> Some (run_resolve h dbg conf name w)
      | CmdReverseResolve address \<Rightarrow> Some (run_reverse dbg conf address w)
      | CmdText (TextGet name key) \<Rightarrow> Some (run_text_get dbg name key w)
      | CmdText (TextSet name key val signer) \<Rightarrow> Some (with_signer os signer (run_text_set h dbg conf name key val) w)
      | CmdTransfer name new_owner signer \<Rightarrow> Some (with_signer os signer (run_transfer h dbg conf name new_owner) w)
      | CmdRenew name years signer \<Rightarrow> Some (with_signer os signer (run_renew h dbg conf name years) w)
      | CmdAuction command \<Rightarrow> Some (run_auction h dbg os conf command w)
      | CmdBridge command \<Rightarrow> Some (run_bridge h dbg conf command w)
      | CmdSubdomain command \<Rightarrow> Some (run_subdomain h dbg conf command w)
      | CmdNft (NftInspect token_id) \<Rightarrow> Some (run_nft_inspect dbg conf token_id w)
      | CmdConfig command \<Rightarrow> Some (run_config (con_config con) os (cli_config cli) command w)
      | CmdWhois name \<Rightarrow> Some (run_whois h dbg conf name w)
      | CmdPortfolio owner batch_size limit page \<Rightarrow>
          run_portfolio dbg conf owner \<lparr>po_batch_size = batch_size, po_limit = limit, po_page = page\<rparr> w
      | CmdQuote name years \<Rightarrow> Some (run_quote h dbg conf name years w)
      | CmdAvailability name \<Rightarrow> Some (run_availability h dbg (con_seconds con) conf name w)
      | CmdHealthcheck \<Rightarrow> Some (run_healthcheck h dbg conf w)
      | CmdBulk (BulkRegister f) \<Rightarrow> Some (run_bulk_register h dbg (con_registrations con) conf f (cli_dry_run cli) w)
      | CmdBulk (BulkRenew f) \<Rightarrow> Some (run_bulk_renew h dbg (con_renewals con) conf f (cli_dry_run cli) w)
      | CmdCompletions command \<Rightarrow> Some (Inl Trap, w)
      | CmdWatch command \<Rightarrow>
          Some (run_watch h dbg (con_chrono con) (con_clock con) (con_watch con) conf command w))"

definition run_with_cli :: "'w console \<Rightarrow> cli \<Rightarrow> 'w \<Rightarrow> ('w run) option" where
  "run_with_cli con cli w =
     (case cli_command cli of
        CmdCompletions command \<Rightarrow> Some (run_completion_command (con_completion con) (con_os con) command w)
      | _ \<Rightarrow>
          (case prepare (con_os con) cli of
             Inl e \<Rightarrow> Some (Inl (Err e), w)
           | Inr None \<Rightarrow> Some (Inl Trap, w)
           | Inr (Some conf) \<Rightarrow> dispatch con cli conf w))"

text \<open>The exit status and what is printed; \<open>re\<close> is the regular expression of the error reports. A panic exits with 101.\<close>

definition cli_main :: "(string \<Rightarrow> string option) \<Rightarrow> 'w console \<Rightarrow> cli \<Rightarrow> 'w \<Rightarrow> (nat \<times> string \<times> 'w) option" where
  "cli_main re con cli w =
     (case run_with_cli con cli w of
        None \<Rightarrow> None
      | Some (Inr text, w') \<Rightarrow> Some (0, text, w')
      | Some (Inl Trap, w') \<Rightarrow> Some (101, [], w')
      | Some (Inl (Err e), w') \<Rightarrow>
          Some (1, if e = exit_quietly then []
                   else human_message (classify_error re (con_dbg con) e (command_context (cli_command cli))) False, w'))"

end
