(* ===== verification/Cli_Command_Properties.thy ===== *)
theory Cli_Command_Properties
  imports Cli_Commands Cli_Error_Properties
begin

text \<open>
  Properties of the configuration and the contract checks of the command line interface: precedence of the sources, validity of what is loaded, the
  rejections and how they are reported, and the template that \<open>config init\<close> writes.
\<close>

section \<open>Precedence\<close>

primrec pc_get :: "partial_config \<Rightarrow> contract_kind \<Rightarrow> string option" where
  "pc_get c CkRegistry = pc_registry c"
| "pc_get c CkRegistrar = pc_registrar c"
| "pc_get c CkResolver = pc_resolver c"
| "pc_get c CkAuction = pc_auction c"
| "pc_get c CkBridge = pc_bridge c"
| "pc_get c CkSubdomain = pc_subdomain c"
| "pc_get c CkNft = pc_nft c"

fun first_some :: "'a option list \<Rightarrow> 'a option" where
  "first_some [] = None"
| "first_some (x # xs) = (case x of Some v \<Rightarrow> Some v | None \<Rightarrow> first_some xs)"

text \<open>What a file says about a value: in the section of the network, in the default section.\<close>

definition in_file :: "(string \<times> file_config) option \<Rightarrow> network \<Rightarrow> (partial_config \<Rightarrow> string option) \<Rightarrow> string option list" where
  "in_file file network field =
     (case file of
        None \<Rightarrow> []
      | Some (_, f) \<Rightarrow> [Option.bind (fc_networks f (network_str network)) field, field (fc_default f)])"

definition id_sources :: "os \<Rightarrow> network \<Rightarrow> resolve_options \<Rightarrow> (string \<times> file_config) option \<Rightarrow> contract_kind \<Rightarrow> string option list" where
  "id_sources os network options file kind =
     [co_get (ro_overrides options) kind, os_env os (env_var kind)] @ in_file file network (\<lambda>c. pc_get c kind)"

definition url_sources :: "os \<Rightarrow> network \<Rightarrow> resolve_options \<Rightarrow> (string \<times> file_config) option \<Rightarrow> string option list" where
  "url_sources os network options file =
     [ro_rpc_url options, os_env os ''SOROBAN_RPC_URL''] @ in_file file network pc_rpc_url @ [Some (default_rpc_url network)]"

definition passphrase_sources :: "os \<Rightarrow> network \<Rightarrow> resolve_options \<Rightarrow> (string \<times> file_config) option \<Rightarrow> string option list" where
  "passphrase_sources os network options file =
     [ro_network_passphrase options, os_env os ''SOROBAN_NETWORK_PASSPHRASE''] @ in_file file network pc_network_passphrase
     @ [Some (default_network_passphrase network)]"

lemma apply_get:
  "pc_get (apply_values self other) kind = or_else (pc_get other kind) (pc_get self kind)"
  "pc_rpc_url (apply_values self other) = or_else (pc_rpc_url other) (pc_rpc_url self)"
  "pc_network_passphrase (apply_values self other) = or_else (pc_network_passphrase other) (pc_network_passphrase self)"
  by (cases kind; simp add: apply_values_def) (simp_all add: apply_values_def)

lemma env_get: "pc_get (from_env os) kind = os_env os (env_var kind)"
  by (cases kind) (simp_all add: from_env_def)

lemma empty_get: "pc_get empty_values kind = None"
  by (cases kind) (simp_all add: empty_values_def)

lemma all_kinds_complete: "kind \<in> set all_kinds"
  by (cases kind) (simp_all add: all_kinds_def)

lemma assembled_get:
  "contract_id (assembled os network options file) kind = first_some (id_sources os network options file kind)"
proof -
  have "contract_id (assembled os network options file) kind
      = or_else (or_else (co_get (ro_overrides options) kind) (pc_get (from_env os) kind))
          (pc_get (case file of Some (_, f) \<Rightarrow> file_network f network | None \<Rightarrow> empty_values) kind)"
    by (cases kind) (simp_all add: assembled_def Let_def)
  then show ?thesis
    by (auto simp: id_sources_def in_file_def env_get empty_get file_network_def apply_get or_else_def
        split: option.splits)
qed

lemma assembled_texts:
  "Some (nc_rpc_url (assembled os network options file)) = first_some (url_sources os network options file)"
  "Some (nc_network_passphrase (assembled os network options file)) = first_some (passphrase_sources os network options file)"
  "nc_config_path (assembled os network options file) = map_option fst file"
  by (auto simp: assembled_def Let_def url_sources_def passphrase_sources_def in_file_def from_env_def empty_values_def
      file_network_def apply_get or_else_def split: option.splits)

lemma validate_iff:
  "validate_network_config c = Inr () \<longleftrightarrow> \<not> is_blank (nc_rpc_url c) \<and> \<not> is_blank (nc_network_passphrase c)
     \<and> (\<forall>kind i. contract_id c kind = Some i \<longrightarrow> validate_contract_id i = Inr ())"
proof -
  have "(case contract_id c kind of None \<Rightarrow> [] | Some i \<Rightarrow>
          (case validate_contract_id i of Inl err \<Rightarrow> [flag_name kind @ '': '' @ display_common_error err] | Inr _ \<Rightarrow> [])) = []
      \<longleftrightarrow> (\<forall>i. contract_id c kind = Some i \<longrightarrow> validate_contract_id i = Inr ())" for kind
    by (auto split: option.split sum.split)
  then show ?thesis using all_kinds_complete by (auto simp: validate_network_config_def config_messages_def)
qed

text \<open>
  C33: For each contract, the identifier the commands run with is the first that is given of: the flag, the environment variable, the file's
  section for the network, the file's default section; so are the URL and the passphrase, with the network's own as
  the last resort. The configuration loads exactly if the file, if one is used, can be read and parsed, the URL and the passphrase are not blank,
  and every identifier chosen is well formed.
\<close>

theorem config_precedence:
  "(load_config os network options = Inr c \<longrightarrow>
      (\<exists>file. load_config_file os (ro_config_path options) = Inr file
        \<and> (\<forall>kind. contract_id c kind = first_some (id_sources os network options file kind))
        \<and> Some (nc_rpc_url c) = first_some (url_sources os network options file)
        \<and> Some (nc_network_passphrase c) = first_some (passphrase_sources os network options file)
        \<and> nc_config_path c = map_option fst file))
   \<and> ((\<exists>c. load_config os network options = Inr c) \<longleftrightarrow>
      (\<exists>file url passphrase. load_config_file os (ro_config_path options) = Inr file
        \<and> first_some (url_sources os network options file) = Some url \<and> \<not> is_blank url
        \<and> first_some (passphrase_sources os network options file) = Some passphrase \<and> \<not> is_blank passphrase
        \<and> (\<forall>kind i. first_some (id_sources os network options file kind) = Some i \<longrightarrow> validate_contract_id i = Inr ())))"
proof (cases "load_config_file os (ro_config_path options)")
  case (Inl err)
  then show ?thesis by (simp add: load_config_def)
next
  case (Inr f)
  let ?c = "assembled os network options f"
  have loads: "load_config os network options = Inr c \<longleftrightarrow> c = ?c \<and> validate_network_config ?c = Inr ()" for c
    using Inr by (auto simp: load_config_def split: sum.split)
  show ?thesis
    unfolding loads validate_iff using Inr assembled_texts [of os network options f] assembled_get [of os network options f]
    by (auto simp flip: assembled_get assembled_texts)
qed

text \<open>An operating system with nothing set, and an identifier that is well formed.\<close>

definition bare_os :: os where
  "bare_os = \<lparr>os_env = (\<lambda>_. None), os_exists = (\<lambda>_. False), os_read = (\<lambda>_. Inl ''no such file''), os_parse = (\<lambda>_. Inl ''empty'')\<rparr>"

definition sample_id :: string where
  "sample_id = ''C'' @ replicate 55 CHR ''A''"

definition sample_flags :: contract_overrides where
  "sample_flags = \<lparr>co_registry = None, co_registrar = Some sample_id, co_resolver = None, co_auction = None, co_bridge = None,
     co_subdomain = None, co_nft = None\<rparr>"

definition sample_options :: resolve_options where
  "sample_options = \<lparr>ro_config_path = None, ro_rpc_url = None, ro_network_passphrase = None, ro_overrides = sample_flags\<rparr>"

lemma sample_sources:
  "load_config_file bare_os None = Inr None"
  "first_some (url_sources bare_os Testnet sample_options None) = Some (default_rpc_url Testnet)"
  "first_some (passphrase_sources bare_os Testnet sample_options None) = Some (default_network_passphrase Testnet)"
  "first_some (id_sources bare_os Testnet sample_options None kind) = (if kind = CkRegistrar then Some sample_id else None)"
  by (simp_all add: load_config_file_def bare_os_def config_path_from_env_def config_search_paths_def url_sources_def sample_options_def
      in_file_def passphrase_sources_def id_sources_def)
    (cases kind; simp add: sample_flags_def)

theorem config_precedence_witness:
  "\<exists>c. load_config bare_os Testnet sample_options = Inr c \<and> contract_id c CkRegistrar = Some sample_id
     \<and> contract_id c CkRegistry = None \<and> nc_rpc_url c = ''https://soroban-testnet.stellar.org''"
proof -
  have valid: "validate_contract_id sample_id = Inr ()" "\<not> is_blank (default_rpc_url Testnet)"
    "\<not> is_blank (default_network_passphrase Testnet)"
    by code_simp+
  have path: "ro_config_path sample_options = None" by (simp add: sample_options_def)
  note facts = config_precedence [of bare_os Testnet sample_options, unfolded path sample_sources(1)]
  have "\<exists>c. load_config bare_os Testnet sample_options = Inr c"
    by (rule iffD2 [OF facts [THEN conjunct2]]) (use valid in \<open>auto simp: sample_sources split: if_splits\<close>)
  then obtain c where c: "load_config bare_os Testnet sample_options = Inr c" by blast
  then have "\<forall>kind. contract_id c kind = (if kind = CkRegistrar then Some sample_id else None)"
    "nc_rpc_url c = ''https://soroban-testnet.stellar.org''"
    using facts [of c] by (simp_all add: sample_sources)
  with c show ?thesis by (metis contract_kind.distinct(1))
qed

section \<open>Contracts of a command\<close>

definition policies :: "(string \<times> contract_kind) list" where
  "policies = [(''register'', CkRegistrar), (''resolve'', CkResolver), (''reverse-resolve'', CkResolver), (''text'', CkResolver),
     (''transfer'', CkRegistry), (''renew'', CkRegistrar), (''auction'', CkAuction), (''bridge'', CkBridge),
     (''subdomain'', CkSubdomain), (''nft'', CkNft), (''whois'', CkRegistry), (''portfolio'', CkRegistry), (''quote'', CkRegistrar),
     (''bulk register'', CkRegistrar), (''bulk renew'', CkRegistrar)]"

lemma required_policies:
  "case command_policy command of (command_name, _, required) \<Rightarrow> list_all (\<lambda>kind. (command_name, kind) \<in> set policies) required"
  by (cases command rule: command_policy.cases) (simp_all add: policies_def)

text \<open>The texts of the second kind are not of the first, because they have no \<open>us\<close>.\<close>

fun has_us :: "string \<Rightarrow> bool" where
  "has_us (a # b # cs) = ((a = CHR ''u'' \<or> a = CHR ''U'') \<and> (b = CHR ''s'' \<or> b = CHR ''S'') \<or> has_us (b # cs))"
| "has_us _ = False"

lemma of_char_lower:
  "(of_char (ascii_lower c) :: nat) = (if 65 \<le> (of_char c :: nat) \<and> (of_char c :: nat) \<le> 90 then of_char c + 32 else of_char c)"
  by (simp add: ascii_lower_def is_ascii_uppercase_def byte_in_def take_bit_eq_mod)

lemma char_by_code: "c = d \<longleftrightarrow> (of_char c :: nat) = of_char d"
  by (simp add: of_char_eq_iff)

lemma lower_letters:
  "ascii_lower c = CHR ''u'' \<longleftrightarrow> c = CHR ''u'' \<or> c = CHR ''U''"
  "ascii_lower c = CHR ''s'' \<longleftrightarrow> c = CHR ''s'' \<or> c = CHR ''S''"
  by (simp_all add: char_by_code of_char_lower) presburger+

lemma contains_us: "contains (to_ascii_lowercase s) ''us'' \<longleftrightarrow> has_us s"
  by (induction s rule: has_us.induct) (auto simp: to_ascii_lowercase_def lower_letters)

lemma missing_texts: "list_all (\<lambda>(name, kind). \<not> has_us (missing_rejection name kind)) policies"
  by (simp add: policies_def missing_rejection_def)

lemma flag_text: "contains (to_ascii_lowercase (flag_rejection name kind)) ''cannot be used with''"
proof -
  have "to_ascii_lowercase '' cannot be used with '' = '' cannot be used with ''" by code_simp
  then have "to_ascii_lowercase (flag_rejection name kind)
      = to_ascii_lowercase (''`--'' @ flag_name kind @ ''`'') @ '' '' @ ''cannot be used with''
        @ '' '' @ to_ascii_lowercase (''`'' @ name @ ''`'')"
    unfolding flag_rejection_def to_ascii_lowercase_def by simp
  then show ?thesis unfolding contains_iff by (metis append.assoc)
qed

lemma missing_text:
  assumes "(name, kind) \<in> set policies"
  shows "\<not> contains (to_ascii_lowercase (missing_rejection name kind)) ''cannot be used with''"
    and "contains (to_ascii_lowercase (missing_rejection name kind)) ''requires''"
    and "contains (to_ascii_lowercase (missing_rejection name kind)) ''contract''"
proof -
  let ?text = "to_ascii_lowercase (missing_rejection name kind)"
  have "\<not> contains ?text ''us''" using missing_texts assms unfolding contains_us by (auto simp: list_all_iff)
  moreover have "''cannot be used with'' = ''cannot be '' @ ''us'' @ ''ed with''" by simp
  ultimately show "\<not> contains ?text ''cannot be used with''" unfolding contains_iff by (metis append.assoc)
  have "to_ascii_lowercase '' requires '' = '' '' @ ''requires'' @ '' ''" by code_simp
  then have "?text = (to_ascii_lowercase (''`'' @ name @ ''`'') @ '' '') @ ''requires''
      @ ('' '' @ to_ascii_lowercase (display_name kind @ ''. Set `--'' @ flag_name kind @ ''`, `'' @ env_var kind
       @ ''`, or the config file value.''))"
    unfolding missing_rejection_def to_ascii_lowercase_def by simp
  then show "contains ?text ''requires''" unfolding contains_iff by blast
  obtain c where "to_ascii_lowercase (display_name kind) = c @ ''contract''"
  proof -
    have "to_ascii_lowercase '' contract'' = '' contract''" by code_simp
    moreover have "\<exists>c. display_name kind = c @ '' contract''" by (cases kind) simp_all
    ultimately show thesis using that unfolding to_ascii_lowercase_def by (metis append.assoc append_Cons append_Nil map_append)
  qed
  then have "?text = to_ascii_lowercase (''`'' @ name @ ''` requires '') @ (c @ ''contract'') @ to_ascii_lowercase (''. Set `--''
      @ flag_name kind @ ''`, `'' @ env_var kind @ ''`, or the config file value.'')"
    unfolding missing_rejection_def to_ascii_lowercase_def by simp
  then show "contains ?text ''contract''" unfolding contains_iff by (metis append.assoc)
qed

lemma provided_iff: "kind \<in> set (provided_kinds overrides) \<longleftrightarrow> co_get overrides kind \<noteq> None"
  using all_kinds_complete by (simp add: provided_kinds_def)

lemma context_contract:
  "case command_policy command of (_, _, required) \<Rightarrow>
     list_all (\<lambda>kind. display_name kind = domain_contract (ec_domain (command_context command)) @ '' contract'') required"
  by (cases command rule: command_context.cases)
    (simp_all add: domain_contract_def ctx_def split: bulk_command.split)

text \<open>
  C34: A command passes the contract check exactly if every contract flag given is one it accepts and every
  contract it needs is configured. A rejection is explained as what it is, by the classification of its text: the advice is to remove the flag
  if a flag is not accepted, and to set the missing identifier otherwise. And the errors of a command that needs
  a contract are explained by the table of that contract.
\<close>

theorem policy_exact:
  assumes "command_policy command = (name, allowed, required)"
  shows "(validate_contract_policy command overrides conf = Inr () \<longleftrightarrow>
      (\<forall>kind. co_get overrides kind \<noteq> None \<longrightarrow> kind \<in> set allowed) \<and> (\<forall>kind \<in> set required. contract_id conf kind \<noteq> None))
    \<and> (validate_contract_policy command overrides conf = Inl msg \<longrightarrow>
      fe_suggestion (classify_error re dbg (policy_error msg) (command_context command)) =
        (if \<exists>kind. co_get overrides kind \<noteq> None \<and> kind \<notin> set allowed
         then ''Remove the incompatible flag or switch to the matching command''
         else ''Set the missing contract ID with a flag, environment variable, or config file''))
    \<and> (\<forall>kind \<in> set required. display_name kind = domain_contract (ec_domain (command_context command)) @ '' contract'')"
proof (intro conjI impI)
  let ?flag = "find (\<lambda>kind. kind \<notin> set allowed) (provided_kinds overrides)"
  let ?missing = "find (\<lambda>kind. contract_id conf kind = None) required"
  have flag: "?flag = None \<longleftrightarrow> (\<forall>kind. co_get overrides kind \<noteq> None \<longrightarrow> kind \<in> set allowed)"
    unfolding find_None_iff provided_iff by blast
  have missing: "?missing = None \<longleftrightarrow> (\<forall>kind \<in> set required. contract_id conf kind \<noteq> None)"
    unfolding find_None_iff by metis
  have checks: "validate_contract_policy command overrides conf =
      (case ?flag of Some kind \<Rightarrow> Inl (flag_rejection name kind)
       | None \<Rightarrow> (case ?missing of Some kind \<Rightarrow> Inl (missing_rejection name kind) | None \<Rightarrow> Inr ()))"
    by (simp add: validate_contract_policy_def assms)
  show "validate_contract_policy command overrides conf = Inr () \<longleftrightarrow>
      (\<forall>kind. co_get overrides kind \<noteq> None \<longrightarrow> kind \<in> set allowed) \<and> (\<forall>kind \<in> set required. contract_id conf kind \<noteq> None)"
    unfolding checks flag [symmetric] missing [symmetric] by (auto split: option.split)
  show "\<forall>kind \<in> set required. display_name kind = domain_contract (ec_domain (command_context command)) @ '' contract''"
    using context_contract [of command] assms by (simp add: list_all_iff)
  assume rejected: "validate_contract_policy command overrides conf = Inl msg"
  have report: "fe_suggestion (classify_error re dbg (policy_error msg) (command_context command)) =
      (case classify_text re msg (command_context command) (Some (policy_error msg)) of
         Some report \<Rightarrow> fe_suggestion report
       | None \<Rightarrow> ''Run again with `--verbose` and check `~/.xlm-ens/error.log` for details'')"
    by (simp add: classify_error_def policy_error_def err_to_string_def split: option.split)
  show "fe_suggestion (classify_error re dbg (policy_error msg) (command_context command)) =
        (if \<exists>kind. co_get overrides kind \<noteq> None \<and> kind \<notin> set allowed
         then ''Remove the incompatible flag or switch to the matching command''
         else ''Set the missing contract ID with a flag, environment variable, or config file'')"
  proof (cases ?flag)
    case (Some kind)
    then have "msg = flag_rejection name kind" using rejected checks by simp
    then show ?thesis using flag Some flag_text [of name kind]
      unfolding report classify_text_def Let_def by (auto simp: plain_report_def)
  next
    case None
    then obtain kind where kind: "?missing = Some kind" "msg = missing_rejection name kind"
      using rejected checks by (auto split: option.splits)
    then have "kind \<in> set required" by (auto simp: find_Some_iff)
    then have "(name, kind) \<in> set policies" using required_policies [of command] assms by (simp add: list_all_iff)
    from missing_text [OF this] kind(2) show ?thesis using flag None
      unfolding report classify_text_def Let_def by (auto simp: plain_report_def)
  qed
qed

theorem policy_exact_witness:
  "validate_contract_policy (CmdQuote ''alice'' 1) sample_flags (assembled bare_os Testnet sample_options None) = Inr ()
   \<and> fe_suggestion (classify_error (\<lambda>_. None) id (policy_error (flag_rejection ''transfer'' CkRegistrar))
        (command_context (CmdTransfer ''alice.xlm'' ''G'' None)))
     = ''Remove the incompatible flag or switch to the matching command''"
proof -
  have given: "co_get sample_flags kind \<noteq> None \<longleftrightarrow> kind = CkRegistrar" for kind by (cases kind) (simp_all add: sample_flags_def)
  have conf: "contract_id (assembled bare_os Testnet sample_options None) CkRegistrar \<noteq> None"
    by (simp only: assembled_get sample_sources) simp
  have "validate_contract_policy (CmdQuote ''alice'' 1) sample_flags (assembled bare_os Testnet sample_options None) = Inr ()"
    using policy_exact [of "CmdQuote ''alice'' 1" _ _ _ sample_flags "assembled bare_os Testnet sample_options None", OF command_policy.simps(16)]
      given conf by simp
  moreover have "validate_contract_policy (CmdTransfer ''alice.xlm'' ''G'' None) sample_flags c
      = Inl (flag_rejection ''transfer'' CkRegistrar)" for c
    by (simp add: validate_contract_policy_def provided_kinds_def all_kinds_def sample_flags_def)
  ultimately show ?thesis
    using policy_exact [of "CmdTransfer ''alice.xlm'' ''G'' None" _ _ _ sample_flags _ "flag_rejection ''transfer'' CkRegistrar" "\<lambda>_. None" id,
        OF command_policy.simps(5)] given
    by auto
qed

section \<open>The template\<close>

text \<open>The file whose path \<open>load_config_file\<close> reads, and what the template says as TOML.\<close>

definition used_path :: "os \<Rightarrow> string option \<Rightarrow> string option" where
  "used_path os explicit_path =
     (case or_else explicit_path (config_path_from_env os) of
        Some path \<Rightarrow> Some path
      | None \<Rightarrow> find (os_exists os) (config_search_paths os))"

definition template_file :: "network \<Rightarrow> file_config" where
  "template_file network =
     \<lparr>fc_default = \<lparr>pc_rpc_url = Some (default_rpc_url network), pc_network_passphrase = Some (default_network_passphrase network),
        pc_registry = Some template_id, pc_registrar = Some template_id, pc_resolver = Some template_id,
        pc_auction = Some template_id, pc_bridge = Some template_id, pc_subdomain = Some template_id, pc_nft = Some template_id\<rparr>,
      fc_networks = [network_str network \<mapsto> empty_values]\<rparr>"

lemma template_get: "first_some (in_file (Some (path, template_file n)) network (\<lambda>c. pc_get c kind)) = Some template_id"
proof -
  have "pc_get (fc_default (template_file n)) kind = Some template_id" by (cases kind) (simp_all add: template_file_def)
  then show ?thesis by (simp add: in_file_def template_file_def empty_get)
qed

lemma template_id_invalid: "validate_contract_id template_id \<noteq> Inr ()"
  by code_simp

text \<open>
  The template that \<open>config init\<close> writes locks its user out: its identifiers are dots, which are not well formed, and the
  configuration is loaded before any command is looked at. As long as one of them is neither overridden by a flag nor by the
  environment, every command but completions fails, \<open>config edit\<close> and \<open>config init --force\<close> among them.
\<close>

theorem template_locks_out:
  assumes "used_path os (cli_config cli) = Some path"
    and "os_read os path = Inr (config_template n)" and "os_parse os (config_template n) = Inr (template_file n)"
    and "co_get (cli_overrides cli) kind = None" and "os_env os (env_var kind) = None"
    and "\<And>sub. cli_command cli \<noteq> CmdCompletions sub"
  shows "\<exists>reason. prepare os cli = Inl \<lparr>err_chain = [''failed to load configuration'', reason], err_sdk = None\<rparr>"
proof -
  let ?options = "\<lparr>ro_config_path = cli_config cli, ro_rpc_url = cli_rpc_url cli,
      ro_network_passphrase = cli_network_passphrase cli, ro_overrides = cli_overrides cli\<rparr>"
  have "read_config_file os path = Inr (path, template_file n)" using assms(2,3) by (simp add: read_config_file_def)
  then have loaded: "load_config_file os (cli_config cli) = Inr (Some (path, template_file n))"
    using assms(1) by (auto simp: load_config_file_def used_path_def split: option.splits)
  have "contract_id (assembled os (cli_network cli) ?options (Some (path, template_file n))) kind = Some template_id"
    unfolding assembled_get id_sources_def using assms(4,5) template_get by simp
  then have "validate_network_config (assembled os (cli_network cli) ?options (Some (path, template_file n))) \<noteq> Inr ()"
    using template_id_invalid validate_iff by blast
  then obtain err where "validate_network_config (assembled os (cli_network cli) ?options (Some (path, template_file n))) = Inl err"
    by (metis old.unit.exhaust sum.exhaust)
  then have "load_config os (cli_network cli) ?options = Inl err" by (simp add: load_config_def loaded)
  then show ?thesis using assms(6) by (auto simp: prepare_def split: cli_command.split)
qed

definition template_os :: os where
  "template_os =
     \<lparr>os_env = (\<lambda>_. None), os_exists = (\<lambda>p. p = ''.xlm-ns.toml''), os_read = (\<lambda>_. Inr (config_template Testnet)),
      os_parse = (\<lambda>_. Inr (template_file Testnet))\<rparr>"

theorem template_locks_out_witness:
  "\<exists>reason. prepare template_os
       \<lparr>cli_network = Testnet, cli_config = None, cli_dry_run = False, cli_rpc_url = None, cli_network_passphrase = None,
        cli_overrides = sample_flags, cli_command = CmdConfig (ConfigEdit None Testnet)\<rparr>
     = Inl \<lparr>err_chain = [''failed to load configuration'', reason], err_sdk = None\<rparr>"
  by (rule template_locks_out [where kind = CkRegistry and path = "''.xlm-ns.toml''" and n = Testnet])
    (simp_all add: used_path_def template_os_def config_path_from_env_def config_search_paths_def sample_flags_def)

end
