(* ===== verification/Cli_Dispatch_Properties.thy ===== *)
theory Cli_Dispatch_Properties
  imports Cli_Dispatch Cli_Command_Properties Sdk_Client_Properties
begin

text \<open>
  Properties of the command line interface as a whole: what \<open>--dry-run\<close> changes, what becomes of a signer's secret, what is possible on
  the wrong network, which answers depend on the network at all.
\<close>

section \<open>Dry runs\<close>

fun minds_dry_run :: "cli_command \<Rightarrow> bool" where
  "minds_dry_run (CmdMigrate _) = True"
| "minds_dry_run (CmdBulk _) = True"
| "minds_dry_run _ = False"

lemma dispatch_dry_run:
  assumes "\<not> minds_dry_run (cli_command cli)"
  shows "dispatch con (cli\<lparr>cli_dry_run := b\<rparr>) conf w = dispatch con cli conf w"
  using assms unfolding dispatch_def Let_def
  by (cases "cli_command cli") simp_all

lemma prepare_dry_run:
  assumes "prepare os (cli\<lparr>cli_dry_run := False\<rparr>) = Inr conf"
  shows "prepare os (cli\<lparr>cli_dry_run := b\<rparr>) = Inr conf"
  using assms by (cases b) (auto simp: prepare_def split: cli_command.splits sum.splits)

text \<open>
  The flag \<open>--dry-run\<close>, which promises to simulate a transaction without submitting it, is obeyed by \<open>bulk\<close> and \<open>migrate\<close> only: every
  other command that would be run without the flag does with it exactly what it does without it, to the network included.
\<close>

theorem dry_run_submits:
  assumes "\<not> minds_dry_run (cli_command cli)" and "prepare (con_os con) (cli\<lparr>cli_dry_run := False\<rparr>) = Inr conf"
  shows "run_with_cli con (cli\<lparr>cli_dry_run := True\<rparr>) w = run_with_cli con (cli\<lparr>cli_dry_run := False\<rparr>) w"
proof -
  note same = prepare_dry_run [OF assms(2), of True] assms(2)
  show ?thesis
    unfolding run_with_cli_def same cli.simps
    by (simp add: dispatch_dry_run [OF assms(1)] split: cli_command.split option.split)
qed

section \<open>Secrets\<close>

lemma vars_not_secret:
  "\<not> secret_var_name (env_var kind)" "\<not> secret_var_name ''SOROBAN_RPC_URL''" "\<not> secret_var_name ''SOROBAN_NETWORK_PASSPHRASE''"
  "\<not> secret_var_name ''XDG_CONFIG_HOME''" "\<not> secret_var_name ''HOME''" "\<not> secret_var_name ''XLM_NS_CONFIG''"
  "\<not> secret_var_name ''VISUAL''" "\<not> secret_var_name ''EDITOR''" "\<not> secret_var_name ''XLM_NS_FORCE_INTERACTIVE''"
  "\<not> secret_var_name ''SHELL''" "\<not> secret_var_name ''ComSpec''" "\<not> secret_var_name ''USERPROFILE''"
proof -
  have far: "\<not> secret_var_name v" if "take 14 v \<noteq> ''XLM_NS_SIGNER_''" for v
    using that secret_var_name_last [of v] by blast
  show "\<not> secret_var_name (env_var kind)" by (cases kind; rule far) simp_all
  show "\<not> secret_var_name ''SOROBAN_RPC_URL''" "\<not> secret_var_name ''SOROBAN_NETWORK_PASSPHRASE''"
    "\<not> secret_var_name ''XDG_CONFIG_HOME''" "\<not> secret_var_name ''HOME''" "\<not> secret_var_name ''XLM_NS_CONFIG''"
    "\<not> secret_var_name ''VISUAL''" "\<not> secret_var_name ''EDITOR''" "\<not> secret_var_name ''XLM_NS_FORCE_INTERACTIVE''"
    "\<not> secret_var_name ''SHELL''" "\<not> secret_var_name ''ComSpec''" "\<not> secret_var_name ''USERPROFILE''"
    by (rule far, simp)+
qed

lemma load_config_no_secret:
  assumes "same_but_secrets o1 o2"
  shows "load_config o1 network options = load_config o2 network options"
proof -
  note same = same_but_secretsD [OF assms]
  have "from_env o1 = from_env o2"
    using vars_not_secret(1) [of CkRegistry] vars_not_secret(1) [of CkRegistrar] vars_not_secret(1) [of CkResolver]
      vars_not_secret(1) [of CkAuction] vars_not_secret(1) [of CkBridge] vars_not_secret(1) [of CkSubdomain] vars_not_secret(1) [of CkNft]
      vars_not_secret(2,3)
    by (simp add: from_env_def same(1))
  then have "assembled o1 = assembled o2" by (intro ext) (unfold assembled_def, simp)
  moreover have read: "read_config_file o1 = read_config_file o2" by (intro ext) (unfold read_config_file_def same(4,5), rule refl)
  have "load_config_file o1 = load_config_file o2"
    unfolding load_config_file_def config_path_from_env_def config_search_paths_def same(1) [OF vars_not_secret(4)]
        same(1) [OF vars_not_secret(5)] same(1) [OF vars_not_secret(6)] same(3) read ..
  ultimately show ?thesis unfolding load_config_def by (simp only:)
qed

fun checks_key :: "cli_command \<Rightarrow> bool" where
  "checks_key (CmdConfig (ConfigValidate _ _ _)) = True"
| "checks_key _ = False"

lemma run_config_no_secret:
  assumes "same_but_secrets o1 o2" and "\<not> checks_key (CmdConfig command)"
  shows "run_config su o1 given command w = run_config su o2 given command w"
proof -
  note vars = same_but_secretsD(1) [OF assms(1) vars_not_secret(7)] same_but_secretsD(1) [OF assms(1) vars_not_secret(8)]
  have editor: "open_editor su o1 = open_editor su o2" by (intro ext) (simp add: open_editor_def vars)
  have edit: "run_config_edit su o1 path network w = run_config_edit su o2 path network w" for path network
    unfolding run_config_edit_def editor ..
  show ?thesis
    using assms(2) unfolding run_config.simps
    by (cases command) (simp_all add: edit run_config_show_def load_config_no_secret [OF assms(1)])
qed

lemma run_completion_no_secret:
  assumes "same_but_secrets o1 o2"
  shows "run_completion_command ch o1 command = run_completion_command ch o2 command"
proof -
  note vars = vars_not_secret(5,10-12) [THEN same_but_secretsD(1) [OF assms]]
  have "install_completion ch o1 = install_completion ch o2"
    unfolding install_completion_def detect_shell_def completion_install_dir_def home_dir_def vars ..
  then show ?thesis by (cases command) (auto simp: fun_eq_iff)
qed

text \<open>
  C37: The value of a signer's secret influences nothing: with two environments that agree on every variable but those named
  \<open>XLM_NS_SIGNER_..._SECRET\<close>, of which the same ones are set, every command prints the same, asks the same of the network and ends
  the same, except \<open>config validate\<close>, which checks the key.
\<close>

theorem secrets_unused:
  assumes "same_but_secrets o1 o2" and "\<not> checks_key (cli_command cli)"
  shows "cli_main re (con\<lparr>con_os := o1\<rparr>) cli w = cli_main re (con\<lparr>con_os := o2\<rparr>) cli w"
proof -
  have signer: "with_signer o1 = with_signer o2" "resolve_signer o1 = resolve_signer o2"
    by (intro ext; simp add: with_signer_def resolve_signer_no_secret [OF assms(1)])+
  have auction: "run_auction h dbg o1 conf command w = run_auction h dbg o2 conf command w" for h dbg conf command and w :: 'a
    by (cases command) (simp_all add: signer)
  have register: "run_register h dbg t o1 conf name owner s interactive w = run_register h dbg t o2 conf name owner s interactive w"
    for h dbg t conf name owner s interactive and w :: 'a
    unfolding run_register_def same_but_secretsD(1) [OF assms(1) vars_not_secret(9)] ..
  have "dispatch (con\<lparr>con_os := o1\<rparr>) cli conf w = dispatch (con\<lparr>con_os := o2\<rparr>) cli conf w" for conf
  proof (cases con)
    case fields: fields
    show ?thesis
    proof (cases "\<exists>command. cli_command cli = CmdConfig command")
      case True
      then show ?thesis using run_config_no_secret [OF assms(1)] assms(2) unfolding dispatch_def Let_def by auto
    next
      case False
      then show ?thesis unfolding fields dispatch_def Let_def console.simps signer auction register
        by (cases "cli_command cli") simp_all
    qed
  qed
  moreover have "prepare o1 cli = prepare o2 cli" unfolding prepare_def load_config_no_secret [OF assms(1)] ..
  moreover have "con_os (con\<lparr>con_os := os\<rparr>) = os" "con_completion (con\<lparr>con_os := os\<rparr>) = con_completion con" for os
    by simp_all
  moreover have "run_completion_command ch o1 command = run_completion_command ch o2 command" for ch :: "'a completion_host" and command
    using run_completion_no_secret [OF assms(1)] by blast
  ultimately have "run_with_cli (con\<lparr>con_os := o1\<rparr>) cli w = run_with_cli (con\<lparr>con_os := o2\<rparr>) cli w"
    unfolding run_with_cli_def by (simp only:)
  moreover have "con_dbg (con\<lparr>con_os := os\<rparr>) = con_dbg con" for os by simp
  ultimately show ?thesis unfolding cli_main_def by (simp only:)
qed

section \<open>The wrong network\<close>

text \<open>The commands that make one write; the bulk commands make one for each record, and are treated apart.\<close>

fun submits :: "cli_command \<Rightarrow> bool" where
  "submits (CmdRegister _ _ _ _) = True"
| "submits (CmdText (TextSet _ _ _ _)) = True"
| "submits (CmdTransfer _ _ _) = True"
| "submits (CmdRenew _ _ _) = True"
| "submits (CmdAuction (AuctionCreate _ _ _ _)) = True"
| "submits (CmdAuction (AuctionBid _ _ _)) = True"
| "submits (CmdAuction (AuctionSettle _ _)) = True"
| "submits (CmdBridge (BridgeRegister _)) = True"
| "submits (CmdSubdomain _) = True"
| "submits _ = False"

lemma calling_fails:
  assumes "\<And>a w1. f a w1 \<noteq> (Inr out, w')"
  shows "calling dbg msg r f \<noteq> (Inr out, w')"
  using assms by (auto simp: calling_def split: prod.split sum.split failure.split)

lemma refused_calling:
  assumes "refused m"
  shows "calling dbg msg (m w) f \<noteq> (Inr out, w')"
proof -
  obtain e w1 where "m w = (Inl e, w1)" using assms by (metis refused_def prod.collapse sum.collapse)
  then show ?thesis by (simp add: calling_def split: failure.split)
qed

lemma refused_with_signer:
  assumes "\<And>signer. f signer w \<noteq> (Inr out, w')"
  shows "with_signer os name f w \<noteq> (Inr out, w')"
  using assms by (simp add: with_signer_def split: sum.split)

lemma next_stage_Inr:
  assumes "next_stage r f = Some (Inr out, w')"
  obtains a w1 where "r = (Inr a, w1)" and "f a w1 = Some (Inr out, w')"
proof (cases r)
  case (Pair x w1)
  with assms that show ?thesis by (cases x) (simp_all add: next_stage_def)
qed

lemma run_register_submits:
  assumes "run_register h dbg t os conf name owner signer interactive w = Some (Inr out, w')"
  obtains registrar label who w1 where "nc_registrar conf = Some registrar"
    and "submit_registration h dbg t (with_registrar (cli_client conf) registrar) registrar signer interactive label who w1
      = Some (Inr out, w')"
proof -
  obtain registrar where registrar: "nc_registrar conf = Some registrar"
    using assms by (cases "nc_registrar conf") (simp_all add: run_register_def fail_with_def)
  then obtain inputs where "next_stage inputs (\<lambda>(label, who).
      submit_registration h dbg t (with_registrar (cli_client conf) registrar) registrar signer interactive label who) = Some (Inr out, w')"
    using assms by (auto simp: run_register_def fail_with_def Let_def split: if_split_asm option.split_asm)
  then show ?thesis by (rule next_stage_Inr) (use registrar that in auto)
qed

lemma refused_register:
  assumes "\<And>request. refused (sdk_register h (with_registrar (cli_client conf) registrar) request)"
    and "nc_registrar conf = Some registrar"
  shows "run_register h dbg t os conf name owner signer interactive w \<noteq> Some (Inr out, w')"
proof
  assume "run_register h dbg t os conf name owner signer interactive w = Some (Inr out, w')"
  then obtain label who w1 where "submit_registration h dbg t (with_registrar (cli_client conf) registrar) registrar signer
      interactive label who w1 = Some (Inr out, w')"
    by (rule run_register_submits) (simp add: assms(2))
  then show False unfolding submit_registration_def
    by (elim next_stage_Inr) (auto elim!: next_stage_Inr simp: refused_calling [OF assms(1)] split: option.split_asm)
qed

lemma wrong_network_registrar: "wrong_network h c \<Longrightarrow> wrong_network h (with_registrar c i)"
  by (simp add: wrong_network_def with_registrar_def)

lemma dispatch_refused:
  assumes "wrong_network (con_host con) (cli_client conf)" and "submits (cli_command cli)"
  shows "dispatch con cli conf w \<noteq> Some (Inr out, w')"
proof -
  note refusals = writes_refused [OF assms(1), THEN refused_calling]
  have renew: "run_renew (con_host con) dbg conf name years signer w \<noteq> (Inr out, w')" for dbg name years signer
  proof (cases "nc_registrar conf")
    case (Some registrar)
    show ?thesis
      unfolding run_renew_def Some option.case Let_def
      by (rule calling_fails)
        (simp add: writes_refused(2) [OF wrong_network_registrar [OF assms(1)], THEN refused_calling] fail_with_def split: option.split)
  qed (simp add: run_renew_def fail_with_def)
  have register: "run_register (con_host con) dbg t os conf name owner signer interactive w \<noteq> Some (Inr out, w')"
    for dbg t os name owner signer interactive
    using refused_register [OF writes_refused(1) [OF wrong_network_registrar [OF assms(1)]]]
    by (cases "nc_registrar conf") (simp_all add: run_register_def fail_with_def)
  have subdomain: "run_subdomain (con_host con) dbg conf command w \<noteq> (Inr out, w')" for dbg command
    by (cases command) (simp_all add: refusals run_register_parent_def run_add_controller_def run_create_subdomain_def
        run_transfer_subdomain_def)
  show ?thesis
    using assms(2) renew register unfolding dispatch_def Let_def
    by (cases "cli_command cli" rule: submits.cases)
      (auto intro!: refused_with_signer simp: refusals run_text_set_def run_transfer_def run_auction_create_def run_auction_bid_def
        run_auction_settle_def run_register_chain_def subdomain Let_def split: sum.split)
qed

lemma cli_main_0:
  "cli_main re con cli w = Some (0, text, w') \<longleftrightarrow> run_with_cli con cli w = Some (Inr text, w')"
  by (auto simp: cli_main_def split: option.splits prod.splits sum.splits failure.splits)

lemma run_with_cli_prepared:
  assumes "\<And>command. cli_command cli \<noteq> CmdCompletions command"
  shows "run_with_cli con cli w = (case prepare (con_os con) cli of Inl e \<Rightarrow> Some (Inl (Err e), w) | Inr None \<Rightarrow> Some (Inl Trap, w)
    | Inr (Some conf) \<Rightarrow> dispatch con cli conf w)"
  using assms by (cases "cli_command cli") (auto simp: run_with_cli_def)

text \<open>In a bulk run each record is refused on its own: \<open>refusal_lines\<close> is what is printed for names and the errors they get.\<close>

fun refusal_lines :: "string \<Rightarrow> string \<Rightarrow> (string \<times> string) list \<Rightarrow> string list" where
  "refusal_lines doing verb [] = []"
| "refusal_lines doing verb ((name, error) # rest) =
     [doing @ '' '' @ name @ ''...'', ''  - ERROR: Failed to '' @ verb @ '' '' @ name @ '': '' @ error] @ refusal_lines doing verb rest"

lemma bulk_each_refused:
  assumes "\<And>r w ls w1. step r w = (Inr ls, w1) \<Longrightarrow> \<exists>error. ls = refusal_lines doing verb [(name r, error)]"
    and "bulk_each step rs w = (Inr ls, w')"
  shows "\<exists>errors. map fst errors = map name rs \<and> ls = refusal_lines doing verb errors"
  using assms(2)
proof (induction rs arbitrary: w ls)
  case Nil
  then show ?case by (intro exI [of _ "[]"]) simp
next
  case (Cons r rs)
  then obtain ls1 w1 others where step: "step r w = (Inr ls1, w1)" and rest: "bulk_each step rs w1 = (Inr others, w')"
    and ls: "ls = ls1 @ others" by (auto split: prod.splits sum.splits)
  obtain error where "ls1 = refusal_lines doing verb [(name r, error)]" using assms(1) [OF step] by blast
  moreover obtain errors where "map fst errors = map name rs" "others = refusal_lines doing verb errors"
    using Cons.IH [OF rest] by blast
  ultimately show ?case by (intro exI [of _ "(name r, error) # errors"]) (simp add: ls)
qed

lemma record_refused:
  assumes "wrong_network h c"
  shows "register_record h dbg c r w = (Inr ls, w1) \<Longrightarrow> \<exists>error. ls = refusal_lines ''Registering'' ''register'' [(bk_name r, error)]"
    and "renew_record_of h dbg c n w = (Inr ls, w1) \<Longrightarrow> \<exists>error. ls = refusal_lines ''Renewing'' ''renew'' [(rn_name n, error)]"
  using writes_refused(1,2) [OF assms]
  by (auto simp: refused_def register_record_def renew_record_of_def Let_def split: prod.splits sum.splits failure.splits)
    (metis fst_conv)+

lemma bulk_refused:
  assumes "wrong_network h (cli_client conf)"
  shows "run_bulk_register h dbg files conf f False w = (Inr text, w') \<Longrightarrow> read_records files f = Inr rs \<Longrightarrow>
      \<exists>errors. map fst errors = map bk_name rs \<and> finish (refusal_lines ''Registering'' ''register'' errors) w' = (Inr text, w')"
    and "run_bulk_renew h dbg files2 conf f False w = (Inr text, w') \<Longrightarrow> read_records files2 f = Inr ns \<Longrightarrow>
      \<exists>errors. map fst errors = map rn_name ns \<and> finish (refusal_lines ''Renewing'' ''renew'' errors) w' = (Inr text, w')"
  using bulk_each_refused [OF record_refused(1) [OF wrong_network_registrar [OF assms]]]
    bulk_each_refused [OF record_refused(2) [OF wrong_network_registrar [OF assms]]]
  by (fastforce simp: run_bulk_register_def run_bulk_renew_def fail_with_def finish_def split: option.splits prod.splits sum.splits)+

text \<open>
  C36: While the service reports another network than the one the command is configured for, no command that makes one write ends
  with exit status 0; and a bulk command that ends with exit status 0, as it does after failures too, has
  reported an error for every record of its file (a dry run apart, which makes no write).
\<close>

theorem wrong_network_fails:
  assumes "\<forall>conf. prepare (con_os con) cli = Inr (Some conf) \<longrightarrow> wrong_network (con_host con) (cli_client conf)"
  shows "(submits (cli_command cli) \<longrightarrow> cli_main re con cli w \<noteq> Some (0, text, w'))
    \<and> (cli_command cli = CmdBulk (BulkRegister f) \<and> \<not> cli_dry_run cli \<and> read_records (con_registrations con) f = Inr rs
         \<and> cli_main re con cli w = Some (0, text, w')
       \<longrightarrow> (\<exists>errors. map fst errors = map bk_name rs
              \<and> finish (refusal_lines ''Registering'' ''register'' errors) w' = (Inr text, w')))
    \<and> (cli_command cli = CmdBulk (BulkRenew f) \<and> \<not> cli_dry_run cli \<and> read_records (con_renewals con) f = Inr ns
         \<and> cli_main re con cli w = Some (0, text, w')
       \<longrightarrow> (\<exists>errors. map fst errors = map rn_name ns
              \<and> finish (refusal_lines ''Renewing'' ''renew'' errors) w' = (Inr text, w')))"
proof -
  have run: "cli_main re con cli w = Some (0, text, w') \<Longrightarrow> (\<And>command. cli_command cli \<noteq> CmdCompletions command) \<Longrightarrow>
      \<exists>conf. wrong_network (con_host con) (cli_client conf) \<and> dispatch con cli conf w = Some (Inr text, w')"
    using assms by (auto simp: cli_main_0 run_with_cli_prepared split: sum.splits option.splits)
  show ?thesis
  proof (intro conjI impI, goal_cases)
    case 1
    then show ?case using run dispatch_refused [OF _ 1] by fastforce
  next
    case 2
    then obtain conf where "wrong_network (con_host con) (cli_client conf)" "dispatch con cli conf w = Some (Inr text, w')"
      using run by auto
    with 2 show ?case using bulk_refused(1) by (fastforce simp: dispatch_def Let_def)
  next
    case 3
    then obtain conf where "wrong_network (con_host con) (cli_client conf)" "dispatch con cli conf w = Some (Inr text, w')"
      using run by auto
    with 3 show ?case using bulk_refused(2) by (fastforce simp: dispatch_def Let_def)
  qed
qed

section \<open>Reading\<close>

lemma retrying_answer:
  "retrying h c (\<lambda>w. (Inr a, w)) w
     = (case h_new_client h (rpc_url c) of
          Some e \<Rightarrow> (Inl (Err (InvalidRequest (''failed to create RPC client: '' @ e))), w) | None \<Rightarrow> (Inr a, w))"
  by (simp add: retrying_def execute_with_retry_def retry_loop.simps split: option.split)

text \<open>A lookup answers or refuses its input, and leaves the world as it is: it never asks the network.\<close>

lemma get_registration_local:
  "\<exists>r. get_registration h c name w = (r, w) \<and> r \<noteq> Inl Trap \<and> (\<forall>msg. r \<noteq> Inl (Err (Transport msg)))"
  by (auto simp: get_registration_def sdk_resolve_def try_step_def try_check_def retrying_answer require_contract_id_def Let_def
      split: option.splits sum.splits prod.splits)

lemma prepare_passphrase:
  assumes "prepare os cli = Inr (Some conf)"
  shows "nc_network_passphrase conf \<noteq> []"
proof -
  obtain network options where "load_config os network options = Inr conf"
    using assms by (auto simp: prepare_def split: cli_command.splits sum.splits if_splits)
  then have "validate_network_config conf = Inr ()" by (auto simp: load_config_def split: sum.splits)
  then have "\<not> is_blank (nc_network_passphrase conf)"
    by (auto simp: validate_network_config_def config_messages_def split: if_splits)
  moreover have "is_blank []" by code_simp
  ultimately show ?thesis by auto
qed

lemma healthcheck_ok:
  assumes "nc_network_passphrase conf \<noteq> []"
  shows "\<exists>rest. run_healthcheck h dbg conf w = (Inr (''Healthcheck [OK]'' @ rest), w)"
proof -
  have "\<exists>detail. health_checks h dbg conf w = (Inr [(''config'', True, ''network='' @ network_str (nc_network conf)),
      (''passphrase'', True, nc_network_passphrase conf), (''rpc'', True, detail)], w)"
    using get_registration_local [of h "(cli_client conf)
        \<lparr>registry_contract_id := Some (case nc_registry conf of Some i \<Rightarrow> i | None \<Rightarrow> ''HEALTHCHECK_PROBE'')\<rparr>" "''healthcheck-probe.xlm''" w]
    by (auto simp: health_checks_def Let_def assms split: sum.split failure.split sdk_error.split)
  then show ?thesis by (auto simp: run_healthcheck_def calling_def finish_def Let_def)
qed

text \<open>
  The health check reports every service as reachable: whatever the network answers, if it answers at all, the command prints
  that all is well, ends with exit status 0 and has asked nothing.
\<close>

theorem healthcheck_never_degraded:
  assumes "cli_command cli = CmdHealthcheck" and "prepare (con_os con) cli = Inr (Some conf)"
  shows "\<exists>rest. cli_main re con cli w = Some (0, ''Healthcheck [OK]'' @ rest, w)"
  using healthcheck_ok [OF prepare_passphrase [OF assms(2)], of "con_host con" "con_dbg con" w] assms
  by (auto simp: cli_main_0 run_with_cli_def dispatch_def Let_def)

section \<open>Registration\<close>

text \<open>
  A guided registration checks with a lookup that the name is free, and the lookup finds every name but one: the only name that a
  guided registration ever registers is \<open>notfound.xlm\<close>.
\<close>

theorem guided_registration_refused:
  assumes "run_register h dbg t os conf name owner signer True w = Some (Inr out, w')"
  shows "\<exists>rest. out = ''Registration quote for notfound.xlm:'' @ rest"
proof -
  obtain client registrar label who w1
    where run: "submit_registration h dbg t client registrar signer True label who w1 = Some (Inr out, w')"
    using assms by (rule run_register_submits)
  then have "label = ''notfound''" using guided_submission_refused by (metis Inl_Inr_False option.inject prod.inject)
  with submit_registration_text [OF run] show ?thesis by simp
qed

text \<open>A question for a name that was not given is repeated for ever when the input has ended.\<close>

theorem registration_waits_for_ever:
  assumes "nc_registrar conf = Some registrar" and "os_env os ''XLM_NS_FORCE_INTERACTIVE'' = Some v"
    and "\<And>w. \<exists>w'. t_read_line t w = (Inr [], w')"
  shows "run_register h dbg t os conf None owner signer interactive w = None"
  using prompt_text_waits [OF assms(3)] by (simp add: run_register_def assms(1,2) prompt_registration_inputs_def Let_def)

text \<open>A quote without a registrar: refused by the check of the contracts, and a panic in a dry run, which has no such check.\<close>

theorem quote_dry_run_panics:
  assumes "cli_command cli = CmdQuote name years" and "cli_dry_run cli"
    and "prepare (con_os con) cli = Inr (Some conf)" and "nc_registrar conf = None"
  shows "cli_main re con cli w = Some (101, [], w)"
  using assms by (simp add: cli_main_def run_with_cli_def dispatch_def run_quote_def Let_def)

text \<open>
  \<open>resolve\<close> is checked to have a resolver and asks with the registry: with a resolver alone every name fails, although the check passes.
\<close>

theorem resolve_needs_registry:
  assumes "nc_registry conf = None"
  shows "\<exists>e. run_resolve h dbg conf name w = (Inl (Err e), w)"
  by (simp add: run_resolve_def sdk_resolve_def try_check_def require_contract_id_def cli_client_def client_new_def assms calling_def)

section \<open>Examples\<close>

text \<open>A console on a host, with no files and nothing set but the environment.\<close>

definition console_on :: "unit host \<Rightarrow> os \<Rightarrow> unit console" where
  "console_on h os =
     \<lparr>con_host = h, con_dbg = id, con_os = os, con_terminal = \<lparr>t_tty = False, t_read_line = (\<lambda>w. (Inr [], w))\<rparr>,
      con_config = \<lparr>su_exists = (\<lambda>p w. False), su_mkdir = (\<lambda>p w. (Inr (), w)), su_create = (\<lambda>p t w. (Inr (), w)),
        su_editor = (\<lambda>p t w. (Inr (), w)), su_get = (\<lambda>u w. (Inr (), w)), su_address = (\<lambda>s. None)\<rparr>,
      con_states = \<lparr>sf_read = (\<lambda>p w. Inl []), sf_write = (\<lambda>p t w. (Inr (), w)), sf_parse = (\<lambda>s. Inl []),
        sf_print = (\<lambda>s. []), sf_print_object = (\<lambda>s. [])\<rparr>,
      con_registrations = \<lparr>bf_open = (\<lambda>p. Inl []), bf_csv = (\<lambda>s. Inl []), bf_json = (\<lambda>s. Inl [])\<rparr>,
      con_renewals = \<lparr>bf_open = (\<lambda>p. Inl []), bf_csv = (\<lambda>s. Inl []), bf_json = (\<lambda>s. Inl [])\<rparr>,
      con_watch = \<lparr>wf_load = (\<lambda>w. (Inr [], w)), wf_save = (\<lambda>ns w. (Inr (), w)), wf_post = (\<lambda>u s w. (Inr (), w))\<rparr>,
      con_chrono = wide_chrono, con_clock = (\<lambda>w. (0, w)), con_seconds = (\<lambda>w. (0, w)), con_completion = \<lparr>ch_generate = (\<lambda>s. []), ch_mkdir = (\<lambda>p w. (Inr (), w)), ch_generate_to = (\<lambda>s p w. (Inr p, w))\<rparr>\<rparr>"

definition test_cli :: "cli_command \<Rightarrow> cli" where
  "test_cli command =
     \<lparr>cli_network = Testnet, cli_config = None, cli_dry_run = False, cli_rpc_url = None, cli_network_passphrase = None,
      cli_overrides = sample_flags, cli_command = command\<rparr>"

definition test_config :: network_config where
  "test_config = assembled bare_os Testnet sample_options None"

lemma test_config_get:
  "contract_id test_config kind = (if kind = CkRegistrar then Some sample_id else None)"
  "Some (nc_rpc_url test_config) = Some (default_rpc_url Testnet)"
  "Some (nc_network_passphrase test_config) = Some (default_network_passphrase Testnet)"
  by (simp_all only: test_config_def assembled_get assembled_texts sample_sources)

lemma test_config_loads: "load_config bare_os Testnet sample_options = Inr test_config"
proof -
  have "validate_contract_id sample_id = Inr ()" "\<not> is_blank (default_rpc_url Testnet)"
    "\<not> is_blank (default_network_passphrase Testnet)"
    by code_simp+
  then have "validate_network_config test_config = Inr ()"
    using test_config_get unfolding validate_iff by (auto split: if_splits)
  moreover have "ro_config_path sample_options = None" by (simp add: sample_options_def)
  ultimately show ?thesis by (simp add: load_config_def sample_sources(1) flip: test_config_def)
qed

lemma test_prepare:
  assumes "\<forall>c. command \<noteq> CmdCompletions c" and "validate_contract_policy command sample_flags test_config = Inr ()"
  shows "prepare bare_os (test_cli command) = Inr (Some test_config)"
  using assms test_config_loads by (cases command) (simp_all add: prepare_def test_cli_def sample_options_def)

lemma test_policies:
  "validate_contract_policy (CmdRenew ''alice.xlm'' 1 None) sample_flags test_config = Inr ()"
  "validate_contract_policy CmdHealthcheck sample_flags test_config = Inr ()"
proof -
  have given: "co_get sample_flags kind \<noteq> None \<longleftrightarrow> kind = CkRegistrar" for kind by (cases kind) (simp_all add: sample_flags_def)
  show "validate_contract_policy (CmdRenew ''alice.xlm'' 1 None) sample_flags test_config = Inr ()"
    "validate_contract_policy CmdHealthcheck sample_flags test_config = Inr ()"
    using given test_config_get(1)
    by (simp_all add: validate_contract_policy_def provided_kinds_def all_kinds_def)
qed

abbreviation renew_alice :: cli_command where
  "renew_alice \<equiv> CmdRenew ''alice.xlm'' 1 None"

lemma renew_prepared: "prepare bare_os (test_cli renew_alice) = Inr (Some test_config)"
  by (rule test_prepare) (simp_all add: test_policies)

lemma test_cli_simps [simp]:
  "cli_command (test_cli command) = command" "(test_cli command)\<lparr>cli_dry_run := False\<rparr> = test_cli command"
  by (simp_all add: test_cli_def)

lemma console_on_simps [simp]: "con_os (console_on h os) = os" "con_host (console_on h os) = h"
  by (simp_all add: console_on_def)

theorem dry_run_submits_witness:
  "run_with_cli (console_on (host_on ''Test SDF Network ; September 2015'') bare_os) ((test_cli renew_alice)\<lparr>cli_dry_run := True\<rparr>) ()
     = run_with_cli (console_on (host_on ''Test SDF Network ; September 2015'') bare_os) (test_cli renew_alice) ()"
  using dry_run_submits [of "test_cli renew_alice" "console_on (host_on ''Test SDF Network ; September 2015'') bare_os" "Some test_config" "()"]
    renew_prepared by simp

theorem wrong_network_fails_witness:
  "\<forall>text. cli_main (\<lambda>_. None) (console_on (host_on ''Public Global Stellar Network ; September 2015'') bare_os) (test_cli renew_alice) ()
     \<noteq> Some (0, text, ())"
proof -
  have "wrong_network (host_on ''Public Global Stellar Network ; September 2015'') (cli_client test_config)"
    using test_config_get(3) by (simp add: wrong_network_def host_on_def cli_client_def client_new_def)
  then show ?thesis
    using wrong_network_fails [of "console_on (host_on ''Public Global Stellar Network ; September 2015'') bare_os" "test_cli renew_alice"]
      renew_prepared by simp
qed

theorem healthcheck_never_degraded_witness:
  "\<exists>rest. cli_main (\<lambda>_. None) (console_on (host_on []) bare_os) (test_cli CmdHealthcheck) () = Some (0, ''Healthcheck [OK]'' @ rest, ())"
  by (rule healthcheck_never_degraded [where conf = test_config]) (simp_all add: test_prepare test_policies)

definition secret_os :: "string \<Rightarrow> os" where
  "secret_os secret = bare_os\<lparr>os_env := [''XLM_NS_SIGNER_ALICE_SECRET'' \<mapsto> secret]\<rparr>"

theorem secrets_unused_witness:
  "cli_main (\<lambda>_. None) (console_on (host_on []) (secret_os ''one'')) (test_cli renew_alice) ()
     = cli_main (\<lambda>_. None) (console_on (host_on []) (secret_os ''two'')) (test_cli renew_alice) ()"
proof -
  have "secret_var_name ''XLM_NS_SIGNER_ALICE_SECRET''"
    unfolding secret_var_name_def by (rule exI [of _ "''ALICE''"]) simp
  then have "same_but_secrets (secret_os ''one'') (secret_os ''two'')" by (simp add: same_but_secrets_def secret_os_def)
  from secrets_unused [OF this, of "test_cli renew_alice" "\<lambda>_. None" "console_on (host_on []) bare_os" "()"]
  show ?thesis by (simp add: console_on_def)
qed

end
