(* ===== verification/Cli_Output.thy ===== *)
theory Cli_Output
  imports Cli_Dispatch
begin

text \<open>
  The output of the command line (\<open>cli/src/output.rs\<close>) and the writers of exported records (\<open>cli/src/export.rs\<close>). A \<open>screen\<close> holds what
  has been printed, the colour switch (\<open>COLOR_ENABLED\<close>) and what progress bars were shown. The crates \<open>colored\<close>, \<open>serde_json\<close> and \<open>csv\<close>
  are parameters: \<open>ansi\<close> gives the escape codes, \<open>json_printer\<close> the two texts of a JSON value, \<open>export_host\<close> the writers. A JSON object
  is the list of its members in the order in which the map gives them.
\<close>

datatype output_format = FormatHuman | FormatJson | FormatCsv

datatype json_value =
    JNull | JBool bool | JNumber string | JString string | JArray "json_value list" | JObject "(string \<times> json_value) list"

record json_printer =
  jp_compact :: "json_value \<Rightarrow> string"
  jp_pretty :: "json_value \<Rightarrow> string"

datatype paint = PaintGreen | PaintRed | PaintYellow | PaintCyan

datatype painted = Plain string | Painted paint bool string

datatype bar_event = BarSpinner string | BarProgress u64 string | BarFinished string | BarAbandoned string

record screen =
  sc_color :: bool
  sc_terminal :: bool
  sc_stdout :: "string list"
  sc_stderr :: "string list"
  sc_bars :: "bar_event list"

section \<open>Lines and their colours\<close>

definition configure :: "bool \<Rightarrow> string option \<Rightarrow> screen \<Rightarrow> screen" where
  "configure no_color no_color_env sc = sc\<lparr>sc_color := (\<not> no_color \<and> no_color_env = None)\<rparr>"

definition should_show_progress :: "output_format \<Rightarrow> screen \<Rightarrow> bool" where
  "should_show_progress format sc \<longleftrightarrow> format = FormatHuman \<and> sc_color sc \<and> sc_terminal sc"

definition begins :: "string \<Rightarrow> string \<Rightarrow> bool" where
  "begins s p \<longleftrightarrow> take (length p) s = p"

definition stylize_line :: "bool \<Rightarrow> string \<Rightarrow> painted" where
  "stylize_line color line =
     (if \<not> color then Plain line
      else let trimmed = trim_start line in
      if trimmed = [] then Plain []
      else if begins trimmed ''SUCCESS:'' \<or> begins trimmed ''  - SUCCESS:'' then Painted PaintGreen True line
      else if begins trimmed ''ERROR:'' \<or> begins trimmed ''  - ERROR:'' \<or> begins trimmed ''Failed '' then Painted PaintRed True line
      else if begins trimmed ''Warning:'' \<or> contains trimmed ''timed out'' \<or> contains trimmed ''retrying''
        then Painted PaintYellow True line
      else if begins trimmed ''[PASS]'' \<or> begins trimmed ''    [PASS]'' \<or> begins trimmed ''[OK]'' \<or> begins trimmed ''    [OK]''
          \<or> contains trimmed '' PASS '' then Painted PaintGreen True line
      else if begins trimmed ''[FAIL]'' \<or> begins trimmed ''    [FAIL]'' \<or> begins trimmed ''DEGRADED'' \<or> contains trimmed '' FAIL ''
        then Painted PaintRed True line
      else if CHR '':'' \<in> set trimmed \<and> \<not> contains trimmed ''://'' then Painted PaintCyan False line
      else if \<not> begins line ''  '' \<and> CHR '':'' \<notin> set trimmed then Painted PaintCyan True line
      else if begins trimmed ''(This is a read-only'' \<or> begins trimmed ''Dry run:'' \<or> begins trimmed ''RPC ''
        then Painted PaintCyan False line
      else Plain line)"

text \<open>\<open>str::lines\<close>.\<close>

definition strip_cr :: "string \<Rightarrow> string" where
  "strip_cr s = (if s \<noteq> [] \<and> last s = CHR 0x0D then butlast s else s)"

definition str_lines :: "string \<Rightarrow> string list" where
  "str_lines s =
     (let parts = split_on CHR 0x0A s in map strip_cr (butlast parts) @ (if last parts = [] then [] else [last parts]))"

primrec show_painted :: "(paint \<Rightarrow> bool \<Rightarrow> string \<Rightarrow> string) \<Rightarrow> painted \<Rightarrow> string" where
  "show_painted ansi (Plain s) = s"
| "show_painted ansi (Painted p bold s) = ansi p bold s"

definition stylize_block :: "(paint \<Rightarrow> bool \<Rightarrow> string \<Rightarrow> string) \<Rightarrow> bool \<Rightarrow> string \<Rightarrow> string" where
  "stylize_block ansi color text =
     join [CHR 0x0A] (map (\<lambda>line. show_painted ansi (stylize_line color line)) (str_lines text))"

definition print_human :: "(paint \<Rightarrow> bool \<Rightarrow> string \<Rightarrow> string) \<Rightarrow> string \<Rightarrow> screen \<Rightarrow> screen" where
  "print_human ansi text sc = sc\<lparr>sc_stdout := sc_stdout sc @ [stylize_block ansi (sc_color sc) text]\<rparr>"

definition print_human_err :: "(paint \<Rightarrow> bool \<Rightarrow> string \<Rightarrow> string) \<Rightarrow> string \<Rightarrow> screen \<Rightarrow> screen" where
  "print_human_err ansi text sc = sc\<lparr>sc_stderr := sc_stderr sc @ [stylize_block ansi (sc_color sc) text]\<rparr>"

section \<open>Progress\<close>

definition spinner :: "string \<Rightarrow> output_format \<Rightarrow> screen \<Rightarrow> bool \<times> screen" where
  "spinner message format sc =
     (if \<not> should_show_progress format sc then (False, sc)
      else (True, sc\<lparr>sc_bars := sc_bars sc @ [BarSpinner message]\<rparr>))"

definition progress_bar :: "u64 \<Rightarrow> string \<Rightarrow> output_format \<Rightarrow> screen \<Rightarrow> bool \<times> screen" where
  "progress_bar len message format sc =
     (if \<not> should_show_progress format sc then (False, sc)
      else (True, sc\<lparr>sc_bars := sc_bars sc @ [BarProgress len message]\<rparr>))"

definition finish_spinner :: "bool \<Rightarrow> string \<Rightarrow> screen \<Rightarrow> screen" where
  "finish_spinner bar message sc = (if bar then sc\<lparr>sc_bars := sc_bars sc @ [BarFinished message]\<rparr> else sc)"

definition abandon_spinner :: "bool \<Rightarrow> string \<Rightarrow> screen \<Rightarrow> screen" where
  "abandon_spinner bar message sc = (if bar then sc\<lparr>sc_bars := sc_bars sc @ [BarAbandoned message]\<rparr> else sc)"

definition with_spinner ::
    "string \<Rightarrow> output_format \<Rightarrow> ('w \<Rightarrow> ('e + 'a) \<times> 'w) \<Rightarrow> screen \<Rightarrow> 'w \<Rightarrow> ('e + 'a) \<times> screen \<times> 'w" where
  "with_spinner message format fut sc w =
     (case spinner message format sc of (bar, sc1) \<Rightarrow>
      (case fut w of
         (Inr value, w1) \<Rightarrow> (Inr value, finish_spinner bar (message @ '' done'') sc1, w1)
       | (Inl err, w1) \<Rightarrow> (Inl err, abandon_spinner bar (message @ '' failed'') sc1, w1)))"

section \<open>JSON and CSV\<close>

definition emit_csv :: "json_printer \<Rightarrow> json_value \<Rightarrow> string list" where
  "emit_csv jp json =
     (case json of
        JObject members \<Rightarrow>
          [join '','' (map fst members),
           join '','' (map (\<lambda>(k, v). case v of JString s \<Rightarrow> s | other \<Rightarrow> jp_compact jp other) members)]
      | _ \<Rightarrow> [])"

definition emit ::
    "(paint \<Rightarrow> bool \<Rightarrow> string \<Rightarrow> string) \<Rightarrow> json_printer \<Rightarrow> output_format \<Rightarrow> string \<Rightarrow> json_value \<Rightarrow> screen \<Rightarrow> screen" where
  "emit ansi jp format human json sc =
     (case format of
        FormatHuman \<Rightarrow> print_human ansi human sc
      | FormatJson \<Rightarrow> sc\<lparr>sc_stdout := sc_stdout sc @ [jp_pretty jp json]\<rparr>
      | FormatCsv \<Rightarrow> sc\<lparr>sc_stdout := sc_stdout sc @ emit_csv jp json\<rparr>)"

definition emit_error ::
    "(paint \<Rightarrow> bool \<Rightarrow> string \<Rightarrow> string) \<Rightarrow> json_printer \<Rightarrow> output_format \<Rightarrow> string \<Rightarrow> json_value \<Rightarrow> screen \<Rightarrow> screen" where
  "emit_error ansi jp format human json sc =
     (case format of
        FormatHuman \<Rightarrow> print_human_err ansi human sc
      | FormatJson \<Rightarrow> sc\<lparr>sc_stderr := sc_stderr sc @ [jp_pretty jp json]\<rparr>
      | FormatCsv \<Rightarrow> sc\<lparr>sc_stderr := sc_stderr sc @ emit_csv jp json\<rparr>)"

section \<open>Exports\<close>

datatype export_error = ExportJson string | ExportCsv string | ExportIo string

primrec display_export_error :: "export_error \<Rightarrow> string" where
  "display_export_error (ExportJson err) = ''json export failed: '' @ err"
| "display_export_error (ExportCsv err) = ''csv export failed: '' @ err"
| "display_export_error (ExportIo err) = ''export I/O failed: '' @ err"

record 'w export_host =
  eh_json :: "portfolio_record list \<Rightarrow> 'w \<Rightarrow> (string + unit) \<times> 'w"
  eh_csv :: "portfolio_record \<Rightarrow> 'w \<Rightarrow> (string + unit) \<times> 'w"
  eh_flush :: "'w \<Rightarrow> (string + unit) \<times> 'w"

definition write_json :: "'w export_host \<Rightarrow> portfolio_record list \<Rightarrow> 'w \<Rightarrow> (export_error + unit) \<times> 'w" where
  "write_json eh records w = apfst (map_sum ExportJson id) (eh_json eh records w)"

fun write_csv :: "'w export_host \<Rightarrow> portfolio_record list \<Rightarrow> 'w \<Rightarrow> (export_error + unit) \<times> 'w" where
  "write_csv eh [] w = apfst (map_sum ExportIo id) (eh_flush eh w)"
| "write_csv eh (record # records) w =
     (case eh_csv eh record w of
        (Inl err, w1) \<Rightarrow> (Inl (ExportCsv err), w1)
      | (Inr _, w1) \<Rightarrow> write_csv eh records w1)"

text \<open>
  The end of \<open>run_portfolio\<close> in each format: in the human format the names have been printed, in the others the
  records are built and written.
\<close>

definition write_portfolio ::
    "'w host \<Rightarrow> (string \<Rightarrow> string) \<Rightarrow> 'w export_host \<Rightarrow> sdk_client \<Rightarrow> output_format \<Rightarrow> resolution_result list \<Rightarrow> int \<Rightarrow> 'w
       \<Rightarrow> (cli_error, unit) result \<times> 'w" where
  "write_portfolio h dbg eh client format names now w =
     (let exported = (\<lambda>write.
        (case build_portfolio_records h client names now w of
           (Inl Trap, w1) \<Rightarrow> (Inl Trap, w1)
         | (Inl (Err e), w1) \<Rightarrow> (Inl (Err \<lparr>err_chain = [display_sdk_error dbg e], err_sdk = Some e\<rparr>), w1)
         | (Inr records, w1) \<Rightarrow>
             (case write records w1 of
                (Inl err, w2) \<Rightarrow> (Inl (Err (policy_error (display_export_error err))), w2)
              | (Inr _, w2) \<Rightarrow> (Inr (), w2))))
      in case format of
           FormatHuman \<Rightarrow> (Inr (), w)
         | FormatJson \<Rightarrow> exported (write_json eh)
         | FormatCsv \<Rightarrow> exported (write_csv eh))"

section \<open>What the colours do\<close>

text \<open>Colouring keeps the text of every line that is not blank.\<close>

primrec painted_text :: "painted \<Rightarrow> string" where
  "painted_text (Plain s) = s"
| "painted_text (Painted p bold s) = s"

lemma stylize_keeps_text:
  "painted_text (stylize_line color line) = (if color \<and> trim_start line = [] then [] else line)"
  by (simp add: stylize_line_def Let_def)

text \<open>A trimmed line does not begin with a space, so the conditions on indented prefixes never hold.\<close>

lemma trim_start_begin: "trim_start s \<noteq> CHR '' '' # t"
proof (induction s rule: trim_start.induct)
  case (1 s)
  have "is_blank '' ''" by code_simp
  then show ?case
    using 1 by (subst trim_start.simps) (cases s; auto)
qed

lemma begins_trimmed: "begins (trim_start line) (CHR '' '' # p) \<longleftrightarrow> False"
  using trim_start_begin [of line] by (cases "trim_start line") (auto simp: begins_def)

text \<open>
  The lines that the bulk commands print for each record are indented under a dash, and contain a colon. A failure
  has the colour of a heading, cyan, as a success has, although both prefixes are among the conditions for red and green.
\<close>

lemma bulk_failure_not_red:
  "stylize_line True ''  - ERROR: Failed to renew alice.xlm: no such name'' =
     Painted PaintCyan False ''  - ERROR: Failed to renew alice.xlm: no such name''"
  by code_simp

lemma bulk_success_not_green:
  "stylize_line True ''  - SUCCESS: renewed alice.xlm'' = Painted PaintCyan False ''  - SUCCESS: renewed alice.xlm''"
  by code_simp

text \<open>Neither a bar nor a colour appears unless the format is for people and colours are on.\<close>

lemma with_spinner_exact:
  "fst (with_spinner message format fut sc w) = fst (fut w) \<and> snd (snd (with_spinner message format fut sc w)) = snd (fut w)
   \<and> sc_bars (fst (snd (with_spinner message format fut sc w))) =
       (if should_show_progress format sc
        then sc_bars sc @ [BarSpinner message,
          if isl (fst (fut w)) then BarAbandoned (message @ '' failed'') else BarFinished (message @ '' done'')]
        else sc_bars sc)"
  by (cases "fut w"; cases "fst (fut w)") (auto simp: with_spinner_def spinner_def finish_spinner_def abandon_spinner_def)

section \<open>Reading the CSV back\<close>

lemma csv_split_join:
  assumes "xs \<noteq> []" and "\<forall>x \<in> set xs. c \<notin> set x"
  shows "split_on c (join [c] xs) = xs"
  using assms
proof (induction xs rule: induct_list012)
  case (2 x)
  then show ?case by (simp add: split_on_single)
next
  case (3 x y zs)
  then show ?case using split_on_append [of c x "join [c] (y # zs)"] by (simp add: split_on_single)
qed simp

text \<open>The two lines of an object whose texts have no commas give back its keys and its texts.\<close>

definition csv_text :: "json_printer \<Rightarrow> json_value \<Rightarrow> string" where
  "csv_text jp v = (case v of JString s \<Rightarrow> s | other \<Rightarrow> jp_compact jp other)"

lemma emit_csv_columns:
  assumes "members \<noteq> []" and "\<forall>(k, v) \<in> set members. CHR '','' \<notin> set k \<and> CHR '','' \<notin> set (csv_text jp v)"
  shows "map (split_on CHR '','') (emit_csv jp (JObject members)) = [map fst members, map (csv_text jp \<circ> snd) members]"
proof -
  have row: "map (\<lambda>(k, v). case v of JString s \<Rightarrow> s | other \<Rightarrow> jp_compact jp other) members = map (csv_text jp \<circ> snd) members"
    by (auto simp: csv_text_def)
  have "split_on CHR '','' (join '','' (map fst members)) = map fst members"
    "split_on CHR '','' (join '','' (map (csv_text jp \<circ> snd) members)) = map (csv_text jp \<circ> snd) members"
    by (rule csv_split_join; use assms in fastforce)+
  then show ?thesis unfolding emit_csv_def by (simp add: row del: map_map)
qed

text \<open>Commas are not quoted: two objects with different members can have the same lines.\<close>

lemma emit_csv_ambiguous:
  "emit_csv jp (JObject [(''name'', JString ''a,b''), (''owner'', JString ''c'')])
     = emit_csv jp (JObject [(''name'', JString ''a''), (''owner'', JString ''b,c'')])"
  by (simp add: emit_csv_def)

section \<open>The exports\<close>

text \<open>Whether an export in CSV has an error, and which: the first record that is not written, or the flush.\<close>

lemma write_csv_result:
  assumes "\<And>record w. eh_csv eh record w = (Inr (), w @ [record])" and "\<And>w. eh_flush eh w = (Inr (), w)"
  shows "write_csv eh records w = (Inr (), w @ records)"
  by (induction records arbitrary: w) (simp_all add: assms)

text \<open>
  A portfolio in a machine format is the records of the names, or the error of the client, or that of the writer; in the human
  format nothing is asked of the client.
\<close>

lemma write_portfolio_error:
  assumes "write_portfolio h dbg eh client format names now w = (Inl (Err e), w')"
  shows "format \<noteq> FormatHuman \<and>
    ((\<exists>err. fst (build_portfolio_records h client names now w) = Inl (Err err) \<and> err_sdk e = Some err)
     \<or> (\<exists>records x. fst (build_portfolio_records h client names now w) = Inr records \<and> err_chain e = [display_export_error x]))"
  using assms
  by (auto simp: write_portfolio_def Let_def policy_error_def split: output_format.splits prod.splits sum.splits failure.splits)

end
