(* ===== verification/Cli_Watchlist.thy ===== *)
theory Cli_Watchlist
  imports Cli_Output
begin

text \<open>
  Two files of the command line: the watchlist (\<open>commands/watch.rs\<close>), which the model of \<open>watch\<close> has as a parameter, and the log of errors
  (\<open>error.rs\<close>), with the end of every failed command (\<open>handle_error\<close>). \<open>file_host\<close> is the file system with the directories of the user;
  \<open>serde_json\<close> for the list of names, the clock and the debug format of an error are parameters. A JSON object has its
  members in the order of their keys.
\<close>

record 'w file_host =
  fh_config_dir :: "string option"
  fh_home :: "string option"
  fh_create_dirs :: "string \<Rightarrow> 'w \<Rightarrow> (string + unit) \<times> 'w"
  fh_exists :: "string \<Rightarrow> 'w \<Rightarrow> bool"
  fh_read :: "string \<Rightarrow> 'w \<Rightarrow> string + string"
  fh_write :: "string \<Rightarrow> string \<Rightarrow> 'w \<Rightarrow> (string + unit) \<times> 'w"
  fh_append :: "string \<Rightarrow> string list \<Rightarrow> 'w \<Rightarrow> 'w"
  fh_parse :: "string \<Rightarrow> string + string list"
  fh_print :: "string list \<Rightarrow> string"
  fh_now :: "'w \<Rightarrow> string"

section \<open>The watchlist\<close>

definition get_watchlist_path :: "'w file_host \<Rightarrow> 'w \<Rightarrow> (string + string) \<times> 'w" where
  "get_watchlist_path fh w =
     (case fh_config_dir fh of
        None \<Rightarrow> (Inl ''Could not find config directory'', w)
      | Some base \<Rightarrow>
          (let config_dir = path_join base ''xlm-ns'' in
           case fh_create_dirs fh config_dir w of
             (Inl e, w1) \<Rightarrow> (Inl e, w1)
           | (Inr _, w1) \<Rightarrow> (Inr (path_join config_dir ''watchlist.json''), w1)))"

definition load_watchlist :: "'w file_host \<Rightarrow> 'w \<Rightarrow> (string + string list) \<times> 'w" where
  "load_watchlist fh w =
     (case get_watchlist_path fh w of
        (Inl e, w1) \<Rightarrow> (Inl e, w1)
      | (Inr path, w1) \<Rightarrow>
          (if \<not> fh_exists fh path w1 then (Inr [], w1)
           else (case fh_read fh path w1 of Inl e \<Rightarrow> (Inl e, w1) | Inr content \<Rightarrow> (fh_parse fh content, w1))))"

definition save_watchlist :: "'w file_host \<Rightarrow> string list \<Rightarrow> 'w \<Rightarrow> (string + unit) \<times> 'w" where
  "save_watchlist fh watchlist w =
     (case get_watchlist_path fh w of
        (Inl e, w1) \<Rightarrow> (Inl e, w1)
      | (Inr path, w1) \<Rightarrow> fh_write fh path (fh_print fh watchlist) w1)"

definition watch_files_on :: "'w file_host \<Rightarrow> (string \<Rightarrow> string \<Rightarrow> 'w \<Rightarrow> (string + unit) \<times> 'w) \<Rightarrow> 'w watch_files" where
  "watch_files_on fh post = \<lparr>wf_load = load_watchlist fh, wf_save = save_watchlist fh, wf_post = post\<rparr>"

text \<open>
  A file system that keeps a file until it is written, where a directory that exists is created again without a
  change, and a printer that the parser reverses.
\<close>

definition steady_files :: "'w file_host \<Rightarrow> bool" where
  "steady_files fh \<longleftrightarrow>
     (\<forall>dir w w1. fh_create_dirs fh dir w = (Inr (), w1) \<longrightarrow> fh_create_dirs fh dir w1 = (Inr (), w1))
     \<and> (\<forall>dir path text w w1 w2. fh_create_dirs fh dir w = (Inr (), w1) \<longrightarrow> fh_write fh path text w1 = (Inr (), w2) \<longrightarrow>
          fh_create_dirs fh dir w2 = (Inr (), w2) \<and> fh_exists fh path w2 \<and> fh_read fh path w2 = Inr text)
     \<and> (\<forall>names. fh_parse fh (fh_print fh names) = Inr names)"

lemma steady_filesD:
  assumes "steady_files fh"
  shows "fh_create_dirs fh dir w = (Inr (), w1) \<Longrightarrow> fh_create_dirs fh dir w1 = (Inr (), w1)"
    and "fh_create_dirs fh dir w = (Inr (), w1) \<Longrightarrow> fh_write fh path text w1 = (Inr (), w2) \<Longrightarrow>
      fh_create_dirs fh dir w2 = (Inr (), w2) \<and> fh_exists fh path w2 \<and> fh_read fh path w2 = Inr text"
    and "fh_parse fh (fh_print fh names) = Inr names"
  using assms unfolding steady_files_def by (blast, blast, blast)

lemma watchlist_path_iff:
  "get_watchlist_path fh w = (Inr path, w1) \<longleftrightarrow>
     (\<exists>base. fh_config_dir fh = Some base \<and> fh_create_dirs fh (path_join base ''xlm-ns'') w = (Inr (), w1)
        \<and> path = path_join (path_join base ''xlm-ns'') ''watchlist.json'')"
  by (auto simp: get_watchlist_path_def Let_def split: option.split prod.split sum.split)

lemma watchlist_path_again:
  assumes "steady_files fh" and "get_watchlist_path fh w = (Inr path, w1)"
  shows "get_watchlist_path fh w1 = (Inr path, w1)"
    and "fh_write fh path text w1 = (Inr (), w2) \<Longrightarrow>
      get_watchlist_path fh w2 = (Inr path, w2) \<and> fh_exists fh path w2 \<and> fh_read fh path w2 = Inr text"
proof -
  from assms(2) obtain base where base: "fh_config_dir fh = Some base"
    and made: "fh_create_dirs fh (path_join base ''xlm-ns'') w = (Inr (), w1)"
    and path: "path = path_join (path_join base ''xlm-ns'') ''watchlist.json''"
    unfolding watchlist_path_iff by blast
  show "get_watchlist_path fh w1 = (Inr path, w1)"
    unfolding watchlist_path_iff using base path steady_filesD(1) [OF assms(1) made] by blast
  show "get_watchlist_path fh w2 = (Inr path, w2) \<and> fh_exists fh path w2 \<and> fh_read fh path w2 = Inr text"
    if "fh_write fh path text w1 = (Inr (), w2)"
    unfolding watchlist_path_iff using base path steady_filesD(2) [OF assms(1) made that] by blast
qed

text \<open>Such a file is what the commands on the watchlist rely on: what is saved is what is loaded next.\<close>

lemma watch_files_keep:
  assumes "steady_files fh"
  shows "file_keeps (watch_files_on fh post)"
proof -
  have "load_watchlist fh w' = (Inr ns, w')" if load: "load_watchlist fh w = (Inr ns, w')" for w ns w'
  proof -
    obtain path where path: "get_watchlist_path fh w = (Inr path, w')"
      using load by (auto simp: load_watchlist_def split: prod.splits sum.splits if_splits)
    from load watchlist_path_again(1) [OF assms path] path show ?thesis
      by (simp add: load_watchlist_def split: if_splits)
  qed
  moreover have "load_watchlist fh w' = (Inr ns, w')" if save: "save_watchlist fh ns w = (Inr (), w')" for w ns w'
  proof -
    obtain path w1 where path: "get_watchlist_path fh w = (Inr path, w1)" and "fh_write fh path (fh_print fh ns) w1 = (Inr (), w')"
      using save by (auto simp: save_watchlist_def split: prod.splits sum.splits)
    with watchlist_path_again(2) [OF assms path] show ?thesis by (simp add: load_watchlist_def steady_filesD(3) [OF assms])
  qed
  ultimately show ?thesis by (auto simp: file_keeps_def watch_files_on_def)
qed

section \<open>Failed commands\<close>

definition json_payload :: "friendly_error \<Rightarrow> bool \<Rightarrow> json_value" where
  "json_payload report verbose =
     JObject ([(''docs'', JArray (map JString (fe_docs report))), (''error'', JString (fe_summary report)),
        (''suggestion'', JString (fe_suggestion report))]
       @ (if verbose then [(''technical'', JString (fe_technical report))] else []))"

primrec error_domain_debug :: "error_domain \<Rightarrow> string" where
  "error_domain_debug EdRegistrar = ''Registrar''"
| "error_domain_debug EdRegistry = ''Registry''"
| "error_domain_debug EdResolver = ''Resolver''"
| "error_domain_debug EdSubdomain = ''Subdomain''"
| "error_domain_debug EdBridge = ''Bridge''"
| "error_domain_debug EdAuction = ''Auction''"
| "error_domain_debug EdNft = ''Nft''"
| "error_domain_debug EdGeneral = ''General''"

primrec subject_kind_debug :: "subject_kind \<Rightarrow> string" where
  "subject_kind_debug SkName = ''Name''"
| "subject_kind_debug SkAddress = ''Address''"
| "subject_kind_debug SkTokenId = ''TokenId''"
| "subject_kind_debug SkChain = ''Chain''"
| "subject_kind_debug SkFile = ''File''"
| "subject_kind_debug SkUnknown = ''Unknown''"

definition error_log_path :: "'w file_host \<Rightarrow> string" where
  "error_log_path fh =
     path_join (path_join (case fh_home fh of Some home \<Rightarrow> home | None \<Rightarrow> ''.'') ''.xlm-ens'') ''error.log''"

text \<open>Appending to the log fails without a word; \<open>debug\<close> is the alternate debug format of the error.\<close>

definition log_error ::
    "'w file_host \<Rightarrow> (cli_error \<Rightarrow> string) \<Rightarrow> cli_error \<Rightarrow> error_context \<Rightarrow> friendly_error \<Rightarrow> 'w \<Rightarrow> 'w" where
  "log_error fh debug err ectx report w =
     (let log_path = error_log_path fh;
          w1 = (case path_parent log_path of Some parent \<Rightarrow> snd (fh_create_dirs fh parent w) | None \<Rightarrow> w) in
      fh_append fh log_path
        ([''['' @ fh_now fh w1 @ ''] command='' @ ec_command ectx @ '' domain='' @ error_domain_debug (ec_domain ectx)
            @ '' subject_kind='' @ subject_kind_debug (ec_subject_kind ectx)
            @ '' subject='' @ (case ec_subject ectx of Some s \<Rightarrow> s | None \<Rightarrow> ''[none]''),
          ''summary='' @ fe_summary report, ''suggestion='' @ fe_suggestion report]
         @ (if fe_docs report \<noteq> [] then [''docs='' @ join '', '' (fe_docs report)] else [])
         @ [''technical='' @ debug err, []]) w1)"

definition handle_error ::
    "(string \<Rightarrow> string option) \<Rightarrow> (string \<Rightarrow> string) \<Rightarrow> (paint \<Rightarrow> bool \<Rightarrow> string \<Rightarrow> string) \<Rightarrow> json_printer \<Rightarrow> 'w file_host
       \<Rightarrow> (cli_error \<Rightarrow> string) \<Rightarrow> cli_error \<Rightarrow> output_format \<Rightarrow> error_context \<Rightarrow> bool \<Rightarrow> screen \<Rightarrow> 'w \<Rightarrow> screen \<times> 'w" where
  "handle_error re dbg ansi jp fh debug err format ectx verbose sc w =
     (let report = classify_error re dbg err ectx in
      (emit_error ansi jp format (human_message report verbose) (json_payload report verbose) sc,
       log_error fh debug err ectx report w))"

text \<open>A failed command prints on standard error only, in every format, and prints something.\<close>

lemma handle_error_stderr:
  "sc_stdout (fst (handle_error re dbg ansi jp fh debug err format ectx verbose sc w)) = sc_stdout sc
   \<and> (\<exists>x xs. sc_stderr (fst (handle_error re dbg ansi jp fh debug err format ectx verbose sc w)) = sc_stderr sc @ x # xs)"
  by (cases format) (simp_all add: handle_error_def emit_error_def print_human_err_def emit_csv_def json_payload_def Let_def)

lemma length_split_on: "length (split_on c s) = Suc (length (filter ((=) c) s))"
  by (induction c s rule: split_on.induct) (auto split: list.split)

lemma commas_join:
  "xs \<noteq> [] \<Longrightarrow> length (filter ((=) c) (join [c] xs)) = sum_list (map (\<lambda>x. length (filter ((=) c) x)) xs) + (length xs - 1)"
  by (induction xs rule: induct_list012) auto

text \<open>
  In CSV the documents of a report are a JSON array, whose commas the line does not quote: with two documents the columns no
  longer match the header.
\<close>

lemma error_csv_columns:
  assumes "jp_compact jp (JArray (map JString (fe_docs report))) = a @ CHR '','' # b"
  shows "\<exists>header row. emit_csv jp (json_payload report verbose) = [header, row]
    \<and> length (split_on CHR '','' header) < length (split_on CHR '','' row)"
proof -
  define members where "members = (case json_payload report verbose of JObject ms \<Rightarrow> ms | _ \<Rightarrow> [])"
  have json: "json_payload report verbose = JObject members" by (simp add: members_def json_payload_def)
  define row where "row = map (\<lambda>(k, v). case v of JString s \<Rightarrow> s | other \<Rightarrow> jp_compact jp other) members"
  have size: "members \<noteq> []" "row \<noteq> []" "length row = length (map fst members)"
    by (simp_all add: row_def members_def json_payload_def)
  have keys: "sum_list (map (\<lambda>x. length (filter ((=) CHR '','') x)) (map fst members)) = 0"
    by (simp add: members_def json_payload_def)
  have texts: "sum_list (map (\<lambda>x. length (filter ((=) CHR '','') x)) row) > 0"
    using assms by (simp add: row_def members_def json_payload_def)
  have "length (split_on CHR '','' (join '','' (map fst members))) = length (map fst members)"
    using commas_join [of "map fst members" "CHR '',''"] keys size(1) unfolding length_split_on by (cases members) simp_all
  moreover have "length (split_on CHR '','' (join '','' row)) > length row"
    using commas_join [OF size(2), of "CHR '',''"] texts unfolding length_split_on by linarith
  ultimately show ?thesis using size(3) by (simp add: json emit_csv_def row_def)
qed

end
