(* ===== verification/Common_Offline.thy ===== *)
theory Common_Offline
  imports Common_Properties Text_Format
begin

text \<open>
  The offline validator of names with several labels (\<open>xlm-ns-common/src/name_validation.rs\<close>). The module is not declared in
  the package's \<open>lib.rs\<close>, and the constant \<open>MAX_SUBDOMAIN_DEPTH\<close> it imports is defined nowhere: the model takes that depth as
  a parameter. A text is its list of bytes, a character the bytes of its encoding; a label is scanned up to its first invalid
  character, so the number of characters before it is the number of bytes.
\<close>

section \<open>Errors\<close>

datatype name_validation_error =
    NvTooShort nat nat
  | NvTooLong nat nat
  | NvInvalidCharacter string nat
  | NvInvalidLabelBoundary
  | NvUnsupportedTld string
  | NvMissingTld
  | NvInvalidName
  | NvReservedName string
  | NvTooManyLabels nat nat

text \<open>The texts; \<open>dbg_char\<close> and \<open>dbg\<close> are the standard library's debug texts of a character and of a string.\<close>

fun display_validation_error :: "(string \<Rightarrow> string) \<Rightarrow> (string \<Rightarrow> string) \<Rightarrow> name_validation_error \<Rightarrow> string" where
  "display_validation_error dbg_char dbg (NvTooShort mn actual) =
     ''label too short: minimum '' @ show_nat mn @ '' chars, got '' @ show_nat actual"
| "display_validation_error dbg_char dbg (NvTooLong mx actual) =
     ''label too long: maximum '' @ show_nat mx @ '' chars, got '' @ show_nat actual"
| "display_validation_error dbg_char dbg (NvInvalidCharacter ch pos) =
     ''invalid character '' @ dbg_char ch @ '' at position '' @ show_nat pos"
| "display_validation_error dbg_char dbg NvInvalidLabelBoundary = ''label must not start or end with a hyphen''"
| "display_validation_error dbg_char dbg (NvUnsupportedTld t) = ''unsupported TLD: '' @ dbg t"
| "display_validation_error dbg_char dbg NvMissingTld = ''name must include a TLD (e.g. .xlm)''"
| "display_validation_error dbg_char dbg NvInvalidName = ''name is structurally malformed''"
| "display_validation_error dbg_char dbg (NvReservedName label) = ''name '' @ dbg label @ '' is reserved''"
| "display_validation_error dbg_char dbg (NvTooManyLabels mx actual) =
     ''too many labels: maximum '' @ show_nat mx @ '', got '' @ show_nat actual"

section \<open>Validated names\<close>

record validated_name =
  vn_labels :: "string list"
  vn_tld :: tld

text \<open>\<open>slice::join\<close> with a dot.\<close>

fun join_dots :: "string list \<Rightarrow> string" where
  "join_dots [] = []"
| "join_dots [l] = l"
| "join_dots (l # ls) = l @ CHR ''.'' # join_dots ls"

definition validated_fqdn :: "validated_name \<Rightarrow> string" where
  "validated_fqdn v = join_dots (vn_labels v) @ ''.'' @ tld_as_str (vn_tld v)"

definition is_subdomain :: "validated_name \<Rightarrow> bool" where
  "is_subdomain v \<longleftrightarrow> length (vn_labels v) > 1"

definition leaf_label :: "validated_name \<Rightarrow> string" where
  "leaf_label v = hd (vn_labels v)"

definition base_label :: "validated_name \<Rightarrow> string" where
  "base_label v = last (vn_labels v)"

section \<open>Validation\<close>

text \<open>The length in bytes of the character that begins with a byte.\<close>

definition utf8_width :: "char \<Rightarrow> nat" where
  "utf8_width b = (let n = of_char b :: nat in if n < 0x80 then 1 else if n < 0xE0 then 2 else if n < 0xF0 then 3 else 4)"

fun invalid_character :: "nat \<Rightarrow> string \<Rightarrow> (string \<times> nat) option" where
  "invalid_character pos [] = None"
| "invalid_character pos (b # bs) =
     (if label_byte b then invalid_character (pos + 1) bs else Some (take (utf8_width b) (b # bs), pos))"

definition check_label :: "string \<Rightarrow> name_validation_error + unit" where
  "check_label label =
     (let len = length label in
      if len = 0 then Inl (NvTooShort MIN_NAME_LENGTH 0)
      else if len < MIN_NAME_LENGTH then Inl (NvTooShort MIN_NAME_LENGTH len)
      else if len > MAX_NAME_LENGTH then Inl (NvTooLong MAX_NAME_LENGTH len)
      else case invalid_character 0 label of
        Some (ch, pos) \<Rightarrow> Inl (NvInvalidCharacter ch pos)
      | None \<Rightarrow>
          if hd label = CHR ''-'' \<or> last label = CHR ''-'' then Inl NvInvalidLabelBoundary else Inr ())"

fun check_labels :: "string list \<Rightarrow> name_validation_error + unit" where
  "check_labels [] = Inr ()"
| "check_labels (l # ls) = (case check_label l of Inl e \<Rightarrow> Inl e | Inr _ \<Rightarrow> check_labels ls)"

definition validate_name_with_reserved :: "nat \<Rightarrow> string \<Rightarrow> string list \<Rightarrow> name_validation_error + validated_name" where
  "validate_name_with_reserved max_depth name reserved =
     (case rposition CHR ''.'' name of None \<Rightarrow> Inl NvMissingTld | Some dot_pos \<Rightarrow>
      (let labels_part = take dot_pos name; tld_str = drop (dot_pos + 1) name in
       if tld_str = [] then Inl NvInvalidName
       else case tld_parse tld_str of None \<Rightarrow> Inl (NvUnsupportedTld tld_str) | Some parsed \<Rightarrow>
         if labels_part = [] then Inl (NvTooShort MIN_NAME_LENGTH 0)
         else let raw_labels = split_on CHR ''.'' labels_part in
           if length raw_labels > max_depth then Inl (NvTooManyLabels max_depth (length raw_labels))
           else case check_labels raw_labels of Inl e \<Rightarrow> Inl e | Inr _ \<Rightarrow>
             case find (\<lambda>label. label \<in> set reserved) raw_labels of
               Some label \<Rightarrow> Inl (NvReservedName label)
             | None \<Rightarrow> Inr \<lparr>vn_labels = raw_labels, vn_tld = parsed\<rparr>))"

definition validate_name :: "nat \<Rightarrow> string \<Rightarrow> name_validation_error + validated_name" where
  "validate_name max_depth name = validate_name_with_reserved max_depth name []"

section \<open>Lemmas\<close>

lemma invalid_character_None: "invalid_character pos l = None \<longleftrightarrow> list_all label_byte l"
  by (induction l arbitrary: pos) auto

lemma invalid_character_Some:
  "invalid_character pos l = Some (ch, p) \<Longrightarrow>
     pos \<le> p \<and> p < pos + length l \<and> list_all label_byte (take (p - pos) l) \<and> \<not> label_byte (l ! (p - pos))
     \<and> ch = take (utf8_width (l ! (p - pos))) (drop (p - pos) l)"
proof (induction l arbitrary: pos)
  case (Cons b bs)
  show ?case
  proof (cases "label_byte b")
    case True
    with Cons.prems have "invalid_character (pos + 1) bs = Some (ch, p)" by simp
    note found = Cons.IH [OF this]
    then have "p - pos = Suc (p - (pos + 1))" by linarith
    with found True show ?thesis by (auto simp: nth_Cons')
  qed (use Cons.prems in auto)
qed simp

lemma check_label_iff: "check_label l = Inr () \<longleftrightarrow> valid_label l"
  by (auto simp: check_label_def Let_def valid_label_def length_constants invalid_character_None [symmetric, of l 0]
      split: option.splits)

lemma check_labels_iff: "check_labels ls = Inr () \<longleftrightarrow> list_all valid_label ls"
  by (induction ls) (auto simp flip: check_label_iff split: sum.splits)

lemma join_dots_sep: "ls \<noteq> [] \<Longrightarrow> concat (map (\<lambda>l. l @ ''.'') ls) = join_dots ls @ ''.''"
  by (induction ls rule: join_dots.induct) auto

lemma fqdn_of_join: "ls \<noteq> [] \<Longrightarrow> fqdn_of ls = join_dots ls @ ''.xlm''"
  by (simp add: fqdn_of_def join_dots_sep)

lemma split_join: "ls \<noteq> [] \<Longrightarrow> list_all valid_label ls \<Longrightarrow> split_on CHR ''.'' (join_dots ls) = ls"
  using valid_label_no_dot by (intro split_on_unique join_dots_sep) (auto simp: list_all_iff)

lemma join_split: "join_dots (split_on CHR ''.'' xs) = xs"
  using split_on_concat [of "CHR ''.''" xs] join_dots_sep [of "split_on CHR ''.'' xs"] by simp

lemma tld_parse_iff: "tld_parse s = Some t \<longleftrightarrow> s = tld_as_str t"
  by (cases t) (auto simp: tld_parse_def)

lemma join_dots_nonempty: "ls \<noteq> [] \<Longrightarrow> list_all valid_label ls \<Longrightarrow> join_dots ls \<noteq> []"
  by (induction ls rule: join_dots.induct) (auto simp: valid_label_def)

lemma validate_name_iff:
  "validate_name_with_reserved d name reserved = Inr v \<longleftrightarrow>
     vn_labels v \<noteq> [] \<and> length (vn_labels v) \<le> d
     \<and> list_all (\<lambda>l. valid_label l \<and> l \<notin> set reserved) (vn_labels v) \<and> name = validated_fqdn v" (is "?L \<longleftrightarrow> ?R")
proof
  assume ?L
  then obtain i where i: "rposition CHR ''.'' name = Some i"
    and tail: "drop (i + 1) name = ''xlm''" and v: "vn_labels v = split_on CHR ''.'' (take i name)" "vn_tld v = Xlm"
    and ok: "length (vn_labels v) \<le> d" "list_all valid_label (vn_labels v)"
      "find (\<lambda>label. label \<in> set reserved) (vn_labels v) = None"
    by (auto simp: validate_name_with_reserved_def Let_def tld_parse_def check_labels_iff
        split: option.splits if_splits sum.splits)
  have "name = take i name @ CHR ''.'' # ''xlm''" using rposition_Some(1) [OF i] tail by simp
  then have "name = validated_fqdn v" using v by (simp add: validated_fqdn_def join_split)
  with v ok show ?R by (auto simp: find_None_iff list_all_iff)
next
  assume R: ?R
  let ?r = "join_dots (vn_labels v)"
  have ne: "vn_labels v \<noteq> []" and len: "length (vn_labels v) \<le> d" using R by simp_all
  have ok: "list_all valid_label (vn_labels v)" "find (\<lambda>label. label \<in> set reserved) (vn_labels v) = None"
    using R by (auto simp: find_None_iff list_all_iff)
  have name: "name = ?r @ CHR ''.'' # ''xlm''" using R by (cases "vn_tld v") (simp add: validated_fqdn_def)
  have "rposition CHR ''.'' name = Some (length ?r)" unfolding name by (rule rposition_last) simp
  then show ?L
    using ne len ok split_join [OF ne ok(1)] join_dots_nonempty [OF ne ok(1)] check_labels_iff [of "vn_labels v"]
    unfolding name by (cases v; cases "vn_tld v") (simp add: validate_name_with_reserved_def Let_def tld_parse_def)
qed

section \<open>Properties\<close>

text \<open>
  C24: Offline validation accepts exactly the texts that are the labels of its answer, from one up to the maximum depth, each
  well-formed and none reserved, joined by dots and followed by \<open>.xlm\<close>: what is parsed prints as it was, and
  whatever is built from such labels parses to them.
\<close>

theorem offline_roundtrip:
  "validate_name_with_reserved d name reserved = Inr v \<longleftrightarrow>
     vn_labels v \<noteq> [] \<and> length (vn_labels v) \<le> d
     \<and> list_all (\<lambda>l. valid_label l \<and> l \<notin> set reserved) (vn_labels v) \<and> name = validated_fqdn v"
  by (rule validate_name_iff)

text \<open>
  The three validators of names agree: the contracts accept a name exactly if the offline validator does, with a depth that
  its dots cannot exceed, and it has at most 68 bytes; the client's parser accepts the names that the offline validator accepts with
  one label, at any positive depth, and returns that label.
\<close>

theorem validators_agree:
  assumes "count_list name CHR ''.'' \<le> d" and "0 < k"
  shows "(validate_fqdn_soroban name = Inr () \<longleftrightarrow> length name \<le> MAX_FQDN_LENGTH \<and> (\<exists>v. validate_name d name = Inr v))
    \<and> (parse_fqdn name = Inr (l, t) \<longleftrightarrow> validate_name k name = Inr \<lparr>vn_labels = [l], vn_tld = t\<rparr>)"
proof
  have depth: "length ls \<le> d" if "name = fqdn_of ls" for ls
  proof -
    have "length ls \<le> count_list (fqdn_of ls) CHR ''.''" by (induction ls) (auto simp: fqdn_of_def)
    with that assms(1) show ?thesis by simp
  qed
  show "validate_fqdn_soroban name = Inr () \<longleftrightarrow> length name \<le> MAX_FQDN_LENGTH \<and> (\<exists>v. validate_name d name = Inr v)" (is "?L \<longleftrightarrow> ?R")
  proof
    assume ?L
    then obtain ls where ls: "ls \<noteq> []" "list_all valid_label ls" "name = fqdn_of ls" "length name \<le> 68"
      by (auto simp: validate_fqdn_soroban_iff list_all_iff)
    then have "validate_name d name = Inr \<lparr>vn_labels = ls, vn_tld = Xlm\<rparr>"
      using depth [OF ls(3)] by (simp add: validate_name_def validate_name_iff validated_fqdn_def fqdn_of_join)
    with ls(4) show ?R by (auto simp: MAX_FQDN_LENGTH_def XLM_SUFFIX_LEN_def length_constants)
  next
    assume R: ?R
    then obtain v where v: "validate_name d name = Inr v" by blast
    then have "vn_labels v \<noteq> []" "list_all valid_label (vn_labels v)" "name = fqdn_of (vn_labels v)"
      by (cases "vn_tld v"; simp add: validate_name_def validate_name_iff validated_fqdn_def fqdn_of_join)+
    with R show ?L
      by (auto simp: validate_fqdn_soroban_iff list_all_iff MAX_FQDN_LENGTH_def XLM_SUFFIX_LEN_def length_constants)
  qed
  show "parse_fqdn name = Inr (l, t) \<longleftrightarrow> validate_name k name = Inr \<lparr>vn_labels = [l], vn_tld = t\<rparr>"
    using assms(2) by (cases t) (simp add: parse_fqdn_iff validate_name_def validate_name_iff validated_fqdn_def)
qed

theorem validators_agree_witness:
  "validate_fqdn_soroban ''pay.timmy.xlm'' = Inr () \<and> (\<exists>v. validate_name 3 ''pay.timmy.xlm'' = Inr v)"
proof -
  have "validate_fqdn_soroban ''pay.timmy.xlm'' = Inr ()" by code_simp
  with validators_agree [of "''pay.timmy.xlm''" 3 1] show ?thesis by simp
qed

text \<open>
  Names of up to three labels that the offline validator accepts can be too long for the contracts: three labels of 64 bytes are one.
\<close>

theorem offline_accepts_too_long:
  "\<exists>v name. validate_name 3 name = Inr v \<and> validate_fqdn_soroban name = Inl NameTooLong"
proof (intro exI conjI)
  let ?l = "replicate 64 CHR ''a''"
  let ?v = "\<lparr>vn_labels = [?l, ?l, ?l], vn_tld = Xlm\<rparr>"
  have "valid_label ?l" by code_simp
  then show "validate_name 3 (validated_fqdn ?v) = Inr ?v" by (simp add: validate_name_def validate_name_iff)
  have "length (validated_fqdn ?v) = 198" by (simp add: validated_fqdn_def)
  then show "validate_fqdn_soroban (validated_fqdn ?v) = Inl NameTooLong"
    by (simp add: validate_fqdn_soroban_def copy_bytes_def MAX_FQDN_LENGTH_def XLM_SUFFIX_LEN_def length_constants)
qed

text \<open>
  An invalid character is reported with its position, the first of the first label with one, when that label's length is in the
  bounds.
\<close>

theorem invalid_character_located:
  assumes "check_label l = Inl (NvInvalidCharacter ch pos)"
  shows "pos < length l \<and> list_all label_byte (take pos l) \<and> \<not> label_byte (l ! pos)
    \<and> ch = take (utf8_width (l ! pos)) (drop pos l)"
proof -
  have "invalid_character 0 l = Some (ch, pos)"
    using assms by (auto simp: check_label_def Let_def split: if_splits option.splits)
  from invalid_character_Some [OF this] show ?thesis by simp
qed

theorem invalid_character_located_witness:
  "\<not> label_byte (''Tim'' ! 0) \<and> check_label ''Tim'' = Inl (NvInvalidCharacter ''T'' 0)"
proof -
  have "check_label ''Tim'' = Inl (NvInvalidCharacter ''T'' 0)" by code_simp
  from this invalid_character_located [OF this] show ?thesis by simp
qed

end
