(* ===== verification/Std_Float.thy ===== *)
theory Std_Float
  imports Complex_Main Text_Format
begin

text \<open>
  The type \<open>f64\<close>, as far as the monitor uses it. A value is the rational number it stands for; an operation is the exact one followed by
  rounding to the nearest number with 53 significant bits, ties to the even one. Every value that occurs is finite, far from the
  largest and the smallest double, so exponents need no bound; the sign of zero is not kept. Integers are converted by the same
  rounding. \<open>show_fixed k\<close> is the format \<open>{:.k}\<close>, which rounds the exact value, ties to the even digit.
\<close>

type_synonym f64 = rat

function bit_length :: "int \<Rightarrow> nat" where
  "bit_length n = (if n \<le> 0 then 0 else Suc (bit_length (n div 2)))"
  by auto
termination by (relation "measure nat") auto

declare bit_length.simps [simp del]

definition binary_exponent :: "rat \<Rightarrow> int" where
  "binary_exponent x =
     (case quotient_of \<bar>x\<bar> of (a, b) \<Rightarrow>
       let k = int (bit_length a) - int (bit_length b) in if 2 powi k \<le> \<bar>x\<bar> then k else k - 1)"

definition round_even :: "rat \<Rightarrow> int" where
  "round_even x =
     (let n = \<lfloor>x\<rfloor>; d = x - of_int n in if d < 1 / 2 \<or> d = 1 / 2 \<and> even n then n else n + 1)"

definition rounded :: "rat \<Rightarrow> f64" where
  "rounded x =
     (if x = 0 then 0
      else let step = 2 powi (binary_exponent x - 52) in of_int (round_even (x / step)) * step)"

definition show_fixed :: "nat \<Rightarrow> f64 \<Rightarrow> string" where
  "show_fixed k x =
     (let n = nat (round_even (\<bar>x\<bar> * 10 ^ k)); fraction = show_nat (n mod 10 ^ k) in
      (if x < 0 then ''-'' else []) @ show_nat (n div 10 ^ k) @ ''.'' @ replicate (k - length fraction) CHR ''0'' @ fraction)"

section \<open>The error of rounding\<close>

lemma bit_length_bounds:
  assumes "n > 0"
  shows "2 ^ (bit_length n - 1) \<le> n" and "n < 2 ^ bit_length n" and "bit_length n > 0"
proof -
  have "bit_length n > 0 \<and> 2 ^ (bit_length n - 1) \<le> n \<and> n < 2 ^ bit_length n" using assms
  proof (induction n rule: bit_length.induct)
    case (1 n)
    show ?case
    proof (cases "n div 2 = 0")
      case True
      with "1.prems" have "n = 1" by simp
      moreover have "bit_length 1 = 1" by (simp add: bit_length.simps [of 1] bit_length.simps [of 0])
      ultimately show ?thesis by simp
    next
      case False
      with "1.prems" have half: "n div 2 > 0" by simp
      with 1 have IH: "bit_length (n div 2) > 0" "2 ^ (bit_length (n div 2) - 1) \<le> n div 2" "n div 2 < 2 ^ bit_length (n div 2)"
        by simp_all
      have "(2 :: int) ^ bit_length (n div 2) = 2 * 2 ^ (bit_length (n div 2) - 1)" using IH(1) by (cases "bit_length (n div 2)") simp_all
      moreover have "bit_length n = Suc (bit_length (n div 2))" using "1.prems" by (simp add: bit_length.simps [of n])
      moreover have "n = 2 * (n div 2) + n mod 2" "0 \<le> n mod 2" "n mod 2 < 2" by simp_all
      ultimately show ?thesis using IH by (simp only: power_Suc diff_Suc_1) linarith
    qed
  qed
  then show "2 ^ (bit_length n - 1) \<le> n" and "n < 2 ^ bit_length n" and "bit_length n > 0" by simp_all
qed

lemma binary_exponent_le:
  assumes "x \<noteq> 0"
  shows "2 powi (binary_exponent x) \<le> \<bar>x\<bar>"
proof -
  obtain a b where ab: "quotient_of \<bar>x\<bar> = (a, b)" by (cases "quotient_of \<bar>x\<bar>")
  then have b: "b > 0" and x: "\<bar>x\<bar> = of_int a / of_int b" using quotient_of_denom_pos quotient_of_div by blast+
  have "\<bar>x\<bar> > 0" using assms by simp
  then have a: "a > 0" using b unfolding x by (simp add: zero_less_divide_iff)
  let ?m = "bit_length a" and ?n = "bit_length b"
  have "of_int (2 ^ (?m - 1)) \<le> (of_int a :: rat)" using bit_length_bounds(1) [OF a] by (simp only: of_int_le_iff)
  moreover have "of_int b \<le> (of_int (2 ^ ?n) :: rat)" using bit_length_bounds(2) [OF b] by (simp only: of_int_le_iff)
  ultimately have bounds: "2 ^ (?m - 1) \<le> (of_int a :: rat)" "of_int b \<le> (2 :: rat) ^ ?n" by simp_all
  have shift: "int ?m - int ?n - 1 = int (?m - 1) - int ?n" using bit_length_bounds(3) [OF a] by (simp add: of_nat_diff)
  have "(2 :: rat) powi (int ?m - int ?n - 1) = 2 ^ (?m - 1) / 2 ^ ?n" unfolding shift by (subst power_int_diff) simp_all
  also have "\<dots> \<le> of_int a / of_int b" using bounds a b by (intro frac_le) simp_all
  finally show ?thesis unfolding binary_exponent_def ab x [symmetric] by (simp add: Let_def)
qed

lemma round_even_near: "\<bar>of_int (round_even x) - x\<bar> \<le> 1 / 2"
  using floor_correct [of x] by (auto simp: round_even_def Let_def)

text \<open>The relative error is at most \<open>2 ^ -53\<close>.\<close>

lemma rounded_near: "\<bar>rounded x - x\<bar> \<le> \<bar>x\<bar> / 2 ^ 53"
proof (cases "x = 0")
  case False
  let ?step = "(2 :: rat) powi (binary_exponent x - 52)"
  have step: "?step > 0" by simp
  have "rounded x - x = (of_int (round_even (x / ?step)) - x / ?step) * ?step"
    using False step by (simp add: rounded_def Let_def left_diff_distrib)
  then have "\<bar>rounded x - x\<bar> = \<bar>of_int (round_even (x / ?step)) - x / ?step\<bar> * ?step" using step by (simp add: abs_mult)
  also have "\<dots> \<le> 1 / 2 * ?step" using round_even_near step by (intro mult_right_mono) simp_all
  also have "\<dots> = 2 powi (binary_exponent x) / 2 ^ 53" by (simp add: power_int_diff)
  also have "\<dots> \<le> \<bar>x\<bar> / 2 ^ 53" using binary_exponent_le [OF False] by (intro divide_right_mono) simp_all
  finally show ?thesis .
qed (simp add: rounded_def)

text \<open>Coarser bounds, which are enough for percentages.\<close>

lemma rounded_close: "\<bar>rounded x - x\<bar> \<le> \<bar>x\<bar> / 1000000"
proof -
  have "\<bar>x\<bar> / 2 ^ 53 \<le> \<bar>x\<bar> / 1000000" by (intro divide_left_mono) simp_all
  with rounded_near [of x] show ?thesis by linarith
qed

lemma rounded_bounds:
  assumes "0 \<le> x"
  shows "x - x / 1000000 \<le> rounded x" and "rounded x \<le> x + x / 1000000"
  using rounded_close [of x] unfolding abs_of_nonneg [OF assms] abs_le_iff by linarith+

end
