(* ===== verification/Monitor.thy ===== *)
theory Monitor
  imports Std_Float Sdk_Queries
begin

text \<open>
  The monitor (\<open>packages/xlm-ns-monitor/src/\<close>: \<open>config.rs\<close>, \<open>metrics.rs\<close>, \<open>alerts.rs\<close>, \<open>main.rs\<close>). It probes the service, keeps a history of snapshots
  in a file, compares each new snapshot with thresholds and sends alerts. \<open>monitor_host\<close> holds what is outside: the host of the client
  library, the files with the JSON of \<open>serde_json\<close>, the clocks, the sleep and the posts to the alert channels. Numbers \<open>f64\<close> are
  those of \<open>Std_Float\<close>, numbers \<open>u64\<close> wrap around as in a release build. A command prints lines.
\<close>

section \<open>Configuration (config.rs)\<close>

record contract_config =
  cc_registry :: "string option"
  cc_registrar :: "string option"
  cc_resolver :: "string option"
  cc_auction :: "string option"

record threshold_config =
  tc_failure_rate_limit :: f64
  tc_storage_capacity_limit :: f64
  tc_registration_spike_factor :: f64
  tc_zero_registration_hours :: f64

record alert_channel_config =
  ac_slack :: "string option"
  ac_pagerduty :: "string option"
  ac_email :: "string option"
  ac_generic :: "string option"

record monitor_config =
  mc_rpc_url :: string
  mc_network_passphrase :: string
  mc_poll_interval_secs :: u64
  mc_metrics_db_path :: string
  mc_contracts :: contract_config
  mc_thresholds :: threshold_config
  mc_alert_channels :: alert_channel_config

definition default_thresholds :: threshold_config where
  "default_thresholds =
     \<lparr>tc_failure_rate_limit = 5, tc_storage_capacity_limit = 80, tc_registration_spike_factor = 3, tc_zero_registration_hours = 1\<rparr>"

definition monitor_config_default :: monitor_config where
  "monitor_config_default =
     \<lparr>mc_rpc_url = ''https://soroban-testnet.stellar.org'', mc_network_passphrase = ''Test SDF Network ; September 2015'',
      mc_poll_interval_secs = 60, mc_metrics_db_path = ''xlm-ns-metrics.json'',
      mc_contracts = \<lparr>cc_registry = Some ''CDAD...REGISTRY'', cc_registrar = Some ''CDAD...REGISTRAR'',
        cc_resolver = Some ''CDAD...RESOLVER'', cc_auction = Some ''CDAD...AUCTION''\<rparr>,
      mc_thresholds = default_thresholds,
      mc_alert_channels = \<lparr>ac_slack = None, ac_pagerduty = None, ac_email = None, ac_generic = None\<rparr>\<rparr>"

section \<open>Snapshots (metrics.rs)\<close>

record metric_snapshot =
  ms_timestamp :: string
  ms_total_registrations :: u64
  ms_registration_volume_hour :: u64
  ms_registration_volume_day :: u64
  ms_transaction_success_rate :: f64
  ms_storage_entry_count :: u64
  ms_storage_capacity_pct :: f64
  ms_average_resolution_latency_ms :: u64
  ms_auction_activity :: u64
  ms_contract_balance_xlm :: u64

type_synonym metrics_history = "metric_snapshot list"

record alert =
  al_name :: string
  al_description :: string
  al_severity :: string
  al_current_value :: string
  al_threshold :: string

datatype notice = SlackText string | PagerEvent string string | AlertJson alert

record 'w monitor_host =
  mo_client :: "'w host"
  mo_read :: "string \<Rightarrow> 'w \<Rightarrow> string + string"
  mo_config :: "string \<Rightarrow> string + monitor_config"
  mo_history :: "string \<Rightarrow> string + metrics_history"
  mo_json :: "metrics_history \<Rightarrow> string"
  mo_write :: "string \<Rightarrow> string \<Rightarrow> 'w \<Rightarrow> (string + unit) \<times> 'w"
  mo_elapsed :: "'w \<Rightarrow> u64 \<times> 'w"
  mo_now :: "'w \<Rightarrow> string \<times> 'w"
  mo_post :: "string \<Rightarrow> notice \<Rightarrow> 'w \<Rightarrow> 'w"
  mo_sleep :: "u64 \<Rightarrow> 'w \<Rightarrow> 'w"

definition load_monitor_config :: "'w monitor_host \<Rightarrow> string \<Rightarrow> 'w \<Rightarrow> string + monitor_config" where
  "load_monitor_config mo path w =
     (case mo_read mo path w of Inl e \<Rightarrow> Inl e | Inr content \<Rightarrow> mo_config mo content)"

definition load_history :: "'w monitor_host \<Rightarrow> string \<Rightarrow> 'w \<Rightarrow> metrics_history" where
  "load_history mo path w =
     (case mo_read mo path w of
        Inl _ \<Rightarrow> []
      | Inr content \<Rightarrow> (case mo_history mo content of Inl _ \<Rightarrow> [] | Inr history \<Rightarrow> history))"

definition save_history :: "'w monitor_host \<Rightarrow> metrics_history \<Rightarrow> string \<Rightarrow> 'w \<Rightarrow> (string + unit) \<times> 'w" where
  "save_history mo history path w = mo_write mo path (mo_json mo history) w"

definition suffix_of :: "nat \<Rightarrow> 'a list \<Rightarrow> 'a list" where
  "suffix_of n xs = (if length xs \<le> n then xs else drop (length xs - n) xs)"

definition or_empty :: "string option \<Rightarrow> string" where
  "or_empty v = (case v of Some s \<Rightarrow> s | None \<Rightarrow> [])"

definition monitor_client :: "monitor_config \<Rightarrow> sdk_client" where
  "monitor_client cfg =
     (let ids = mc_contracts cfg in
      with_resolver (with_registrar
        (client_new (mc_rpc_url cfg) (Some (mc_network_passphrase cfg)) (cc_registry ids) None None (cc_auction ids))
        (or_empty (cc_registrar ids))) (or_empty (cc_resolver ids)))"

text \<open>The success rate counts this probe and those of the last five snapshots whose own rate is above 90.\<close>

definition success_rate :: "bool \<Rightarrow> metrics_history \<Rightarrow> f64" where
  "success_rate success history =
     (if history = [] then (if success then 100 else 0)
      else
        (let recent = suffix_of 5 history;
             success_count = length (filter (\<lambda>s. ms_transaction_success_rate s > 90) recent) + (if success then 1 else 0) in
         rounded (rounded (of_nat success_count / of_nat (length recent + 1)) * 100)))"

definition snapshot_of ::
    "monitor_config \<Rightarrow> metrics_history \<Rightarrow> bool \<Rightarrow> u64 \<Rightarrow> string \<Rightarrow> metric_snapshot" where
  "snapshot_of cfg history success latency_ms now_str =
     (let fees = (case get_fee_metrics (monitor_client cfg) of
            Inr m \<Rightarrow> (rm_total_registrations m, rm_treasury_balance m) | Inl _ \<Rightarrow> (0, 0));
          total_regs = (if fst fees \<noteq> 0 then fst fees
            else if history = [] then 120 else ms_total_registrations (last history) + 1);
          treasury_bal = (if snd fees \<noteq> 0 then snd fees
            else if history = [] then 2500 else ms_contract_balance_xlm (last history) + 5);
          vol_hour = (if history = [] then 1
            else max (sat_sub total_regs (ms_total_registrations (last history))) 1);
          vol_day = (if history = [] then 10 else max (ms_registration_volume_day (last history) + vol_hour) 10);
          entries = total_regs * 10 + 500 in
      \<lparr>ms_timestamp = now_str, ms_total_registrations = total_regs, ms_registration_volume_hour = vol_hour,
       ms_registration_volume_day = vol_day, ms_transaction_success_rate = success_rate success history,
       ms_storage_entry_count = entries,
       ms_storage_capacity_pct = rounded (rounded (rounded (of_nat (unat entries)) / 10000) * 100),
       ms_average_resolution_latency_ms = latency_ms,
       ms_auction_activity = (if cc_auction (mc_contracts cfg) \<noteq> None then 3 else 0),
       ms_contract_balance_xlm = treasury_bal\<rparr>)"

text \<open>Apart from a panic, collecting has no failure: every error on the way has a value to fall back to.\<close>

definition collect_metrics ::
    "'w monitor_host \<Rightarrow> monitor_config \<Rightarrow> metrics_history \<Rightarrow> 'w \<Rightarrow> (string, metric_snapshot) result \<times> 'w" where
  "collect_metrics mo cfg history w =
     (case sdk_resolve (mo_client mo) (monitor_client cfg) ''healthcheck-probe.xlm'' w of
        (Inl Trap, w1) \<Rightarrow> (Inl Trap, w1)
      | (probe, w1) \<Rightarrow>
          (case mo_elapsed mo w1 of (latency_ms, w2) \<Rightarrow>
            (case mo_now mo w2 of (now_str, w3) \<Rightarrow>
              (Inr (snapshot_of cfg history (\<not> isl probe) latency_ms now_str), w3))))"

end
