(* ===== verification/Monitor_Alerts.thy ===== *)
theory Monitor_Alerts
  imports Monitor
begin

text \<open>
  The alerts of the monitor (\<open>alerts.rs\<close>), its daemon and its status report (\<open>main.rs\<close>). One turn of the daemon is \<open>monitor_cycle\<close>; the
  daemon repeats it for ever unless it is a dry run, so \<open>monitor_run\<close> is a partial function.
\<close>

section \<open>Thresholds\<close>

definition failure_alert :: "monitor_config \<Rightarrow> metric_snapshot \<Rightarrow> alert list" where
  "failure_alert cfg latest =
     (let rate = rounded (100 - ms_transaction_success_rate latest); limit = tc_failure_rate_limit (mc_thresholds cfg) in
      if rate > limit then
        [\<lparr>al_name = ''Elevated Transaction Failure Rate'',
          al_description = ''Transaction failure rate is '' @ show_fixed 2 rate @ ''%, exceeding the limit of '' @ show_fixed 2 limit @ ''%.'',
          al_severity = ''CRITICAL'', al_current_value = show_fixed 2 rate @ ''%'', al_threshold = ''> '' @ show_fixed 2 limit @ ''%''\<rparr>]
      else [])"

definition storage_alert :: "monitor_config \<Rightarrow> metric_snapshot \<Rightarrow> alert list" where
  "storage_alert cfg latest =
     (let pct = ms_storage_capacity_pct latest; limit = tc_storage_capacity_limit (mc_thresholds cfg) in
      if pct > limit then
        [\<lparr>al_name = ''High Storage Utilization'',
          al_description = ''Contract storage is at '' @ show_fixed 2 pct @ ''% of capacity (Limit: '' @ show_fixed 2 limit @ ''%).'',
          al_severity = ''WARNING'', al_current_value = show_fixed 2 pct @ ''%'', al_threshold = ''> '' @ show_fixed 2 limit @ ''%''\<rparr>]
      else [])"

text \<open>The baseline is the mean of the last ten hourly volumes, or 2 while there are fewer than three.\<close>

definition baseline_of :: "metrics_history \<Rightarrow> f64" where
  "baseline_of history =
     (if length history \<ge> 3 then
        (let count = min (length history) 10;
             total = sum_list (map ms_registration_volume_hour (take count (rev history))) in
         rounded (rounded (of_nat (unat total)) / of_nat count))
      else 2)"

definition spike_alert :: "monitor_config \<Rightarrow> metrics_history \<Rightarrow> metric_snapshot \<Rightarrow> alert list" where
  "spike_alert cfg history latest =
     (let baseline = baseline_of history;
          volume = ms_registration_volume_hour latest;
          spike = rounded (rounded (of_nat (unat volume)) / max baseline 1);
          limit = tc_registration_spike_factor (mc_thresholds cfg) in
      if spike > limit then
        [\<lparr>al_name = ''Registration Volume Spike Detected'',
          al_description = ''Registration volume spike is '' @ show_fixed 2 spike @ ''x baseline ('' @ show_nat (unat volume)
            @ '' regs/hour vs baseline '' @ show_fixed 2 baseline @ '' regs/hour).'',
          al_severity = ''WARNING'', al_current_value = show_fixed 2 spike @ ''x'', al_threshold = ''> '' @ show_fixed 2 limit @ ''x''\<rparr>]
      else [])"

definition idle_alert :: "metric_snapshot \<Rightarrow> alert list" where
  "idle_alert latest =
     (if ms_registration_volume_hour latest = 0 then
        [\<lparr>al_name = ''Zero Registration Activity'',
          al_description = ''No new registrations have occurred in the last hour.'', al_severity = ''WARNING'',
          al_current_value = ''0 registrations'', al_threshold = ''0 registrations for > 1 hour''\<rparr>]
      else [])"

definition evaluate_thresholds :: "monitor_config \<Rightarrow> metrics_history \<Rightarrow> metric_snapshot \<Rightarrow> alert list" where
  "evaluate_thresholds cfg history latest =
     failure_alert cfg latest @ storage_alert cfg latest @ spike_alert cfg history latest @ idle_alert latest"

section \<open>Sending\<close>

definition post_to :: "'w monitor_host \<Rightarrow> string option \<Rightarrow> notice \<Rightarrow> 'w \<Rightarrow> 'w" where
  "post_to mo url note w = (case url of Some u \<Rightarrow> mo_post mo u note w | None \<Rightarrow> w)"

definition alert_line :: "alert \<Rightarrow> string" where
  "alert_line a = ''['' @ al_severity a @ ''] '' @ al_name a @ '': '' @ al_description a"

definition newline :: string where
  "newline = [CHR 0x0A]"

definition dispatch_alert :: "'w monitor_host \<Rightarrow> alert_channel_config \<Rightarrow> alert \<Rightarrow> 'w \<Rightarrow> string list \<times> 'w" where
  "dispatch_alert mo ch a w =
     (let w1 = post_to mo (ac_slack ch)
            (SlackText (''*['' @ al_severity a @ '']* *'' @ al_name a @ ''*'' @ newline @ al_description a)) w;
          w2 = post_to mo (ac_pagerduty ch)
            (PagerEvent (al_name a @ '': '' @ al_description a) (to_ascii_lowercase (al_severity a))) w1;
          w3 = post_to mo (ac_generic ch) (AlertJson a) w2 in
      ((''[ALERT] '' @ alert_line a)
       # (case ac_email ch of
            Some recipient \<Rightarrow>
              [''[EMAIL SENT to '' @ recipient @ ''] Subject: ['' @ al_severity a @ ''] '' @ al_name a @ newline @ newline
                 @ al_description a]
          | None \<Rightarrow> []), w3))"

fun dispatch_alerts :: "'w monitor_host \<Rightarrow> alert_channel_config \<Rightarrow> alert list \<Rightarrow> 'w \<Rightarrow> string list \<times> 'w" where
  "dispatch_alerts mo ch [] w = ([], w)"
| "dispatch_alerts mo ch (a # alerts) w =
     (case dispatch_alert mo ch a w of (ls, w1) \<Rightarrow>
       (case dispatch_alerts mo ch alerts w1 of (others, w2) \<Rightarrow> (ls @ others, w2)))"

section \<open>The daemon\<close>

definition transport_alert :: "string \<Rightarrow> alert" where
  "transport_alert err =
     \<lparr>al_name = ''RPC Connectivity Failure'', al_description = ''Failed to connect or poll from Soroban RPC: '' @ err,
      al_severity = ''CRITICAL'', al_current_value = ''Disconnected'', al_threshold = ''Unreachable''\<rparr>"

definition collected_line :: "metric_snapshot \<Rightarrow> string" where
  "collected_line s =
     ''['' @ ms_timestamp s @ ''] Collected metrics snapshot: Total Regs: '' @ show_nat (unat (ms_total_registrations s))
       @ '', Latency: '' @ show_nat (unat (ms_average_resolution_latency_ms s)) @ ''ms, Balance: ''
       @ show_nat (unat (ms_contract_balance_xlm s)) @ '' XLM''"

text \<open>A turn: the new history and what is printed, or a panic.\<close>

definition monitor_cycle ::
    "'w monitor_host \<Rightarrow> monitor_config \<Rightarrow> metrics_history \<Rightarrow> 'w \<Rightarrow> (string, metrics_history \<times> string list) result \<times> 'w" where
  "monitor_cycle mo cfg history w =
     (case collect_metrics mo cfg history w of
        (Inl Trap, w1) \<Rightarrow> (Inl Trap, w1)
      | (Inl (Err err), w1) \<Rightarrow>
          (case dispatch_alerts mo (mc_alert_channels cfg) [transport_alert err] w1 of
             (ls, w2) \<Rightarrow> (Inr (history, (''Error collecting metrics: '' @ err) # ls), w2))
      | (Inr snapshot, w1) \<Rightarrow>
          (case dispatch_alerts mo (mc_alert_channels cfg) (evaluate_thresholds cfg history snapshot) w1 of
             (ls, w2) \<Rightarrow>
               (case save_history mo (history @ [snapshot]) (mc_metrics_db_path cfg) w2 of
                  (saved, w3) \<Rightarrow>
                    (Inr (history @ [snapshot], collected_line snapshot # ls
                       @ (case saved of Inl e \<Rightarrow> [''Failed to save metrics to file: '' @ e] | Inr _ \<Rightarrow> [])), w3))))"

partial_function (option) monitor_loop ::
    "'w monitor_host \<Rightarrow> monitor_config \<Rightarrow> bool \<Rightarrow> metrics_history \<Rightarrow> string list \<Rightarrow> 'w \<Rightarrow> ((string, string list) result \<times> 'w) option" where
  "monitor_loop mo cfg dry_run history printed w =
     (case monitor_cycle mo cfg history w of
        (Inl e, w1) \<Rightarrow> Some (Inl e, w1)
      | (Inr (history', ls), w1) \<Rightarrow>
          if dry_run then Some (Inr (printed @ ls @ [''Dry run complete. Exiting.'']), w1)
          else monitor_loop mo cfg dry_run history' (printed @ ls) (mo_sleep mo (mc_poll_interval_secs cfg) w1))"

definition monitor_run :: "'w monitor_host \<Rightarrow> monitor_config \<Rightarrow> bool \<Rightarrow> 'w \<Rightarrow> ((string, string list) result \<times> 'w) option" where
  "monitor_run mo cfg dry_run w =
     monitor_loop mo cfg dry_run (load_history mo (mc_metrics_db_path cfg) w)
       [''Starting XLM-NS Monitor Daemon...'', ''RPC URL: '' @ mc_rpc_url cfg,
        ''Poll Interval: '' @ show_nat (unat (mc_poll_interval_secs cfg)) @ '' seconds'',
        ''Metrics DB Path: '' @ mc_metrics_db_path cfg, replicate 50 CHR ''-''] w"

section \<open>The status report\<close>

definition status_lines :: "monitor_config \<Rightarrow> metrics_history \<Rightarrow> string list" where
  "status_lines cfg history =
     (let bar = replicate 50 CHR ''=''; count = (\<lambda>n. show_nat (unat n)) in
      [bar, ''           xlm-ns Contract Health Status          '', bar]
      @ (if history = [] then [''No historical metrics found. Run the monitor daemon first to collect data.'']
         else
           (let latest = last history; alerts = evaluate_thresholds cfg history latest in
            [''Last checked:   '' @ ms_timestamp latest, ''RPC URL:        '' @ mc_rpc_url cfg, [], ''Metrics Summary:'',
             ''  - Total Registrations:     '' @ count (ms_total_registrations latest),
             ''  - Hourly Reg Volume:       '' @ count (ms_registration_volume_hour latest),
             ''  - Daily Reg Volume:        '' @ count (ms_registration_volume_day latest),
             ''  - Probe Latency:           '' @ count (ms_average_resolution_latency_ms latest) @ '' ms'',
             ''  - Success/Failure Rate:    '' @ show_fixed 1 (ms_transaction_success_rate latest) @ ''% success'',
             ''  - Storage Entry Count:     '' @ count (ms_storage_entry_count latest),
             ''  - Storage Capacity Pct:    '' @ show_fixed 1 (ms_storage_capacity_pct latest) @ ''%'',
             ''  - Active Auctions:         '' @ count (ms_auction_activity latest),
             ''  - Contract Treasury Bal:   '' @ count (ms_contract_balance_xlm latest) @ '' XLM'', []]
            @ (if alerts = [] then [''Overall Health: OK'']
               else [''Overall Health: DEGRADED'', ''Active Alerts:''] @ map (\<lambda>a. ''  '' @ alert_line a) alerts)))
      @ [bar])"

datatype monitor_command = MonRun bool | MonStatus

definition monitor_config_used :: "'w monitor_host \<Rightarrow> string option \<Rightarrow> 'w \<Rightarrow> string list \<times> monitor_config" where
  "monitor_config_used mo path w =
     (case path of
        None \<Rightarrow> ([], monitor_config_default)
      | Some p \<Rightarrow>
          (case load_monitor_config mo p w of
             Inl err \<Rightarrow> ([''Warning: Failed to load config, using default values: '' @ err], monitor_config_default)
           | Inr cfg \<Rightarrow> ([], cfg)))"

definition monitor_main ::
    "'w monitor_host \<Rightarrow> string option \<Rightarrow> monitor_command \<Rightarrow> 'w \<Rightarrow> ((string, string list) result \<times> 'w) option" where
  "monitor_main mo path command w =
     (case monitor_config_used mo path w of (warning, cfg) \<Rightarrow>
        case command of
          MonRun dry_run \<Rightarrow> map_option (apfst (map_sum id (\<lambda>ls. warning @ ls))) (monitor_run mo cfg dry_run w)
        | MonStatus \<Rightarrow> Some (Inr (warning @ status_lines cfg (load_history mo (mc_metrics_db_path cfg) w)), w))"

end
