(* ===== verification/Monitor_Properties.thy ===== *)
theory Monitor_Properties
  imports Monitor_Alerts Sdk_Client_Properties
begin

text \<open>
  Properties of the monitor: when exactly it raises the alarm about failing transactions, that it never stops once it has begun, and the
  alerts that never come.
\<close>

section \<open>The success rate\<close>

text \<open>A history one of whose last five snapshots has a rate of 90 or less.\<close>

definition tainted :: "metrics_history \<Rightarrow> bool" where
  "tainted history \<longleftrightarrow> (\<exists>s \<in> set (suffix_of 5 history). ms_transaction_success_rate s \<le> 90)"

lemma suffix_of_last: "suffix_of 5 (history @ [s]) = suffix_of 4 history @ [s]"
  by (simp add: suffix_of_def)

lemma suffix_of_length: "length (suffix_of n xs) = min n (length xs)"
  by (simp add: suffix_of_def)

lemma tainted_grows: "ms_transaction_success_rate s \<le> 90 \<Longrightarrow> tainted (history @ [s])"
  by (simp add: tainted_def suffix_of_last)

text \<open>The two roundings of a percentage change it by a hair.\<close>

lemma percentage_near:
  assumes "0 \<le> x" and "x \<le> 1"
  shows "x * 100 - 1 / 1000 \<le> rounded (rounded x * 100)" and "rounded (rounded x * 100) \<le> x * 100 + 1 / 1000"
proof -
  note once = rounded_bounds [OF assms(1)]
  have "0 \<le> rounded x" using once(1) assms by linarith
  then have "0 \<le> rounded x * 100" by simp
  note twice = rounded_bounds [OF this]
  show "x * 100 - 1 / 1000 \<le> rounded (rounded x * 100)" "rounded (rounded x * 100) \<le> x * 100 + 1 / 1000"
    using once twice assms by linarith+
qed

lemma counted_below:
  assumes "n \<le> 5" and "k \<le> n"
  shows "(of_nat k :: rat) / of_nat (n + 1) \<le> 5 / 6"
proof -
  have "6 * k \<le> 5 * (n + 1)" using assms by simp
  then have "(of_nat (6 * k) :: rat) \<le> of_nat (5 * (n + 1))" by (simp only: of_nat_le_iff)
  then show ?thesis by (simp add: field_simps)
qed

lemma rate_low:
  assumes "\<not> success \<or> tainted history"
  shows "success_rate success history \<le> 84"
proof (cases "history = []")
  case True
  with assms show ?thesis by (simp add: success_rate_def tainted_def suffix_of_def)
next
  case False
  let ?good = "\<lambda>s :: metric_snapshot. ms_transaction_success_rate s > 90" and ?recent = "suffix_of 5 history"
  let ?k = "length (filter ?good ?recent) + (if success then 1 else 0)" and ?n = "length ?recent"
  have "?k \<le> ?n"
  proof (cases success)
    case True
    with assms obtain s where "s \<in> set ?recent" "\<not> ?good s" by (auto simp: tainted_def not_less)
    then have "length (filter ?good ?recent) < ?n" by (rule length_filter_less)
    then show ?thesis by simp
  qed simp
  moreover have "?n \<le> 5" by (simp add: suffix_of_length)
  ultimately have "(of_nat ?k :: rat) / of_nat (?n + 1) \<le> 5 / 6" by (intro counted_below)
  moreover have "0 \<le> (of_nat ?k :: rat) / of_nat (?n + 1)" by simp
  ultimately have "rounded (rounded (of_nat ?k / of_nat (?n + 1)) * 100) \<le> 84"
    using percentage_near(2) [of "of_nat ?k / of_nat (?n + 1)"] by linarith
  then show ?thesis using False by (simp only: success_rate_def Let_def if_False)
qed

lemma rate_high:
  assumes "success" and "\<not> tainted history"
  shows "success_rate success history \<ge> 99" and "success_rate success history \<le> 101"
proof -
  have "success_rate success history \<ge> 99 \<and> success_rate success history \<le> 101"
  proof (cases "history = []")
    case True
    with assms show ?thesis by (simp add: success_rate_def)
  next
    case False
    let ?recent = "suffix_of 5 history"
    have "filter (\<lambda>s. ms_transaction_success_rate s > 90) ?recent = ?recent"
      using assms(2) by (auto simp: tainted_def filter_id_conv)
    then have "success_rate success history = rounded (rounded (of_nat (length ?recent + 1) / of_nat (length ?recent + 1)) * 100)"
      using False assms(1) by (simp only: success_rate_def Let_def if_False if_True)
    moreover have "(of_nat (length ?recent + 1) :: rat) \<noteq> 0" unfolding of_nat_eq_0_iff by simp
    ultimately have "success_rate success history = rounded (rounded 1 * 100)" by simp
    then show ?thesis using percentage_near [of 1] by simp
  qed
  then show "success_rate success history \<ge> 99" "success_rate success history \<le> 101" by simp_all
qed

lemma snapshot_rate [simp]: "ms_transaction_success_rate (snapshot_of cfg history success latency now) = success_rate success history"
  by (simp add: snapshot_of_def Let_def)

lemma failure_alert_Nil:
  "failure_alert cfg s = [] \<longleftrightarrow> rounded (100 - ms_transaction_success_rate s) \<le> tc_failure_rate_limit (mc_thresholds cfg)"
  by (simp add: failure_alert_def Let_def not_less)

lemma alarm_iff:
  assumes "2 \<le> tc_failure_rate_limit (mc_thresholds cfg)" and "tc_failure_rate_limit (mc_thresholds cfg) \<le> 10"
  shows "failure_alert cfg (snapshot_of cfg history success latency now) \<noteq> [] \<longleftrightarrow> \<not> success \<or> tainted history"
proof (cases "\<not> success \<or> tainted history")
  case True
  define failing where "failing = 100 - success_rate success history"
  then have "16 \<le> failing" using rate_low [OF True] by simp
  moreover from this have "failing - failing / 1000000 \<le> rounded failing" by (intro rounded_bounds(1)) simp
  ultimately have "rounded failing > 10" by linarith
  with True assms(2) show ?thesis by (simp add: failure_alert_Nil failing_def)
next
  case False
  define failing where "failing = 100 - success_rate success history"
  then have "\<bar>failing\<bar> \<le> 1" using rate_high [of success history] False by (simp add: abs_le_iff)
  with rounded_close [of failing] have "rounded failing \<le> 2" unfolding abs_le_iff by linarith
  with False assms(1) show ?thesis by (auto simp: failure_alert_Nil failing_def)
qed

text \<open>
  C39: With a limit from 2 to 10 percent (the default is 5), a new snapshot raises the alarm about failing transactions exactly when the probe
  has failed or one of the last five snapshots has a rate of 90 or less, whatever the rounding of the percentages.
\<close>

theorem failure_alarm_exact:
  assumes "2 \<le> tc_failure_rate_limit (mc_thresholds cfg)" and "tc_failure_rate_limit (mc_thresholds cfg) \<le> 10"
  shows "failure_alert cfg (snapshot_of cfg history success latency now) \<noteq> [] \<longleftrightarrow> \<not> success \<or> tainted history"
  by (rule alarm_iff [OF assms])

text \<open>A history with one bad snapshot, and none.\<close>

definition bad_snapshot :: metric_snapshot where
  "bad_snapshot = snapshot_of monitor_config_default [] False 0 []"

lemma bad_snapshot_tainted: "tainted [bad_snapshot]"
  by (simp add: tainted_def suffix_of_def bad_snapshot_def success_rate_def)

theorem failure_alarm_exact_witness:
  "failure_alert monitor_config_default (snapshot_of monitor_config_default [bad_snapshot] True 7 ''now'') \<noteq> []
   \<and> failure_alert monitor_config_default (snapshot_of monitor_config_default [] True 7 ''now'') = []"
proof -
  have "2 \<le> tc_failure_rate_limit (mc_thresholds monitor_config_default)" "tc_failure_rate_limit (mc_thresholds monitor_config_default) \<le> 10"
    by (simp_all add: monitor_config_default_def default_thresholds_def)
  note exact = failure_alarm_exact [OF this]
  show ?thesis using exact [of "[bad_snapshot]" True 7 "''now''"] exact [of "[]" True 7 "''now''"] bad_snapshot_tainted
    by (simp add: tainted_def suffix_of_def)
qed

section \<open>The daemon\<close>

text \<open>The histories and worlds the daemon comes to, from one turn to the next.\<close>

inductive daemon :: "'w monitor_host \<Rightarrow> monitor_config \<Rightarrow> metrics_history \<Rightarrow> 'w \<Rightarrow> metrics_history \<Rightarrow> 'w \<Rightarrow> bool"
  for mo cfg history w where
  start: "daemon mo cfg history w history w"
| turn: "daemon mo cfg history w h1 w1 \<Longrightarrow> monitor_cycle mo cfg h1 w1 = (Inr (h2, ls), w2)
    \<Longrightarrow> daemon mo cfg history w h2 (mo_sleep mo (mc_poll_interval_secs cfg) w2)"

abbreviation probe_fails :: "'w monitor_host \<Rightarrow> monitor_config \<Rightarrow> 'w \<Rightarrow> bool" where
  "probe_fails mo cfg w \<equiv> isl (fst (sdk_resolve (mo_client mo) (monitor_client cfg) ''healthcheck-probe.xlm'' w))"

lemma collected:
  assumes "collect_metrics mo cfg history w = (r, w')"
  shows "r = Inl Trap \<or> (\<exists>latency now. r = Inr (snapshot_of cfg history (\<not> probe_fails mo cfg w) latency now))"
  using assms by (auto simp: collect_metrics_def split: prod.splits sum.splits failure.splits)

lemma cycle_collects:
  assumes "monitor_cycle mo cfg history w = (Inr (h, ls), w')"
  obtains s latency now w1
  where "s = snapshot_of cfg history (\<not> probe_fails mo cfg w) latency now" and "h = history @ [s]"
    and "set (fst (dispatch_alerts mo (mc_alert_channels cfg) (evaluate_thresholds cfg history s) w1)) \<subseteq> set ls"
proof -
  obtain r w1 where r: "collect_metrics mo cfg history w = (r, w1)" by (cases "collect_metrics mo cfg history w")
  from collected [OF r] assms r obtain latency now
    where s: "r = Inr (snapshot_of cfg history (\<not> probe_fails mo cfg w) latency now)" by (auto simp: monitor_cycle_def)
  define s where "s = snapshot_of cfg history (\<not> probe_fails mo cfg w) latency now"
  obtain ls1 w2 where d: "dispatch_alerts mo (mc_alert_channels cfg) (evaluate_thresholds cfg history s) w1 = (ls1, w2)"
    by fastforce
  have "h = history @ [s]" and "set ls1 \<subseteq> set ls"
    using assms by (auto simp: monitor_cycle_def r s [folded s_def] d split: prod.splits)
  then show ?thesis using that [OF s_def] d by (metis fst_conv)
qed

definition critical_line :: "string \<Rightarrow> bool" where
  "critical_line l \<longleftrightarrow> (\<exists>rest. l = ''[ALERT] [CRITICAL] Elevated Transaction Failure Rate: '' @ rest)"

lemma dispatch_prints: "a \<in> set alerts \<Longrightarrow> ''[ALERT] '' @ alert_line a \<in> set (fst (dispatch_alerts mo ch alerts w))"
  by (induction mo ch alerts w rule: dispatch_alerts.induct) (auto simp: dispatch_alert_def Let_def split: prod.split)

lemma failure_alert_line:
  assumes "failure_alert cfg s \<noteq> []"
  shows "\<exists>a \<in> set (failure_alert cfg s). critical_line (''[ALERT] '' @ alert_line a)"
  using assms by (auto simp: failure_alert_def Let_def critical_line_def alert_line_def split: if_splits)

lemma alarming_cycle:
  assumes "monitor_cycle mo cfg history w = (Inr (h, ls), w')"
    and "2 \<le> tc_failure_rate_limit (mc_thresholds cfg)" and "tc_failure_rate_limit (mc_thresholds cfg) \<le> 10"
    and "tainted history \<or> probe_fails mo cfg w"
  shows "list_ex critical_line ls" and "tainted h"
proof -
  from assms(1) obtain s latency now w1
    where s: "s = snapshot_of cfg history (\<not> probe_fails mo cfg w) latency now" and h: "h = history @ [s]"
    and ls: "set (fst (dispatch_alerts mo (mc_alert_channels cfg) (evaluate_thresholds cfg history s) w1)) \<subseteq> set ls"
    by (rule cycle_collects)
  have bad: "\<not> \<not> probe_fails mo cfg w \<or> tainted history" using assms(4) by blast
  then have "failure_alert cfg s \<noteq> []" unfolding s by (rule iffD2 [OF alarm_iff [OF assms(2,3)]])
  from failure_alert_line [OF this] obtain a
    where a: "a \<in> set (failure_alert cfg s)" and line: "critical_line (''[ALERT] '' @ alert_line a)" by blast
  from a have "a \<in> set (evaluate_thresholds cfg history s)" by (simp add: evaluate_thresholds_def)
  from subsetD [OF ls dispatch_prints [OF this]] line show "list_ex critical_line ls" unfolding list_ex_iff by blast
  show "tainted h" unfolding h by (rule tainted_grows) (use rate_low [OF bad] in \<open>simp add: s snapshot_rate\<close>)
qed

text \<open>
  C40: The alarm never ends once it has begun: with a failure rate limit from 2 to 10 percent (the default is 5), if one of the last five
  snapshots is bad, that is, has a rate of 90 percent or less, then in every turn of the daemon, however long it has run since and
  whatever the probes have answered, the critical alert is printed again. (One bad snapshot lowers the rate of the following ones
  to at most 84 percent. With a limit above 10 that need not be enough for an alert.)
\<close>

theorem alarm_never_ends:
  assumes "tainted history" and "daemon mo cfg history w h1 w1" and "monitor_cycle mo cfg h1 w1 = (Inr (h2, ls), w2)"
    and "2 \<le> tc_failure_rate_limit (mc_thresholds cfg)" and "tc_failure_rate_limit (mc_thresholds cfg) \<le> 10"
  shows "list_ex critical_line ls"
proof -
  from assms(2,1) have "tainted h1"
  proof (induction rule: daemon.induct)
    case (turn h1 w1 h2 ls w2)
    show ?case by (rule alarming_cycle(2) [OF turn.hyps(2) assms(4,5)]) (use turn in blast)
  qed
  with alarming_cycle(1) [OF assms(3-5)] show ?thesis by blast
qed

text \<open>A lookup does not panic, so a turn of the daemon always ends.\<close>

lemma resolve_no_trap: "fst (sdk_resolve h c name w) \<noteq> Inl Trap"
  by (auto simp: sdk_resolve_def try_step_def try_check_def retrying_def execute_with_retry_def retry_loop.simps
      require_contract_id_def Let_def split: option.splits sum.splits prod.splits)

lemma cycle_ends: "\<exists>h ls w'. monitor_cycle mo cfg history w = (Inr (h, ls), w')"
proof -
  obtain r w1 where r: "collect_metrics mo cfg history w = (r, w1)" by (cases "collect_metrics mo cfg history w")
  have "r \<noteq> Inl Trap"
    using r resolve_no_trap [of "mo_client mo" "monitor_client cfg" "''healthcheck-probe.xlm''" w]
    by (auto simp: collect_metrics_def split: prod.splits sum.splits failure.splits)
  with collected [OF r] show ?thesis unfolding monitor_cycle_def r by (auto split: prod.split)
qed

text \<open>A configuration of a registry that answers, and a host of a service that is well.\<close>

definition good_monitor :: monitor_config where
  "good_monitor = monitor_config_default
     \<lparr>mc_contracts := \<lparr>cc_registry = Some some_contract, cc_registrar = None, cc_resolver = None, cc_auction = None\<rparr>\<rparr>"

definition quiet_monitor :: "unit monitor_host" where
  "quiet_monitor =
     \<lparr>mo_client = host_on ''Test SDF Network ; September 2015'', mo_read = (\<lambda>p w. Inl ''no such file''), mo_config = (\<lambda>s. Inl ''empty''),
      mo_history = (\<lambda>s. Inl ''empty''), mo_json = (\<lambda>h. []), mo_write = (\<lambda>p t w. (Inr (), w)), mo_elapsed = (\<lambda>w. (3, w)),
      mo_now = (\<lambda>w. (''now'', w)), mo_post = (\<lambda>u n w. w), mo_sleep = (\<lambda>n w. w)\<rparr>"

theorem alarm_never_ends_witness:
  "\<not> probe_fails quiet_monitor good_monitor () \<and>
   (\<exists>h1 ls1 h2 ls2. monitor_cycle quiet_monitor good_monitor [bad_snapshot] () = (Inr (h1, ls1), ())
     \<and> monitor_cycle quiet_monitor good_monitor h1 () = (Inr (h2, ls2), ()) \<and> list_ex critical_line ls2)"
proof -
  obtain h1 ls1 h2 ls2 where first: "monitor_cycle quiet_monitor good_monitor [bad_snapshot] () = (Inr (h1, ls1), ())"
    and second: "monitor_cycle quiet_monitor good_monitor h1 () = (Inr (h2, ls2), ())"
    using cycle_ends by (metis old.unit.exhaust)
  have "daemon quiet_monitor good_monitor [bad_snapshot] () h1 ()"
    using daemon.turn [OF daemon.start first] by simp
  moreover have "2 \<le> tc_failure_rate_limit (mc_thresholds good_monitor)" "tc_failure_rate_limit (mc_thresholds good_monitor) \<le> 10"
    by (simp_all add: good_monitor_def monitor_config_default_def default_thresholds_def)
  ultimately have "list_ex critical_line ls2" using alarm_never_ends [OF bad_snapshot_tainted _ second] by blast
  moreover have "\<not> probe_fails quiet_monitor good_monitor ()"
    using some_ids
    by (simp add: sdk_resolve_def try_step_def try_check_def retrying_def execute_with_retry_def retry_loop.simps require_contract_id_def
        quiet_monitor_def host_on_def good_monitor_def monitor_client_def monitor_config_default_def client_new_def with_resolver_def
        with_registrar_def mock_registry_entry_def or_empty_def Let_def)
  ultimately show ?thesis using first second by blast
qed

text \<open>With the configuration that is built in, whose identifiers are placeholders, every turn raises the alarm.\<close>

theorem default_monitor_alarms:
  "\<exists>h ls w'. monitor_cycle mo monitor_config_default history w = (Inr (h, ls), w') \<and> list_ex critical_line ls"
proof -
  have "validate_contract_id ''CDAD...REGISTRY'' \<noteq> Inr ()" by code_simp
  then obtain e where "validate_contract_id ''CDAD...REGISTRY'' = Inl e" by (cases "validate_contract_id ''CDAD...REGISTRY''") auto
  then have "probe_fails mo monitor_config_default w"
    by (simp add: sdk_resolve_def try_check_def require_contract_id_def monitor_client_def monitor_config_default_def client_new_def
        with_resolver_def with_registrar_def Let_def)
  moreover have "2 \<le> tc_failure_rate_limit (mc_thresholds monitor_config_default)"
    "tc_failure_rate_limit (mc_thresholds monitor_config_default) \<le> 10"
    by (simp_all add: monitor_config_default_def default_thresholds_def)
  ultimately show ?thesis using cycle_ends alarming_cycle(1) by metis
qed

text \<open>Two alerts that never come: a snapshot counts one registration an hour at least, and collecting never fails.\<close>

theorem silent_alerts:
  "idle_alert (snapshot_of cfg history success latency now) = [] \<and> fst (collect_metrics mo cfg history w) \<noteq> Inl (Err e)"
proof
  have "max a 1 \<noteq> (0 :: u64)" for a by (auto simp: max_def word_le_nat_alt)
  then show "idle_alert (snapshot_of cfg history success latency now) = []" by (simp add: idle_alert_def snapshot_of_def Let_def)
  show "fst (collect_metrics mo cfg history w) \<noteq> Inl (Err e)"
    using collected [of mo cfg history w] by (cases "collect_metrics mo cfg history w") auto
qed

end
