(* ===== verification/Spec2Isabelle.thy ===== *)
theory Spec2Isabelle
  imports Contract_Views Common_Properties Registry_Properties Registry_Links Registrar_Properties Resolver_Properties
    Auction_Properties Subdomain_Properties Nft_Properties Bridge_Properties System
    Sdk_Retry Sdk_Ingestion_Properties Sdk_Processes Sdk_Client_Properties Sdk_Submissions Sdk_Blocking Sdk_Signing
    Cli_Error_Properties Cli_Dispatch_Properties Cli_Watchlist Common_Offline Monitor_Properties
begin

text \<open>
  A name service on Soroban: the contracts under \<open>contracts/\<close>, the package they share, \<open>packages/xlm-ns-common\<close>, the client
  library \<open>packages/xlm-ns-sdk\<close>, the command line interface \<open>cli\<close> and the monitor \<open>packages/xlm-ns-monitor\<close>.

  \<^bold>\<open>The program.\<close> Seven contracts keep the names of the service. The \<^emph>\<open>registry\<close> holds one entry per
  name (owner, dates, records), an index of names per owner and dispute locks. The \<^emph>\<open>registrar\<close> prices, grants and renews
  registrations and calls the registry for each; it keeps its own books. The \<^emph>\<open>resolver\<close> maps names to addresses and
  text records and addresses back to names, and asks the registry who owns a name. The \<^emph>\<open>subdomain\<close> contract manages
  the names below a registered name and asks the registry whether that name is active. The \<^emph>\<open>token contract\<close> (\<open>nft\<close>)
  has a token per name, which the registry mints, moves and burns. The \<^emph>\<open>auction\<close> contract sells names by a
  second-price auction over a payment token. The \<^emph>\<open>bridge\<close> builds messages about names for other chains.
  The \<^emph>\<open>client library\<close> checks requests, quotes prices, submits writes with retries, decodes the errors of the contracts, and follows
  the ledger through a supervised process with a remote source to fall back to. The \<^emph>\<open>command line interface\<close> loads a configuration, checks
  which contracts a command needs, calls the library and explains its errors. The \<^emph>\<open>monitor\<close> probes the service through the
  library, keeps a history and raises alerts.

  \<^bold>\<open>How it is modelled.\<close> The state of a contract is a record with one field per storage key of its \<open>DataKey\<close> (a
  persistent or instance entry that may be absent is an option, a keyed entry a function to an option) plus the list
  of events it published. An entrypoint is a definition with the name of the Rust function, prefixed where two
  contracts use the same name; it follows the function's guards and early returns in their order and returns a
  \<open>result\<close>: the new state, a contract error, or a trap (theory \<open>Prelude\<close>). A failing call changes nothing, as the host
  rolls it back. Integers are words of their width. A contract that calls another works on its own state paired with
  a state \<open>'w\<close> of all other contracts and a parameter \<open>call :: 'w invoke\<close> for what a call does there; a read-only
  call goes through a parameter \<open>q :: query\<close>. These parameters stand for whatever is deployed at an address; the
  theories \<open>Registry_Links\<close> and \<open>System\<close> put the models of the contracts themselves in their place.
  \<open>env\<close> holds the authorizations, the ledger clock and the two host checks that are not in this repository
  (whether a text is an address, whether a code hash is installed). On the client side an operation is a step on a world \<open>'w\<close> of
  any type, and a record of functions stands for what is outside (\<open>host\<close>, \<open>feed\<close>, \<open>process_host\<close>, \<open>rpc_host\<close>, \<open>console\<close>,
  \<open>monitor_host\<close>): the network, processes, files, clocks, parsers. A text is its list of bytes.

  \<^bold>\<open>Theories.\<close>
  \<^item> \<open>Prelude\<close>: words with saturation, results, the environment, the locale \<open>owner_index\<close> of an index of keys per owner,
    UTF-8. \<open>Common_Time\<close>, \<open>Common_Names\<close>, \<open>Common_Types\<close>: \<open>constants.rs\<close>, \<open>time.rs\<close>, \<open>soroban.rs\<close>, \<open>validation.rs\<close>,
    \<open>types.rs\<close>, \<open>errors.rs\<close>. \<open>Common_Properties\<close>: the grammar of names, round trips of building and parsing, lifecycle.
  \<^item> \<open>Interfaces\<close>: what clients rely on, as locales. \<open>lease_provider\<close> is the registry as the registrar uses it, \<open>token_mirror\<close>
    the token contract as the registry uses it, \<open>name_oracle\<close> the registry as the others ask it. \<open>Samples\<close>: the
    people, environments and ledgers of the witnesses.
  \<^item> \<open>Registry\<close>, \<open>Registry_Proofs\<close>, \<open>Registry_Properties\<close>: the registry; what each successful call has done, its invariant along
    every run, and its properties, among them the refinement of a small specification of leases, whose events name who acts and are read at
    the clock of the command. \<open>Registry_Links\<close>: the
    registry as a client of \<open>token_mirror\<close> and its interpretations of \<open>lease_provider\<close> and \<open>name_oracle\<close>.
  \<^item> \<open>Registrar\<close>, \<open>Registrar_Proofs\<close>, \<open>Registrar_Properties\<close>: the registrar; quotes, books, renewals, rate limit, governance, and
    its lemmas as a client of \<open>lease_provider\<close>.
  \<^item> \<open>Resolver\<close>, \<open>Resolver_Proofs\<close>, \<open>Resolver_Properties\<close>: the resolver; record and reverse invariants, authority, the wildcard
    search against a recursion-free description, batches.
  \<^item> \<open>Auction\<close>, \<open>Auction_Proofs\<close>, \<open>Auction_Properties\<close>: auctions; the one-pass settlement against sorting (\<open>bid.rs\<close>, \<open>settle.rs\<close>), the
    payments of a settlement, the listings and their page loops.
  \<^item> \<open>Subdomain\<close>, \<open>Subdomain_Proofs\<close>, \<open>Subdomain_Properties\<close>: subdomains with two owner indexes and the purge of inactive parents.
  \<^item> \<open>Nft\<close>, \<open>Nft_Properties\<close>: the token contract, its interpretation of \<open>token_mirror\<close>, its counters and its (missing) authorizations.
  \<^item> \<open>Bridge\<close>, \<open>Bridge_Properties\<close>: chains, routes and messages.
  \<^item> \<open>Contract_Views\<close>: the entrypoints of all contracts that only answer from the state or from a constant.
  \<^item> \<open>System\<close>: runs of registry and token contract (with what anybody may call of the token contract), and of registrar and registry,
    composed; the definitions of the runs say what they leave out, and theorems show what happens there.
  \<^item> \<open>Text_Format\<close>, \<open>Std_Path\<close>, \<open>Std_Float\<close>: the text functions, paths and floating-point numbers of the standard library that the client
    side uses. \<open>Common_Offline\<close>: the validator of names with several labels (\<open>name_validation.rs\<close>) and its round trip.
  \<^item> \<open>Sdk_Errors\<close>, \<open>Sdk_Display\<close> (\<open>errors.rs\<close>): the decoding of contract error codes against the error enumerations of the contracts
    themselves, which failures are retried, and the texts. \<open>Sdk_Retry\<close> (\<open>config.rs\<close>, \<open>execute_with_retry\<close>): backoff and the retry
    loop; its only host effects are the attempts, the sleeps and the jitter, a parameter.
  \<^item> \<open>Sdk_Client\<close>, \<open>Sdk_Queries\<close>, \<open>Sdk_Client_Properties\<close>, \<open>Sdk_Submissions\<close> (\<open>client.rs\<close>, \<open>network.rs\<close>, \<open>types.rs\<close>): quotes, submissions,
    writes and reads of the client, the network check before a write, prices compared with the registrar's, and the type of every
    submission. \<open>Sdk_Blocking\<close> (\<open>blocking.rs\<close>): the client on a runtime of its own, and where its calls panic. \<open>Sdk_Signing\<close>:
    the signers, which the client never uses, and the builder.
  \<^item> \<open>Sdk_Ingestion\<close>, \<open>Sdk_Ingestion_Properties\<close> (\<open>ingestion.rs\<close>): the supervisor of the ledger feed, its restarts and its fallback,
    frames, the rendered configuration, for any two sources (record \<open>feed\<close>). \<open>Sdk_Backend\<close>, \<open>Sdk_Backend_Properties\<close>: the two sources of the
    file, the captive core process and the RPC service, and \<open>tokio_feed\<close>, which puts them in the place of the parameter. \<open>Sdk_Processes\<close>:
    what the sources keep while they are in use and once they are stopped, the supervisor keeps; how many processes run at a time. Instants
    are numbers without a bound: their sums with durations are taken not to overflow.
  \<^item> \<open>Cli_Config\<close>, \<open>Cli_Commands\<close>, \<open>Cli_Command_Properties\<close> (\<open>config.rs\<close>, \<open>main.rs\<close>): the configuration, the commands, the contracts each may and
    must be given. \<open>Cli_Errors\<close>, \<open>Cli_Classify\<close>, \<open>Cli_Error_Properties\<close> (\<open>error.rs\<close>): the reports of errors. \<open>Cli_Signer\<close> (\<open>signer.rs\<close>),
    \<open>Cli_Actions\<close>, \<open>Cli_Register\<close>, \<open>Cli_Bulk\<close>, \<open>Cli_Portfolio\<close>, \<open>Cli_Status\<close>, \<open>Cli_Migrate\<close>, \<open>Cli_Setup\<close>, \<open>Cli_Completions\<close>: the commands
    (\<open>commands/\<close>). \<open>Cli_Dispatch\<close>, \<open>Cli_Dispatch_Properties\<close>: \<open>run_with_cli\<close> and \<open>main\<close>, and what holds of every command. \<open>Cli_Output\<close>
    (\<open>output.rs\<close>, \<open>export.rs\<close>): colours, progress, JSON and CSV, exports. \<open>Cli_Watchlist\<close>: the file behind \<open>watch\<close>, the log of errors and
    \<open>handle_error\<close>.
  \<^item> \<open>Monitor\<close>, \<open>Monitor_Alerts\<close>, \<open>Monitor_Properties\<close> (\<open>config.rs\<close>, \<open>metrics.rs\<close>, \<open>alerts.rs\<close>, \<open>main.rs\<close> of the monitor): snapshots, thresholds,
    alerts, the daemon and its status report; when exactly the alarm about failing transactions is raised, and that it never ends.

  \<^bold>\<open>Loops and bounds.\<close> Loops over a stored list are folds or structural recursions. The parent search of the resolver counts its
  hops down from the configured depth, as the code counts up to it, so the counter is no artificial fuel; a registered
  theorem shows what it computes for every depth. The page loop of the auction listings is a function on words with a
  termination proof by the distance to the end of the list. The retry loop and the restart loop end by the attempts left.
  Loops that need not end are partial functions to an option: \<open>next_ledger\<close>, of which a theorem says when it returns and another when it
  does not; \<open>portfolio_loop\<close>, which ends for every service that keeps the laws of \<open>pager\<close>; \<open>prompt_text\<close> and \<open>prompt_confirm\<close>, which wait
  for ever on a closed input; \<open>connect_loop\<close>, which only its timeout ends; \<open>copy_queue\<close>, which ends on trees of bounded depth; and
  \<open>monitor_loop\<close>, the daemon. The floating-point numbers of the monitor are exact rationals rounded to 53 bits; the proofs use
  an error of one part in \<open>2 ^ 53\<close> per operation.

  \<^bold>\<open>Not modelled.\<close> Storage time-to-live and fees of the host; cryptography behind \<open>require_auth\<close> (whether an authorization is
  present is part of \<open>env\<close>); the code a contract is upgraded to; the host's ban on reentrant calls, except where a definition
  says so; the payment token of the auctions, a parameter; the source files no crate compiles (\<open>registry/src/types.rs\<close>,
  \<open>storage.rs\<close>, \<open>errors.rs\<close>, \<open>nft/src/mint.rs\<close>, \<open>transfer.rs\<close>, \<open>resolver/src/forward.rs\<close>, \<open>reverse.rs\<close>). What the client side takes
  from elsewhere is a parameter: the RPC answers, the submission of a transaction, the hash function behind \<open>DefaultHasher\<close>, the jitter,
  clocks, files, processes and Tokio's timeout, the XDR codec, the parsers and printers of JSON, TOML, CSV and the command line, terminal
  colours, debug formats. Of floating-point numbers infinities and the sign of zero are left out, and sums of the monitor wrap
  around as in a release build. Logging of the library, the progress lines of \<open>portfolio\<close> on standard error, the JSON values that
  the commands hand to \<open>emit\<close>, tests, examples, fuzz targets and the Python SDK are not modelled.
\<close>

end
